(* ===== verification/Prelude.thy ===== *)
theory Prelude
  imports Main "HOL-Library.Monad_Syntax"
begin

text \<open>
  What every component shares: the lemma collections, the model of JavaScript numbers and of
  JSON values, the table operations that stand for the Prisma calls of the code
  (\<open>findFirst\<close>, \<open>findUnique\<close>, \<open>update\<close>, \<open>updateMany\<close>, \<open>count\<close>, \<open>deleteMany\<close>), and their laws.

  A table is the list of its rows. \<open>findFirst\<close>/\<open>findUnique\<close> is \<open>List.find\<close>, \<open>updateMany\<close> is
  \<open>update_rows\<close> and reports \<open>count_rows\<close> of the same condition, \<open>create\<close> appends a row.
\<close>

named_theorems row_simps \<open>laws of the table operations\<close>
named_theorems frame_simps \<open>what an operation leaves alone\<close>

section \<open>Names of the model's types\<close>

type_synonym ident = string   \<comment> \<open>an opaque identifier (cuid, uuid), as its UTF-8 bytes\<close>
type_synonym millis = int     \<comment> \<open>a valid Date, as epoch milliseconds\<close>

section \<open>JavaScript values\<close>

text \<open>A JavaScript number: an integer, or any number that is not one (a fraction, NaN, Infinity).\<close>

datatype jnum = NInt int | NFrac string

definition max_safe_integer :: int where
  "max_safe_integer = 9007199254740991"

fun safe_integer :: "jnum \<Rightarrow> bool" where
  "safe_integer (NInt i) \<longleftrightarrow> \<bar>i\<bar> \<le> max_safe_integer"
| "safe_integer (NFrac s) \<longleftrightarrow> False"

text \<open>\<open>Number.isSafeInteger(n) && lo <= n && n <= hi\<close>, the test most contracts make.\<close>

fun bounded_integer :: "int \<Rightarrow> int \<Rightarrow> jnum \<Rightarrow> bool" where
  "bounded_integer lo hi (NInt i) \<longleftrightarrow> \<bar>i\<bar> \<le> max_safe_integer \<and> lo \<le> i \<and> i \<le> hi"
| "bounded_integer lo hi (NFrac s) \<longleftrightarrow> False"

fun num_val :: "jnum \<Rightarrow> int" where
  "num_val (NInt i) = i"
| "num_val (NFrac s) = 0"

lemma bounded_integerE:
  assumes "bounded_integer lo hi n"
  obtains i where "n = NInt i" "lo \<le> i" "i \<le> hi" "\<bar>i\<bar> \<le> max_safe_integer"
  using assms by (cases n) auto

lemma bounded_integer_mono:
  "bounded_integer lo hi n \<Longrightarrow> lo' \<le> lo \<Longrightarrow> hi \<le> hi' \<Longrightarrow> bounded_integer lo' hi' n"
  by (cases n) auto

lemma bounded_integer_safe: "bounded_integer lo hi n \<Longrightarrow> safe_integer n"
  by (cases n) auto

datatype json =
    JNull
  | JBool bool
  | JNum jnum
  | JStr string
  | JArr "json list"
  | JObj "(string \<times> json) list"

type_synonym fields = "(string \<times> json) list"

text \<open>\<open>Object.keys(o)\<close>, and \<open>o[k]\<close> where None is \<open>undefined\<close>.\<close>

definition obj_keys :: "fields \<Rightarrow> string list" where
  "obj_keys o1 = remdups (map fst o1)"

definition field :: "fields \<Rightarrow> string \<Rightarrow> json option" where
  "field o1 k = map_of o1 k"

definition exact_keys :: "fields \<Rightarrow> string list \<Rightarrow> bool" where
  "exact_keys o1 expected \<longleftrightarrow>
     length (obj_keys o1) = length (remdups expected) \<and> list_all (\<lambda>k. k \<in> set expected) (obj_keys o1)"

fun json_object :: "json \<Rightarrow> fields option" where
  "json_object (JObj o1) = Some o1"
| "json_object _ = None"

lemma json_object_SomeE: "json_object v = Some o1 \<Longrightarrow> v = JObj o1"
  by (cases v) auto

lemma exact_keys_eq_set:
  assumes "exact_keys o1 ks"
  shows "fst ` set o1 = set ks"
proof -
  have sub: "fst ` set o1 \<subseteq> set ks"
    using assms by (auto simp: exact_keys_def obj_keys_def list_all_iff)
  have "card (fst ` set o1) = card (set ks)"
    using assms by (simp add: exact_keys_def obj_keys_def flip: length_remdups_card_conv)
      (metis card_set length_remdups_card_conv list.set_map)
  then show ?thesis
    using sub by (intro card_subset_eq) auto
qed

lemma exact_keys_field:
  assumes "exact_keys o1 ks"
  shows "(\<exists>v. field o1 k = Some v) \<longleftrightarrow> k \<in> set ks"
  using exact_keys_eq_set [OF assms] by (auto simp: field_def dom_map_of_conv_image_fst [symmetric])

text \<open>\<open>!value\<close> of an optional string: null and the empty string are both falsy.\<close>

fun truthy :: "string option \<Rightarrow> bool" where
  "truthy None \<longleftrightarrow> False"
| "truthy (Some s) \<longleftrightarrow> s \<noteq> []"

lemma truthyE:
  assumes "truthy s"
  obtains t where "s = Some t" "t \<noteq> []"
  using assms by (cases s) auto

section \<open>Results\<close>

text \<open>Sequencing of computations that may throw: the first error ends the computation.\<close>

fun and_then :: "'e + 'a \<Rightarrow> ('a \<Rightarrow> 'e + 'b) \<Rightarrow> 'e + 'b" where
  "and_then (Inl e) f = Inl e"
| "and_then (Inr a) f = f a"

lemma and_then_Inr_iff: "and_then m f = Inr y \<longleftrightarrow> (\<exists>x. m = Inr x \<and> f x = Inr y)"
  by (cases m) auto

lemma and_then_Inl_iff: "and_then m f = Inl e \<longleftrightarrow> m = Inl e \<or> (\<exists>x. m = Inr x \<and> f x = Inl e)"
  by (cases m) auto

lemma and_then_InrE:
  assumes "and_then m f = Inr y"
  obtains x where "m = Inr x" "f x = Inr y"
  using assms by (auto simp: and_then_Inr_iff)

lemma map_sum_Inr_iff: "map_sum id f m = Inr y \<longleftrightarrow> (\<exists>x. m = Inr x \<and> y = f x)"
  by (cases m) auto

lemma map_sum_Inl_iff: "map_sum id f m = Inl e \<longleftrightarrow> m = Inl e"
  by (cases m) auto

text \<open>A check that throws, as a computation.\<close>

definition throw_unless :: "bool \<Rightarrow> 'e \<Rightarrow> 'e + unit" where
  "throw_unless ok e = (if ok then Inr () else Inl e)"

lemma throw_unless_Inr_iff [simp]: "throw_unless ok e = Inr u \<longleftrightarrow> ok"
  by (auto simp: throw_unless_def)

lemma throw_unless_Inl_iff [simp]: "throw_unless ok e = Inl e' \<longleftrightarrow> \<not> ok \<and> e = e'"
  by (auto simp: throw_unless_def)

section \<open>Tables\<close>

definition update_rows :: "('r \<Rightarrow> bool) \<Rightarrow> ('r \<Rightarrow> 'r) \<Rightarrow> 'r list \<Rightarrow> 'r list" where
  "update_rows P f rs = map (\<lambda>r. if P r then f r else r) rs"

definition count_rows :: "('r \<Rightarrow> bool) \<Rightarrow> 'r list \<Rightarrow> nat" where
  "count_rows P rs = length (filter P rs)"

definition delete_rows :: "('r \<Rightarrow> bool) \<Rightarrow> 'r list \<Rightarrow> 'r list" where
  "delete_rows P rs = filter (\<lambda>r. \<not> P r) rs"

lemma update_rows_Nil [simp]: "update_rows P f [] = []"
  by (simp add: update_rows_def)

lemma update_rows_Cons [simp]:
  "update_rows P f (r # rs) = (if P r then f r else r) # update_rows P f rs"
  by (simp add: update_rows_def)

lemma length_update_rows [simp]: "length (update_rows P f rs) = length rs"
  by (simp add: update_rows_def)

lemma update_rows_id: "(\<And>r. r \<in> set rs \<Longrightarrow> \<not> P r) \<Longrightarrow> update_rows P f rs = rs"
  by (auto simp: update_rows_def intro: map_idI)

lemma set_update_rows:
  "r \<in> set (update_rows P f rs) \<Longrightarrow> \<exists>r0 \<in> set rs. r = (if P r0 then f r0 else r0)"
  by (auto simp: update_rows_def)

lemma map_update_rows [row_simps]:
  "(\<And>r. key (f r) = key r) \<Longrightarrow> map key (update_rows P f rs) = map key rs"
  by (auto simp: update_rows_def)

lemma update_rows_memI: "r \<in> set rs \<Longrightarrow> P r \<Longrightarrow> f r \<in> set (update_rows P f rs)"
  by (force simp: update_rows_def)

lemma find_key_in_set: "List.find (\<lambda>r. key r = k) rs = Some r \<Longrightarrow> r \<in> set rs \<and> key r = k"
  by (auto simp: find_Some_iff)

lemma find_SomeD: "List.find P rs = Some r \<Longrightarrow> r \<in> set rs \<and> P r"
  by (auto simp: find_Some_iff)

lemma find_unique_key:
  assumes "distinct (map key rs)" "r \<in> set rs"
  shows "List.find (\<lambda>x. key x = key r) rs = Some r"
  using assms
proof (induction rs)
  case (Cons x xs)
  then show ?case by (auto simp: image_iff)
qed simp

lemma find_update_rows:
  assumes "\<And>r. Q (f r) = Q r"
  shows "List.find Q (update_rows P f rs)
    = map_option (\<lambda>r. if P r then f r else r) (List.find Q rs)"
  by (induction rs) (auto simp: assms)

lemma find_append: "List.find P (xs @ ys) = (case List.find P xs of None \<Rightarrow> List.find P ys | Some x \<Rightarrow> Some x)"
  by (induction xs) auto

lemma find_update_same:
  assumes "List.find P rs = Some r" "\<And>r. P (f r) = P r"
  shows "List.find P (update_rows P f rs) = Some (f r)"
  using find_SomeD [OF assms(1)] assms by (simp add: find_update_rows)

lemma list_ex_update_rows: "list_ex Q rs \<Longrightarrow> (\<And>r. Q r \<Longrightarrow> Q (f r)) \<Longrightarrow> list_ex Q (update_rows P f rs)"
  by (induction rs) auto

lemma distinct_keyD: "distinct (map key rs) \<Longrightarrow> x \<in> set rs \<Longrightarrow> y \<in> set rs \<Longrightarrow> key x = key y \<Longrightarrow> x = y"
  by (auto simp: distinct_map dest: inj_onD)

lemma distinct_update_rows:
  assumes "distinct (map key rs)" "\<And>r. key (f r) = key r"
  shows "distinct (map key (update_rows P f rs))"
  using assms by (simp add: map_update_rows)

text \<open>An \<open>updateMany\<close> on a unique key whose row passed the same test touches exactly one row.\<close>

lemma count_rows_unique:
  assumes dist: "distinct (map key rs)" and r: "r \<in> set rs" and P: "P r"
    and key: "\<And>x. P x \<Longrightarrow> key x = key r"
  shows "count_rows P rs = 1"
  using dist r
proof (induction rs)
  case (Cons x xs)
  show ?case
  proof (cases "x = r")
    case True
    with Cons.prems have "\<forall>y \<in> set xs. key y \<noteq> key r" by (auto simp: image_iff)
    then have "filter P xs = []" using key by (auto simp: filter_empty_conv)
    with True P show ?thesis by (simp add: count_rows_def)
  next
    case False
    with Cons.prems have rin: "r \<in> set xs" by simp
    with Cons.prems have "key x \<noteq> key r" by (auto simp: image_iff)
    then have "\<not> P x" using key by blast
    with Cons rin show ?thesis by (simp add: count_rows_def)
  qed
qed simp

end
