(* ===== verification/Js_Text.thy ===== *)
theory Js_Text
  imports Prelude
begin

text \<open>
  The part of the JavaScript standard library the modelled code uses on text: bounded
  identifiers and the regular expressions that check them, \<open>String.prototype.trim\<close>, and the
  ISO-8601 round trip of \<open>Date\<close>. A string is the list of its UTF-8 bytes, so
  \<open>Buffer.byteLength(s, "utf8")\<close> is \<open>length s\<close>; \<open>s.length\<close>, which counts UTF-16 units, is
  \<open>js_length\<close>. The regular expressions of the code only accept ASCII, where a byte is a
  character. Nothing here models code of the repository; the components do.
\<close>

section \<open>Characters\<close>

definition code :: "char \<Rightarrow> nat" where
  "code c = of_char c"

definition is_lower :: "char \<Rightarrow> bool" where
  "is_lower c \<longleftrightarrow> 97 \<le> code c \<and> code c \<le> 122"

definition is_upper :: "char \<Rightarrow> bool" where
  "is_upper c \<longleftrightarrow> 65 \<le> code c \<and> code c \<le> 90"

definition is_digit :: "char \<Rightarrow> bool" where
  "is_digit c \<longleftrightarrow> 48 \<le> code c \<and> code c \<le> 57"

definition is_alnum :: "char \<Rightarrow> bool" where
  "is_alnum c \<longleftrightarrow> is_lower c \<or> is_upper c \<or> is_digit c"

definition is_lower_hex :: "char \<Rightarrow> bool" where
  "is_lower_hex c \<longleftrightarrow> is_digit c \<or> (97 \<le> code c \<and> code c \<le> 102)"

definition one_of :: "string \<Rightarrow> char \<Rightarrow> bool" where
  "one_of cs c \<longleftrightarrow> c \<in> set cs"

lemmas char_class_defs =
  code_def is_lower_def is_upper_def is_digit_def is_alnum_def is_lower_hex_def one_of_def

section \<open>Lengths and trimming\<close>

definition utf8_bytes :: "string \<Rightarrow> int" where
  "utf8_bytes s = int (length s)"

text \<open>
  UTF-16 units: a continuation byte adds none, a four-byte sequence (lead byte at least 240)
  is a surrogate pair.
\<close>

fun js_length :: "string \<Rightarrow> int" where
  "js_length [] = 0"
| "js_length (c # cs) =
     (if 128 \<le> code c \<and> code c < 192 then 0 else if 240 \<le> code c then 2 else 1) + js_length cs"

text \<open>How many bytes the white space character at the front takes, 0 if there is none.\<close>

fun white_len :: "nat list \<Rightarrow> nat" where
  "white_len (a # rest) =
     (if a = 32 \<or> (9 \<le> a \<and> a \<le> 13) then 1
      else case rest of
        b # rest2 \<Rightarrow>
          (if a = 194 \<and> b = 160 then 2
           else case rest2 of
             c # _ \<Rightarrow>
               (if (a = 225 \<and> b = 154 \<and> c = 128)
                 \<or> (a = 226 \<and> b = 128 \<and> ((128 \<le> c \<and> c \<le> 138) \<or> c = 168 \<or> c = 169 \<or> c = 175))
                 \<or> (a = 226 \<and> b = 129 \<and> c = 159)
                 \<or> (a = 227 \<and> b = 128 \<and> c = 128)
                 \<or> (a = 239 \<and> b = 187 \<and> c = 191)
                then 3 else 0)
           | [] \<Rightarrow> 0)
      | [] \<Rightarrow> 0)"
| "white_len [] = 0"

function trim_start :: "string \<Rightarrow> string" where
  "trim_start s =
     (if white_len (map code s) = 0 then s else trim_start (drop (white_len (map code s)) s))"
  by pat_completeness auto
termination
proof (relation "measure length")
  fix s :: string
  assume "white_len (map code s) \<noteq> 0"
  then show "(drop (white_len (map code s)) s, s) \<in> measure length"
    by (cases s) auto
qed simp

declare trim_start.simps [simp del]

fun trim_end :: "string \<Rightarrow> string" where
  "trim_end [] = []"
| "trim_end (c # cs) = (if trim_start (c # cs) = [] then [] else c # trim_end cs)"

definition js_trim :: "string \<Rightarrow> string" where
  "js_trim s = trim_end (trim_start s)"

lemma length_trim_start: "length (trim_start s) \<le> length s"
proof (induction s rule: trim_start.induct)
  case (1 s)
  then show ?case
    by (cases "white_len (map code s) = 0") (auto simp: trim_start.simps [of s] intro: le_trans)
qed

lemma length_trim_end: "length (trim_end s) \<le> length s"
  by (induction s) auto

lemma length_js_trim: "length (js_trim s) \<le> length s"
  unfolding js_trim_def by (rule le_trans [OF length_trim_end length_trim_start])

section \<open>The patterns\<close>

text \<open>\<open>/^[head][tail]{0,n}$/\<close>\<close>

fun head_tail :: "(char \<Rightarrow> bool) \<Rightarrow> (char \<Rightarrow> bool) \<Rightarrow> nat \<Rightarrow> string \<Rightarrow> bool" where
  "head_tail h t n [] \<longleftrightarrow> False"
| "head_tail h t n (c # cs) \<longleftrightarrow> h c \<and> list_all t cs \<and> length cs \<le> n"

lemma head_tail_length: "head_tail h t n s \<Longrightarrow> 0 < length s \<and> length s \<le> Suc n"
  by (cases s) auto

lemma head_tail_mono:
  "head_tail h t n s \<Longrightarrow> (\<And>c. t c \<Longrightarrow> t' c) \<Longrightarrow> n \<le> n' \<Longrightarrow> head_tail h t' n' s"
  by (cases s) (auto elim: list.pred_mono_strong)

text \<open>\<open>/^[0-9a-f]{64}$/\<close> and \<open>/^0{64}$/\<close>\<close>

definition sha256_pattern :: "string \<Rightarrow> bool" where
  "sha256_pattern s \<longleftrightarrow> length s = 64 \<and> list_all is_lower_hex s"

definition zero_digest :: "string \<Rightarrow> bool" where
  "zero_digest s \<longleftrightarrow> s = replicate 64 (CHR ''0'')"

text \<open>\<open>/^[a-zA-Z0-9][a-zA-Z0-9._:+/-]{0,127}$/\<close>\<close>

definition safe_value_pattern :: "string \<Rightarrow> bool" where
  "safe_value_pattern s \<longleftrightarrow> head_tail is_alnum (\<lambda>c. is_alnum c \<or> one_of ''._:+/-'' c) 127 s"

text \<open>\<open>/^[A-Za-z0-9][A-Za-z0-9._:-]{0,127}$/\<close>\<close>

definition policy_value_pattern :: "string \<Rightarrow> bool" where
  "policy_value_pattern s \<longleftrightarrow> head_tail is_alnum (\<lambda>c. is_alnum c \<or> one_of ''._:-'' c) 127 s"

text \<open>\<open>/^[A-Za-z0-9][A-Za-z0-9._:-]{0,199}$/\<close>\<close>

definition opaque_id_pattern :: "string \<Rightarrow> bool" where
  "opaque_id_pattern s \<longleftrightarrow> head_tail is_alnum (\<lambda>c. is_alnum c \<or> one_of ''._:-'' c) 199 s"

lemmas pattern_defs =
  sha256_pattern_def zero_digest_def safe_value_pattern_def policy_value_pattern_def
  opaque_id_pattern_def

lemma sha256_length: "sha256_pattern s \<Longrightarrow> length s = 64"
  by (simp add: sha256_pattern_def)

section \<open>Dates\<close>

text \<open>Days from 1970-01-01 to the given day of the proleptic Gregorian calendar.\<close>

definition days_from_civil :: "int \<Rightarrow> int \<Rightarrow> int \<Rightarrow> int" where
  "days_from_civil y m d =
     (let y' = (if m \<le> 2 then y - 1 else y);
          era = y' div 400;
          yoe = y' - era * 400;
          doy = (153 * (if m > 2 then m - 3 else m + 9) + 2) div 5 + d - 1;
          doe = yoe * 365 + yoe div 4 - yoe div 100 + doy
      in era * 146097 + doe - 719468)"

definition civil_from_days :: "int \<Rightarrow> int \<times> int \<times> int" where
  "civil_from_days days =
     (let z = days + 719468;
          era = z div 146097;
          doe = z mod 146097;
          yoe = (doe - doe div 1460 + doe div 36524 - doe div 146096) div 365;
          doy = doe - (365 * yoe + yoe div 4 - yoe div 100);
          mp = (5 * doy + 2) div 153;
          d = doy - (153 * mp + 2) div 5 + 1;
          m = (if mp < 10 then mp + 3 else mp - 9)
      in (yoe + era * 400 + (if m \<le> 2 then 1 else 0), m, d))"

definition digit_char :: "int \<Rightarrow> char" where
  "digit_char n = ''0123456789'' ! nat (n mod 10)"

definition digit_val :: "char \<Rightarrow> int" where
  "digit_val c = int (code c) - 48"

text \<open>Decimal digits of a number below 10^k, padded to k.\<close>

fun padded :: "nat \<Rightarrow> int \<Rightarrow> string" where
  "padded 0 n = []"
| "padded (Suc k) n = padded k (n div 10) @ [digit_char n]"

definition digits_val :: "string \<Rightarrow> int" where
  "digits_val s = foldl (\<lambda>acc c. 10 * acc + digit_val c) 0 s"

text \<open>\<open>Date.prototype.toISOString\<close>; years outside 0..9999 have a sign and six digits.\<close>

definition iso_year :: "int \<Rightarrow> string" where
  "iso_year y =
     (if 0 \<le> y \<and> y \<le> 9999 then padded 4 y
      else if 0 \<le> y then ''+'' @ padded 6 y
      else ''-'' @ padded 6 (- y))"

definition iso_format :: "millis \<Rightarrow> string" where
  "iso_format t =
     (let (y, m, d) = civil_from_days (t div 86400000);
          r = t mod 86400000
      in iso_year y @ ''-'' @ padded 2 m @ ''-'' @ padded 2 d @ ''T''
         @ padded 2 (r div 3600000) @ '':'' @ padded 2 (r div 60000 mod 60) @ '':''
         @ padded 2 (r div 1000 mod 60) @ ''.'' @ padded 3 (r mod 1000) @ ''Z'')"

text \<open>\<open>/^\d{4}-\d{2}-\d{2}T\d{2}:\d{2}:\d{2}\.\d{3}Z$/\<close>\<close>

definition iso_pattern :: "string \<Rightarrow> bool" where
  "iso_pattern s \<longleftrightarrow>
     length s = 24 \<and>
     list_all2 (\<lambda>p c. if p = CHR ''d'' then is_digit c else p = c)
       ''dddd-dd-ddTdd:dd:dd.dddZ'' s"

text \<open>
  \<open>new Date(s).getTime()\<close> on a string of that form, None for an invalid date. As in V8 a day
  up to 31 is taken in every month and rolls over into the next one; the code rejects such a
  string by comparing it with \<open>toISOString()\<close> wherever it asks for a canonical timestamp.
\<close>

definition iso_parse :: "string \<Rightarrow> millis option" where
  "iso_parse s =
     (if \<not> iso_pattern s then None
      else let y = digits_val (take 4 s); m = digits_val (take 2 (drop 5 s));
               d = digits_val (take 2 (drop 8 s)); h = digits_val (take 2 (drop 11 s));
               mi = digits_val (take 2 (drop 14 s)); sec = digits_val (take 2 (drop 17 s));
               ms = digits_val (take 3 (drop 20 s))
           in if 1 \<le> m \<and> m \<le> 12 \<and> 1 \<le> d \<and> d \<le> 31 \<and>
                 ((h \<le> 23 \<and> mi \<le> 59 \<and> sec \<le> 59) \<or> (h = 24 \<and> mi = 0 \<and> sec = 0 \<and> ms = 0))
              then Some ((days_from_civil y m 1 + (d - 1)) * 86400000
                         + h * 3600000 + mi * 60000 + sec * 1000 + ms)
              else None)"

text \<open>The test the contracts make: the text is the canonical form of the date it denotes.\<close>

definition canonical_iso :: "string \<Rightarrow> millis option" where
  "canonical_iso s =
     (case iso_parse s of None \<Rightarrow> None | Some t \<Rightarrow> if iso_format t = s then Some t else None)"

lemma canonical_iso_parse: "canonical_iso s = Some t \<Longrightarrow> iso_parse s = Some t"
  by (auto simp: canonical_iso_def split: option.splits if_splits)

lemma canonical_iso_format: "canonical_iso s = Some t \<Longrightarrow> iso_format t = s"
  by (auto simp: canonical_iso_def split: option.splits if_splits)

lemma canonical_iso_pattern: "canonical_iso s = Some t \<Longrightarrow> iso_pattern s"
  by (auto simp: canonical_iso_def iso_parse_def split: option.splits if_splits)

end
