(* ===== verification/Pipeline_Store.thy ===== *)
theory Pipeline_Store
  imports Js_Text
begin

text \<open>
  The relational state of the document pipeline: one record per Prisma model of
  \<open>prisma/schema.prisma\<close> the pipeline code reads or writes, with the columns it uses, and the
  database as the record of their tables. A nullable column is an option; a JSON column is a
  \<open>json\<close> value with \<open>JNull\<close> for null. Enumerations keep the schema's constructors; the status
  names of intakes and of the two import commands are one type, because the code passes them
  around as the same string literals.
\<close>

section \<open>Enumerations\<close>

datatype job_type =
    IMPORT_RESOLVE | METADATA_REFRESH | DOCUMENT_DOWNLOAD | DOCUMENT_VALIDATE | VIRUS_SCAN
  | TEXT_EXTRACTION | ZOTERO_SYNC | CRAWL | WEB_MCP_IMPORT | OTHER_JOB

datatype job_status =
    J_QUEUED | J_RUNNING | J_RETRYING | J_SUCCEEDED | J_FAILED | J_CANCELLED | J_DEAD_LETTER

datatype pipe_status =
    RESERVED | QUEUED | RECEIVING | DOWNLOADING | FETCHING | QUARANTINED | VALIDATING
  | EXTRACTING | READY | ATTENTION | FAILED | CANCEL_REQUESTED | CANCELLED

datatype batch_status =
    B_QUEUED | B_RUNNING | B_SUCCEEDED | B_PARTIAL | B_FAILED | B_CANCELLED

datatype inbox_status =
    X_PENDING | X_MATCHED | X_IMPORTED | X_DUPLICATE | X_NEEDS_REVIEW | X_REJECTED | X_FAILED

datatype import_source =
    S_FILE_UPLOAD | S_ZOTERO | S_OPENALEX | S_DOI_URL | S_CRAWLER | S_WEB_MCP | S_MANUAL | S_OTHER

datatype ingest_source = BROWSER_UPLOAD | ZOTERO_ATTACHMENT | CRAWLER | WEB_MCP

datatype document_kind =
    PAPER_PDF | SUPPLEMENT | HTML_SNAPSHOT | DATASET | NOTE | EXPORT | OTHER_KIND

datatype document_status = D_PENDING | D_PROCESSING | D_READY | D_FAILED | D_ARCHIVED

datatype storage_provider =
    LOCAL | SUPABASE_STORAGE | S3 | CLOUDFLARE_R2 | GOOGLE_CLOUD_STORAGE | AZURE_BLOB | OTHER_STORAGE

datatype asset_status =
    A_UPLOADING | A_QUARANTINED | A_SCANNING | A_READY | A_REJECTED | A_DELETED

datatype asset_role = ORIGINAL | NORMALIZED | THUMBNAIL | PREVIEW | EXTRACTED_TEXT | SUPPLEMENT_ASSET

datatype validation_verdict = ACCEPTED | REJECTED

datatype malware_verdict = CLEAN | INFECTED

datatype structural_verdict = VALID | INVALID

datatype extraction_verdict = EXTRACTED | NO_TEXT

text \<open>The status names as the strings the Inbox envelopes carry.\<close>

fun status_name :: "pipe_status \<Rightarrow> string" where
  "status_name RESERVED = ''RESERVED''"
| "status_name QUEUED = ''QUEUED''"
| "status_name RECEIVING = ''RECEIVING''"
| "status_name DOWNLOADING = ''DOWNLOADING''"
| "status_name FETCHING = ''FETCHING''"
| "status_name QUARANTINED = ''QUARANTINED''"
| "status_name VALIDATING = ''VALIDATING''"
| "status_name EXTRACTING = ''EXTRACTING''"
| "status_name READY = ''READY''"
| "status_name ATTENTION = ''ATTENTION''"
| "status_name FAILED = ''FAILED''"
| "status_name CANCEL_REQUESTED = ''CANCEL_REQUESTED''"
| "status_name CANCELLED = ''CANCELLED''"

lemma status_name_inject: "status_name a = status_name b \<longleftrightarrow> a = b"
  by (cases a; cases b) simp_all

section \<open>Rows\<close>

record job =
  j_id :: ident
  j_org :: ident
  j_type :: job_type
  j_status :: job_status
  j_dedupeKey :: "string option"
  j_priority :: int
  j_payload :: json
  j_result :: json
  j_attempts :: int
  j_maxAttempts :: int
  j_runAfter :: millis
  j_lockedAt :: "millis option"
  j_lockedBy :: "string option"
  j_leaseId :: "ident option"
  j_leaseExpiresAt :: "millis option"
  j_completedAt :: "millis option"
  j_lastErrorCode :: "string option"
  j_lastErrorMessage :: "string option"
  j_documentId :: "ident option"
  j_assetId :: "ident option"
  j_intakeId :: "ident option"
  j_ingestReceiptId :: "ident option"
  j_createdById :: "ident option"
  j_createdAt :: millis

record job_attempt =
  t_id :: ident
  t_org :: ident
  t_jobId :: ident
  t_attemptNumber :: int
  t_status :: job_status
  t_workerId :: "string option"
  t_leaseId :: "ident option"
  t_errorCode :: "string option"
  t_errorMessage :: "string option"
  t_result :: json
  t_startedAt :: millis
  t_completedAt :: "millis option"

record document =
  d_id :: ident
  d_org :: ident
  d_paperId :: "ident option"
  d_workspacePaperId :: "ident option"
  d_kind :: document_kind
  d_status :: document_status
  d_mimeType :: "string option"
  d_pageCount :: "jnum option"
  d_contentHash :: "string option"
  d_validatedAt :: "millis option"
  d_validationPolicyVersion :: "string option"
  d_failureCode :: "string option"
  d_metadata :: json
  d_archivedAt :: "millis option"

record asset =
  a_id :: ident
  a_org :: ident
  a_storageProvider :: storage_provider
  a_objectKey :: string
  a_physicalLocator :: "string option"
  a_status :: asset_status
  a_mimeType :: "string option"
  a_sizeBytes :: "int option"
  a_sha256 :: "string option"
  a_scannedAt :: "millis option"
  a_validatedAt :: "millis option"
  a_validationPolicyVersion :: "string option"
  a_rejectedReason :: "string option"
  a_rejectionCode :: "string option"
  a_metadata :: json
  a_deletedAt :: "millis option"

record document_asset =
  da_org :: ident
  da_documentId :: ident
  da_assetId :: ident
  da_role :: asset_role

record ingest_receipt =
  r_id :: ident
  r_org :: ident
  r_source :: ingest_source
  r_intakeId :: ident
  r_assetId :: ident
  r_documentId :: ident
  r_inboxEntryId :: "ident option"
  r_importBatchId :: "ident option"
  r_zoteroAttachmentImportId :: "ident option"
  r_crawlerImportId :: "ident option"
  r_declaredMimeType :: string
  r_receivedSizeBytes :: int
  r_sha256 :: string
  r_storageVersion :: string
  r_storageAuthorityGeneration :: "string option"

record intake =
  k_id :: ident
  k_org :: ident
  k_source :: ingest_source
  k_status :: pipe_status
  k_documentId :: ident
  k_assetId :: ident
  k_inboxEntryId :: "ident option"
  k_importBatchId :: "ident option"
  k_failureCode :: "string option"
  k_completedAt :: "millis option"

record inbox_entry =
  x_id :: ident
  x_org :: ident
  x_importBatchId :: "ident option"
  x_documentId :: "ident option"
  x_source :: import_source
  x_status :: inbox_status
  x_payload :: json
  x_failureCode :: "string option"
  x_failureMessage :: "string option"

record import_batch =
  b_id :: ident
  b_org :: ident
  b_source :: import_source
  b_status :: batch_status
  b_totalCount :: int
  b_processedCount :: int
  b_successCount :: int
  b_failureCount :: int
  b_completedAt :: "millis option"

text \<open>A Zotero attachment import or a crawler import: the columns the pipeline touches are the same.\<close>

record import_command =
  c_id :: ident
  c_org :: ident
  c_intakeId :: ident
  c_documentId :: ident
  c_assetId :: ident
  c_status :: pipe_status
  c_failureCode :: "string option"
  c_completedAt :: "millis option"

record attestation_row =
  v_id :: ident
  v_org :: ident
  v_jobId :: ident
  v_jobAttemptId :: ident
  v_assetId :: ident
  v_documentId :: ident
  v_ingestReceiptId :: ident
  v_inputSha256 :: string
  v_inputSizeBytes :: int
  v_storageVersion :: string
  v_policyVersion :: string
  v_toolchainDigest :: string
  v_verdict :: validation_verdict
  v_rejectionCode :: "string option"
  v_malwareVerdict :: malware_verdict
  v_malwareEngine :: string
  v_malwareEngineVersion :: string
  v_signatureVersion :: string
  v_signaturePublishedAt :: millis
  v_scannedAt :: millis
  v_pdfStructuralVerdict :: structural_verdict
  v_pdfEngine :: string
  v_pdfEngineVersion :: string
  v_pdfVersion :: string
  v_pageCount :: "jnum option"
  v_objectCount :: "jnum option"
  v_revisionCount :: "jnum option"
  v_checkedAt :: millis
  v_result :: json

record extraction_row =
  f_id :: ident
  f_org :: ident
  f_jobId :: ident
  f_jobAttemptId :: ident
  f_validationAttestationId :: ident
  f_assetId :: ident
  f_documentId :: ident
  f_inputSha256 :: string
  f_inputSizeBytes :: int
  f_storageVersion :: string
  f_extractionPolicyVersion :: string
  f_toolchainDigest :: string
  f_verdict :: extraction_verdict
  f_engine :: string
  f_engineVersion :: string
  f_pageCount :: jnum
  f_chunkCount :: jnum
  f_textBytes :: jnum
  f_extractedAt :: millis
  f_completedAt :: millis
  f_durationMs :: jnum
  f_totalDurationMs :: jnum
  f_checkedAt :: millis
  f_result :: json

text \<open>A text chunk, without its own identifier; its text is the string of its UTF-8 bytes.\<close>

record chunk_row =
  h_org :: ident
  h_documentId :: ident
  h_extractionId :: "ident option"
  h_sequence :: jnum
  h_pageStart :: "jnum option"
  h_pageEnd :: "jnum option"
  h_sectionId :: "string option"
  h_sectionTitle :: "string option"
  h_paragraphId :: "string option"
  h_charStart :: "int option"
  h_charEnd :: "int option"
  h_text :: string
  h_contentHash :: string
  h_locator :: json

record manifest_admission =
  m_extractionId :: ident
  m_org :: ident
  m_documentId :: ident
  m_schemaVersion :: int
  m_verdict :: extraction_verdict
  m_pageCount :: jnum
  m_chunkCount :: jnum
  m_textBytes :: jnum
  m_manifestSha256 :: string

text \<open>Audit events and provenance records are only ever appended.\<close>

record audit_event =
  e_org :: ident
  e_action :: string
  e_entityType :: string
  e_entityId :: ident
  e_metadata :: fields

record provenance =
  p_org :: ident
  p_inboxEntryId :: "ident option"
  p_documentId :: ident
  p_sourceProvider :: string
  p_sourceRecordId :: ident
  p_retrievedAt :: millis
  p_payloadDigest :: string
  p_payload :: fields

section \<open>The database\<close>

record db =
  jobs :: "job list"
  attempts :: "job_attempt list"
  documents :: "document list"
  assets :: "asset list"
  document_assets :: "document_asset list"
  receipts :: "ingest_receipt list"
  intakes :: "intake list"
  inbox :: "inbox_entry list"
  batches :: "import_batch list"
  zotero_imports :: "import_command list"
  crawler_imports :: "import_command list"
  attestations :: "attestation_row list"
  extractions :: "extraction_row list"
  chunks :: "chunk_row list"
  admissions :: "manifest_admission list"
  provenances :: "provenance list"
  audits :: "audit_event list"

text \<open>
  A transaction body ends with a value, or throws: \<open>Inl\<close> is the error, and the database is then
  the one before the transaction. A refused or lost lease is a value, not an error. \<open>NotFound\<close> and
  \<open>Unique_violation\<close> are Prisma's P2025 and P2002.
\<close>

datatype tx_error = TypeError string | Error string | NotFound | Unique_violation

type_synonym 'a tx = "tx_error + ('a \<times> db)"

text \<open>The schema's unique keys on the tables the pipeline updates.\<close>

definition keys_unique :: "db \<Rightarrow> bool" where
  "keys_unique d \<longleftrightarrow>
     distinct (map j_id (jobs d)) \<and> distinct (map t_id (attempts d)) \<and>
     distinct (map d_id (documents d)) \<and> distinct (map a_id (assets d)) \<and>
     distinct (map r_id (receipts d)) \<and> distinct (map k_id (intakes d)) \<and>
     distinct (map x_id (inbox d)) \<and> distinct (map b_id (batches d)) \<and>
     distinct (map c_id (zotero_imports d)) \<and> distinct (map c_id (crawler_imports d)) \<and>
     distinct (map v_id (attestations d)) \<and> distinct (map f_id (extractions d))"

lemma keys_uniqueD:
  assumes "keys_unique d"
  shows "distinct (map j_id (jobs d))" "distinct (map t_id (attempts d))"
    "distinct (map d_id (documents d))" "distinct (map a_id (assets d))"
    "distinct (map r_id (receipts d))" "distinct (map k_id (intakes d))"
    "distinct (map x_id (inbox d))" "distinct (map b_id (batches d))"
    "distinct (map c_id (zotero_imports d))" "distinct (map c_id (crawler_imports d))"
    "distinct (map v_id (attestations d))" "distinct (map f_id (extractions d))"
  using assms by (simp_all add: keys_unique_def)

section \<open>Single-row writes\<close>

text \<open>
  \<open>update\<close> with a unique \<open>where\<close>: throws when no row matches. \<open>create\<close>: throws when the new row
  collides with a stored one on a unique constraint.
\<close>

definition update_one :: "('r \<Rightarrow> bool) \<Rightarrow> ('r \<Rightarrow> 'r) \<Rightarrow> 'r list \<Rightarrow> tx_error + 'r list" where
  "update_one P f rs = (if list_ex P rs then Inr (update_rows P f rs) else Inl NotFound)"

definition create_row :: "('r \<Rightarrow> 'r \<Rightarrow> bool) \<Rightarrow> 'r \<Rightarrow> 'r list \<Rightarrow> tx_error + 'r list" where
  "create_row clash r rs = (if list_ex (clash r) rs then Inl Unique_violation else Inr (rs @ [r]))"

lemma update_one_Inr_iff:
  "update_one P f rs = Inr rs' \<longleftrightarrow> list_ex P rs \<and> rs' = update_rows P f rs"
  by (auto simp: update_one_def)

lemma create_row_Inr_iff:
  "create_row clash r rs = Inr rs' \<longleftrightarrow> \<not> list_ex (clash r) rs \<and> rs' = rs @ [r]"
  by (auto simp: create_row_def)

text \<open>\<open>where: { organizationId_id: ... }\<close> and the tables' other unique constraints.\<close>

definition job_key :: "ident \<Rightarrow> ident \<Rightarrow> job \<Rightarrow> bool" where
  "job_key org i j \<longleftrightarrow> j_org j = org \<and> j_id j = i"

definition attempt_key :: "ident \<Rightarrow> ident \<Rightarrow> job_attempt \<Rightarrow> bool" where
  "attempt_key org i t \<longleftrightarrow> t_org t = org \<and> t_id t = i"

definition document_key :: "ident \<Rightarrow> ident \<Rightarrow> document \<Rightarrow> bool" where
  "document_key org i x \<longleftrightarrow> d_org x = org \<and> d_id x = i"

definition asset_key :: "ident \<Rightarrow> ident \<Rightarrow> asset \<Rightarrow> bool" where
  "asset_key org i a \<longleftrightarrow> a_org a = org \<and> a_id a = i"

definition job_clash :: "job \<Rightarrow> job \<Rightarrow> bool" where
  "job_clash a b \<longleftrightarrow> j_id a = j_id b
     \<or> (j_org a = j_org b \<and> j_type a = j_type b \<and> j_dedupeKey a = j_dedupeKey b \<and> j_dedupeKey a \<noteq> None)"

definition attempt_clash :: "job_attempt \<Rightarrow> job_attempt \<Rightarrow> bool" where
  "attempt_clash a b \<longleftrightarrow> t_id a = t_id b
     \<or> (t_jobId a = t_jobId b \<and> t_attemptNumber a = t_attemptNumber b)
     \<or> (t_jobId a = t_jobId b \<and> t_leaseId a = t_leaseId b \<and> t_leaseId a \<noteq> None)"

definition attestation_clash :: "attestation_row \<Rightarrow> attestation_row \<Rightarrow> bool" where
  "attestation_clash a b \<longleftrightarrow> v_id a = v_id b \<or> v_jobAttemptId a = v_jobAttemptId b
     \<or> (v_assetId a = v_assetId b \<and> v_inputSha256 a = v_inputSha256 b
         \<and> v_storageVersion a = v_storageVersion b \<and> v_policyVersion a = v_policyVersion b
         \<and> v_toolchainDigest a = v_toolchainDigest b)"

definition extraction_clash :: "extraction_row \<Rightarrow> extraction_row \<Rightarrow> bool" where
  "extraction_clash a b \<longleftrightarrow> f_id a = f_id b \<or> f_jobAttemptId a = f_jobAttemptId b
     \<or> (f_org a = f_org b \<and> f_documentId a = f_documentId b \<and> f_assetId a = f_assetId b
         \<and> f_inputSha256 a = f_inputSha256 b \<and> f_storageVersion a = f_storageVersion b
         \<and> f_extractionPolicyVersion a = f_extractionPolicyVersion b
         \<and> f_toolchainDigest a = f_toolchainDigest b)"

lemmas row_keys = job_key_def attempt_key_def document_key_def asset_key_def

end
