(* ===== verification/Intake_Lifecycle.thy ===== *)
theory Intake_Lifecycle
  imports Pipeline_Store
begin

text \<open>
  The shared downstream lifecycle of a document intake
  (\<open>src/server/documents/intake-lifecycle.ts\<close>): the closed Inbox envelopes, the table of desired
  statuses per pipeline stage, and \<open>projectDocumentPipelineLifecycle\<close>, the transaction that
  moves intake, import command, Inbox entry and import batch together. The lemmas give its frame,
  its all-or-nothing behaviour, the transition relation of intakes it stays inside, and the
  agreement of the four status carriers after it.
\<close>

section \<open>Stages and their keys\<close>

record authority_key =
  ak_org :: ident
  ak_intakeId :: ident
  ak_documentId :: ident
  ak_assetId :: ident
  ak_ingestReceiptId :: ident

datatype browser_verification = Verification_rejected | Verification_unavailable

fun verification_name :: "browser_verification \<Rightarrow> string" where
  "verification_name Verification_rejected = ''rejected''"
| "verification_name Verification_unavailable = ''unavailable''"

datatype projection =
    Validation_claim
  | Validation_retry
  | Validation_accepted
  | Validation_failed string browser_verification
  | Extraction_claim
  | Extraction_retry
  | Extraction_ready
  | Extraction_attention string

section \<open>Failure codes and envelopes\<close>

definition failure_code_pattern :: "string \<Rightarrow> bool" where
  "failure_code_pattern s \<longleftrightarrow>
     head_tail is_lower (\<lambda>c. is_lower c \<or> is_digit c \<or> c = CHR ''_'') 99 s"

definition bounded_failure_code :: "string \<Rightarrow> tx_error + string" where
  "bounded_failure_code s =
     (if utf8_bytes s > 100 \<or> \<not> failure_code_pattern s
      then Inl (TypeError ''A bounded lifecycle failure code is required.'')
      else Inr s)"

definition zotero_import_statuses :: "string list" where
  "zotero_import_statuses =
     [''QUEUED'', ''DOWNLOADING'', ''QUARANTINED'', ''VALIDATING'', ''EXTRACTING'', ''READY'',
      ''ATTENTION'', ''FAILED'', ''CANCELLED'']"

definition zotero_inbox_phases :: "string list" where
  "zotero_inbox_phases = [''validation'', ''extraction'', ''ready'', ''attention'', ''failed'']"

definition crawler_import_statuses :: "string list" where
  "crawler_import_statuses =
     [''QUEUED'', ''FETCHING'', ''QUARANTINED'', ''VALIDATING'', ''EXTRACTING'', ''READY'',
      ''ATTENTION'', ''FAILED'', ''CANCELLED'']"

definition crawler_inbox_phases :: "string list" where
  "crawler_inbox_phases =
     [''fetch'', ''validation'', ''extraction'', ''ready'', ''attention'', ''failed'']"

text \<open>\<open>typeof v === "string" && set.has(v)\<close>\<close>

fun is_str_in :: "string list \<Rightarrow> json option \<Rightarrow> bool" where
  "is_str_in allowed (Some (JStr s)) \<longleftrightarrow> s \<in> set allowed"
| "is_str_in allowed _ \<longleftrightarrow> False"

abbreviation jint :: "int \<Rightarrow> json" where
  "jint i \<equiv> JNum (NInt i)"

definition merge_zotero_payload :: "json \<Rightarrow> ident \<Rightarrow> string \<Rightarrow> string \<Rightarrow> fields option" where
  "merge_zotero_payload value expectedId importStatus phase =
     (case json_object value of
        None \<Rightarrow> None
      | Some payload \<Rightarrow>
          (if \<not> exact_keys payload
                (if field payload ''phase'' = None
                 then [''schemaVersion'', ''kind'', ''attachmentImportId'', ''importStatus'']
                 else [''schemaVersion'', ''kind'', ''attachmentImportId'', ''importStatus'', ''phase''])
             \<or> field payload ''schemaVersion'' \<noteq> Some (jint 1)
             \<or> field payload ''kind'' \<noteq> Some (JStr ''zotero-attachment-import'')
             \<or> field payload ''attachmentImportId'' \<noteq> Some (JStr expectedId)
             \<or> \<not> is_str_in zotero_import_statuses (field payload ''importStatus'')
             \<or> (field payload ''phase'' \<noteq> None
                 \<and> \<not> is_str_in zotero_inbox_phases (field payload ''phase''))
             \<or> importStatus \<notin> set zotero_import_statuses
             \<or> phase \<notin> set zotero_inbox_phases
           then None
           else Some
             [(''schemaVersion'', jint 1),
              (''kind'', JStr ''zotero-attachment-import''),
              (''attachmentImportId'', JStr expectedId),
              (''importStatus'', JStr importStatus),
              (''phase'', JStr phase)]))"

record crawler_payload =
  cp_crawlerImportId :: ident
  cp_importStatus :: string
  cp_phase :: string

definition crawler_inbox_payload :: "json \<Rightarrow> ident \<Rightarrow> crawler_payload option" where
  "crawler_inbox_payload value expectedId =
     (case json_object value of
        None \<Rightarrow> None
      | Some payload \<Rightarrow>
          (if \<not> exact_keys payload
                [''schemaVersion'', ''kind'', ''crawlerImportId'', ''importStatus'', ''phase'']
             \<or> field payload ''schemaVersion'' \<noteq> Some (jint 1)
             \<or> field payload ''kind'' \<noteq> Some (JStr ''governed-crawler-import'')
             \<or> field payload ''crawlerImportId'' \<noteq> Some (JStr expectedId)
             \<or> \<not> is_str_in crawler_import_statuses (field payload ''importStatus'')
             \<or> \<not> is_str_in crawler_inbox_phases (field payload ''phase'')
           then None
           else (case (field payload ''importStatus'', field payload ''phase'') of
                   (Some (JStr st), Some (JStr ph)) \<Rightarrow>
                     Some \<lparr>cp_crawlerImportId = expectedId, cp_importStatus = st, cp_phase = ph\<rparr>
                 | _ \<Rightarrow> None)))"

text \<open>The envelope as the JSON object that is stored.\<close>

definition crawler_payload_fields :: "crawler_payload \<Rightarrow> fields" where
  "crawler_payload_fields p =
     [(''schemaVersion'', jint 1),
      (''kind'', JStr ''governed-crawler-import''),
      (''crawlerImportId'', JStr (cp_crawlerImportId p)),
      (''importStatus'', JStr (cp_importStatus p)),
      (''phase'', JStr (cp_phase p))]"

definition merge_crawler_payload :: "json \<Rightarrow> ident \<Rightarrow> string \<Rightarrow> string \<Rightarrow> fields option" where
  "merge_crawler_payload value expectedId importStatus phase =
     (case crawler_inbox_payload value expectedId of
        None \<Rightarrow> None
      | Some payload \<Rightarrow>
          (if importStatus \<notin> set crawler_import_statuses \<or> phase \<notin> set crawler_inbox_phases
           then None
           else Some (crawler_payload_fields
                        (payload\<lparr>cp_importStatus := importStatus, cp_phase := phase\<rparr>))))"

definition merge_browser_payload :: "json \<Rightarrow> projection \<Rightarrow> fields option" where
  "merge_browser_payload value p =
     (case json_object value of
        None \<Rightarrow> None
      | Some payload \<Rightarrow>
          (if field payload ''schemaVersion'' \<noteq> Some (jint 1)
             \<or> field payload ''kind'' \<noteq> Some (JStr ''document-upload'')
           then None
           else
             let envelope = (\<lambda>custody verification.
               [(''schemaVersion'', jint 1), (''kind'', JStr ''document-upload''),
                (''custody'', JStr custody), (''verification'', JStr verification)])
             in Some (case p of
                  Validation_claim \<Rightarrow> envelope ''quarantined'' ''validating''
                | Validation_retry \<Rightarrow> envelope ''quarantined'' ''validating''
                | Validation_accepted \<Rightarrow> envelope ''validated'' ''accepted''
                | Extraction_claim \<Rightarrow> envelope ''validated'' ''accepted''
                | Extraction_retry \<Rightarrow> envelope ''validated'' ''accepted''
                | Validation_failed c v \<Rightarrow> envelope ''quarantined'' (verification_name v)
                | Extraction_ready \<Rightarrow>
                    envelope ''validated'' ''accepted'' @ [(''extraction'', JStr ''ready'')]
                | Extraction_attention c \<Rightarrow>
                    envelope ''validated'' ''accepted'' @ [(''extraction'', JStr ''attention'')])))"

section \<open>The desired lifecycle of a stage\<close>

datatype completion = NotCompleted | Terminal | CompletedAttention

record desired =
  w_intakeStatus :: pipe_status
  w_importStatus :: pipe_status
  w_phase :: string
  w_allowedIntakeStatuses :: "pipe_status list"
  w_allowedImportStatuses :: "pipe_status list"
  w_completedAt :: completion
  w_failureCode :: "string option"
  w_batchStatus :: batch_status
  w_allowedBatchStatuses :: "batch_status list"
  w_allowedInboxStatuses :: "inbox_status list"

definition desired_validation :: desired where
  "desired_validation =
     \<lparr>w_intakeStatus = VALIDATING, w_importStatus = VALIDATING, w_phase = ''validation'',
      w_allowedIntakeStatuses = [QUARANTINED, VALIDATING],
      w_allowedImportStatuses = [QUARANTINED, VALIDATING],
      w_completedAt = NotCompleted, w_failureCode = None, w_batchStatus = B_RUNNING,
      w_allowedBatchStatuses = [B_RUNNING], w_allowedInboxStatuses = [X_NEEDS_REVIEW]\<rparr>"

definition desired_extraction :: "bool \<Rightarrow> desired" where
  "desired_extraction accepted =
     \<lparr>w_intakeStatus = EXTRACTING, w_importStatus = EXTRACTING, w_phase = ''extraction'',
      w_allowedIntakeStatuses =
        (if accepted then [VALIDATING, EXTRACTING] else [EXTRACTING, ATTENTION]),
      w_allowedImportStatuses =
        (if accepted then [VALIDATING, EXTRACTING] else [EXTRACTING, ATTENTION]),
      w_completedAt = NotCompleted, w_failureCode = None, w_batchStatus = B_RUNNING,
      w_allowedBatchStatuses = (if accepted then [B_RUNNING] else [B_RUNNING, B_PARTIAL]),
      w_allowedInboxStatuses =
        (if accepted then [X_NEEDS_REVIEW] else [X_NEEDS_REVIEW, X_IMPORTED])\<rparr>"

definition desired_validation_failed :: "string \<Rightarrow> desired" where
  "desired_validation_failed failureCode =
     \<lparr>w_intakeStatus = FAILED, w_importStatus = FAILED, w_phase = ''failed'',
      w_allowedIntakeStatuses = [QUARANTINED, VALIDATING, ATTENTION],
      w_allowedImportStatuses = [QUARANTINED, VALIDATING, ATTENTION],
      w_completedAt = Terminal, w_failureCode = Some failureCode, w_batchStatus = B_FAILED,
      w_allowedBatchStatuses = [B_RUNNING], w_allowedInboxStatuses = [X_PENDING, X_NEEDS_REVIEW]\<rparr>"

definition desired_ready :: desired where
  "desired_ready =
     \<lparr>w_intakeStatus = READY, w_importStatus = READY, w_phase = ''ready'',
      w_allowedIntakeStatuses = [EXTRACTING], w_allowedImportStatuses = [EXTRACTING],
      w_completedAt = Terminal, w_failureCode = None, w_batchStatus = B_SUCCEEDED,
      w_allowedBatchStatuses = [B_RUNNING], w_allowedInboxStatuses = [X_NEEDS_REVIEW, X_IMPORTED]\<rparr>"

definition desired_attention :: "string \<Rightarrow> desired" where
  "desired_attention failureCode =
     \<lparr>w_intakeStatus = ATTENTION, w_importStatus = ATTENTION, w_phase = ''attention'',
      w_allowedIntakeStatuses = [EXTRACTING], w_allowedImportStatuses = [EXTRACTING],
      w_completedAt = CompletedAttention, w_failureCode = Some failureCode, w_batchStatus = B_PARTIAL,
      w_allowedBatchStatuses = [B_RUNNING], w_allowedInboxStatuses = [X_NEEDS_REVIEW, X_IMPORTED]\<rparr>"

fun desired_lifecycle :: "projection \<Rightarrow> tx_error + desired" where
  "desired_lifecycle Validation_claim = Inr desired_validation"
| "desired_lifecycle Validation_retry = Inr desired_validation"
| "desired_lifecycle Validation_accepted = Inr (desired_extraction True)"
| "desired_lifecycle Extraction_claim = Inr (desired_extraction False)"
| "desired_lifecycle Extraction_retry = Inr (desired_extraction False)"
| "desired_lifecycle (Validation_failed c v) =
     map_sum id desired_validation_failed (bounded_failure_code c)"
| "desired_lifecycle Extraction_ready = Inr desired_ready"
| "desired_lifecycle (Extraction_attention c) =
     map_sum id desired_attention (bounded_failure_code c)"

lemmas desired_defs =
  desired_validation_def desired_extraction_def desired_validation_failed_def desired_ready_def
  desired_attention_def

section \<open>Loading the authority graph\<close>

definition locked_receipt :: "db \<Rightarrow> authority_key \<Rightarrow> ingest_receipt option" where
  "locked_receipt d key =
     List.find (\<lambda>r. r_id r = ak_ingestReceiptId key \<and> r_org r = ak_org key
                  \<and> r_intakeId r = ak_intakeId key \<and> r_documentId r = ak_documentId key
                  \<and> r_assetId r = ak_assetId key) (receipts d)"

definition keyed_intake :: "authority_key \<Rightarrow> intake \<Rightarrow> bool" where
  "keyed_intake key k \<longleftrightarrow>
     k_id k = ak_intakeId key \<and> k_org k = ak_org key
     \<and> k_documentId k = ak_documentId key \<and> k_assetId k = ak_assetId key"

definition load_authority :: "db \<Rightarrow> authority_key \<Rightarrow> desired \<Rightarrow> (ingest_receipt \<times> intake) option" where
  "load_authority d key w =
     (case locked_receipt d key of
        None \<Rightarrow> None
      | Some r \<Rightarrow>
          (case List.find (keyed_intake key) (intakes d) of
             None \<Rightarrow> None
           | Some k \<Rightarrow>
               (if r_intakeId r \<noteq> k_id k
                  \<or> r_documentId r \<noteq> ak_documentId key
                  \<or> r_assetId r \<noteq> ak_assetId key
                  \<or> r_source r \<noteq> k_source k
                  \<or> r_inboxEntryId r \<noteq> k_inboxEntryId k
                  \<or> r_importBatchId r \<noteq> k_importBatchId k
                  \<or> k_status k \<notin> set (w_allowedIntakeStatuses w)
                then None else Some (r, k))))"

text \<open>
  The Inbox entry of the intake: the outer option is the refusal of the projection, the inner one
  the absence of an Inbox entry.
\<close>

definition load_inbox :: "db \<Rightarrow> authority_key \<Rightarrow> desired \<Rightarrow> intake \<Rightarrow> inbox_entry option option" where
  "load_inbox d key w k =
     (if \<not> truthy (k_inboxEntryId k) then Some None
      else (case List.find (\<lambda>x. x_org x = ak_org key \<and> k_inboxEntryId k = Some (x_id x)) (inbox d) of
              None \<Rightarrow> None
            | Some x \<Rightarrow>
                (if x_documentId x \<noteq> Some (ak_documentId key)
                   \<or> x_importBatchId x \<noteq> k_importBatchId k
                   \<or> x_status x \<notin> set (w_allowedInboxStatuses w)
                 then None else Some (Some x))))"

definition load_batch :: "db \<Rightarrow> authority_key \<Rightarrow> desired \<Rightarrow> intake \<Rightarrow> import_batch option option" where
  "load_batch d key w k =
     (if \<not> truthy (k_importBatchId k) then Some None
      else (case List.find (\<lambda>b. b_org b = ak_org key \<and> k_importBatchId k = Some (b_id b)) (batches d) of
              None \<Rightarrow> None
            | Some b \<Rightarrow>
                (if b_totalCount b \<noteq> 1 \<or> b_status b \<notin> set (w_allowedBatchStatuses w)
                 then None else Some (Some b))))"

definition keyed_command :: "authority_key \<Rightarrow> ident option \<Rightarrow> import_command \<Rightarrow> bool" where
  "keyed_command key cid c \<longleftrightarrow>
     cid = Some (c_id c) \<and> c_org c = ak_org key \<and> c_intakeId c = ak_intakeId key
     \<and> c_documentId c = ak_documentId key \<and> c_assetId c = ak_assetId key"

text \<open>What the receipt's source adds to the projection: an import command, and a new envelope.\<close>

datatype source_binding =
    Zotero_binding import_command fields
  | Crawler_binding import_command fields
  | Plain_binding "fields option"

definition load_source ::
    "db \<Rightarrow> authority_key \<Rightarrow> projection \<Rightarrow> desired \<Rightarrow> ingest_receipt
      \<Rightarrow> inbox_entry option \<Rightarrow> import_batch option \<Rightarrow> source_binding option" where
  "load_source d key p w r ib bt =
     (if r_source r = ZOTERO_ATTACHMENT then
        (case (ib, bt) of
           (Some x, Some b) \<Rightarrow>
             (if \<not> truthy (r_zoteroAttachmentImportId r) \<or> x_source x \<noteq> S_ZOTERO \<or> b_source b \<noteq> S_ZOTERO
              then None
              else (case List.find (keyed_command key (r_zoteroAttachmentImportId r)) (zotero_imports d) of
                      None \<Rightarrow> None
                    | Some c \<Rightarrow>
                        (if c_status c \<notin> set (w_allowedImportStatuses w) then None
                         else map_option (Zotero_binding c)
                                (merge_zotero_payload (x_payload x) (c_id c)
                                   (status_name (w_importStatus w)) (w_phase w)))))
         | _ \<Rightarrow> None)
      else if r_source r = CRAWLER then
        (case (ib, bt) of
           (Some x, Some b) \<Rightarrow>
             (if r_zoteroAttachmentImportId r \<noteq> None \<or> \<not> truthy (r_crawlerImportId r)
                \<or> x_source x \<noteq> S_CRAWLER \<or> b_source b \<noteq> S_CRAWLER
              then None
              else (case List.find (keyed_command key (r_crawlerImportId r)) (crawler_imports d) of
                      None \<Rightarrow> None
                    | Some c \<Rightarrow>
                        (if c_status c \<notin> set (w_allowedImportStatuses w) then None
                         else map_option (Crawler_binding c)
                                (merge_crawler_payload (x_payload x) (c_id c)
                                   (status_name (w_importStatus w)) (w_phase w)))))
         | _ \<Rightarrow> None)
      else if r_zoteroAttachmentImportId r \<noteq> None \<or> r_crawlerImportId r \<noteq> None then None
      else (case ib of
              Some x \<Rightarrow>
                (if r_source r \<noteq> BROWSER_UPLOAD then Some (Plain_binding None)
                 else if x_source x \<noteq> S_FILE_UPLOAD then None
                 else (case merge_browser_payload (x_payload x) p of
                         None \<Rightarrow> None
                       | Some pl \<Rightarrow> Some (Plain_binding (Some pl))))
            | None \<Rightarrow> Some (Plain_binding None)))"

fun binding_payload :: "source_binding \<Rightarrow> fields option" where
  "binding_payload (Zotero_binding c pl) = Some pl"
| "binding_payload (Crawler_binding c pl) = Some pl"
| "binding_payload (Plain_binding pl) = pl"

section \<open>The writes\<close>

definition same_intake_row :: "authority_key \<Rightarrow> intake \<Rightarrow> intake \<Rightarrow> bool" where
  "same_intake_row key k k' \<longleftrightarrow> keyed_intake key k' \<and> k_status k' = k_status k"

definition intake_row_update :: "desired \<Rightarrow> millis \<Rightarrow> intake \<Rightarrow> intake" where
  "intake_row_update w now k =
     k\<lparr>k_status := w_intakeStatus w, k_failureCode := w_failureCode w,
       k_completedAt := (if w_completedAt w = Terminal then Some now else None)\<rparr>"

definition write_intake :: "db \<Rightarrow> authority_key \<Rightarrow> desired \<Rightarrow> millis \<Rightarrow> intake \<Rightarrow> tx_error + db" where
  "write_intake d key w now k =
     (if count_rows (same_intake_row key k) (intakes d) \<noteq> 1
      then Inl (Error ''The document intake lifecycle changed concurrently.'')
      else Inr (d\<lparr>intakes := update_rows (same_intake_row key k) (intake_row_update w now)
                            (intakes d)\<rparr>))"

definition same_command_row :: "authority_key \<Rightarrow> import_command \<Rightarrow> import_command \<Rightarrow> bool" where
  "same_command_row key c c' \<longleftrightarrow>
     keyed_command key (Some (c_id c)) c' \<and> c_status c' = c_status c"

definition command_row_update :: "desired \<Rightarrow> millis \<Rightarrow> import_command \<Rightarrow> import_command" where
  "command_row_update w now c =
     c\<lparr>c_status := w_importStatus w, c_failureCode := w_failureCode w,
       c_completedAt := (if w_completedAt w = NotCompleted then None else Some now)\<rparr>"

definition update_command ::
    "string \<Rightarrow> authority_key \<Rightarrow> desired \<Rightarrow> millis \<Rightarrow> import_command \<Rightarrow> import_command list
      \<Rightarrow> tx_error + import_command list" where
  "update_command msg key w now c cs =
     (if count_rows (same_command_row key c) cs \<noteq> 1 then Inl (Error msg)
      else Inr (update_rows (same_command_row key c) (command_row_update w now) cs))"

fun write_source ::
    "db \<Rightarrow> authority_key \<Rightarrow> desired \<Rightarrow> millis \<Rightarrow> source_binding \<Rightarrow> tx_error + db" where
  "write_source d key w now (Zotero_binding c pl) =
     map_sum id (\<lambda>cs. d\<lparr>zotero_imports := cs\<rparr>)
       (update_command ''The Zotero attachment import lifecycle changed concurrently.''
          key w now c (zotero_imports d))"
| "write_source d key w now (Crawler_binding c pl) =
     map_sum id (\<lambda>cs. d\<lparr>crawler_imports := cs\<rparr>)
       (update_command ''The crawler import lifecycle changed concurrently.''
          key w now c (crawler_imports d))"
| "write_source d key w now (Plain_binding pl) = Inr d"

fun is_validation_failed :: "projection \<Rightarrow> bool" where
  "is_validation_failed (Validation_failed c v) \<longleftrightarrow> True"
| "is_validation_failed _ \<longleftrightarrow> False"

fun is_extraction_attention :: "projection \<Rightarrow> bool" where
  "is_extraction_attention (Extraction_attention c) \<longleftrightarrow> True"
| "is_extraction_attention _ \<longleftrightarrow> False"

text \<open>The row each conditional update selects, and what it writes into it.\<close>

definition same_inbox_row :: "authority_key \<Rightarrow> intake \<Rightarrow> inbox_entry \<Rightarrow> inbox_entry \<Rightarrow> bool" where
  "same_inbox_row key k x x' \<longleftrightarrow>
     x_id x' = x_id x \<and> x_org x' = ak_org key \<and> x_documentId x' = Some (ak_documentId key)
     \<and> x_importBatchId x' = k_importBatchId k \<and> x_status x' = x_status x"

definition inbox_row_update ::
    "projection \<Rightarrow> desired \<Rightarrow> fields \<Rightarrow> inbox_status \<Rightarrow> inbox_entry \<Rightarrow> inbox_entry" where
  "inbox_row_update p w pl prior x =
     x\<lparr>x_payload := JObj pl,
       x_status := (if is_validation_failed p then X_FAILED
                    else if prior = X_IMPORTED then X_IMPORTED else X_NEEDS_REVIEW),
       x_failureCode := (if is_validation_failed p \<or> is_extraction_attention p
                         then w_failureCode w else None),
       x_failureMessage := None\<rparr>"

definition write_inbox ::
    "db \<Rightarrow> authority_key \<Rightarrow> projection \<Rightarrow> desired \<Rightarrow> intake \<Rightarrow> inbox_entry option \<Rightarrow> fields option
      \<Rightarrow> tx_error + db" where
  "write_inbox d key p w k ib payload =
     (case (ib, payload) of
        (Some x, Some pl) \<Rightarrow>
          (if count_rows (same_inbox_row key k x) (inbox d) \<noteq> 1
           then Inl (Error ''The Inbox lifecycle changed concurrently.'')
           else Inr (d\<lparr>inbox := update_rows (same_inbox_row key k x)
                              (inbox_row_update p w pl (x_status x)) (inbox d)\<rparr>))
      | _ \<Rightarrow> Inr d)"

definition same_batch_row :: "authority_key \<Rightarrow> import_batch \<Rightarrow> import_batch \<Rightarrow> bool" where
  "same_batch_row key b b' \<longleftrightarrow>
     b_id b' = b_id b \<and> b_org b' = ak_org key \<and> b_status b' = b_status b \<and> b_totalCount b' = 1"

definition batch_row_update :: "desired \<Rightarrow> millis \<Rightarrow> import_batch \<Rightarrow> import_batch" where
  "batch_row_update w now b =
     (if w_batchStatus w \<noteq> B_RUNNING
      then b\<lparr>b_status := w_batchStatus w, b_processedCount := 1,
             b_successCount := (if w_batchStatus w = B_SUCCEEDED then 1 else 0),
             b_failureCount := (if w_batchStatus w = B_SUCCEEDED then 0 else 1),
             b_completedAt := Some now\<rparr>
      else b\<lparr>b_status := B_RUNNING, b_processedCount := 0, b_successCount := 0,
             b_failureCount := 0, b_completedAt := None\<rparr>)"

definition write_batch ::
    "db \<Rightarrow> authority_key \<Rightarrow> desired \<Rightarrow> millis \<Rightarrow> import_batch option \<Rightarrow> tx_error + db" where
  "write_batch d key w now bt =
     (case bt of
        None \<Rightarrow> Inr d
      | Some b \<Rightarrow>
          (if count_rows (same_batch_row key b) (batches d) \<noteq> 1
           then Inl (Error ''The import batch lifecycle changed concurrently.'')
           else Inr (d\<lparr>batches := update_rows (same_batch_row key b) (batch_row_update w now)
                                 (batches d)\<rparr>)))"

definition write_projection ::
    "db \<Rightarrow> authority_key \<Rightarrow> projection \<Rightarrow> desired \<Rightarrow> millis \<Rightarrow> intake \<Rightarrow> source_binding
      \<Rightarrow> inbox_entry option \<Rightarrow> import_batch option \<Rightarrow> tx_error + db" where
  "write_projection d key p w now k sb ib bt =
     and_then (write_intake d key w now k) (\<lambda>d1.
     and_then (write_source d1 key w now sb) (\<lambda>d2.
     and_then (write_inbox d2 key p w k ib (binding_payload sb)) (\<lambda>d3.
     write_batch d3 key w now bt)))"

text \<open>
  Everything the projection reads, in the order it reads it; None is one of its \<open>return false\<close>.
\<close>

definition load_plan ::
    "db \<Rightarrow> authority_key \<Rightarrow> projection \<Rightarrow> desired
      \<Rightarrow> (ingest_receipt \<times> intake \<times> inbox_entry option \<times> import_batch option \<times> source_binding) option"
where
  "load_plan d key p w = do {
     (r, k) \<leftarrow> load_authority d key w;
     ib \<leftarrow> load_inbox d key w k;
     bt \<leftarrow> load_batch d key w k;
     sb \<leftarrow> load_source d key p w r ib bt;
     Some (r, k, ib, bt, sb)
   }"

text \<open>
  The whole transaction body; None for \<open>now\<close> is an invalid Date. It answers whether the
  projection was applied.
\<close>

definition project_lifecycle ::
    "db \<Rightarrow> authority_key \<Rightarrow> projection \<Rightarrow> millis option \<Rightarrow> bool tx" where
  "project_lifecycle d key p now =
     (case now of
        None \<Rightarrow> Inl (TypeError ''A valid lifecycle timestamp is required.'')
      | Some t \<Rightarrow>
          and_then (desired_lifecycle p) (\<lambda>w.
            case load_plan d key p w of
              None \<Rightarrow> Inr (False, d)
            | Some (r, k, ib, bt, sb) \<Rightarrow>
                map_sum id (\<lambda>d'. (True, d')) (write_projection d key p w t k sb ib bt)))"

section \<open>Inversion and frame\<close>

lemma project_lifecycleE:
  assumes "project_lifecycle d key p (Some t) = Inr (ok, d')"
  obtains (refused) "\<not> ok" "d' = d"
  | (applied) w r k ib bt sb where "ok" "desired_lifecycle p = Inr w"
      "load_plan d key p w = Some (r, k, ib, bt, sb)"
      "write_projection d key p w t k sb ib bt = Inr d'"
  using assms
  by (auto simp: project_lifecycle_def and_then_Inr_iff map_sum_Inr_iff split: option.splits prod.splits)

lemma load_planE:
  assumes "load_plan d key p w = Some (r, k, ib, bt, sb)"
  obtains "load_authority d key w = Some (r, k)" "load_inbox d key w k = Some ib"
    "load_batch d key w k = Some bt" "load_source d key p w r ib bt = Some sb"
  using assms by (auto simp: load_plan_def Option.bind_eq_Some_conv split: prod.splits)

lemma load_authorityE:
  assumes "load_authority d key w = Some (r, k)"
  obtains "locked_receipt d key = Some r" "List.find (keyed_intake key) (intakes d) = Some k"
    "k_status k \<in> set (w_allowedIntakeStatuses w)" "r_inboxEntryId r = k_inboxEntryId k"
    "r_importBatchId r = k_importBatchId k" "r_source r = k_source k"
  using assms by (auto simp: load_authority_def split: option.splits if_splits)

lemma write_projectionE:
  assumes "write_projection d key p w t k sb ib bt = Inr d'"
  obtains d1 d2 d3 where "write_intake d key w t k = Inr d1" "write_source d1 key w t sb = Inr d2"
    "write_inbox d2 key p w k ib (binding_payload sb) = Inr d3" "write_batch d3 key w t bt = Inr d'"
  using assms by (auto simp: write_projection_def and_then_Inr_iff)

lemma write_intake_Inr:
  assumes "write_intake d key w now k = Inr d'"
  shows "d' = d\<lparr>intakes := update_rows (same_intake_row key k) (intake_row_update w now) (intakes d)\<rparr>"
  using assms by (auto simp: write_intake_def split: if_splits)

text \<open>
  The tables no lifecycle projection may touch: jobs, attempts, documents, assets, their
  originals, receipts, attestations, extracted text and the audit trail.
\<close>

definition outside_same :: "db \<Rightarrow> db \<Rightarrow> bool" where
  "outside_same d d' \<longleftrightarrow>
     jobs d' = jobs d \<and> attempts d' = attempts d \<and> documents d' = documents d
     \<and> assets d' = assets d \<and> document_assets d' = document_assets d \<and> receipts d' = receipts d
     \<and> attestations d' = attestations d \<and> extractions d' = extractions d
     \<and> chunks d' = chunks d \<and> admissions d' = admissions d
     \<and> provenances d' = provenances d \<and> audits d' = audits d"

lemma outside_sameD [frame_simps]:
  assumes "outside_same d d'"
  shows "jobs d' = jobs d" "attempts d' = attempts d" "documents d' = documents d"
    "assets d' = assets d" "document_assets d' = document_assets d" "receipts d' = receipts d"
    "attestations d' = attestations d" "extractions d' = extractions d" "chunks d' = chunks d"
    "admissions d' = admissions d" "provenances d' = provenances d" "audits d' = audits d"
  using assms by (simp_all add: outside_same_def)

lemma outside_same_refl [simp]: "outside_same d d"
  by (simp add: outside_same_def)

lemma outside_same_trans [trans]: "outside_same a b \<Longrightarrow> outside_same b c \<Longrightarrow> outside_same a c"
  by (simp add: outside_same_def)

lemma write_source_frame:
  assumes "write_source d key w now sb = Inr d'"
  shows "outside_same d d'" "intakes d' = intakes d" "inbox d' = inbox d" "batches d' = batches d"
  using assms by (cases sb; auto simp: map_sum_Inr_iff outside_same_def)+

lemma write_inbox_frame:
  assumes "write_inbox d key p w k ib pl = Inr d'"
  shows "outside_same d d'" "intakes d' = intakes d" "zotero_imports d' = zotero_imports d"
    "crawler_imports d' = crawler_imports d" "batches d' = batches d"
  using assms
  by (auto simp: write_inbox_def outside_same_def split: option.splits if_splits)

lemma write_batch_frame:
  assumes "write_batch d key w now bt = Inr d'"
  shows "outside_same d d'" "intakes d' = intakes d" "zotero_imports d' = zotero_imports d"
    "crawler_imports d' = crawler_imports d" "inbox d' = inbox d"
  using assms
  by (auto simp: write_batch_def outside_same_def split: option.splits if_splits)

lemma write_intake_frame:
  assumes "write_intake d key w now k = Inr d'"
  shows "outside_same d d'" "zotero_imports d' = zotero_imports d"
    "crawler_imports d' = crawler_imports d" "inbox d' = inbox d" "batches d' = batches d"
  using assms by (auto simp: write_intake_def outside_same_def split: if_splits)

lemmas write_frames = write_intake_frame write_source_frame write_inbox_frame write_batch_frame

lemma write_projection_frame:
  assumes "write_projection d key p w t k sb ib bt = Inr d'"
  shows "outside_same d d'"
  using assms by (elim write_projectionE) (metis outside_same_trans write_frames(1,6,10,15))

text \<open>A projection either leaves the database alone or writes its five tables only.\<close>

lemma project_outside_same:
  assumes "project_lifecycle d key p (Some t) = Inr (ok, d')"
  shows "outside_same d d'"
  using assms by (cases rule: project_lifecycleE) (auto dest: write_projection_frame)

lemma project_refused:
  assumes "project_lifecycle d key p (Some t) = Inr (False, d')"
  shows "d' = d"
  using assms by (cases rule: project_lifecycleE) auto

lemma write_projection_intakes:
  assumes "write_projection d key p w t k sb ib bt = Inr d'"
  shows "intakes d' = update_rows (same_intake_row key k) (intake_row_update w t) (intakes d)"
proof -
  from assms obtain d1 d2 d3 where
    d1: "write_intake d key w t k = Inr d1" and d2: "write_source d1 key w t sb = Inr d2" and
    d3: "write_inbox d2 key p w k ib (binding_payload sb) = Inr d3" and
    d4: "write_batch d3 key w t bt = Inr d'"
    by (rule write_projectionE)
  then have "intakes d' = intakes d1"
    using write_source_frame(2) [OF d2] write_inbox_frame(2) [OF d3] write_batch_frame(2) [OF d4]
    by simp
  then show ?thesis by (simp add: write_intake_Inr [OF d1])
qed

section \<open>The transitions of an intake\<close>

inductive intake_step :: "pipe_status \<Rightarrow> pipe_status \<Rightarrow> bool" where
  start_validation: "s \<in> {QUARANTINED, VALIDATING} \<Longrightarrow> intake_step s VALIDATING"
| accept_validation: "s \<in> {VALIDATING, EXTRACTING} \<Longrightarrow> intake_step s EXTRACTING"
| resume_extraction: "s \<in> {EXTRACTING, ATTENTION} \<Longrightarrow> intake_step s EXTRACTING"
| fail_validation: "s \<in> {QUARANTINED, VALIDATING, ATTENTION} \<Longrightarrow> intake_step s FAILED"
| finish: "intake_step EXTRACTING READY"
| need_attention: "intake_step EXTRACTING ATTENTION"

inductive_cases intake_step_readyE: "intake_step s READY"
inductive_cases intake_step_from_readyE: "intake_step READY s"
inductive_cases intake_step_from_failedE: "intake_step FAILED s"
inductive_cases intake_step_from_cancelledE: "intake_step CANCELLED s"

lemma desired_transition:
  assumes "desired_lifecycle p = Inr w" "s \<in> set (w_allowedIntakeStatuses w)"
  shows "intake_step s (w_intakeStatus w)"
  using assms
  by (cases p) (auto simp: desired_defs map_sum_Inr_iff intro: intake_step.intros split: if_splits)

text \<open>How one intake row may change: not at all, or its status by one step.\<close>

definition intake_evolves :: "intake \<Rightarrow> intake \<Rightarrow> bool" where
  "intake_evolves k k' \<longleftrightarrow>
     k' = k \<or>
     (k_id k' = k_id k \<and> k_org k' = k_org k \<and> k_source k' = k_source k
       \<and> k_documentId k' = k_documentId k \<and> k_assetId k' = k_assetId k
       \<and> k_inboxEntryId k' = k_inboxEntryId k \<and> k_importBatchId k' = k_importBatchId k
       \<and> intake_step (k_status k) (k_status k'))"

lemma project_intakes_evolve:
  assumes "project_lifecycle d key p (Some t) = Inr (ok, d')"
  shows "list_all2 intake_evolves (intakes d) (intakes d')"
  using assms
proof (cases rule: project_lifecycleE)
  case refused
  then show ?thesis by (simp add: intake_evolves_def list_all2_refl)
next
  case (applied w r k ib bt sb)
  then have "k_status k \<in> set (w_allowedIntakeStatuses w)"
    by (auto elim!: load_planE load_authorityE)
  with applied(2) have "intake_step (k_status k) (w_intakeStatus w)"
    by (rule desired_transition)
  then show ?thesis
    unfolding write_projection_intakes [OF applied(4)] update_rows_def
    by (auto simp: list_all2_conv_all_nth intake_evolves_def same_intake_row_def intake_row_update_def)
qed

section \<open>Runs of projections\<close>

text \<open>
  Transactions one after the other; a body that throws is rolled back and the run goes on.
\<close>

fun run_projections :: "db \<Rightarrow> (authority_key \<times> projection \<times> millis option) list \<Rightarrow> db" where
  "run_projections d [] = d"
| "run_projections d ((key, p, t) # rest) =
     (case project_lifecycle d key p t of
        Inl e \<Rightarrow> run_projections d rest
      | Inr (ok, d') \<Rightarrow> run_projections d' rest)"

lemma project_no_timestamp [simp]:
  "project_lifecycle d key p None = Inl (TypeError ''A valid lifecycle timestamp is required.'')"
  by (simp add: project_lifecycle_def)

text \<open>Facts every projection keeps are kept by a run.\<close>

lemma run_projections_invariant:
  assumes "I d" and
    step: "\<And>d key p t ok d'. I d \<Longrightarrow> project_lifecycle d key p (Some t) = Inr (ok, d') \<Longrightarrow> I d'"
  shows "I (run_projections d ps)"
  using assms(1)
proof (induction d ps rule: run_projections.induct)
  case (2 d key p t rest)
  show ?case
  proof (cases t)
    case None
    with 2 show ?thesis by simp
  next
    case (Some u)
    then show ?thesis using 2 step by (auto split: sum.splits prod.splits)
  qed
qed simp

definition closed_status :: "pipe_status \<Rightarrow> bool" where
  "closed_status s \<longleftrightarrow> s \<in> {READY, FAILED, CANCELLED}"

lemma closed_status_no_step: "closed_status s \<Longrightarrow> \<not> intake_step s s'"
  by (auto simp: closed_status_def elim: intake_step.cases)

lemma intake_evolves_closed:
  "intake_evolves k k' \<Longrightarrow> closed_status (k_status k) \<Longrightarrow> k' = k"
  by (auto simp: intake_evolves_def closed_status_no_step)

lemma list_all2_closed:
  assumes "list_all2 intake_evolves ks ks'" "k \<in> set ks" "closed_status (k_status k)"
  shows "k \<in> set ks'"
  using assms by (induction ks ks' rule: list_all2_induct) (auto dest: intake_evolves_closed)

section \<open>No lost update\<close>

lemma load_inboxE:
  assumes "load_inbox d key w k = Some ib"
  obtains (absent) "ib = None" "\<not> truthy (k_inboxEntryId k)"
  | (present) x where "ib = Some x" "x \<in> set (inbox d)" "x_org x = ak_org key"
      "k_inboxEntryId k = Some (x_id x)" "x_documentId x = Some (ak_documentId key)"
      "x_importBatchId x = k_importBatchId k" "x_status x \<in> set (w_allowedInboxStatuses w)"
proof (cases "truthy (k_inboxEntryId k)")
  case False
  with assms show ?thesis by (simp add: load_inbox_def absent)
next
  case True
  with assms obtain x where
    x: "List.find (\<lambda>x. x_org x = ak_org key \<and> k_inboxEntryId k = Some (x_id x)) (inbox d) = Some x"
    by (auto simp: load_inbox_def split: option.splits)
  with True have "load_inbox d key w k =
      (if x_documentId x \<noteq> Some (ak_documentId key) \<or> x_importBatchId x \<noteq> k_importBatchId k
         \<or> x_status x \<notin> set (w_allowedInboxStatuses w) then None else Some (Some x))"
    by (simp add: load_inbox_def)
  with assms find_SomeD [OF x] show ?thesis
    by (intro present [of x]) (simp_all split: if_splits)
qed

lemma load_batchE:
  assumes "load_batch d key w k = Some bt"
  obtains (absent) "bt = None" "\<not> truthy (k_importBatchId k)"
  | (present) b where "bt = Some b" "b \<in> set (batches d)" "b_org b = ak_org key"
      "k_importBatchId k = Some (b_id b)" "b_totalCount b = 1"
      "b_status b \<in> set (w_allowedBatchStatuses w)"
proof (cases "truthy (k_importBatchId k)")
  case False
  with assms show ?thesis by (simp add: load_batch_def absent)
next
  case True
  with assms obtain b where
    b: "List.find (\<lambda>b. b_org b = ak_org key \<and> k_importBatchId k = Some (b_id b)) (batches d) = Some b"
    by (auto simp: load_batch_def split: option.splits)
  with True have "load_batch d key w k =
      (if b_totalCount b \<noteq> 1 \<or> b_status b \<notin> set (w_allowedBatchStatuses w)
       then None else Some (Some b))"
    by (simp add: load_batch_def)
  with assms find_SomeD [OF b] show ?thesis
    by (intro present [of b]) (simp_all split: if_splits)
qed

lemma load_sourceE:
  assumes "load_source d key p w r ib bt = Some sb"
  obtains (zotero) x b c pl where "sb = Zotero_binding c pl" "ib = Some x" "bt = Some b"
      "r_source r = ZOTERO_ATTACHMENT" "c \<in> set (zotero_imports d)"
      "keyed_command key (r_zoteroAttachmentImportId r) c"
      "c_status c \<in> set (w_allowedImportStatuses w)"
      "merge_zotero_payload (x_payload x) (c_id c) (status_name (w_importStatus w)) (w_phase w) = Some pl"
  | (crawler) x b c pl where "sb = Crawler_binding c pl" "ib = Some x" "bt = Some b"
      "r_source r = CRAWLER" "c \<in> set (crawler_imports d)"
      "keyed_command key (r_crawlerImportId r) c"
      "c_status c \<in> set (w_allowedImportStatuses w)"
      "merge_crawler_payload (x_payload x) (c_id c) (status_name (w_importStatus w)) (w_phase w) = Some pl"
  | (browser) x pl where "sb = Plain_binding (Some pl)" "ib = Some x" "r_source r = BROWSER_UPLOAD"
      "merge_browser_payload (x_payload x) p = Some pl"
  | (plain) "sb = Plain_binding None" "r_source r \<notin> {ZOTERO_ATTACHMENT, CRAWLER}"
      "ib = None \<or> r_source r \<noteq> BROWSER_UPLOAD"
  using assms
  by (auto simp: load_source_def split: if_splits option.splits dest!: find_SomeD)

lemma keyed_command_self: "keyed_command key cid c \<Longrightarrow> keyed_command key (Some (c_id c)) c"
  by (auto simp: same_command_row_def keyed_command_def)

text \<open>
  With unique keys each conditional update of a plan finds exactly the row the plan was read
  from: no projection throws one of its ``changed concurrently'' errors when it runs alone.
\<close>

lemma write_projection_total:
  assumes ku: "keys_unique d" and plan: "load_plan d key p w = Some (r, k, ib, bt, sb)"
  shows "\<exists>d'. write_projection d key p w t k sb ib bt = Inr d'"
proof -
  note kd = keys_uniqueD [OF ku]
  from plan have la: "load_authority d key w = Some (r, k)" and li: "load_inbox d key w k = Some ib"
    and lb: "load_batch d key w k = Some bt" and ls: "load_source d key p w r ib bt = Some sb"
    by (auto elim: load_planE)
  from la have k: "k \<in> set (intakes d)" "keyed_intake key k"
    by (auto elim!: load_authorityE dest!: find_SomeD)
  have "count_rows (same_intake_row key k) (intakes d) = 1"
    by (rule count_rows_unique [OF kd(6) k(1)]) (use k(2) in \<open>auto simp: same_intake_row_def keyed_intake_def\<close>)
  then obtain d1 where d1: "write_intake d key w t k = Inr d1" by (simp add: write_intake_def)
  note f1 = write_intake_frame [OF d1]
  have "\<exists>d2. write_source d1 key w t sb = Inr d2"
    using ls
  proof (cases rule: load_sourceE)
    case (zotero x b c pl)
    then have "count_rows (same_command_row key c) (zotero_imports d1) = 1"
      unfolding f1 by (intro count_rows_unique [OF kd(9), of c]) (auto simp: same_command_row_def keyed_command_def)
    then show ?thesis by (simp add: zotero update_command_def)
  next
    case (crawler x b c pl)
    then have "count_rows (same_command_row key c) (crawler_imports d1) = 1"
      unfolding f1 by (intro count_rows_unique [OF kd(10), of c]) (auto simp: same_command_row_def keyed_command_def)
    then show ?thesis by (simp add: crawler update_command_def)
  qed simp_all
  then obtain d2 where d2: "write_source d1 key w t sb = Inr d2" by blast
  note f2 = write_source_frame [OF d2]
  have "\<exists>d3. write_inbox d2 key p w k ib (binding_payload sb) = Inr d3"
    using li
  proof (cases rule: load_inboxE)
    case (present x)
    then have "count_rows (same_inbox_row key k x) (inbox d2) = 1"
      unfolding f1 f2 by (intro count_rows_unique [OF kd(7), of x])
        (auto simp: same_inbox_row_def)
    then show ?thesis by (simp add: present write_inbox_def split: option.split)
  qed (simp add: write_inbox_def)
  then obtain d3 where d3: "write_inbox d2 key p w k ib (binding_payload sb) = Inr d3" by blast
  note f3 = write_inbox_frame [OF d3]
  have "\<exists>d4. write_batch d3 key w t bt = Inr d4"
    using lb
  proof (cases rule: load_batchE)
    case (present b)
    then have "count_rows (same_batch_row key b) (batches d3) = 1"
      unfolding f1 f2 f3 by (intro count_rows_unique [OF kd(8), of b])
        (auto simp: same_batch_row_def)
    then show ?thesis by (simp add: present write_batch_def)
  qed (simp add: write_batch_def)
  with d1 d2 d3 show ?thesis by (simp add: write_projection_def)
qed

section \<open>Agreement of the status carriers\<close>

text \<open>
  The status carriers of one intake after a projection to \<open>w\<close>: the intake row, its batch, its
  import command and the Inbox envelope that names the import's status and phase.
\<close>

definition batch_agrees :: "db \<Rightarrow> authority_key \<Rightarrow> desired \<Rightarrow> intake \<Rightarrow> bool" where
  "batch_agrees d key w k \<longleftrightarrow>
     (if truthy (k_importBatchId k)
      then list_ex (\<lambda>b. k_importBatchId k = Some (b_id b) \<and> b_org b = ak_org key
             \<and> b_status b = w_batchStatus w) (batches d)
      else True)"

definition command_agrees :: "db \<Rightarrow> authority_key \<Rightarrow> desired \<Rightarrow> ingest_receipt \<Rightarrow> bool" where
  "command_agrees d key w r \<longleftrightarrow>
     (if r_source r = ZOTERO_ATTACHMENT
      then list_ex (\<lambda>c. keyed_command key (r_zoteroAttachmentImportId r) c
             \<and> c_status c = w_importStatus w) (zotero_imports d)
      else if r_source r = CRAWLER
      then list_ex (\<lambda>c. keyed_command key (r_crawlerImportId r) c
             \<and> c_status c = w_importStatus w) (crawler_imports d)
      else True)"

definition envelope_names :: "desired \<Rightarrow> json \<Rightarrow> bool" where
  "envelope_names w v \<longleftrightarrow>
     (case json_object v of
        None \<Rightarrow> False
      | Some o1 \<Rightarrow> field o1 ''importStatus'' = Some (JStr (status_name (w_importStatus w)))
          \<and> field o1 ''phase'' = Some (JStr (w_phase w)))"

definition inbox_agrees :: "db \<Rightarrow> authority_key \<Rightarrow> desired \<Rightarrow> ingest_receipt \<Rightarrow> intake \<Rightarrow> bool" where
  "inbox_agrees d key w r k \<longleftrightarrow>
     (if r_source r \<in> {ZOTERO_ATTACHMENT, CRAWLER}
      then list_ex (\<lambda>x. k_inboxEntryId k = Some (x_id x) \<and> x_org x = ak_org key
             \<and> envelope_names w (x_payload x)) (inbox d)
      else True)"

definition lifecycle_agrees :: "db \<Rightarrow> authority_key \<Rightarrow> desired \<Rightarrow> bool" where
  "lifecycle_agrees d key w \<longleftrightarrow>
     (case (locked_receipt d key, List.find (keyed_intake key) (intakes d)) of
        (Some r, Some k) \<Rightarrow>
          k_status k = w_intakeStatus w \<and> k_failureCode k = w_failureCode w
          \<and> batch_agrees d key w k \<and> command_agrees d key w r \<and> inbox_agrees d key w r k
      | _ \<Rightarrow> False)"

lemma merge_zotero_names:
  "merge_zotero_payload v i (status_name (w_importStatus w)) (w_phase w) = Some pl
    \<Longrightarrow> envelope_names w (JObj pl)"
  by (auto simp: merge_zotero_payload_def envelope_names_def field_def split: option.splits if_splits)

lemma merge_crawler_names:
  "merge_crawler_payload v i (status_name (w_importStatus w)) (w_phase w) = Some pl
    \<Longrightarrow> envelope_names w (JObj pl)"
  by (auto simp: merge_crawler_payload_def crawler_payload_fields_def envelope_names_def field_def
      split: option.splits if_splits)

lemma write_source_agrees:
  assumes "write_source d1 key w t sb = Inr d2" "load_source d key p w r ib bt = Some sb"
    "zotero_imports d1 = zotero_imports d" "crawler_imports d1 = crawler_imports d"
  shows "command_agrees d2 key w r"
  using assms(2)
proof (cases rule: load_sourceE)
  case (zotero x b c pl)
  then have "same_command_row key c c" by (simp add: same_command_row_def keyed_command_def)
  with zotero have "command_row_update w t c
      \<in> set (update_rows (same_command_row key c) (command_row_update w t) (zotero_imports d))"
    by (blast intro: update_rows_memI)
  with zotero assms(1,3) show ?thesis
    by (auto simp: command_agrees_def list_ex_iff map_sum_Inr_iff update_command_def
        keyed_command_def command_row_update_def split: if_splits intro!: bexI [rotated])
next
  case (crawler x b c pl)
  then have "same_command_row key c c" by (simp add: same_command_row_def keyed_command_def)
  with crawler have "command_row_update w t c
      \<in> set (update_rows (same_command_row key c) (command_row_update w t) (crawler_imports d))"
    by (blast intro: update_rows_memI)
  with crawler assms(1,4) show ?thesis
    by (auto simp: command_agrees_def list_ex_iff map_sum_Inr_iff update_command_def
        keyed_command_def command_row_update_def split: if_splits intro!: bexI [rotated])
qed (auto simp: command_agrees_def)

lemma write_batch_agrees:
  assumes "write_batch d3 key w t bt = Inr d4" "load_batch d key w k = Some bt"
    "batches d3 = batches d"
  shows "batch_agrees d4 key w k"
  using assms(2)
proof (cases rule: load_batchE)
  case (present b)
  then have "same_batch_row key b b" by (simp add: same_batch_row_def)
  with present have "batch_row_update w t b
      \<in> set (update_rows (same_batch_row key b) (batch_row_update w t) (batches d))"
    by (blast intro: update_rows_memI)
  with present assms(1,3) show ?thesis
    by (auto simp: batch_agrees_def list_ex_iff write_batch_def batch_row_update_def
        split: if_splits intro!: bexI [rotated])
qed (simp add: batch_agrees_def)

lemma write_inbox_agrees:
  assumes "write_inbox d2 key p w k ib (binding_payload sb) = Inr d3"
    "load_inbox d key w k = Some ib" "load_source d key p w r ib bt = Some sb" "inbox d2 = inbox d"
  shows "inbox_agrees d3 key w r k"
proof -
  have *: "inbox_agrees d3 key w r k" if x: "ib = Some x" and pl: "binding_payload sb = Some pl"
    and names: "envelope_names w (JObj pl)" for x pl
    using assms(2)
  proof (cases rule: load_inboxE)
    case (present x')
    with x have "same_inbox_row key k x x" by (simp add: same_inbox_row_def)
    with present x have "inbox_row_update p w pl (x_status x) x \<in> set (update_rows
        (same_inbox_row key k x) (inbox_row_update p w pl (x_status x)) (inbox d))"
      by (auto intro: update_rows_memI)
    with present x pl names assms(1,4) show ?thesis
      by (auto simp: inbox_agrees_def list_ex_iff write_inbox_def inbox_row_update_def
          split: if_splits intro!: bexI [rotated])
  qed (simp add: x)
  from assms(3) show ?thesis
  proof (cases rule: load_sourceE)
    case (zotero x b c pl)
    then show ?thesis by (intro * [of x pl]) (simp_all add: merge_zotero_names)
  next
    case (crawler x b c pl)
    then show ?thesis by (intro * [of x pl]) (simp_all add: merge_crawler_names)
  qed (auto simp: inbox_agrees_def)
qed

lemma agrees_frames [frame_simps]:
  "command_agrees (d\<lparr>inbox := xs\<rparr>) key w r = command_agrees d key w r"
  "command_agrees (d\<lparr>batches := bs\<rparr>) key w r = command_agrees d key w r"
  "inbox_agrees (d\<lparr>batches := bs\<rparr>) key w r k = inbox_agrees d key w r k"
  by (simp_all add: command_agrees_def inbox_agrees_def)

lemma write_projection_agrees:
  assumes w: "write_projection d key p w t k sb ib bt = Inr d'"
    and plan: "load_plan d key p w = Some (r, k, ib, bt, sb)"
  shows "batch_agrees d' key w k" "command_agrees d' key w r" "inbox_agrees d' key w r k"
proof -
  from w obtain d1 d2 d3 where
    d1: "write_intake d key w t k = Inr d1" and d2: "write_source d1 key w t sb = Inr d2" and
    d3: "write_inbox d2 key p w k ib (binding_payload sb) = Inr d3" and
    d4: "write_batch d3 key w t bt = Inr d'"
    by (rule write_projectionE)
  note f1 = write_intake_frame [OF d1] and f2 = write_source_frame [OF d2]
    and f3 = write_inbox_frame [OF d3] and f4 = write_batch_frame [OF d4]
  from plan have li: "load_inbox d key w k = Some ib"
    and lb: "load_batch d key w k = Some bt" and ls: "load_source d key p w r ib bt = Some sb"
    by (auto elim: load_planE)
  show "batch_agrees d' key w k" by (rule write_batch_agrees [OF d4 lb]) (simp add: f1 f2 f3)
  have "command_agrees d2 key w r" by (rule write_source_agrees [OF d2 ls]) (simp_all add: f1)
  then show "command_agrees d' key w r" by (simp add: command_agrees_def f3 f4)
  have "inbox_agrees d3 key w r k" by (rule write_inbox_agrees [OF d3 li ls]) (simp add: f1 f2)
  then show "inbox_agrees d' key w r k" by (simp add: inbox_agrees_def f4)
qed

lemma keyed_intake_update [simp]: "keyed_intake key (intake_row_update w t k) = keyed_intake key k"
  by (simp add: keyed_intake_def intake_row_update_def)

lemma agrees_intake_update [simp]:
  "batch_agrees d key w (intake_row_update w' t k) = batch_agrees d key w k"
  "inbox_agrees d key w r (intake_row_update w' t k) = inbox_agrees d key w r k"
  by (simp_all add: batch_agrees_def inbox_agrees_def intake_row_update_def)

lemma project_agrees:
  assumes "project_lifecycle d key p (Some t) = Inr (True, d')" "desired_lifecycle p = Inr w"
  shows "lifecycle_agrees d' key w"
  using assms(1)
proof (cases rule: project_lifecycleE)
  case (applied w' r k ib bt sb)
  with assms(2) have [simp]: "w' = w" by simp
  from applied have r: "locked_receipt d key = Some r"
    and k: "List.find (keyed_intake key) (intakes d) = Some k"
    by (auto elim!: load_planE load_authorityE)
  have "same_intake_row key k k" using find_SomeD [OF k] by (simp add: same_intake_row_def)
  then have "List.find (keyed_intake key) (intakes d') = Some (intake_row_update w t k)"
    using k write_projection_intakes [OF applied(4)] by (simp add: find_update_rows)
  moreover have "locked_receipt d' key = Some r"
    using r write_projection_frame [OF applied(4)] by (simp add: locked_receipt_def outside_same_def)
  ultimately show ?thesis
    using write_projection_agrees [OF applied(4,3)]
    by (simp add: lifecycle_agrees_def) (simp add: intake_row_update_def)
qed simp

section \<open>Properties\<close>

text \<open>A crawler import at the end of its download: its five rows, every other table empty.\<close>

definition sample_key :: authority_key where
  "sample_key = \<lparr>ak_org = ''o'', ak_intakeId = ''k'', ak_documentId = ''d'', ak_assetId = ''a'',
     ak_ingestReceiptId = ''r''\<rparr>"

definition sample_db :: db where
  "sample_db =
     \<lparr>jobs = [], attempts = [], documents = [], assets = [], document_assets = [],
      receipts = [\<lparr>r_id = ''r'', r_org = ''o'', r_source = CRAWLER, r_intakeId = ''k'',
        r_assetId = ''a'', r_documentId = ''d'', r_inboxEntryId = Some ''x'',
        r_importBatchId = Some ''b'', r_zoteroAttachmentImportId = None,
        r_crawlerImportId = Some ''c'', r_declaredMimeType = ''application/pdf'',
        r_receivedSizeBytes = 10, r_sha256 = ''h'', r_storageVersion = ''v1'',
        r_storageAuthorityGeneration = None\<rparr>],
      intakes = [\<lparr>k_id = ''k'', k_org = ''o'', k_source = CRAWLER, k_status = QUARANTINED,
        k_documentId = ''d'', k_assetId = ''a'', k_inboxEntryId = Some ''x'',
        k_importBatchId = Some ''b'', k_failureCode = None, k_completedAt = None\<rparr>],
      inbox = [\<lparr>x_id = ''x'', x_org = ''o'', x_importBatchId = Some ''b'',
        x_documentId = Some ''d'', x_source = S_CRAWLER, x_status = X_NEEDS_REVIEW,
        x_payload = JObj (crawler_payload_fields \<lparr>cp_crawlerImportId = ''c'',
          cp_importStatus = ''QUARANTINED'', cp_phase = ''fetch''\<rparr>),
        x_failureCode = None, x_failureMessage = None\<rparr>],
      batches = [\<lparr>b_id = ''b'', b_org = ''o'', b_source = S_CRAWLER, b_status = B_RUNNING,
        b_totalCount = 1, b_processedCount = 0, b_successCount = 0, b_failureCount = 0,
        b_completedAt = None\<rparr>],
      zotero_imports = [],
      crawler_imports = [\<lparr>c_id = ''c'', c_org = ''o'', c_intakeId = ''k'', c_documentId = ''d'',
        c_assetId = ''a'', c_status = QUARANTINED, c_failureCode = None, c_completedAt = None\<rparr>],
      attestations = [], extractions = [], chunks = [], admissions = [], provenances = [],
      audits = []\<rparr>"

definition sample_run :: "(authority_key \<times> projection \<times> millis option) list" where
  "sample_run =
     [(sample_key, Validation_claim, Some 5), (sample_key, Validation_accepted, Some 6),
      (sample_key, Extraction_claim, Some 7), (sample_key, Extraction_ready, Some 8)]"

text \<open>
  C5. The four carriers of an intake's status move together: when
  \<open>projectDocumentPipelineLifecycle\<close> answers true, the intake row, its import command, its batch
  and the importStatus/phase of its Inbox envelope are all at the stage's desired status.
\<close>

theorem lifecycle_agreement:
  assumes "project_lifecycle d key p (Some t) = Inr (True, d')"
  shows "\<exists>w. desired_lifecycle p = Inr w \<and> lifecycle_agrees d' key w"
proof -
  from assms obtain w where "desired_lifecycle p = Inr w" by (cases rule: project_lifecycleE) auto
  with project_agrees [OF assms] show ?thesis by blast
qed

theorem lifecycle_agreement_witness:
  "\<exists>d' w. project_lifecycle sample_db sample_key Validation_claim (Some 5) = Inr (True, d')
     \<and> desired_lifecycle Validation_claim = Inr w \<and> lifecycle_agrees d' sample_key w"
proof -
  have "map_sum id fst (project_lifecycle sample_db sample_key Validation_claim (Some 5)) = Inr True"
    by code_simp
  then obtain d' where "project_lifecycle sample_db sample_key Validation_claim (Some 5) = Inr (True, d')"
    by (auto simp: map_sum_Inr_iff)
  with lifecycle_agreement [OF this] show ?thesis by blast
qed

text \<open>
  READY, FAILED and CANCELLED are final: whatever projections run afterwards, in any order and
  with any keys, the row of such an intake stays as it is, timestamps and failure code included.
\<close>

theorem lifecycle_final:
  assumes "k \<in> set (intakes d)" "k_status k \<in> {READY, FAILED, CANCELLED}"
  shows "k \<in> set (intakes (run_projections d ps))"
  using assms(1)
  by (rule run_projections_invariant [where I = "\<lambda>d. k \<in> set (intakes d)"])
    (use assms(2) in \<open>blast intro: list_all2_closed project_intakes_evolve
       intro!: closed_status_def [THEN iffD2]\<close>)

theorem lifecycle_final_witness:
  "\<exists>k \<in> set (intakes (run_projections sample_db sample_run)). k_status k = READY
     \<and> k \<in> set (intakes (run_projections (run_projections sample_db sample_run)
            [(sample_key, Validation_failed ''late'' Verification_rejected, Some 9)]))"
proof -
  have "list_ex (\<lambda>k. k_status k = READY) (intakes (run_projections sample_db sample_run))"
    by code_simp
  then obtain k where "k \<in> set (intakes (run_projections sample_db sample_run))" "k_status k = READY"
    by (auto simp: list_ex_iff)
  with lifecycle_final [of k] show ?thesis by blast
qed

text \<open>
  The conditional updates never lose a row they have read: on a database with unique keys,
  with a valid timestamp and a valid failure code, a projection never throws one of its
  ``changed concurrently'' errors, it is applied as a whole or refused.
\<close>

theorem lifecycle_no_conflict:
  assumes "keys_unique d" "desired_lifecycle p = Inr w"
  shows "\<exists>ok d'. project_lifecycle d key p (Some t) = Inr (ok, d')
           \<and> (ok \<longleftrightarrow> load_plan d key p w \<noteq> None)"
proof (cases "load_plan d key p w")
  case None
  with assms(2) have "project_lifecycle d key p (Some t) = Inr (False, d)"
    by (simp add: project_lifecycle_def)
  with None show ?thesis by blast
next
  case (Some plan)
  then obtain r k ib bt sb where plan: "load_plan d key p w = Some (r, k, ib, bt, sb)"
    by (cases plan) auto
  from write_projection_total [OF assms(1) plan] obtain d' where
    "write_projection d key p w t k sb ib bt = Inr d'" by blast
  with plan assms(2) have "project_lifecycle d key p (Some t) = Inr (True, d')"
    by (simp add: project_lifecycle_def)
  with plan show ?thesis by blast
qed

theorem lifecycle_no_conflict_witness:
  "\<exists>ok d'. project_lifecycle sample_db sample_key (Validation_failed ''bad_pdf'' Verification_rejected)
     (Some 5) = Inr (ok, d')"
proof -
  have "keys_unique sample_db" by code_simp
  moreover have "desired_lifecycle (Validation_failed ''bad_pdf'' Verification_rejected)
      = Inr (desired_validation_failed ''bad_pdf'')" by code_simp
  ultimately show ?thesis using lifecycle_no_conflict [of sample_db] by blast
qed

text \<open>
  A projection is confined: it writes only intakes, import commands, Inbox entries and
  batches, a refusal writes nothing, and every intake row either stays as it was or keeps its
  identity columns and takes one transition of \<open>intake_step\<close>.
\<close>

theorem lifecycle_confined:
  assumes "project_lifecycle d key p (Some t) = Inr (ok, d')"
  shows "outside_same d d' \<and> list_all2 intake_evolves (intakes d) (intakes d') \<and> (ok \<or> d' = d)"
  using project_outside_same [OF assms] project_intakes_evolve [OF assms] project_refused assms
  by (cases ok) auto

theorem lifecycle_confined_witness:
  "\<exists>d'. project_lifecycle sample_db sample_key Extraction_ready (Some 5) = Inr (False, d')
     \<and> outside_same sample_db d' \<and> d' = sample_db"
proof -
  have "map_sum id fst (project_lifecycle sample_db sample_key Extraction_ready (Some 5)) = Inr False"
    by code_simp
  then obtain d' where "project_lifecycle sample_db sample_key Extraction_ready (Some 5) = Inr (False, d')"
    by (auto simp: map_sum_Inr_iff)
  with lifecycle_confined [OF this] show ?thesis by blast
qed

end
