(* ===== verification/Transactions.thy ===== *)
theory Transactions
  imports Prelude
begin

text \<open>
  Runs of transactions, and the contracts the services' transactions are shown to meet. A transaction
  takes the state of the database to a value and a new state, or throws; one that throws leaves the
  state as it was. The document workers and the collaboration service interpret the same three
  contracts: an invariant every transaction preserves, facts that stay once they hold, and an abstract
  system every transaction is a step of.
\<close>

fun run_events :: "('e \<Rightarrow> 's \<Rightarrow> 'x + ('a \<times> 's)) \<Rightarrow> 'e list \<Rightarrow> 's \<Rightarrow> 's" where
  "run_events run [] d = d"
| "run_events run (e # es) d =
     (case run e d of
        Inl x \<Rightarrow> run_events run es d
      | Inr (a, d') \<Rightarrow> run_events run es d')"

lemma run_events_append: "run_events run (es @ fs) d = run_events run fs (run_events run es d)"
  by (induction es arbitrary: d) (auto split: sum.split)

text \<open>
  An invariant: \<open>admissible\<close> says of an event what its transaction may rely on (that a UUID it draws is
  not the empty string, say).
\<close>

locale transactions =
  fixes run :: "'e \<Rightarrow> 's \<Rightarrow> 'x + ('a \<times> 's)" and admissible :: "'e \<Rightarrow> bool" and inv :: "'s \<Rightarrow> bool"
  assumes preserved: "admissible e \<Longrightarrow> inv d \<Longrightarrow> run e d = Inr (a, d') \<Longrightarrow> inv d'"
begin

lemma run_inv: "list_all admissible es \<Longrightarrow> inv d \<Longrightarrow> inv (run_events run es d)"
  by (induction es arbitrary: d) (auto split: sum.split intro: preserved)

end

text \<open>Facts that stay: once \<open>holds k\<close> is true of the database, no transaction makes it false.\<close>

locale keeping = transactions run admissible inv
  for run :: "'e \<Rightarrow> 's \<Rightarrow> 'x + ('a \<times> 's)" and admissible inv +
  fixes holds :: "'k \<Rightarrow> 's \<Rightarrow> bool"
  assumes kept: "admissible e \<Longrightarrow> inv d \<Longrightarrow> run e d = Inr (a, d') \<Longrightarrow> holds k d \<Longrightarrow> holds k d'"
begin

lemma run_kept: "list_all admissible es \<Longrightarrow> inv d \<Longrightarrow> holds k d \<Longrightarrow> holds k (run_events run es d)"
  by (induction es arbitrary: d) (auto split: sum.split intro: preserved kept)

end

text \<open>Refinement: a transaction is a sequence of steps of an abstract system, seen through \<open>abs\<close>.\<close>

locale refining = transactions run admissible inv
  for run :: "'e \<Rightarrow> 's \<Rightarrow> 'x + ('a \<times> 's)" and admissible inv +
  fixes abs :: "'s \<Rightarrow> 'q" and step :: "'e \<Rightarrow> 'q \<Rightarrow> 'q \<Rightarrow> bool"
  assumes refines: "admissible e \<Longrightarrow> inv d \<Longrightarrow> run e d = Inr (a, d') \<Longrightarrow> (step e)\<^sup>*\<^sup>* (abs d) (abs d')"
begin

lemma run_refines:
  "list_all admissible es \<Longrightarrow> inv d
    \<Longrightarrow> (\<lambda>q q'. list_ex (\<lambda>e. step e q q') es)\<^sup>*\<^sup>* (abs d) (abs (run_events run es d))"
proof (induction es arbitrary: d)
  case (Cons e es)
  let ?any = "\<lambda>q q'. list_ex (\<lambda>e. step e q q') (e # es)"
  have later: "?any\<^sup>*\<^sup>* (abs x) (abs (run_events run es x))" if "inv x" for x
    using Cons.IH [OF _ that] Cons.prems(1) by (auto elim!: rtranclp_mono [THEN predicate2D, rotated])
  show ?case
  proof (cases "run e d")
    case (Inr p)
    obtain a d' where "p = (a, d')" by (cases p)
    with Inr have r: "run e d = Inr (a, d')" by simp
    have "(step e)\<^sup>*\<^sup>* (abs d) (abs d')" using Cons.prems r by (auto intro: refines)
    then have "?any\<^sup>*\<^sup>* (abs d) (abs d')" by (auto elim!: rtranclp_mono [THEN predicate2D, rotated])
    moreover have "inv d'" using Cons.prems r by (auto intro: preserved)
    ultimately show ?thesis using later r by (auto intro: rtranclp_trans)
  qed (use later Cons.prems in simp)
qed simp

end

end
