(* ===== verification/Job_Queue.thy ===== *)
theory Job_Queue
  imports Intake_Lifecycle Transactions
begin

text \<open>
  What the leased document jobs share (\<open>validation-jobs.ts\<close>, \<open>extraction-jobs.ts\<close>): the selection of
  a claimable job, the job and attempt rows each transition writes, the retry delay; and the
  abstract queue they refine: a step relation on the job and attempt tables, its invariant
  (bounded attempt counters, lease columns present exactly while running, at most one running
  attempt per job, owned by the job's current lease) and the finality of settled jobs. The locale
  \<open>leased_queue\<close> is the contract a family of handlers has with this queue.
\<close>

section \<open>Shared operations\<close>

definition valid_identifier :: "int \<Rightarrow> string \<Rightarrow> bool" where
  "valid_identifier max_bytes v \<longleftrightarrow> js_length v > 0 \<and> utf8_bytes v \<le> max_bytes"

definition require_worker_id :: "string \<Rightarrow> tx_error + string" where
  "require_worker_id workerId =
     (let normalized = js_trim workerId
      in if valid_identifier 200 normalized then Inr normalized
         else Inl (TypeError ''A bounded worker identifier is required.''))"

definition min_lease_ttl_ms :: int where "min_lease_ttl_ms = 10000"
definition max_lease_ttl_ms :: int where "max_lease_ttl_ms = 900000"

definition require_lease_ttl :: "string \<Rightarrow> jnum \<Rightarrow> tx_error + int" where
  "require_lease_ttl msg ttl =
     (if bounded_integer min_lease_ttl_ms max_lease_ttl_ms ttl then Inr (num_val ttl)
      else Inl (TypeError msg))"

definition retry_delay_ms :: "int \<Rightarrow> int" where
  "retry_delay_ms attemptNumber = min 900000 (5000 * 2 ^ nat (max 0 (attemptNumber - 1)))"

text \<open>\<open>validationPipelineKey\<close>/\<open>extractionPipelineKey\<close>: all four columns non-null and non-empty.\<close>

definition job_pipeline_key :: "job \<Rightarrow> authority_key option" where
  "job_pipeline_key j =
     (if truthy (j_documentId j) \<and> truthy (j_assetId j) \<and> truthy (j_intakeId j)
         \<and> truthy (j_ingestReceiptId j)
      then Some \<lparr>ak_org = j_org j, ak_intakeId = the (j_intakeId j),
                 ak_documentId = the (j_documentId j), ak_assetId = the (j_assetId j),
                 ak_ingestReceiptId = the (j_ingestReceiptId j)\<rparr>
      else None)"

section \<open>Selecting a job\<close>

text \<open>A nullable \<open>leaseExpiresAt <= now\<close>: null is never in the past.\<close>

fun expired :: "millis \<Rightarrow> millis option \<Rightarrow> bool" where
  "expired now None \<longleftrightarrow> False"
| "expired now (Some t) \<longleftrightarrow> t \<le> now"

text \<open>The claimable part of the candidate query, shared by both job types.\<close>

definition claim_candidate :: "millis \<Rightarrow> job \<Rightarrow> bool" where
  "claim_candidate now j \<longleftrightarrow>
     (j_status j \<in> {J_QUEUED, J_RETRYING}
       \<and> ((j_runAfter j \<le> now \<and> j_attempts j < j_maxAttempts j) \<or> j_attempts j \<ge> j_maxAttempts j))
     \<or> (j_status j = J_RUNNING \<and> expired now (j_leaseExpiresAt j))"

text \<open>
  What a claim transaction takes from outside: the rows other transactions have locked
  (\<open>SKIP LOCKED\<close>), the collation's order on ids, and the two UUIDs it draws.
\<close>

record claim_env =
  ce_locked :: "ident \<Rightarrow> bool"
  ce_id_less :: "ident \<Rightarrow> ident \<Rightarrow> bool"
  ce_leaseId :: ident
  ce_attemptId :: ident

text \<open>\<open>ORDER BY "priority" DESC, "runAfter", "createdAt", "id"\<close>\<close>

definition claim_before :: "(ident \<Rightarrow> ident \<Rightarrow> bool) \<Rightarrow> job \<Rightarrow> job \<Rightarrow> bool" where
  "claim_before id_less a b \<longleftrightarrow>
     (if j_priority a \<noteq> j_priority b then j_priority a > j_priority b
      else if j_runAfter a \<noteq> j_runAfter b then j_runAfter a < j_runAfter b
      else if j_createdAt a \<noteq> j_createdAt b then j_createdAt a < j_createdAt b
      else id_less (j_id a) (j_id b))"

fun first_by :: "('a \<Rightarrow> 'a \<Rightarrow> bool) \<Rightarrow> 'a list \<Rightarrow> 'a option" where
  "first_by prior [] = None"
| "first_by prior (x # xs) =
     (case first_by prior xs of
        None \<Rightarrow> Some x
      | Some y \<Rightarrow> (if prior y x then Some y else Some x))"

definition select_candidate :: "claim_env \<Rightarrow> (job \<Rightarrow> bool) \<Rightarrow> job list \<Rightarrow> job option" where
  "select_candidate env P js =
     first_by (claim_before (ce_id_less env)) (filter (\<lambda>j. P j \<and> \<not> ce_locked env (j_id j)) js)"

lemma first_by_mem: "first_by b xs = Some x \<Longrightarrow> x \<in> set xs"
  by (induction xs arbitrary: x) (auto split: option.splits if_splits)

lemma first_by_None [simp]: "first_by b xs = None \<longleftrightarrow> xs = []"
  by (cases xs) (auto split: option.splits if_splits)

lemma select_candidateD:
  "select_candidate env P js = Some j \<Longrightarrow> j \<in> set js \<and> P j \<and> \<not> ce_locked env (j_id j)"
  by (auto simp: select_candidate_def dest!: first_by_mem)

lemma select_candidate_None:
  "select_candidate env P js = None \<longleftrightarrow> (\<forall>j \<in> set js. P j \<longrightarrow> ce_locked env (j_id j))"
  by (auto simp: select_candidate_def filter_empty_conv)

text \<open>With a strict weak order, no other candidate comes before the selected one.\<close>

lemma first_by_least:
  assumes "first_by b xs = Some x" "\<And>x y. b x y \<Longrightarrow> \<not> b y x"
    and "\<And>x y z. \<not> b x y \<Longrightarrow> \<not> b y z \<Longrightarrow> \<not> b x z"
  shows "\<forall>y \<in> set xs. \<not> b y x"
  using assms(1)
proof (induction xs arbitrary: x)
  case (Cons a xs)
  show ?case
  proof (cases "first_by b xs")
    case None
    with Cons.prems assms(2) [of x x] show ?thesis by auto
  next
    case (Some y)
    then have *: "\<forall>z \<in> set xs. \<not> b z y" by (rule Cons.IH)
    show ?thesis
    proof (cases "b y a")
      case True
      with Cons.prems Some have [simp]: "x = y" by simp
      have "\<not> b a y" by (rule assms(2) [OF True])
      with * show ?thesis by simp
    next
      case False
      with Cons.prems Some have [simp]: "x = a" by simp
      have "\<not> b a a" using assms(2) [of a a] by blast
      moreover have "\<not> b z a" if "z \<in> set xs" for z
        by (rule assms(3) [OF _ False]) (use * that in blast)
      ultimately show ?thesis by simp
    qed
  qed
qed simp

section \<open>The rows a transition writes\<close>

text \<open>The four lease columns cleared.\<close>

definition unlock_row :: "job \<Rightarrow> job" where
  "unlock_row j = j\<lparr>j_lockedAt := None, j_lockedBy := None, j_leaseId := None,
                    j_leaseExpiresAt := None\<rparr>"

definition claim_row :: "millis \<Rightarrow> string \<Rightarrow> ident \<Rightarrow> millis \<Rightarrow> int \<Rightarrow> job \<Rightarrow> job" where
  "claim_row now workerId leaseId leaseExpiresAt attemptNumber j =
     j\<lparr>j_status := J_RUNNING, j_attempts := attemptNumber, j_lockedAt := Some now,
       j_lockedBy := Some workerId, j_leaseId := Some leaseId,
       j_leaseExpiresAt := Some leaseExpiresAt, j_completedAt := None,
       j_lastErrorCode := None, j_lastErrorMessage := None\<rparr>"

definition succeed_row :: "millis \<Rightarrow> fields \<Rightarrow> job \<Rightarrow> job" where
  "succeed_row now result j =
     unlock_row (j\<lparr>j_status := J_SUCCEEDED, j_result := JObj result, j_completedAt := Some now,
                   j_lastErrorCode := None, j_lastErrorMessage := None\<rparr>)"

definition retry_row :: "millis \<Rightarrow> string \<Rightarrow> string \<Rightarrow> job \<Rightarrow> job" where
  "retry_row runAfter errorCode message j =
     unlock_row (j\<lparr>j_status := J_RETRYING, j_runAfter := runAfter, j_completedAt := None,
                   j_lastErrorCode := Some errorCode, j_lastErrorMessage := Some message\<rparr>)"

definition dead_letter_row :: "millis \<Rightarrow> string \<Rightarrow> string \<Rightarrow> job \<Rightarrow> job" where
  "dead_letter_row now errorCode message j =
     unlock_row (j\<lparr>j_status := J_DEAD_LETTER, j_completedAt := Some now,
                   j_lastErrorCode := Some errorCode, j_lastErrorMessage := Some message\<rparr>)"

definition close_attempt_row ::
    "job_status \<Rightarrow> millis \<Rightarrow> string \<Rightarrow> string \<Rightarrow> job_attempt \<Rightarrow> job_attempt" where
  "close_attempt_row status now errorCode message t =
     t\<lparr>t_status := status, t_completedAt := Some now, t_errorCode := Some errorCode,
       t_errorMessage := Some message\<rparr>"

definition succeed_attempt_row :: "millis \<Rightarrow> fields \<Rightarrow> job_attempt \<Rightarrow> job_attempt" where
  "succeed_attempt_row now result t =
     t\<lparr>t_status := J_SUCCEEDED, t_completedAt := Some now, t_result := JObj result\<rparr>"

definition open_attempt :: "job \<Rightarrow> millis \<Rightarrow> string \<Rightarrow> ident \<Rightarrow> ident \<Rightarrow> int \<Rightarrow> job_attempt" where
  "open_attempt j now workerId attemptId leaseId attemptNumber =
     \<lparr>t_id = attemptId, t_org = j_org j, t_jobId = j_id j, t_attemptNumber = attemptNumber,
      t_status = J_RUNNING, t_workerId = Some workerId, t_leaseId = Some leaseId,
      t_errorCode = None, t_errorMessage = None, t_result = JNull, t_startedAt = now,
      t_completedAt = None\<rparr>"

lemmas job_rows = unlock_row_def claim_row_def succeed_row_def retry_row_def dead_letter_row_def
lemmas attempt_rows = close_attempt_row_def succeed_attempt_row_def open_attempt_def

lemma job_rows_identity [simp]:
  "j_id (claim_row n w l e a j) = j_id j" "j_org (claim_row n w l e a j) = j_org j"
  "j_id (succeed_row n r j) = j_id j" "j_org (succeed_row n r j) = j_org j"
  "j_id (retry_row n c m j) = j_id j" "j_org (retry_row n c m j) = j_org j"
  "j_id (dead_letter_row n c m j) = j_id j" "j_org (dead_letter_row n c m j) = j_org j"
  by (simp_all add: job_rows)

lemma retry_delay_bounds: "5000 \<le> retry_delay_ms n" "retry_delay_ms n \<le> 900000"
proof -
  have "(1::int) \<le> 2 ^ nat (max 0 (n - 1))" by simp
  then show "5000 \<le> retry_delay_ms n" unfolding retry_delay_ms_def by linarith
qed (simp add: retry_delay_ms_def)

lemma retry_delay_mono: "m \<le> n \<Longrightarrow> retry_delay_ms m \<le> retry_delay_ms n"
  unfolding retry_delay_ms_def by (intro min.mono mult_left_mono power_increasing nat_mono) auto

section \<open>The abstract queue\<close>

type_synonym queue = "job list \<times> job_attempt list"

definition queue_of :: "db \<Rightarrow> queue" where
  "queue_of d = (jobs d, attempts d)"

definition lease_live :: "millis \<Rightarrow> job \<Rightarrow> bool" where
  "lease_live now j \<longleftrightarrow>
     j_status j = J_RUNNING \<and> j_leaseExpiresAt j \<noteq> None \<and> \<not> expired now (j_leaseExpiresAt j)"

definition settled :: "job \<Rightarrow> bool" where
  "settled j \<longleftrightarrow> j_status j \<in> {J_SUCCEEDED, J_FAILED, J_CANCELLED, J_DEAD_LETTER}"

abbreviation same_job :: "job \<Rightarrow> job \<Rightarrow> bool" where
  "same_job j \<equiv> job_key (j_org j) (j_id j)"

definition attempt_closes :: "job \<Rightarrow> job_attempt \<Rightarrow> job_attempt \<Rightarrow> bool" where
  "attempt_closes j t t' \<longleftrightarrow>
     t' = t \<or>
     (t_jobId t = j_id j \<and> t_status t = J_RUNNING \<and> t_status t' \<noteq> J_RUNNING
       \<and> t_id t' = t_id t \<and> t_org t' = t_org t \<and> t_jobId t' = t_jobId t
       \<and> t_attemptNumber t' = t_attemptNumber t \<and> t_leaseId t' = t_leaseId t)"

text \<open>Every running attempt of the job is closed, and nothing else changes.\<close>

definition closes :: "job \<Rightarrow> job_attempt list \<Rightarrow> job_attempt list \<Rightarrow> bool" where
  "closes j ts ts' \<longleftrightarrow>
     list_all2 (attempt_closes j) ts ts'
     \<and> (\<forall>t \<in> set ts'. t_jobId t = j_id j \<longrightarrow> t_status t \<noteq> J_RUNNING)"

inductive queue_step :: "millis \<Rightarrow> queue \<Rightarrow> queue \<Rightarrow> bool" for now where
  enqueue:
    "\<lbrakk> j_status j = J_QUEUED; j_attempts j = 0; 0 < j_maxAttempts j; unlock_row j = j;
       j_completedAt j = None; \<forall>x \<in> set js. j_id x \<noteq> j_id j \<rbrakk>
     \<Longrightarrow> queue_step now (js, ts) (js @ [j], ts)"
| claim:
    "\<lbrakk> j \<in> set js; claim_candidate now j; j_attempts j < j_maxAttempts j; now < expiry;
       closes j ts ts'; t = open_attempt j now worker attempt lease (j_attempts j + 1);
       \<forall>x \<in> set ts. t_id x \<noteq> attempt; lease \<noteq> [] \<rbrakk>
     \<Longrightarrow> queue_step now (js, ts)
           (update_rows (same_job j) (claim_row now worker lease expiry (j_attempts j + 1)) js,
            ts' @ [t])"
| heartbeat:
    "\<lbrakk> j \<in> set js; lease_live now j; now < expiry \<rbrakk>
     \<Longrightarrow> queue_step now (js, ts)
           (update_rows (same_job j) (\<lambda>r. r\<lparr>j_leaseExpiresAt := Some expiry\<rparr>) js, ts)"
| succeed:
    "\<lbrakk> j \<in> set js; lease_live now j; closes j ts ts' \<rbrakk>
     \<Longrightarrow> queue_step now (js, ts) (update_rows (same_job j) (succeed_row now result) js, ts')"
| retry:
    "\<lbrakk> j \<in> set js; lease_live now j; j_attempts j < j_maxAttempts j; now < later; closes j ts ts' \<rbrakk>
     \<Longrightarrow> queue_step now (js, ts) (update_rows (same_job j) (retry_row later c m) js, ts')"
| dead_letter:
    "\<lbrakk> j \<in> set js; j_status j \<in> {J_QUEUED, J_RETRYING, J_RUNNING}; closes j ts ts' \<rbrakk>
     \<Longrightarrow> queue_step now (js, ts) (update_rows (same_job j) (dead_letter_row now c m) js, ts')"
| deferral:
    "\<lbrakk> j \<in> set js; lease_live now j; 1 \<le> j_attempts j; now < later;
       \<exists>t \<in> set ts. t_jobId t = j_id j \<and> t_status t = J_RUNNING;
       ts' = filter (\<lambda>t. \<not> (t_jobId t = j_id j \<and> t_status t = J_RUNNING)) ts \<rbrakk>
     \<Longrightarrow> queue_step now (js, ts)
           (update_rows (same_job j)
              (\<lambda>r. (retry_row later c m r)\<lparr>j_attempts := j_attempts j - 1\<rparr>) js, ts')"

inductive_cases queue_stepE: "queue_step now (js, ts) (js', ts')"

section \<open>Its invariant\<close>

definition job_ok :: "job \<Rightarrow> bool" where
  "job_ok j \<longleftrightarrow>
     0 \<le> j_attempts j \<and> j_attempts j \<le> j_maxAttempts j
     \<and> (j_status j = J_RUNNING \<longleftrightarrow> j_leaseId j \<noteq> None)
     \<and> j_leaseId j \<noteq> Some []
     \<and> (j_leaseId j = None \<longleftrightarrow> j_leaseExpiresAt j = None)
     \<and> (j_leaseId j = None \<longleftrightarrow> j_lockedBy j = None)
     \<and> (j_leaseId j = None \<longleftrightarrow> j_lockedAt j = None)
     \<and> (j_status j \<in> {J_QUEUED, J_RUNNING, J_RETRYING} \<longrightarrow> j_completedAt j = None)
     \<and> (j_status j \<in> {J_SUCCEEDED, J_DEAD_LETTER} \<longrightarrow> j_completedAt j \<noteq> None)"

text \<open>An attempt has its job, its number was drawn by it, and it runs only under its lease.\<close>

definition attempt_ok :: "job list \<Rightarrow> job_attempt \<Rightarrow> bool" where
  "attempt_ok js t \<longleftrightarrow>
     list_ex (\<lambda>j. j_id j = t_jobId t \<and> j_org j = t_org t \<and> 1 \<le> t_attemptNumber t \<and> t_attemptNumber t \<le> j_attempts j
       \<and> (if t_status t = J_RUNNING
          then j_status j = J_RUNNING \<and> j_leaseId j = t_leaseId t \<and> t_attemptNumber t = j_attempts j
          else True)) js"

fun queue_ok :: "queue \<Rightarrow> bool" where
  "queue_ok (js, ts) \<longleftrightarrow>
     distinct (map j_id js) \<and> distinct (map t_id ts)
     \<and> distinct (map (\<lambda>t. (t_jobId t, t_attemptNumber t)) ts)
     \<and> list_all job_ok js \<and> list_all (attempt_ok js) ts"

lemma same_job_unique:
  assumes "distinct (map j_id js)" "j \<in> set js" "x \<in> set js"
  shows "same_job j x \<longleftrightarrow> x = j"
  using assms by (auto simp: job_key_def dest: inj_onD [OF distinct_map [THEN iffD1, THEN conjunct2]])

lemma update_same_job:
  assumes "distinct (map j_id js)" "j \<in> set js"
  shows "update_rows (same_job j) f js = map (\<lambda>x. if x = j then f j else x) js"
  using same_job_unique [OF assms] by (auto simp: update_rows_def)

lemma attempt_okE:
  assumes "attempt_ok js t"
  obtains j where "j \<in> set js" "j_id j = t_jobId t" "j_org j = t_org t" "1 \<le> t_attemptNumber t"
    "t_attemptNumber t \<le> j_attempts j"
    "t_status t = J_RUNNING \<Longrightarrow>
       j_status j = J_RUNNING \<and> j_leaseId j = t_leaseId t \<and> t_attemptNumber t = j_attempts j"
  using assms by (auto simp: attempt_ok_def list_ex_iff split: if_splits)

lemma attempt_okI:
  assumes "j \<in> set js" "j_id j = t_jobId t" "j_org j = t_org t" "1 \<le> t_attemptNumber t"
    "t_attemptNumber t \<le> j_attempts j"
    "t_status t = J_RUNNING \<Longrightarrow>
       j_status j = J_RUNNING \<and> j_leaseId j = t_leaseId t \<and> t_attemptNumber t = j_attempts j"
  shows "attempt_ok js t"
  using assms by (auto simp: attempt_ok_def list_ex_iff)

lemma closes_maps:
  assumes "closes j ts ts'"
  shows "map t_id ts' = map t_id ts"
    "map (\<lambda>t. (t_jobId t, t_attemptNumber t)) ts' = map (\<lambda>t. (t_jobId t, t_attemptNumber t)) ts"
  using assms by (auto simp: closes_def list_all2_conv_all_nth attempt_closes_def list_eq_iff_nth_eq)

lemma closes_memD:
  assumes "closes j ts ts'" "t' \<in> set ts'"
  obtains t where "t \<in> set ts" "attempt_closes j t t'" "t_jobId t' = j_id j \<longrightarrow> t_status t' \<noteq> J_RUNNING"
proof -
  from assms obtain n where n: "n < length ts'" "t' = ts' ! n" by (auto simp: in_set_conv_nth)
  with assms(1) have len: "n < length ts" and "attempt_closes j (ts ! n) t'"
    by (auto simp: closes_def list_all2_conv_all_nth)
  moreover have "t_jobId t' = j_id j \<longrightarrow> t_status t' \<noteq> J_RUNNING"
    using assms by (auto simp: closes_def)
  ultimately show thesis using that [of "ts ! n"] by simp
qed

text \<open>Closing the attempts of a job whose row changes, the others' rows staying as they are.\<close>

lemma attempts_after_close:
  assumes dist: "distinct (map j_id js)" and j: "j \<in> set js"
    and ok: "list_all (attempt_ok js) ts" and cl: "closes j ts ts'"
    and id: "j_id (f j) = j_id j" "j_org (f j) = j_org j" and up: "j_attempts j \<le> j_attempts (f j)"
  shows "list_all (attempt_ok (update_rows (same_job j) f js)) ts'"
  unfolding list_all_iff
proof
  fix t' assume "t' \<in> set ts'"
  with cl obtain t where t: "t \<in> set ts" "attempt_closes j t t'"
    and nr: "t_jobId t' = j_id j \<longrightarrow> t_status t' \<noteq> J_RUNNING" by (rule closes_memD)
  have same: "t_jobId t' = t_jobId t" "t_org t' = t_org t" "t_attemptNumber t' = t_attemptNumber t"
    "t_leaseId t' = t_leaseId t" "t_status t' = J_RUNNING \<Longrightarrow> t_status t = J_RUNNING"
    using t(2) by (auto simp: attempt_closes_def)
  from ok t(1) have "attempt_ok js t" by (simp add: list_all_iff)
  then obtain x where x: "x \<in> set js" "j_id x = t_jobId t" "j_org x = t_org t" "1 \<le> t_attemptNumber t"
    "t_attemptNumber t \<le> j_attempts x"
    "t_status t = J_RUNNING \<Longrightarrow>
       j_status x = J_RUNNING \<and> j_leaseId x = t_leaseId t \<and> t_attemptNumber t = j_attempts x"
    by (rule attempt_okE) blast
  show "attempt_ok (update_rows (same_job j) f js) t'"
  proof (cases "x = j")
    case True
    then have "f j \<in> set (update_rows (same_job j) f js)"
      using j by (auto intro: update_rows_memI simp: job_key_def)
    then show ?thesis
      by (rule attempt_okI) (use True x same id up nr in auto)
  next
    case False
    then have "x \<in> set (update_rows (same_job j) f js)"
      using x(1) by (simp add: update_same_job [OF dist j])
    then show ?thesis
      by (rule attempt_okI) (use x same in auto)
  qed
qed

lemma update_same_job_mem: "j \<in> set js \<Longrightarrow> f j \<in> set (update_rows (same_job j) f js)"
  by (auto intro: update_rows_memI simp: job_key_def)

lemma jobs_ok_update:
  assumes "distinct (map j_id js)" "j \<in> set js" "list_all job_ok js" "job_ok (f j)"
  shows "list_all job_ok (update_rows (same_job j) f js)"
  using assms by (auto simp: update_same_job list_all_iff)

lemma job_ok_rows:
  "job_ok j \<Longrightarrow> 0 \<le> a \<Longrightarrow> a \<le> j_maxAttempts j \<Longrightarrow> l \<noteq> [] \<Longrightarrow>
     job_ok (claim_row now w l e a j)"
  "job_ok j \<Longrightarrow> job_ok (succeed_row now r j)"
  "job_ok j \<Longrightarrow> job_ok (retry_row later c m j)"
  "job_ok j \<Longrightarrow> job_ok (dead_letter_row now c m j)"
  "job_ok j \<Longrightarrow> lease_live now j \<Longrightarrow> job_ok (j\<lparr>j_leaseExpiresAt := Some e\<rparr>)"
  "job_ok j \<Longrightarrow> 1 \<le> j_attempts j \<Longrightarrow>
     job_ok ((retry_row later c m j)\<lparr>j_attempts := j_attempts j - 1\<rparr>)"
  by (auto simp: job_ok_def job_rows lease_live_def)

lemma row_attempts [simp]:
  "j_attempts (succeed_row now r j) = j_attempts j"
  "j_attempts (retry_row later c m j) = j_attempts j"
  "j_attempts (dead_letter_row now c m j) = j_attempts j"
  "j_attempts (claim_row now w l e a j) = a"
  by (simp_all add: job_rows)


lemma list_all_attempt_mono:
  assumes "list_all (attempt_ok js) ts" "set js \<subseteq> set js'"
  shows "list_all (attempt_ok js') ts"
  using assms unfolding list_all_iff attempt_ok_def list_ex_iff by (meson subsetD)

lemma queue_ok_close:
  assumes "queue_ok (js, ts)" "j \<in> set js" "closes j ts ts'" "job_ok (f j)"
    "\<And>x. j_id (f x) = j_id x" "\<And>x. j_org (f x) = j_org x" "j_attempts j \<le> j_attempts (f j)"
  shows "queue_ok (update_rows (same_job j) f js, ts')"
proof -
  from assms have "list_all job_ok (update_rows (same_job j) f js)"
    by (intro jobs_ok_update) auto
  moreover have "list_all (attempt_ok (update_rows (same_job j) f js)) ts'"
    using assms by (intro attempts_after_close) auto
  moreover have "distinct (map j_id (update_rows (same_job j) f js))"
    using assms by (simp add: map_update_rows)
  moreover have "distinct (map t_id ts')"
      "distinct (map (\<lambda>t. (t_jobId t, t_attemptNumber t)) ts')"
    using assms(1) closes_maps [OF assms(3)] by simp_all
  ultimately show ?thesis by simp
qed

lemma queue_step_ok:
  assumes "queue_step now q q'" "queue_ok q"
  shows "queue_ok q'"
  using assms
proof (induction rule: queue_step.induct)
  case (enqueue j js ts)
  then have "job_ok j"
    by (cases j) (auto simp: job_ok_def unlock_row_def)
  with enqueue show ?case
    by (auto simp: image_iff intro: list_all_attempt_mono)
next
  case (claim j js expiry ts ts' t worker attempt lease)
  let ?f = "claim_row now worker lease expiry (j_attempts j + 1)"
  from claim.prems have d: "distinct (map j_id js)" and jo: "job_ok j"
    and ao: "list_all (attempt_ok js) ts"
    using claim.hyps(1) by (auto simp: list_all_iff)
  have fresh: "t_id x \<noteq> t_id t" "(t_jobId x, t_attemptNumber x) \<noteq> (t_jobId t, t_attemptNumber t)"
    if x: "x \<in> set ts'" for x
  proof -
    from closes_memD [OF claim.hyps(5) x] obtain y where y: "y \<in> set ts" "attempt_closes j y x"
      by blast
    then have eq: "t_id x = t_id y" "t_jobId x = t_jobId y" "t_attemptNumber x = t_attemptNumber y"
      by (auto simp: attempt_closes_def)
    from y ao have "attempt_ok js y" by (simp add: list_all_iff)
    then obtain j' where "j' \<in> set js" "j_id j' = t_jobId y" "t_attemptNumber y \<le> j_attempts j'"
      by (rule attempt_okE)
    moreover from this(1,2) have "t_jobId y = j_id j \<Longrightarrow> j' = j"
      using d claim.hyps(1) by (auto simp: distinct_map dest: inj_onD)
    ultimately show "(t_jobId x, t_attemptNumber x) \<noteq> (t_jobId t, t_attemptNumber t)"
      using eq claim.hyps(6) by (auto simp: attempt_rows)
    show "t_id x \<noteq> t_id t" using y eq claim.hyps(6,7) by (auto simp: attempt_rows)
  qed
  have "attempt_ok (update_rows (same_job j) ?f js) t"
    by (rule attempt_okI [OF update_same_job_mem [OF claim.hyps(1)]])
      (use claim.hyps(6) jo in \<open>auto simp: attempt_rows claim_row_def job_ok_def\<close>)
  moreover have "list_all (attempt_ok (update_rows (same_job j) ?f js)) ts'"
    by (rule attempts_after_close [OF d claim.hyps(1) ao claim.hyps(5)]) simp_all
  moreover have "list_all job_ok (update_rows (same_job j) ?f js)"
    using claim.prems claim.hyps(1,3,8) jo
    by (intro jobs_ok_update job_ok_rows) (auto simp: job_ok_def)
  moreover have "distinct (map t_id (ts' @ [t]))"
  proof -
    have "distinct (map t_id ts')" using claim.prems closes_maps(1) [OF claim.hyps(5)] by simp
    then show ?thesis using fresh(1) by force
  qed
  moreover have "distinct (map (\<lambda>t. (t_jobId t, t_attemptNumber t)) (ts' @ [t]))"
  proof -
    have "distinct (map (\<lambda>t. (t_jobId t, t_attemptNumber t)) ts')"
      using claim.prems closes_maps(2) [OF claim.hyps(5)] by simp
    then show ?thesis using fresh(2) by force
  qed
  ultimately show ?case using d by (simp add: map_update_rows)
next
  case (heartbeat j js expiry ts)
  let ?f = "\<lambda>r. r\<lparr>j_leaseExpiresAt := Some expiry\<rparr>"
  from heartbeat have d: "distinct (map j_id js)" "j \<in> set js" by auto
  have "list_all job_ok (update_rows (same_job j) ?f js)"
    using heartbeat by (intro jobs_ok_update job_ok_rows) (auto simp: list_all_iff)
  moreover have "list_all (attempt_ok (update_rows (same_job j) ?f js)) ts"
    unfolding list_all_iff
  proof
    fix t assume "t \<in> set ts"
    with heartbeat have "attempt_ok js t" by (auto simp: list_all_iff)
    then obtain x where x: "x \<in> set js" "j_id x = t_jobId t" "j_org x = t_org t" "1 \<le> t_attemptNumber t"
      "t_attemptNumber t \<le> j_attempts x" "t_status t = J_RUNNING \<Longrightarrow>
         j_status x = J_RUNNING \<and> j_leaseId x = t_leaseId t \<and> t_attemptNumber t = j_attempts x"
      by (rule attempt_okE) blast
    then have "(if x = j then ?f x else x) \<in> set (update_rows (same_job j) ?f js)"
      by (auto simp: update_same_job [OF d])
    then show "attempt_ok (update_rows (same_job j) ?f js) t"
      by (rule attempt_okI) (use x in \<open>auto split: if_splits\<close>)
  qed
  ultimately show ?case using heartbeat by (simp add: map_update_rows)
next
  case (succeed j js ts ts' result)
  then show ?case by (intro queue_ok_close) (auto simp: list_all_iff intro: job_ok_rows)
next
  case (retry j js later ts ts' c m)
  then show ?case by (intro queue_ok_close) (auto simp: list_all_iff intro: job_ok_rows)
next
  case (dead_letter j js ts ts' c m)
  then show ?case by (intro queue_ok_close) (auto simp: list_all_iff intro: job_ok_rows)
next
  case (deferral j js later ts ts' c m)
  let ?f = "\<lambda>r. (retry_row later c m r)\<lparr>j_attempts := j_attempts j - 1\<rparr>"
  from deferral have d: "distinct (map j_id js)" "j \<in> set js" and ao: "list_all (attempt_ok js) ts"
    by auto
  have only: "x = j" if "x \<in> set js" "j_id x = j_id j" for x
    using that d by (auto simp: distinct_map dest: inj_onD)
  from deferral obtain t0 where t0: "t0 \<in> set ts" "t_jobId t0 = j_id j" "t_status t0 = J_RUNNING"
    by blast
  with ao have "attempt_ok js t0" by (simp add: list_all_iff)
  then obtain x0 where "x0 \<in> set js" "j_id x0 = t_jobId t0" "t_attemptNumber t0 = j_attempts x0"
    by (rule attempt_okE) (use t0 in blast)
  with t0 only have n0: "t_attemptNumber t0 = j_attempts j" by metis
  have "attempt_ok (update_rows (same_job j) ?f js) t" if t: "t \<in> set ts'" for t
  proof -
    from t deferral have tin: "t \<in> set ts" and nr: "t_jobId t = j_id j \<Longrightarrow> t_status t \<noteq> J_RUNNING"
      by auto
    with ao have "attempt_ok js t" by (simp add: list_all_iff)
    then obtain x where x: "x \<in> set js" "j_id x = t_jobId t" "j_org x = t_org t" "1 \<le> t_attemptNumber t"
      "t_attemptNumber t \<le> j_attempts x" "t_status t = J_RUNNING \<Longrightarrow>
         j_status x = J_RUNNING \<and> j_leaseId x = t_leaseId t \<and> t_attemptNumber t = j_attempts x"
      by (rule attempt_okE) blast
    show ?thesis
    proof (cases "x = j")
      case True
      have "t \<noteq> t0" using True x(2) nr t0 by auto
      with deferral.prems tin t0 True x(2) have "t_attemptNumber t \<noteq> j_attempts j"
        by (auto simp: n0 [symmetric] distinct_map dest: inj_onD)
      then show ?thesis
        by (intro attempt_okI [OF update_same_job_mem [OF d(2)]])
          (use True x nr in \<open>auto simp: job_rows\<close>)
    next
      case False
      with x(1) have "x \<in> set (update_rows (same_job j) ?f js)"
        by (simp add: update_same_job [OF d])
      then show ?thesis by (rule attempt_okI) (use x in auto)
    qed
  qed
  moreover have "list_all job_ok (update_rows (same_job j) ?f js)"
    using deferral by (intro jobs_ok_update job_ok_rows) (auto simp: list_all_iff)
  ultimately show ?case using deferral.prems deferral.hyps(6)
    by (simp add: map_update_rows list_all_iff distinct_map_filter)
qed

lemma queue_steps_ok: "(queue_step now)\<^sup>*\<^sup>* q q' \<Longrightarrow> queue_ok q \<Longrightarrow> queue_ok q'"
  by (induction rule: rtranclp_induct) (auto intro: queue_step_ok)

section \<open>Settled jobs and lease handover\<close>

lemma settled_kept:
  assumes "distinct (map j_id js)" "x \<in> set js" "j \<in> set js" "x \<noteq> j"
  shows "x \<in> set (update_rows (same_job j) f js)"
  using assms by (simp add: update_same_job)

lemma queue_step_settled:
  assumes "queue_step now q q'" "queue_ok q" "x \<in> set (fst q)" "settled x"
  shows "x \<in> set (fst q')"
  using assms
  by (induction rule: queue_step.induct)
    (auto simp: settled_def lease_live_def claim_candidate_def intro!: settled_kept)

lemma queue_steps_settled:
  "(queue_step now)\<^sup>*\<^sup>* q q' \<Longrightarrow> queue_ok q \<Longrightarrow> x \<in> set (fst q) \<Longrightarrow> settled x \<Longrightarrow> x \<in> set (fst q')"
  by (induction rule: rtranclp_induct) (auto intro: queue_step_settled queue_steps_ok)

text \<open>A running job's lease passes to another holder only after it has expired.\<close>

lemma queue_step_handover:
  assumes "queue_step now q q'" "queue_ok q" "j \<in> set (fst q)" "j' \<in> set (fst q')"
    "j_id j' = j_id j" "j_status j = J_RUNNING" "j_status j' = J_RUNNING" "j_leaseId j' \<noteq> j_leaseId j"
  shows "expired now (j_leaseExpiresAt j)"
  using assms
proof (induction rule: queue_step.induct)
  case (claim i js expiry ts ts' t worker attempt lease)
  then have d: "distinct (map j_id js)" by simp
  show ?case
  proof (cases "i = j")
    case True
    with claim show ?thesis by (auto simp: claim_candidate_def)
  next
    case False
    with claim d have "j' = j"
      by (auto simp: update_same_job distinct_map dest: inj_onD split: if_splits)
    with claim show ?thesis by simp
  qed
qed (auto simp: update_same_job job_rows distinct_map dest: inj_onD split: if_splits)

section \<open>The contract of the job handlers\<close>

text \<open>
  The contract: from a database whose queue is in order, every transaction takes the queue
  through steps of \<open>queue_step\<close> at the event's clock. \<open>admissible\<close> says of an event that the
  UUIDs it draws are not empty strings. It gives the contracts of \<open>Transactions\<close>: the queue stays in
  order, a settled job row stays, and the queue refines \<open>queue_step\<close>.
\<close>

locale leased_queue =
  fixes run :: "'e \<Rightarrow> db \<Rightarrow> 'a tx" and clock :: "'e \<Rightarrow> millis" and admissible :: "'e \<Rightarrow> bool"
  assumes queue_steps:
    "admissible e \<Longrightarrow> queue_ok (queue_of d) \<Longrightarrow> run e d = Inr (a, d')
      \<Longrightarrow> (queue_step (clock e))\<^sup>*\<^sup>* (queue_of d) (queue_of d')"
begin

lemma run_ok:
  "admissible e \<Longrightarrow> queue_ok (queue_of d) \<Longrightarrow> run e d = Inr (a, d') \<Longrightarrow> queue_ok (queue_of d')"
  by (blast intro: queue_steps_ok queue_steps)

lemma run_settled:
  assumes "admissible e" "queue_ok (queue_of d)" "run e d = Inr (a, d')" "j \<in> set (jobs d)" "settled j"
  shows "j \<in> set (jobs d')"
  using queue_steps_settled [OF queue_steps [OF assms(1-3)] assms(2)] assms(4,5)
  by (simp add: queue_of_def)

end

sublocale leased_queue \<subseteq> refining run admissible "\<lambda>d. queue_ok (queue_of d)" queue_of "\<lambda>e. queue_step (clock e)"
  by unfold_locales (auto intro: run_ok queue_steps)

sublocale leased_queue \<subseteq> keeping run admissible "\<lambda>d. queue_ok (queue_of d)" "\<lambda>j d. j \<in> set (jobs d) \<and> settled j"
  by unfold_locales (auto intro: run_settled)

text \<open>What the invariant says of attempts: a job has at most one running attempt.\<close>

lemma queue_ok_one_running:
  assumes "queue_ok (js, ts)" "t \<in> set ts" "t' \<in> set ts" "t_jobId t' = t_jobId t"
    "t_status t = J_RUNNING" "t_status t' = J_RUNNING"
  shows "t' = t"
proof -
  from assms have d: "distinct (map j_id js)" and "attempt_ok js t" "attempt_ok js t'"
    by (auto simp: list_all_iff)
  then obtain j j' where "j \<in> set js" "j' \<in> set js" "j_id j = t_jobId t" "j_id j' = t_jobId t'"
    "t_attemptNumber t = j_attempts j" "t_attemptNumber t' = j_attempts j'"
    using assms(5,6) by (auto elim!: attempt_okE)
  moreover from this assms(4) have "j' = j" by (intro distinct_keyD [OF d]) simp_all
  ultimately have "(t_jobId t', t_attemptNumber t') = (t_jobId t, t_attemptNumber t)"
    using assms(4) by simp
  with assms(1-3) show ?thesis by (auto simp: distinct_map dest: inj_onD)
qed

section \<open>Closing attempts by an update\<close>

lemma running_attempt_job:
  assumes "queue_ok (js, ts)" "j \<in> set js" "t \<in> set ts" "t_jobId t = j_id j" "t_status t = J_RUNNING"
  shows "j_status j = J_RUNNING" "t_leaseId t = j_leaseId j" "t_attemptNumber t = j_attempts j"
    "t_org t = j_org j"
proof -
  from assms have d: "distinct (map j_id js)" and "attempt_ok js t" by (auto simp: list_all_iff)
  then obtain x where x: "x \<in> set js" "j_id x = t_jobId t" "j_status x = J_RUNNING"
    "j_leaseId x = t_leaseId t" "t_attemptNumber t = j_attempts x" "j_org x = t_org t"
    using assms(5) by (auto elim!: attempt_okE)
  with assms have "x = j" by (intro distinct_keyD [OF d]) simp_all
  with x show "j_status j = J_RUNNING" "t_leaseId t = j_leaseId j" "t_attemptNumber t = j_attempts j"
      "t_org t = j_org j"
    by simp_all
qed

lemma closes_update:
  assumes "\<And>t. t \<in> set ts \<Longrightarrow> P t \<longleftrightarrow> t_jobId t = j_id j \<and> t_status t = J_RUNNING"
    and "\<And>t. t_status (f t) \<noteq> J_RUNNING \<and> t_id (f t) = t_id t \<and> t_org (f t) = t_org t
           \<and> t_jobId (f t) = t_jobId t \<and> t_attemptNumber (f t) = t_attemptNumber t
           \<and> t_leaseId (f t) = t_leaseId t"
  shows "closes j ts (update_rows P f ts)"
  using assms
  by (auto simp: closes_def update_rows_def attempt_closes_def list_all2_conv_all_nth)

lemma closes_idle:
  assumes "queue_ok (js, ts)" "j \<in> set js" "j_status j \<noteq> J_RUNNING"
  shows "closes j ts ts"
  using assms running_attempt_job(1) [OF assms(1,2)]
  by (auto simp: closes_def attempt_closes_def intro!: list_all2_refl)

end
