(* ===== verification/Extraction_Queue.thy ===== *)
theory Extraction_Queue
  imports Job_Queue
begin

text \<open>
  Enqueueing a text extraction (\<open>src/server/documents/extraction-jobs.ts\<close>): the closed job payload
  and its parser, the dedupe key that names one job per accepted validation, policy and
  toolchain, and \<open>enqueueDocumentTextExtractionJob\<close>. The lemmas give the round trip of the
  payload, the injectivity of the dedupe key, and what a successful enqueue leaves behind.
\<close>

section \<open>Payload\<close>

definition extraction_policy_version :: string where
  "extraction_policy_version = ''paperpilot-text-extraction-v1''"

definition extraction_storage_version :: string where
  "extraction_storage_version = ''local-quarantine-v2''"

definition extraction_max_attempts :: int where "extraction_max_attempts = 4"

record extraction_payload =
  ep_validationAttestationId :: ident
  ep_policyVersion :: string
  ep_storageVersion :: string
  ep_toolchainDigest :: string

record enqueue_extraction_input =
  xi_organizationId :: ident
  xi_documentId :: ident
  xi_assetId :: ident
  xi_intakeId :: "ident option"
  xi_ingestReceiptId :: "ident option"
  xi_validationAttestationId :: ident
  xi_toolchainDigest :: string
  xi_createdById :: "ident option"
  xi_policyVersion :: "string option"
  xi_storageVersion :: "string option"

fun or_default :: "'a option \<Rightarrow> 'a \<Rightarrow> 'a" where
  "or_default None x = x"
| "or_default (Some y) x = y"

definition require_version :: "(string \<Rightarrow> bool) \<Rightarrow> string \<Rightarrow> string \<Rightarrow> tx_error + string" where
  "require_version pat label v =
     (if pat v then Inr v else Inl (TypeError (label @ '' is invalid.'')))"

definition nonzero_digest :: "string \<Rightarrow> bool" where
  "nonzero_digest s \<longleftrightarrow> sha256_pattern s \<and> \<not> zero_digest s"

definition require_toolchain_digest :: "string \<Rightarrow> tx_error + string" where
  "require_toolchain_digest s =
     (if nonzero_digest s then Inr s
      else Inl (TypeError ''A nonzero expected extraction toolchain digest is required.''))"

definition extraction_dedupe_key :: "ident \<Rightarrow> string \<Rightarrow> string \<Rightarrow> tx_error + string" where
  "extraction_dedupe_key validationAttestationId policyVersion toolchainDigest =
     and_then (throw_unless (valid_identifier 200 validationAttestationId)
       (TypeError ''A bounded validation attestation identifier is required.'')) (\<lambda>_.
     and_then (require_version policy_value_pattern ''Text extraction policy version'' policyVersion) (\<lambda>_.
     and_then (require_toolchain_digest toolchainDigest) (\<lambda>_.
     Inr (''accepted-validation:'' @ validationAttestationId @ '':'' @ policyVersion
            @ '':'' @ toolchainDigest))))"

definition make_extraction_payload :: "enqueue_extraction_input \<Rightarrow> tx_error + extraction_payload" where
  "make_extraction_payload x =
     and_then (throw_unless (valid_identifier 200 (xi_validationAttestationId x))
       (TypeError ''A bounded validation attestation identifier is required.'')) (\<lambda>_.
     and_then (require_version policy_value_pattern ''Text extraction policy version''
       (or_default (xi_policyVersion x) extraction_policy_version)) (\<lambda>pv.
     and_then (require_version safe_value_pattern ''Storage version''
       (or_default (xi_storageVersion x) extraction_storage_version)) (\<lambda>sv.
     and_then (require_toolchain_digest (xi_toolchainDigest x)) (\<lambda>td.
     Inr \<lparr>ep_validationAttestationId = xi_validationAttestationId x, ep_policyVersion = pv,
          ep_storageVersion = sv, ep_toolchainDigest = td\<rparr>))))"

text \<open>The payload as the JSON object stored in the job.\<close>

definition extraction_payload_fields :: "extraction_payload \<Rightarrow> fields" where
  "extraction_payload_fields p =
     [(''schemaVersion'', jint 1), (''source'', JStr ''accepted-document-validation''),
      (''validationAttestationId'', JStr (ep_validationAttestationId p)),
      (''policyVersion'', JStr (ep_policyVersion p)),
      (''storageVersion'', JStr (ep_storageVersion p)),
      (''toolchainDigest'', JStr (ep_toolchainDigest p))]"

text \<open>A string field that passes a test.\<close>

fun str_field :: "(string \<Rightarrow> bool) \<Rightarrow> json option \<Rightarrow> string option" where
  "str_field ok (Some (JStr s)) = (if ok s then Some s else None)"
| "str_field ok _ = None"

definition parse_extraction_payload :: "json \<Rightarrow> extraction_payload option" where
  "parse_extraction_payload value = do {
     o1 \<leftarrow> json_object value;
     (if exact_keys o1 [''schemaVersion'', ''source'', ''validationAttestationId'', ''policyVersion'',
           ''storageVersion'', ''toolchainDigest'']
         \<and> field o1 ''schemaVersion'' = Some (jint 1)
         \<and> field o1 ''source'' = Some (JStr ''accepted-document-validation'')
      then Some () else None);
     va \<leftarrow> str_field (valid_identifier 200) (field o1 ''validationAttestationId'');
     pv \<leftarrow> str_field policy_value_pattern (field o1 ''policyVersion'');
     sv \<leftarrow> str_field safe_value_pattern (field o1 ''storageVersion'');
     td \<leftarrow> str_field nonzero_digest (field o1 ''toolchainDigest'');
     Some \<lparr>ep_validationAttestationId = va, ep_policyVersion = pv, ep_storageVersion = sv,
           ep_toolchainDigest = td\<rparr>
   }"

lemma str_field_Some_iff: "str_field ok f = Some s \<longleftrightarrow> f = Some (JStr s) \<and> ok s"
  by (cases "(ok, f)" rule: str_field.cases) auto

definition extraction_payload_ok :: "extraction_payload \<Rightarrow> bool" where
  "extraction_payload_ok p \<longleftrightarrow>
     valid_identifier 200 (ep_validationAttestationId p) \<and> policy_value_pattern (ep_policyVersion p)
     \<and> safe_value_pattern (ep_storageVersion p) \<and> nonzero_digest (ep_toolchainDigest p)"

lemma parse_extraction_payload_fields:
  "extraction_payload_ok p \<Longrightarrow> parse_extraction_payload (JObj (extraction_payload_fields p)) = Some p"
  by (simp add: parse_extraction_payload_def extraction_payload_fields_def extraction_payload_ok_def
      exact_keys_def obj_keys_def field_def)

lemma parse_extraction_payload_ok:
  "parse_extraction_payload v = Some p \<Longrightarrow> extraction_payload_ok p"
  by (auto simp: parse_extraction_payload_def extraction_payload_ok_def Option.bind_eq_Some_conv
      str_field_Some_iff split: if_splits)

lemma make_extraction_payload_ok:
  "make_extraction_payload x = Inr p \<Longrightarrow>
     extraction_payload_ok p \<and> ep_validationAttestationId p = xi_validationAttestationId x
     \<and> ep_toolchainDigest p = xi_toolchainDigest x
     \<and> ep_policyVersion p = or_default (xi_policyVersion x) extraction_policy_version
     \<and> ep_storageVersion p = or_default (xi_storageVersion x) extraction_storage_version"
  by (auto simp: make_extraction_payload_def and_then_Inr_iff extraction_payload_ok_def
      require_version_def require_toolchain_digest_def split: if_splits)

section \<open>Enqueue\<close>

text \<open>
  \<open>newId\<close> is the identifier the database draws for a created job; \<open>now\<close> is None for an invalid
  Date. The answer is the job, an existing one when the dedupe key is already taken.
\<close>

definition extraction_enqueue_receipt ::
    "db \<Rightarrow> enqueue_extraction_input \<Rightarrow> tx_error + ingest_receipt" where
  "extraction_enqueue_receipt d x =
     (case List.find (\<lambda>v. v_id v = xi_validationAttestationId x \<and> v_org v = xi_organizationId x
             \<and> v_documentId v = xi_documentId x \<and> v_assetId v = xi_assetId x) (attestations d) of
        None \<Rightarrow> Inl (Error ''The accepted validation does not authorize this extraction target.'')
      | Some v \<Rightarrow>
          (case List.find (\<lambda>r. r_id r = v_ingestReceiptId v \<and> r_org r = xi_organizationId x
                  \<and> r_documentId r = xi_documentId x \<and> r_assetId r = xi_assetId x) (receipts d) of
             None \<Rightarrow> Inl (Error ''The validation receipt does not authorize this extraction target.'')
           | Some r \<Rightarrow>
               (if (xi_intakeId x \<noteq> None \<and> xi_intakeId x \<noteq> Some (r_intakeId r))
                  \<or> (xi_ingestReceiptId x \<noteq> None \<and> xi_ingestReceiptId x \<noteq> Some (r_id r))
                then Inl (Error ''The validation receipt does not authorize this extraction target.'')
                else Inr r)))"

definition same_extraction_target ::
    "enqueue_extraction_input \<Rightarrow> ingest_receipt \<Rightarrow> extraction_payload \<Rightarrow> job \<Rightarrow> bool" where
  "same_extraction_target x r p j \<longleftrightarrow>
     j_org j = xi_organizationId x \<and> j_documentId j = Some (xi_documentId x)
     \<and> j_assetId j = Some (xi_assetId x) \<and> j_intakeId j = Some (r_intakeId r)
     \<and> j_ingestReceiptId j = Some (r_id r) \<and> parse_extraction_payload (j_payload j) = Some p"

definition new_extraction_job ::
    "ident \<Rightarrow> millis \<Rightarrow> enqueue_extraction_input \<Rightarrow> ingest_receipt \<Rightarrow> extraction_payload \<Rightarrow> string \<Rightarrow> job"
where
  "new_extraction_job newId now x r p dedupeKey =
     \<lparr>j_id = newId, j_org = xi_organizationId x, j_type = TEXT_EXTRACTION, j_status = J_QUEUED,
      j_dedupeKey = Some dedupeKey, j_priority = 5, j_payload = JObj (extraction_payload_fields p),
      j_result = JNull, j_attempts = 0, j_maxAttempts = extraction_max_attempts, j_runAfter = now,
      j_lockedAt = None, j_lockedBy = None, j_leaseId = None, j_leaseExpiresAt = None,
      j_completedAt = None, j_lastErrorCode = None, j_lastErrorMessage = None,
      j_documentId = Some (xi_documentId x), j_assetId = Some (xi_assetId x),
      j_intakeId = Some (r_intakeId r), j_ingestReceiptId = Some (r_id r),
      j_createdById = xi_createdById x, j_createdAt = now\<rparr>"

definition enqueue_extraction ::
    "ident \<Rightarrow> millis option \<Rightarrow> enqueue_extraction_input \<Rightarrow> db \<Rightarrow> job tx" where
  "enqueue_extraction newId now x d =
     and_then (throw_unless (valid_identifier 200 (xi_organizationId x))
       (TypeError ''organizationId is invalid.'')) (\<lambda>_.
     and_then (throw_unless (valid_identifier 200 (xi_documentId x))
       (TypeError ''documentId is invalid.'')) (\<lambda>_.
     and_then (throw_unless (valid_identifier 200 (xi_assetId x))
       (TypeError ''assetId is invalid.'')) (\<lambda>_.
     and_then (make_extraction_payload x) (\<lambda>p.
     and_then (extraction_enqueue_receipt d x) (\<lambda>r.
     and_then (extraction_dedupe_key (ep_validationAttestationId p) (ep_policyVersion p)
       (ep_toolchainDigest p)) (\<lambda>k.
     case List.find (\<lambda>j. j_org j = xi_organizationId x \<and> j_type j = TEXT_EXTRACTION
             \<and> j_dedupeKey j = Some k) (jobs d) of
       Some j \<Rightarrow>
         (if same_extraction_target x r p j then Inr (j, d)
          else Inl (Error ''A text extraction dedupe key resolved to a different target.''))
     | None \<Rightarrow>
         (case now of
            None \<Rightarrow> Inl (TypeError ''A valid extraction lifecycle timestamp is required.'')
          | Some t \<Rightarrow>
              (let j = new_extraction_job newId t x r p k
               in map_sum id (\<lambda>js. (j, d\<lparr>jobs := js\<rparr>)) (create_row job_clash j (jobs d))))))))))"

lemma enqueue_extractionE:
  assumes "enqueue_extraction newId now x d = Inr (j, d')"
  obtains (existing) p r where "d' = d" "j \<in> set (jobs d)" "make_extraction_payload x = Inr p"
      "same_extraction_target x r p j" "j_type j = TEXT_EXTRACTION"
  | (created) p r k t where "now = Some t" "make_extraction_payload x = Inr p"
      "extraction_enqueue_receipt d x = Inr r" "j = new_extraction_job newId t x r p k"
      "\<forall>i \<in> set (jobs d). j_id i \<noteq> newId" "d' = d\<lparr>jobs := jobs d @ [j]\<rparr>"
proof -
  let ?find = "\<lambda>k. List.find (\<lambda>j. j_org j = xi_organizationId x \<and> j_type j = TEXT_EXTRACTION
             \<and> j_dedupeKey j = Some k) (jobs d)"
  from assms obtain p r k where p: "make_extraction_payload x = Inr p"
    and r: "extraction_enqueue_receipt d x = Inr r"
    and rest: "(case ?find k of
       Some j \<Rightarrow> (if same_extraction_target x r p j then Inr (j, d)
          else Inl (Error ''A text extraction dedupe key resolved to a different target.''))
     | None \<Rightarrow> (case now of
            None \<Rightarrow> Inl (TypeError ''A valid extraction lifecycle timestamp is required.'')
          | Some t \<Rightarrow> (let j = new_extraction_job newId t x r p k
               in map_sum id (\<lambda>js. (j, d\<lparr>jobs := js\<rparr>)) (create_row job_clash j (jobs d))))) = Inr (j, d')"
    unfolding enqueue_extraction_def and_then_Inr_iff by blast
  show thesis
  proof (cases "?find k")
    case (Some i)
    with rest find_SomeD [OF Some] p show thesis
      by (intro existing [of p r]) (auto split: if_splits)
  next
    case None
    with rest obtain t where "now = Some t" "j = new_extraction_job newId t x r p k"
      "\<not> list_ex (job_clash j) (jobs d)" "d' = d\<lparr>jobs := jobs d @ [j]\<rparr>"
      by (auto simp: Let_def map_sum_Inr_iff create_row_Inr_iff split: option.splits)
    with p r show thesis
      by (intro created [of t p r k])
        (auto simp: list_ex_iff job_clash_def new_extraction_job_def)
  qed
qed

text \<open>Either way the caller's target has a job with its payload, and other tables are untouched.\<close>

lemma enqueue_extraction_job:
  assumes "enqueue_extraction newId now x d = Inr (j, d')"
  shows "j \<in> set (jobs d')" "j_type j = TEXT_EXTRACTION" "j_org j = xi_organizationId x"
    "j_documentId j = Some (xi_documentId x)" "j_assetId j = Some (xi_assetId x)"
    "\<exists>p. make_extraction_payload x = Inr p \<and> parse_extraction_payload (j_payload j) = Some p"
  using assms
  by (cases rule: enqueue_extractionE;
      auto simp: same_extraction_target_def new_extraction_job_def
        dest: make_extraction_payload_ok intro!: parse_extraction_payload_fields)+

lemma enqueue_extraction_frame [frame_simps]:
  assumes "enqueue_extraction newId now x d = Inr (j, d')"
  shows "d' = d\<lparr>jobs := jobs d'\<rparr>" "attempts d' = attempts d"
  using assms by (cases rule: enqueue_extractionE; simp)+

lemma enqueue_extraction_refines:
  assumes "enqueue_extraction newId now x d = Inr (j, d')"
  shows "(queue_step clock)\<^sup>*\<^sup>* (queue_of d) (queue_of d')"
  using assms
proof (cases rule: enqueue_extractionE)
  case (created p r k t)
  then have "queue_step clock (jobs d, attempts d) (jobs d @ [j], attempts d)"
    by (intro queue_step.enqueue)
      (auto simp: new_extraction_job_def unlock_row_def extraction_max_attempts_def)
  with created show ?thesis by (simp add: queue_of_def)
qed simp

end
