(* ===== verification/Validation_Jobs.thy ===== *)
theory Validation_Jobs
  imports Extraction_Queue
begin

text \<open>
  The leased validation job of a quarantined PDF
  (\<open>src/server/documents/validation-jobs.ts\<close>): enqueue, claim with its reaping loop, heartbeat,
  completion with an attestation (and its replay), and failure. Each transaction body is a
  function of the database; the clock, the UUIDs and the identifiers the database draws are
  arguments. The lemmas give each operation's guards and effects, and its refinement of
  \<open>queue_step\<close>.
\<close>

section \<open>Constants and inputs\<close>

definition validation_policy_version :: string where
  "validation_policy_version = ''paperpilot-document-validation-v1''"

definition quarantine_storage_version :: string where
  "quarantine_storage_version = ''local-quarantine-v2''"

definition validation_max_attempts :: int where "validation_max_attempts = 4"
definition validation_default_ttl_ms :: int where "validation_default_ttl_ms = 120000"
definition max_claim_reap_loops :: nat where "max_claim_reap_loops = 8"

definition validation_rejection_codes :: "string list" where
  "validation_rejection_codes =
     [''malware_detected'', ''pdf_invalid'', ''pdf_policy_violation'',
      ''pdf_resource_limit_exceeded'', ''malware_and_pdf_invalid'']"

datatype validation_failure =
    Validation_service_unavailable
  | Validation_service_timeout
  | Validation_response_invalid
  | Validation_attestation_stale
  | Validation_input_changed
  | Validation_object_missing
  | Validation_worker_internal

fun validation_failure_code :: "validation_failure \<Rightarrow> string" where
  "validation_failure_code Validation_service_unavailable = ''validation_service_unavailable''"
| "validation_failure_code Validation_service_timeout = ''validation_service_timeout''"
| "validation_failure_code Validation_response_invalid = ''validation_response_invalid''"
| "validation_failure_code Validation_attestation_stale = ''validation_attestation_stale''"
| "validation_failure_code Validation_input_changed = ''validation_input_changed''"
| "validation_failure_code Validation_object_missing = ''validation_object_missing''"
| "validation_failure_code Validation_worker_internal = ''validation_worker_internal''"

fun validation_failure_message :: "validation_failure \<Rightarrow> string" where
  "validation_failure_message Validation_service_unavailable =
     ''The validation service was unavailable.''"
| "validation_failure_message Validation_service_timeout = ''The validation service timed out.''"
| "validation_failure_message Validation_response_invalid =
     ''The validation service returned an invalid response.''"
| "validation_failure_message Validation_attestation_stale =
     ''The validation attestation was not fresh enough.''"
| "validation_failure_message Validation_input_changed =
     ''The quarantined input changed during validation.''"
| "validation_failure_message Validation_object_missing =
     ''The quarantined input could not be opened.''"
| "validation_failure_message Validation_worker_internal =
     ''The validation worker could not finish safely.''"

record enqueue_validation_input =
  vi_organizationId :: ident
  vi_documentId :: ident
  vi_assetId :: ident
  vi_ingestReceiptId :: "ident option"
  vi_createdById :: "ident option"
  vi_policyVersion :: "string option"
  vi_storageVersion :: "string option"

record validation_lease =
  vl_organizationId :: ident
  vl_jobId :: ident
  vl_jobAttemptId :: ident
  vl_attemptNumber :: int
  vl_workerId :: string
  vl_leaseId :: ident
  vl_leaseExpiresAt :: millis
  vl_documentId :: ident
  vl_assetId :: ident
  vl_intakeId :: ident
  vl_ingestReceiptId :: ident
  vl_storageProvider :: storage_provider
  vl_storageKey :: string
  vl_inputSha256 :: string
  vl_inputSizeBytes :: int
  vl_policyVersion :: string
  vl_storageVersion :: string
  vl_storageAuthorityGeneration :: "string option"

text \<open>A date of the attestation is None when it is an invalid Date.\<close>

record validated_attestation =
  va_inputSha256 :: string
  va_inputSizeBytes :: int
  va_storageVersion :: string
  va_policyVersion :: string
  va_toolchainDigest :: string
  va_verdict :: validation_verdict
  va_rejectionCode :: "string option"
  va_malwareVerdict :: malware_verdict
  va_malwareEngine :: string
  va_malwareEngineVersion :: string
  va_signatureVersion :: string
  va_signaturePublishedAt :: "millis option"
  va_scannedAt :: "millis option"
  va_pdfStructuralVerdict :: structural_verdict
  va_pdfEngine :: string
  va_pdfEngineVersion :: string
  va_pdfVersion :: string
  va_pageCount :: "jnum option"
  va_objectCount :: "jnum option"
  va_revisionCount :: "jnum option"
  va_checkedAt :: "millis option"
  va_result :: fields

datatype completion_outcome = Applied | Replayed

datatype failure_outcome = Retrying | Dead_letter | Lease_lost

datatype 'l claim_result = Claimed 'l | Claim_empty | Claim_skip

section \<open>Payload\<close>

record validation_payload =
  vp_policyVersion :: string
  vp_storageVersion :: string
  vp_ingestReceiptId :: ident

definition validation_dedupe_key :: "ident \<Rightarrow> string \<Rightarrow> tx_error + string" where
  "validation_dedupe_key ingestReceiptId policyVersion =
     and_then (throw_unless (valid_identifier 200 ingestReceiptId)
       (TypeError ''A bounded document ingest receipt identifier is required.'')) (\<lambda>_.
     and_then (require_version safe_value_pattern ''Validation policy version'' policyVersion) (\<lambda>_.
     Inr (''document-ingest:'' @ ingestReceiptId @ '':'' @ policyVersion)))"

definition make_validation_payload ::
    "enqueue_validation_input \<Rightarrow> ident \<Rightarrow> tx_error + validation_payload" where
  "make_validation_payload x ingestReceiptId =
     and_then (require_version safe_value_pattern ''Validation policy version''
       (or_default (vi_policyVersion x) validation_policy_version)) (\<lambda>pv.
     and_then (require_version safe_value_pattern ''Storage version''
       (or_default (vi_storageVersion x) quarantine_storage_version)) (\<lambda>sv.
     and_then (throw_unless (valid_identifier 200 ingestReceiptId)
       (TypeError ''A bounded document ingest receipt identifier is required.'')) (\<lambda>_.
     Inr \<lparr>vp_policyVersion = pv, vp_storageVersion = sv, vp_ingestReceiptId = ingestReceiptId\<rparr>)))"

definition validation_payload_fields :: "validation_payload \<Rightarrow> fields" where
  "validation_payload_fields p =
     [(''schemaVersion'', jint 2), (''policyVersion'', JStr (vp_policyVersion p)),
      (''storageVersion'', JStr (vp_storageVersion p)), (''source'', JStr ''document-ingest''),
      (''ingestReceiptId'', JStr (vp_ingestReceiptId p))]"

definition parse_validation_payload :: "json \<Rightarrow> validation_payload option" where
  "parse_validation_payload value = do {
     o1 \<leftarrow> json_object value;
     (if list_all (\<lambda>k. k \<in> {''schemaVersion'', ''policyVersion'', ''storageVersion'', ''source'',
           ''ingestReceiptId''}) (obj_keys o1)
         \<and> field o1 ''schemaVersion'' = Some (jint 2)
         \<and> field o1 ''source'' = Some (JStr ''document-ingest'')
      then Some () else None);
     pv \<leftarrow> str_field safe_value_pattern (field o1 ''policyVersion'');
     sv \<leftarrow> str_field safe_value_pattern (field o1 ''storageVersion'');
     ir \<leftarrow> str_field (valid_identifier 200) (field o1 ''ingestReceiptId'');
     Some \<lparr>vp_policyVersion = pv, vp_storageVersion = sv, vp_ingestReceiptId = ir\<rparr>
   }"

definition validation_payload_ok :: "validation_payload \<Rightarrow> bool" where
  "validation_payload_ok p \<longleftrightarrow>
     safe_value_pattern (vp_policyVersion p) \<and> safe_value_pattern (vp_storageVersion p)
     \<and> valid_identifier 200 (vp_ingestReceiptId p)"

lemma parse_validation_payload_fields:
  "validation_payload_ok p \<Longrightarrow> parse_validation_payload (JObj (validation_payload_fields p)) = Some p"
  by (simp add: parse_validation_payload_def validation_payload_fields_def validation_payload_ok_def
      obj_keys_def field_def)

lemma parse_validation_payload_ok:
  "parse_validation_payload v = Some p \<Longrightarrow> validation_payload_ok p"
  by (auto simp: parse_validation_payload_def validation_payload_ok_def Option.bind_eq_Some_conv
      str_field_Some_iff split: if_splits)

lemma make_validation_payload_ok:
  "make_validation_payload x i = Inr p \<Longrightarrow>
     validation_payload_ok p \<and> vp_ingestReceiptId p = i
     \<and> vp_policyVersion p = or_default (vi_policyVersion x) validation_policy_version
     \<and> vp_storageVersion p = or_default (vi_storageVersion x) quarantine_storage_version"
  by (auto simp: make_validation_payload_def and_then_Inr_iff validation_payload_ok_def
      require_version_def split: if_splits)

section \<open>Enqueue\<close>

definition same_validation_target ::
    "enqueue_validation_input \<Rightarrow> ingest_receipt \<Rightarrow> validation_payload \<Rightarrow> job \<Rightarrow> bool" where
  "same_validation_target x r p j \<longleftrightarrow>
     parse_validation_payload (j_payload j) = Some p
     \<and> j_org j = vi_organizationId x \<and> j_documentId j = Some (vi_documentId x)
     \<and> j_assetId j = Some (vi_assetId x) \<and> j_intakeId j = Some (r_intakeId r)
     \<and> j_ingestReceiptId j = Some (r_id r)"

definition new_validation_job ::
    "ident \<Rightarrow> millis \<Rightarrow> enqueue_validation_input \<Rightarrow> ingest_receipt \<Rightarrow> validation_payload \<Rightarrow> string \<Rightarrow> job"
where
  "new_validation_job newId now x r p dedupeKey =
     \<lparr>j_id = newId, j_org = vi_organizationId x, j_type = DOCUMENT_VALIDATE, j_status = J_QUEUED,
      j_dedupeKey = Some dedupeKey, j_priority = 10, j_payload = JObj (validation_payload_fields p),
      j_result = JNull, j_attempts = 0, j_maxAttempts = validation_max_attempts, j_runAfter = now,
      j_lockedAt = None, j_lockedBy = None, j_leaseId = None, j_leaseExpiresAt = None,
      j_completedAt = None, j_lastErrorCode = None, j_lastErrorMessage = None,
      j_documentId = Some (vi_documentId x), j_assetId = Some (vi_assetId x),
      j_intakeId = Some (r_intakeId r), j_ingestReceiptId = Some (r_id r),
      j_createdById = vi_createdById x, j_createdAt = now\<rparr>"

text \<open>The caller names its ingest receipt (the transitional upload-session input is not modelled).\<close>

definition enqueue_validation ::
    "ident \<Rightarrow> millis \<Rightarrow> enqueue_validation_input \<Rightarrow> db \<Rightarrow> job tx" where
  "enqueue_validation newId now x d =
     and_then (throw_unless (truthy (vi_ingestReceiptId x))
       (TypeError ''A document ingest receipt is required.'')) (\<lambda>_.
     case List.find (\<lambda>r. Some (r_id r) = vi_ingestReceiptId x \<and> r_org r = vi_organizationId x
            \<and> r_documentId r = vi_documentId x \<and> r_assetId r = vi_assetId x) (receipts d) of
       None \<Rightarrow> Inl (Error ''The document ingest receipt does not authorize this validation target.'')
     | Some r \<Rightarrow>
         and_then (make_validation_payload x (r_id r)) (\<lambda>p.
         and_then (validation_dedupe_key (r_id r) (vp_policyVersion p)) (\<lambda>k.
         case List.find (\<lambda>j. j_org j = vi_organizationId x \<and> j_type j = DOCUMENT_VALIDATE
                \<and> j_dedupeKey j = Some k) (jobs d) of
           Some j \<Rightarrow>
             (if same_validation_target x r p j then Inr (j, d)
              else Inl (Error ''A validation dedupe key resolved to a different target.''))
         | None \<Rightarrow>
             (let j = new_validation_job newId now x r p k
              in map_sum id (\<lambda>js. (j, d\<lparr>jobs := js\<rparr>)) (create_row job_clash j (jobs d))))))"

section \<open>Attestations\<close>

definition canonical_rejection_code :: "validated_attestation \<Rightarrow> string" where
  "canonical_rejection_code a =
     (if va_malwareVerdict a = INFECTED then ''malware_detected''
      else if va_pdfStructuralVerdict a = INVALID then ''invalid_pdf_structure''
      else (let c = (case va_rejectionCode a of None \<Rightarrow> [] | Some s \<Rightarrow> js_trim s)
            in if c \<in> {''malware_detected'', ''invalid_pdf_structure'', ''pdf_policy_violation'',
                      ''pdf_resource_limit_exceeded'', ''integrity_check_failed''}
               then c else ''validation_failed''))"

fun count_at_least :: "int \<Rightarrow> jnum option \<Rightarrow> bool" where
  "count_at_least lo None \<longleftrightarrow> True"
| "count_at_least lo (Some n) \<longleftrightarrow> safe_integer n \<and> lo \<le> num_val n"

fun int_field :: "int \<Rightarrow> int \<Rightarrow> json option \<Rightarrow> int option" where
  "int_field lo hi (Some (JNum n)) = (if bounded_integer lo hi n then Some (num_val n) else None)"
| "int_field lo hi _ = None"

text \<open>The summary's own checks, in the order of the code; \<open>checkedAt\<close> is a valid date here.\<close>

definition attestation_result_ok :: "fields \<Rightarrow> millis \<Rightarrow> bool" where
  "attestation_result_ok r checkedAt \<longleftrightarrow>
     exact_keys r [''schemaVersion'', ''detectionCount'', ''warningCount'', ''malwareDurationMs'',
        ''pdfDurationMs'', ''totalDurationMs'', ''completedAt'']
     \<and> field r ''schemaVersion'' = Some (jint 1)
     \<and> int_field 0 128 (field r ''detectionCount'') \<noteq> None
     \<and> int_field 0 10000 (field r ''warningCount'') \<noteq> None
     \<and> (case (int_field 0 120000 (field r ''malwareDurationMs''),
              int_field 0 120000 (field r ''pdfDurationMs'')) of
          (Some m, Some p) \<Rightarrow> int_field (max m p) 120000 (field r ''totalDurationMs'') \<noteq> None
        | _ \<Rightarrow> False)
     \<and> (case field r ''completedAt'' of
          Some (JStr s) \<Rightarrow>
            iso_pattern s \<and> (case iso_parse s of None \<Rightarrow> False | Some t \<Rightarrow> checkedAt \<le> t)
        | _ \<Rightarrow> False)"

definition accepted_consistent :: "validated_attestation \<Rightarrow> bool" where
  "accepted_consistent a \<longleftrightarrow>
     va_rejectionCode a = None \<and> va_malwareVerdict a = CLEAN \<and> va_pdfStructuralVerdict a = VALID
     \<and> va_pageCount a \<noteq> None"

definition rejected_consistent :: "validated_attestation \<Rightarrow> bool" where
  "rejected_consistent a \<longleftrightarrow>
     (let clean = (va_malwareVerdict a = CLEAN); valid = (va_pdfStructuralVerdict a = VALID)
      in \<not> ((clean \<and> valid \<and> va_rejectionCode a \<noteq> Some ''pdf_policy_violation'')
         \<or> (clean \<and> \<not> valid \<and> va_rejectionCode a \<noteq> Some ''pdf_invalid''
              \<and> va_rejectionCode a \<noteq> Some ''pdf_resource_limit_exceeded'')
         \<or> (\<not> clean \<and> valid \<and> va_rejectionCode a \<noteq> Some ''malware_detected'')
         \<or> (\<not> clean \<and> \<not> valid \<and> va_rejectionCode a \<noteq> Some ''malware_and_pdf_invalid'')))"

fun require_versions :: "(string \<times> string) list \<Rightarrow> tx_error + unit" where
  "require_versions [] = Inr ()"
| "require_versions ((label, v) # rest) =
     and_then (require_version safe_value_pattern label v) (\<lambda>_. require_versions rest)"

definition assert_attestation :: "validated_attestation \<Rightarrow> tx_error + unit" where
  "assert_attestation a =
     and_then (throw_unless (sha256_pattern (va_inputSha256 a) \<and> sha256_pattern (va_toolchainDigest a)
         \<and> 1 \<le> va_inputSizeBytes a)
       (TypeError ''The validation attestation input identity is invalid.'')) (\<lambda>_.
     and_then (require_versions
       [(''storageVersion'', va_storageVersion a), (''policyVersion'', va_policyVersion a),
        (''malwareEngine'', va_malwareEngine a), (''malwareEngineVersion'', va_malwareEngineVersion a),
        (''signatureVersion'', va_signatureVersion a), (''pdfEngine'', va_pdfEngine a),
        (''pdfEngineVersion'', va_pdfEngineVersion a), (''pdfVersion'', va_pdfVersion a)]) (\<lambda>_.
     case (va_signaturePublishedAt a, va_scannedAt a, va_checkedAt a) of
       (Some published, Some scanned, Some checked) \<Rightarrow>
         and_then (throw_unless (count_at_least 1 (va_pageCount a))
           (TypeError ''The validation page count is invalid.'')) (\<lambda>_.
         and_then (throw_unless (count_at_least 0 (va_objectCount a))
           (TypeError ''The validation object count is invalid.'')) (\<lambda>_.
         and_then (throw_unless (count_at_least 1 (va_revisionCount a))
           (TypeError ''The validation revision count is invalid.'')) (\<lambda>_.
         and_then (throw_unless (va_verdict a \<noteq> ACCEPTED \<or> accepted_consistent a)
           (TypeError ''An accepted attestation is internally inconsistent.'')) (\<lambda>_.
         and_then (throw_unless (va_verdict a \<noteq> REJECTED
             \<or> (truthy (va_rejectionCode a)
                 \<and> the (va_rejectionCode a) \<in> set validation_rejection_codes))
           (TypeError ''A rejected attestation requires a bounded rejection code.'')) (\<lambda>_.
         and_then (throw_unless (va_verdict a \<noteq> REJECTED \<or> rejected_consistent a)
           (TypeError ''A rejected attestation is internally inconsistent.'')) (\<lambda>_.
         and_then (throw_unless (published \<le> scanned \<and> scanned \<le> checked)
           (TypeError ''The validation attestation chronology is invalid.'')) (\<lambda>_.
         throw_unless (attestation_result_ok (va_result a) checked)
           (TypeError ''The validation attestation result summary is invalid.''))))))))
     | _ \<Rightarrow> Inl (TypeError ''The validation attestation timestamp is invalid.'')))"

section \<open>Failing a target that is not claimed\<close>

definition target_failed_message :: string where
  "target_failed_message = ''The validation target failed an authoritative state check.''"

definition public_failure_code :: "string \<Rightarrow> string" where
  "public_failure_code c =
     (if c = ''validation_target_invalid'' then ''integrity_check_failed''
      else ''validation_unavailable'')"

text \<open>The lifecycle projection of the failing job; whether it was applied is ignored.\<close>

definition project_unclaimed_failure :: "db \<Rightarrow> job \<Rightarrow> string \<Rightarrow> millis \<Rightarrow> tx_error + db" where
  "project_unclaimed_failure d job c now =
     (case job_pipeline_key job of
        None \<Rightarrow> Inr d
      | Some key \<Rightarrow>
          map_sum id snd (project_lifecycle d key
            (Validation_failed (public_failure_code c) Verification_unavailable) (Some now)))"

text \<open>\<open>updateMany\<close> of the attempts that run under the job's lease.\<close>

definition leased_attempt :: "job \<Rightarrow> job_attempt \<Rightarrow> bool" where
  "leased_attempt job t \<longleftrightarrow>
     t_jobId t = j_id job \<and> t_leaseId t = j_leaseId job \<and> t_status t = J_RUNNING"

definition quarantine_scanning :: "job \<Rightarrow> db \<Rightarrow> db" where
  "quarantine_scanning job d =
     (if truthy (j_assetId job)
      then d\<lparr>assets := update_rows
             (\<lambda>a. Some (a_id a) = j_assetId job \<and> a_org a = j_org job \<and> a_status a = A_SCANNING)
             (\<lambda>a. a\<lparr>a_status := A_QUARANTINED\<rparr>) (assets d)\<rparr>
      else d)"

definition fail_pending_document :: "job \<Rightarrow> string \<Rightarrow> db \<Rightarrow> db" where
  "fail_pending_document job c d =
     (if truthy (j_documentId job)
      then d\<lparr>documents := update_rows
             (\<lambda>x. Some (d_id x) = j_documentId job \<and> d_org x = j_org job
                \<and> d_status x \<in> {D_PENDING, D_PROCESSING})
             (\<lambda>x. x\<lparr>d_status := D_FAILED, d_failureCode := Some (public_failure_code c)\<rparr>)
             (documents d)\<rparr>
      else d)"

definition dead_letter_audit :: "string \<Rightarrow> ident \<Rightarrow> ident \<Rightarrow> string \<Rightarrow> audit_event" where
  "dead_letter_audit action org jobId c =
     \<lparr>e_org = org, e_action = action, e_entityType = ''job'', e_entityId = jobId,
      e_metadata = [(''failureCode'', JStr c)]\<rparr>"

definition fail_target_without_claim :: "db \<Rightarrow> job \<Rightarrow> string \<Rightarrow> millis \<Rightarrow> tx_error + db" where
  "fail_target_without_claim d job c now =
     and_then (project_unclaimed_failure d job c now) (\<lambda>d1.
     let d2 = (if j_status job = J_RUNNING \<and> truthy (j_leaseId job)
               then d1\<lparr>attempts := update_rows (leased_attempt job)
                      (close_attempt_row J_DEAD_LETTER now c target_failed_message) (attempts d1)\<rparr>
               else d1)
     in and_then (update_one (job_key (j_org job) (j_id job))
                    (dead_letter_row now c target_failed_message) (jobs d2)) (\<lambda>js.
        let d3 = d2\<lparr>jobs := js\<rparr>;
            d4 = (if c = ''worker_lease_expired'' then quarantine_scanning job d3 else d3);
            d5 = fail_pending_document job c d4
        in Inr (d5\<lparr>audits := audits d5
                 @ [dead_letter_audit ''document.validation.dead_lettered'' (j_org job) (j_id job) c]\<rparr>)))"

section \<open>Claim\<close>

definition validation_candidate :: "millis \<Rightarrow> job \<Rightarrow> bool" where
  "validation_candidate now j \<longleftrightarrow> j_type j = DOCUMENT_VALIDATE \<and> claim_candidate now j"

text \<open>Reaping an expired lease whose job still has attempts: its work is undone.\<close>

definition reset_processing_document :: "job \<Rightarrow> db \<Rightarrow> db" where
  "reset_processing_document job d =
     (if truthy (j_documentId job)
      then d\<lparr>documents := update_rows
             (\<lambda>x. Some (d_id x) = j_documentId job \<and> d_org x = j_org job \<and> d_status x = D_PROCESSING)
             (\<lambda>x. x\<lparr>d_status := D_PENDING\<rparr>) (documents d)\<rparr>
      else d)"

definition close_expired_attempt :: "job \<Rightarrow> job_status \<Rightarrow> string \<Rightarrow> millis \<Rightarrow> db \<Rightarrow> db" where
  "close_expired_attempt job status message now d =
     d\<lparr>attempts := update_rows (leased_attempt job)
          (close_attempt_row status now ''worker_lease_expired'' message) (attempts d)\<rparr>"

definition validation_expired_message :: string where
  "validation_expired_message = ''The validation worker lease expired.''"

text \<open>The authoritative target of a claim: every \<open>validation_target_invalid\<close> check of the code.\<close>

definition original_of :: "db \<Rightarrow> ident \<Rightarrow> ident \<Rightarrow> ident \<Rightarrow> document_asset option" where
  "original_of d org documentId assetId =
     List.find (\<lambda>o1. da_org o1 = org \<and> da_documentId o1 = documentId \<and> da_assetId o1 = assetId
                  \<and> da_role o1 = ORIGINAL) (document_assets d)"

definition receipt_of :: "db \<Rightarrow> authority_key \<Rightarrow> ident \<Rightarrow> ingest_receipt option" where
  "receipt_of d key receiptId =
     List.find (\<lambda>r. r_id r = receiptId \<and> r_org r = ak_org key \<and> r_documentId r = ak_documentId key
                  \<and> r_assetId r = ak_assetId key \<and> r_intakeId r = ak_intakeId key) (receipts d)"

definition starts_with :: "string \<Rightarrow> string \<Rightarrow> bool" where
  "starts_with s prefix \<longleftrightarrow> take (length prefix) s = prefix"

definition claimable_target :: "document \<Rightarrow> asset \<Rightarrow> ingest_receipt \<Rightarrow> validation_payload \<Rightarrow> bool" where
  "claimable_target x a r p \<longleftrightarrow>
     d_status x = D_PENDING \<and> a_status a = A_QUARANTINED \<and> a_storageProvider a = LOCAL
     \<and> starts_with (a_objectKey a) ''local-quarantine-v2:''
     \<and> a_physicalLocator a = Some (a_objectKey a)
     \<and> (case (a_sha256 a, a_sizeBytes a) of
          (Some h, Some n) \<Rightarrow>
            sha256_pattern h \<and> 1 \<le> n \<and> d_contentHash x = Some h \<and> r_sha256 r = h
            \<and> r_receivedSizeBytes r = n
        | _ \<Rightarrow> False)
     \<and> r_storageVersion r = vp_storageVersion p \<and> r_declaredMimeType r = ''application/pdf''"

definition validation_target ::
    "db \<Rightarrow> job \<Rightarrow> (validation_payload \<times> authority_key \<times> document \<times> asset \<times> ingest_receipt) option"
where
  "validation_target d job = do {
     p \<leftarrow> parse_validation_payload (j_payload job);
     key \<leftarrow> job_pipeline_key job;
     (if ak_ingestReceiptId key = vp_ingestReceiptId p then Some () else None);
     x \<leftarrow> List.find (document_key (j_org job) (ak_documentId key)) (documents d);
     a \<leftarrow> List.find (asset_key (j_org job) (ak_assetId key)) (assets d);
     original_of d (j_org job) (ak_documentId key) (ak_assetId key);
     r \<leftarrow> receipt_of d key (vp_ingestReceiptId p);
     (if claimable_target x a r p then Some (p, key, x, a, r) else None)
   }"

definition make_validation_lease ::
    "claim_env \<Rightarrow> string \<Rightarrow> millis \<Rightarrow> job \<Rightarrow> validation_payload \<Rightarrow> document \<Rightarrow> asset \<Rightarrow> ingest_receipt
      \<Rightarrow> validation_lease" where
  "make_validation_lease env workerId expiresAt job p x a r =
     \<lparr>vl_organizationId = j_org job, vl_jobId = j_id job, vl_jobAttemptId = ce_attemptId env,
      vl_attemptNumber = j_attempts job + 1, vl_workerId = workerId, vl_leaseId = ce_leaseId env,
      vl_leaseExpiresAt = expiresAt, vl_documentId = d_id x, vl_assetId = a_id a,
      vl_intakeId = r_intakeId r, vl_ingestReceiptId = r_id r, vl_storageProvider = LOCAL,
      vl_storageKey = a_objectKey a, vl_inputSha256 = the (a_sha256 a),
      vl_inputSizeBytes = the (a_sizeBytes a), vl_policyVersion = vp_policyVersion p,
      vl_storageVersion = vp_storageVersion p,
      vl_storageAuthorityGeneration = r_storageAuthorityGeneration r\<rparr>"

text \<open>The writes of a claim: job, attempt, asset, document, in this order.\<close>

definition open_job_lease ::
    "claim_env \<Rightarrow> string \<Rightarrow> int \<Rightarrow> millis \<Rightarrow> job \<Rightarrow> db \<Rightarrow> tx_error + db" where
  "open_job_lease env workerId ttl now job d =
     and_then (update_one (job_key (j_org job) (j_id job))
        (claim_row now workerId (ce_leaseId env) (now + ttl) (j_attempts job + 1)) (jobs d)) (\<lambda>js.
     and_then (create_row attempt_clash
        (open_attempt job now workerId (ce_attemptId env) (ce_leaseId env) (j_attempts job + 1))
        (attempts d)) (\<lambda>ts.
     Inr (d\<lparr>jobs := js, attempts := ts\<rparr>)))"

definition take_validation_lease ::
    "claim_env \<Rightarrow> string \<Rightarrow> int \<Rightarrow> millis \<Rightarrow> job \<Rightarrow> document \<Rightarrow> asset \<Rightarrow> db \<Rightarrow> tx_error + db" where
  "take_validation_lease env workerId ttl now job x a d =
     and_then (open_job_lease env workerId ttl now job d) (\<lambda>d1.
     and_then (update_one (asset_key (j_org job) (a_id a))
        (\<lambda>a'. a'\<lparr>a_status := A_SCANNING, a_rejectionCode := None, a_rejectedReason := None\<rparr>)
        (assets d1)) (\<lambda>as.
     and_then (update_one (document_key (j_org job) (d_id x))
        (\<lambda>x'. x'\<lparr>d_status := D_PROCESSING, d_failureCode := None\<rparr>) (documents d1)) (\<lambda>xs.
     Inr (d1\<lparr>assets := as, documents := xs\<rparr>))))"

abbreviation skip_with :: "tx_error + db \<Rightarrow> 'l claim_result tx" where
  "skip_with r \<equiv> map_sum id (\<lambda>d'. (Claim_skip, d')) r"

definition claim_validation_target ::
    "claim_env \<Rightarrow> string \<Rightarrow> int \<Rightarrow> millis \<Rightarrow> job \<Rightarrow> db \<Rightarrow> validation_lease claim_result tx" where
  "claim_validation_target env workerId ttl now job d =
     (case validation_target d job of
        None \<Rightarrow> skip_with (fail_target_without_claim d job ''validation_target_invalid'' now)
      | Some (p, key, x, a, r) \<Rightarrow>
          and_then (project_lifecycle d key Validation_claim (Some now)) (\<lambda>(ok, d1).
            if \<not> ok
            then skip_with (fail_target_without_claim d1 job ''validation_target_invalid'' now)
            else map_sum id
                   (\<lambda>d2. (Claimed (make_validation_lease env workerId (now + ttl) job p x a r), d2))
                   (take_validation_lease env workerId ttl now job x a d1)))"

text \<open>One transaction of the claim loop.\<close>

definition claim_validation_tx ::
    "claim_env \<Rightarrow> string \<Rightarrow> int \<Rightarrow> millis \<Rightarrow> db \<Rightarrow> validation_lease claim_result tx" where
  "claim_validation_tx env workerId ttl now d =
     (case select_candidate env (validation_candidate now) (jobs d) of
        None \<Rightarrow> Inr (Claim_empty, d)
      | Some job \<Rightarrow>
          (if j_status job \<noteq> J_RUNNING \<and> j_attempts job \<ge> j_maxAttempts job
           then skip_with (fail_target_without_claim d job ''validation_attempt_budget_exhausted'' now)
           else if j_status job = J_RUNNING then
             (if \<not> truthy (j_leaseId job) \<or> \<not> expired now (j_leaseExpiresAt job)
              then Inr (Claim_skip, d)
              else if j_attempts job \<ge> j_maxAttempts job
              then skip_with (fail_target_without_claim
                     (close_expired_attempt job J_DEAD_LETTER validation_expired_message now d)
                     job ''worker_lease_expired'' now)
              else claim_validation_target env workerId ttl now job
                     (reset_processing_document job (quarantine_scanning job
                       (close_expired_attempt job J_FAILED validation_expired_message now d))))
           else claim_validation_target env workerId ttl now job d))"

text \<open>
  The loop: at most eight transactions, one environment each; a transaction that throws ends the
  call with the database as that transaction found it.
\<close>

fun claim_loop ::
    "('c \<Rightarrow> db \<Rightarrow> 'l claim_result tx) \<Rightarrow> 'c list \<Rightarrow> db \<Rightarrow> (tx_error + 'l option) \<times> db" where
  "claim_loop tx1 [] d = (Inr None, d)"
| "claim_loop tx1 (env # envs) d =
     (case tx1 env d of
        Inl e \<Rightarrow> (Inl e, d)
      | Inr (Claimed l, d') \<Rightarrow> (Inr (Some l), d')
      | Inr (Claim_empty, d') \<Rightarrow> (Inr None, d')
      | Inr (Claim_skip, d') \<Rightarrow> claim_loop tx1 envs d')"

definition validation_ttl_message :: string where
  "validation_ttl_message = ''The validation lease TTL is outside the supported range.''"

definition claim_next_validation ::
    "claim_env list \<Rightarrow> string \<Rightarrow> jnum option \<Rightarrow> millis \<Rightarrow> db
      \<Rightarrow> (tx_error + validation_lease option) \<times> db" where
  "claim_next_validation envs workerId leaseTtlMs now d =
     (case and_then (require_worker_id workerId) (\<lambda>w.
             map_sum id (\<lambda>ttl. (w, ttl)) (require_lease_ttl validation_ttl_message
               (or_default leaseTtlMs (NInt validation_default_ttl_ms)))) of
        Inl e \<Rightarrow> (Inl e, d)
      | Inr (w, ttl) \<Rightarrow>
          claim_loop (\<lambda>env. claim_validation_tx env w ttl now) (take max_claim_reap_loops envs) d)"

section \<open>Heartbeat\<close>

text \<open>The job row a lease holds: the condition of the heartbeat's \<open>updateMany\<close>.\<close>

definition holds_validation_lease :: "validation_lease \<Rightarrow> millis \<Rightarrow> job \<Rightarrow> bool" where
  "holds_validation_lease l now j \<longleftrightarrow>
     job_key (vl_organizationId l) (vl_jobId l) j \<and> j_type j = DOCUMENT_VALIDATE
     \<and> j_status j = J_RUNNING \<and> j_lockedBy j = Some (vl_workerId l)
     \<and> j_leaseId j = Some (vl_leaseId l)
     \<and> j_leaseExpiresAt j \<noteq> None \<and> \<not> expired now (j_leaseExpiresAt j)
     \<and> j_documentId j = Some (vl_documentId l) \<and> j_assetId j = Some (vl_assetId l)
     \<and> j_intakeId j = Some (vl_intakeId l) \<and> j_ingestReceiptId j = Some (vl_ingestReceiptId l)"

definition heartbeat_validation :: "validation_lease \<Rightarrow> jnum option \<Rightarrow> millis \<Rightarrow> db \<Rightarrow> bool tx" where
  "heartbeat_validation l leaseTtlMs now d =
     and_then (require_lease_ttl validation_ttl_message
        (or_default leaseTtlMs (NInt validation_default_ttl_ms))) (\<lambda>ttl.
     Inr (count_rows (holds_validation_lease l now) (jobs d) = 1,
          d\<lparr>jobs := update_rows (holds_validation_lease l now)
               (\<lambda>j. j\<lparr>j_leaseExpiresAt := Some (now + ttl)\<rparr>) (jobs d)\<rparr>))"

section \<open>Completion\<close>

definition lease_authority_key :: "validation_lease \<Rightarrow> authority_key" where
  "lease_authority_key l =
     \<lparr>ak_org = vl_organizationId l, ak_intakeId = vl_intakeId l, ak_documentId = vl_documentId l,
      ak_assetId = vl_assetId l, ak_ingestReceiptId = vl_ingestReceiptId l\<rparr>"

text \<open>The receipt of the job's own columns.\<close>

definition job_receipt :: "db \<Rightarrow> job \<Rightarrow> ingest_receipt option" where
  "job_receipt d job =
     (case job_pipeline_key job of
        None \<Rightarrow> None
      | Some key \<Rightarrow> receipt_of d key (ak_ingestReceiptId key))"

definition exact_validation_authority ::
    "validation_lease \<Rightarrow> job \<Rightarrow> validation_payload option \<Rightarrow> ingest_receipt option \<Rightarrow> bool" where
  "exact_validation_authority l job payload receipt \<longleftrightarrow>
     j_type job = DOCUMENT_VALIDATE
     \<and> j_documentId job = Some (vl_documentId l) \<and> j_assetId job = Some (vl_assetId l)
     \<and> j_intakeId job = Some (vl_intakeId l) \<and> j_ingestReceiptId job = Some (vl_ingestReceiptId l)
     \<and> (case payload of
          None \<Rightarrow> False
        | Some p \<Rightarrow> vp_ingestReceiptId p = vl_ingestReceiptId l
            \<and> vp_policyVersion p = vl_policyVersion l \<and> vp_storageVersion p = vl_storageVersion l)
     \<and> (case receipt of
          None \<Rightarrow> False
        | Some r \<Rightarrow> r_intakeId r = vl_intakeId l \<and> r_sha256 r = vl_inputSha256 l
            \<and> r_receivedSizeBytes r = vl_inputSizeBytes l
            \<and> r_storageVersion r = vl_storageVersion l
            \<and> r_declaredMimeType r = ''application/pdf'')"

definition attestation_matches :: "attestation_row \<Rightarrow> validated_attestation \<Rightarrow> bool" where
  "attestation_matches v a \<longleftrightarrow>
     v_inputSha256 v = va_inputSha256 a \<and> v_inputSizeBytes v = va_inputSizeBytes a
     \<and> v_policyVersion v = va_policyVersion a \<and> v_storageVersion v = va_storageVersion a
     \<and> v_toolchainDigest v = va_toolchainDigest a \<and> v_verdict v = va_verdict a
     \<and> v_rejectionCode v = va_rejectionCode a \<and> v_malwareVerdict v = va_malwareVerdict a
     \<and> v_malwareEngine v = va_malwareEngine a
     \<and> v_malwareEngineVersion v = va_malwareEngineVersion a
     \<and> v_signatureVersion v = va_signatureVersion a
     \<and> Some (v_signaturePublishedAt v) = va_signaturePublishedAt a
     \<and> Some (v_scannedAt v) = va_scannedAt a
     \<and> v_pdfStructuralVerdict v = va_pdfStructuralVerdict a
     \<and> v_pdfEngine v = va_pdfEngine a \<and> v_pdfEngineVersion v = va_pdfEngineVersion a
     \<and> v_pdfVersion v = va_pdfVersion a \<and> v_pageCount v = va_pageCount a
     \<and> v_objectCount v = va_objectCount a \<and> v_revisionCount v = va_revisionCount a
     \<and> Some (v_checkedAt v) = va_checkedAt a
     \<and> (case json_object (v_result v) of
          None \<Rightarrow> False
        | Some r \<Rightarrow> length (obj_keys r) = 7
            \<and> list_all (\<lambda>k. field r k = field (va_result a) k)
                [''schemaVersion'', ''detectionCount'', ''warningCount'', ''malwareDurationMs'',
                 ''pdfDurationMs'', ''totalDurationMs'', ''completedAt''])"

text \<open>A completion of a job that has succeeded already: a replay, or a refusal.\<close>

definition replay_validation ::
    "validation_lease \<Rightarrow> validated_attestation \<Rightarrow> bool \<Rightarrow> attestation_row
      \<Rightarrow> (completion_outcome \<times> validation_verdict) option" where
  "replay_validation l a exact v =
     (if exact \<and> v_org v = vl_organizationId l \<and> v_jobId v = vl_jobId l
         \<and> v_jobAttemptId v = vl_jobAttemptId l \<and> v_assetId v = vl_assetId l
         \<and> v_documentId v = vl_documentId l \<and> v_ingestReceiptId v = vl_ingestReceiptId l
         \<and> attestation_matches v a
      then Some (Replayed, v_verdict v) else None)"

definition validation_lease_current :: "validation_lease \<Rightarrow> millis \<Rightarrow> job \<Rightarrow> bool" where
  "validation_lease_current l now job \<longleftrightarrow>
     j_status job = J_RUNNING \<and> j_leaseId job = Some (vl_leaseId l)
     \<and> j_lockedBy job = Some (vl_workerId l)
     \<and> j_leaseExpiresAt job \<noteq> None \<and> \<not> expired now (j_leaseExpiresAt job)
     \<and> j_documentId job = Some (vl_documentId l) \<and> j_assetId job = Some (vl_assetId l)
     \<and> j_intakeId job = Some (vl_intakeId l) \<and> j_attempts job = vl_attemptNumber l"

definition attestation_for_lease :: "validation_lease \<Rightarrow> validated_attestation \<Rightarrow> bool" where
  "attestation_for_lease l a \<longleftrightarrow>
     va_inputSha256 a = vl_inputSha256 l \<and> va_inputSizeBytes a = vl_inputSizeBytes l
     \<and> va_policyVersion a = vl_policyVersion l \<and> va_storageVersion a = vl_storageVersion l"

definition attempt_current :: "ident \<Rightarrow> int \<Rightarrow> ident \<Rightarrow> string \<Rightarrow> job_attempt \<Rightarrow> bool" where
  "attempt_current jobId number leaseId workerId t \<longleftrightarrow>
     t_status t = J_RUNNING \<and> t_jobId t = jobId \<and> t_attemptNumber t = number
     \<and> t_leaseId t = Some leaseId \<and> t_workerId t = Some workerId"

definition scanned_target_current :: "validation_lease \<Rightarrow> document \<Rightarrow> asset \<Rightarrow> bool" where
  "scanned_target_current l x a \<longleftrightarrow>
     d_status x = D_PROCESSING \<and> a_status a = A_SCANNING
     \<and> a_storageProvider a = vl_storageProvider l
     \<and> a_objectKey a = vl_storageKey l \<and> a_physicalLocator a = Some (vl_storageKey l)
     \<and> a_sha256 a = Some (vl_inputSha256 l) \<and> a_sizeBytes a = Some (vl_inputSizeBytes l)
     \<and> d_contentHash x = Some (vl_inputSha256 l)"

text \<open>The \<open>return null\<close> guards of a completion that is not a replay, but for its lifecycle projection.\<close>

definition completion_allowed :: "db \<Rightarrow> validation_lease \<Rightarrow> validated_attestation \<Rightarrow> millis \<Rightarrow> job \<Rightarrow> bool"
where
  "completion_allowed d l a now job \<longleftrightarrow>
     validation_lease_current l now job
     \<and> exact_validation_authority l job (parse_validation_payload (j_payload job)) (job_receipt d job)
     \<and> attestation_for_lease l a
     \<and> (case (List.find (attempt_key (vl_organizationId l) (vl_jobAttemptId l)) (attempts d),
              List.find (document_key (vl_organizationId l) (vl_documentId l)) (documents d),
              List.find (asset_key (vl_organizationId l) (vl_assetId l)) (assets d)) of
          (Some t, Some x, Some s) \<Rightarrow>
            attempt_current (vl_jobId l) (vl_attemptNumber l) (vl_leaseId l) (vl_workerId l) t
            \<and> scanned_target_current l x s
        | _ \<Rightarrow> False)"

definition attestation_row_of ::
    "ident \<Rightarrow> validation_lease \<Rightarrow> validated_attestation \<Rightarrow> attestation_row" where
  "attestation_row_of newId l a =
     \<lparr>v_id = newId, v_org = vl_organizationId l, v_jobId = vl_jobId l,
      v_jobAttemptId = vl_jobAttemptId l, v_assetId = vl_assetId l, v_documentId = vl_documentId l,
      v_ingestReceiptId = vl_ingestReceiptId l, v_inputSha256 = va_inputSha256 a,
      v_inputSizeBytes = va_inputSizeBytes a, v_storageVersion = va_storageVersion a,
      v_policyVersion = va_policyVersion a, v_toolchainDigest = va_toolchainDigest a,
      v_verdict = va_verdict a, v_rejectionCode = va_rejectionCode a,
      v_malwareVerdict = va_malwareVerdict a, v_malwareEngine = va_malwareEngine a,
      v_malwareEngineVersion = va_malwareEngineVersion a,
      v_signatureVersion = va_signatureVersion a,
      v_signaturePublishedAt = the (va_signaturePublishedAt a), v_scannedAt = the (va_scannedAt a),
      v_pdfStructuralVerdict = va_pdfStructuralVerdict a, v_pdfEngine = va_pdfEngine a,
      v_pdfEngineVersion = va_pdfEngineVersion a, v_pdfVersion = va_pdfVersion a,
      v_pageCount = va_pageCount a, v_objectCount = va_objectCount a,
      v_revisionCount = va_revisionCount a, v_checkedAt = the (va_checkedAt a),
      v_result = JObj (va_result a)\<rparr>"

fun opt_str :: "string option \<Rightarrow> json" where
  "opt_str None = JNull"
| "opt_str (Some s) = JStr s"

fun validation_verdict_name :: "validation_verdict \<Rightarrow> string" where
  "validation_verdict_name ACCEPTED = ''ACCEPTED''"
| "validation_verdict_name REJECTED = ''REJECTED''"

definition stored_rejection_code :: "validated_attestation \<Rightarrow> string option" where
  "stored_rejection_code a =
     (if va_verdict a = REJECTED then Some (canonical_rejection_code a) else None)"

definition malware_scan_name :: "validated_attestation \<Rightarrow> string" where
  "malware_scan_name a = (if va_malwareVerdict a = INFECTED then ''infected'' else ''clean'')"

definition completed_asset :: "validated_attestation \<Rightarrow> asset \<Rightarrow> asset" where
  "completed_asset a s =
     (if va_verdict a = ACCEPTED
      then s\<lparr>a_status := A_READY, a_scannedAt := va_scannedAt a, a_validatedAt := va_checkedAt a,
             a_validationPolicyVersion := Some (va_policyVersion a), a_rejectionCode := None,
             a_rejectedReason := None,
             a_metadata := JObj [(''custody'', JStr ''private-validated''),
               (''publicAccess'', JBool False), (''malwareScan'', JStr ''clean''),
               (''documentValidation'', JStr ''accepted''), (''readerAvailable'', JBool False)]\<rparr>
      else s\<lparr>a_status := A_REJECTED, a_scannedAt := va_scannedAt a, a_validatedAt := va_checkedAt a,
             a_validationPolicyVersion := Some (va_policyVersion a),
             a_rejectionCode := stored_rejection_code a,
             a_rejectedReason := Some ''The uploaded PDF did not pass the validation policy.'',
             a_metadata := JObj [(''custody'', JStr ''private-quarantine''),
               (''publicAccess'', JBool False), (''malwareScan'', JStr (malware_scan_name a)),
               (''documentValidation'', JStr ''rejected''), (''readerAvailable'', JBool False)]\<rparr>)"

definition completed_document :: "validated_attestation \<Rightarrow> document \<Rightarrow> document" where
  "completed_document a x =
     (if va_verdict a = ACCEPTED
      then x\<lparr>d_status := D_READY, d_pageCount := va_pageCount a, d_validatedAt := va_checkedAt a,
             d_validationPolicyVersion := Some (va_policyVersion a), d_failureCode := None,
             d_metadata := JObj [(''custody'', JStr ''private-validated''),
               (''malwareScan'', JStr ''clean''), (''verification'', JStr ''accepted''),
               (''extraction'', JStr ''not-started''), (''readerAvailable'', JBool False)]\<rparr>
      else x\<lparr>d_status := D_FAILED, d_validatedAt := va_checkedAt a,
             d_validationPolicyVersion := Some (va_policyVersion a),
             d_failureCode := stored_rejection_code a,
             d_metadata := JObj [(''custody'', JStr ''private-quarantine''),
               (''malwareScan'', JStr (malware_scan_name a)), (''verification'', JStr ''rejected''),
               (''extraction'', JStr ''not-started''), (''readerAvailable'', JBool False)]\<rparr>)"

definition validation_job_result :: "validated_attestation \<Rightarrow> fields" where
  "validation_job_result a =
     [(''schemaVersion'', jint 1), (''verdict'', JStr (validation_verdict_name (va_verdict a))),
      (''rejectionCode'', opt_str (stored_rejection_code a))]"

definition validation_provenance ::
    "db \<Rightarrow> validation_lease \<Rightarrow> validated_attestation \<Rightarrow> ingest_receipt \<Rightarrow> millis \<Rightarrow> provenance" where
  "validation_provenance d l a r now =
     \<lparr>p_org = vl_organizationId l,
      p_inboxEntryId =
        (if truthy (r_inboxEntryId r)
         then map_option x_id (List.find (\<lambda>x. x_org x = vl_organizationId l
                \<and> Some (x_id x) = r_inboxEntryId r \<and> x_documentId x = Some (vl_documentId l)) (inbox d))
         else None),
      p_documentId = vl_documentId l,
      p_sourceProvider = ''PaperPilot isolated document validation'',
      p_sourceRecordId = vl_jobAttemptId l, p_retrievedAt = now,
      p_payloadDigest = va_toolchainDigest a,
      p_payload =
        [(''stage'', JStr ''document-validation''),
         (''verdict'', JStr (validation_verdict_name (va_verdict a))),
         (''policyVersion'', JStr (va_policyVersion a)),
         (''storageVersion'', JStr (va_storageVersion a)),
         (''rejectionCode'', opt_str (stored_rejection_code a)),
         (''validatorRejectionCode'', opt_str (va_rejectionCode a))]\<rparr>"

definition validation_audit :: "validation_lease \<Rightarrow> validated_attestation \<Rightarrow> audit_event" where
  "validation_audit l a =
     \<lparr>e_org = vl_organizationId l,
      e_action = (if va_verdict a = ACCEPTED then ''document.validation.accepted''
                  else ''document.validation.rejected''),
      e_entityType = ''document'', e_entityId = vl_documentId l,
      e_metadata =
        [(''jobId'', JStr (vl_jobId l)), (''assetId'', JStr (vl_assetId l)),
         (''policyVersion'', JStr (va_policyVersion a)),
         (''rejectionCode'', opt_str (stored_rejection_code a)),
         (''validatorRejectionCode'', opt_str (va_rejectionCode a))]\<rparr>"

definition completion_projection :: "validated_attestation \<Rightarrow> projection" where
  "completion_projection a =
     (if va_verdict a = ACCEPTED then Validation_accepted
      else Validation_failed (or_default (stored_rejection_code a) ''validation_failed'')
             Verification_rejected)"

definition extraction_request ::
    "validation_lease \<Rightarrow> validated_attestation \<Rightarrow> string \<Rightarrow> job \<Rightarrow> ident \<Rightarrow> enqueue_extraction_input"
where
  "extraction_request l a extractionDigest job attestationId =
     \<lparr>xi_organizationId = vl_organizationId l, xi_documentId = vl_documentId l,
      xi_assetId = vl_assetId l, xi_intakeId = Some (vl_intakeId l),
      xi_ingestReceiptId = Some (vl_ingestReceiptId l), xi_validationAttestationId = attestationId,
      xi_toolchainDigest = extractionDigest, xi_createdById = j_createdById job,
      xi_policyVersion = None, xi_storageVersion = Some (va_storageVersion a)\<rparr>"

text \<open>The identifiers the database draws for the rows a completion creates.\<close>

record completion_ids =
  ci_attestationId :: ident
  ci_extractionJobId :: ident

text \<open>The writes of a completion, after its projection.\<close>

definition apply_validation ::
    "completion_ids \<Rightarrow> validation_lease \<Rightarrow> validated_attestation \<Rightarrow> string \<Rightarrow> millis \<Rightarrow> job
      \<Rightarrow> ingest_receipt \<Rightarrow> db \<Rightarrow> tx_error + db" where
  "apply_validation ids l a extractionDigest now job r d =
     and_then (create_row attestation_clash (attestation_row_of (ci_attestationId ids) l a)
        (attestations d)) (\<lambda>vs.
     let d1 = d\<lparr>attestations := vs\<rparr>
     in and_then (if va_verdict a = ACCEPTED
          then map_sum id snd (enqueue_extraction (ci_extractionJobId ids) (Some now)
                 (extraction_request l a extractionDigest job (ci_attestationId ids)) d1)
          else Inr d1) (\<lambda>d2.
     and_then (update_one (asset_key (vl_organizationId l) (vl_assetId l)) (completed_asset a)
        (assets d2)) (\<lambda>as.
     and_then (update_one (document_key (vl_organizationId l) (vl_documentId l))
        (completed_document a) (documents d2)) (\<lambda>xs.
     and_then (update_one (attempt_key (vl_organizationId l) (vl_jobAttemptId l))
        (succeed_attempt_row now (validation_job_result a)) (attempts d2)) (\<lambda>ts.
     and_then (update_one (job_key (vl_organizationId l) (vl_jobId l))
        (succeed_row now (validation_job_result a)) (jobs d2)) (\<lambda>js.
     Inr (d2\<lparr>assets := as, documents := xs, attempts := ts, jobs := js,
             provenances := provenances d2 @ [validation_provenance d2 l a r now],
             audits := audits d2 @ [validation_audit l a]\<rparr>)))))))"

definition complete_validation_tx ::
    "completion_ids \<Rightarrow> validation_lease \<Rightarrow> validated_attestation \<Rightarrow> string \<Rightarrow> millis \<Rightarrow> db
      \<Rightarrow> (completion_outcome \<times> validation_verdict) option tx" where
  "complete_validation_tx ids l a extractionDigest now d =
     (case List.find (job_key (vl_organizationId l) (vl_jobId l)) (jobs d) of
        None \<Rightarrow> Inr (None, d)
      | Some job \<Rightarrow>
          (case (j_status job = J_SUCCEEDED,
                 List.find (\<lambda>v. v_jobAttemptId v = vl_jobAttemptId l) (attestations d)) of
             (True, Some v) \<Rightarrow>
               Inr (replay_validation l a
                      (exact_validation_authority l job (parse_validation_payload (j_payload job))
                         (job_receipt d job)) v, d)
           | _ \<Rightarrow>
               (if \<not> completion_allowed d l a now job then Inr (None, d)
                else (case job_receipt d job of
                        None \<Rightarrow> Inr (None, d)
                      | Some r \<Rightarrow>
                          and_then (project_lifecycle d (lease_authority_key l)
                              (completion_projection a) (Some now)) (\<lambda>(ok, d1).
                            if \<not> ok then Inr (None, d1)
                            else map_sum id (\<lambda>d2. (Some (Applied, va_verdict a), d2))
                                   (apply_validation ids l a extractionDigest now job r d1))))))"

definition complete_validation ::
    "completion_ids \<Rightarrow> validation_lease \<Rightarrow> validated_attestation \<Rightarrow> string \<Rightarrow> millis \<Rightarrow> db
      \<Rightarrow> (completion_outcome \<times> validation_verdict) option tx" where
  "complete_validation ids l a extractionDigest now d =
     and_then (assert_attestation a) (\<lambda>_.
     and_then (require_toolchain_digest extractionDigest) (\<lambda>_.
     complete_validation_tx ids l a extractionDigest now d))"

section \<open>Failure\<close>

definition terminal_validation_code :: "validation_failure \<Rightarrow> string" where
  "terminal_validation_code c =
     (if c \<in> {Validation_input_changed, Validation_object_missing} then ''integrity_check_failed''
      else if c = Validation_response_invalid then ''validation_failed''
      else ''validation_unavailable'')"

definition failure_allowed :: "db \<Rightarrow> validation_lease \<Rightarrow> millis \<Rightarrow> job \<Rightarrow> bool" where
  "failure_allowed d l now job \<longleftrightarrow>
     validation_lease_current l now job \<and> j_ingestReceiptId job = Some (vl_ingestReceiptId l)
     \<and> (case List.find (attempt_key (vl_organizationId l) (vl_jobAttemptId l)) (attempts d) of
          None \<Rightarrow> False
        | Some t \<Rightarrow> attempt_current (vl_jobId l) (vl_attemptNumber l) (vl_leaseId l) (vl_workerId l) t)"

definition closing_attempt :: "validation_lease \<Rightarrow> job_attempt \<Rightarrow> bool" where
  "closing_attempt l t \<longleftrightarrow>
     t_id t = vl_jobAttemptId l \<and> t_org t = vl_organizationId l \<and> t_jobId t = vl_jobId l
     \<and> t_leaseId t = Some (vl_leaseId l) \<and> t_status t = J_RUNNING"

definition release_scanned_asset :: "validation_lease \<Rightarrow> db \<Rightarrow> db" where
  "release_scanned_asset l d =
     d\<lparr>assets := update_rows
          (\<lambda>a. asset_key (vl_organizationId l) (vl_assetId l) a \<and> a_status a = A_SCANNING
             \<and> a_objectKey a = vl_storageKey l \<and> a_sha256 a = Some (vl_inputSha256 l)
             \<and> a_sizeBytes a = Some (vl_inputSizeBytes l))
          (\<lambda>a. a\<lparr>a_status := A_QUARANTINED\<rparr>) (assets d)\<rparr>"

definition reject_changed_asset :: "validation_lease \<Rightarrow> string \<Rightarrow> db \<Rightarrow> db" where
  "reject_changed_asset l c d =
     (if c = ''integrity_check_failed''
      then d\<lparr>assets := update_rows
             (\<lambda>a. asset_key (vl_organizationId l) (vl_assetId l) a \<and> a_status a = A_QUARANTINED
                \<and> a_objectKey a = vl_storageKey l)
             (\<lambda>a. a\<lparr>a_status := A_REJECTED, a_rejectionCode := Some c,
                     a_rejectedReason :=
                       Some ''The quarantined object failed a custody integrity check.''\<rparr>)
             (assets d)\<rparr>
      else d)"

definition update_processing_document ::
    "validation_lease \<Rightarrow> document_status \<Rightarrow> string option \<Rightarrow> db \<Rightarrow> db" where
  "update_processing_document l status failureCode d =
     d\<lparr>documents := update_rows
          (\<lambda>x. document_key (vl_organizationId l) (vl_documentId l) x \<and> d_status x = D_PROCESSING)
          (\<lambda>x. x\<lparr>d_status := status, d_failureCode := failureCode\<rparr>) (documents d)\<rparr>"

definition apply_validation_failure ::
    "validation_lease \<Rightarrow> validation_failure \<Rightarrow> bool \<Rightarrow> millis \<Rightarrow> job \<Rightarrow> db \<Rightarrow> failure_outcome tx" where
  "apply_validation_failure l c canRetry now job d =
     and_then (throw_unless (count_rows (closing_attempt l) (attempts d) = 1)
        (Error ''The validation attempt changed concurrently.'')) (\<lambda>_.
     let ts = update_rows (closing_attempt l)
                (close_attempt_row (if canRetry then J_FAILED else J_DEAD_LETTER) now
                   (validation_failure_code c) (validation_failure_message c)) (attempts d)
     in and_then (update_one (job_key (vl_organizationId l) (vl_jobId l))
          (if canRetry
           then retry_row (now + retry_delay_ms (j_attempts job)) (validation_failure_code c)
                  (validation_failure_message c)
           else dead_letter_row now (validation_failure_code c) (validation_failure_message c))
          (jobs d)) (\<lambda>js.
        let d1 = release_scanned_asset l (d\<lparr>attempts := ts, jobs := js\<rparr>)
        in if canRetry
           then Inr (Retrying, update_processing_document l D_PENDING None d1)
           else let d2 = update_processing_document l D_FAILED (Some (terminal_validation_code c))
                           (reject_changed_asset l (terminal_validation_code c) d1)
                in Inr (Dead_letter, d2\<lparr>audits := audits d2
                     @ [dead_letter_audit ''document.validation.dead_lettered''
                          (vl_organizationId l) (vl_jobId l) (validation_failure_code c)]\<rparr>)))"

definition fail_validation_tx ::
    "validation_lease \<Rightarrow> validation_failure \<Rightarrow> bool \<Rightarrow> millis \<Rightarrow> db \<Rightarrow> failure_outcome tx" where
  "fail_validation_tx l c retryable now d =
     (case List.find (job_key (vl_organizationId l) (vl_jobId l)) (jobs d) of
        None \<Rightarrow> Inr (Lease_lost, d)
      | Some job \<Rightarrow>
          (if \<not> failure_allowed d l now job then Inr (Lease_lost, d)
           else
             let canRetry = (retryable \<and> j_attempts job < j_maxAttempts job)
             in and_then (project_lifecycle d (lease_authority_key l)
                  (if canRetry then Validation_retry
                   else Validation_failed (terminal_validation_code c) Verification_unavailable)
                  (Some now)) (\<lambda>(ok, d1).
                if \<not> ok then Inr (Lease_lost, d1)
                else apply_validation_failure l c canRetry now job d1)))"

definition fail_validation ::
    "validation_lease \<Rightarrow> validation_failure \<Rightarrow> bool \<Rightarrow> millis \<Rightarrow> db \<Rightarrow> failure_outcome tx" where
  "fail_validation l c retryable now d =
     and_then (throw_unless (utf8_bytes (validation_failure_message c) \<le> 500)
       (TypeError ''The safe validation error message is too large.'')) (\<lambda>_.
     fail_validation_tx l c retryable now d)"

end
