(* ===== verification/Validation_Safety.thy ===== *)
theory Validation_Safety
  imports Validation_Jobs
begin

text \<open>
  The validation job's laws: every transaction of \<open>Validation_Jobs\<close> refines the abstract queue
  (an interpretation of \<open>leased_queue\<close>), stale leases have no effect, completions have exactly
  their effects and replay, failures retry or dead-letter.
\<close>

section \<open>What each operation does to the queue\<close>

lemma project_queue [frame_simps]:
  assumes "project_lifecycle d key p (Some t) = Inr (ok, d')"
  shows "jobs d' = jobs d" "attempts d' = attempts d"
  using project_outside_same [OF assms] by (simp_all add: frame_simps)

lemma quarantine_scanning_queue [simp]:
  "jobs (quarantine_scanning j d) = jobs d" "attempts (quarantine_scanning j d) = attempts d"
  by (simp_all add: quarantine_scanning_def)

lemma document_updates_queue [simp]:
  "jobs (fail_pending_document j c d) = jobs d" "attempts (fail_pending_document j c d) = attempts d"
  "jobs (reset_processing_document j d) = jobs d"
  "attempts (reset_processing_document j d) = attempts d"
  "jobs (close_expired_attempt j s m t d) = jobs d"
  by (simp_all add: fail_pending_document_def reset_processing_document_def close_expired_attempt_def)

lemma close_expired_attempts:
  "attempts (close_expired_attempt j s m now d) =
     update_rows (leased_attempt j) (close_attempt_row s now ''worker_lease_expired'' m) (attempts d)"
  by (simp add: close_expired_attempt_def)

lemma project_unclaimed_queue:
  "project_unclaimed_failure d job c now = Inr d' \<Longrightarrow> jobs d' = jobs d \<and> attempts d' = attempts d"
  by (auto simp: project_unclaimed_failure_def map_sum_Inr_iff frame_simps split: option.splits)

lemma fail_target_queue:
  assumes "fail_target_without_claim d job c now = Inr d'"
  shows "jobs d' = update_rows (same_job job) (dead_letter_row now c target_failed_message) (jobs d)"
    "attempts d' = (if j_status job = J_RUNNING \<and> truthy (j_leaseId job)
       then update_rows (leased_attempt job)
              (close_attempt_row J_DEAD_LETTER now c target_failed_message) (attempts d)
       else attempts d)"
  using assms
  by (auto simp: fail_target_without_claim_def and_then_Inr_iff Let_def update_one_Inr_iff
      dest!: project_unclaimed_queue)

text \<open>The attempts running under a job's lease are exactly its running attempts.\<close>

lemma leased_attempt_iff:
  assumes "queue_ok (js, ts)" "j \<in> set js" "t \<in> set ts"
  shows "leased_attempt j t \<longleftrightarrow> t_jobId t = j_id j \<and> t_status t = J_RUNNING"
  using running_attempt_job(2) [OF assms] by (auto simp: leased_attempt_def)

lemma closes_leased:
  assumes "queue_ok (js, ts)" "j \<in> set js" "s \<noteq> J_RUNNING"
  shows "closes j ts (update_rows (leased_attempt j) (close_attempt_row s now c m) ts)"
  using leased_attempt_iff [OF assms(1,2)] assms(3)
  by (intro closes_update) (auto simp: close_attempt_row_def)

lemma closes_twice:
  assumes "queue_ok (js, ts)" "j \<in> set js" "closes j ts ts'"
  shows "update_rows (leased_attempt j) f ts' = ts'"
  using assms(3) by (intro update_rows_id) (auto simp: closes_def leased_attempt_def)

lemma running_truthy_lease:
  assumes "queue_ok (js, ts)" "j \<in> set js"
  shows "j_status j = J_RUNNING \<longleftrightarrow> truthy (j_leaseId j)"
  using assms by (cases "j_leaseId j") (auto simp: list_all_iff job_ok_def)

lemma fail_target_refines:
  assumes ok: "queue_ok (jobs d, ts)" and job: "job \<in> set (jobs d)"
    and st: "j_status job \<in> {J_QUEUED, J_RETRYING, J_RUNNING}"
    and closed: "attempts d = ts \<or> closes job ts (attempts d)"
    and run: "fail_target_without_claim d job c now = Inr d'"
  shows "queue_step now (jobs d, ts) (queue_of d')"
proof -
  have "closes job ts (attempts d')"
    using closed
  proof
    assume eq: "attempts d = ts"
    show ?thesis
    proof (cases "j_status job = J_RUNNING")
      case True
      then show ?thesis
        using fail_target_queue(2) [OF run] running_truthy_lease [OF ok job]
          closes_leased [OF ok job] eq by simp
    next
      case False
      then show ?thesis
        using fail_target_queue(2) [OF run] closes_idle [OF ok job] eq by simp
    qed
  next
    assume "closes job ts (attempts d)"
    then show ?thesis
      using fail_target_queue(2) [OF run] closes_twice [OF ok job] by simp
  qed
  with queue_step.dead_letter [OF job st this] fail_target_queue(1) [OF run]
  show ?thesis by (simp add: queue_of_def)
qed

section \<open>Claim\<close>

lemma open_job_lease_queue:
  assumes "open_job_lease env w ttl now job d = Inr d'"
  shows "jobs d' = update_rows (same_job job)
           (claim_row now w (ce_leaseId env) (now + ttl) (j_attempts job + 1)) (jobs d)"
    "attempts d' = attempts d @ [open_attempt job now w (ce_attemptId env) (ce_leaseId env)
       (j_attempts job + 1)]"
    "\<forall>t \<in> set (attempts d). t_id t \<noteq> ce_attemptId env"
    "d' = d\<lparr>jobs := jobs d', attempts := attempts d'\<rparr>"
  using assms
  by (auto simp: open_job_lease_def and_then_Inr_iff update_one_Inr_iff create_row_Inr_iff
      list_ex_iff attempt_clash_def open_attempt_def)

lemma take_validation_lease_queue:
  assumes "take_validation_lease env w ttl now job x a d = Inr d'"
  obtains d1 where "open_job_lease env w ttl now job d = Inr d1"
    "jobs d' = jobs d1" "attempts d' = attempts d1"
  using assms by (auto simp: take_validation_lease_def and_then_Inr_iff)

text \<open>A lease opened on a claimable job is a claim of the abstract queue.\<close>

lemma open_job_lease_refines:
  assumes ok: "queue_ok (jobs d, ts)" and job: "job \<in> set (jobs d)"
    and cand: "claim_candidate now job" "j_attempts job < j_maxAttempts job"
    and cl: "closes job ts (attempts d)"
    and pos: "0 < ttl" "ce_leaseId env \<noteq> []"
    and run: "open_job_lease env w ttl now job d = Inr d'"
  shows "queue_step now (jobs d, ts) (queue_of d')"
proof -
  note q = open_job_lease_queue [OF run]
  have "\<forall>x \<in> set ts. t_id x \<noteq> ce_attemptId env"
    using q(3) closes_maps(1) [OF cl] by (metis image_iff list.set_map)
  with queue_step.claim [OF job cand _ cl refl, of "now + ttl"] pos q show ?thesis
    by (simp add: queue_of_def)
qed

lemma claim_validation_target_refines:
  assumes ok: "queue_ok (jobs d, ts)" and job: "job \<in> set (jobs d)"
    and cand: "claim_candidate now job" "j_attempts job < j_maxAttempts job"
    and cl: "closes job ts (attempts d)"
    and pos: "0 < ttl" "ce_leaseId env \<noteq> []"
    and run: "claim_validation_target env w ttl now job d = Inr (r, d')"
  shows "queue_step now (jobs d, ts) (queue_of d')"
proof -
  have st: "j_status job \<in> {J_QUEUED, J_RETRYING, J_RUNNING}"
    using cand(1) by (auto simp: claim_candidate_def)
  show ?thesis
  proof (cases "validation_target d job")
    case None
    with run have "fail_target_without_claim d job ''validation_target_invalid'' now = Inr d'"
      by (auto simp: claim_validation_target_def map_sum_Inr_iff)
    with fail_target_refines [OF ok job st] cl show ?thesis by blast
  next
    case (Some tgt)
    obtain p key x a rc where tgt: "tgt = (p, key, x, a, rc)" by (cases tgt)
    with Some run obtain okp d1 where pr: "project_lifecycle d key Validation_claim (Some now) = Inr (okp, d1)"
      and rest: "(if \<not> okp
            then skip_with (fail_target_without_claim d1 job ''validation_target_invalid'' now)
            else map_sum id
                   (\<lambda>d2. (Claimed (make_validation_lease env w (now + ttl) job p x a rc), d2))
                   (take_validation_lease env w ttl now job x a d1)) = Inr (r, d')"
      by (auto simp: claim_validation_target_def and_then_Inr_iff)
    note f = project_queue [OF pr]
    show ?thesis
    proof (cases okp)
      case False
      with rest have "fail_target_without_claim d1 job ''validation_target_invalid'' now = Inr d'"
        by (auto simp: map_sum_Inr_iff)
      with fail_target_refines [of d1 ts job] ok job st cl f show ?thesis by simp
    next
      case True
      with rest have "take_validation_lease env w ttl now job x a d1 = Inr d'"
        by (auto simp: map_sum_Inr_iff)
      then obtain d2 where "open_job_lease env w ttl now job d1 = Inr d2"
        "jobs d' = jobs d2" "attempts d' = attempts d2"
        by (rule take_validation_lease_queue)
      with open_job_lease_refines [of d1 ts job now ttl env w d2] ok job cand cl pos f
      show ?thesis by (simp add: queue_of_def)
    qed
  qed
qed

lemma validation_candidateD:
  "validation_candidate now j \<Longrightarrow> claim_candidate now j \<and> j_type j = DOCUMENT_VALIDATE"
  by (simp add: validation_candidate_def)

lemma claim_candidate_status:
  "claim_candidate now j \<Longrightarrow> j_status j \<in> {J_QUEUED, J_RETRYING, J_RUNNING}"
  by (auto simp: claim_candidate_def)

lemma claim_validation_refines:
  assumes ok: "queue_ok (queue_of d)" and pos: "0 < ttl" "ce_leaseId env \<noteq> []"
    and run: "claim_validation_tx env w ttl now d = Inr (r, d')"
  shows "(queue_step now)\<^sup>*\<^sup>* (queue_of d) (queue_of d')"
proof (cases "select_candidate env (validation_candidate now) (jobs d)")
  case None
  with run show ?thesis by (simp add: claim_validation_tx_def)
next
  case (Some job)
  then have job: "job \<in> set (jobs d)" and cand: "claim_candidate now job"
    by (auto dest!: select_candidateD validation_candidateD)
  note st = claim_candidate_status [OF cand]
  from ok have ok': "queue_ok (jobs d, attempts d)" by (simp add: queue_of_def)
  note tru = running_truthy_lease [OF ok' job]
  let ?skip = "\<lambda>d1 c. skip_with (fail_target_without_claim d1 job c now)"
  let ?closed = "\<lambda>s. close_expired_attempt job s validation_expired_message now d"
  have cl: "closes job (attempts d) (attempts (?closed s))" if "s \<noteq> J_RUNNING" for s
    using closes_leased [OF ok' job that] by (simp add: close_expired_attempts)
  consider (budget) "j_status job \<noteq> J_RUNNING" "j_attempts job \<ge> j_maxAttempts job"
    | (fresh) "j_status job \<noteq> J_RUNNING" "j_attempts job < j_maxAttempts job"
    | (live) "j_status job = J_RUNNING" "\<not> expired now (j_leaseExpiresAt job)"
    | (spent) "j_status job = J_RUNNING" "expired now (j_leaseExpiresAt job)"
        "j_attempts job \<ge> j_maxAttempts job"
    | (reap) "j_status job = J_RUNNING" "expired now (j_leaseExpiresAt job)"
        "j_attempts job < j_maxAttempts job"
    by linarith
  then have "queue_step now (queue_of d) (queue_of d') \<or> d' = d"
  proof cases
    case budget
    with run Some have "fail_target_without_claim d job ''validation_attempt_budget_exhausted'' now = Inr d'"
      by (auto simp: claim_validation_tx_def map_sum_Inr_iff)
    with fail_target_refines [OF ok' job st] show ?thesis by (simp add: queue_of_def)
  next
    case fresh
    with run Some have "claim_validation_target env w ttl now job d = Inr (r, d')"
      by (simp add: claim_validation_tx_def)
    with claim_validation_target_refines [OF ok' job cand fresh(2) closes_idle [OF ok' job fresh(1)] pos]
    show ?thesis by (simp add: queue_of_def)
  next
    case live
    with run Some show ?thesis by (simp add: claim_validation_tx_def)
  next
    case spent
    with run Some tru have "fail_target_without_claim (?closed J_DEAD_LETTER) job
        ''worker_lease_expired'' now = Inr d'"
      by (auto simp: claim_validation_tx_def map_sum_Inr_iff)
    with fail_target_refines [of "?closed J_DEAD_LETTER" "attempts d" job] ok' job st cl
    show ?thesis by (simp add: queue_of_def)
  next
    case reap
    with run Some tru have "claim_validation_target env w ttl now job
        (reset_processing_document job (quarantine_scanning job (?closed J_FAILED))) = Inr (r, d')"
      by (simp add: claim_validation_tx_def)
    from claim_validation_target_refines [OF _ _ cand reap(3) _ pos this, of "attempts d"] ok' job cl
    show ?thesis by (simp add: queue_of_def)
  qed
  then show ?thesis by auto
qed



section \<open>Heartbeat\<close>

lemma update_rows_cong:
  "(\<And>r. r \<in> set rs \<Longrightarrow> P r = Q r) \<Longrightarrow> update_rows P f rs = update_rows Q f rs"
  by (simp add: update_rows_def)

lemma require_lease_ttl_pos: "require_lease_ttl m n = Inr ttl \<Longrightarrow> 10000 \<le> ttl \<and> ttl \<le> 900000"
  by (auto simp: require_lease_ttl_def min_lease_ttl_ms_def max_lease_ttl_ms_def
      elim!: bounded_integerE split: if_splits)

lemma holds_validation_lease_live: "holds_validation_lease l now j \<Longrightarrow> lease_live now j"
  by (simp add: holds_validation_lease_def lease_live_def)

text \<open>Extending the lease of the rows that pass a test only one live job can pass.\<close>

lemma heartbeat_refines:
  assumes ok: "queue_ok (js, ts)" and pos: "now < expiry"
    and P: "\<And>j. P j \<Longrightarrow> lease_live now j \<and> j_id j = i"
  shows "(queue_step now)\<^sup>*\<^sup>* (js, ts)
    (update_rows P (\<lambda>j. j\<lparr>j_leaseExpiresAt := Some expiry\<rparr>) js, ts)"
proof (cases "\<exists>j \<in> set js. P j")
  case True
  then obtain j where j: "j \<in> set js" "P j" by blast
  have d: "distinct (map j_id js)" using ok by simp
  have "P x = same_job j x" if "x \<in> set js" for x
    using that j P [OF j(2)] P [of x] distinct_keyD [OF d that j(1)] by (auto simp: job_key_def)
  then have "update_rows P (\<lambda>j. j\<lparr>j_leaseExpiresAt := Some expiry\<rparr>) js
      = update_rows (same_job j) (\<lambda>j. j\<lparr>j_leaseExpiresAt := Some expiry\<rparr>) js"
    by (rule update_rows_cong)
  with queue_step.heartbeat [OF j(1) _ pos, of ts] P [OF j(2)] show ?thesis by auto
next
  case False
  then have "update_rows P (\<lambda>j. j\<lparr>j_leaseExpiresAt := Some expiry\<rparr>) js = js"
    by (intro update_rows_id) auto
  then show ?thesis by simp
qed

lemma heartbeat_validation_refines:
  assumes "queue_ok (queue_of d)" "heartbeat_validation l ttl now d = Inr (r, d')"
  shows "(queue_step now)\<^sup>*\<^sup>* (queue_of d) (queue_of d')"
proof -
  from assms(2) obtain t where t: "require_lease_ttl validation_ttl_message
      (or_default ttl (NInt validation_default_ttl_ms)) = Inr t"
    and d': "d' = d\<lparr>jobs := update_rows (holds_validation_lease l now)
               (\<lambda>j. j\<lparr>j_leaseExpiresAt := Some (now + t)\<rparr>) (jobs d)\<rparr>"
    by (auto simp: heartbeat_validation_def and_then_Inr_iff)
  have "(queue_step now)\<^sup>*\<^sup>* (jobs d, attempts d)
      (update_rows (holds_validation_lease l now) (\<lambda>j. j\<lparr>j_leaseExpiresAt := Some (now + t)\<rparr>) (jobs d),
       attempts d)"
    using assms(1) require_lease_ttl_pos [OF t]
    by (intro heartbeat_refines [where i = "vl_jobId l"])
      (auto simp: queue_of_def holds_validation_lease_live holds_validation_lease_def job_key_def)
  then show ?thesis by (simp add: d' queue_of_def)
qed

section \<open>Completion and failure\<close>

text \<open>The attempt a lease names is the only running attempt of its job.\<close>

lemma closes_named_attempt:
  assumes ok: "queue_ok (js, ts)" and j: "j \<in> set js"
    and t: "t \<in> set ts" "attempt_current (j_id j) n lid w t"
    and P: "\<And>x. x \<in> set ts \<Longrightarrow> P x \<longleftrightarrow> x = t"
    and f: "\<And>t. t_status (f t) \<noteq> J_RUNNING \<and> t_id (f t) = t_id t \<and> t_org (f t) = t_org t
           \<and> t_jobId (f t) = t_jobId t \<and> t_attemptNumber (f t) = t_attemptNumber t
           \<and> t_leaseId (f t) = t_leaseId t"
  shows "closes j ts (update_rows P f ts)"
proof (rule closes_update)
  fix x assume x: "x \<in> set ts"
  show "P x \<longleftrightarrow> t_jobId x = j_id j \<and> t_status x = J_RUNNING"
    using P [OF x] t queue_ok_one_running [OF ok t(1) x] by (auto simp: attempt_current_def)
qed (rule f)

lemma attempt_key_unique:
  assumes "queue_ok (js, ts)" "t \<in> set ts" "attempt_key org i t" "x \<in> set ts"
  shows "attempt_key org i x \<longleftrightarrow> x = t"
  using assms distinct_keyD [of t_id ts x t] by (auto simp: attempt_key_def)

lemma apply_validation_queue:
  assumes "apply_validation ids l a e now job r d = Inr d'"
  obtains js where
    "js = jobs d \<or> (\<exists>j. queue_step now (jobs d, attempts d) (jobs d @ [j], attempts d) \<and> js = jobs d @ [j])"
    "jobs d' = update_rows (job_key (vl_organizationId l) (vl_jobId l))
                 (succeed_row now (validation_job_result a)) js"
    "attempts d' = update_rows (attempt_key (vl_organizationId l) (vl_jobAttemptId l))
                 (succeed_attempt_row now (validation_job_result a)) (attempts d)"
proof -
  from assms obtain vs d2 where
    q: "(if va_verdict a = ACCEPTED
          then map_sum id snd (enqueue_extraction (ci_extractionJobId ids) (Some now)
                 (extraction_request l a e job (ci_attestationId ids)) (d\<lparr>attestations := vs\<rparr>))
          else Inr (d\<lparr>attestations := vs\<rparr>)) = Inr d2"
    and d': "jobs d' = update_rows (job_key (vl_organizationId l) (vl_jobId l))
                 (succeed_row now (validation_job_result a)) (jobs d2)"
      "attempts d' = update_rows (attempt_key (vl_organizationId l) (vl_jobAttemptId l))
                 (succeed_attempt_row now (validation_job_result a)) (attempts d2)"
    by (auto simp: apply_validation_def and_then_Inr_iff Let_def update_one_Inr_iff)
  have "attempts d2 = attempts d \<and> (jobs d2 = jobs d \<or>
     (\<exists>j. queue_step now (jobs d, attempts d) (jobs d @ [j], attempts d) \<and> jobs d2 = jobs d @ [j]))"
  proof (cases "va_verdict a = ACCEPTED")
    case True
    with q obtain j where "enqueue_extraction (ci_extractionJobId ids) (Some now)
        (extraction_request l a e job (ci_attestationId ids)) (d\<lparr>attestations := vs\<rparr>) = Inr (j, d2)"
      by (auto simp: map_sum_Inr_iff)
    then show ?thesis
    proof (cases rule: enqueue_extractionE)
      case (created p r k t)
      then have "queue_step now (jobs d, attempts d) (jobs d @ [j], attempts d)"
        by (intro queue_step.enqueue)
          (auto simp: new_extraction_job_def unlock_row_def extraction_max_attempts_def)
      with created show ?thesis by simp
    qed simp
  next
    case False
    with q show ?thesis by auto
  qed
  with d' that show thesis by metis
qed

lemma completion_allowedD:
  assumes "completion_allowed d l a now job"
  obtains t where "validation_lease_current l now job" "t \<in> set (attempts d)"
    "attempt_key (vl_organizationId l) (vl_jobAttemptId l) t"
    "attempt_current (vl_jobId l) (vl_attemptNumber l) (vl_leaseId l) (vl_workerId l) t"
  using assms
  by (cases "List.find (attempt_key (vl_organizationId l) (vl_jobAttemptId l)) (attempts d)")
    (auto simp: completion_allowed_def split: option.splits dest!: find_SomeD)

lemma validation_lease_current_live: "validation_lease_current l now j \<Longrightarrow> lease_live now j"
  by (simp add: validation_lease_current_def lease_live_def)

lemma same_job_key: "job_key org i j \<Longrightarrow> job_key org i = same_job j"
  by (auto simp: job_key_def fun_eq_iff)

lemma succeed_refines:
  assumes ok: "queue_ok (js, ts)" and job: "job \<in> set js" "lease_live now job"
    and cl: "closes job ts ts'"
    and js': "js' = js \<or> (\<exists>j. queue_step now (js, ts) (js @ [j], ts) \<and> js' = js @ [j])"
  shows "(queue_step now)\<^sup>*\<^sup>* (js, ts) (update_rows (same_job job) (succeed_row now res) js', ts')"
  using js'
proof
  assume "js' = js"
  with queue_step.succeed [OF job cl] show ?thesis by auto
next
  assume "\<exists>j. queue_step now (js, ts) (js @ [j], ts) \<and> js' = js @ [j]"
  then obtain j where j: "queue_step now (js, ts) (js @ [j], ts)" "js' = js @ [j]" by blast
  have "queue_step now (js @ [j], ts) (update_rows (same_job job) (succeed_row now res) (js @ [j]), ts')"
    using job cl by (intro queue_step.succeed) auto
  with j show ?thesis by (blast intro: converse_rtranclp_into_rtranclp r_into_rtranclp)
qed

lemma complete_validation_txE:
  assumes "complete_validation_tx ids l a e now d = Inr (res, d')"
  obtains (refused) "res = None" "d' = d"
  | (replayed) job v where "List.find (job_key (vl_organizationId l) (vl_jobId l)) (jobs d) = Some job"
      "j_status job = J_SUCCEEDED" "v \<in> set (attestations d)" "d' = d"
      "res = replay_validation l a
        (exact_validation_authority l job (parse_validation_payload (j_payload job))
           (job_receipt d job)) v"
  | (applied) job r d1 where "List.find (job_key (vl_organizationId l) (vl_jobId l)) (jobs d) = Some job"
      "completion_allowed d l a now job" "job_receipt d job = Some r"
      "project_lifecycle d (lease_authority_key l) (completion_projection a) (Some now) = Inr (True, d1)"
      "apply_validation ids l a e now job r d1 = Inr d'" "res = Some (Applied, va_verdict a)"
proof (cases "List.find (job_key (vl_organizationId l) (vl_jobId l)) (jobs d)")
  case None
  with assms refused show thesis by (auto simp: complete_validation_tx_def)
next
  case (Some job)
  let ?v = "List.find (\<lambda>v. v_jobAttemptId v = vl_jobAttemptId l) (attestations d)"
  let ?go = "if \<not> completion_allowed d l a now job then Inr (None, d)
             else (case job_receipt d job of None \<Rightarrow> Inr (None, d)
                   | Some r \<Rightarrow> and_then (project_lifecycle d (lease_authority_key l)
                              (completion_projection a) (Some now)) (\<lambda>(ok, d1).
                            if \<not> ok then Inr (None, d1)
                            else map_sum id (\<lambda>d2. (Some (Applied, va_verdict a), d2))
                                   (apply_validation ids l a e now job r d1)))"
  show thesis
  proof (cases "j_status job = J_SUCCEEDED \<and> ?v \<noteq> None")
    case True
    then obtain v where v: "?v = Some v" by blast
    with True Some assms find_SomeD [OF v] show thesis
      by (intro replayed [of job v]) (auto simp: complete_validation_tx_def)
  next
    case False
    with Some assms have "?go = Inr (res, d')"
      by (auto simp: complete_validation_tx_def split: option.splits bool.splits)
    then consider "res = None" "d' = d"
      | r okp d1 where "completion_allowed d l a now job" "job_receipt d job = Some r"
          "project_lifecycle d (lease_authority_key l) (completion_projection a) (Some now) = Inr (okp, d1)"
          "(if \<not> okp then Inr (None, d1)
            else map_sum id (\<lambda>d2. (Some (Applied, va_verdict a), d2))
                   (apply_validation ids l a e now job r d1)) = Inr (res, d')"
      by (auto simp: and_then_Inr_iff split: if_splits option.splits)
    then show thesis
    proof cases
      case 2
      show thesis
      proof (cases okp)
        case True
        with 2 Some show thesis by (intro applied [of job r d1]) (auto simp: map_sum_Inr_iff)
      next
        case False
        with 2 project_refused [of d _ _ now d1] show thesis by (intro refused) auto
      qed
    qed (rule refused)
  qed
qed

lemma complete_validation_refines:
  assumes ok: "queue_ok (queue_of d)" and run: "complete_validation_tx ids l a e now d = Inr (res, d')"
  shows "(queue_step now)\<^sup>*\<^sup>* (queue_of d) (queue_of d')"
  using run
proof (cases rule: complete_validation_txE)
  case (applied job r d1)
  note f = project_queue [OF applied(4)]
  from ok have ok': "queue_ok (jobs d, attempts d)" by (simp add: queue_of_def)
  from find_SomeD [OF applied(1)] have job: "job \<in> set (jobs d)"
    and key: "job_key (vl_organizationId l) (vl_jobId l) job" by auto
  from applied(2) obtain t where t: "validation_lease_current l now job" "t \<in> set (attempts d)"
    "attempt_key (vl_organizationId l) (vl_jobAttemptId l) t"
    "attempt_current (vl_jobId l) (vl_attemptNumber l) (vl_leaseId l) (vl_workerId l) t"
    by (rule completion_allowedD)
  from applied(5) obtain js where
    js: "js = jobs d \<or> (\<exists>j. queue_step now (jobs d, attempts d) (jobs d @ [j], attempts d) \<and> js = jobs d @ [j])"
    and d': "jobs d' = update_rows (same_job job) (succeed_row now (validation_job_result a)) js"
      "attempts d' = update_rows (attempt_key (vl_organizationId l) (vl_jobAttemptId l))
                 (succeed_attempt_row now (validation_job_result a)) (attempts d)"
    by (rule apply_validation_queue) (simp add: f same_job_key [OF key])
  have "closes job (attempts d) (attempts d')"
    unfolding d'
    by (rule closes_named_attempt [OF ok' job t(2)])
      (use t key attempt_key_unique [OF ok' t(2,3)] in
        \<open>auto simp: job_key_def succeed_attempt_row_def\<close>)
  from succeed_refines [OF ok' job validation_lease_current_live [OF t(1)] this js] d'
  show ?thesis by (simp add: queue_of_def)
qed simp_all

lemma fail_validation_txE:
  assumes "fail_validation_tx l c retryable now d = Inr (res, d')"
  obtains (lost) "res = Lease_lost" "d' = d"
  | (applied) job d1 canRetry where
      "List.find (job_key (vl_organizationId l) (vl_jobId l)) (jobs d) = Some job"
      "failure_allowed d l now job" "canRetry \<longleftrightarrow> retryable \<and> j_attempts job < j_maxAttempts job"
      "project_lifecycle d (lease_authority_key l)
         (if canRetry then Validation_retry
          else Validation_failed (terminal_validation_code c) Verification_unavailable)
         (Some now) = Inr (True, d1)"
      "apply_validation_failure l c canRetry now job d1 = Inr (res, d')"
proof (cases "List.find (job_key (vl_organizationId l) (vl_jobId l)) (jobs d)")
  case None
  with assms lost show thesis by (auto simp: fail_validation_tx_def)
next
  case (Some job)
  let ?retry = "retryable \<and> j_attempts job < j_maxAttempts job"
  let ?p = "if ?retry then Validation_retry
            else Validation_failed (terminal_validation_code c) Verification_unavailable"
  show thesis
  proof (cases "failure_allowed d l now job")
    case True
    with assms Some obtain okp d1 where
      pr: "project_lifecycle d (lease_authority_key l) ?p (Some now) = Inr (okp, d1)"
      and rest: "(if \<not> okp then Inr (Lease_lost, d1)
                  else apply_validation_failure l c ?retry now job d1) = Inr (res, d')"
      by (auto simp: fail_validation_tx_def Let_def and_then_Inr_iff)
    show thesis
    proof (cases okp)
      case okp: True
      show thesis
        by (rule applied [OF Some True refl]) (use okp pr rest in simp_all)
    next
      case False
      with rest pr project_refused [of d _ _ now d1] show thesis by (intro lost) auto
    qed
  next
    case False
    with assms Some show thesis by (intro lost) (simp_all add: fail_validation_tx_def)
  qed
qed

lemma apply_failure_queue:
  assumes "apply_validation_failure l c canRetry now job d = Inr (res, d')"
  shows "jobs d' = update_rows (job_key (vl_organizationId l) (vl_jobId l))
          (if canRetry
           then retry_row (now + retry_delay_ms (j_attempts job)) (validation_failure_code c)
                  (validation_failure_message c)
           else dead_letter_row now (validation_failure_code c) (validation_failure_message c))
          (jobs d)"
    "attempts d' = update_rows (closing_attempt l)
                (close_attempt_row (if canRetry then J_FAILED else J_DEAD_LETTER) now
                   (validation_failure_code c) (validation_failure_message c)) (attempts d)"
    "res = (if canRetry then Retrying else Dead_letter)"
  using assms
  by (auto simp: apply_validation_failure_def and_then_Inr_iff Let_def update_one_Inr_iff
      release_scanned_asset_def update_processing_document_def reject_changed_asset_def
      split: if_splits)

lemma fail_validation_refines:
  assumes ok: "queue_ok (queue_of d)" and run: "fail_validation_tx l c retryable now d = Inr (res, d')"
  shows "(queue_step now)\<^sup>*\<^sup>* (queue_of d) (queue_of d')"
  using run
proof (cases rule: fail_validation_txE)
  case (applied job d1 canRetry)
  note f = project_queue [OF applied(4)] and q = apply_failure_queue [OF applied(5)]
  from ok have ok': "queue_ok (jobs d, attempts d)" by (simp add: queue_of_def)
  from find_SomeD [OF applied(1)] have job: "job \<in> set (jobs d)"
    and key: "job_key (vl_organizationId l) (vl_jobId l) job" by auto
  from applied(2) obtain t where t: "t \<in> set (attempts d)"
      "attempt_key (vl_organizationId l) (vl_jobAttemptId l) t"
      "attempt_current (vl_jobId l) (vl_attemptNumber l) (vl_leaseId l) (vl_workerId l) t"
    and cur: "validation_lease_current l now job"
    by (auto simp: failure_allowed_def split: option.splits dest!: find_SomeD)
  have cl: "closes job (attempts d) (attempts d')"
    unfolding q f
    by (rule closes_named_attempt [OF ok' job t(1)])
      (use t key attempt_key_unique [OF ok' t(1,2)] in
        \<open>auto simp: job_key_def close_attempt_row_def closing_attempt_def attempt_key_def attempt_current_def\<close>)
  note live = validation_lease_current_live [OF cur]
  have "queue_step now (jobs d, attempts d) (jobs d', attempts d')"
  proof (cases canRetry)
    case True
    have "now < now + retry_delay_ms (j_attempts job)"
      using retry_delay_bounds(1) [of "j_attempts job"] by simp
    with True applied(3) show ?thesis
      using queue_step.retry [OF job live _ _ cl] by (simp add: q f same_job_key [OF key])
  next
    case False
    then show ?thesis
      using queue_step.dead_letter [OF job _ cl] live
      by (simp add: q f same_job_key [OF key] lease_live_def)
  qed
  then show ?thesis by (auto simp: queue_of_def)
qed simp

lemma enqueue_validation_refines:
  assumes "enqueue_validation newId now x d = Inr (j, d')"
  shows "(queue_step clock)\<^sup>*\<^sup>* (queue_of d) (queue_of d')"
proof -
  from assms consider "d' = d" | p r k where "j = new_validation_job newId now x r p k"
      "\<not> list_ex (job_clash j) (jobs d)" "d' = d\<lparr>jobs := jobs d @ [j]\<rparr>"
    by (auto simp: enqueue_validation_def and_then_Inr_iff map_sum_Inr_iff create_row_Inr_iff Let_def
        split: option.splits if_splits)
  then show ?thesis
  proof cases
    case 2
    then have "queue_step clock (jobs d, attempts d) (jobs d @ [j], attempts d)"
      by (intro queue_step.enqueue)
        (auto simp: new_validation_job_def unlock_row_def validation_max_attempts_def
          list_ex_iff job_clash_def)
    with 2 show ?thesis by (auto simp: queue_of_def)
  qed simp
qed

section \<open>The validation handlers keep the queue contract\<close>

datatype validation_event =
    V_enqueue ident millis enqueue_validation_input
  | V_claim claim_env string "jnum option" millis
  | V_heartbeat validation_lease "jnum option" millis
  | V_complete completion_ids validation_lease validated_attestation string millis
  | V_fail validation_lease validation_failure bool millis

fun run_validation :: "validation_event \<Rightarrow> db \<Rightarrow> unit tx" where
  "run_validation (V_enqueue i now x) d = map_sum id (map_prod (\<lambda>_. ()) id) (enqueue_validation i now x d)"
| "run_validation (V_claim env w ttl now) d =
     and_then (require_worker_id w) (\<lambda>w'.
     and_then (require_lease_ttl validation_ttl_message
       (or_default ttl (NInt validation_default_ttl_ms))) (\<lambda>t.
     map_sum id (map_prod (\<lambda>_. ()) id) (claim_validation_tx env w' t now d)))"
| "run_validation (V_heartbeat l ttl now) d =
     map_sum id (map_prod (\<lambda>_. ()) id) (heartbeat_validation l ttl now d)"
| "run_validation (V_complete ids l a e now) d =
     map_sum id (map_prod (\<lambda>_. ()) id) (complete_validation ids l a e now d)"
| "run_validation (V_fail l c retryable now) d =
     map_sum id (map_prod (\<lambda>_. ()) id) (fail_validation l c retryable now d)"

fun validation_clock :: "validation_event \<Rightarrow> millis" where
  "validation_clock (V_enqueue i now x) = now"
| "validation_clock (V_claim env w ttl now) = now"
| "validation_clock (V_heartbeat l ttl now) = now"
| "validation_clock (V_complete ids l a e now) = now"
| "validation_clock (V_fail l c retryable now) = now"

fun validation_admissible :: "validation_event \<Rightarrow> bool" where
  "validation_admissible (V_claim env w ttl now) \<longleftrightarrow> ce_leaseId env \<noteq> []"
| "validation_admissible _ \<longleftrightarrow> True"

lemma run_validation_refines:
  assumes "validation_admissible e" "queue_ok (queue_of d)" "run_validation e d = Inr (u, d')"
  shows "(queue_step (validation_clock e))\<^sup>*\<^sup>* (queue_of d) (queue_of d')"
proof (cases e)
  case (V_enqueue i now x)
  with assms show ?thesis
    by (auto simp: map_sum_Inr_iff intro: enqueue_validation_refines)
next
  case (V_claim env w ttl now)
  with assms obtain w' t r where "require_lease_ttl validation_ttl_message
        (or_default ttl (NInt validation_default_ttl_ms)) = Inr t"
      "claim_validation_tx env w' t now d = Inr (r, d')"
    by (auto simp: map_sum_Inr_iff and_then_Inr_iff)
  with assms V_claim show ?thesis
    using claim_validation_refines [of d t env w' now r d'] by (auto dest: require_lease_ttl_pos)
next
  case (V_heartbeat l ttl now)
  with assms show ?thesis
    by (auto simp: map_sum_Inr_iff intro: heartbeat_validation_refines)
next
  case (V_complete ids l a ed now)
  with assms show ?thesis
    by (auto simp: map_sum_Inr_iff complete_validation_def and_then_Inr_iff
        intro: complete_validation_refines)
next
  case (V_fail l c retryable now)
  with assms show ?thesis
    by (auto simp: map_sum_Inr_iff fail_validation_def and_then_Inr_iff
        intro: fail_validation_refines)
qed

interpretation vq: leased_queue run_validation validation_clock validation_admissible
  by unfold_locales (rule run_validation_refines)

section \<open>Guards and effects\<close>

text \<open>A job whose row does not carry the lease any more.\<close>

definition lease_is_stale :: "db \<Rightarrow> validation_lease \<Rightarrow> millis \<Rightarrow> bool" where
  "lease_is_stale d l now \<longleftrightarrow>
     list_all (\<lambda>j. \<not> (job_key (vl_organizationId l) (vl_jobId l) j \<and> j_status j = J_RUNNING
        \<and> j_leaseId j = Some (vl_leaseId l) \<and> j_lockedBy j = Some (vl_workerId l)
        \<and> \<not> expired now (j_leaseExpiresAt j))) (jobs d)"

lemma stale_no_holder:
  "lease_is_stale d l now \<Longrightarrow> j \<in> set (jobs d) \<Longrightarrow> \<not> holds_validation_lease l now j"
  by (auto simp: lease_is_stale_def list_all_iff holds_validation_lease_def)

lemma stale_not_current:
  "lease_is_stale d l now \<Longrightarrow> j \<in> set (jobs d) \<Longrightarrow> job_key (vl_organizationId l) (vl_jobId l) j
    \<Longrightarrow> \<not> validation_lease_current l now j"
  by (auto simp: lease_is_stale_def list_all_iff validation_lease_current_def)

lemma heartbeat_stale:
  assumes "lease_is_stale d l now" "heartbeat_validation l ttl now d = Inr (r, d')"
  shows "\<not> r \<and> d' = d"
proof -
  have none: "\<not> holds_validation_lease l now j" if "j \<in> set (jobs d)" for j
    by (rule stale_no_holder [OF assms(1) that])
  then have "filter (holds_validation_lease l now) (jobs d) = []" by (simp add: filter_empty_conv)
  moreover have "update_rows (holds_validation_lease l now) f (jobs d) = jobs d" for f
    using none by (intro update_rows_id) blast
  ultimately show ?thesis
    using assms(2) by (auto simp: heartbeat_validation_def and_then_Inr_iff count_rows_def)
qed

lemma complete_stale:
  assumes "lease_is_stale d l now" "complete_validation_tx ids l a e now d = Inr (r, d')"
  shows "d' = d \<and> (r = None \<or> (\<exists>v. r = Some (Replayed, v)))"
  using assms(2)
proof (cases rule: complete_validation_txE)
  case (replayed job v)
  then show ?thesis by (simp add: replay_validation_def)
next
  case (applied job rc d1)
  from find_SomeD [OF applied(1)] stale_not_current [OF assms(1)] have "\<not> validation_lease_current l now job"
    by blast
  with applied(2) show ?thesis by (auto elim: completion_allowedD)
qed simp

lemma fail_stale:
  assumes "lease_is_stale d l now" "fail_validation_tx l c retryable now d = Inr (r, d')"
  shows "d' = d \<and> r = Lease_lost"
  using assms(2)
proof (cases rule: fail_validation_txE)
  case (applied job d1 canRetry)
  from find_SomeD [OF applied(1)] stale_not_current [OF assms(1)] have "\<not> validation_lease_current l now job"
    by blast
  with applied(2) show ?thesis by (simp add: failure_allowed_def)
qed simp

section \<open>What a claim hands out\<close>

lemma find_same_job: "distinct (map j_id js) \<Longrightarrow> j \<in> set js \<Longrightarrow> List.find (same_job j) js = Some j"
  by (induction js) (auto simp: job_key_def image_iff)

lemma claim_validation_targetE:
  assumes "claim_validation_target env w ttl now job d = Inr (Claimed l, d')"
  obtains p key x a r d1 where "validation_target d job = Some (p, key, x, a, r)"
    "project_lifecycle d key Validation_claim (Some now) = Inr (True, d1)"
    "take_validation_lease env w ttl now job x a d1 = Inr d'"
    "l = make_validation_lease env w (now + ttl) job p x a r"
proof (cases "validation_target d job")
  case None
  with assms show thesis by (auto simp: claim_validation_target_def map_sum_Inr_iff)
next
  case (Some tgt)
  obtain p key x a r where "tgt = (p, key, x, a, r)" by (cases tgt)
  with Some assms that show thesis
    by (auto simp: claim_validation_target_def and_then_Inr_iff map_sum_Inr_iff split: if_splits)
qed

text \<open>The database a claim works on: the one of the call, or the reaped one.\<close>

definition validation_claim_base :: "db \<Rightarrow> millis \<Rightarrow> job \<Rightarrow> db" where
  "validation_claim_base d now job =
     (if j_status job = J_RUNNING
      then reset_processing_document job (quarantine_scanning job
             (close_expired_attempt job J_FAILED validation_expired_message now d))
      else d)"

lemma claim_validation_claimedE:
  assumes "claim_validation_tx env w ttl now d = Inr (Claimed l, d')"
  obtains job where "job \<in> set (jobs d)" "validation_candidate now job"
    "j_attempts job < j_maxAttempts job"
    "j_status job = J_RUNNING \<Longrightarrow> expired now (j_leaseExpiresAt job)"
    "claim_validation_target env w ttl now job (validation_claim_base d now job) = Inr (Claimed l, d')"
proof (cases "select_candidate env (validation_candidate now) (jobs d)")
  case None
  with assms show thesis by (simp add: claim_validation_tx_def)
next
  case (Some job)
  with assms that [of job] show thesis
    by (auto simp: claim_validation_tx_def validation_claim_base_def map_sum_Inr_iff
        dest!: select_candidateD split: if_splits)
qed

lemma validation_targetD:
  assumes "validation_target d job = Some (p, key, x, a, r)"
  shows "parse_validation_payload (j_payload job) = Some p" "job_pipeline_key job = Some key"
    "ak_ingestReceiptId key = vp_ingestReceiptId p"
    "List.find (document_key (j_org job) (ak_documentId key)) (documents d) = Some x"
    "List.find (asset_key (j_org job) (ak_assetId key)) (assets d) = Some a"
    "receipt_of d key (vp_ingestReceiptId p) = Some r" "claimable_target x a r p"
  using assms by (auto simp: validation_target_def Option.bind_eq_Some_conv split: if_splits)

lemma job_pipeline_keyD:
  assumes "job_pipeline_key job = Some key"
  shows "j_documentId job = Some (ak_documentId key)" "j_assetId job = Some (ak_assetId key)"
    "j_intakeId job = Some (ak_intakeId key)" "j_ingestReceiptId job = Some (ak_ingestReceiptId key)"
    "ak_org key = j_org job"
  using assms by (auto simp: job_pipeline_key_def split: if_splits elim!: truthyE)

lemma receipt_ofD:
  assumes "receipt_of d key i = Some r"
  shows "r_id r = i" "r_org r = ak_org key" "r_documentId r = ak_documentId key"
    "r_assetId r = ak_assetId key" "r_intakeId r = ak_intakeId key"
  using find_SomeD [OF assms [unfolded receipt_of_def]] by auto

lemma base_tables [simp]:
  "receipts (validation_claim_base d now job) = receipts d"
  "jobs (validation_claim_base d now job) = jobs d"
  by (simp_all add: validation_claim_base_def quarantine_scanning_def reset_processing_document_def
      close_expired_attempt_def)

lemma take_validation_leaseE:
  assumes "take_validation_lease env w ttl now job x a d = Inr d'"
  shows "jobs d' = update_rows (same_job job)
           (claim_row now w (ce_leaseId env) (now + ttl) (j_attempts job + 1)) (jobs d)"
    "attempts d' = attempts d @ [open_attempt job now w (ce_attemptId env) (ce_leaseId env)
       (j_attempts job + 1)]"
    "\<forall>t \<in> set (attempts d). t_id t \<noteq> ce_attemptId env"
    "assets d' = update_rows (asset_key (j_org job) (a_id a))
        (\<lambda>a'. a'\<lparr>a_status := A_SCANNING, a_rejectionCode := None, a_rejectedReason := None\<rparr>) (assets d)"
    "documents d' = update_rows (document_key (j_org job) (d_id x))
        (\<lambda>x'. x'\<lparr>d_status := D_PROCESSING, d_failureCode := None\<rparr>) (documents d)"
    "receipts d' = receipts d"
  using assms
  by (auto simp: take_validation_lease_def open_job_lease_def and_then_Inr_iff update_one_Inr_iff
      create_row_Inr_iff list_ex_iff attempt_clash_def open_attempt_def)

lemma pipeline_key_rows [simp]:
  "job_pipeline_key (claim_row n w i e m j) = job_pipeline_key j"
  "job_pipeline_key (succeed_row n r j) = job_pipeline_key j"
  by (simp_all add: job_pipeline_key_def job_rows)

text \<open>
  The lease a claim returns passes \<open>completion_allowed\<close> with an attestation of its input, until it
  expires: the guards of a completion before its lifecycle projection.
\<close>

lemma claimed_lease_completes:
  assumes ok: "queue_ok (queue_of d)" and run: "claim_validation_tx env w ttl now d = Inr (Claimed l, d')"
    and t: "t < vl_leaseExpiresAt l" and att: "attestation_for_lease l att"
  shows "\<exists>job. List.find (job_key (vl_organizationId l) (vl_jobId l)) (jobs d') = Some job
           \<and> completion_allowed d' l att t job"
proof -
  from run obtain job where job: "job \<in> set (jobs d)" "validation_candidate now job"
    and tgt: "claim_validation_target env w ttl now job (validation_claim_base d now job)
      = Inr (Claimed l, d')"
    by (rule claim_validation_claimedE)
  from tgt obtain p key x a r d1 where vt: "validation_target (validation_claim_base d now job) job
        = Some (p, key, x, a, r)"
      and pr: "project_lifecycle (validation_claim_base d now job) key Validation_claim (Some now)
        = Inr (True, d1)"
      and tk: "take_validation_lease env w ttl now job x a d1 = Inr d'"
      and l: "l = make_validation_lease env w (now + ttl) job p x a r"
    by (rule claim_validation_targetE)
  note v = validation_targetD [OF vt] and k = job_pipeline_keyD [OF validation_targetD(2) [OF vt]]
    and e = take_validation_leaseE [OF tk] and rc = receipt_ofD [OF validation_targetD(6) [OF vt]]
  note f = outside_sameD [OF project_outside_same [OF pr]]
  let ?row = "claim_row now w (ce_leaseId env) (now + ttl) (j_attempts job + 1) job"
  have dist: "distinct (map j_id (jobs d))" using ok by (simp add: queue_of_def)
  have row: "List.find (same_job job) (jobs d') = Some ?row"
    unfolding e(1) using find_same_job [OF dist job(1)]
    by (intro find_update_same) (simp_all add: f job_key_def)
  have asset: "List.find (asset_key (j_org job) (a_id a)) (assets d')
      = Some (a\<lparr>a_status := A_SCANNING, a_rejectionCode := None, a_rejectedReason := None\<rparr>)"
    unfolding e(4) using v(5) find_SomeD [OF v(5)]
    by (intro find_update_same) (simp_all add: f asset_key_def)
  have doc: "List.find (document_key (j_org job) (d_id x)) (documents d')
      = Some (x\<lparr>d_status := D_PROCESSING, d_failureCode := None\<rparr>)"
    unfolding e(5) using v(4) find_SomeD [OF v(4)]
    by (intro find_update_same) (simp_all add: f document_key_def)
  let ?t = "open_attempt job now w (ce_attemptId env) (ce_leaseId env) (j_attempts job + 1)"
  have "List.find (attempt_key (j_org job) (ce_attemptId env)) (attempts d1) = None"
    using e(3) by (auto simp: find_None_iff attempt_key_def)
  then have att_row: "List.find (attempt_key (j_org job) (ce_attemptId env)) (attempts d') = Some ?t"
    unfolding e(2) by (simp add: find_append attempt_key_def open_attempt_def)
  have jr: "job_receipt d' ?row = Some r"
    using v(2,3,6) by (simp add: job_receipt_def pipeline_key_rows receipt_of_def e(6) f)
  have ct: "claimable_target x a r p" by (rule v(7))
  have "completion_allowed d' l att t ?row"
    unfolding completion_allowed_def
  proof (intro conjI)
    show "validation_lease_current l t ?row"
      using t k find_SomeD [OF v(4)] find_SomeD [OF v(5)] rc
      by (auto simp: l make_validation_lease_def validation_lease_current_def claim_row_def
          document_key_def asset_key_def)
    show "exact_validation_authority l ?row (parse_validation_payload (j_payload ?row)) (job_receipt d' ?row)"
      using job(2) k v(1,3) rc ct find_SomeD [OF v(4)] find_SomeD [OF v(5)]
      unfolding jr
      by (auto simp: exact_validation_authority_def l make_validation_lease_def claim_row_def
          validation_candidate_def claimable_target_def document_key_def asset_key_def
          split: option.splits)
    show "attestation_for_lease l att" by (rule att)
    show "case (List.find (attempt_key (vl_organizationId l) (vl_jobAttemptId l)) (attempts d'),
              List.find (document_key (vl_organizationId l) (vl_documentId l)) (documents d'),
              List.find (asset_key (vl_organizationId l) (vl_assetId l)) (assets d')) of
          (Some t, Some x, Some s) \<Rightarrow>
            attempt_current (vl_jobId l) (vl_attemptNumber l) (vl_leaseId l) (vl_workerId l) t
            \<and> scanned_target_current l x s
        | _ \<Rightarrow> False"
      using ct
      by (auto simp: l make_validation_lease_def att_row doc asset attempt_current_def
          open_attempt_def scanned_target_current_def claimable_target_def split: option.splits)
  qed
  with row show ?thesis by (auto simp: l make_validation_lease_def)
qed

section \<open>What a completion writes, and its replay\<close>

lemma enqueue_extraction_appends:
  assumes "enqueue_extraction newId now x d = Inr (j, d')"
  shows "\<exists>new. d' = d\<lparr>jobs := jobs d @ new\<rparr> \<and> (new = [] \<and> j \<in> set (jobs d) \<or> new = [j])"
  using assms
proof (cases rule: enqueue_extractionE)
  case existing
  then show ?thesis by (intro exI [of _ "[]"]) simp
qed auto

lemma apply_validationE:
  assumes "apply_validation ids l a e now job r d = Inr d'"
  shows "attestations d' = attestations d @ [attestation_row_of (ci_attestationId ids) l a]"
    "\<not> list_ex (attestation_clash (attestation_row_of (ci_attestationId ids) l a)) (attestations d)"
    "assets d' = update_rows (asset_key (vl_organizationId l) (vl_assetId l)) (completed_asset a) (assets d)"
    "documents d' = update_rows (document_key (vl_organizationId l) (vl_documentId l))
        (completed_document a) (documents d)"
    "receipts d' = receipts d"
    "\<exists>d2. jobs d' = update_rows (job_key (vl_organizationId l) (vl_jobId l))
               (succeed_row now (validation_job_result a)) (jobs d2)
       \<and> (if va_verdict a = ACCEPTED
          then \<exists>j. enqueue_extraction (ci_extractionJobId ids) (Some now)
                 (extraction_request l a e job (ci_attestationId ids))
                 (d\<lparr>attestations := attestations d'\<rparr>) = Inr (j, d2)
          else jobs d2 = jobs d)"
proof -
  let ?vs = "attestations d @ [attestation_row_of (ci_attestationId ids) l a]"
  from assms obtain d2 where
    nc: "\<not> list_ex (attestation_clash (attestation_row_of (ci_attestationId ids) l a)) (attestations d)"
    and q: "(if va_verdict a = ACCEPTED
          then map_sum id snd (enqueue_extraction (ci_extractionJobId ids) (Some now)
                 (extraction_request l a e job (ci_attestationId ids)) (d\<lparr>attestations := ?vs\<rparr>))
          else Inr (d\<lparr>attestations := ?vs\<rparr>)) = Inr d2"
    and d': "attestations d' = attestations d2" "receipts d' = receipts d2"
      "assets d' = update_rows (asset_key (vl_organizationId l) (vl_assetId l)) (completed_asset a) (assets d2)"
      "documents d' = update_rows (document_key (vl_organizationId l) (vl_documentId l))
        (completed_document a) (documents d2)"
      "jobs d' = update_rows (job_key (vl_organizationId l) (vl_jobId l))
                 (succeed_row now (validation_job_result a)) (jobs d2)"
    by (auto simp: apply_validation_def and_then_Inr_iff Let_def update_one_Inr_iff create_row_Inr_iff)
  from q have same: "attestations d2 = ?vs" "receipts d2 = receipts d" "assets d2 = assets d"
      "documents d2 = documents d"
    by (auto simp: map_sum_Inr_iff dest!: enqueue_extraction_appends split: if_splits)
  show "attestations d' = ?vs" "receipts d' = receipts d"
    "assets d' = update_rows (asset_key (vl_organizationId l) (vl_assetId l)) (completed_asset a) (assets d)"
    "documents d' = update_rows (document_key (vl_organizationId l) (vl_documentId l))
        (completed_document a) (documents d)"
    "\<not> list_ex (attestation_clash (attestation_row_of (ci_attestationId ids) l a)) (attestations d)"
    by (simp_all add: d' same nc)
  show "\<exists>d2. jobs d' = update_rows (job_key (vl_organizationId l) (vl_jobId l))
               (succeed_row now (validation_job_result a)) (jobs d2)
       \<and> (if va_verdict a = ACCEPTED
          then \<exists>j. enqueue_extraction (ci_extractionJobId ids) (Some now)
                 (extraction_request l a e job (ci_attestationId ids))
                 (d\<lparr>attestations := attestations d'\<rparr>) = Inr (j, d2)
          else jobs d2 = jobs d)"
    using q by (intro exI [of _ d2]) (auto simp: d' same map_sum_Inr_iff split: if_splits)
qed

text \<open>Only the completed job's row changes; new rows are appended.\<close>

lemma apply_validation_jobs:
  assumes "apply_validation ids l a e now job r d = Inr d'"
  shows "\<exists>new. jobs d' = update_rows (job_key (vl_organizationId l) (vl_jobId l))
      (succeed_row now (validation_job_result a)) (jobs d @ new)"
  using apply_validationE(6) [OF assms]
  by (auto dest!: enqueue_extraction_appends split: if_splits intro: exI [of _ "[]"])

lemma assert_attestation_dates:
  assumes "assert_attestation a = Inr u"
  obtains p s c where "va_signaturePublishedAt a = Some p" "va_scannedAt a = Some s"
    "va_checkedAt a = Some c" "p \<le> s" "s \<le> c" "attestation_result_ok (va_result a) c"
    "va_verdict a = ACCEPTED \<Longrightarrow> accepted_consistent a"
    "va_verdict a = REJECTED \<Longrightarrow> rejected_consistent a"
    "sha256_pattern (va_inputSha256 a)" "sha256_pattern (va_toolchainDigest a)" "1 \<le> va_inputSizeBytes a"
    "count_at_least 1 (va_pageCount a)"
  using assms
  by (cases "va_signaturePublishedAt a"; cases "va_scannedAt a"; cases "va_checkedAt a")
    (auto simp: assert_attestation_def and_then_Inr_iff)

lemma stored_attestation_matches:
  assumes "assert_attestation a = Inr u"
  shows "attestation_matches (attestation_row_of i l a) a"
proof -
  from assms obtain p s c where d: "va_signaturePublishedAt a = Some p" "va_scannedAt a = Some s"
    "va_checkedAt a = Some c" and r: "attestation_result_ok (va_result a) c"
    by (rule assert_attestation_dates)
  from r have "length (obj_keys (va_result a)) = 7"
    by (simp add: attestation_result_ok_def exact_keys_def)
  with d show ?thesis by (simp add: attestation_matches_def attestation_row_of_def)
qed

lemma replay_after_completion:
  assumes att: "assert_attestation a = Inr u"
    and run: "complete_validation_tx ids l a e now d = Inr (Some (Applied, v), d')"
  shows "complete_validation_tx ids' l a e' now' d' = Inr (Some (Replayed, v), d')"
  using run
proof (cases rule: complete_validation_txE)
  case (replayed job v')
  then show ?thesis by (simp add: replay_validation_def split: if_splits)
next
  case (applied job r d1)
  note ap = apply_validationE [OF applied(5)]
  note f = outside_sameD [OF project_outside_same [OF applied(4)]]
  from find_SomeD [OF applied(1)] have key: "job_key (vl_organizationId l) (vl_jobId l) job" by simp
  let ?job = "succeed_row now (validation_job_result a) job"
  let ?v = "attestation_row_of (ci_attestationId ids) l a"
  from apply_validation_jobs [OF applied(5)] obtain new where
    "jobs d' = update_rows (job_key (vl_organizationId l) (vl_jobId l))
      (succeed_row now (validation_job_result a)) (jobs d @ new)"
    by (auto simp: f)
  then have row: "List.find (job_key (vl_organizationId l) (vl_jobId l)) (jobs d') = Some ?job"
    using applied(1) by (simp add: find_update_same find_append job_key_def)
  have "List.find (\<lambda>v. v_jobAttemptId v = vl_jobAttemptId l) (attestations d1) = None"
    using ap(2) by (auto simp: find_None_iff list_ex_iff attestation_clash_def attestation_row_of_def)
  then have ex: "List.find (\<lambda>v. v_jobAttemptId v = vl_jobAttemptId l) (attestations d') = Some ?v"
    by (simp add: ap(1) find_append attestation_row_of_def)
  from applied(2) have exact: "exact_validation_authority l job
      (parse_validation_payload (j_payload job)) (job_receipt d job)"
    by (simp add: completion_allowed_def)
  have "job_receipt d' ?job = job_receipt d job"
    by (simp add: job_receipt_def receipt_of_def ap(5) f split: option.split)
  with exact have "exact_validation_authority l ?job (parse_validation_payload (j_payload ?job))
      (job_receipt d' ?job)"
    by (simp add: exact_validation_authority_def job_rows)
  with stored_attestation_matches [OF att] have
    "replay_validation l a (exact_validation_authority l ?job
       (parse_validation_payload (j_payload ?job)) (job_receipt d' ?job)) ?v = Some (Replayed, va_verdict a)"
    by (simp add: replay_validation_def attestation_row_of_def)
  moreover have "j_status ?job = J_SUCCEEDED" by (simp add: job_rows)
  ultimately show ?thesis using applied(6)
    by (simp add: complete_validation_tx_def row ex)
qed simp

lemma find_row_update_same:
  "List.find (document_key o1 i) xs = Some x \<Longrightarrow>
     List.find (document_key o1 i) (update_rows (document_key o1 i) (completed_document a) xs)
       = Some (completed_document a x)"
  "List.find (asset_key o1 i) ys = Some y \<Longrightarrow>
     List.find (asset_key o1 i) (update_rows (asset_key o1 i) (completed_asset a) ys)
       = Some (completed_asset a y)"
  by (erule find_update_same, simp add: document_key_def completed_document_def)
    (erule find_update_same, simp add: asset_key_def completed_asset_def)

lemma apply_validation_lifecycle:
  assumes "apply_validation ids l a e now job r d = Inr d'"
  shows "intakes d' = intakes d" "batches d' = batches d" "inbox d' = inbox d"
    "zotero_imports d' = zotero_imports d" "crawler_imports d' = crawler_imports d"
proof -
  from assms have "\<exists>d2. (d2 = d \<or> (\<exists>new. d2 = d\<lparr>jobs := jobs d @ new\<rparr>)) \<and>
      intakes d' = intakes d2 \<and> batches d' = batches d2 \<and> inbox d' = inbox d2
      \<and> zotero_imports d' = zotero_imports d2 \<and> crawler_imports d' = crawler_imports d2"
    by (auto simp: apply_validation_def and_then_Inr_iff Let_def map_sum_Inr_iff update_one_Inr_iff
        create_row_Inr_iff dest!: enqueue_extraction_appends split: if_splits)
  then show "intakes d' = intakes d" "batches d' = batches d" "inbox d' = inbox d"
    "zotero_imports d' = zotero_imports d" "crawler_imports d' = crawler_imports d"
    by auto
qed

lemma lifecycle_agrees_cong:
  assumes "intakes d' = intakes d" "batches d' = batches d" "inbox d' = inbox d"
    "zotero_imports d' = zotero_imports d" "crawler_imports d' = crawler_imports d"
    "receipts d' = receipts d"
  shows "lifecycle_agrees d' key w = lifecycle_agrees d key w"
  using assms by (auto simp: lifecycle_agrees_def locked_receipt_def batch_agrees_def
      command_agrees_def inbox_agrees_def split: option.split)

lemma succeed_row_columns [simp]:
  "j_type (succeed_row n r j) = j_type j" "j_documentId (succeed_row n r j) = j_documentId j"
  "j_assetId (succeed_row n r j) = j_assetId j" "j_payload (succeed_row n r j) = j_payload j"
  by (simp_all add: job_rows)

text \<open>The extraction job an accepted validation leaves for its document.\<close>

definition extraction_job_for :: "validation_lease \<Rightarrow> ident \<Rightarrow> string \<Rightarrow> job \<Rightarrow> bool" where
  "extraction_job_for l attestationId digest j \<longleftrightarrow>
     j_type j = TEXT_EXTRACTION \<and> j_org j = vl_organizationId l
     \<and> j_documentId j = Some (vl_documentId l) \<and> j_assetId j = Some (vl_assetId l)
     \<and> (case parse_extraction_payload (j_payload j) of
          None \<Rightarrow> False
        | Some p \<Rightarrow> ep_validationAttestationId p = attestationId \<and> ep_toolchainDigest p = digest)"

lemma extraction_job_for_succeed [simp]:
  "extraction_job_for l i e (succeed_row n r j) = extraction_job_for l i e j"
  by (simp add: extraction_job_for_def)

lemma completion_effects:
  assumes run: "complete_validation_tx ids l a e now d = Inr (Some (Applied, v), d')"
  shows "\<exists>job x s w. v = va_verdict a
     \<and> List.find (job_key (vl_organizationId l) (vl_jobId l)) (jobs d')
         = Some (succeed_row now (validation_job_result a) job)
     \<and> List.find (document_key (vl_organizationId l) (vl_documentId l)) (documents d')
         = Some (completed_document a x)
     \<and> List.find (asset_key (vl_organizationId l) (vl_assetId l)) (assets d') = Some (completed_asset a s)
     \<and> attestations d' = attestations d @ [attestation_row_of (ci_attestationId ids) l a]
     \<and> desired_lifecycle (completion_projection a) = Inr w
     \<and> lifecycle_agrees d' (lease_authority_key l) w
     \<and> (if va_verdict a = ACCEPTED
        then list_ex (extraction_job_for l (ci_attestationId ids) e) (jobs d')
        else map j_id (jobs d') = map j_id (jobs d))"
  using run
proof (cases rule: complete_validation_txE)
  case (replayed job v')
  then show ?thesis by (simp add: replay_validation_def split: if_splits)
next
  case (applied job r d1)
  note ap = apply_validationE [OF applied(5)]
  note f = outside_sameD [OF project_outside_same [OF applied(4)]]
  from applied(4) obtain w where w: "desired_lifecycle (completion_projection a) = Inr w"
    by (cases rule: project_lifecycleE) auto
  from project_agrees [OF applied(4) w] have "lifecycle_agrees d' (lease_authority_key l) w"
    using lifecycle_agrees_cong [OF apply_validation_lifecycle [OF applied(5)] ap(5)] by simp
  moreover obtain new where "jobs d' = update_rows (job_key (vl_organizationId l) (vl_jobId l))
      (succeed_row now (validation_job_result a)) (jobs d @ new)"
    using apply_validation_jobs [OF applied(5)] by (auto simp: f)
  then have "List.find (job_key (vl_organizationId l) (vl_jobId l)) (jobs d')
      = Some (succeed_row now (validation_job_result a) job)"
    using applied(1) by (simp add: find_update_same find_append job_key_def)
  moreover from applied(2) obtain x s where
    "List.find (document_key (vl_organizationId l) (vl_documentId l)) (documents d) = Some x"
    "List.find (asset_key (vl_organizationId l) (vl_assetId l)) (assets d) = Some s"
    by (auto simp: completion_allowed_def split: option.splits)
  then have "List.find (document_key (vl_organizationId l) (vl_documentId l)) (documents d')
         = Some (completed_document a x)"
      "List.find (asset_key (vl_organizationId l) (vl_assetId l)) (assets d') = Some (completed_asset a s)"
    by (simp_all add: ap f find_row_update_same)
  moreover have "if va_verdict a = ACCEPTED
        then list_ex (extraction_job_for l (ci_attestationId ids) e) (jobs d')
        else map j_id (jobs d') = map j_id (jobs d)"
  proof (cases "va_verdict a = ACCEPTED")
    case True
    with ap(6) obtain d2 j where d2: "jobs d' = update_rows (job_key (vl_organizationId l) (vl_jobId l))
               (succeed_row now (validation_job_result a)) (jobs d2)"
      and en: "enqueue_extraction (ci_extractionJobId ids) (Some now)
                 (extraction_request l a e job (ci_attestationId ids))
                 (d1\<lparr>attestations := attestations d'\<rparr>) = Inr (j, d2)" by auto
    note ej = enqueue_extraction_job [OF en]
    from ej(6) obtain p where p: "make_extraction_payload (extraction_request l a e job (ci_attestationId ids)) = Inr p"
      "parse_extraction_payload (j_payload j) = Some p" by blast
    have "extraction_job_for l (ci_attestationId ids) e j"
      using ej(2-5) p(2) make_extraction_payload_ok [OF p(1)]
      by (simp add: extraction_job_for_def extraction_request_def)
    with ej(1) have "list_ex (extraction_job_for l (ci_attestationId ids) e) (jobs d2)"
      by (auto simp: list_ex_iff)
    with True show ?thesis by (simp add: d2 list_ex_update_rows)
  next
    case False
    with ap(6) show ?thesis by (auto simp: map_update_rows f)
  qed
  ultimately show ?thesis using applied(6) w ap(1) f
    by (intro exI [of _ job] exI [of _ x] exI [of _ s] exI [of _ w]) simp
qed simp

lemma failure_effects:
  assumes "fail_validation_tx l c retryable now d = Inr (res, d')" "res \<noteq> Lease_lost"
  shows "\<exists>job row. List.find (job_key (vl_organizationId l) (vl_jobId l)) (jobs d) = Some job
     \<and> List.find (job_key (vl_organizationId l) (vl_jobId l)) (jobs d') = Some row
     \<and> j_attempts row = j_attempts job \<and> j_leaseId row = None \<and> j_leaseExpiresAt row = None
     \<and> j_lastErrorCode row = Some (validation_failure_code c)
     \<and> (if retryable \<and> j_attempts job < j_maxAttempts job
        then res = Retrying \<and> j_status row = J_RETRYING \<and> j_completedAt row = None
          \<and> now + 5000 \<le> j_runAfter row \<and> j_runAfter row \<le> now + 900000
        else res = Dead_letter \<and> j_status row = J_DEAD_LETTER \<and> j_completedAt row = Some now)"
  using assms(1)
proof (cases rule: fail_validation_txE)
  case lost
  with assms(2) show ?thesis by simp
next
  case (applied job d1 canRetry)
  note q = apply_failure_queue [OF applied(5)] and f = project_queue [OF applied(4)]
  let ?f = "if canRetry
           then retry_row (now + retry_delay_ms (j_attempts job)) (validation_failure_code c)
                  (validation_failure_message c)
           else dead_letter_row now (validation_failure_code c) (validation_failure_message c)"
  have "List.find (job_key (vl_organizationId l) (vl_jobId l)) (jobs d') = Some (?f job)"
    unfolding q(1) using applied(1) by (intro find_update_same) (auto simp: f job_key_def)
  with applied(1,3) q(3) retry_delay_bounds [of "j_attempts job"] show ?thesis
    by (auto simp: job_rows)
qed

text \<open>The stored code of a rejection: three values, whatever the validator reported.\<close>

lemma canonical_rejection_code_cases:
  assumes "assert_attestation a = Inr u" "va_verdict a = REJECTED"
  shows "canonical_rejection_code a =
     (if va_malwareVerdict a = INFECTED then ''malware_detected''
      else if va_pdfStructuralVerdict a = INVALID then ''invalid_pdf_structure''
      else ''pdf_policy_violation'')"
proof -
  from assms have "rejected_consistent a" by (auto elim: assert_attestation_dates)
  moreover have "js_trim ''pdf_policy_violation'' = ''pdf_policy_violation''" by code_simp
  ultimately show ?thesis
    by (cases "va_malwareVerdict a"; cases "va_pdfStructuralVerdict a")
      (auto simp: rejected_consistent_def canonical_rejection_code_def Let_def)
qed

end
