(* ===== verification/Validation_Authority.thy ===== *)
theory Validation_Authority
  imports Validation_Safety
begin

text \<open>
  \<open>src/server/documents/validation-authority.ts\<close>: the one predicate that says a document has a
  current accepted validation, over the stored attestation with its job and attempt. The lemmas
  relate it to what \<open>completeDocumentValidationLease\<close> stores: which accepted completions satisfy it,
  and which extra bounds it asks for that a completion does not.
\<close>

definition max_input_bytes :: int where "max_input_bytes = 25 * 1024 * 1024"
definition max_authority_duration_ms :: int where "max_authority_duration_ms = 180000"
definition max_validation_object_count :: int where "max_validation_object_count = 10000000"
definition max_validation_revision_count :: int where "max_validation_revision_count = 10000"
definition max_extracted_page_count :: int where "max_extracted_page_count = 2000"

definition valid_opaque_id :: "string \<Rightarrow> bool" where
  "valid_opaque_id s \<longleftrightarrow> utf8_bytes s \<le> 200 \<and> opaque_id_pattern s"

fun same_date :: "millis option \<Rightarrow> millis \<Rightarrow> bool" where
  "same_date None r \<longleftrightarrow> False"
| "same_date (Some l) r \<longleftrightarrow> l = r"

fun bounded_count :: "int \<Rightarrow> int \<Rightarrow> jnum option \<Rightarrow> bool" where
  "bounded_count lo hi None \<longleftrightarrow> False"
| "bounded_count lo hi (Some n) \<longleftrightarrow> bounded_integer lo hi n"

definition validation_result_is_sound :: "json \<Rightarrow> millis \<Rightarrow> bool" where
  "validation_result_is_sound v checkedAt \<longleftrightarrow>
     (case json_object v of
        None \<Rightarrow> False
      | Some r \<Rightarrow>
          exact_keys r [''schemaVersion'', ''detectionCount'', ''warningCount'', ''malwareDurationMs'',
             ''pdfDurationMs'', ''totalDurationMs'', ''completedAt'']
          \<and> field r ''schemaVersion'' = Some (jint 1)
          \<and> field r ''detectionCount'' = Some (jint 0)
          \<and> field r ''warningCount'' = Some (jint 0)
          \<and> (case (int_field 0 max_authority_duration_ms (field r ''malwareDurationMs''),
                   int_field 0 max_authority_duration_ms (field r ''pdfDurationMs''),
                   int_field 0 max_authority_duration_ms (field r ''totalDurationMs'')) of
               (Some m, Some p, Some t) \<Rightarrow> max m p \<le> t
             | _ \<Rightarrow> False)
          \<and> (case field r ''completedAt'' of
               Some (JStr s) \<Rightarrow> (case canonical_iso s of None \<Rightarrow> False | Some t \<Rightarrow> checkedAt \<le> t)
             | _ \<Rightarrow> False))"

definition linked_paper_is_sound :: "bool \<Rightarrow> document \<Rightarrow> bool" where
  "linked_paper_is_sound requireLinked x \<longleftrightarrow>
     \<not> requireLinked
     \<or> (case (d_workspacePaperId x, d_paperId x) of
          (Some wp, Some p) \<Rightarrow> valid_opaque_id wp \<and> valid_opaque_id p
        | _ \<Rightarrow> False)"

text \<open>The attestation itself, with the job and the attempt that produced it.\<close>

definition attestation_is_current ::
    "attestation_row \<Rightarrow> job \<Rightarrow> job_attempt \<Rightarrow> document \<Rightarrow> asset \<Rightarrow> bool" where
  "attestation_is_current v j t x a \<longleftrightarrow>
     v_verdict v = ACCEPTED \<and> v_rejectionCode v = None \<and> v_malwareVerdict v = CLEAN
     \<and> v_pdfStructuralVerdict v = VALID
     \<and> valid_opaque_id (v_id v) \<and> valid_opaque_id (v_jobId v) \<and> valid_opaque_id (v_jobAttemptId v)
     \<and> valid_opaque_id (d_id x) \<and> valid_opaque_id (a_id a)
     \<and> v_documentId v = d_id x \<and> v_assetId v = a_id a
     \<and> j_id j = v_jobId v \<and> j_type j = DOCUMENT_VALIDATE \<and> j_status j = J_SUCCEEDED
     \<and> j_documentId j = Some (d_id x) \<and> j_assetId j = Some (a_id a)
     \<and> 1 \<le> j_attempts j \<and> j_attempts j \<le> 1000000
     \<and> t_id t = v_jobAttemptId v \<and> t_jobId t = v_jobId v \<and> t_status t = J_SUCCEEDED
     \<and> 1 \<le> t_attemptNumber t \<and> t_attemptNumber t \<le> 1000000
     \<and> nonzero_digest (v_inputSha256 v) \<and> nonzero_digest (v_toolchainDigest v)
     \<and> 1 \<le> v_inputSizeBytes v \<and> v_inputSizeBytes v \<le> max_input_bytes
     \<and> v_storageVersion v = quarantine_storage_version
     \<and> v_policyVersion v = validation_policy_version
     \<and> bounded_count 1 max_extracted_page_count (v_pageCount v)
     \<and> bounded_count 0 max_validation_object_count (v_objectCount v)
     \<and> bounded_count 1 max_validation_revision_count (v_revisionCount v)
     \<and> v_signaturePublishedAt v \<le> v_scannedAt v \<and> v_scannedAt v \<le> v_checkedAt v
     \<and> validation_result_is_sound (v_result v) (v_checkedAt v)"

definition document_is_current :: "attestation_row \<Rightarrow> document \<Rightarrow> bool" where
  "document_is_current v x \<longleftrightarrow>
     d_kind x = PAPER_PDF \<and> d_status x = D_READY \<and> d_mimeType x = Some ''application/pdf''
     \<and> d_failureCode x = None \<and> d_archivedAt x = None
     \<and> d_contentHash x = Some (v_inputSha256 v) \<and> d_pageCount x = v_pageCount v
     \<and> d_validationPolicyVersion x = Some (v_policyVersion v)
     \<and> same_date (d_validatedAt x) (v_checkedAt v)"

definition asset_is_current :: "attestation_row \<Rightarrow> asset \<Rightarrow> bool" where
  "asset_is_current v a \<longleftrightarrow>
     a_storageProvider a = LOCAL \<and> starts_with (a_objectKey a) (v_storageVersion v @ '':'')
     \<and> a_physicalLocator a = Some (a_objectKey a) \<and> a_status a = A_READY
     \<and> a_mimeType a = Some ''application/pdf'' \<and> a_rejectionCode a = None
     \<and> a_rejectedReason a = None \<and> a_deletedAt a = None
     \<and> a_sha256 a = Some (v_inputSha256 v) \<and> a_sizeBytes a = Some (v_inputSizeBytes v)
     \<and> a_validationPolicyVersion a = Some (v_policyVersion v)
     \<and> same_date (a_scannedAt a) (v_scannedAt v) \<and> same_date (a_validatedAt a) (v_checkedAt v)"

definition current_accepted_validation ::
    "attestation_row \<Rightarrow> job \<Rightarrow> job_attempt \<Rightarrow> document \<Rightarrow> asset \<Rightarrow> bool \<Rightarrow> bool" where
  "current_accepted_validation v j t x a requireLinked \<longleftrightarrow>
     linked_paper_is_sound requireLinked x \<and> attestation_is_current v j t x a
     \<and> document_is_current v x \<and> asset_is_current v a"

section \<open>What a completion guarantees of it\<close>

text \<open>
  The bounds the authority asks for and a completion does not check: the pinned versions, nonzero
  digests, the input size, the page, object and revision counts, no detection and no warning, and
  a canonical completion time.
\<close>

definition within_authority_bounds :: "validated_attestation \<Rightarrow> bool" where
  "within_authority_bounds a \<longleftrightarrow>
     va_storageVersion a = quarantine_storage_version \<and> va_policyVersion a = validation_policy_version
     \<and> nonzero_digest (va_inputSha256 a) \<and> nonzero_digest (va_toolchainDigest a)
     \<and> va_inputSizeBytes a \<le> max_input_bytes
     \<and> bounded_count 1 max_extracted_page_count (va_pageCount a)
     \<and> bounded_count 0 max_validation_object_count (va_objectCount a)
     \<and> bounded_count 1 max_validation_revision_count (va_revisionCount a)
     \<and> field (va_result a) ''detectionCount'' = Some (jint 0)
     \<and> field (va_result a) ''warningCount'' = Some (jint 0)
     \<and> (case field (va_result a) ''completedAt'' of
          Some (JStr s) \<Rightarrow> canonical_iso s \<noteq> None | _ \<Rightarrow> False)"

lemma int_field_mono: "int_field lo hi f = Some n \<Longrightarrow> lo' \<le> lo \<Longrightarrow> hi \<le> hi' \<Longrightarrow> int_field lo' hi' f = Some n"
  by (cases "(lo, hi, f)" rule: int_field.cases) (auto split: if_splits dest: bounded_integer_mono)

lemma int_field_lower: "int_field lo hi f = Some n \<Longrightarrow> lo \<le> n"
  by (cases "(lo, hi, f)" rule: int_field.cases) (auto split: if_splits elim!: bounded_integerE)

lemma completion_result_sound:
  assumes "attestation_result_ok r c" "field r ''detectionCount'' = Some (jint 0)"
    "field r ''warningCount'' = Some (jint 0)"
    "case field r ''completedAt'' of Some (JStr s) \<Rightarrow> canonical_iso s \<noteq> None | _ \<Rightarrow> False"
  shows "validation_result_is_sound (JObj r) c"
proof -
  from assms(1) obtain m p t s u where
    m: "int_field 0 120000 (field r ''malwareDurationMs'') = Some m" and
    p: "int_field 0 120000 (field r ''pdfDurationMs'') = Some p" and
    t: "int_field (max m p) 120000 (field r ''totalDurationMs'') = Some t" and
    s: "field r ''completedAt'' = Some (JStr s)" "iso_parse s = Some u" "c \<le> u"
    by (auto simp: attestation_result_ok_def split: option.splits json.splits)
  have "0 \<le> max m p" using int_field_lower [OF m] by simp
  with m p t have "int_field 0 max_authority_duration_ms (field r ''malwareDurationMs'') = Some m"
    "int_field 0 max_authority_duration_ms (field r ''pdfDurationMs'') = Some p"
    "int_field 0 max_authority_duration_ms (field r ''totalDurationMs'') = Some t"
    by (auto simp: max_authority_duration_ms_def intro: int_field_mono)
  moreover have "max m p \<le> t" by (rule int_field_lower [OF t])
  moreover obtain v where "canonical_iso s = Some v" using assms(4) s(1) by auto
  with s have "canonical_iso s = Some u" using canonical_iso_parse by fastforce
  ultimately show ?thesis
    using assms s by (simp add: validation_result_is_sound_def attestation_result_ok_def)
qed

lemma within_bounds_result:
  assumes "attestation_result_ok r c" "validation_result_is_sound (JObj r) c"
  shows "field r ''detectionCount'' = Some (jint 0)" "field r ''warningCount'' = Some (jint 0)"
    "case field r ''completedAt'' of Some (JStr s) \<Rightarrow> canonical_iso s \<noteq> None | _ \<Rightarrow> False"
  using assms(2) by (auto simp: validation_result_is_sound_def split: option.splits json.splits)

text \<open>The custody columns a completion leaves as they were.\<close>

definition authority_custody :: "validation_lease \<Rightarrow> ident \<Rightarrow> document \<Rightarrow> asset \<Rightarrow> bool" where
  "authority_custody l attestationId x a \<longleftrightarrow>
     list_all valid_opaque_id
       [attestationId, vl_jobId l, vl_jobAttemptId l, vl_documentId l, vl_assetId l]
     \<and> 1 \<le> vl_attemptNumber l \<and> vl_attemptNumber l \<le> 1000000
     \<and> d_kind x = PAPER_PDF \<and> d_mimeType x = Some ''application/pdf'' \<and> d_archivedAt x = None
     \<and> vl_storageProvider l = LOCAL \<and> a_mimeType a = Some ''application/pdf''
     \<and> a_deletedAt a = None
     \<and> starts_with (vl_storageKey l) (quarantine_storage_version @ '':'')"

lemma completion_allowed_targetD:
  assumes "completion_allowed d l a now job"
  obtains t x s where
    "List.find (attempt_key (vl_organizationId l) (vl_jobAttemptId l)) (attempts d) = Some t"
    "List.find (document_key (vl_organizationId l) (vl_documentId l)) (documents d) = Some x"
    "List.find (asset_key (vl_organizationId l) (vl_assetId l)) (assets d) = Some s"
    "attempt_current (vl_jobId l) (vl_attemptNumber l) (vl_leaseId l) (vl_workerId l) t"
    "scanned_target_current l x s" "validation_lease_current l now job"
    "attestation_for_lease l a" "j_type job = DOCUMENT_VALIDATE"
  using assms
  by (auto simp: completion_allowed_def exact_validation_authority_def split: option.splits)

lemma apply_validation_attempts:
  assumes "apply_validation ids l a e now job r d = Inr d'"
  shows "attempts d' = update_rows (attempt_key (vl_organizationId l) (vl_jobAttemptId l))
                 (succeed_attempt_row now (validation_job_result a)) (attempts d)"
  by (rule apply_validation_queue [OF assms])

lemma accepted_completion_rows:
  assumes att: "assert_attestation a = Inr u"
    and run: "complete_validation_tx ids l a e now d = Inr (Some (Applied, ACCEPTED), d')"
  shows "\<exists>v j t x s.
      List.find (\<lambda>v. v_id v = ci_attestationId ids) (attestations d') = Some v
    \<and> List.find (job_key (vl_organizationId l) (vl_jobId l)) (jobs d') = Some j
    \<and> List.find (attempt_key (vl_organizationId l) (vl_jobAttemptId l)) (attempts d') = Some t
    \<and> List.find (document_key (vl_organizationId l) (vl_documentId l)) (documents d') = Some x
    \<and> List.find (asset_key (vl_organizationId l) (vl_assetId l)) (assets d') = Some s
    \<and> (current_accepted_validation v j t x s False \<longleftrightarrow>
         within_authority_bounds a \<and> authority_custody l (ci_attestationId ids) x s)"
  using run
proof (cases rule: complete_validation_txE)
  case (replayed job v')
  then show ?thesis by (simp add: replay_validation_def split: if_splits)
next
  case (applied job r d1)
  note ap = apply_validationE [OF applied(5)]
  note f = outside_sameD [OF project_outside_same [OF applied(4)]]
  from applied(6) have acc: "va_verdict a = ACCEPTED" by simp
  from att acc obtain pu sc ch where dates: "va_signaturePublishedAt a = Some pu"
    "va_scannedAt a = Some sc" "va_checkedAt a = Some ch" "pu \<le> sc" "sc \<le> ch"
    and res: "attestation_result_ok (va_result a) ch" and cons: "accepted_consistent a"
    and size: "1 \<le> va_inputSizeBytes a"
    by (auto elim!: assert_attestation_dates)
  from applied(2) obtain t x s where
    t: "List.find (attempt_key (vl_organizationId l) (vl_jobAttemptId l)) (attempts d) = Some t" and
    x: "List.find (document_key (vl_organizationId l) (vl_documentId l)) (documents d) = Some x" and
    s: "List.find (asset_key (vl_organizationId l) (vl_assetId l)) (assets d) = Some s" and
    tc: "attempt_current (vl_jobId l) (vl_attemptNumber l) (vl_leaseId l) (vl_workerId l) t" and
    sc': "scanned_target_current l x s" and lc: "validation_lease_current l now job" and
    al: "attestation_for_lease l a" and ty: "j_type job = DOCUMENT_VALIDATE"
    by (rule completion_allowed_targetD)
  let ?v = "attestation_row_of (ci_attestationId ids) l a"
  let ?j = "succeed_row now (validation_job_result a) job"
  let ?t = "succeed_attempt_row now (validation_job_result a) t"
  have v': "List.find (\<lambda>v. v_id v = ci_attestationId ids) (attestations d') = Some ?v"
  proof -
    have "List.find (\<lambda>v. v_id v = ci_attestationId ids) (attestations d1) = None"
      using ap(2) by (auto simp: find_None_iff list_ex_iff attestation_clash_def attestation_row_of_def)
    then show ?thesis by (simp add: ap(1) find_append attestation_row_of_def)
  qed
  have j': "List.find (job_key (vl_organizationId l) (vl_jobId l)) (jobs d') = Some ?j"
    using completion_effects [OF run] applied(1) apply_validation_jobs [OF applied(5)] f
    by (auto simp: find_update_same find_append job_key_def)
  have t': "List.find (attempt_key (vl_organizationId l) (vl_jobAttemptId l)) (attempts d') = Some ?t"
    unfolding apply_validation_attempts [OF applied(5)] using t
    by (intro find_update_same) (simp_all add: f attempt_key_def succeed_attempt_row_def)
  have x': "List.find (document_key (vl_organizationId l) (vl_documentId l)) (documents d')
      = Some (completed_document a x)"
    and s': "List.find (asset_key (vl_organizationId l) (vl_assetId l)) (assets d')
      = Some (completed_asset a s)"
    using x s by (simp_all add: ap f find_row_update_same)
  have ids: "d_id x = vl_documentId l" "a_id s = vl_assetId l" "j_id job = vl_jobId l"
      "t_id t = vl_jobAttemptId l"
    using find_SomeD [OF x] find_SomeD [OF s] find_SomeD [OF applied(1)] find_SomeD [OF t]
    by (auto simp: row_keys)
  have sound: "validation_result_is_sound (JObj (va_result a)) ch \<longleftrightarrow>
      field (va_result a) ''detectionCount'' = Some (jint 0)
      \<and> field (va_result a) ''warningCount'' = Some (jint 0)
      \<and> (case field (va_result a) ''completedAt'' of
           Some (JStr s) \<Rightarrow> canonical_iso s \<noteq> None | _ \<Rightarrow> False)"
    using completion_result_sound [OF res] within_bounds_result [OF res] by blast
  have A: "attestation_is_current ?v ?j ?t (completed_document a x) (completed_asset a s) \<longleftrightarrow>
      within_authority_bounds a \<and> list_all valid_opaque_id
       [ci_attestationId ids, vl_jobId l, vl_jobAttemptId l, vl_documentId l, vl_assetId l]
     \<and> 1 \<le> vl_attemptNumber l \<and> vl_attemptNumber l \<le> 1000000"
    using acc cons dates size ids ty tc lc sound
    by (auto simp: attestation_is_current_def attestation_row_of_def within_authority_bounds_def
        completed_document_def completed_asset_def accepted_consistent_def job_rows
        succeed_attempt_row_def attempt_current_def validation_lease_current_def)
  have D: "document_is_current ?v (completed_document a x) \<longleftrightarrow>
      d_kind x = PAPER_PDF \<and> d_mimeType x = Some ''application/pdf'' \<and> d_archivedAt x = None"
    using acc dates sc' al
    by (auto simp: document_is_current_def completed_document_def attestation_row_of_def
        scanned_target_current_def attestation_for_lease_def)
  have S: "asset_is_current ?v (completed_asset a s) \<longleftrightarrow>
      vl_storageProvider l = LOCAL \<and> a_mimeType s = Some ''application/pdf'' \<and> a_deletedAt s = None
      \<and> starts_with (vl_storageKey l) (va_storageVersion a @ '':'')"
    using acc dates sc' al
    by (auto simp: asset_is_current_def completed_asset_def attestation_row_of_def
        scanned_target_current_def attestation_for_lease_def)
  have "current_accepted_validation ?v ?j ?t (completed_document a x) (completed_asset a s) False
      \<longleftrightarrow> within_authority_bounds a
        \<and> authority_custody l (ci_attestationId ids) (completed_document a x) (completed_asset a s)"
    unfolding current_accepted_validation_def A D S
    by (auto simp: linked_paper_is_sound_def authority_custody_def within_authority_bounds_def
        completed_document_def completed_asset_def)
  with v' j' t' x' s' show ?thesis by blast
qed simp

end
