(* ===== verification/Extracted_Text.thy ===== *)
theory Extracted_Text
  imports Validation_Authority
begin

text \<open>
  The text rules that \<open>src/server/documents/extraction-contract.ts\<close> and \<open>extraction-jobs.ts\<close>
  both apply to every chunk of extracted text: its paragraph identifier, its place after the
  previous chunk, and the canonical form of its text. A text is the list of its UTF-8 bytes (a lone
  surrogate takes three, as in \<open>Buffer.byteLength\<close>); Unicode NFC is the argument \<open>nfc\<close>.
\<close>

section \<open>Bounds\<close>

definition max_extracted_chunk_count :: int where "max_extracted_chunk_count = 4096"
definition max_extracted_text_bytes :: int where "max_extracted_text_bytes = 4 * 1024 * 1024"
definition max_extracted_chunk_bytes :: int where "max_extracted_chunk_bytes = 8 * 1024"

section \<open>Code points\<close>

text \<open>The payload bits of a lead byte, and the code points of a byte string.\<close>

definition lead_bits :: "int \<Rightarrow> int" where
  "lead_bits b = (if b < 192 then b else if b < 224 then b - 192 else if b < 240 then b - 224
                  else b - 240)"

fun utf8_points :: "int option \<Rightarrow> int list \<Rightarrow> int list" where
  "utf8_points None [] = []"
| "utf8_points (Some p) [] = [p]"
| "utf8_points None (b # bs) = utf8_points (Some (lead_bits b)) bs"
| "utf8_points (Some p) (b # bs) =
     (if 128 \<le> b \<and> b < 192 then utf8_points (Some (64 * p + (b - 128))) bs
      else p # utf8_points (Some (lead_bits b)) bs)"

definition code_points :: "string \<Rightarrow> int list" where
  "code_points s = utf8_points None (map (\<lambda>c. int (code c)) s)"

text \<open>\<open>[\u0000-\u001F\u007F-\u009F\u061C\u200E\u200F\u202A-\u202E\u2066-\u2069\uFEFF]\<close>\<close>

definition prohibited_point :: "int \<Rightarrow> bool" where
  "prohibited_point p \<longleftrightarrow>
     p \<le> 31 \<or> (127 \<le> p \<and> p \<le> 159) \<or> p = 1564 \<or> p = 8206 \<or> p = 8207
     \<or> (8234 \<le> p \<and> p \<le> 8238) \<or> (8294 \<le> p \<and> p \<le> 8297) \<or> p = 65279"

text \<open>\<open>\p{Zs}\<close>\<close>

definition space_separator :: "int \<Rightarrow> bool" where
  "space_separator p \<longleftrightarrow>
     p = 32 \<or> p = 160 \<or> p = 5760 \<or> (8192 \<le> p \<and> p \<le> 8202) \<or> p = 8239 \<or> p = 8287 \<or> p = 12288"

fun double_space :: "string \<Rightarrow> bool" where
  "double_space (a # b # s) \<longleftrightarrow> (a = CHR '' '' \<and> b = CHR '' '') \<or> double_space (b # s)"
| "double_space _ \<longleftrightarrow> False"

definition canonical_text :: "(string \<Rightarrow> string) \<Rightarrow> string \<Rightarrow> bool" where
  "canonical_text nfc s \<longleftrightarrow>
     js_length s \<noteq> 0 \<and> s = nfc s \<and> s = js_trim s
     \<and> \<not> list_ex prohibited_point (code_points s)
     \<and> \<not> list_ex space_separator (code_points (filter (\<lambda>c. c \<noteq> CHR '' '') s))
     \<and> \<not> double_space s
     \<and> utf8_bytes s \<le> max_extracted_chunk_bytes"

section \<open>Paragraph identifiers\<close>

text \<open>\<open>[1-9]\d*\<close>\<close>

definition positive_decimal :: "string \<Rightarrow> bool" where
  "positive_decimal s \<longleftrightarrow> s \<noteq> [] \<and> list_all is_digit s \<and> hd s \<noteq> CHR ''0''"

text \<open>\<open>/^p([1-9]\d*)-p([1-9]\d*)$/\<close>, with the two numbers it captures.\<close>

definition parse_paragraph_id :: "string \<Rightarrow> (int \<times> int) option" where
  "parse_paragraph_id s =
     (let page = takeWhile is_digit (drop 1 s); rest = dropWhile is_digit (drop 1 s)
      in if take 1 s = ''p'' \<and> take 2 rest = ''-p'' \<and> positive_decimal page
            \<and> positive_decimal (drop 2 rest)
         then Some (digits_val page, digits_val (drop 2 rest)) else None)"

text \<open>
  The place of a chunk after the previous one: a new page starts at paragraph 1, the same page
  continues the paragraph or begins the next one. The ordinal is a safe integer.
\<close>

definition paragraph_follows :: "int \<times> int \<Rightarrow> int \<Rightarrow> int \<Rightarrow> bool" where
  "paragraph_follows prev page ordinal \<longleftrightarrow>
     \<bar>ordinal\<bar> \<le> max_safe_integer
     \<and> (page \<noteq> fst prev \<longrightarrow> ordinal = 1)
     \<and> (page = fst prev \<longrightarrow> ordinal = snd prev \<or> ordinal = snd prev + 1)"

text \<open>The rule that binds a chunk's page and identifier to the position before it.\<close>

definition chunk_position :: "int \<Rightarrow> int \<times> int \<Rightarrow> jnum \<Rightarrow> string \<Rightarrow> (int \<times> int) option" where
  "chunk_position pageCount prev pageNumber paragraphId =
     (if bounded_integer 1 pageCount pageNumber \<and> fst prev \<le> num_val pageNumber
      then (case parse_paragraph_id paragraphId of
              None \<Rightarrow> None
            | Some (page, ordinal) \<Rightarrow>
                if page = num_val pageNumber \<and> paragraph_follows prev page ordinal
                then Some (page, ordinal) else None)
      else None)"

lemma digits_val_snoc: "digits_val (s @ [c]) = 10 * digits_val s + digit_val c"
  by (simp add: digits_val_def)

lemma digit_val_nonneg: "is_digit c \<Longrightarrow> 0 \<le> digit_val c \<and> digit_val c \<le> 9"
  by (simp add: char_class_defs digit_val_def)

lemma digits_val_nonneg: "list_all is_digit s \<Longrightarrow> 0 \<le> digits_val s"
proof (induction s rule: rev_induct)
  case (snoc c s)
  then show ?case using digit_val_nonneg [of c] by (simp add: digits_val_snoc)
qed (simp add: digits_val_def)

lemma digits_val_append:
  "list_all is_digit t \<Longrightarrow> 0 \<le> digits_val s \<Longrightarrow> digits_val s \<le> digits_val (s @ t)"
proof (induction t rule: rev_induct)
  case (snoc c t)
  then show ?case
    using digit_val_nonneg [of c] digits_val_snoc [of "s @ t" c] by simp
qed simp

lemma positive_decimal_pos:
  assumes "positive_decimal s"
  shows "1 \<le> digits_val s"
proof -
  obtain c t where s: "s = [c] @ t" using assms by (cases s) (auto simp: positive_decimal_def)
  have "is_digit c" "c \<noteq> CHR ''0''" "list_all is_digit t"
    using assms by (auto simp: s positive_decimal_def)
  then have "1 \<le> digit_val c"
  proof -
    have "code c \<noteq> 48"
    proof
      assume "code c = 48"
      then have "(of_char c :: nat) = of_char (CHR ''0'')" by (simp add: code_def)
      then have "c = CHR ''0''" by (simp only: of_char_eq_iff)
      with \<open>c \<noteq> CHR ''0''\<close> show False ..
    qed
    with \<open>is_digit c\<close> show ?thesis by (simp add: is_digit_def digit_val_def)
  qed
  moreover have "digits_val [c] = digit_val c" by (simp add: digits_val_def)
  ultimately show ?thesis
    using digits_val_append [OF \<open>list_all is_digit t\<close>, of "[c]"] by (simp add: s)
qed

lemma parse_paragraph_id_pos:
  assumes "parse_paragraph_id s = Some (p, q)"
  shows "1 \<le> p" and "1 \<le> q"
  using assms positive_decimal_pos
  by (auto simp: parse_paragraph_id_def Let_def split: if_splits)

lemma chunk_positionE:
  assumes "chunk_position pageCount prev n s = Some (p, q)"
  obtains "n = NInt p" "1 \<le> p" "p \<le> pageCount" "fst prev \<le> p" "parse_paragraph_id s = Some (p, q)"
    "paragraph_follows prev p q" "1 \<le> q"
proof -
  have b: "bounded_integer 1 pageCount n" and f: "fst prev \<le> num_val n"
    using assms by (auto simp: chunk_position_def split: if_splits)
  have c: "(case parse_paragraph_id s of None \<Rightarrow> None
      | Some (page, ordinal) \<Rightarrow> if page = num_val n \<and> paragraph_follows prev page ordinal
          then Some (page, ordinal) else None) = Some (p, q)"
    using assms b f by (simp add: chunk_position_def)
  obtain page ordinal where s: "parse_paragraph_id s = Some (page, ordinal)"
    using c by (cases "parse_paragraph_id s") auto
  with c have pq: "page = p" "ordinal = q" "p = num_val n" "paragraph_follows prev p q"
    by (auto split: if_splits)
  obtain i where "n = NInt i" "1 \<le> i" "i \<le> pageCount" using b by (rule bounded_integerE) auto
  with pq f s show thesis using parse_paragraph_id_pos [OF s] by (intro that) auto
qed

end
