(* ===== verification/Extraction_Jobs.thy ===== *)
theory Extraction_Jobs
  imports Extracted_Text
begin

text \<open>
  The leased text extraction job of a validated PDF
  (\<open>src/server/documents/extraction-jobs.ts\<close>): the authoritative target, claim with its routing by
  policy and toolchain, heartbeat, and deferral before admission. The database clock, the
  caller's clock override and the drawn UUIDs are arguments.
\<close>

section \<open>Constants and inputs\<close>

definition extraction_default_ttl_ms :: int where "extraction_default_ttl_ms = 120000"
definition admission_retry_delay_ms :: int where "admission_retry_delay_ms = 5000"
definition max_extraction_duration_ms :: int where "max_extraction_duration_ms = 180000"

datatype extraction_failure =
    Extraction_service_unavailable
  | Extraction_service_timeout
  | Extraction_response_invalid
  | Extraction_input_unsupported
  | Extraction_resource_limit
  | Extraction_attestation_stale
  | Extraction_input_changed
  | Extraction_object_missing
  | Extraction_worker_internal

fun extraction_failure_code :: "extraction_failure \<Rightarrow> string" where
  "extraction_failure_code Extraction_service_unavailable = ''extraction_service_unavailable''"
| "extraction_failure_code Extraction_service_timeout = ''extraction_service_timeout''"
| "extraction_failure_code Extraction_response_invalid = ''extraction_response_invalid''"
| "extraction_failure_code Extraction_input_unsupported = ''extraction_input_unsupported''"
| "extraction_failure_code Extraction_resource_limit = ''extraction_resource_limit''"
| "extraction_failure_code Extraction_attestation_stale = ''extraction_attestation_stale''"
| "extraction_failure_code Extraction_input_changed = ''extraction_input_changed''"
| "extraction_failure_code Extraction_object_missing = ''extraction_object_missing''"
| "extraction_failure_code Extraction_worker_internal = ''extraction_worker_internal''"

fun extraction_failure_message :: "extraction_failure \<Rightarrow> string" where
  "extraction_failure_message Extraction_service_unavailable =
     ''The text extraction service was unavailable.''"
| "extraction_failure_message Extraction_service_timeout =
     ''The text extraction service timed out.''"
| "extraction_failure_message Extraction_response_invalid =
     ''The text extraction service returned an invalid response.''"
| "extraction_failure_message Extraction_input_unsupported =
     ''The validated PDF is not supported for text extraction.''"
| "extraction_failure_message Extraction_resource_limit =
     ''The validated PDF exceeded a supported text extraction limit.''"
| "extraction_failure_message Extraction_attestation_stale =
     ''The text extraction attestation was not fresh enough.''"
| "extraction_failure_message Extraction_input_changed =
     ''The validated extraction input changed.''"
| "extraction_failure_message Extraction_object_missing =
     ''The validated extraction input could not be opened.''"
| "extraction_failure_message Extraction_worker_internal =
     ''The text extraction worker could not finish safely.''"

record extraction_lease =
  xl_organizationId :: ident
  xl_jobId :: ident
  xl_jobAttemptId :: ident
  xl_attemptNumber :: int
  xl_workerId :: string
  xl_leaseId :: ident
  xl_leaseExpiresAt :: millis
  xl_documentId :: ident
  xl_assetId :: ident
  xl_intakeId :: ident
  xl_ingestReceiptId :: ident
  xl_validationAttestationId :: ident
  xl_storageProvider :: storage_provider
  xl_storageKey :: string
  xl_inputSha256 :: string
  xl_inputSizeBytes :: int
  xl_expectedPageCount :: jnum
  xl_policyVersion :: string
  xl_storageVersion :: string
  xl_storageAuthorityGeneration :: "string option"
  xl_toolchainDigest :: string

record extracted_chunk =
  xc_sequence :: jnum
  xc_pageNumber :: jnum
  xc_paragraphId :: string
  xc_text :: string

record extraction_attestation =
  xa_inputSha256 :: string
  xa_inputSizeBytes :: int
  xa_storageVersion :: string
  xa_policyVersion :: string
  xa_toolchainDigest :: string
  xa_verdict :: extraction_verdict
  xa_engine :: string
  xa_engineVersion :: string
  xa_pageCount :: jnum
  xa_chunkCount :: jnum
  xa_textBytes :: jnum
  xa_extractedAt :: "millis option"
  xa_completedAt :: "millis option"
  xa_durationMs :: jnum
  xa_totalDurationMs :: jnum
  xa_chunks :: "extracted_chunk list"

record extraction_completion =
  xr_outcome :: completion_outcome
  xr_extractionId :: ident
  xr_verdict :: extraction_verdict
  xr_chunkCount :: jnum

datatype deferral_outcome = Deferred | Defer_lease_lost

text \<open>The optional \<open>now\<close> of a call: absent, a valid date, or an invalid one.\<close>

datatype clock_override = No_override | Override "millis option"

fun require_clock_override :: "clock_override \<Rightarrow> tx_error + millis option" where
  "require_clock_override No_override = Inr None"
| "require_clock_override (Override (Some t)) = Inr (Some t)"
| "require_clock_override (Override None) =
     Inl (TypeError ''A valid extraction lifecycle timestamp is required.'')"

text \<open>\<open>COALESCE(override, clock_timestamp())\<close>\<close>

definition authoritative_now :: "millis \<Rightarrow> millis option \<Rightarrow> millis" where
  "authoritative_now database_clock override = or_default override database_clock"

definition extraction_ttl_message :: string where
  "extraction_ttl_message = ''The text extraction lease TTL is outside the supported range.''"

section \<open>Failing a target that is not claimed\<close>

definition extraction_target_failed_message :: string where
  "extraction_target_failed_message =
     ''The text extraction target failed an authoritative state check.''"

definition leased_attempt_in_org :: "job \<Rightarrow> job_attempt \<Rightarrow> bool" where
  "leased_attempt_in_org job t \<longleftrightarrow> t_org t = j_org job \<and> leased_attempt job t"

definition fail_extraction_target :: "db \<Rightarrow> job \<Rightarrow> string \<Rightarrow> millis \<Rightarrow> tx_error + db" where
  "fail_extraction_target d job c now =
     and_then (case job_pipeline_key job of
         None \<Rightarrow> Inr d
       | Some key \<Rightarrow> map_sum id snd (project_lifecycle d key (Extraction_attention c) (Some now)))
       (\<lambda>d1.
     let d2 = (if j_status job = J_RUNNING \<and> truthy (j_leaseId job)
               then d1\<lparr>attempts := update_rows (leased_attempt_in_org job)
                      (close_attempt_row J_DEAD_LETTER now c extraction_target_failed_message)
                      (attempts d1)\<rparr>
               else d1)
     in and_then (update_one (job_key (j_org job) (j_id job))
                    (dead_letter_row now c extraction_target_failed_message) (jobs d2)) (\<lambda>js.
        Inr (d2\<lparr>jobs := js,
                audits := audits d2 @ [dead_letter_audit ''document.text_extraction.dead_lettered''
                                         (j_org job) (j_id job) c]\<rparr>)))"

section \<open>The authoritative target\<close>

record extraction_target =
  xt_document :: document
  xt_asset :: asset
  xt_validation :: attestation_row
  xt_receipt :: ingest_receipt
  xt_intake :: intake
  xt_pageCount :: jnum

definition extraction_intake_of :: "db \<Rightarrow> authority_key \<Rightarrow> intake option" where
  "extraction_intake_of d key =
     List.find (\<lambda>k. keyed_intake key k \<and> k_status k \<in> {EXTRACTING, ATTENTION, READY}) (intakes d)"

definition authoritative_extraction_target ::
    "db \<Rightarrow> job \<Rightarrow> extraction_payload \<Rightarrow> extraction_target option" where
  "authoritative_extraction_target d job p = do {
     key \<leftarrow> job_pipeline_key job;
     x \<leftarrow> List.find (document_key (j_org job) (ak_documentId key)) (documents d);
     a \<leftarrow> List.find (asset_key (j_org job) (ak_assetId key)) (assets d);
     original_of d (j_org job) (ak_documentId key) (ak_assetId key);
     v \<leftarrow> List.find (\<lambda>v. v_org v = j_org job \<and> v_id v = ep_validationAttestationId p) (attestations d);
     r \<leftarrow> receipt_of d key (ak_ingestReceiptId key);
     k \<leftarrow> extraction_intake_of d key;
     vj \<leftarrow> List.find (job_key (j_org job) (v_jobId v)) (jobs d);
     vt \<leftarrow> List.find (attempt_key (j_org job) (v_jobAttemptId v)) (attempts d);
     pages \<leftarrow> v_pageCount v;
     (if v_ingestReceiptId v = r_id r \<and> v_storageVersion v = ep_storageVersion p
         \<and> current_accepted_validation v vj vt x a False
      then Some \<lparr>xt_document = x, xt_asset = a, xt_validation = v, xt_receipt = r, xt_intake = k,
                 xt_pageCount = pages\<rparr>
      else None)
   }"

section \<open>Claim\<close>

text \<open>The payload's routing fields as the candidate query reads them: \<open>payload->'x'\<close> and its type.\<close>

fun payload_field :: "json \<Rightarrow> string \<Rightarrow> json option" where
  "payload_field (JObj o1) k = field o1 k"
| "payload_field _ k = None"

fun routed :: "(string \<Rightarrow> bool) \<Rightarrow> string \<Rightarrow> json option \<Rightarrow> bool" where
  "routed well_formed expected (Some (JStr s)) \<longleftrightarrow> s = expected \<or> \<not> well_formed s"
| "routed well_formed expected _ \<longleftrightarrow> True"

definition extraction_candidate :: "string \<Rightarrow> string \<Rightarrow> millis \<Rightarrow> job \<Rightarrow> bool" where
  "extraction_candidate expectedPolicy expectedDigest now j \<longleftrightarrow>
     j_type j = TEXT_EXTRACTION
     \<and> routed nonzero_digest expectedDigest (payload_field (j_payload j) ''toolchainDigest'')
     \<and> routed policy_value_pattern expectedPolicy (payload_field (j_payload j) ''policyVersion'')
     \<and> claim_candidate now j"

definition extraction_expired_message :: string where
  "extraction_expired_message = ''The text extraction worker lease expired.''"

definition close_expired_extraction :: "job \<Rightarrow> job_status \<Rightarrow> millis \<Rightarrow> db \<Rightarrow> db" where
  "close_expired_extraction job status now d =
     d\<lparr>attempts := update_rows (leased_attempt_in_org job)
          (close_attempt_row status now ''worker_lease_expired'' extraction_expired_message)
          (attempts d)\<rparr>"

definition make_extraction_lease ::
    "claim_env \<Rightarrow> string \<Rightarrow> millis \<Rightarrow> job \<Rightarrow> extraction_payload \<Rightarrow> extraction_target \<Rightarrow> extraction_lease"
where
  "make_extraction_lease env workerId expiresAt job p g =
     \<lparr>xl_organizationId = j_org job, xl_jobId = j_id job, xl_jobAttemptId = ce_attemptId env,
      xl_attemptNumber = j_attempts job + 1, xl_workerId = workerId, xl_leaseId = ce_leaseId env,
      xl_leaseExpiresAt = expiresAt, xl_documentId = d_id (xt_document g),
      xl_assetId = a_id (xt_asset g), xl_intakeId = k_id (xt_intake g),
      xl_ingestReceiptId = r_id (xt_receipt g),
      xl_validationAttestationId = v_id (xt_validation g), xl_storageProvider = LOCAL,
      xl_storageKey = a_objectKey (xt_asset g), xl_inputSha256 = v_inputSha256 (xt_validation g),
      xl_inputSizeBytes = v_inputSizeBytes (xt_validation g),
      xl_expectedPageCount = xt_pageCount g, xl_policyVersion = ep_policyVersion p,
      xl_storageVersion = ep_storageVersion p,
      xl_storageAuthorityGeneration = r_storageAuthorityGeneration (xt_receipt g),
      xl_toolchainDigest = ep_toolchainDigest p\<rparr>"

definition target_authority_key :: "job \<Rightarrow> extraction_target \<Rightarrow> authority_key" where
  "target_authority_key job g =
     \<lparr>ak_org = j_org job, ak_intakeId = k_id (xt_intake g), ak_documentId = d_id (xt_document g),
      ak_assetId = a_id (xt_asset g), ak_ingestReceiptId = r_id (xt_receipt g)\<rparr>"

definition claim_extraction_target ::
    "claim_env \<Rightarrow> string \<Rightarrow> int \<Rightarrow> millis \<Rightarrow> job \<Rightarrow> db \<Rightarrow> extraction_lease claim_result tx" where
  "claim_extraction_target env workerId ttl now job d =
     (case Option.bind (parse_extraction_payload (j_payload job))
             (\<lambda>p. map_option (\<lambda>g. (p, g)) (authoritative_extraction_target d job p)) of
        None \<Rightarrow> skip_with (fail_extraction_target d job ''extraction_target_invalid'' now)
      | Some (p, g) \<Rightarrow>
          and_then (project_lifecycle d (target_authority_key job g) Extraction_claim (Some now))
            (\<lambda>(ok, d1).
            if \<not> ok
            then skip_with (fail_extraction_target d1 job ''extraction_target_invalid'' now)
            else map_sum id
                   (\<lambda>d2. (Claimed (make_extraction_lease env workerId (now + ttl) job p g), d2))
                   (open_job_lease env workerId ttl now job d1)))"

text \<open>
  One transaction of the loop. The query reads the database clock first (\<open>query_now\<close>), the lease
  clock is read again after the row is locked (\<open>now\<close>); with an override both are the override.
\<close>

definition claim_extraction_tx ::
    "claim_env \<Rightarrow> string \<Rightarrow> string \<Rightarrow> string \<Rightarrow> int \<Rightarrow> millis \<Rightarrow> millis \<Rightarrow> db
      \<Rightarrow> extraction_lease claim_result tx" where
  "claim_extraction_tx env workerId expectedPolicy expectedDigest ttl query_now now d =
     (case select_candidate env (extraction_candidate expectedPolicy expectedDigest query_now) (jobs d) of
        None \<Rightarrow> Inr (Claim_empty, d)
      | Some job \<Rightarrow>
          (if j_status job \<noteq> J_RUNNING \<and> j_attempts job \<ge> j_maxAttempts job
           then skip_with (fail_extraction_target d job ''extraction_attempt_budget_exhausted'' now)
           else if j_status job = J_RUNNING then
             (if \<not> truthy (j_leaseId job) \<or> \<not> expired now (j_leaseExpiresAt job)
              then Inr (Claim_skip, d)
              else if j_attempts job \<ge> j_maxAttempts job
              then skip_with (fail_extraction_target
                     (close_expired_extraction job J_DEAD_LETTER now d) job ''worker_lease_expired'' now)
              else claim_extraction_target env workerId ttl now job
                     (close_expired_extraction job J_FAILED now d))
           else claim_extraction_target env workerId ttl now job d))"

definition claim_extraction_inputs ::
    "string \<Rightarrow> string \<Rightarrow> string \<Rightarrow> jnum option \<Rightarrow> clock_override
      \<Rightarrow> tx_error + (string \<times> string \<times> int \<times> millis option)" where
  "claim_extraction_inputs workerId expectedPolicy expectedDigest leaseTtlMs clock =
     and_then (require_worker_id workerId) (\<lambda>w.
     and_then (require_version policy_value_pattern ''Expected text extraction policy version''
       expectedPolicy) (\<lambda>pv.
     and_then (require_toolchain_digest expectedDigest) (\<lambda>_.
     and_then (require_lease_ttl extraction_ttl_message
       (or_default leaseTtlMs (NInt extraction_default_ttl_ms))) (\<lambda>ttl.
     map_sum id (\<lambda>c. (w, pv, ttl, c)) (require_clock_override clock)))))"

text \<open>The loop, with the two readings of the database clock of each of its transactions.\<close>

definition claim_next_extraction ::
    "(claim_env \<times> millis \<times> millis) list \<Rightarrow> string \<Rightarrow> string \<Rightarrow> string \<Rightarrow> jnum option \<Rightarrow> clock_override
      \<Rightarrow> db \<Rightarrow> (tx_error + extraction_lease option) \<times> db" where
  "claim_next_extraction envs workerId expectedPolicy expectedDigest leaseTtlMs clock d =
     (case claim_extraction_inputs workerId expectedPolicy expectedDigest leaseTtlMs clock of
        Inl e \<Rightarrow> (Inl e, d)
      | Inr (w, pv, ttl, override) \<Rightarrow>
          claim_loop (\<lambda>(env, q, n). claim_extraction_tx env w pv expectedDigest ttl
                (authoritative_now q override) (authoritative_now n override))
            (take max_claim_reap_loops envs) d)"

section \<open>Heartbeat\<close>

text \<open>\<open>"payload"->>'x' = value\<close>, on the string fields a parsed payload has.\<close>

definition payload_text_is :: "json \<Rightarrow> string \<Rightarrow> string \<Rightarrow> bool" where
  "payload_text_is payload k v \<longleftrightarrow> payload_field payload k = Some (JStr v)"

definition holds_extraction_lease :: "extraction_lease \<Rightarrow> millis \<Rightarrow> job \<Rightarrow> bool" where
  "holds_extraction_lease l now j \<longleftrightarrow>
     job_key (xl_organizationId l) (xl_jobId l) j \<and> j_type j = TEXT_EXTRACTION
     \<and> j_status j = J_RUNNING \<and> j_lockedBy j = Some (xl_workerId l)
     \<and> j_leaseId j = Some (xl_leaseId l)
     \<and> j_documentId j = Some (xl_documentId l) \<and> j_assetId j = Some (xl_assetId l)
     \<and> j_intakeId j = Some (xl_intakeId l) \<and> j_ingestReceiptId j = Some (xl_ingestReceiptId l)
     \<and> payload_text_is (j_payload j) ''validationAttestationId'' (xl_validationAttestationId l)
     \<and> payload_text_is (j_payload j) ''policyVersion'' (xl_policyVersion l)
     \<and> payload_text_is (j_payload j) ''storageVersion'' (xl_storageVersion l)
     \<and> payload_text_is (j_payload j) ''toolchainDigest'' (xl_toolchainDigest l)
     \<and> j_leaseExpiresAt j \<noteq> None \<and> \<not> expired now (j_leaseExpiresAt j)"

definition heartbeat_extraction ::
    "extraction_lease \<Rightarrow> jnum option \<Rightarrow> clock_override \<Rightarrow> millis \<Rightarrow> db \<Rightarrow> bool tx" where
  "heartbeat_extraction l leaseTtlMs clock database_clock d =
     and_then (require_clock_override clock) (\<lambda>override.
     and_then (require_lease_ttl extraction_ttl_message
        (or_default leaseTtlMs (NInt extraction_default_ttl_ms))) (\<lambda>ttl.
     let now = authoritative_now database_clock override
     in Inr (count_rows (holds_extraction_lease l now) (jobs d) = 1,
             d\<lparr>jobs := update_rows (holds_extraction_lease l now)
                  (\<lambda>j. j\<lparr>j_leaseExpiresAt := Some (now + ttl)\<rparr>) (jobs d)\<rparr>)))"

section \<open>Guards of a held lease\<close>

definition extraction_lease_current :: "extraction_lease \<Rightarrow> millis \<Rightarrow> job \<Rightarrow> bool" where
  "extraction_lease_current l now job \<longleftrightarrow>
     j_type job = TEXT_EXTRACTION \<and> j_status job = J_RUNNING
     \<and> j_leaseId job = Some (xl_leaseId l) \<and> j_lockedBy job = Some (xl_workerId l)
     \<and> j_leaseExpiresAt job \<noteq> None \<and> \<not> expired now (j_leaseExpiresAt job)
     \<and> j_documentId job = Some (xl_documentId l) \<and> j_assetId job = Some (xl_assetId l)
     \<and> j_intakeId job = Some (xl_intakeId l) \<and> j_ingestReceiptId job = Some (xl_ingestReceiptId l)
     \<and> j_attempts job = xl_attemptNumber l"

definition payload_for_lease :: "extraction_lease \<Rightarrow> job \<Rightarrow> bool" where
  "payload_for_lease l job \<longleftrightarrow>
     (case parse_extraction_payload (j_payload job) of
        None \<Rightarrow> False
      | Some p \<Rightarrow> ep_validationAttestationId p = xl_validationAttestationId l
          \<and> ep_policyVersion p = xl_policyVersion l \<and> ep_storageVersion p = xl_storageVersion l
          \<and> ep_toolchainDigest p = xl_toolchainDigest l)"

definition extraction_attempt_current :: "db \<Rightarrow> extraction_lease \<Rightarrow> bool" where
  "extraction_attempt_current d l \<longleftrightarrow>
     (case List.find (attempt_key (xl_organizationId l) (xl_jobAttemptId l)) (attempts d) of
        None \<Rightarrow> False
      | Some t \<Rightarrow>
          attempt_current (xl_jobId l) (xl_attemptNumber l) (xl_leaseId l) (xl_workerId l) t)"

definition extraction_held :: "db \<Rightarrow> extraction_lease \<Rightarrow> millis \<Rightarrow> job \<Rightarrow> bool" where
  "extraction_held d l now job \<longleftrightarrow>
     extraction_lease_current l now job \<and> payload_for_lease l job \<and> extraction_attempt_current d l"

definition extraction_authority_key :: "extraction_lease \<Rightarrow> authority_key" where
  "extraction_authority_key l =
     \<lparr>ak_org = xl_organizationId l, ak_intakeId = xl_intakeId l, ak_documentId = xl_documentId l,
      ak_assetId = xl_assetId l, ak_ingestReceiptId = xl_ingestReceiptId l\<rparr>"

definition running_attempt_of :: "extraction_lease \<Rightarrow> job_attempt \<Rightarrow> bool" where
  "running_attempt_of l t \<longleftrightarrow>
     t_id t = xl_jobAttemptId l \<and> t_org t = xl_organizationId l \<and> t_jobId t = xl_jobId l
     \<and> t_leaseId t = Some (xl_leaseId l) \<and> t_workerId t = Some (xl_workerId l)
     \<and> t_status t = J_RUNNING"

section \<open>Deferral before admission\<close>

text \<open>The job row of a deferral: retried soon, its attempt counter rewound.\<close>

definition defer_row :: "millis \<Rightarrow> int \<Rightarrow> job \<Rightarrow> job" where
  "defer_row now attemptNumber j =
     (retry_row (now + admission_retry_delay_ms) ''extraction_service_busy''
        ''The text extraction request was deferred before admission.'' j)
       \<lparr>j_attempts := attemptNumber - 1\<rparr>"

definition deferral_audit :: "extraction_lease \<Rightarrow> audit_event" where
  "deferral_audit l =
     \<lparr>e_org = xl_organizationId l, e_action = ''document.text_extraction.admission_deferred'',
      e_entityType = ''job'', e_entityId = xl_jobId l,
      e_metadata =
        [(''documentId'', JStr (xl_documentId l)), (''assetId'', JStr (xl_assetId l)),
         (''reservedAttemptNumber'', jint (xl_attemptNumber l)),
         (''reason'', JStr ''extraction_service_busy'')]\<rparr>"

definition apply_deferral :: "extraction_lease \<Rightarrow> millis \<Rightarrow> job \<Rightarrow> db \<Rightarrow> tx_error + db" where
  "apply_deferral l now job d =
     and_then (throw_unless (count_rows (running_attempt_of l) (attempts d) = 1)
        (Error ''The extraction admission attempt changed concurrently.'')) (\<lambda>_.
     and_then (update_one (job_key (xl_organizationId l) (xl_jobId l))
        (defer_row now (j_attempts job)) (jobs d)) (\<lambda>js.
     Inr (d\<lparr>attempts := delete_rows (running_attempt_of l) (attempts d), jobs := js,
            audits := audits d @ [deferral_audit l]\<rparr>)))"

definition defer_extraction ::
    "extraction_lease \<Rightarrow> clock_override \<Rightarrow> millis \<Rightarrow> db \<Rightarrow> deferral_outcome tx" where
  "defer_extraction l clock database_clock d =
     and_then (require_clock_override clock) (\<lambda>override.
     let now = authoritative_now database_clock override
     in case List.find (job_key (xl_organizationId l) (xl_jobId l)) (jobs d) of
          None \<Rightarrow> Inr (Defer_lease_lost, d)
        | Some job \<Rightarrow>
            (if \<not> (extraction_held d l now job \<and> 1 \<le> j_attempts job) then Inr (Defer_lease_lost, d)
             else and_then (project_lifecycle d (extraction_authority_key l) Extraction_retry (Some now))
               (\<lambda>(ok, d1).
                 if \<not> ok then Inr (Defer_lease_lost, d1)
                 else map_sum id (\<lambda>d2. (Deferred, d2)) (apply_deferral l now job d1))))"

end
