(* ===== verification/Extraction_Completion.thy ===== *)
theory Extraction_Completion
  imports Extraction_Jobs
begin

text \<open>
  Completion and failure of a text extraction lease (\<open>src/server/documents/extraction-jobs.ts\<close>):
  the checks of an attestation and of its chunks, the rows a completion writes, its replay, and
  the retry or dead letter of a failed lease. Unicode NFC and SHA-256 are the arguments \<open>nfc\<close> and
  \<open>sha256\<close>; the identifier of the new extraction is an argument too.
\<close>

section \<open>The checks of an attestation\<close>

definition assert_extraction_chunk ::
    "(string \<Rightarrow> string) \<Rightarrow> extracted_chunk \<Rightarrow> int \<Rightarrow> int \<Rightarrow> int \<times> int \<Rightarrow> tx_error + (int \<times> int \<times> int)"
where
  "assert_extraction_chunk nfc c index pageCount prev =
     and_then (throw_unless (xc_sequence c = NInt index
         \<and> bounded_integer 1 pageCount (xc_pageNumber c) \<and> fst prev \<le> num_val (xc_pageNumber c))
       (TypeError ''The extracted text chunk identity is invalid.'')) (\<lambda>_.
     case chunk_position pageCount prev (xc_pageNumber c) (xc_paragraphId c) of
       None \<Rightarrow> Inl (TypeError ''The extracted paragraph identity is invalid.'')
     | Some position \<Rightarrow>
         and_then (throw_unless (canonical_text nfc (xc_text c))
           (TypeError ''The extracted text chunk is invalid.'')) (\<lambda>_.
         Inr (utf8_bytes (xc_text c), position)))"

text \<open>The loop over the chunks; the result is the measured byte total.\<close>

fun assert_extraction_chunks ::
    "(string \<Rightarrow> string) \<Rightarrow> int \<Rightarrow> extracted_chunk list \<Rightarrow> int \<Rightarrow> int \<times> int \<Rightarrow> int \<Rightarrow> tx_error + int" where
  "assert_extraction_chunks nfc pageCount [] index prev measured = Inr measured"
| "assert_extraction_chunks nfc pageCount (c # cs) index prev measured =
     and_then (assert_extraction_chunk nfc c index pageCount prev) (\<lambda>(bytes, position).
     and_then (throw_unless (measured + bytes \<le> max_extracted_text_bytes)
       (TypeError ''The extracted text byte total is too large.'')) (\<lambda>_.
     assert_extraction_chunks nfc pageCount cs (index + 1) position (measured + bytes)))"

definition extraction_header_ok :: "extraction_attestation \<Rightarrow> bool" where
  "extraction_header_ok a \<longleftrightarrow>
     sha256_pattern (xa_inputSha256 a)
     \<and> 1 \<le> xa_inputSizeBytes a \<and> xa_inputSizeBytes a \<le> max_input_bytes
     \<and> safe_value_pattern (xa_storageVersion a) \<and> policy_value_pattern (xa_policyVersion a)
     \<and> sha256_pattern (xa_toolchainDigest a)
     \<and> xa_engine a = ''poppler'' \<and> safe_value_pattern (xa_engineVersion a)
     \<and> bounded_integer 1 max_extracted_page_count (xa_pageCount a)
     \<and> bounded_integer 0 max_extracted_chunk_count (xa_chunkCount a)
     \<and> bounded_integer 0 max_extracted_text_bytes (xa_textBytes a)
     \<and> (case (xa_extractedAt a, xa_completedAt a) of
          (Some e, Some c) \<Rightarrow> e \<le> c
        | _ \<Rightarrow> False)
     \<and> bounded_integer 0 max_extraction_duration_ms (xa_durationMs a)
     \<and> bounded_integer (num_val (xa_durationMs a)) max_extraction_duration_ms (xa_totalDurationMs a)
     \<and> xa_chunkCount a = NInt (int (length (xa_chunks a)))"

definition assert_extraction_attestation ::
    "(string \<Rightarrow> string) \<Rightarrow> extraction_attestation \<Rightarrow> tx_error + unit" where
  "assert_extraction_attestation nfc a =
     and_then (throw_unless (extraction_header_ok a)
       (TypeError ''The text extraction attestation is invalid.'')) (\<lambda>_.
     and_then (assert_extraction_chunks nfc (num_val (xa_pageCount a)) (xa_chunks a) 0 (0, 0) 0)
       (\<lambda>measured.
     throw_unless (NInt measured = xa_textBytes a
         \<and> (if xa_verdict a = EXTRACTED
            then 1 \<le> num_val (xa_chunkCount a) \<and> 1 \<le> num_val (xa_textBytes a)
            else xa_chunkCount a = NInt 0 \<and> xa_textBytes a = NInt 0))
       (TypeError ''The text extraction attestation is internally inconsistent.'')))"

section \<open>Stored results\<close>

fun extraction_verdict_name :: "extraction_verdict \<Rightarrow> string" where
  "extraction_verdict_name EXTRACTED = ''EXTRACTED''"
| "extraction_verdict_name NO_TEXT = ''NO_TEXT''"

definition extraction_result :: "extraction_attestation \<Rightarrow> fields" where
  "extraction_result a =
     [(''schemaVersion'', jint 1), (''engine'', JStr ''poppler''),
      (''engineVersion'', JStr (xa_engineVersion a)),
      (''extractedAt'', JStr (iso_format (the (xa_extractedAt a)))),
      (''completedAt'', JStr (iso_format (the (xa_completedAt a)))),
      (''durationMs'', JNum (xa_durationMs a)),
      (''totalDurationMs'', JNum (xa_totalDurationMs a))]"

definition result_matches :: "json \<Rightarrow> extraction_attestation \<Rightarrow> bool" where
  "result_matches v a \<longleftrightarrow>
     (case json_object v of
        None \<Rightarrow> False
      | Some r \<Rightarrow> length (obj_keys r) = length (obj_keys (extraction_result a))
          \<and> list_all (\<lambda>(k, expected). field r k = Some expected) (extraction_result a))"

definition chunk_locator :: "extracted_chunk \<Rightarrow> fields" where
  "chunk_locator c =
     [(''schemaVersion'', jint 1), (''kind'', JStr ''pdf-text''),
      (''pageNumber'', JNum (xc_pageNumber c)), (''paragraphId'', JStr (xc_paragraphId c))]"

definition locator_matches :: "json \<Rightarrow> extracted_chunk \<Rightarrow> bool" where
  "locator_matches v c \<longleftrightarrow>
     (case json_object v of
        None \<Rightarrow> False
      | Some r \<Rightarrow> length (obj_keys r) = 4
          \<and> field r ''schemaVersion'' = Some (jint 1) \<and> field r ''kind'' = Some (JStr ''pdf-text'')
          \<and> field r ''pageNumber'' = Some (JNum (xc_pageNumber c))
          \<and> field r ''paragraphId'' = Some (JStr (xc_paragraphId c)))"

definition chunk_matches :: "(string \<Rightarrow> string) \<Rightarrow> chunk_row \<Rightarrow> extracted_chunk \<Rightarrow> bool" where
  "chunk_matches sha256 h c \<longleftrightarrow>
     h_sequence h = xc_sequence c \<and> h_pageStart h = Some (xc_pageNumber c)
     \<and> h_pageEnd h = Some (xc_pageNumber c) \<and> h_sectionId h = None \<and> h_sectionTitle h = None
     \<and> h_paragraphId h = Some (xc_paragraphId c) \<and> h_charStart h = None \<and> h_charEnd h = None
     \<and> h_text h = xc_text c \<and> h_contentHash h = sha256 (xc_text c)
     \<and> locator_matches (h_locator h) c"

definition extraction_matches ::
    "(string \<Rightarrow> string) \<Rightarrow> extraction_row \<Rightarrow> chunk_row list \<Rightarrow> extraction_attestation \<Rightarrow> bool" where
  "extraction_matches sha256 f hs a \<longleftrightarrow>
     f_inputSha256 f = xa_inputSha256 a \<and> f_inputSizeBytes f = xa_inputSizeBytes a
     \<and> f_storageVersion f = xa_storageVersion a \<and> f_extractionPolicyVersion f = xa_policyVersion a
     \<and> f_toolchainDigest f = xa_toolchainDigest a \<and> f_verdict f = xa_verdict a
     \<and> f_engine f = xa_engine a \<and> f_engineVersion f = xa_engineVersion a
     \<and> f_pageCount f = xa_pageCount a \<and> f_chunkCount f = xa_chunkCount a
     \<and> f_textBytes f = xa_textBytes a
     \<and> Some (f_extractedAt f) = xa_extractedAt a \<and> Some (f_completedAt f) = xa_completedAt a
     \<and> f_durationMs f = xa_durationMs a \<and> f_totalDurationMs f = xa_totalDurationMs a
     \<and> result_matches (f_result f) a
     \<and> list_all2 (chunk_matches sha256) hs (xa_chunks a)"

section \<open>Completion\<close>

definition extraction_row_of ::
    "ident \<Rightarrow> extraction_lease \<Rightarrow> extraction_attestation \<Rightarrow> millis \<Rightarrow> extraction_row" where
  "extraction_row_of newId l a now =
     \<lparr>f_id = newId, f_org = xl_organizationId l, f_jobId = xl_jobId l,
      f_jobAttemptId = xl_jobAttemptId l,
      f_validationAttestationId = xl_validationAttestationId l, f_assetId = xl_assetId l,
      f_documentId = xl_documentId l, f_inputSha256 = xa_inputSha256 a,
      f_inputSizeBytes = xa_inputSizeBytes a, f_storageVersion = xa_storageVersion a,
      f_extractionPolicyVersion = xa_policyVersion a, f_toolchainDigest = xa_toolchainDigest a,
      f_verdict = xa_verdict a, f_engine = xa_engine a, f_engineVersion = xa_engineVersion a,
      f_pageCount = xa_pageCount a, f_chunkCount = xa_chunkCount a, f_textBytes = xa_textBytes a,
      f_extractedAt = the (xa_extractedAt a), f_completedAt = the (xa_completedAt a),
      f_durationMs = xa_durationMs a, f_totalDurationMs = xa_totalDurationMs a,
      f_checkedAt = now, f_result = JObj (extraction_result a)\<rparr>"

definition chunk_row_of ::
    "(string \<Rightarrow> string) \<Rightarrow> ident \<Rightarrow> extraction_lease \<Rightarrow> extracted_chunk \<Rightarrow> chunk_row" where
  "chunk_row_of sha256 extractionId l c =
     \<lparr>h_org = xl_organizationId l, h_documentId = xl_documentId l,
      h_extractionId = Some extractionId, h_sequence = xc_sequence c,
      h_pageStart = Some (xc_pageNumber c), h_pageEnd = Some (xc_pageNumber c),
      h_sectionId = None, h_sectionTitle = None, h_paragraphId = Some (xc_paragraphId c),
      h_charStart = None, h_charEnd = None, h_text = xc_text c,
      h_contentHash = sha256 (xc_text c), h_locator = JObj (chunk_locator c)\<rparr>"

text \<open>\<open>@@unique([extractionId, sequence])\<close>, and \<open>createMany\<close> one row after the other.\<close>

definition chunk_clash :: "chunk_row \<Rightarrow> chunk_row \<Rightarrow> bool" where
  "chunk_clash a b \<longleftrightarrow> h_extractionId a = h_extractionId b \<and> h_extractionId a \<noteq> None
     \<and> h_sequence a = h_sequence b"

fun create_rows :: "('r \<Rightarrow> 'r \<Rightarrow> bool) \<Rightarrow> 'r list \<Rightarrow> 'r list \<Rightarrow> tx_error + 'r list" where
  "create_rows clash [] rs = Inr rs"
| "create_rows clash (n # ns) rs = and_then (create_row clash n rs) (create_rows clash ns)"

definition extraction_job_result :: "ident \<Rightarrow> extraction_attestation \<Rightarrow> fields" where
  "extraction_job_result extractionId a =
     [(''schemaVersion'', jint 1), (''extractionId'', JStr extractionId),
      (''verdict'', JStr (extraction_verdict_name (xa_verdict a))),
      (''chunkCount'', JNum (xa_chunkCount a))]"

definition extraction_provenance ::
    "ident \<Rightarrow> extraction_lease \<Rightarrow> extraction_attestation \<Rightarrow> millis \<Rightarrow> provenance" where
  "extraction_provenance extractionId l a now =
     \<lparr>p_org = xl_organizationId l, p_inboxEntryId = None, p_documentId = xl_documentId l,
      p_sourceProvider = ''PaperPilot isolated document text extraction'',
      p_sourceRecordId = xl_jobAttemptId l, p_retrievedAt = now,
      p_payloadDigest = xa_toolchainDigest a,
      p_payload =
        [(''stage'', JStr ''document-text-extraction''), (''extractionId'', JStr extractionId),
         (''validationAttestationId'', JStr (xl_validationAttestationId l)),
         (''verdict'', JStr (extraction_verdict_name (xa_verdict a))),
         (''policyVersion'', JStr (xa_policyVersion a)),
         (''toolchainDigest'', JStr (xl_toolchainDigest l)),
         (''storageVersion'', JStr (xa_storageVersion a)),
         (''chunkCount'', JNum (xa_chunkCount a)), (''textBytes'', JNum (xa_textBytes a))]\<rparr>"

definition extraction_audit ::
    "ident \<Rightarrow> extraction_lease \<Rightarrow> extraction_attestation \<Rightarrow> audit_event" where
  "extraction_audit extractionId l a =
     \<lparr>e_org = xl_organizationId l, e_action = ''document.text_extraction.completed'',
      e_entityType = ''document'', e_entityId = xl_documentId l,
      e_metadata =
        [(''jobId'', JStr (xl_jobId l)), (''extractionId'', JStr extractionId),
         (''assetId'', JStr (xl_assetId l)),
         (''validationAttestationId'', JStr (xl_validationAttestationId l)),
         (''verdict'', JStr (extraction_verdict_name (xa_verdict a))),
         (''policyVersion'', JStr (xa_policyVersion a)),
         (''chunkCount'', JNum (xa_chunkCount a))]\<rparr>"

text \<open>The writes of a completion, after its projection.\<close>

definition apply_extraction ::
    "(string \<Rightarrow> string) \<Rightarrow> ident \<Rightarrow> extraction_lease \<Rightarrow> extraction_attestation \<Rightarrow> millis \<Rightarrow> db \<Rightarrow> tx_error + db"
where
  "apply_extraction sha256 newId l a now d =
     and_then (create_row extraction_clash (extraction_row_of newId l a now) (extractions d)) (\<lambda>fs.
     and_then (create_rows chunk_clash (map (chunk_row_of sha256 newId l) (xa_chunks a)) (chunks d))
       (\<lambda>hs.
     and_then (update_one (attempt_key (xl_organizationId l) (xl_jobAttemptId l))
        (succeed_attempt_row now (extraction_job_result newId a)) (attempts d)) (\<lambda>ts.
     and_then (update_one (job_key (xl_organizationId l) (xl_jobId l))
        (succeed_row now (extraction_job_result newId a)) (jobs d)) (\<lambda>js.
     Inr (d\<lparr>extractions := fs, chunks := hs, attempts := ts, jobs := js,
            provenances := provenances d @ [extraction_provenance newId l a now],
            audits := audits d @ [extraction_audit newId l a]\<rparr>)))))"

text \<open>What the completion checks of the target beyond the lease.\<close>

definition target_for_lease :: "extraction_lease \<Rightarrow> extraction_target \<Rightarrow> bool" where
  "target_for_lease l g \<longleftrightarrow>
     a_objectKey (xt_asset g) = xl_storageKey l
     \<and> v_id (xt_validation g) = xl_validationAttestationId l
     \<and> v_inputSha256 (xt_validation g) = xl_inputSha256 l
     \<and> v_inputSizeBytes (xt_validation g) = xl_inputSizeBytes l
     \<and> xt_pageCount g = xl_expectedPageCount l
     \<and> k_id (xt_intake g) = xl_intakeId l \<and> r_id (xt_receipt g) = xl_ingestReceiptId l"

definition attestation_for_extraction :: "extraction_lease \<Rightarrow> extraction_attestation \<Rightarrow> bool" where
  "attestation_for_extraction l a \<longleftrightarrow>
     xa_inputSha256 a = xl_inputSha256 l \<and> xa_inputSizeBytes a = xl_inputSizeBytes l
     \<and> xa_storageVersion a = xl_storageVersion l \<and> xa_policyVersion a = xl_policyVersion l
     \<and> xa_toolchainDigest a = xl_toolchainDigest l \<and> xa_pageCount a = xl_expectedPageCount l"

definition job_extraction_target :: "db \<Rightarrow> job \<Rightarrow> extraction_target option" where
  "job_extraction_target d job =
     Option.bind (parse_extraction_payload (j_payload job)) (authoritative_extraction_target d job)"

text \<open>
  The guards of a completion on the lease, the attestation and the target. The two others, that the attempt
  has no extraction yet and that the lifecycle projection is applied, are in \<open>complete_extraction_tx\<close>.
\<close>

definition extraction_completion_allowed ::
    "db \<Rightarrow> extraction_lease \<Rightarrow> extraction_attestation \<Rightarrow> millis \<Rightarrow> job \<Rightarrow> bool" where
  "extraction_completion_allowed d l a now job \<longleftrightarrow>
     extraction_held d l now job \<and> attestation_for_extraction l a
     \<and> (case job_extraction_target d job of
          None \<Rightarrow> False
        | Some g \<Rightarrow> target_for_lease l g)"

text \<open>The stored chunks of an extraction in sequence order, and its manifest admission.\<close>

definition stored_chunks :: "db \<Rightarrow> extraction_row \<Rightarrow> chunk_row list" where
  "stored_chunks d f =
     sort_key (\<lambda>h. num_val (h_sequence h))
       (filter (\<lambda>h. h_org h = f_org f \<and> h_documentId h = f_documentId f
                  \<and> h_extractionId h = Some (f_id f)) (chunks d))"

definition admission_of :: "db \<Rightarrow> extraction_row \<Rightarrow> manifest_admission option" where
  "admission_of d f =
     List.find (\<lambda>m. m_org m = f_org f \<and> m_documentId m = f_documentId f
                  \<and> m_extractionId m = f_id f) (admissions d)"

definition admission_seals :: "manifest_admission \<Rightarrow> extraction_row \<Rightarrow> bool" where
  "admission_seals m f \<longleftrightarrow>
     m_org m = f_org f \<and> m_documentId m = f_documentId f \<and> m_extractionId m = f_id f
     \<and> m_schemaVersion m = 1 \<and> m_verdict m = f_verdict f \<and> m_pageCount m = f_pageCount f
     \<and> m_chunkCount m = f_chunkCount f \<and> m_textBytes m = f_textBytes f
     \<and> sha256_pattern (m_manifestSha256 m) \<and> \<not> zero_digest (m_manifestSha256 m)"

definition replay_extraction ::
    "(string \<Rightarrow> string) \<Rightarrow> db \<Rightarrow> extraction_lease \<Rightarrow> extraction_attestation \<Rightarrow> job \<Rightarrow> extraction_row
      \<Rightarrow> extraction_completion option" where
  "replay_extraction sha256 d l a job f =
     (if j_intakeId job = Some (xl_intakeId l) \<and> j_ingestReceiptId job = Some (xl_ingestReceiptId l)
         \<and> (case job_extraction_target d job of
              None \<Rightarrow> False
            | Some g \<Rightarrow> k_id (xt_intake g) = xl_intakeId l \<and> r_id (xt_receipt g) = xl_ingestReceiptId l)
         \<and> f_org f = xl_organizationId l \<and> f_jobId f = xl_jobId l
         \<and> f_jobAttemptId f = xl_jobAttemptId l \<and> f_assetId f = xl_assetId l
         \<and> f_documentId f = xl_documentId l
         \<and> f_validationAttestationId f = xl_validationAttestationId l
         \<and> (case admission_of d f of None \<Rightarrow> False | Some m \<Rightarrow> admission_seals m f)
         \<and> extraction_matches sha256 f (stored_chunks d f) a
      then Some \<lparr>xr_outcome = Replayed, xr_extractionId = f_id f, xr_verdict = f_verdict f,
                 xr_chunkCount = f_chunkCount f\<rparr>
      else None)"

definition complete_extraction_tx ::
    "(string \<Rightarrow> string) \<Rightarrow> ident \<Rightarrow> extraction_lease \<Rightarrow> extraction_attestation \<Rightarrow> millis \<Rightarrow> db
      \<Rightarrow> extraction_completion option tx" where
  "complete_extraction_tx sha256 newId l a now d =
     (case List.find (job_key (xl_organizationId l) (xl_jobId l)) (jobs d) of
        None \<Rightarrow> Inr (None, d)
      | Some job \<Rightarrow>
          (case List.find (\<lambda>f. f_jobAttemptId f = xl_jobAttemptId l) (extractions d) of
             Some f \<Rightarrow>
               Inr (if j_status job = J_SUCCEEDED then replay_extraction sha256 d l a job f else None, d)
           | None \<Rightarrow>
               (if \<not> extraction_completion_allowed d l a now job then Inr (None, d)
                else and_then (project_lifecycle d (extraction_authority_key l) Extraction_ready (Some now))
                  (\<lambda>(ok, d1).
                    if \<not> ok then Inr (None, d1)
                    else map_sum id
                      (\<lambda>d2. (Some \<lparr>xr_outcome = Applied, xr_extractionId = newId,
                              xr_verdict = xa_verdict a, xr_chunkCount = xa_chunkCount a\<rparr>, d2))
                      (apply_extraction sha256 newId l a now d1)))))"

definition complete_extraction ::
    "(string \<Rightarrow> string) \<Rightarrow> (string \<Rightarrow> string) \<Rightarrow> ident \<Rightarrow> extraction_lease \<Rightarrow> extraction_attestation
      \<Rightarrow> clock_override \<Rightarrow> millis \<Rightarrow> db \<Rightarrow> extraction_completion option tx" where
  "complete_extraction nfc sha256 newId l a clock database_clock d =
     and_then (assert_extraction_attestation nfc a) (\<lambda>_.
     and_then (require_clock_override clock) (\<lambda>override.
     complete_extraction_tx sha256 newId l a (authoritative_now database_clock override) d))"

section \<open>Failure\<close>

definition apply_extraction_failure ::
    "extraction_lease \<Rightarrow> extraction_failure \<Rightarrow> bool \<Rightarrow> millis \<Rightarrow> job \<Rightarrow> db \<Rightarrow> failure_outcome tx" where
  "apply_extraction_failure l c canRetry now job d =
     and_then (throw_unless (count_rows (running_attempt_of l) (attempts d) = 1)
        (Error ''The extraction attempt changed concurrently.'')) (\<lambda>_.
     let d1 = d\<lparr>attempts := update_rows (running_attempt_of l)
                  (close_attempt_row (if canRetry then J_FAILED else J_DEAD_LETTER) now
                     (extraction_failure_code c) (extraction_failure_message c)) (attempts d)\<rparr>
     in and_then (update_one (job_key (xl_organizationId l) (xl_jobId l))
          (if canRetry
           then retry_row (now + retry_delay_ms (j_attempts job)) (extraction_failure_code c)
                  (extraction_failure_message c)
           else dead_letter_row now (extraction_failure_code c) (extraction_failure_message c))
          (jobs d1)) (\<lambda>js.
        if canRetry then Inr (Retrying, d1\<lparr>jobs := js\<rparr>)
        else Inr (Dead_letter, d1\<lparr>jobs := js, audits := audits d1
               @ [dead_letter_audit ''document.text_extraction.dead_lettered''
                    (xl_organizationId l) (xl_jobId l) (extraction_failure_code c)]\<rparr>)))"

definition fail_extraction_tx ::
    "extraction_lease \<Rightarrow> extraction_failure \<Rightarrow> bool \<Rightarrow> millis \<Rightarrow> db \<Rightarrow> failure_outcome tx" where
  "fail_extraction_tx l c retryable now d =
     (case List.find (job_key (xl_organizationId l) (xl_jobId l)) (jobs d) of
        None \<Rightarrow> Inr (Lease_lost, d)
      | Some job \<Rightarrow>
          (if \<not> extraction_held d l now job then Inr (Lease_lost, d)
           else
             let canRetry = (retryable \<and> j_attempts job < j_maxAttempts job)
             in and_then (project_lifecycle d (extraction_authority_key l)
                  (if canRetry then Extraction_retry
                   else Extraction_attention (extraction_failure_code c)) (Some now)) (\<lambda>(ok, d1).
                if \<not> ok then Inr (Lease_lost, d1)
                else apply_extraction_failure l c canRetry now job d1)))"

definition fail_extraction ::
    "extraction_lease \<Rightarrow> extraction_failure \<Rightarrow> bool \<Rightarrow> clock_override \<Rightarrow> millis \<Rightarrow> db
      \<Rightarrow> failure_outcome tx" where
  "fail_extraction l c retryable clock database_clock d =
     and_then (require_clock_override clock) (\<lambda>override.
     and_then (throw_unless (utf8_bytes (extraction_failure_message c) \<le> 500)
       (TypeError ''The safe text extraction error message is too large.'')) (\<lambda>_.
     fail_extraction_tx l c retryable (authoritative_now database_clock override) d))"

end
