(* ===== verification/Extraction_Safety.thy ===== *)
theory Extraction_Safety
  imports Extraction_Completion
begin

text \<open>
  The extraction job's laws: every transaction of \<open>Extraction_Jobs\<close> and \<open>Extraction_Completion\<close>
  refines the abstract queue (an interpretation of \<open>leased_queue\<close>), a deferral is the queue's
  deferral, and the guards and effects of completion and failure.
\<close>

section \<open>What each operation does to the queue\<close>

lemma leased_in_org_iff:
  assumes "queue_ok (js, ts)" "j \<in> set js" "t \<in> set ts"
  shows "leased_attempt_in_org j t \<longleftrightarrow> t_jobId t = j_id j \<and> t_status t = J_RUNNING"
  using leased_attempt_iff [OF assms] running_attempt_job(4) [OF assms]
  by (auto simp: leased_attempt_in_org_def)

lemma closes_leased_in_org:
  assumes "queue_ok (js, ts)" "j \<in> set js" "s \<noteq> J_RUNNING"
  shows "closes j ts (update_rows (leased_attempt_in_org j) (close_attempt_row s now c m) ts)"
  using leased_in_org_iff [OF assms(1,2)] assms(3)
  by (intro closes_update) (auto simp: close_attempt_row_def)

lemma closes_twice_in_org:
  assumes "closes j ts ts'"
  shows "update_rows (leased_attempt_in_org j) f ts' = ts'"
  using assms
  by (intro update_rows_id) (auto simp: closes_def leased_attempt_in_org_def leased_attempt_def)

lemma fail_extraction_target_queue:
  assumes "fail_extraction_target d job c now = Inr d'"
  shows "jobs d' = update_rows (same_job job) (dead_letter_row now c extraction_target_failed_message) (jobs d)"
    "attempts d' = (if j_status job = J_RUNNING \<and> truthy (j_leaseId job)
       then update_rows (leased_attempt_in_org job)
              (close_attempt_row J_DEAD_LETTER now c extraction_target_failed_message) (attempts d)
       else attempts d)"
proof -
  let ?ts = "\<lambda>d. if j_status job = J_RUNNING \<and> truthy (j_leaseId job)
       then update_rows (leased_attempt_in_org job)
              (close_attempt_row J_DEAD_LETTER now c extraction_target_failed_message) (attempts d)
       else attempts d"
  obtain d1 where d1: "(case job_pipeline_key job of None \<Rightarrow> Inr d
       | Some key \<Rightarrow> map_sum id snd (project_lifecycle d key (Extraction_attention c) (Some now))) = Inr d1"
    using assms unfolding fail_extraction_target_def by (rule and_then_InrE)
  then have f: "jobs d1 = jobs d" "attempts d1 = attempts d"
    by (auto simp: map_sum_Inr_iff frame_simps split: option.splits)
  show "jobs d' = update_rows (same_job job) (dead_letter_row now c extraction_target_failed_message) (jobs d)"
    "attempts d' = ?ts d"
    using assms d1
    by (auto simp: fail_extraction_target_def and_then_Inr_iff Let_def update_one_Inr_iff f split: if_splits)
qed

lemma fail_extraction_target_refines:
  assumes ok: "queue_ok (jobs d, ts)" and job: "job \<in> set (jobs d)"
    and st: "j_status job \<in> {J_QUEUED, J_RETRYING, J_RUNNING}"
    and closed: "attempts d = ts \<or> closes job ts (attempts d)"
    and run: "fail_extraction_target d job c now = Inr d'"
  shows "queue_step now (jobs d, ts) (queue_of d')"
proof -
  note q = fail_extraction_target_queue [OF run]
  have "closes job ts (attempts d')"
    using closed
  proof
    assume eq: "attempts d = ts"
    show ?thesis
    proof (cases "j_status job = J_RUNNING")
      case True
      then show ?thesis
        using q(2) running_truthy_lease [OF ok job] closes_leased_in_org [OF ok job] eq by simp
    next
      case False
      then show ?thesis using q(2) closes_idle [OF ok job] eq by simp
    qed
  next
    assume "closes job ts (attempts d)"
    then show ?thesis using q(2) closes_twice_in_org by simp
  qed
  with queue_step.dead_letter [OF job st this] q(1) show ?thesis by (simp add: queue_of_def)
qed

section \<open>Claim\<close>

lemma expired_later: "expired q x \<Longrightarrow> q \<le> now \<Longrightarrow> expired now x"
  by (cases x) auto

lemma claim_candidate_later: "claim_candidate q j \<Longrightarrow> q \<le> now \<Longrightarrow> claim_candidate now j"
  by (auto simp: claim_candidate_def elim!: expired_later)

lemma claim_extraction_targetE:
  assumes "claim_extraction_target env w ttl now job d = Inr (r, d')"
  obtains (invalid) d1 where "fail_extraction_target d1 job ''extraction_target_invalid'' now = Inr d'"
      "jobs d1 = jobs d" "attempts d1 = attempts d" "r = Claim_skip"
  | (claimed) p g d1 where "parse_extraction_payload (j_payload job) = Some p"
      "authoritative_extraction_target d job p = Some g"
      "project_lifecycle d (target_authority_key job g) Extraction_claim (Some now) = Inr (True, d1)"
      "open_job_lease env w ttl now job d1 = Inr d'"
      "r = Claimed (make_extraction_lease env w (now + ttl) job p g)"
proof (cases "Option.bind (parse_extraction_payload (j_payload job))
             (\<lambda>p. map_option (\<lambda>g. (p, g)) (authoritative_extraction_target d job p))")
  case None
  with assms show thesis
    by (intro invalid [of d]) (auto simp: claim_extraction_target_def map_sum_Inr_iff)
next
  case (Some pg)
  obtain p g where pg: "pg = (p, g)" by (cases pg)
  with Some have t: "parse_extraction_payload (j_payload job) = Some p"
    "authoritative_extraction_target d job p = Some g"
    by (auto simp: Option.bind_eq_Some_conv)
  from assms Some pg obtain okp d1 where
    pr: "project_lifecycle d (target_authority_key job g) Extraction_claim (Some now) = Inr (okp, d1)"
    and rest: "(if \<not> okp then skip_with (fail_extraction_target d1 job ''extraction_target_invalid'' now)
            else map_sum id
                   (\<lambda>d2. (Claimed (make_extraction_lease env w (now + ttl) job p g), d2))
                   (open_job_lease env w ttl now job d1)) = Inr (r, d')"
    by (auto simp: claim_extraction_target_def and_then_Inr_iff)
  show thesis
  proof (cases okp)
    case True
    with pr rest t show thesis by (intro claimed) (auto simp: map_sum_Inr_iff)
  next
    case False
    with rest project_queue [OF pr] show thesis by (intro invalid [of d1]) (auto simp: map_sum_Inr_iff)
  qed
qed

lemma claim_extraction_target_refines:
  assumes ok: "queue_ok (jobs d, ts)" and job: "job \<in> set (jobs d)"
    and cand: "claim_candidate now job" "j_attempts job < j_maxAttempts job"
    and cl: "closes job ts (attempts d)"
    and pos: "0 < ttl" "ce_leaseId env \<noteq> []"
    and run: "claim_extraction_target env w ttl now job d = Inr (r, d')"
  shows "queue_step now (jobs d, ts) (queue_of d')"
  using run
proof (cases rule: claim_extraction_targetE)
  case (invalid d1)
  with fail_extraction_target_refines [of d1 ts job] ok job claim_candidate_status [OF cand(1)] cl
  show ?thesis by simp
next
  case (claimed p g d1)
  note f = project_queue [OF claimed(3)]
  with open_job_lease_refines [of d1 ts job now ttl env w d'] ok job cand cl pos claimed(4)
  show ?thesis by simp
qed

lemma close_expired_extraction_queue [simp]:
  "jobs (close_expired_extraction job s now d) = jobs d"
  "attempts (close_expired_extraction job s now d) =
     update_rows (leased_attempt_in_org job)
       (close_attempt_row s now ''worker_lease_expired'' extraction_expired_message) (attempts d)"
  by (simp_all add: close_expired_extraction_def)

lemma extraction_candidateD:
  "extraction_candidate pv e now j \<Longrightarrow> claim_candidate now j \<and> j_type j = TEXT_EXTRACTION"
  by (simp add: extraction_candidate_def)

lemma claim_extraction_refines:
  assumes ok: "queue_ok (queue_of d)" and pos: "0 < ttl" "ce_leaseId env \<noteq> []" and mono: "q \<le> now"
    and run: "claim_extraction_tx env w pv e ttl q now d = Inr (r, d')"
  shows "(queue_step now)\<^sup>*\<^sup>* (queue_of d) (queue_of d')"
proof (cases "select_candidate env (extraction_candidate pv e q) (jobs d)")
  case None
  with run show ?thesis by (simp add: claim_extraction_tx_def)
next
  case (Some job)
  then have job: "job \<in> set (jobs d)" and "claim_candidate q job"
    by (auto dest!: select_candidateD extraction_candidateD)
  from claim_candidate_later [OF this(2) mono] have cand: "claim_candidate now job" .
  note st = claim_candidate_status [OF cand]
  from ok have ok': "queue_ok (jobs d, attempts d)" by (simp add: queue_of_def)
  note tru = running_truthy_lease [OF ok' job]
  let ?closed = "\<lambda>s. close_expired_extraction job s now d"
  have cl: "closes job (attempts d) (attempts (?closed s))" if "s \<noteq> J_RUNNING" for s
    using closes_leased_in_org [OF ok' job that] by simp
  consider (budget) "j_status job \<noteq> J_RUNNING" "j_attempts job \<ge> j_maxAttempts job"
    | (fresh) "j_status job \<noteq> J_RUNNING" "j_attempts job < j_maxAttempts job"
    | (live) "j_status job = J_RUNNING" "\<not> expired now (j_leaseExpiresAt job)"
    | (spent) "j_status job = J_RUNNING" "expired now (j_leaseExpiresAt job)"
        "j_attempts job \<ge> j_maxAttempts job"
    | (reap) "j_status job = J_RUNNING" "expired now (j_leaseExpiresAt job)"
        "j_attempts job < j_maxAttempts job"
    by linarith
  then have "queue_step now (queue_of d) (queue_of d') \<or> d' = d"
  proof cases
    case budget
    with run Some have "fail_extraction_target d job ''extraction_attempt_budget_exhausted'' now = Inr d'"
      by (auto simp: claim_extraction_tx_def map_sum_Inr_iff)
    with fail_extraction_target_refines [OF ok' job st] show ?thesis by (simp add: queue_of_def)
  next
    case fresh
    with run Some have "claim_extraction_target env w ttl now job d = Inr (r, d')"
      by (simp add: claim_extraction_tx_def)
    with claim_extraction_target_refines [OF ok' job cand fresh(2) closes_idle [OF ok' job fresh(1)] pos]
    show ?thesis by (simp add: queue_of_def)
  next
    case live
    with run Some show ?thesis by (simp add: claim_extraction_tx_def)
  next
    case spent
    with run Some tru have "fail_extraction_target (?closed J_DEAD_LETTER) job
        ''worker_lease_expired'' now = Inr d'"
      by (auto simp: claim_extraction_tx_def map_sum_Inr_iff)
    with fail_extraction_target_refines [of "?closed J_DEAD_LETTER" "attempts d" job] ok' job st cl
    show ?thesis by (simp add: queue_of_def)
  next
    case reap
    with run Some tru have "claim_extraction_target env w ttl now job (?closed J_FAILED) = Inr (r, d')"
      by (simp add: claim_extraction_tx_def)
    from claim_extraction_target_refines [OF _ _ cand reap(3) _ pos this, of "attempts d"] ok' job cl
    show ?thesis by (simp add: queue_of_def)
  qed
  then show ?thesis by auto
qed

section \<open>Heartbeat and held leases\<close>

lemma heartbeat_extraction_refines:
  assumes "queue_ok (queue_of d)" "heartbeat_extraction l ttl clock db_now d = Inr (r, d')"
    "require_clock_override clock = Inr ov"
  shows "(queue_step (authoritative_now db_now ov))\<^sup>*\<^sup>* (queue_of d) (queue_of d')"
proof -
  let ?now = "authoritative_now db_now ov"
  from assms(2,3) obtain t where t: "require_lease_ttl extraction_ttl_message
      (or_default ttl (NInt extraction_default_ttl_ms)) = Inr t"
    and d': "d' = d\<lparr>jobs := update_rows (holds_extraction_lease l ?now)
               (\<lambda>j. j\<lparr>j_leaseExpiresAt := Some (?now + t)\<rparr>) (jobs d)\<rparr>"
    by (auto simp: heartbeat_extraction_def and_then_Inr_iff Let_def)
  have "(queue_step ?now)\<^sup>*\<^sup>* (jobs d, attempts d)
      (update_rows (holds_extraction_lease l ?now) (\<lambda>j. j\<lparr>j_leaseExpiresAt := Some (?now + t)\<rparr>) (jobs d),
       attempts d)"
    using assms(1) require_lease_ttl_pos [OF t]
    by (intro heartbeat_refines [where i = "xl_jobId l"])
      (auto simp: queue_of_def holds_extraction_lease_def job_key_def lease_live_def)
  then show ?thesis by (simp add: d' queue_of_def)
qed

lemma extraction_heldD:
  assumes "extraction_held d l now job"
  obtains t where "lease_live now job" "extraction_lease_current l now job" "t \<in> set (attempts d)"
    "attempt_key (xl_organizationId l) (xl_jobAttemptId l) t"
    "attempt_current (xl_jobId l) (xl_attemptNumber l) (xl_leaseId l) (xl_workerId l) t"
  using assms
  by (auto simp: extraction_held_def extraction_attempt_current_def extraction_lease_current_def
      lease_live_def split: option.splits dest!: find_SomeD)

lemma running_attempt_of_iff:
  assumes ok: "queue_ok (js, ts)" and t: "t \<in> set ts"
    "attempt_key (xl_organizationId l) (xl_jobAttemptId l) t"
    "attempt_current (xl_jobId l) n (xl_leaseId l) (xl_workerId l) t" and x: "x \<in> set ts"
  shows "running_attempt_of l x \<longleftrightarrow> x = t"
  using attempt_key_unique [OF ok t(1,2) x] t(2,3)
  by (auto simp: running_attempt_of_def attempt_key_def attempt_current_def)

lemma running_attempt_of_job:
  assumes ok: "queue_ok (js, ts)" and t: "t \<in> set ts"
    "attempt_key (xl_organizationId l) (xl_jobAttemptId l) t"
    "attempt_current (xl_jobId l) n (xl_leaseId l) (xl_workerId l) t" and x: "x \<in> set ts"
  shows "running_attempt_of l x \<longleftrightarrow> t_jobId x = xl_jobId l \<and> t_status x = J_RUNNING"
  using running_attempt_of_iff [OF ok t x] queue_ok_one_running [OF ok t(1) x] t(3)
  by (auto simp: attempt_current_def)

section \<open>Deferral\<close>

lemma defer_extractionE:
  assumes "defer_extraction l clock db_now d = Inr (res, d')"
  obtains (lost) ov where "require_clock_override clock = Inr ov" "res = Defer_lease_lost" "d' = d"
  | (applied) ov now job d1 where "require_clock_override clock = Inr ov"
      "now = authoritative_now db_now ov"
      "List.find (job_key (xl_organizationId l) (xl_jobId l)) (jobs d) = Some job"
      "extraction_held d l now job" "1 \<le> j_attempts job"
      "project_lifecycle d (extraction_authority_key l) Extraction_retry (Some now) = Inr (True, d1)"
      "apply_deferral l now job d1 = Inr d'" "res = Deferred"
proof -
  from assms obtain ov where ov: "require_clock_override clock = Inr ov"
    by (auto simp: defer_extraction_def and_then_Inr_iff)
  let ?now = "authoritative_now db_now ov"
  show thesis
  proof (cases "List.find (job_key (xl_organizationId l) (xl_jobId l)) (jobs d)")
    case None
    with assms ov lost show thesis by (auto simp: defer_extraction_def Let_def)
  next
    case (Some job)
    show thesis
    proof (cases "extraction_held d l ?now job \<and> 1 \<le> j_attempts job")
      case False
      with assms ov Some show thesis by (intro lost) (auto simp: defer_extraction_def Let_def)
    next
      case True
      with assms ov Some obtain okp d1 where
        pr: "project_lifecycle d (extraction_authority_key l) Extraction_retry (Some ?now) = Inr (okp, d1)"
        and rest: "(if \<not> okp then Inr (Defer_lease_lost, d1)
           else map_sum id (\<lambda>d2. (Deferred, d2)) (apply_deferral l ?now job d1)) = Inr (res, d')"
        by (auto simp: defer_extraction_def Let_def and_then_Inr_iff)
      show thesis
      proof (cases okp)
        case okp: True
        show thesis
          by (rule applied [OF ov refl Some]) (use True okp pr rest in \<open>auto simp: map_sum_Inr_iff\<close>)
      next
        case False
        with rest pr project_refused [of d _ _ ?now d1] ov show thesis by (intro lost) auto
      qed
    qed
  qed
qed

lemma apply_deferral_queue:
  assumes "apply_deferral l now job d = Inr d'"
  shows "jobs d' = update_rows (job_key (xl_organizationId l) (xl_jobId l))
           (defer_row now (j_attempts job)) (jobs d)"
    "attempts d' = delete_rows (running_attempt_of l) (attempts d)"
    "count_rows (running_attempt_of l) (attempts d) = 1"
  using assms by (auto simp: apply_deferral_def and_then_Inr_iff update_one_Inr_iff)

lemma defer_extraction_refines:
  assumes ok: "queue_ok (queue_of d)" and run: "defer_extraction l clock db_now d = Inr (res, d')"
    and ov: "require_clock_override clock = Inr ov"
  shows "(queue_step (authoritative_now db_now ov))\<^sup>*\<^sup>* (queue_of d) (queue_of d')"
  using run
proof (cases rule: defer_extractionE)
  case (applied ov' now job d1)
  note f = project_queue [OF applied(6)] and q = apply_deferral_queue [OF applied(7)]
  from ov applied(1,2) have now: "authoritative_now db_now ov = now" by simp
  from ok have ok': "queue_ok (jobs d, attempts d)" by (simp add: queue_of_def)
  from find_SomeD [OF applied(3)] have job: "job \<in> set (jobs d)"
    and key: "job_key (xl_organizationId l) (xl_jobId l) job" by auto
  from applied(4) obtain t where live: "lease_live now job" and t: "t \<in> set (attempts d)"
    "attempt_key (xl_organizationId l) (xl_jobAttemptId l) t"
    "attempt_current (xl_jobId l) (xl_attemptNumber l) (xl_leaseId l) (xl_workerId l) t"
    by (rule extraction_heldD)
  have "attempts d' = filter (\<lambda>t. \<not> (t_jobId t = j_id job \<and> t_status t = J_RUNNING)) (attempts d)"
    unfolding q(2) f delete_rows_def using key running_attempt_of_job [OF ok' t]
    by (intro filter_cong) (simp_all add: job_key_def)
  moreover have "jobs d' = update_rows (same_job job)
      (\<lambda>r. (retry_row (now + admission_retry_delay_ms) ''extraction_service_busy''
          ''The text extraction request was deferred before admission.'' r)
        \<lparr>j_attempts := j_attempts job - 1\<rparr>) (jobs d)"
    by (simp add: q(1) f same_job_key [OF key] defer_row_def [abs_def])
  moreover have "\<exists>t \<in> set (attempts d). t_jobId t = j_id job \<and> t_status t = J_RUNNING"
    using t key by (auto simp: attempt_current_def job_key_def)
  moreover have "now < now + admission_retry_delay_ms" by (simp add: admission_retry_delay_ms_def)
  ultimately show ?thesis
    using queue_step.deferral [OF job live applied(5)] by (simp add: now queue_of_def r_into_rtranclp)
qed simp

section \<open>Completion and failure\<close>

lemma complete_extraction_txE:
  assumes "complete_extraction_tx sha256 newId l a now d = Inr (res, d')"
  obtains (refused) "res = None" "d' = d"
  | (replayed) job f where "List.find (job_key (xl_organizationId l) (xl_jobId l)) (jobs d) = Some job"
      "j_status job = J_SUCCEEDED"
      "List.find (\<lambda>f. f_jobAttemptId f = xl_jobAttemptId l) (extractions d) = Some f"
      "res = replay_extraction sha256 d l a job f" "d' = d"
  | (applied) job d1 where "List.find (job_key (xl_organizationId l) (xl_jobId l)) (jobs d) = Some job"
      "List.find (\<lambda>f. f_jobAttemptId f = xl_jobAttemptId l) (extractions d) = None"
      "extraction_completion_allowed d l a now job"
      "project_lifecycle d (extraction_authority_key l) Extraction_ready (Some now) = Inr (True, d1)"
      "apply_extraction sha256 newId l a now d1 = Inr d'"
      "res = Some \<lparr>xr_outcome = Applied, xr_extractionId = newId,
                    xr_verdict = xa_verdict a, xr_chunkCount = xa_chunkCount a\<rparr>"
proof (cases "List.find (job_key (xl_organizationId l) (xl_jobId l)) (jobs d)")
  case None
  with assms refused show thesis by (auto simp: complete_extraction_tx_def)
next
  case (Some job)
  let ?f = "List.find (\<lambda>f. f_jobAttemptId f = xl_jobAttemptId l) (extractions d)"
  show thesis
  proof (cases ?f)
    case f: (Some f)
    show thesis
    proof (cases "j_status job = J_SUCCEEDED")
      case True
      with assms Some f show thesis
        by (intro replayed [of job f]) (auto simp: complete_extraction_tx_def)
    next
      case False
      with assms Some f show thesis by (intro refused) (auto simp: complete_extraction_tx_def)
    qed
  next
    case f: None
    show thesis
    proof (cases "extraction_completion_allowed d l a now job")
      case False
      with assms Some f show thesis by (intro refused) (auto simp: complete_extraction_tx_def)
    next
      case True
      with assms Some f obtain okp d1 where
        pr: "project_lifecycle d (extraction_authority_key l) Extraction_ready (Some now) = Inr (okp, d1)"
        and rest: "(if \<not> okp then Inr (None, d1)
          else map_sum id (\<lambda>d2. (Some \<lparr>xr_outcome = Applied, xr_extractionId = newId,
                              xr_verdict = xa_verdict a, xr_chunkCount = xa_chunkCount a\<rparr>, d2))
                      (apply_extraction sha256 newId l a now d1)) = Inr (res, d')"
        by (auto simp: complete_extraction_tx_def and_then_Inr_iff)
      show thesis
      proof (cases okp)
        case okp: True
        show thesis
          by (rule applied [OF Some f True]) (use okp pr rest in \<open>auto simp: map_sum_Inr_iff\<close>)
      next
        case False
        with rest pr project_refused [of d _ _ now d1] show thesis by (intro refused) auto
      qed
    qed
  qed
qed

lemma apply_extractionE:
  assumes "apply_extraction sha256 newId l a now d = Inr d'"
  shows "jobs d' = update_rows (job_key (xl_organizationId l) (xl_jobId l))
           (succeed_row now (extraction_job_result newId a)) (jobs d)"
    "attempts d' = update_rows (attempt_key (xl_organizationId l) (xl_jobAttemptId l))
           (succeed_attempt_row now (extraction_job_result newId a)) (attempts d)"
    "extractions d' = extractions d @ [extraction_row_of newId l a now]"
    "\<not> list_ex (extraction_clash (extraction_row_of newId l a now)) (extractions d)"
    "create_rows chunk_clash (map (chunk_row_of sha256 newId l) (xa_chunks a)) (chunks d) = Inr (chunks d')"
    "d' = d\<lparr>extractions := extractions d', chunks := chunks d', attempts := attempts d', jobs := jobs d',
            provenances := provenances d', audits := audits d'\<rparr>"
  using assms
  by (auto simp: apply_extraction_def and_then_Inr_iff update_one_Inr_iff create_row_Inr_iff)

lemma completion_allowed_held: "extraction_completion_allowed d l a now job \<Longrightarrow> extraction_held d l now job"
  by (simp add: extraction_completion_allowed_def)

lemma complete_extraction_refines:
  assumes ok: "queue_ok (queue_of d)" and run: "complete_extraction_tx sha256 newId l a now d = Inr (res, d')"
  shows "(queue_step now)\<^sup>*\<^sup>* (queue_of d) (queue_of d')"
  using run
proof (cases rule: complete_extraction_txE)
  case (applied job d1)
  note f = project_queue [OF applied(4)] and q = apply_extractionE(1,2) [OF applied(5)]
  from ok have ok': "queue_ok (jobs d, attempts d)" by (simp add: queue_of_def)
  from find_SomeD [OF applied(1)] have job: "job \<in> set (jobs d)"
    and key: "job_key (xl_organizationId l) (xl_jobId l) job" by auto
  from completion_allowed_held [OF applied(3)] obtain t where live: "lease_live now job"
    and t: "t \<in> set (attempts d)" "attempt_key (xl_organizationId l) (xl_jobAttemptId l) t"
    "attempt_current (xl_jobId l) (xl_attemptNumber l) (xl_leaseId l) (xl_workerId l) t"
    by (rule extraction_heldD)
  have "closes job (attempts d) (attempts d')"
    unfolding q f
    by (rule closes_named_attempt [OF ok' job t(1)])
      (use t key attempt_key_unique [OF ok' t(1,2)] in
        \<open>auto simp: job_key_def succeed_attempt_row_def\<close>)
  from queue_step.succeed [OF job live this] show ?thesis
    by (auto simp: queue_of_def q f same_job_key [OF key])
qed simp_all

lemma fail_extraction_txE:
  assumes "fail_extraction_tx l c retryable now d = Inr (res, d')"
  obtains (lost) "res = Lease_lost" "d' = d"
  | (applied) job d1 canRetry where
      "List.find (job_key (xl_organizationId l) (xl_jobId l)) (jobs d) = Some job"
      "extraction_held d l now job" "canRetry \<longleftrightarrow> retryable \<and> j_attempts job < j_maxAttempts job"
      "project_lifecycle d (extraction_authority_key l)
         (if canRetry then Extraction_retry else Extraction_attention (extraction_failure_code c))
         (Some now) = Inr (True, d1)"
      "apply_extraction_failure l c canRetry now job d1 = Inr (res, d')"
proof (cases "List.find (job_key (xl_organizationId l) (xl_jobId l)) (jobs d)")
  case None
  with assms lost show thesis by (auto simp: fail_extraction_tx_def)
next
  case (Some job)
  let ?retry = "retryable \<and> j_attempts job < j_maxAttempts job"
  let ?p = "if ?retry then Extraction_retry else Extraction_attention (extraction_failure_code c)"
  show thesis
  proof (cases "extraction_held d l now job")
    case True
    with assms Some obtain okp d1 where
      pr: "project_lifecycle d (extraction_authority_key l) ?p (Some now) = Inr (okp, d1)"
      and rest: "(if \<not> okp then Inr (Lease_lost, d1)
                  else apply_extraction_failure l c ?retry now job d1) = Inr (res, d')"
      by (auto simp: fail_extraction_tx_def Let_def and_then_Inr_iff)
    show thesis
    proof (cases okp)
      case okp: True
      show thesis by (rule applied [OF Some True refl]) (use okp pr rest in simp_all)
    next
      case False
      with rest pr project_refused [of d _ _ now d1] show thesis by (intro lost) auto
    qed
  next
    case False
    with assms Some show thesis by (intro lost) (simp_all add: fail_extraction_tx_def)
  qed
qed

lemma apply_extraction_failure_queue:
  assumes "apply_extraction_failure l c canRetry now job d = Inr (res, d')"
  shows "jobs d' = update_rows (job_key (xl_organizationId l) (xl_jobId l))
          (if canRetry
           then retry_row (now + retry_delay_ms (j_attempts job)) (extraction_failure_code c)
                  (extraction_failure_message c)
           else dead_letter_row now (extraction_failure_code c) (extraction_failure_message c))
          (jobs d)"
    "attempts d' = update_rows (running_attempt_of l)
                (close_attempt_row (if canRetry then J_FAILED else J_DEAD_LETTER) now
                   (extraction_failure_code c) (extraction_failure_message c)) (attempts d)"
    "res = (if canRetry then Retrying else Dead_letter)"
  using assms
  by (auto simp: apply_extraction_failure_def and_then_Inr_iff Let_def update_one_Inr_iff
      split: if_splits)

lemma fail_extraction_refines:
  assumes ok: "queue_ok (queue_of d)" and run: "fail_extraction_tx l c retryable now d = Inr (res, d')"
  shows "(queue_step now)\<^sup>*\<^sup>* (queue_of d) (queue_of d')"
  using run
proof (cases rule: fail_extraction_txE)
  case (applied job d1 canRetry)
  note f = project_queue [OF applied(4)] and q = apply_extraction_failure_queue [OF applied(5)]
  from ok have ok': "queue_ok (jobs d, attempts d)" by (simp add: queue_of_def)
  from find_SomeD [OF applied(1)] have job: "job \<in> set (jobs d)"
    and key: "job_key (xl_organizationId l) (xl_jobId l) job" by auto
  from applied(2) obtain t where live: "lease_live now job" and t: "t \<in> set (attempts d)"
    "attempt_key (xl_organizationId l) (xl_jobAttemptId l) t"
    "attempt_current (xl_jobId l) (xl_attemptNumber l) (xl_leaseId l) (xl_workerId l) t"
    by (rule extraction_heldD)
  have cl: "closes job (attempts d) (attempts d')"
    unfolding q f
    by (rule closes_named_attempt [OF ok' job t(1)])
      (use t key running_attempt_of_iff [OF ok' t] in \<open>auto simp: job_key_def close_attempt_row_def\<close>)
  have "queue_step now (jobs d, attempts d) (jobs d', attempts d')"
  proof (cases canRetry)
    case True
    have "now < now + retry_delay_ms (j_attempts job)"
      using retry_delay_bounds(1) [of "j_attempts job"] by simp
    with True applied(3) show ?thesis
      using queue_step.retry [OF job live _ _ cl] by (simp add: q f same_job_key [OF key])
  next
    case False
    then show ?thesis
      using queue_step.dead_letter [OF job _ cl] live
      by (simp add: q f same_job_key [OF key] lease_live_def)
  qed
  then show ?thesis by (auto simp: queue_of_def)
qed simp

lemma enqueue_extraction_steps:
  assumes "enqueue_extraction newId (Some now) x d = Inr (j, d')"
  shows "(queue_step clock)\<^sup>*\<^sup>* (queue_of d) (queue_of d')"
  using assms
proof (cases rule: enqueue_extractionE)
  case (created p r k t)
  then have "queue_step clock (jobs d, attempts d) (jobs d @ [j], attempts d)"
    by (intro queue_step.enqueue)
      (auto simp: new_extraction_job_def unlock_row_def extraction_max_attempts_def)
  with created show ?thesis by (auto simp: queue_of_def)
qed simp

section \<open>The extraction handlers keep the queue contract\<close>

text \<open>
  The events of the extraction worker; \<open>X_claim\<close> has the clock its query read and the one read
  after the row lock. \<open>nfc\<close> and \<open>sha256\<close> are the same for a whole run.
\<close>

datatype extraction_event =
    X_enqueue ident millis enqueue_extraction_input
  | X_claim claim_env string string string "jnum option" clock_override millis millis
  | X_heartbeat extraction_lease "jnum option" clock_override millis
  | X_defer extraction_lease clock_override millis
  | X_complete ident extraction_lease extraction_attestation clock_override millis
  | X_fail extraction_lease extraction_failure bool clock_override millis

definition run_extraction_claim ::
    "claim_env \<Rightarrow> string \<Rightarrow> string \<Rightarrow> string \<Rightarrow> jnum option \<Rightarrow> clock_override \<Rightarrow> millis \<Rightarrow> millis
      \<Rightarrow> db \<Rightarrow> extraction_lease claim_result tx" where
  "run_extraction_claim env w pv digest ttl clock q n d =
     and_then (claim_extraction_inputs w pv digest ttl clock) (\<lambda>(w', pv', t, ov).
       claim_extraction_tx env w' pv' digest t (authoritative_now q ov) (authoritative_now n ov) d)"

fun run_extraction ::
    "(string \<Rightarrow> string) \<Rightarrow> (string \<Rightarrow> string) \<Rightarrow> extraction_event \<Rightarrow> db \<Rightarrow> unit tx" where
  "run_extraction nfc sha256 (X_enqueue i now x) d =
     map_sum id (map_prod (\<lambda>_. ()) id) (enqueue_extraction i (Some now) x d)"
| "run_extraction nfc sha256 (X_claim env w pv digest ttl clock q n) d =
     map_sum id (map_prod (\<lambda>_. ()) id) (run_extraction_claim env w pv digest ttl clock q n d)"
| "run_extraction nfc sha256 (X_heartbeat l ttl clock n) d =
     map_sum id (map_prod (\<lambda>_. ()) id) (heartbeat_extraction l ttl clock n d)"
| "run_extraction nfc sha256 (X_defer l clock n) d =
     map_sum id (map_prod (\<lambda>_. ()) id) (defer_extraction l clock n d)"
| "run_extraction nfc sha256 (X_complete i l a clock n) d =
     map_sum id (map_prod (\<lambda>_. ()) id) (complete_extraction nfc sha256 i l a clock n d)"
| "run_extraction nfc sha256 (X_fail l c retryable clock n) d =
     map_sum id (map_prod (\<lambda>_. ()) id) (fail_extraction l c retryable clock n d)"

fun effective_clock :: "clock_override \<Rightarrow> millis \<Rightarrow> millis" where
  "effective_clock (Override (Some t)) n = t"
| "effective_clock _ n = n"

fun extraction_clock :: "extraction_event \<Rightarrow> millis" where
  "extraction_clock (X_enqueue i now x) = now"
| "extraction_clock (X_claim env w pv digest ttl clock q n) = effective_clock clock n"
| "extraction_clock (X_heartbeat l ttl clock n) = effective_clock clock n"
| "extraction_clock (X_defer l clock n) = effective_clock clock n"
| "extraction_clock (X_complete i l a clock n) = effective_clock clock n"
| "extraction_clock (X_fail l c retryable clock n) = effective_clock clock n"

fun extraction_admissible :: "extraction_event \<Rightarrow> bool" where
  "extraction_admissible (X_claim env w pv digest ttl clock q n) \<longleftrightarrow> ce_leaseId env \<noteq> [] \<and> q \<le> n"
| "extraction_admissible _ \<longleftrightarrow> True"

lemma effective_clock:
  "require_clock_override clock = Inr ov \<Longrightarrow> authoritative_now n ov = effective_clock clock n"
  by (cases "(clock, n)" rule: effective_clock.cases)
    (auto simp: authoritative_now_def)

lemma effective_clock_mono: "q \<le> n \<Longrightarrow> effective_clock clock q \<le> effective_clock clock n"
  by (cases "(clock, n)" rule: effective_clock.cases) auto

lemma claim_extraction_inputsD:
  assumes "claim_extraction_inputs w pv digest ttl clock = Inr (w', pv', t, ov)"
  shows "require_lease_ttl extraction_ttl_message (or_default ttl (NInt extraction_default_ttl_ms)) = Inr t"
    "require_clock_override clock = Inr ov"
  using assms by (auto simp: claim_extraction_inputs_def and_then_Inr_iff map_sum_Inr_iff)

lemma run_extraction_refines:
  assumes "extraction_admissible e" "queue_ok (queue_of d)" "run_extraction nfc sha256 e d = Inr (u, d')"
  shows "(queue_step (extraction_clock e))\<^sup>*\<^sup>* (queue_of d) (queue_of d')"
proof (cases e)
  case (X_enqueue i now x)
  with assms show ?thesis by (auto simp: map_sum_Inr_iff intro: enqueue_extraction_steps)
next
  case (X_claim env w pv digest ttl clock q n)
  with assms obtain w' pv' t ov r where
    i: "claim_extraction_inputs w pv digest ttl clock = Inr (w', pv', t, ov)"
    and c: "claim_extraction_tx env w' pv' digest t (authoritative_now q ov) (authoritative_now n ov) d
        = Inr (r, d')"
    by (auto simp: map_sum_Inr_iff run_extraction_claim_def and_then_Inr_iff)
  note t = claim_extraction_inputsD [OF i]
  from X_claim assms have "ce_leaseId env \<noteq> []" "effective_clock clock q \<le> effective_clock clock n"
    by (simp_all add: effective_clock_mono)
  from claim_extraction_refines [OF assms(2) _ this c [unfolded effective_clock [OF t(2)]]]
    require_lease_ttl_pos [OF t(1)] X_claim
  show ?thesis by simp
next
  case (X_heartbeat l ttl clock n)
  with assms obtain r where h: "heartbeat_extraction l ttl clock n d = Inr (r, d')"
    by (auto simp: map_sum_Inr_iff)
  then obtain ov where "require_clock_override clock = Inr ov"
    by (auto simp: heartbeat_extraction_def and_then_Inr_iff)
  from heartbeat_extraction_refines [OF assms(2) h this] effective_clock [OF this] X_heartbeat
  show ?thesis by simp
next
  case (X_defer l clock n)
  with assms obtain r where h: "defer_extraction l clock n d = Inr (r, d')"
    by (auto simp: map_sum_Inr_iff)
  then obtain ov where "require_clock_override clock = Inr ov"
    by (auto simp: defer_extraction_def and_then_Inr_iff)
  from defer_extraction_refines [OF assms(2) h this] effective_clock [OF this] X_defer
  show ?thesis by simp
next
  case (X_complete i l a clock n)
  with assms obtain r ov where ov: "require_clock_override clock = Inr ov"
    and c: "complete_extraction_tx sha256 i l a (authoritative_now n ov) d = Inr (r, d')"
    by (auto simp: map_sum_Inr_iff complete_extraction_def and_then_Inr_iff)
  from complete_extraction_refines [OF assms(2) c] effective_clock [OF ov] X_complete
  show ?thesis by simp
next
  case (X_fail l c retryable clock n)
  with assms obtain r ov where ov: "require_clock_override clock = Inr ov"
    and c: "fail_extraction_tx l c retryable (authoritative_now n ov) d = Inr (r, d')"
    by (auto simp: map_sum_Inr_iff fail_extraction_def and_then_Inr_iff)
  from fail_extraction_refines [OF assms(2) c] effective_clock [OF ov] X_fail
  show ?thesis by simp
qed

interpretation xq: leased_queue "run_extraction nfc sha256" extraction_clock extraction_admissible
  by unfold_locales (rule run_extraction_refines)

end
