(* ===== verification/Extraction_Effects.thy ===== *)
theory Extraction_Effects
  imports Extraction_Safety
begin

text \<open>
  What the extraction operations leave behind: the order and size of an accepted attestation's
  chunks, the lease a claim hands out, the deferral that undoes a claim, the rows of a completion
  and its replay, the inertness of stale leases, and the outcome of a failure.
\<close>

section \<open>The chunks of an accepted attestation\<close>

text \<open>Reading order of two positions (page, paragraph).\<close>

fun position_le :: "int \<times> int \<Rightarrow> int \<times> int \<Rightarrow> bool" where
  "position_le (p, q) (p', q') \<longleftrightarrow> p < p' \<or> (p = p' \<and> q \<le> q')"

definition chunk_at :: "extracted_chunk \<Rightarrow> int \<times> int \<Rightarrow> bool" where
  "chunk_at c pos \<longleftrightarrow>
     parse_paragraph_id (xc_paragraphId c) = Some pos \<and> xc_pageNumber c = NInt (fst pos)"

lemma position_le_trans: "position_le a b \<Longrightarrow> position_le b c \<Longrightarrow> position_le a c"
  by (cases a; cases b; cases c) auto

lemma assert_chunkE:
  assumes "assert_extraction_chunk nfc c index pageCount prev = Inr (bytes, pos)"
  obtains p q where "pos = (p, q)" "chunk_at c pos" "xc_sequence c = NInt index" "1 \<le> p" "p \<le> pageCount" "1 \<le> q"
    "fst prev \<le> p" "paragraph_follows prev p q" "bytes = utf8_bytes (xc_text c)"
    "canonical_text nfc (xc_text c)"
proof -
  from assms have seq: "xc_sequence c = NInt index" and ct: "canonical_text nfc (xc_text c)"
    and b: "bytes = utf8_bytes (xc_text c)"
    and cp: "chunk_position pageCount prev (xc_pageNumber c) (xc_paragraphId c) = Some pos"
    by (auto simp: assert_extraction_chunk_def and_then_Inr_iff split: option.splits)
  obtain p q where pos: "pos = (p, q)" by (cases pos)
  from cp [unfolded pos] show thesis
    by (rule chunk_positionE) (rule that [OF pos _ seq _ _ _ _ _ b ct], simp_all add: chunk_at_def pos)
qed

text \<open>
  Positions that start after \<open>prev\<close>: in reading order, on the pages of the document, and no
  paragraph number of a page is skipped.
\<close>

definition positions_ok :: "int \<Rightarrow> int \<times> int \<Rightarrow> (int \<times> int) list \<Rightarrow> bool" where
  "positions_ok pageCount prev ps \<longleftrightarrow>
     sorted_wrt position_le ps
     \<and> (\<forall>(p, q) \<in> set ps. 1 \<le> p \<and> p \<le> pageCount \<and> 1 \<le> q \<and> position_le prev (p, q)
          \<and> (q = 1 \<or> (p, q - 1) \<in> set ps \<or> (p = fst prev \<and> q \<le> snd prev + 1)))"

lemma positions_ok_Cons:
  assumes "positions_ok P (p, q) ps" "1 \<le> p" "p \<le> P" "1 \<le> q" "fst prev \<le> p" "paragraph_follows prev p q"
  shows "positions_ok P prev ((p, q) # ps)"
proof -
  obtain p0 q0 where prev: "prev = (p0, q0)" by (cases prev)
  have le: "position_le prev (p, q)"
    using assms(5,6) by (auto simp: prev paragraph_follows_def)
  have first: "q = 1 \<or> (p = fst prev \<and> q \<le> snd prev + 1)"
    using assms(6) by (auto simp: paragraph_follows_def)
  have "1 \<le> a \<and> a \<le> P \<and> 1 \<le> b \<and> position_le prev (a, b)
          \<and> (b = 1 \<or> (a, b - 1) \<in> set ((p, q) # ps) \<or> (a = fst prev \<and> b \<le> snd prev + 1))"
    if "(a, b) \<in> set ps" for a b
  proof -
    from assms(1) that have ab: "1 \<le> a" "a \<le> P" "1 \<le> b" "position_le (p, q) (a, b)"
      "b = 1 \<or> (a, b - 1) \<in> set ps \<or> (a = p \<and> b \<le> q + 1)"
      by (auto simp: positions_ok_def)
    have "b = 1 \<or> (a, b - 1) \<in> set ((p, q) # ps) \<or> (a = fst prev \<and> b \<le> snd prev + 1)"
    proof (cases "a = p \<and> b \<le> q + 1")
      case True
      with ab(4) consider "b = q + 1" | "b = q" by fastforce
      then show ?thesis using True first by cases auto
    next
      case False
      with ab(5) show ?thesis by auto
    qed
    with ab position_le_trans [OF le ab(4)] show ?thesis by blast
  qed
  moreover have "sorted_wrt position_le ((p, q) # ps)"
    using assms(1) by (auto simp: positions_ok_def)
  ultimately show ?thesis
    using assms(2-4) le first by (auto simp: positions_ok_def)
qed

lemma assert_chunksE:
  assumes "assert_extraction_chunks nfc P cs i prev m = Inr tot"
  obtains ps where "list_all2 chunk_at cs ps" "positions_ok P prev ps"
    "tot = m + sum_list (map (\<lambda>c. utf8_bytes (xc_text c)) cs)"
    "map xc_sequence cs = map (\<lambda>k. NInt (i + int k)) [0..<length cs]"
    "list_all (\<lambda>c. canonical_text nfc (xc_text c)) cs"
proof -
  from assms have "\<exists>ps. list_all2 chunk_at cs ps \<and> positions_ok P prev ps
    \<and> tot = m + sum_list (map (\<lambda>c. utf8_bytes (xc_text c)) cs)
    \<and> map xc_sequence cs = map (\<lambda>k. NInt (i + int k)) [0..<length cs]
    \<and> list_all (\<lambda>c. canonical_text nfc (xc_text c)) cs"
  proof (induction cs arbitrary: i prev m)
    case Nil
    then show ?case by (auto simp: positions_ok_def)
  next
    case (Cons c cs)
    from Cons.prems obtain bytes pos where
      c: "assert_extraction_chunk nfc c i P prev = Inr (bytes, pos)"
      and rest: "assert_extraction_chunks nfc P cs (i + 1) pos (m + bytes) = Inr tot"
      by (auto simp: and_then_Inr_iff)
    from c obtain p q where pos: "pos = (p, q)" and ca: "chunk_at c pos"
      and s: "xc_sequence c = NInt i" and pq: "1 \<le> p" "p \<le> P" "1 \<le> q" "fst prev \<le> p"
        "paragraph_follows prev p q" and b: "bytes = utf8_bytes (xc_text c)"
      and ct: "canonical_text nfc (xc_text c)"
      by (rule assert_chunkE)
    from Cons.IH [OF rest] obtain ps where ps: "list_all2 chunk_at cs ps" "positions_ok P pos ps"
      "tot = m + bytes + sum_list (map (\<lambda>c. utf8_bytes (xc_text c)) cs)"
      "map xc_sequence cs = map (\<lambda>k. NInt (i + 1 + int k)) [0..<length cs]"
      "list_all (\<lambda>c. canonical_text nfc (xc_text c)) cs" by blast
    have "map (\<lambda>k. NInt (i + int k)) [0..<length (c # cs)]
        = NInt i # map (\<lambda>k. NInt (i + 1 + int k)) [0..<length cs]"
      by (simp add: upt_conv_Cons map_Suc_upt [symmetric] add_ac del: upt_Suc)
    with ps ca s b ct positions_ok_Cons [OF ps(2) [unfolded pos] pq] pos show ?case
      by (intro exI [of _ "pos # ps"]) simp
  qed
  with that show thesis by blast
qed

lemma assert_attestation_chunks:
  assumes "assert_extraction_attestation nfc a = Inr u"
  obtains ps where "list_all2 chunk_at (xa_chunks a) ps" "positions_ok (num_val (xa_pageCount a)) (0, 0) ps"
    "xa_textBytes a = NInt (sum_list (map (\<lambda>c. utf8_bytes (xc_text c)) (xa_chunks a)))"
    "map xc_sequence (xa_chunks a) = map (\<lambda>k. NInt (int k)) [0..<length (xa_chunks a)]"
    "list_all (\<lambda>c. canonical_text nfc (xc_text c)) (xa_chunks a)"
    "extraction_header_ok a"
proof -
  from assms obtain tot where h: "extraction_header_ok a"
    and c: "assert_extraction_chunks nfc (num_val (xa_pageCount a)) (xa_chunks a) 0 (0, 0) 0 = Inr tot"
    and t: "NInt tot = xa_textBytes a"
    by (auto simp: assert_extraction_attestation_def and_then_Inr_iff)
  from c show thesis
    by (rule assert_chunksE) (rule that, use h t in simp_all)
qed

section \<open>The target through a projection\<close>

lemma authoritative_targetD:
  assumes "authoritative_extraction_target d job p = Some g"
  obtains key vj vt where "job_pipeline_key job = Some key"
    "List.find (document_key (j_org job) (ak_documentId key)) (documents d) = Some (xt_document g)"
    "List.find (asset_key (j_org job) (ak_assetId key)) (assets d) = Some (xt_asset g)"
    "original_of d (j_org job) (ak_documentId key) (ak_assetId key) \<noteq> None"
    "List.find (\<lambda>v. v_org v = j_org job \<and> v_id v = ep_validationAttestationId p) (attestations d)
       = Some (xt_validation g)"
    "receipt_of d key (ak_ingestReceiptId key) = Some (xt_receipt g)"
    "extraction_intake_of d key = Some (xt_intake g)"
    "List.find (job_key (j_org job) (v_jobId (xt_validation g))) (jobs d) = Some vj"
    "List.find (attempt_key (j_org job) (v_jobAttemptId (xt_validation g))) (attempts d) = Some vt"
    "v_pageCount (xt_validation g) = Some (xt_pageCount g)"
    "v_ingestReceiptId (xt_validation g) = r_id (xt_receipt g)"
    "v_storageVersion (xt_validation g) = ep_storageVersion p"
    "current_accepted_validation (xt_validation g) vj vt (xt_document g) (xt_asset g) False"
  using assms
  by (auto simp: authoritative_extraction_target_def Option.bind_eq_Some_conv split: if_splits)

text \<open>
  The target stays the same but for its intake row when the tables it is read from do, and the
  validation's job and attempt are still found.
\<close>

lemma authoritative_target_stable:
  assumes g: "authoritative_extraction_target d job p = Some g"
    and key: "job_pipeline_key job' = job_pipeline_key job" "j_org job' = j_org job"
    and same: "documents d' = documents d" "assets d' = assets d" "document_assets d' = document_assets d"
      "attestations d' = attestations d" "receipts d' = receipts d"
    and intake: "\<And>key. job_pipeline_key job = Some key \<Longrightarrow>
      \<exists>k. extraction_intake_of d' key = Some k \<and> k_id k = ak_intakeId key"
    and vj: "\<And>i j. List.find (job_key (j_org job) i) (jobs d) = Some j \<Longrightarrow> j_type j = DOCUMENT_VALIDATE
      \<Longrightarrow> List.find (job_key (j_org job) i) (jobs d') = Some j"
    and vt: "\<And>i t. List.find (attempt_key (j_org job) i) (attempts d) = Some t \<Longrightarrow> t_status t = J_SUCCEEDED
      \<Longrightarrow> List.find (attempt_key (j_org job) i) (attempts d') = Some t"
  shows "\<exists>k. authoritative_extraction_target d' job' p = Some (g\<lparr>xt_intake := k\<rparr>) \<and> k_id k = k_id (xt_intake g)"
  using g
proof (rule authoritative_targetD)
  fix key j t
  assume *: "job_pipeline_key job = Some key"
    "List.find (document_key (j_org job) (ak_documentId key)) (documents d) = Some (xt_document g)"
    "List.find (asset_key (j_org job) (ak_assetId key)) (assets d) = Some (xt_asset g)"
    "original_of d (j_org job) (ak_documentId key) (ak_assetId key) \<noteq> None"
    "List.find (\<lambda>v. v_org v = j_org job \<and> v_id v = ep_validationAttestationId p) (attestations d)
       = Some (xt_validation g)"
    "receipt_of d key (ak_ingestReceiptId key) = Some (xt_receipt g)"
    "extraction_intake_of d key = Some (xt_intake g)"
    "List.find (job_key (j_org job) (v_jobId (xt_validation g))) (jobs d) = Some j"
    "List.find (attempt_key (j_org job) (v_jobAttemptId (xt_validation g))) (attempts d) = Some t"
    "v_pageCount (xt_validation g) = Some (xt_pageCount g)"
    "v_ingestReceiptId (xt_validation g) = r_id (xt_receipt g)"
    "v_storageVersion (xt_validation g) = ep_storageVersion p"
    "current_accepted_validation (xt_validation g) j t (xt_document g) (xt_asset g) False"
  from *(13) have st: "j_type j = DOCUMENT_VALIDATE" "t_status t = J_SUCCEEDED"
    by (simp_all add: current_accepted_validation_def attestation_is_current_def)
  from intake [OF *(1)] obtain k where k: "extraction_intake_of d' key = Some k" "k_id k = ak_intakeId key"
    by blast
  from *(7) have "k_id (xt_intake g) = ak_intakeId key"
    by (auto simp: extraction_intake_of_def keyed_intake_def dest: find_SomeD)
  moreover from *(4) obtain oa where "original_of d' (j_org job) (ak_documentId key) (ak_assetId key) = Some oa"
    by (auto simp: original_of_def same)
  moreover from *(6) have "receipt_of d' key (ak_ingestReceiptId key) = Some (xt_receipt g)"
    by (simp add: receipt_of_def same)
  ultimately show ?thesis
    using *(1-3,5,10-13) k vj [OF *(8) st(1)] vt [OF *(9) st(2)]
    by (intro exI [of _ k]) (simp add: authoritative_extraction_target_def key same)
qed

lemma project_intake_found:
  assumes pr: "project_lifecycle d key p (Some t) = Inr (True, d')" and w: "desired_lifecycle p = Inr w"
    and st: "w_intakeStatus w \<in> {EXTRACTING, ATTENTION, READY}"
  shows "\<exists>k. extraction_intake_of d' key = Some k \<and> k_id k = ak_intakeId key"
proof -
  have first: "List.find (\<lambda>k. P k \<and> Q k) xs = Some k"
    if "List.find P xs = Some k" "Q k" for P Q and k :: intake and xs
    using that by (induction xs) (auto split: if_splits)
  from project_agrees [OF pr w] obtain k where k: "List.find (keyed_intake key) (intakes d') = Some k"
    "k_status k = w_intakeStatus w"
    by (auto simp: lifecycle_agrees_def split: option.splits)
  then have "extraction_intake_of d' key = Some k"
    unfolding extraction_intake_of_def using st by (intro first) simp_all
  with find_SomeD [OF k(1)] show ?thesis by (auto simp: keyed_intake_def)
qed

lemma find_key_update_other:
  assumes "List.find (job_key org i) js = Some j" "\<And>x. j_id (f x) = j_id x \<and> j_org (f x) = j_org x"
    and "\<not> job_key o1 i1 j"
  shows "List.find (job_key org i) (update_rows (job_key o1 i1) f js) = Some j"
proof -
  have "List.find (job_key org i) (update_rows (job_key o1 i1) f js)
    = map_option (\<lambda>r. if job_key o1 i1 r then f r else r) (List.find (job_key org i) js)"
    using assms(2) by (intro find_update_rows) (simp add: job_key_def)
  with assms(1,3) show ?thesis by simp
qed

lemma find_attempt_update_other:
  assumes "List.find (attempt_key org i) ts = Some t" "\<And>x. t_id (f x) = t_id x \<and> t_org (f x) = t_org x"
    and "\<not> attempt_key o1 i1 t"
  shows "List.find (attempt_key org i) (update_rows (attempt_key o1 i1) f ts) = Some t"
proof -
  have "List.find (attempt_key org i) (update_rows (attempt_key o1 i1) f ts)
    = map_option (\<lambda>r. if attempt_key o1 i1 r then f r else r) (List.find (attempt_key org i) ts)"
    using assms(2) by (intro find_update_rows) (simp add: attempt_key_def)
  with assms(1,3) show ?thesis by simp
qed

section \<open>What a claim hands out\<close>

definition extraction_claim_base :: "db \<Rightarrow> millis \<Rightarrow> job \<Rightarrow> db" where
  "extraction_claim_base d now job =
     (if j_status job = J_RUNNING then close_expired_extraction job J_FAILED now d else d)"

lemma extraction_claim_base_jobs [simp]: "jobs (extraction_claim_base d now job) = jobs d"
  by (simp add: extraction_claim_base_def)

lemma claim_extraction_claimedE:
  assumes "claim_extraction_tx env w pv e ttl q now d = Inr (Claimed l, d')"
  obtains job p g d1 where "job \<in> set (jobs d)" "extraction_candidate pv e q job"
    "j_attempts job < j_maxAttempts job"
    "j_status job = J_RUNNING \<Longrightarrow> expired now (j_leaseExpiresAt job)"
    "parse_extraction_payload (j_payload job) = Some p"
    "authoritative_extraction_target (extraction_claim_base d now job) job p = Some g"
    "project_lifecycle (extraction_claim_base d now job) (target_authority_key job g) Extraction_claim (Some now)
       = Inr (True, d1)"
    "open_job_lease env w ttl now job d1 = Inr d'"
    "l = make_extraction_lease env w (now + ttl) job p g"
proof (cases "select_candidate env (extraction_candidate pv e q) (jobs d)")
  case None
  with assms show thesis by (simp add: claim_extraction_tx_def)
next
  case (Some job)
  with assms have job: "job \<in> set (jobs d)" "extraction_candidate pv e q job"
    and lt: "j_attempts job < j_maxAttempts job"
    and ex: "j_status job = J_RUNNING \<Longrightarrow> expired now (j_leaseExpiresAt job)"
    and tgt: "claim_extraction_target env w ttl now job (extraction_claim_base d now job) = Inr (Claimed l, d')"
    by (auto simp: claim_extraction_tx_def extraction_claim_base_def map_sum_Inr_iff
        dest!: select_candidateD split: if_splits)
  from tgt show thesis
    by (cases rule: claim_extraction_targetE) (auto intro: that [OF job lt ex])
qed

lemma target_authority_key_eq:
  assumes "authoritative_extraction_target d job p = Some g"
  shows "job_pipeline_key job = Some (target_authority_key job g)"
  using assms
proof (rule authoritative_targetD)
  fix key vj vt
  assume *: "job_pipeline_key job = Some key"
    "List.find (document_key (j_org job) (ak_documentId key)) (documents d) = Some (xt_document g)"
    "List.find (asset_key (j_org job) (ak_assetId key)) (assets d) = Some (xt_asset g)"
    "receipt_of d key (ak_ingestReceiptId key) = Some (xt_receipt g)"
    "extraction_intake_of d key = Some (xt_intake g)"
  have "k_id (xt_intake g) = ak_intakeId key"
    using find_SomeD [OF *(5) [unfolded extraction_intake_of_def]] by (simp add: keyed_intake_def)
  with *(1) find_SomeD [OF *(2)] find_SomeD [OF *(3)] receipt_ofD(1) [OF *(4)] job_pipeline_keyD(5) [OF *(1)]
  show ?thesis by (cases key) (simp add: target_authority_key_def document_key_def asset_key_def)
qed

lemma target_validation_id:
  assumes "authoritative_extraction_target d job p = Some g"
  shows "v_id (xt_validation g) = ep_validationAttestationId p"
  using assms by (rule authoritative_targetD) (auto dest: find_SomeD)

text \<open>
  The lease a claim returns passes \<open>extraction_completion_allowed\<close> with an attestation of its input,
  until it expires: the guards of a completion on the lease, the attestation and the target.
\<close>

lemma claimed_extraction_completes:
  assumes ok: "queue_ok (queue_of d)"
    and run: "claim_extraction_tx env w pv e ttl q now d = Inr (Claimed l, d')"
    and t: "t < xl_leaseExpiresAt l" and att: "attestation_for_extraction l att"
  shows "\<exists>job. List.find (job_key (xl_organizationId l) (xl_jobId l)) (jobs d') = Some job
           \<and> extraction_completion_allowed d' l att t job"
  using run
proof (rule claim_extraction_claimedE)
  fix job p g d1
  let ?b = "extraction_claim_base d now job"
  assume job: "job \<in> set (jobs d)" "extraction_candidate pv e q job"
    and p: "parse_extraction_payload (j_payload job) = Some p"
    and g: "authoritative_extraction_target ?b job p = Some g"
    and pr: "project_lifecycle ?b (target_authority_key job g) Extraction_claim (Some now) = Inr (True, d1)"
    and op: "open_job_lease env w ttl now job d1 = Inr d'"
    and l: "l = make_extraction_lease env w (now + ttl) job p g"
  note o1 = open_job_lease_queue [OF op]
  note f = outside_sameD [OF project_outside_same [OF pr]]
  note key = target_authority_key_eq [OF g] and k = job_pipeline_keyD [OF target_authority_key_eq [OF g]]
  have d': "documents d' = documents ?b" "assets d' = assets ?b" "document_assets d' = document_assets ?b"
    "attestations d' = attestations ?b" "receipts d' = receipts ?b" "intakes d' = intakes d1"
    by (subst o1(4), simp add: f)+
  let ?row = "claim_row now w (ce_leaseId env) (now + ttl) (j_attempts job + 1) job"
  let ?t = "open_attempt job now w (ce_attemptId env) (ce_leaseId env) (j_attempts job + 1)"
  have dist: "distinct (map j_id (jobs d))" using ok by (simp add: queue_of_def)
  have row: "List.find (same_job job) (jobs d') = Some ?row"
    unfolding o1(1) using find_same_job [OF dist job(1)]
    by (intro find_update_same) (simp_all add: f job_key_def)
  have "List.find (attempt_key (j_org job) (ce_attemptId env)) (attempts d1) = None"
    using o1(3) by (auto simp: find_None_iff attempt_key_def)
  then have att_row: "List.find (attempt_key (j_org job) (ce_attemptId env)) (attempts d') = Some ?t"
    unfolding o1(2) by (simp add: find_append attempt_key_def open_attempt_def)
  have ty: "j_type job = TEXT_EXTRACTION" using job(2) by (simp add: extraction_candidate_def)
  have "\<exists>k. authoritative_extraction_target d' ?row p = Some (g\<lparr>xt_intake := k\<rparr>)
      \<and> k_id k = k_id (xt_intake g)"
  proof (rule authoritative_target_stable [OF g _ _ d'(1-5)])
    show "\<exists>k. extraction_intake_of d' key' = Some k \<and> k_id k = ak_intakeId key'"
      if "job_pipeline_key job = Some key'" for key'
      using that key project_intake_found [OF pr desired_lifecycle.simps(4)]
      by (simp add: desired_extraction_def extraction_intake_of_def d'(6))
    show "List.find (job_key (j_org job) i) (jobs d') = Some j"
      if "List.find (job_key (j_org job) i) (jobs ?b) = Some j" "j_type j = DOCUMENT_VALIDATE" for i j
    proof -
      have "\<not> same_job job j"
        using that find_SomeD [OF that(1)] same_job_unique [OF dist job(1), of j] ty by auto
      with that show ?thesis
        unfolding o1(1) f by (intro find_key_update_other) simp_all
    qed
    show "List.find (attempt_key (j_org job) i) (attempts d') = Some t'"
      if "List.find (attempt_key (j_org job) i) (attempts ?b) = Some t'" for i t'
      using that by (simp add: o1(2) f find_append)
  qed (simp_all add: pipeline_key_rows)
  then obtain k where tgt: "authoritative_extraction_target d' ?row p = Some (g\<lparr>xt_intake := k\<rparr>)"
    and kid: "k_id k = k_id (xt_intake g)" by blast
  have held: "extraction_held d' l t ?row"
    using t k p ty att_row target_validation_id [OF g]
    by (simp add: extraction_held_def extraction_lease_current_def payload_for_lease_def
        extraction_attempt_current_def attempt_current_def l make_extraction_lease_def claim_row_def
        open_attempt_def target_authority_key_def)
  have "job_extraction_target d' ?row = Some (g\<lparr>xt_intake := k\<rparr>)"
    using p tgt by (simp add: job_extraction_target_def claim_row_def)
  with held att kid have "extraction_completion_allowed d' l att t ?row"
    by (simp add: extraction_completion_allowed_def target_for_lease_def l make_extraction_lease_def)
  with row show ?thesis by (auto simp: l make_extraction_lease_def)
qed

section \<open>A deferral undoes its claim\<close>

lemma update_rows_twice:
  assumes "\<And>x. P (f x) = P x"
  shows "update_rows P g (update_rows P f rs) = update_rows P (\<lambda>x. g (f x)) rs"
  using assms by (simp add: update_rows_def)

text \<open>The row of a deferred job: retried soon, with the attempts it had before the claim.\<close>

definition deferred_row :: "millis \<Rightarrow> job \<Rightarrow> job" where
  "deferred_row now =
     retry_row (now + admission_retry_delay_ms) ''extraction_service_busy''
       ''The text extraction request was deferred before admission.''"

lemma defer_undoes_claim:
  assumes ok: "queue_ok (queue_of d)"
    and run: "claim_extraction_tx env w pv e ttl q now d = Inr (Claimed l, d1)"
    and df: "defer_extraction l clock db_now d1 = Inr (Deferred, d2)"
  shows "\<exists>job \<in> set (jobs d). j_id job = xl_jobId l
     \<and> jobs d2 = update_rows (same_job job) (deferred_row (effective_clock clock db_now)) (jobs d)
     \<and> attempts d2 = attempts (extraction_claim_base d now job)"
  using run
proof (rule claim_extraction_claimedE)
  fix job p g d0
  let ?b = "extraction_claim_base d now job"
  assume job: "job \<in> set (jobs d)"
    and pr: "project_lifecycle ?b (target_authority_key job g) Extraction_claim (Some now) = Inr (True, d0)"
    and op: "open_job_lease env w ttl now job d0 = Inr d1"
    and l: "l = make_extraction_lease env w (now + ttl) job p g"
  note o1 = open_job_lease_queue [OF op] and f0 = project_queue [OF pr]
  have id: "xl_organizationId l = j_org job" "xl_jobId l = j_id job" "xl_jobAttemptId l = ce_attemptId env"
    "xl_leaseId l = ce_leaseId env" "xl_workerId l = w"
    by (simp_all add: l make_extraction_lease_def)
  have dist: "distinct (map j_id (jobs d))" using ok by (simp add: queue_of_def)
  let ?row = "claim_row now w (ce_leaseId env) (now + ttl) (j_attempts job + 1) job"
  let ?t = "open_attempt job now w (ce_attemptId env) (ce_leaseId env) (j_attempts job + 1)"
  have row: "List.find (same_job job) (jobs d1) = Some ?row"
    unfolding o1(1) using find_same_job [OF dist job]
    by (intro find_update_same) (simp_all add: f0 job_key_def)
  from df show ?thesis
  proof (cases rule: defer_extractionE)
    case (applied ov t job1 d1')
    note f = project_queue [OF applied(6)] and q = apply_deferral_queue [OF applied(7)]
    have t: "t = effective_clock clock db_now" using applied(1,2) by (simp add: effective_clock)
    have job1: "job1 = ?row" using applied(3) row id by simp
    have "delete_rows (running_attempt_of l) (attempts d0 @ [?t]) = attempts d0"
      using o1(3) by (auto simp: delete_rows_def filter_id_conv running_attempt_of_def id open_attempt_def)
    then have "attempts d2 = attempts ?b" by (simp add: q(2) f o1(2) f0)
    moreover have "jobs d2 = update_rows (same_job job) (deferred_row t) (jobs d)"
    proof -
      have "jobs d2 = update_rows (same_job job) (\<lambda>x. defer_row t (j_attempts job + 1)
          (claim_row now w (ce_leaseId env) (now + ttl) (j_attempts job + 1) x)) (jobs d)"
        by (simp add: q(1) f o1(1) f0 id job1 update_rows_twice job_key_def)
      also have "\<dots> = update_rows (same_job job) (deferred_row t) (jobs d)"
        unfolding update_same_job [OF dist job]
        by (simp add: defer_row_def deferred_row_def job_rows)
      finally show ?thesis .
    qed
    ultimately show ?thesis using job id t by auto
  qed simp
qed

section \<open>What a completion writes\<close>

lemma create_rows_append: "create_rows clash ns rs = Inr rs' \<Longrightarrow> rs' = rs @ ns"
proof (induction ns arbitrary: rs)
  case (Cons n ns)
  then show ?case using Cons.IH [of "rs @ [n]"] by (simp add: and_then_Inr_iff create_row_Inr_iff)
qed simp

text \<open>The foreign key of the chunk table: a chunk belongs to a stored extraction.\<close>

definition chunks_owned :: "db \<Rightarrow> bool" where
  "chunks_owned d \<longleftrightarrow>
     list_all (\<lambda>h. \<forall>i. h_extractionId h = Some i \<longrightarrow> i \<in> f_id ` set (extractions d)) (chunks d)"

lemma sort_key_sorted: "sorted (map f xs) \<Longrightarrow> sort_key f xs = xs"
  by (induction xs) (auto simp: insort_is_Cons)

lemma stored_chunks_of_completion:
  assumes ap: "apply_extraction sha256 newId l a now d = Inr d'" and own: "chunks_owned d"
    and seq: "map xc_sequence (xa_chunks a) = map (\<lambda>k. NInt (int k)) [0..<length (xa_chunks a)]"
  shows "stored_chunks d' (extraction_row_of newId l a now) = map (chunk_row_of sha256 newId l) (xa_chunks a)"
proof -
  note e = apply_extractionE [OF ap]
  let ?new = "map (chunk_row_of sha256 newId l) (xa_chunks a)"
  have ch: "chunks d' = chunks d @ ?new" by (rule create_rows_append [OF e(5)])
  have "newId \<notin> f_id ` set (extractions d)"
    using e(4) by (auto simp: list_ex_iff extraction_clash_def extraction_row_of_def)
  then have "filter (\<lambda>h. h_org h = xl_organizationId l \<and> h_documentId h = xl_documentId l
                  \<and> h_extractionId h = Some newId) (chunks d) = []"
    using own by (auto simp: filter_empty_conv chunks_owned_def list_all_iff)
  moreover have "filter (\<lambda>h. h_org h = xl_organizationId l \<and> h_documentId h = xl_documentId l
                  \<and> h_extractionId h = Some newId) ?new = ?new"
    by (auto simp: filter_id_conv chunk_row_of_def)
  moreover have "map (\<lambda>h. num_val (h_sequence h)) ?new = map int [0..<length (xa_chunks a)]"
  proof -
    have "map (\<lambda>h. num_val (h_sequence h)) ?new = map num_val (map xc_sequence (xa_chunks a))"
      by (simp add: chunk_row_of_def)
    then show ?thesis by (simp add: seq)
  qed
  then have "sorted (map (\<lambda>h. num_val (h_sequence h)) ?new)"
    by (simp add: sorted_map sorted_wrt_upt sorted_wrt_map)
  ultimately show ?thesis
    by (simp add: stored_chunks_def ch extraction_row_of_def sort_key_sorted del: map_map)
qed

lemma stored_chunk_matches: "chunk_matches sha256 (chunk_row_of sha256 i l c) c"
  by (simp add: chunk_matches_def chunk_row_of_def locator_matches_def chunk_locator_def field_def
      obj_keys_def)

lemma extraction_header_dates:
  assumes "extraction_header_ok a"
  obtains e c where "xa_extractedAt a = Some e" "xa_completedAt a = Some c" "e \<le> c"
  using assms by (cases "xa_extractedAt a"; cases "xa_completedAt a") (auto simp: extraction_header_ok_def)

lemma stored_extraction_matches:
  assumes "extraction_header_ok a" "hs = map (chunk_row_of sha256 i l) (xa_chunks a)"
  shows "extraction_matches sha256 (extraction_row_of i l a now) hs a"
proof -
  from assms(1) obtain e c where "xa_extractedAt a = Some e" "xa_completedAt a = Some c"
    by (rule extraction_header_dates)
  moreover have "result_matches (JObj (extraction_result a)) a"
    by (simp add: result_matches_def extraction_result_def field_def)
  moreover have "list_all2 (chunk_matches sha256) hs (xa_chunks a)"
    by (simp add: assms(2) list_all2_conv_all_nth stored_chunk_matches)
  ultimately show ?thesis by (simp add: extraction_matches_def extraction_row_of_def)
qed

lemma complete_extraction_appliedE:
  assumes "complete_extraction_tx sha256 newId l a now d = Inr (Some r, d')" "xr_outcome r = Applied"
  obtains job d1 where
    "List.find (job_key (xl_organizationId l) (xl_jobId l)) (jobs d) = Some job"
    "extraction_completion_allowed d l a now job"
    "project_lifecycle d (extraction_authority_key l) Extraction_ready (Some now) = Inr (True, d1)"
    "apply_extraction sha256 newId l a now d1 = Inr d'"
    "r = \<lparr>xr_outcome = Applied, xr_extractionId = newId, xr_verdict = xa_verdict a,
          xr_chunkCount = xa_chunkCount a\<rparr>"
    "List.find (\<lambda>f. f_jobAttemptId f = xl_jobAttemptId l) (extractions d) = None"
  using assms(1)
proof (cases rule: complete_extraction_txE)
  case (replayed job f)
  with assms(2) show thesis by (auto simp: replay_extraction_def split: if_splits)
qed (auto intro: that)

text \<open>The lifecycle tables are not touched after the projection.\<close>

lemma apply_extraction_lifecycle:
  assumes "apply_extraction sha256 newId l a now d = Inr d'"
  shows "lifecycle_agrees d' key w = lifecycle_agrees d key w"
  by (intro lifecycle_agrees_cong) (subst apply_extractionE(6) [OF assms], simp)+

lemma extraction_completion_effects:
  assumes att: "assert_extraction_attestation nfc a = Inr u" and own: "chunks_owned d"
    and run: "complete_extraction_tx sha256 newId l a now d = Inr (Some r, d')" "xr_outcome r = Applied"
  shows "\<exists>job. List.find (job_key (xl_organizationId l) (xl_jobId l)) (jobs d')
           = Some (succeed_row now (extraction_job_result newId a) job)
     \<and> extractions d' = extractions d @ [extraction_row_of newId l a now]
     \<and> stored_chunks d' (extraction_row_of newId l a now) = map (chunk_row_of sha256 newId l) (xa_chunks a)
     \<and> extraction_matches sha256 (extraction_row_of newId l a now)
         (stored_chunks d' (extraction_row_of newId l a now)) a
     \<and> lifecycle_agrees d' (extraction_authority_key l) desired_ready"
  using run
proof (rule complete_extraction_appliedE)
  fix job d1
  assume job: "List.find (job_key (xl_organizationId l) (xl_jobId l)) (jobs d) = Some job"
    and pr: "project_lifecycle d (extraction_authority_key l) Extraction_ready (Some now) = Inr (True, d1)"
    and ap: "apply_extraction sha256 newId l a now d1 = Inr d'"
  note e = apply_extractionE [OF ap] and f = outside_sameD [OF project_outside_same [OF pr]]
  from att obtain ps where
    seq: "map xc_sequence (xa_chunks a) = map (\<lambda>k. NInt (int k)) [0..<length (xa_chunks a)]"
    and h: "extraction_header_ok a"
    by (rule assert_attestation_chunks)
  from own have own1: "chunks_owned d1" by (simp add: chunks_owned_def f)
  note st = stored_chunks_of_completion [OF ap own1 seq]
  have "List.find (job_key (xl_organizationId l) (xl_jobId l)) (jobs d')
      = Some (succeed_row now (extraction_job_result newId a) job)"
    unfolding e(1) using job by (intro find_update_same) (simp_all add: f job_key_def)
  moreover have "lifecycle_agrees d' (extraction_authority_key l) desired_ready"
    using project_agrees [OF pr desired_lifecycle.simps(7)] apply_extraction_lifecycle [OF ap] by simp
  ultimately show ?thesis
    using e(3) st stored_extraction_matches [OF h st] by (auto simp: f)
qed

section \<open>Replay of a completion\<close>

text \<open>
  The database admits a stored extraction by inserting its sealed admission (a trigger, outside
  the source): the database after a completion with that row.
\<close>

definition admitted :: "db \<Rightarrow> manifest_admission \<Rightarrow> db" where
  "admitted d m = d\<lparr>admissions := m # admissions d\<rparr>"

text \<open>
  The authoritative target a completion found stays after it, with the intake in its new state: what
  a replay and the reader's authority look up again.
\<close>

lemma completed_target:
  assumes run: "complete_extraction_tx sha256 newId l a now d = Inr (Some r, d')" "xr_outcome r = Applied"
  obtains job p g k where
    "List.find (job_key (xl_organizationId l) (xl_jobId l)) (jobs d) = Some job"
    "extraction_completion_allowed d l a now job"
    "List.find (job_key (xl_organizationId l) (xl_jobId l)) (jobs d')
      = Some (succeed_row now (extraction_job_result newId a) job)"
    "parse_extraction_payload (j_payload job) = Some p"
    "authoritative_extraction_target d job p = Some g" "target_for_lease l g"
    "authoritative_extraction_target (admitted d' m) (succeed_row now (extraction_job_result newId a) job) p
      = Some (g\<lparr>xt_intake := k\<rparr>)"
    "k_id k = k_id (xt_intake g)"
  using run
proof (rule complete_extraction_appliedE)
  fix job d1
  let ?d = "admitted d' m" and ?job = "succeed_row now (extraction_job_result newId a) job"
  assume job: "List.find (job_key (xl_organizationId l) (xl_jobId l)) (jobs d) = Some job"
    and al: "extraction_completion_allowed d l a now job"
    and pr: "project_lifecycle d (extraction_authority_key l) Extraction_ready (Some now) = Inr (True, d1)"
    and ap: "apply_extraction sha256 newId l a now d1 = Inr d'"
  note e = apply_extractionE [OF ap] and f = outside_sameD [OF project_outside_same [OF pr]]
  have row: "List.find (job_key (xl_organizationId l) (xl_jobId l)) (jobs d') = Some ?job"
    unfolding e(1) using job by (intro find_update_same) (simp_all add: f job_key_def)
  from find_SomeD [OF job] have key: "job_key (xl_organizationId l) (xl_jobId l) job" by simp
  from al have cur: "extraction_lease_current l now job" and held: "extraction_attempt_current d l"
    by (simp_all add: extraction_completion_allowed_def extraction_held_def)
  from al obtain p g where p: "parse_extraction_payload (j_payload job) = Some p"
    and g: "authoritative_extraction_target d job p = Some g" and tl: "target_for_lease l g"
    by (auto simp: extraction_completion_allowed_def job_extraction_target_def bind_eq_Some_conv
        split: option.splits)
  have akey: "job_pipeline_key job = Some (extraction_authority_key l)"
    using target_authority_key_eq [OF g] cur key tl job_pipeline_keyD [OF target_authority_key_eq [OF g]]
    by (simp add: extraction_authority_key_def target_authority_key_def extraction_lease_current_def
        job_key_def)
  have "\<exists>k. authoritative_extraction_target ?d ?job p = Some (g\<lparr>xt_intake := k\<rparr>)
      \<and> k_id k = k_id (xt_intake g)"
  proof (rule authoritative_target_stable [OF g])
    have d': "d' = d1\<lparr>extractions := extractions d', chunks := chunks d', attempts := attempts d',
        jobs := jobs d', provenances := provenances d', audits := audits d'\<rparr>" by (rule e(6))
    show "documents ?d = documents d" "assets ?d = assets d" "document_assets ?d = document_assets d"
      "attestations ?d = attestations d" "receipts ?d = receipts d"
      by (simp add: admitted_def, subst d', simp add: f)+
    have ik: "intakes d' = intakes d1" by (subst d') simp
    show "\<exists>k. extraction_intake_of ?d key' = Some k \<and> k_id k = ak_intakeId key'"
      if "job_pipeline_key job = Some key'" for key'
      using that akey project_intake_found [OF pr desired_lifecycle.simps(7)]
      by (simp add: desired_ready_def extraction_intake_of_def admitted_def ik)
    show "List.find (job_key (j_org job) i) (jobs ?d) = Some j"
      if "List.find (job_key (j_org job) i) (jobs d) = Some j" "j_type j = DOCUMENT_VALIDATE" for i j
    proof -
      have "\<not> job_key (xl_organizationId l) (xl_jobId l) j"
      proof
        assume k: "job_key (xl_organizationId l) (xl_jobId l) j"
        with find_SomeD [OF that(1)] key have "i = xl_jobId l" "j_org job = xl_organizationId l"
          by (auto simp: job_key_def)
        with that(1) job have "j = job" by simp
        with that(2) cur show False by (simp add: extraction_lease_current_def)
      qed
      with that show ?thesis
        by (simp add: admitted_def e(1) f find_key_update_other)
    qed
    show "List.find (attempt_key (j_org job) i) (attempts ?d) = Some t"
      if "List.find (attempt_key (j_org job) i) (attempts d) = Some t" "t_status t = J_SUCCEEDED" for i t
    proof -
      have "\<not> attempt_key (xl_organizationId l) (xl_jobAttemptId l) t"
      proof
        assume k: "attempt_key (xl_organizationId l) (xl_jobAttemptId l) t"
        with find_SomeD [OF that(1)] key have "i = xl_jobAttemptId l" "j_org job = xl_organizationId l"
          by (auto simp: attempt_key_def job_key_def)
        with that held show False
          by (simp add: extraction_attempt_current_def attempt_current_def)
      qed
      with that show ?thesis
        by (simp add: admitted_def e(2) f find_attempt_update_other succeed_attempt_row_def)
    qed
  qed (simp_all add: pipeline_key_rows)
  with that [OF job al row p g tl] show thesis by blast
qed

lemma extraction_replay:
  assumes att: "assert_extraction_attestation nfc a = Inr u" and own: "chunks_owned d"
    and run: "complete_extraction_tx sha256 newId l a now d = Inr (Some r, d')" "xr_outcome r = Applied"
    and seal: "admission_seals m (extraction_row_of newId l a now)"
  shows "complete_extraction_tx sha256 newId' l a now' (admitted d' m)
    = Inr (Some (r\<lparr>xr_outcome := Replayed\<rparr>), admitted d' m)"
proof -
  let ?d = "admitted d' m" and ?f = "extraction_row_of newId l a now"
  from run have none: "List.find (\<lambda>f. f_jobAttemptId f = xl_jobAttemptId l) (extractions d) = None"
    and r: "r = \<lparr>xr_outcome = Applied, xr_extractionId = newId, xr_verdict = xa_verdict a,
          xr_chunkCount = xa_chunkCount a\<rparr>"
    by (rule complete_extraction_appliedE, simp)+
  from extraction_completion_effects [OF att own run] have
    m: "extraction_matches sha256 ?f (stored_chunks d' ?f) a"
    and fs: "extractions d' = extractions d @ [?f]" by blast+
  have ex: "List.find (\<lambda>f. f_jobAttemptId f = xl_jobAttemptId l) (extractions d') = Some ?f"
    using none by (simp add: fs find_append extraction_row_of_def)
  from run obtain job p g k where
    al: "extraction_completion_allowed d l a now job"
    and row: "List.find (job_key (xl_organizationId l) (xl_jobId l)) (jobs d')
        = Some (succeed_row now (extraction_job_result newId a) job)"
    and p: "parse_extraction_payload (j_payload job) = Some p" and tl: "target_for_lease l g"
    and tgt: "authoritative_extraction_target ?d (succeed_row now (extraction_job_result newId a) job) p
      = Some (g\<lparr>xt_intake := k\<rparr>)" and kid: "k_id k = k_id (xt_intake g)"
    by (rule completed_target [where m = m])
  let ?job = "succeed_row now (extraction_job_result newId a) job"
  from al have cur: "extraction_lease_current l now job"
    by (simp add: extraction_completion_allowed_def extraction_held_def)
  have tgt: "job_extraction_target ?d ?job = Some (g\<lparr>xt_intake := k\<rparr>)"
    using p tgt by (simp add: job_extraction_target_def job_rows)
  have adm: "admission_of ?d ?f = Some m"
    using seal by (simp add: admission_of_def admitted_def admission_seals_def)
  have "stored_chunks ?d ?f = stored_chunks d' ?f" by (simp add: stored_chunks_def admitted_def)
  then have "replay_extraction sha256 ?d l a ?job ?f = Some (r\<lparr>xr_outcome := Replayed\<rparr>)"
    using m tgt kid tl cur adm seal r
    by (simp add: replay_extraction_def target_for_lease_def extraction_row_of_def
        extraction_lease_current_def job_rows)
  with row ex show ?thesis
    by (simp add: complete_extraction_tx_def admitted_def job_rows)
qed

section \<open>Stale leases\<close>

definition extraction_lease_stale :: "db \<Rightarrow> extraction_lease \<Rightarrow> millis \<Rightarrow> bool" where
  "extraction_lease_stale d l now \<longleftrightarrow>
     list_all (\<lambda>j. \<not> (job_key (xl_organizationId l) (xl_jobId l) j \<and> j_status j = J_RUNNING
        \<and> j_leaseId j = Some (xl_leaseId l) \<and> j_lockedBy j = Some (xl_workerId l)
        \<and> \<not> expired now (j_leaseExpiresAt j))) (jobs d)"

lemma stale_not_held:
  assumes "extraction_lease_stale d l now" "List.find (job_key (xl_organizationId l) (xl_jobId l)) (jobs d) = Some j"
  shows "\<not> extraction_held d l now j"
  using find_SomeD [OF assms(2)] assms(1)
  by (auto simp: extraction_lease_stale_def list_all_iff extraction_held_def extraction_lease_current_def)

lemma heartbeat_extraction_stale:
  assumes "extraction_lease_stale d l (effective_clock clock n)"
    "heartbeat_extraction l ttl clock n d = Inr (r, d')"
  shows "\<not> r \<and> d' = d"
proof -
  let ?now = "effective_clock clock n"
  have none: "\<not> holds_extraction_lease l ?now j" if "j \<in> set (jobs d)" for j
    using assms(1) that by (auto simp: extraction_lease_stale_def list_all_iff holds_extraction_lease_def)
  then have "filter (holds_extraction_lease l ?now) (jobs d) = []" by (simp add: filter_empty_conv)
  moreover have "update_rows (holds_extraction_lease l ?now) f (jobs d) = jobs d" for f
    using none by (intro update_rows_id) blast
  ultimately show ?thesis
    using assms(2)
    by (auto simp: heartbeat_extraction_def and_then_Inr_iff count_rows_def Let_def effective_clock)
qed

lemma defer_extraction_stale:
  assumes "extraction_lease_stale d l (effective_clock clock n)"
    "defer_extraction l clock n d = Inr (r, d')"
  shows "r = Defer_lease_lost \<and> d' = d"
  using assms(2)
proof (cases rule: defer_extractionE)
  case (applied ov now job d1)
  with stale_not_held [OF assms(1)] show ?thesis by (simp add: effective_clock)
qed simp

lemma complete_extraction_stale:
  assumes "extraction_lease_stale d l now" "complete_extraction_tx sha256 newId l a now d = Inr (r, d')"
  shows "d' = d \<and> (\<forall>x. r = Some x \<longrightarrow> xr_outcome x = Replayed)"
  using assms(2)
proof (cases rule: complete_extraction_txE)
  case (replayed job f)
  then show ?thesis by (auto simp: replay_extraction_def split: if_splits)
next
  case (applied job d1)
  with stale_not_held [OF assms(1)] completion_allowed_held show ?thesis by blast
qed simp

lemma fail_extraction_stale:
  assumes "extraction_lease_stale d l now" "fail_extraction_tx l c retryable now d = Inr (r, d')"
  shows "r = Lease_lost \<and> d' = d"
  using assms(2)
proof (cases rule: fail_extraction_txE)
  case (applied job d1 canRetry)
  with stale_not_held [OF assms(1)] show ?thesis by blast
qed simp

section \<open>Failure\<close>

lemma extraction_failure_effects:
  assumes "fail_extraction_tx l c retryable now d = Inr (res, d')" "res \<noteq> Lease_lost"
  shows "\<exists>job row w. List.find (job_key (xl_organizationId l) (xl_jobId l)) (jobs d) = Some job
     \<and> List.find (job_key (xl_organizationId l) (xl_jobId l)) (jobs d') = Some row
     \<and> j_attempts row = j_attempts job \<and> j_leaseId row = None \<and> j_leaseExpiresAt row = None
     \<and> j_lastErrorCode row = Some (extraction_failure_code c)
     \<and> lifecycle_agrees d' (extraction_authority_key l) w
     \<and> (if retryable \<and> j_attempts job < j_maxAttempts job
        then res = Retrying \<and> j_status row = J_RETRYING \<and> j_completedAt row = None
          \<and> now + 5000 \<le> j_runAfter row \<and> j_runAfter row \<le> now + 900000
          \<and> w_intakeStatus w = EXTRACTING
        else res = Dead_letter \<and> j_status row = J_DEAD_LETTER \<and> j_completedAt row = Some now
          \<and> w_intakeStatus w = ATTENTION \<and> w_failureCode w = Some (extraction_failure_code c))"
  using assms(1)
proof (cases rule: fail_extraction_txE)
  case lost
  with assms(2) show ?thesis by simp
next
  case (applied job d1 canRetry)
  note q = apply_extraction_failure_queue [OF applied(5)] and f = project_queue [OF applied(4)]
  let ?g = "if canRetry
           then retry_row (now + retry_delay_ms (j_attempts job)) (extraction_failure_code c)
                  (extraction_failure_message c)
           else dead_letter_row now (extraction_failure_code c) (extraction_failure_message c)"
  have row: "List.find (job_key (xl_organizationId l) (xl_jobId l)) (jobs d') = Some (?g job)"
    unfolding q(1) using applied(1) by (intro find_update_same) (auto simp: f job_key_def)
  from applied(4) obtain w where w: "desired_lifecycle (if canRetry then Extraction_retry
      else Extraction_attention (extraction_failure_code c)) = Inr w"
    by (cases rule: project_lifecycleE) auto
  have "bounded_failure_code (extraction_failure_code c) = Inr x \<Longrightarrow> x = extraction_failure_code c" for x
    by (auto simp: bounded_failure_code_def split: if_splits)
  with w have st: "w_intakeStatus w = (if canRetry then EXTRACTING else ATTENTION)"
    "\<not> canRetry \<Longrightarrow> w_failureCode w = Some (extraction_failure_code c)"
    by (auto simp: desired_extraction_def desired_attention_def map_sum_Inr_iff split: if_splits)
  have "lifecycle_agrees d' (extraction_authority_key l) w"
    using project_agrees [OF applied(4) w] applied(5)
    by (subst lifecycle_agrees_cong [of d' d1])
      (auto simp: apply_extraction_failure_def and_then_Inr_iff Let_def split: if_splits)
  with row st applied(1,3) q(3) retry_delay_bounds [of "j_attempts job"] show ?thesis
    by (intro exI [of _ job] exI [of _ "?g job"] exI [of _ w]) (auto simp: job_rows)
qed

end
