(* ===== verification/Validation_Liveness.thy ===== *)
theory Validation_Liveness
  imports Validation_Safety
begin

text \<open>
  Progress of the validation queue when every worker that takes a lease dies: the claim transactions
  of \<open>claimNextDocumentValidationJob\<close> alone settle every validation job. The measure is the work a job
  can still cause: its remaining attempts and the transaction that retires it.
\<close>

section \<open>The measure\<close>

definition job_budget :: "job \<Rightarrow> nat" where
  "job_budget j = (if settled j \<or> j_type j \<noteq> DOCUMENT_VALIDATE then 0
                   else Suc (nat (j_maxAttempts j - j_attempts j)))"

definition validation_backlog :: "db \<Rightarrow> nat" where
  "validation_backlog d = sum_list (map job_budget (jobs d))"

definition validations_settled :: "db \<Rightarrow> bool" where
  "validations_settled d = list_all (\<lambda>j. j_type j \<noteq> DOCUMENT_VALIDATE \<or> settled j) (jobs d)"

text \<open>Every validation job that is not settled may be claimed from time \<open>t\<close> on.\<close>

definition due_by :: "millis \<Rightarrow> db \<Rightarrow> bool" where
  "due_by t d = list_all (\<lambda>j. j_type j \<noteq> DOCUMENT_VALIDATE \<or> settled j
     \<or> (if j_status j = J_RUNNING then expired t (j_leaseExpiresAt j) else j_runAfter j \<le> t)) (jobs d)"

lemma backlog_zero: "validation_backlog d = 0 \<longleftrightarrow> validations_settled d"
  by (auto simp: validation_backlog_def validations_settled_def job_budget_def list_all_iff)

section \<open>What a claim transaction does to the jobs\<close>

lemma claim_validation_target_jobs:
  assumes "claim_validation_target env w ttl now job d = Inr (r, d')"
  shows "jobs d' = update_rows (same_job job)
      (claim_row now w (ce_leaseId env) (now + ttl) (j_attempts job + 1)) (jobs d)
    \<or> (\<exists>c. jobs d' = update_rows (same_job job) (dead_letter_row now c target_failed_message) (jobs d))"
proof (cases "validation_target d job")
  case None
  with assms have "fail_target_without_claim d job ''validation_target_invalid'' now = Inr d'"
    by (auto simp: claim_validation_target_def map_sum_Inr_iff)
  from fail_target_queue(1) [OF this] show ?thesis by blast
next
  case (Some tgt)
  obtain p key x a rc where tgt: "tgt = (p, key, x, a, rc)" by (cases tgt)
  with Some assms obtain okp d1 where pr: "project_lifecycle d key Validation_claim (Some now) = Inr (okp, d1)"
    and rest: "(if \<not> okp
          then skip_with (fail_target_without_claim d1 job ''validation_target_invalid'' now)
          else map_sum id
                 (\<lambda>d2. (Claimed (make_validation_lease env w (now + ttl) job p x a rc), d2))
                 (take_validation_lease env w ttl now job x a d1)) = Inr (r, d')"
    by (auto simp: claim_validation_target_def and_then_Inr_iff)
  note f = project_queue [OF pr]
  show ?thesis
  proof (cases okp)
    case False
    with rest have "fail_target_without_claim d1 job ''validation_target_invalid'' now = Inr d'"
      by (auto simp: map_sum_Inr_iff)
    from fail_target_queue(1) [OF this] f show ?thesis by auto
  next
    case True
    with rest have "take_validation_lease env w ttl now job x a d1 = Inr d'"
      by (auto simp: map_sum_Inr_iff)
    then obtain d2 where "open_job_lease env w ttl now job d1 = Inr d2" "jobs d' = jobs d2"
      by (rule take_validation_lease_queue)
    with open_job_lease_queue(1) f show ?thesis by simp
  qed
qed

lemma claim_validation_jobs:
  assumes ok: "queue_ok (queue_of d)" and run: "claim_validation_tx env w ttl now d = Inr (r, d')"
    and sel: "select_candidate env (validation_candidate now) (jobs d) = Some job"
  shows "(j_attempts job < j_maxAttempts job \<and> jobs d' = update_rows (same_job job)
        (claim_row now w (ce_leaseId env) (now + ttl) (j_attempts job + 1)) (jobs d))
    \<or> (\<exists>c. jobs d' = update_rows (same_job job) (dead_letter_row now c target_failed_message) (jobs d))"
proof -
  from sel have job: "job \<in> set (jobs d)" and cand: "claim_candidate now job"
    by (auto dest!: select_candidateD validation_candidateD)
  from ok have ok': "queue_ok (jobs d, attempts d)" by (simp add: queue_of_def)
  note tru = running_truthy_lease [OF ok' job]
  show ?thesis
  proof (cases "j_attempts job < j_maxAttempts job")
    case True
    let ?base = "if j_status job = J_RUNNING
      then reset_processing_document job (quarantine_scanning job
             (close_expired_attempt job J_FAILED validation_expired_message now d)) else d"
    have "claim_validation_target env w ttl now job ?base = Inr (r, d')"
      using run sel True tru cand
      by (simp add: claim_validation_tx_def claim_candidate_def split: if_splits)
    from claim_validation_target_jobs [OF this] True show ?thesis
      by (auto simp: close_expired_attempts split: if_splits)
  next
    case False
    have "\<exists>d1 c. jobs d1 = jobs d \<and> fail_target_without_claim d1 job c now = Inr d'"
      using run sel False tru cand
      by (intro exI [of _ "if j_status job = J_RUNNING
            then close_expired_attempt job J_DEAD_LETTER validation_expired_message now d else d"])
        (auto simp: claim_validation_tx_def claim_candidate_def map_sum_Inr_iff close_expired_attempts)
    then show ?thesis using fail_target_queue(1) by metis
  qed
qed

lemma sum_list_map_less:
  assumes "x \<in> set xs" "f x < (g x :: nat)" "\<And>y. y \<in> set xs \<Longrightarrow> f y \<le> g y"
  shows "sum_list (map f xs) < sum_list (map g xs)"
  using assms
proof (induction xs)
  case (Cons a xs)
  have "sum_list (map f xs) \<le> sum_list (map g xs)"
    by (rule sum_list_mono) (use Cons.prems(3) in simp)
  moreover have "f a \<le> g a" using Cons.prems(3) by simp
  ultimately show ?case
    using Cons.IH Cons.prems by (cases "x = a") (auto intro: add_less_le_mono add_le_less_mono)
qed simp

lemma backlog_update:
  assumes "queue_ok (queue_of d)" "job \<in> set (jobs d)"
    and "jobs d' = update_rows (same_job job) f (jobs d)" "job_budget (f job) < job_budget job"
  shows "validation_backlog d' < validation_backlog d"
proof -
  have "distinct (map j_id (jobs d))" using assms(1) by (simp add: queue_of_def)
  then have "jobs d' = map (\<lambda>x. if x = job then f job else x) (jobs d)"
    using assms(2,3) by (simp add: update_same_job)
  then have "validation_backlog d' = sum_list (map (\<lambda>x. job_budget (if x = job then f job else x)) (jobs d))"
    by (simp add: validation_backlog_def o_def)
  also have "\<dots> < validation_backlog d"
    unfolding validation_backlog_def by (rule sum_list_map_less [OF assms(2)]) (use assms(4) in auto)
  finally show ?thesis .
qed

lemma unsettled_candidate:
  assumes "queue_ok (queue_of d)" "due_by t d" "t \<le> now" "\<not> validations_settled d"
  shows "\<exists>j \<in> set (jobs d). validation_candidate now j"
proof -
  from assms(4) obtain j where j: "j \<in> set (jobs d)" "j_type j = DOCUMENT_VALIDATE" "\<not> settled j"
    by (auto simp: validations_settled_def list_all_iff)
  moreover have "if j_status j = J_RUNNING then expired t (j_leaseExpiresAt j) else j_runAfter j \<le> t"
    using assms(2) j by (auto simp: due_by_def list_all_iff)
  moreover have "expired t e \<Longrightarrow> expired now e" for e using assms(3) by (cases e) simp_all
  ultimately show ?thesis
    using assms(3) by (intro bexI [of _ j])
      (cases "j_status j"; auto simp: validation_candidate_def claim_candidate_def settled_def split: if_splits)
qed

text \<open>One claim transaction that finds work: the measure goes down, and what is left is due again after the lease.\<close>

lemma claim_validation_progress:
  assumes ok: "queue_ok (queue_of d)" and due: "due_by t d" and t: "t \<le> now" and ttl: "0 < ttl"
    and free: "\<And>i. \<not> ce_locked env i" and work: "\<not> validations_settled d"
    and run: "claim_validation_tx env w ttl now d = Inr (r, d')"
  shows "validation_backlog d' < validation_backlog d" "due_by (now + ttl) d'"
proof -
  obtain job where sel: "select_candidate env (validation_candidate now) (jobs d) = Some job"
    using unsettled_candidate [OF ok due t work] free
    by (cases "select_candidate env (validation_candidate now) (jobs d)") (auto simp: select_candidate_None)
  then have job: "job \<in> set (jobs d)" and cand: "validation_candidate now job"
    by (auto dest: select_candidateD)
  then have un: "\<not> settled job" "j_type job = DOCUMENT_VALIDATE"
    by (auto simp: validation_candidate_def settled_def claim_candidate_def)
  have later: "expired t e \<Longrightarrow> expired (now + ttl) e" for e using t ttl by (cases e) auto
  have due': "due_by (now + ttl) d'"
    if "jobs d' = update_rows (same_job job) f (jobs d)"
      "j_type (f job) = j_type job"
      "settled (f job) \<or> (j_status (f job) = J_RUNNING \<and> j_leaseExpiresAt (f job) = Some (now + ttl))" for f
    using that due t ttl later ok job
    by (auto simp: due_by_def list_all_iff queue_of_def update_same_job split: if_splits; fastforce)
  consider (claim) "j_attempts job < j_maxAttempts job" "jobs d' = update_rows (same_job job)
        (claim_row now w (ce_leaseId env) (now + ttl) (j_attempts job + 1)) (jobs d)"
    | (retire) c where "jobs d' = update_rows (same_job job) (dead_letter_row now c target_failed_message) (jobs d)"
    using claim_validation_jobs [OF ok run sel] by blast
  then have "validation_backlog d' < validation_backlog d \<and> due_by (now + ttl) d'"
  proof cases
    case claim
    then show ?thesis
      using backlog_update [OF ok job claim(2)] due' [OF claim(2)] un
      by (auto simp: job_budget_def claim_row_def settled_def)
  next
    case (retire c)
    then show ?thesis
      using backlog_update [OF ok job retire] due' [OF retire] un
      by (auto simp: job_budget_def dead_letter_row_def unlock_row_def settled_def)
  qed
  then show "validation_backlog d' < validation_backlog d" "due_by (now + ttl) d'" by simp_all
qed

section \<open>A claim transaction commits\<close>

text \<open>The primary keys of the tables other than jobs and attempts; the identifiers and leases of the attempts.\<close>

definition other_keys :: "db \<Rightarrow> ident list list" where
  "other_keys d =
     [map d_id (documents d), map a_id (assets d), map r_id (receipts d), map k_id (intakes d),
      map x_id (inbox d), map b_id (batches d), map c_id (zotero_imports d), map c_id (crawler_imports d),
      map v_id (attestations d), map f_id (extractions d)]"

definition attempt_leases :: "db \<Rightarrow> (ident \<times> ident option) list" where
  "attempt_leases d = map (\<lambda>t. (t_id t, t_leaseId t)) (attempts d)"

lemma keys_unique_iff:
  "keys_unique d \<longleftrightarrow> distinct (map j_id (jobs d)) \<and> distinct (map t_id (attempts d)) \<and> list_all distinct (other_keys d)"
  by (auto simp: keys_unique_def other_keys_def)

lemma project_keys:
  assumes "project_lifecycle d key p (Some t) = Inr (ok, d')"
  shows "other_keys d' = other_keys d" "attempt_leases d' = attempt_leases d"
proof -
  have "other_keys d' = other_keys d \<and> attempts d' = attempts d"
    using assms
  proof (cases rule: project_lifecycleE)
    case (applied w r k ib bt sb)
    from applied(4) obtain d1 d2 d3 where
      d1: "write_intake d key w t k = Inr d1" and d2: "write_source d1 key w t sb = Inr d2"
      and d3: "write_inbox d2 key p w k ib (binding_payload sb) = Inr d3" and d4: "write_batch d3 key w t bt = Inr d'"
      by (rule write_projectionE)
    have intakes: "map k_id (intakes d') = map k_id (intakes d)"
      using write_projection_intakes [OF applied(4)] by (simp add: map_update_rows intake_row_update_def)
    have "map c_id (update_rows P (command_row_update w t) cs) = map c_id cs" for P cs
      by (simp add: map_update_rows command_row_update_def)
    then have "map c_id (zotero_imports d2) = map c_id (zotero_imports d1)"
      "map c_id (crawler_imports d2) = map c_id (crawler_imports d1)"
      using d2 by (cases sb; auto simp: map_sum_Inr_iff update_command_def split: if_splits)+
    moreover have "map x_id (inbox d3) = map x_id (inbox d2)"
      using d3 by (auto simp: write_inbox_def map_update_rows inbox_row_update_def split: option.splits if_splits)
    moreover have "map b_id (batches d') = map b_id (batches d3)"
      using d4 by (auto simp: write_batch_def map_update_rows batch_row_update_def split: option.splits if_splits)
    ultimately show ?thesis
      using intakes write_intake_frame [OF d1] write_source_frame [OF d2] write_inbox_frame [OF d3]
        write_batch_frame [OF d4] outside_sameD [OF write_projection_frame [OF applied(4)]]
      by (simp add: other_keys_def)
  qed simp
  then show "other_keys d' = other_keys d" "attempt_leases d' = attempt_leases d"
    by (simp_all add: attempt_leases_def)
qed

lemma project_commits:
  assumes "keys_unique d" "desired_lifecycle p = Inr w"
  obtains ok d' where "project_lifecycle d key p (Some t) = Inr (ok, d')"
proof (cases "load_plan d key p w")
  case None
  with assms(2) show thesis by (intro that [of False d]) (simp add: project_lifecycle_def)
next
  case (Some plan)
  then obtain r k ib bt sb where plan: "load_plan d key p w = Some (r, k, ib, bt, sb)"
    by (cases plan) auto
  from write_projection_total [OF assms(1) plan] obtain d' where
    "write_projection d key p w t k sb ib bt = Inr d'" by blast
  with plan assms(2) show thesis by (intro that [of True d']) (simp add: project_lifecycle_def)
qed

lemma failed_lifecycle: "\<exists>w. desired_lifecycle (Validation_failed (public_failure_code c) v) = Inr w"
proof -
  have "bounded_failure_code ''integrity_check_failed'' = Inr ''integrity_check_failed''"
    "bounded_failure_code ''validation_unavailable'' = Inr ''validation_unavailable''" by code_simp+
  then show ?thesis by (simp add: public_failure_code_def)
qed

lemma attempt_leases_update:
  "attempt_leases (d\<lparr>attempts := update_rows P (close_attempt_row s now c m) (attempts d)\<rparr>) = attempt_leases d"
  by (simp add: attempt_leases_def map_update_rows close_attempt_row_def)

lemma reap_keys [simp]:
  "other_keys (quarantine_scanning j d) = other_keys d" "attempt_leases (quarantine_scanning j d) = attempt_leases d"
  "other_keys (fail_pending_document j c d) = other_keys d" "attempt_leases (fail_pending_document j c d) = attempt_leases d"
  "other_keys (reset_processing_document j d) = other_keys d"
  "attempt_leases (reset_processing_document j d) = attempt_leases d"
  "other_keys (close_expired_attempt j s m now d) = other_keys d"
  "attempt_leases (close_expired_attempt j s m now d) = attempt_leases d"
  by (simp_all add: other_keys_def attempt_leases_def quarantine_scanning_def fail_pending_document_def
      reset_processing_document_def close_expired_attempt_def map_update_rows close_attempt_row_def)

text \<open>Retiring a job never throws, and adds no key.\<close>

lemma fail_target_commits:
  assumes keys: "keys_unique d" and job: "job \<in> set (jobs d)"
  obtains d' where "fail_target_without_claim d job c now = Inr d'"
    "other_keys d' = other_keys d" "attempt_leases d' = attempt_leases d"
proof -
  obtain d1 where d1: "project_unclaimed_failure d job c now = Inr d1"
    "other_keys d1 = other_keys d" "attempt_leases d1 = attempt_leases d" "jobs d1 = jobs d"
  proof (cases "job_pipeline_key job")
    case None
    then show thesis using that [of d] by (simp add: project_unclaimed_failure_def)
  next
    case (Some key)
    obtain w where w: "desired_lifecycle (Validation_failed (public_failure_code c) Verification_unavailable) = Inr w"
      using failed_lifecycle by blast
    from keys w obtain ok d1 where
      pr: "project_lifecycle d key (Validation_failed (public_failure_code c) Verification_unavailable) (Some now) = Inr (ok, d1)"
      by (rule project_commits)
    with Some project_keys [OF pr] outside_sameD(1) [OF project_outside_same [OF pr]] that [of d1] show thesis
      by (simp add: project_unclaimed_failure_def)
  qed
  let ?d2 = "if j_status job = J_RUNNING \<and> truthy (j_leaseId job)
     then d1\<lparr>attempts := update_rows (leased_attempt job)
                (close_attempt_row J_DEAD_LETTER now c target_failed_message) (attempts d1)\<rparr>
     else d1"
  have "list_ex (job_key (j_org job) (j_id job)) (jobs ?d2)"
    using job d1(4) by (auto simp: list_ex_iff job_key_def)
  then obtain d' where d': "fail_target_without_claim d job c now = Inr d'"
    by (simp add: fail_target_without_claim_def d1(1) update_one_def Let_def)
  let ?d3 = "?d2\<lparr>jobs := jobs d'\<rparr>"
  let ?d4 = "fail_pending_document job c (if c = ''worker_lease_expired'' then quarantine_scanning job ?d3 else ?d3)"
  have "d' = ?d4\<lparr>audits := audits d'\<rparr>"
    using d' unfolding fail_target_without_claim_def d1(1) by (auto simp: update_one_Inr_iff Let_def and_then_Inr_iff)
  moreover have "other_keys (?d4\<lparr>audits := as\<rparr>) = other_keys ?d4" "attempt_leases (?d4\<lparr>audits := as\<rparr>) = attempt_leases ?d4"
    for as by (simp_all add: other_keys_def attempt_leases_def)
  moreover have "other_keys ?d3 = other_keys d1" "attempt_leases ?d3 = attempt_leases d1"
    by (simp_all add: other_keys_def attempt_leases_def map_update_rows close_attempt_row_def)
  moreover from this have "other_keys ?d4 = other_keys d1" "attempt_leases ?d4 = attempt_leases d1" by simp_all
  ultimately have "other_keys d' = other_keys d" "attempt_leases d' = attempt_leases d"
    using d1(2,3) by metis+
  with d' show thesis by (rule that)
qed

text \<open>What the identifiers a claim draws have to differ from.\<close>

definition claim_fresh :: "claim_env \<Rightarrow> db \<Rightarrow> bool" where
  "claim_fresh env d \<longleftrightarrow>
     list_all (\<lambda>(i, l). i \<noteq> ce_attemptId env \<and> l \<noteq> Some (ce_leaseId env)) (attempt_leases d)"

lemma open_job_lease_commits:
  assumes "job \<in> set (jobs d)" "claim_fresh env d"
    and numbers: "\<forall>t \<in> set (attempts d). t_jobId t = j_id job \<longrightarrow> t_attemptNumber t \<le> j_attempts job"
  obtains d' where "open_job_lease env w ttl now job d = Inr d'"
proof -
  have "list_ex (job_key (j_org job) (j_id job)) (jobs d)"
    using assms(1) by (auto simp: list_ex_iff job_key_def)
  moreover have "\<not> list_ex (attempt_clash (open_attempt job now w (ce_attemptId env) (ce_leaseId env) (j_attempts job + 1)))
      (attempts d)"
    using assms(2) numbers
    by (fastforce simp: list_ex_iff attempt_clash_def open_attempt_def claim_fresh_def attempt_leases_def list_all_iff)
  ultimately show thesis
    using that by (simp add: open_job_lease_def update_one_def create_row_def)
qed

lemma validation_target_rows:
  assumes "validation_target d job = Some (p, key, x, a, rc)"
  shows "x \<in> set (documents d)" "d_org x = j_org job" "a \<in> set (assets d)" "a_org a = j_org job"
  using assms
  by (auto simp: validation_target_def bind_eq_Some_conv document_key_def asset_key_def split: if_splits
      dest!: find_SomeD)

text \<open>What a claim leaves of the keys: the attempt table has at most the claim's own attempt more.\<close>

definition claim_commits :: "claim_env \<Rightarrow> db \<Rightarrow> db \<Rightarrow> bool" where
  "claim_commits env d d' \<longleftrightarrow> other_keys d' = other_keys d
     \<and> (attempt_leases d' = attempt_leases d
        \<or> attempt_leases d' = attempt_leases d @ [(ce_attemptId env, Some (ce_leaseId env))])"

lemma fail_target_skips:
  assumes "keys_unique d" "job \<in> set (jobs d)"
  shows "\<exists>r d'. skip_with (fail_target_without_claim d job c now) = Inr (r, d') \<and> claim_commits env d d'"
proof -
  obtain d' where "fail_target_without_claim d job c now = Inr d'"
    "other_keys d' = other_keys d" "attempt_leases d' = attempt_leases d"
    by (rule fail_target_commits [OF assms])
  then show ?thesis by (simp add: claim_commits_def)
qed

lemma claim_target_commits:
  assumes keys: "keys_unique d" and job: "job \<in> set (jobs d)" and fresh: "claim_fresh env d"
    and numbers: "\<forall>t \<in> set (attempts d). t_jobId t = j_id job \<longrightarrow> t_attemptNumber t \<le> j_attempts job"
  shows "\<exists>r d'. claim_validation_target env w ttl now job d = Inr (r, d') \<and> claim_commits env d d'"
proof (cases "validation_target d job")
  case None
  then show ?thesis by (simp only: claim_validation_target_def option.case fail_target_skips [OF keys job])
next
  case (Some tgt)
  obtain p key x a rc where tgt: "tgt = (p, key, x, a, rc)" by (cases tgt)
  have "desired_lifecycle Validation_claim = Inr desired_validation" by simp
  with keys obtain ok d1 where pr: "project_lifecycle d key Validation_claim (Some now) = Inr (ok, d1)"
    by (rule project_commits)
  note pk = project_keys [OF pr] and same = outside_sameD [OF project_outside_same [OF pr]]
  show ?thesis
  proof (cases ok)
    case False
    have "keys_unique d1" using keys pk(1) same(1,2) by (simp add: keys_unique_iff)
    moreover have "job \<in> set (jobs d1)" using job same(1) by simp
    ultimately have "\<exists>r d'. skip_with (fail_target_without_claim d1 job ''validation_target_invalid'' now) = Inr (r, d')
        \<and> claim_commits env d1 d'" by (rule fail_target_skips)
    with False Some tgt pr pk show ?thesis by (simp add: claim_validation_target_def claim_commits_def)
  next
    case True
    have "job \<in> set (jobs d1)" "claim_fresh env d1"
      "\<forall>t \<in> set (attempts d1). t_jobId t = j_id job \<longrightarrow> t_attemptNumber t \<le> j_attempts job"
      using job fresh numbers same(1,2) pk(2) by (simp_all add: claim_fresh_def)
    then obtain d2 where d2: "open_job_lease env w ttl now job d1 = Inr d2"
      by (rule open_job_lease_commits)
    note op = open_job_lease_queue [OF d2]
    have rows: "documents d2 = documents d1" "assets d2 = assets d1" "other_keys d2 = other_keys d1"
      using arg_cong [OF op(4), of documents] arg_cong [OF op(4), of assets] arg_cong [OF op(4), of other_keys]
      by (simp_all add: other_keys_def)
    have "list_ex (asset_key (j_org job) (a_id a)) (assets d2)"
      "list_ex (document_key (j_org job) (d_id x)) (documents d2)"
      using validation_target_rows [OF Some [unfolded tgt]] same rows
      by (auto simp: list_ex_iff asset_key_def document_key_def)
    then obtain d' where take: "take_validation_lease env w ttl now job x a d1 = Inr d'"
      and d': "other_keys d' = other_keys d2" "attempt_leases d' = attempt_leases d2"
      by (auto simp: take_validation_lease_def d2 update_one_def other_keys_def attempt_leases_def map_update_rows)
    have "attempt_leases d2 = attempt_leases d1 @ [(ce_attemptId env, Some (ce_leaseId env))]"
      using op(2) by (simp add: attempt_leases_def open_attempt_def)
    with True Some tgt pr pk take d' rows(3) show ?thesis by (simp add: claim_validation_target_def claim_commits_def)
  qed
qed

lemma claim_validation_commits:
  assumes keys: "keys_unique d" and ok: "queue_ok (queue_of d)" and fresh: "claim_fresh env d"
  shows "\<exists>r d'. claim_validation_tx env w ttl now d = Inr (r, d') \<and> claim_commits env d d'"
proof (cases "select_candidate env (validation_candidate now) (jobs d)")
  case None
  then show ?thesis by (simp add: claim_validation_tx_def claim_commits_def)
next
  case (Some job)
  then have job: "job \<in> set (jobs d)" by (auto dest: select_candidateD)
  let ?closed = "\<lambda>s. close_expired_attempt job s validation_expired_message now d"
  let ?reset = "reset_processing_document job (quarantine_scanning job (?closed J_FAILED))"
  have closed: "keys_unique (?closed s)" for s
    using keys by (simp add: keys_unique_iff close_expired_attempts map_update_rows close_attempt_row_def)
  then have reset: "keys_unique ?reset" by (simp add: keys_unique_iff)
  have numbers: "t_attemptNumber t \<le> j_attempts job" if t: "t \<in> set (attempts d)" "t_jobId t = j_id job" for t
  proof -
    from ok t obtain j where "j \<in> set (jobs d)" "j_id j = t_jobId t" "t_attemptNumber t \<le> j_attempts j"
      by (auto simp: queue_of_def list_all_iff attempt_ok_def list_ex_iff)
    with ok job t(2) show ?thesis by (auto simp: queue_of_def distinct_map dest: inj_onD)
  qed
  have numbers': "\<forall>t \<in> set (attempts ?reset). t_jobId t = j_id job \<longrightarrow> t_attemptNumber t \<le> j_attempts job"
    using numbers by (auto simp: close_expired_attempts update_rows_def close_attempt_row_def)
  have "\<exists>r d'. claim_validation_target env w ttl now job d = Inr (r, d') \<and> claim_commits env d d'"
    by (rule claim_target_commits [OF keys job fresh]) (use numbers in blast)
  moreover have "\<exists>r d'. claim_validation_target env w ttl now job ?reset = Inr (r, d') \<and> claim_commits env ?reset d'"
    by (rule claim_target_commits [OF reset _ _ numbers']) (use job fresh in \<open>simp_all add: claim_fresh_def\<close>)
  moreover have "\<exists>(r :: validation_lease claim_result) d'. skip_with (fail_target_without_claim d job c now) = Inr (r, d') \<and> claim_commits env d d'"
    for c :: string by (rule fail_target_skips [OF keys job])
  moreover have "\<exists>(r :: validation_lease claim_result) d'. skip_with (fail_target_without_claim (?closed J_DEAD_LETTER) job c now) = Inr (r, d')
      \<and> claim_commits env (?closed J_DEAD_LETTER) d'" for c :: string
    by (rule fail_target_skips [OF closed]) (use job in simp)
  ultimately have "\<exists>r d'. claim_validation_target env w ttl now job d = Inr (r, d') \<and> claim_commits env d d'"
    "\<exists>r d'. claim_validation_target env w ttl now job ?reset = Inr (r, d') \<and> claim_commits env d d'"
    "\<And>c. \<exists>(r :: validation_lease claim_result) d'. skip_with (fail_target_without_claim d job c now) = Inr (r, d') \<and> claim_commits env d d'"
    "\<And>c. \<exists>(r :: validation_lease claim_result) d'. skip_with (fail_target_without_claim (?closed J_DEAD_LETTER) job c now) = Inr (r, d')
      \<and> claim_commits env d d'"
    by (simp_all only: claim_commits_def reap_keys)
  moreover have "claim_commits env d d" by (simp add: claim_commits_def)
  ultimately show ?thesis
    unfolding claim_validation_tx_def Some option.case by (simp split: if_split)
qed

section \<open>Runs of claims\<close>

text \<open>Claim transactions in a row, each with its clock; \<open>None\<close> when one of them throws.\<close>

fun claim_run :: "string \<Rightarrow> int \<Rightarrow> (claim_env \<times> millis) list \<Rightarrow> db \<Rightarrow> db option" where
  "claim_run w ttl [] d = Some d"
| "claim_run w ttl ((env, now) # xs) d =
     (case claim_validation_tx env w ttl now d of
        Inl e \<Rightarrow> None
      | Inr (r, d') \<Rightarrow> claim_run w ttl xs d')"

text \<open>Each transaction comes after the leases of the ones before it, and finds no row locked.\<close>

fun claims_spaced :: "int \<Rightarrow> millis \<Rightarrow> (claim_env \<times> millis) list \<Rightarrow> bool" where
  "claims_spaced ttl t [] \<longleftrightarrow> True"
| "claims_spaced ttl t ((env, now) # xs) \<longleftrightarrow>
     t \<le> now \<and> ce_leaseId env \<noteq> [] \<and> ce_locked env = (\<lambda>_. False) \<and> claims_spaced ttl (now + ttl) xs"

text \<open>The identifiers the claims draw are new and differ from each other.\<close>

definition claims_fresh :: "(claim_env \<times> millis) list \<Rightarrow> db \<Rightarrow> bool" where
  "claims_fresh xs d \<longleftrightarrow>
     distinct (map (\<lambda>(env, _). ce_attemptId env) xs) \<and> distinct (map (\<lambda>(env, _). ce_leaseId env) xs)
     \<and> list_all (\<lambda>(env, _). claim_fresh env d) xs"

lemma claims_fresh_step:
  assumes fresh: "claims_fresh ((env, now) # xs) d" and "claim_commits env d d'"
  shows "claims_fresh xs d'"
proof -
  have "claim_fresh e d'" if "(e, n) \<in> set xs" for e n
  proof -
    have "ce_attemptId e \<noteq> ce_attemptId env" "ce_leaseId e \<noteq> ce_leaseId env" "claim_fresh e d"
      using fresh that by (force simp: claims_fresh_def list_all_iff)+
    with assms(2) show ?thesis by (auto simp: claim_fresh_def claim_commits_def)
  qed
  with fresh show ?thesis by (auto simp: claims_fresh_def list_all_iff)
qed

lemma settled_claim_run:
  assumes "validations_settled d"
  shows "claim_run w ttl xs d = Some d"
proof (induction xs)
  case (Cons x xs)
  obtain env now where x: "x = (env, now)" by (cases x)
  have "select_candidate env (validation_candidate now) (jobs d) = None"
    using assms
    by (auto simp: select_candidate_None validations_settled_def list_all_iff validation_candidate_def
        claim_candidate_def settled_def)
  then have "claim_validation_tx env w ttl now d = Inr (Claim_empty, d)"
    by (simp add: claim_validation_tx_def)
  with Cons x show ?case by simp
qed simp

lemma claim_run_settles:
  assumes "queue_ok (queue_of d)" "keys_unique d" "due_by t d" "0 < ttl" "claims_spaced ttl t xs"
    "claims_fresh xs d" "validation_backlog d \<le> length xs"
  shows "\<exists>d'. claim_run w ttl xs d = Some d' \<and> validations_settled d'"
  using assms
proof (induction xs arbitrary: d t)
  case Nil
  then show ?case using backlog_zero by simp
next
  case (Cons x xs)
  obtain env now where x: "x = (env, now)" by (cases x)
  show ?case
  proof (cases "validations_settled d")
    case True
    then show ?thesis using settled_claim_run [OF True] by blast
  next
    case False
    from Cons.prems(5) x have s: "t \<le> now" "ce_leaseId env \<noteq> []" "\<not> ce_locked env i"
      "claims_spaced ttl (now + ttl) xs" for i by auto
    have "claim_fresh env d" using Cons.prems(6) x by (simp add: claims_fresh_def)
    with claim_validation_commits [OF Cons.prems(2,1)] obtain r d1 where
      tx: "claim_validation_tx env w ttl now d = Inr (r, d1)" and commits: "claim_commits env d d1" by blast
    note p = claim_validation_progress [OF Cons.prems(1,3) s(1) Cons.prems(4) s(3) False tx]
    have ok: "queue_ok (queue_of d1)"
      using queue_steps_ok [OF claim_validation_refines [OF Cons.prems(1,4) s(2) tx] Cons.prems(1)] .
    then have "keys_unique d1"
      using Cons.prems(2) commits by (simp add: keys_unique_iff queue_of_def claim_commits_def)
    moreover have "claims_fresh xs d1" using claims_fresh_step Cons.prems(6) commits unfolding x by blast
    ultimately have "\<exists>d'. claim_run w ttl xs d1 = Some d' \<and> validations_settled d'"
      using Cons.IH [OF ok _ p(2) Cons.prems(4) s(4)] p(1) Cons.prems(7) by simp
    then show ?thesis by (simp add: x tx)
  qed
qed

end
