(* ===== verification/Validation_Properties.thy ===== *)
theory Validation_Properties
  imports Validation_Authority Validation_Liveness
begin

text \<open>
  The properties of the validation job, each with a concrete run that meets its hypotheses: a
  browser upload in quarantine is claimed, validated as accepted, and its completion replayed.
\<close>

section \<open>A quarantined upload\<close>

definition sample_sha :: string where
  "sample_sha = replicate 63 (CHR ''a'') @ ''1''"

definition sample_object :: string where
  "sample_object = ''local-quarantine-v2:obj''"

definition sample_validation_job :: job where
  "sample_validation_job =
     \<lparr>j_id = ''j1'', j_org = ''o'', j_type = DOCUMENT_VALIDATE, j_status = J_QUEUED,
      j_dedupeKey = Some ''document-ingest:r:paperpilot-document-validation-v1'', j_priority = 10,
      j_payload = JObj (validation_payload_fields
        \<lparr>vp_policyVersion = validation_policy_version, vp_storageVersion = quarantine_storage_version,
         vp_ingestReceiptId = ''r''\<rparr>),
      j_result = JNull, j_attempts = 0, j_maxAttempts = 4, j_runAfter = 100, j_lockedAt = None,
      j_lockedBy = None, j_leaseId = None, j_leaseExpiresAt = None, j_completedAt = None,
      j_lastErrorCode = None, j_lastErrorMessage = None, j_documentId = Some ''d'',
      j_assetId = Some ''a'', j_intakeId = Some ''k'', j_ingestReceiptId = Some ''r'',
      j_createdById = None, j_createdAt = 100\<rparr>"

definition upload_db :: db where
  "upload_db =
     \<lparr>jobs = [sample_validation_job], attempts = [],
      documents = [\<lparr>d_id = ''d'', d_org = ''o'', d_paperId = None, d_workspacePaperId = None,
        d_kind = PAPER_PDF, d_status = D_PENDING, d_mimeType = Some ''application/pdf'',
        d_pageCount = None, d_contentHash = Some sample_sha, d_validatedAt = None,
        d_validationPolicyVersion = None, d_failureCode = None, d_metadata = JNull,
        d_archivedAt = None\<rparr>],
      assets = [\<lparr>a_id = ''a'', a_org = ''o'', a_storageProvider = LOCAL, a_objectKey = sample_object,
        a_physicalLocator = Some sample_object, a_status = A_QUARANTINED,
        a_mimeType = Some ''application/pdf'', a_sizeBytes = Some 1000, a_sha256 = Some sample_sha,
        a_scannedAt = None, a_validatedAt = None, a_validationPolicyVersion = None,
        a_rejectedReason = None, a_rejectionCode = None, a_metadata = JNull, a_deletedAt = None\<rparr>],
      document_assets = [\<lparr>da_org = ''o'', da_documentId = ''d'', da_assetId = ''a'', da_role = ORIGINAL\<rparr>],
      receipts = [\<lparr>r_id = ''r'', r_org = ''o'', r_source = BROWSER_UPLOAD, r_intakeId = ''k'',
        r_assetId = ''a'', r_documentId = ''d'', r_inboxEntryId = Some ''x'', r_importBatchId = None,
        r_zoteroAttachmentImportId = None, r_crawlerImportId = None,
        r_declaredMimeType = ''application/pdf'', r_receivedSizeBytes = 1000, r_sha256 = sample_sha,
        r_storageVersion = quarantine_storage_version, r_storageAuthorityGeneration = None\<rparr>],
      intakes = [\<lparr>k_id = ''k'', k_org = ''o'', k_source = BROWSER_UPLOAD, k_status = QUARANTINED,
        k_documentId = ''d'', k_assetId = ''a'', k_inboxEntryId = Some ''x'', k_importBatchId = None,
        k_failureCode = None, k_completedAt = None\<rparr>],
      inbox = [\<lparr>x_id = ''x'', x_org = ''o'', x_importBatchId = None, x_documentId = Some ''d'',
        x_source = S_FILE_UPLOAD, x_status = X_NEEDS_REVIEW,
        x_payload = JObj [(''schemaVersion'', jint 1), (''kind'', JStr ''document-upload'')],
        x_failureCode = None, x_failureMessage = None\<rparr>],
      batches = [], zotero_imports = [], crawler_imports = [], attestations = [], extractions = [],
      chunks = [], admissions = [], provenances = [], audits = []\<rparr>"

definition sample_env :: claim_env where
  "sample_env = \<lparr>ce_locked = (\<lambda>i. False), ce_id_less = (\<lambda>a b. length a < length b),
     ce_leaseId = ''L1'', ce_attemptId = ''t1''\<rparr>"

definition sample_lease :: validation_lease where
  "sample_lease = \<lparr>vl_organizationId = ''o'', vl_jobId = ''j1'', vl_jobAttemptId = ''t1'',
     vl_attemptNumber = 1, vl_workerId = ''w'', vl_leaseId = ''L1'', vl_leaseExpiresAt = 20200,
     vl_documentId = ''d'', vl_assetId = ''a'', vl_intakeId = ''k'', vl_ingestReceiptId = ''r'',
     vl_storageProvider = LOCAL, vl_storageKey = sample_object, vl_inputSha256 = sample_sha,
     vl_inputSizeBytes = 1000, vl_policyVersion = validation_policy_version,
     vl_storageVersion = quarantine_storage_version, vl_storageAuthorityGeneration = None\<rparr>"

definition sample_attestation :: validated_attestation where
  "sample_attestation =
     \<lparr>va_inputSha256 = sample_sha, va_inputSizeBytes = 1000,
      va_storageVersion = quarantine_storage_version, va_policyVersion = validation_policy_version,
      va_toolchainDigest = sample_sha, va_verdict = ACCEPTED, va_rejectionCode = None,
      va_malwareVerdict = CLEAN, va_malwareEngine = ''clamav'', va_malwareEngineVersion = ''1.4'',
      va_signatureVersion = ''27000'', va_signaturePublishedAt = Some 1000, va_scannedAt = Some 1500,
      va_pdfStructuralVerdict = VALID, va_pdfEngine = ''qpdf'', va_pdfEngineVersion = ''11'',
      va_pdfVersion = ''1.7'', va_pageCount = Some (NInt 12), va_objectCount = Some (NInt 90),
      va_revisionCount = Some (NInt 1), va_checkedAt = Some 2000,
      va_result = [(''schemaVersion'', jint 1), (''detectionCount'', jint 0), (''warningCount'', jint 0),
        (''malwareDurationMs'', jint 10), (''pdfDurationMs'', jint 20), (''totalDurationMs'', jint 40),
        (''completedAt'', JStr ''1970-01-01T00:00:02.000Z'')]\<rparr>"

definition sample_ids :: completion_ids where
  "sample_ids = \<lparr>ci_attestationId = ''v1'', ci_extractionJobId = ''j2''\<rparr>"

text \<open>The same database after a claim, and after an accepted completion.\<close>

definition scanning_db :: db where
  "scanning_db = upload_db
     \<lparr>jobs := [claim_row 200 ''w'' ''L1'' 20200 1 sample_validation_job],
      attempts := [open_attempt sample_validation_job 200 ''w'' ''t1'' ''L1'' 1],
      assets := map (\<lambda>a. a\<lparr>a_status := A_SCANNING\<rparr>) (assets upload_db),
      documents := map (\<lambda>x. x\<lparr>d_status := D_PROCESSING\<rparr>) (documents upload_db),
      intakes := map (\<lambda>k. k\<lparr>k_status := VALIDATING\<rparr>) (intakes upload_db),
      inbox := map (\<lambda>x. x\<lparr>x_payload := JObj [(''schemaVersion'', jint 1),
          (''kind'', JStr ''document-upload''), (''custody'', JStr ''quarantined''),
          (''verification'', JStr ''validating'')]\<rparr>) (inbox upload_db)\<rparr>"

definition sample_extraction_job :: job where
  "sample_extraction_job =
     \<lparr>j_id = ''j2'', j_org = ''o'', j_type = TEXT_EXTRACTION, j_status = J_QUEUED,
      j_dedupeKey = Some (''accepted-validation:v1:paperpilot-text-extraction-v1:'' @ sample_sha),
      j_priority = 5,
      j_payload = JObj (extraction_payload_fields
        \<lparr>ep_validationAttestationId = ''v1'', ep_policyVersion = extraction_policy_version,
         ep_storageVersion = quarantine_storage_version, ep_toolchainDigest = sample_sha\<rparr>),
      j_result = JNull, j_attempts = 0, j_maxAttempts = 4, j_runAfter = 2100, j_lockedAt = None,
      j_lockedBy = None, j_leaseId = None, j_leaseExpiresAt = None, j_completedAt = None,
      j_lastErrorCode = None, j_lastErrorMessage = None, j_documentId = Some ''d'',
      j_assetId = Some ''a'', j_intakeId = Some ''k'', j_ingestReceiptId = Some ''r'',
      j_createdById = None, j_createdAt = 2100\<rparr>"

definition validated_db :: db where
  "validated_db = scanning_db
     \<lparr>jobs := [succeed_row 2100 (validation_job_result sample_attestation)
                (hd (jobs scanning_db)), sample_extraction_job],
      attempts := map (succeed_attempt_row 2100 (validation_job_result sample_attestation))
                    (attempts scanning_db),
      assets := map (completed_asset sample_attestation) (assets scanning_db),
      documents := map (completed_document sample_attestation) (documents scanning_db),
      intakes := map (\<lambda>k. k\<lparr>k_status := EXTRACTING\<rparr>) (intakes scanning_db),
      inbox := map (\<lambda>x. x\<lparr>x_payload := JObj [(''schemaVersion'', jint 1),
          (''kind'', JStr ''document-upload''), (''custody'', JStr ''validated''),
          (''verification'', JStr ''accepted'')]\<rparr>) (inbox scanning_db),
      attestations := [attestation_row_of ''v1'' sample_lease sample_attestation],
      provenances := [validation_provenance scanning_db sample_lease sample_attestation
          (hd (receipts upload_db)) 2100],
      audits := [validation_audit sample_lease sample_attestation]\<rparr>"

lemma sample_names:
  "ci_attestationId sample_ids = ''v1''" "vl_organizationId sample_lease = ''o''"
  "vl_jobId sample_lease = ''j1''" "vl_jobAttemptId sample_lease = ''t1''"
  "vl_documentId sample_lease = ''d''" "vl_assetId sample_lease = ''a''"
  by (simp_all add: sample_ids_def sample_lease_def)

lemma upload_queue_ok: "queue_ok (queue_of upload_db)"
  by code_simp

lemma sample_claim:
  "claim_validation_tx sample_env ''w'' 20000 200 upload_db = Inr (Claimed sample_lease, scanning_db)"
  by code_simp

lemma sample_completion:
  "complete_validation_tx sample_ids sample_lease sample_attestation sample_sha 2100 scanning_db
     = Inr (Some (Applied, ACCEPTED), validated_db)"
  by code_simp

lemma sample_attestation_ok: "assert_attestation sample_attestation = Inr ()"
  by code_simp

section \<open>Properties\<close>

text \<open>
  A claim hands out a usable lease: on a database whose queue is in order, the lease
  \<open>claimNextDocumentValidationJob\<close> returns passes the guards of \<open>completeDocumentValidationLease\<close> that
  come before the lifecycle projection, with an attestation of its input, up to its expiry.
\<close>

theorem validation_claim_usable:
  assumes "queue_ok (queue_of d)" "claim_validation_tx env w ttl now d = Inr (Claimed l, d')"
    and "t < vl_leaseExpiresAt l" "attestation_for_lease l att"
  shows "\<exists>job. List.find (job_key (vl_organizationId l) (vl_jobId l)) (jobs d') = Some job
           \<and> completion_allowed d' l att t job"
  by (rule claimed_lease_completes [OF assms])

theorem validation_claim_usable_witness:
  "\<exists>job. List.find (job_key ''o'' ''j1'') (jobs scanning_db) = Some job
     \<and> completion_allowed scanning_db sample_lease sample_attestation 2100 job"
proof -
  have "2100 < vl_leaseExpiresAt sample_lease" "attestation_for_lease sample_lease sample_attestation"
    by code_simp+
  from validation_claim_usable [OF upload_queue_ok sample_claim this] show ?thesis
    by (simp add: sample_lease_def)
qed

text \<open>
  C23. A stale lease is inert: when no row of the job carries the lease unexpired, a heartbeat
  answers false, a failure answers lease-lost and a completion answers null or reports a stored
  result, and none of the three changes the database.
\<close>

theorem validation_stale_inert:
  assumes "lease_is_stale d l now"
  shows "(\<forall>hb d'. heartbeat_validation l ttl now d = Inr (hb, d') \<longrightarrow> \<not> hb \<and> d' = d)
    \<and> (\<forall>cr d'. complete_validation_tx ids l a e now d = Inr (cr, d')
          \<longrightarrow> d' = d \<and> (cr = None \<or> (\<exists>v. cr = Some (Replayed, v))))
    \<and> (\<forall>fr d'. fail_validation_tx l c retryable now d = Inr (fr, d') \<longrightarrow> d' = d \<and> fr = Lease_lost)"
  using heartbeat_stale [OF assms] complete_stale [OF assms] fail_stale [OF assms] by blast

theorem validation_stale_inert_witness:
  "fail_validation_tx sample_lease Validation_worker_internal True 20200 scanning_db
     = Inr (Lease_lost, scanning_db)"
proof -
  have stale: "lease_is_stale scanning_db sample_lease 20200" by code_simp
  have "map_sum id fst (fail_validation_tx sample_lease Validation_worker_internal True 20200 scanning_db)
      = Inr Lease_lost" by code_simp
  then obtain d3 where d3: "fail_validation_tx sample_lease Validation_worker_internal True 20200 scanning_db
      = Inr (Lease_lost, d3)" by (auto simp: map_sum_Inr_iff)
  with validation_stale_inert [OF stale] d3 show ?thesis by blast
qed

text \<open>
  Completion is idempotent: after a completion was applied, completing again with the same
  lease and attestation, at any later clock, answers "replayed" with the stored verdict and
  changes nothing.
\<close>

theorem validation_replay:
  assumes "assert_attestation a = Inr u"
    and "complete_validation_tx ids l a e now d = Inr (Some (Applied, v), d')"
  shows "complete_validation_tx ids' l a e' now' d' = Inr (Some (Replayed, v), d')"
  by (rule replay_after_completion [OF assms])

theorem validation_replay_witness:
  "complete_validation_tx sample_ids sample_lease sample_attestation sample_sha 99999 validated_db
     = Inr (Some (Replayed, ACCEPTED), validated_db)"
  by (rule validation_replay [OF sample_attestation_ok sample_completion])

text \<open>
  C37. What an applied completion leaves, column by column. The job is SUCCEEDED at the completion's time,
  its lease and error cleared. Accepted: document and asset READY with the page count and no rejection,
  the four lifecycle carriers at EXTRACTING, and a text extraction job for exactly this attestation and
  toolchain. Rejected: document FAILED and asset REJECTED with the public code, the carriers at FAILED,
  and no job added. Both carry the policy and the times of the attestation, which is stored once,
  under the lease's own rows.
\<close>

theorem validation_completion_effects:
  assumes "complete_validation_tx ids l a e now d = Inr (Some (Applied, v), d')"
  shows "\<exists>job x s r w. v = va_verdict a
     \<and> List.find (job_key (vl_organizationId l) (vl_jobId l)) (jobs d') = Some job
     \<and> j_status job = J_SUCCEEDED \<and> j_completedAt job = Some now \<and> j_lockedAt job = None \<and> j_lockedBy job = None
     \<and> j_leaseId job = None \<and> j_leaseExpiresAt job = None \<and> j_lastErrorCode job = None
     \<and> List.find (document_key (vl_organizationId l) (vl_documentId l)) (documents d') = Some x
     \<and> d_validatedAt x = va_checkedAt a \<and> d_validationPolicyVersion x = Some (va_policyVersion a)
     \<and> List.find (asset_key (vl_organizationId l) (vl_assetId l)) (assets d') = Some s
     \<and> a_scannedAt s = va_scannedAt a \<and> a_validatedAt s = va_checkedAt a
     \<and> a_validationPolicyVersion s = Some (va_policyVersion a)
     \<and> lifecycle_agrees d' (lease_authority_key l) w
     \<and> (if va_verdict a = ACCEPTED
        then d_status x = D_READY \<and> d_pageCount x = va_pageCount a \<and> d_failureCode x = None
          \<and> a_status s = A_READY \<and> a_rejectionCode s = None \<and> a_rejectedReason s = None
          \<and> w_intakeStatus w = EXTRACTING
          \<and> list_ex (extraction_job_for l (ci_attestationId ids) e) (jobs d')
        else d_status x = D_FAILED \<and> d_failureCode x = Some (canonical_rejection_code a)
          \<and> a_status s = A_REJECTED \<and> a_rejectionCode s = Some (canonical_rejection_code a)
          \<and> a_rejectedReason s = Some ''The uploaded PDF did not pass the validation policy.''
          \<and> w_intakeStatus w = FAILED \<and> w_failureCode w = Some (canonical_rejection_code a)
          \<and> map j_id (jobs d') = map j_id (jobs d))
     \<and> attestations d' = attestations d @ [r]
     \<and> v_id r = ci_attestationId ids \<and> v_jobAttemptId r = vl_jobAttemptId l \<and> v_documentId r = vl_documentId l
     \<and> v_assetId r = vl_assetId l \<and> v_inputSha256 r = va_inputSha256 a \<and> v_verdict r = va_verdict a
     \<and> v_toolchainDigest r = va_toolchainDigest a"
proof -
  from completion_effects [OF assms] obtain job x s w where
    rows: "v = va_verdict a"
      "List.find (job_key (vl_organizationId l) (vl_jobId l)) (jobs d') = Some (succeed_row now (validation_job_result a) job)"
      "List.find (document_key (vl_organizationId l) (vl_documentId l)) (documents d') = Some (completed_document a x)"
      "List.find (asset_key (vl_organizationId l) (vl_assetId l)) (assets d') = Some (completed_asset a s)"
      "attestations d' = attestations d @ [attestation_row_of (ci_attestationId ids) l a]"
      "desired_lifecycle (completion_projection a) = Inr w" "lifecycle_agrees d' (lease_authority_key l) w"
      "if va_verdict a = ACCEPTED then list_ex (extraction_job_for l (ci_attestationId ids) e) (jobs d')
       else map j_id (jobs d') = map j_id (jobs d)"
    by blast
  have job: "j_status (succeed_row now (validation_job_result a) job) = J_SUCCEEDED"
    "j_completedAt (succeed_row now (validation_job_result a) job) = Some now"
    "j_lockedAt (succeed_row now (validation_job_result a) job) = None"
    "j_lockedBy (succeed_row now (validation_job_result a) job) = None"
    "j_leaseId (succeed_row now (validation_job_result a) job) = None"
    "j_leaseExpiresAt (succeed_row now (validation_job_result a) job) = None"
    "j_lastErrorCode (succeed_row now (validation_job_result a) job) = None"
    by (simp_all add: succeed_row_def unlock_row_def)
  have row: "v_id (attestation_row_of i l a) = i" "v_jobAttemptId (attestation_row_of i l a) = vl_jobAttemptId l"
    "v_documentId (attestation_row_of i l a) = vl_documentId l" "v_assetId (attestation_row_of i l a) = vl_assetId l"
    "v_inputSha256 (attestation_row_of i l a) = va_inputSha256 a" "v_verdict (attestation_row_of i l a) = va_verdict a"
    "v_toolchainDigest (attestation_row_of i l a) = va_toolchainDigest a" for i
    by (simp_all add: attestation_row_of_def)
  have times: "d_validatedAt (completed_document a x) = va_checkedAt a"
    "d_validationPolicyVersion (completed_document a x) = Some (va_policyVersion a)"
    "a_scannedAt (completed_asset a s) = va_scannedAt a" "a_validatedAt (completed_asset a s) = va_checkedAt a"
    "a_validationPolicyVersion (completed_asset a s) = Some (va_policyVersion a)"
    by (simp_all add: completed_document_def completed_asset_def)
  show ?thesis
    by (rule exI [of _ "succeed_row now (validation_job_result a) job"], rule exI [of _ "completed_document a x"],
        rule exI [of _ "completed_asset a s"], rule exI [of _ "attestation_row_of (ci_attestationId ids) l a"],
        rule exI [of _ w])
      (use rows in \<open>cases "va_verdict a"; auto simp: job row times completed_document_def completed_asset_def
        stored_rejection_code_def completion_projection_def desired_defs bounded_failure_code_def split: if_splits\<close>)
qed

theorem validation_completion_effects_witness:
  "\<exists>x s. List.find (document_key ''o'' ''d'') (documents validated_db) = Some x \<and> d_status x = D_READY
     \<and> List.find (asset_key ''o'' ''a'') (assets validated_db) = Some s \<and> a_status s = A_READY
     \<and> list_ex (extraction_job_for sample_lease ''v1'' sample_sha) (jobs validated_db)"
proof -
  have "va_verdict sample_attestation = ACCEPTED" by (simp add: sample_attestation_def)
  with validation_completion_effects [OF sample_completion] show ?thesis
    unfolding sample_names by auto
qed

text \<open>
  Failure of a held lease: it is retried exactly when the caller allows it and an attempt is
  left, then at least 5 seconds and at most 15 minutes later; otherwise the job is dead-lettered.
  Both clear the lease and record the code, and neither gives the attempt back.
\<close>

theorem validation_failure_policy:
  assumes "fail_validation_tx l c retryable now d = Inr (res, d')" "res \<noteq> Lease_lost"
  shows "\<exists>job row. List.find (job_key (vl_organizationId l) (vl_jobId l)) (jobs d) = Some job
     \<and> List.find (job_key (vl_organizationId l) (vl_jobId l)) (jobs d') = Some row
     \<and> j_attempts row = j_attempts job \<and> j_leaseId row = None \<and> j_leaseExpiresAt row = None
     \<and> j_lastErrorCode row = Some (validation_failure_code c)
     \<and> (if retryable \<and> j_attempts job < j_maxAttempts job
        then res = Retrying \<and> j_status row = J_RETRYING \<and> j_completedAt row = None
          \<and> now + 5000 \<le> j_runAfter row \<and> j_runAfter row \<le> now + 900000
        else res = Dead_letter \<and> j_status row = J_DEAD_LETTER \<and> j_completedAt row = Some now)"
  by (rule failure_effects [OF assms])

theorem validation_failure_policy_witness:
  "\<exists>d' row. fail_validation_tx sample_lease Validation_service_timeout True 2100 scanning_db
       = Inr (Retrying, d')
     \<and> List.find (job_key ''o'' ''j1'') (jobs d') = Some row \<and> j_status row \<noteq> J_RUNNING
     \<and> j_lastErrorCode row = Some ''validation_service_timeout''"
proof -
  have "map_sum id fst (fail_validation_tx sample_lease Validation_service_timeout True 2100 scanning_db)
      = Inr Retrying" by code_simp
  then obtain d' where d': "fail_validation_tx sample_lease Validation_service_timeout True 2100 scanning_db
      = Inr (Retrying, d')" by (auto simp: map_sum_Inr_iff)
  from validation_failure_policy [OF d'] show ?thesis using d'
    by (auto simp: sample_lease_def split: if_splits)
qed

text \<open>
  The code stored for a rejected PDF is one of three: every attestation the checks let
  through is mapped to malware_detected, invalid_pdf_structure or pdf_policy_violation, so the
  other public codes of \<open>canonicalRejectionCode\<close> are never stored by a completion.
\<close>

theorem validation_rejection_code:
  assumes "assert_attestation a = Inr u" "va_verdict a = REJECTED"
  shows "canonical_rejection_code a =
     (if va_malwareVerdict a = INFECTED then ''malware_detected''
      else if va_pdfStructuralVerdict a = INVALID then ''invalid_pdf_structure''
      else ''pdf_policy_violation'')"
  by (rule canonical_rejection_code_cases [OF assms])

definition oversized_attestation :: validated_attestation where
  "oversized_attestation = sample_attestation\<lparr>va_verdict := REJECTED,
     va_rejectionCode := Some ''pdf_resource_limit_exceeded'', va_pdfStructuralVerdict := INVALID,
     va_pageCount := None\<rparr>"

theorem validation_rejection_code_witness:
  "canonical_rejection_code oversized_attestation = ''invalid_pdf_structure''"
proof -
  have "assert_attestation oversized_attestation = Inr ()" "va_verdict oversized_attestation = REJECTED"
    by code_simp+
  from validation_rejection_code [OF this] show ?thesis
    by (simp add: oversized_attestation_def sample_attestation_def)
qed

text \<open>
  C35. Which completions the validation authority recognises: after an accepted completion the
  stored attestation, with its job, attempt, document and asset rows, satisfies
  \<open>currentAcceptedValidation\<close> exactly when the attestation is within the authority's own bounds and
  the custody columns the completion does not write are in order.
\<close>

theorem accepted_completion_current:
  assumes "assert_attestation a = Inr u"
    and "complete_validation_tx ids l a e now d = Inr (Some (Applied, ACCEPTED), d')"
  shows "\<exists>v j t x s.
      List.find (\<lambda>v. v_id v = ci_attestationId ids) (attestations d') = Some v
    \<and> List.find (job_key (vl_organizationId l) (vl_jobId l)) (jobs d') = Some j
    \<and> List.find (attempt_key (vl_organizationId l) (vl_jobAttemptId l)) (attempts d') = Some t
    \<and> List.find (document_key (vl_organizationId l) (vl_documentId l)) (documents d') = Some x
    \<and> List.find (asset_key (vl_organizationId l) (vl_assetId l)) (assets d') = Some s
    \<and> (current_accepted_validation v j t x s False \<longleftrightarrow>
         within_authority_bounds a \<and> authority_custody l (ci_attestationId ids) x s)"
  by (rule accepted_completion_rows [OF assms])

theorem accepted_completion_current_witness:
  "\<exists>v j t x s. List.find (\<lambda>v. v_id v = ''v1'') (attestations validated_db) = Some v
     \<and> List.find (document_key ''o'' ''d'') (documents validated_db) = Some x
     \<and> current_accepted_validation v j t x s False"
proof -
  have b: "within_authority_bounds sample_attestation" by code_simp
  have "list_all (\<lambda>x. list_all (authority_custody sample_lease ''v1'' x) (assets validated_db))
      (documents validated_db)" by code_simp
  then have c: "authority_custody sample_lease ''v1'' x s"
    if "x \<in> set (documents validated_db)" "s \<in> set (assets validated_db)" for x s
    using that by (simp add: list_all_iff)
  from accepted_completion_current [OF sample_attestation_ok sample_completion] obtain v j t x s where
    r: "List.find (\<lambda>v. v_id v = ''v1'') (attestations validated_db) = Some v"
    "List.find (document_key ''o'' ''d'') (documents validated_db) = Some x"
    "List.find (asset_key ''o'' ''a'') (assets validated_db) = Some s"
    "current_accepted_validation v j t x s False \<longleftrightarrow>
       within_authority_bounds sample_attestation \<and> authority_custody sample_lease ''v1'' x s"
    unfolding sample_names by blast
  with b c find_SomeD [OF r(2)] find_SomeD [OF r(3)] show ?thesis by blast
qed

text \<open>
  C40. An accepted completion outside those bounds crosses one boundary and fails the other: the
  document is READY and has its text extraction job, but its validation is not a current accepted
  one, so the extraction target is invalid. A PDF of 2,001 pages is one (the validator's contract
  goes to 100,000).
\<close>

theorem accepted_out_of_bounds:
  assumes "assert_attestation a = Inr u"
    and "complete_validation_tx ids l a e now d = Inr (Some (Applied, ACCEPTED), d')"
    and "\<not> within_authority_bounds a"
  shows "\<exists>v j t x s.
      List.find (\<lambda>v. v_id v = ci_attestationId ids) (attestations d') = Some v
    \<and> List.find (job_key (vl_organizationId l) (vl_jobId l)) (jobs d') = Some j
    \<and> List.find (attempt_key (vl_organizationId l) (vl_jobAttemptId l)) (attempts d') = Some t
    \<and> List.find (document_key (vl_organizationId l) (vl_documentId l)) (documents d') = Some x
    \<and> List.find (asset_key (vl_organizationId l) (vl_assetId l)) (assets d') = Some s
    \<and> d_status x = D_READY \<and> a_status s = A_READY
    \<and> list_ex (extraction_job_for l (ci_attestationId ids) e) (jobs d')
    \<and> \<not> current_accepted_validation v j t x s False"
proof -
  from completion_effects [OF assms(2)] obtain y z where
    "List.find (document_key (vl_organizationId l) (vl_documentId l)) (documents d')
       = Some (completed_document a y)"
    "List.find (asset_key (vl_organizationId l) (vl_assetId l)) (assets d') = Some (completed_asset a z)"
    "va_verdict a = ACCEPTED" "list_ex (extraction_job_for l (ci_attestationId ids) e) (jobs d')"
    by auto
  moreover from this have "d_status (completed_document a y) = D_READY"
      "a_status (completed_asset a z) = A_READY"
    by (simp_all add: completed_document_def completed_asset_def)
  ultimately show ?thesis
    using accepted_completion_rows [OF assms(1,2)] assms(3) by auto
qed

definition long_attestation :: validated_attestation where
  "long_attestation = sample_attestation\<lparr>va_pageCount := Some (NInt 2001)\<rparr>"

theorem accepted_out_of_bounds_witness:
  "\<exists>d' v j t x s. complete_validation_tx sample_ids sample_lease long_attestation sample_sha 2100 scanning_db
       = Inr (Some (Applied, ACCEPTED), d')
     \<and> x \<in> set (documents d') \<and> d_status x = D_READY
     \<and> \<not> current_accepted_validation v j t x s False"
proof -
  have "map_sum id fst (complete_validation_tx sample_ids sample_lease long_attestation sample_sha 2100
      scanning_db) = Inr (Some (Applied, ACCEPTED))" by code_simp
  then obtain d' where d': "complete_validation_tx sample_ids sample_lease long_attestation sample_sha 2100
      scanning_db = Inr (Some (Applied, ACCEPTED), d')" by (auto simp: map_sum_Inr_iff)
  have "assert_attestation long_attestation = Inr ()" "\<not> within_authority_bounds long_attestation"
    by code_simp+
  from accepted_out_of_bounds [OF this(1) d' this(2)] obtain v j t x s where
    "List.find (document_key (vl_organizationId sample_lease) (vl_documentId sample_lease)) (documents d') = Some x"
    "d_status x = D_READY" "\<not> current_accepted_validation v j t x s False" by blast
  with d' find_SomeD [OF this(1)] show ?thesis by blast
qed

definition crashed_claims :: "(claim_env \<times> millis) list" where
  "crashed_claims = map (\<lambda>k. (\<lparr>ce_locked = (\<lambda>_. False), ce_id_less = (\<lambda>a b. False),
      ce_leaseId = ''l'' @ replicate k (CHR ''x''), ce_attemptId = ''t'' @ replicate k (CHR ''x'')\<rparr>,
     200 + 20000 * int k)) [0, 1, 2, 3, 4]"

lemma crashed_claims_fresh: "claims_fresh crashed_claims upload_db"
  by code_simp

lemma upload_keys: "keys_unique upload_db"
  by code_simp

text \<open>
  C9. The backlog settles even when every worker that takes a lease dies. Let claim transactions run one
  after the other, each after the leases of the ones before it, with no row locked and with fresh
  identifiers for attempt and lease, on tables with unique keys whose unsettled validation jobs are due.
  None of them throws, and once there are as many as attempts left plus one per job, every validation job
  is settled.
\<close>

theorem validation_backlog_settles:
  assumes "queue_ok (queue_of d)" "keys_unique d" "due_by t d" "0 < ttl" "claims_spaced ttl t xs"
    and "claims_fresh xs d" "validation_backlog d \<le> length xs"
  shows "\<exists>d'. claim_run w ttl xs d = Some d' \<and> validations_settled d'"
  using assms by (rule claim_run_settles)

theorem validation_backlog_settles_witness:
  "\<exists>d'. claim_run ''w'' 20000 crashed_claims upload_db = Some d' \<and> validations_settled d'"
proof -
  have "due_by 200 upload_db" "validation_backlog upload_db \<le> length crashed_claims" by code_simp+
  moreover have "claims_spaced 20000 200 crashed_claims" by (simp add: crashed_claims_def)
  ultimately show ?thesis
    using validation_backlog_settles [OF upload_queue_ok upload_keys _ _ _ crashed_claims_fresh] by simp
qed

end
