(* ===== verification/Extraction_Properties.thy ===== *)
theory Extraction_Properties
  imports Extraction_Effects Validation_Properties
begin

text \<open>
  The properties of the text extraction job, each with a concrete run that meets its hypotheses:
  the validated upload of \<open>Validation_Properties\<close> is claimed for extraction, deferred, completed with
  two chunks, and its completion replayed. In the runs NFC is the identity and SHA-256 a constant.
\<close>

section \<open>The upload in extraction\<close>

definition sample_xenv :: claim_env where
  "sample_xenv = sample_env\<lparr>ce_leaseId := ''L2'', ce_attemptId := ''t2''\<rparr>"

definition sample_xlease :: extraction_lease where
  "sample_xlease = \<lparr>xl_organizationId = ''o'', xl_jobId = ''j2'', xl_jobAttemptId = ''t2'',
     xl_attemptNumber = 1, xl_workerId = ''w'', xl_leaseId = ''L2'', xl_leaseExpiresAt = 23000,
     xl_documentId = ''d'', xl_assetId = ''a'', xl_intakeId = ''k'', xl_ingestReceiptId = ''r'',
     xl_validationAttestationId = ''v1'', xl_storageProvider = LOCAL, xl_storageKey = sample_object,
     xl_inputSha256 = sample_sha, xl_inputSizeBytes = 1000, xl_expectedPageCount = NInt 12,
     xl_policyVersion = extraction_policy_version, xl_storageVersion = quarantine_storage_version,
     xl_storageAuthorityGeneration = None, xl_toolchainDigest = sample_sha\<rparr>"

definition extracting_db :: db where
  "extracting_db = validated_db
     \<lparr>jobs := [hd (jobs validated_db), claim_row 3000 ''w'' ''L2'' 23000 1 sample_extraction_job],
      attempts := attempts validated_db @ [open_attempt sample_extraction_job 3000 ''w'' ''t2'' ''L2'' 1]\<rparr>"

definition sample_xattestation :: extraction_attestation where
  "sample_xattestation =
     \<lparr>xa_inputSha256 = sample_sha, xa_inputSizeBytes = 1000,
      xa_storageVersion = quarantine_storage_version, xa_policyVersion = extraction_policy_version,
      xa_toolchainDigest = sample_sha, xa_verdict = EXTRACTED, xa_engine = ''poppler'',
      xa_engineVersion = ''24.02'', xa_pageCount = NInt 12, xa_chunkCount = NInt 2,
      xa_textBytes = NInt 10, xa_extractedAt = Some 3100, xa_completedAt = Some 3200,
      xa_durationMs = NInt 50, xa_totalDurationMs = NInt 60,
      xa_chunks =
        [\<lparr>xc_sequence = NInt 0, xc_pageNumber = NInt 1, xc_paragraphId = ''p1-p1'', xc_text = ''Title''\<rparr>,
         \<lparr>xc_sequence = NInt 1, xc_pageNumber = NInt 3, xc_paragraphId = ''p3-p1'', xc_text = ''A b c''\<rparr>]\<rparr>"

definition sample_sha256 :: "string \<Rightarrow> string" where
  "sample_sha256 s = sample_sha"

definition sample_admission :: manifest_admission where
  "sample_admission = \<lparr>m_extractionId = ''f1'', m_org = ''o'', m_documentId = ''d'', m_schemaVersion = 1,
     m_verdict = EXTRACTED, m_pageCount = NInt 12, m_chunkCount = NInt 2, m_textBytes = NInt 10,
     m_manifestSha256 = sample_sha\<rparr>"

definition extracted_db :: db where
  "extracted_db = extracting_db
     \<lparr>jobs := [hd (jobs validated_db),
         succeed_row 3300 (extraction_job_result ''f1'' sample_xattestation)
           (claim_row 3000 ''w'' ''L2'' 23000 1 sample_extraction_job)],
      attempts := attempts validated_db
         @ [succeed_attempt_row 3300 (extraction_job_result ''f1'' sample_xattestation)
              (open_attempt sample_extraction_job 3000 ''w'' ''t2'' ''L2'' 1)],
      intakes := map (\<lambda>k. k\<lparr>k_status := READY, k_completedAt := Some 3300\<rparr>) (intakes extracting_db),
      inbox := map (\<lambda>x. x\<lparr>x_payload := JObj [(''schemaVersion'', jint 1),
          (''kind'', JStr ''document-upload''), (''custody'', JStr ''validated''),
          (''verification'', JStr ''accepted''), (''extraction'', JStr ''ready'')]\<rparr>) (inbox extracting_db),
      extractions := [extraction_row_of ''f1'' sample_xlease sample_xattestation 3300],
      chunks := map (chunk_row_of sample_sha256 ''f1'' sample_xlease) (xa_chunks sample_xattestation),
      provenances := provenances extracting_db
        @ [extraction_provenance ''f1'' sample_xlease sample_xattestation 3300],
      audits := audits extracting_db @ [extraction_audit ''f1'' sample_xlease sample_xattestation]\<rparr>"

definition sample_completion_result :: extraction_completion where
  "sample_completion_result = \<lparr>xr_outcome = Applied, xr_extractionId = ''f1'', xr_verdict = EXTRACTED,
     xr_chunkCount = NInt 2\<rparr>"

lemma validated_queue_ok: "queue_ok (queue_of validated_db)"
  by code_simp

lemma sample_xclaim:
  "claim_extraction_tx sample_xenv ''w'' extraction_policy_version sample_sha 20000 2990 3000 validated_db
     = Inr (Claimed sample_xlease, extracting_db)"
  by code_simp

lemma sample_xcompletion:
  "complete_extraction_tx sample_sha256 ''f1'' sample_xlease sample_xattestation 3300 extracting_db
     = Inr (Some sample_completion_result, extracted_db)"
  by code_simp

lemma sample_xattestation_ok: "assert_extraction_attestation id sample_xattestation = Inr ()"
  by code_simp


section \<open>Properties\<close>

text \<open>
  The chunks of an attestation that \<open>assertExtractionAttestation\<close> lets through are the document's
  text in reading order: their sequence numbers are 0, 1, 2 and so on, their pages lie in the
  document, their positions never go back, no paragraph number of a page is skipped, every text is
  canonical, and their UTF-8 sizes add up to the declared total.
\<close>

theorem accepted_chunks_ordered:
  assumes "assert_extraction_attestation nfc a = Inr u"
  shows "\<exists>ps. list_all2 chunk_at (xa_chunks a) ps \<and> sorted_wrt position_le ps
     \<and> list_all (\<lambda>(p, q). 1 \<le> p \<and> p \<le> num_val (xa_pageCount a) \<and> 1 \<le> q
         \<and> (q = 1 \<or> (p, q - 1) \<in> set ps)) ps
     \<and> map xc_sequence (xa_chunks a) = map (\<lambda>k. NInt (int k)) [0..<length (xa_chunks a)]
     \<and> list_all (\<lambda>c. canonical_text nfc (xc_text c)) (xa_chunks a)
     \<and> xa_textBytes a = NInt (sum_list (map (\<lambda>c. utf8_bytes (xc_text c)) (xa_chunks a)))"
proof -
  from assms obtain ps where ps: "list_all2 chunk_at (xa_chunks a) ps"
    "positions_ok (num_val (xa_pageCount a)) (0, 0) ps"
    "xa_textBytes a = NInt (sum_list (map (\<lambda>c. utf8_bytes (xc_text c)) (xa_chunks a)))"
    "map xc_sequence (xa_chunks a) = map (\<lambda>k. NInt (int k)) [0..<length (xa_chunks a)]"
    "list_all (\<lambda>c. canonical_text nfc (xc_text c)) (xa_chunks a)"
    by (rule assert_attestation_chunks)
  from ps(2) have "sorted_wrt position_le ps
     \<and> list_all (\<lambda>(p, q). 1 \<le> p \<and> p \<le> num_val (xa_pageCount a) \<and> 1 \<le> q
         \<and> (q = 1 \<or> (p, q - 1) \<in> set ps)) ps"
    by (fastforce simp: positions_ok_def list_all_iff)
  with ps show ?thesis by blast
qed

theorem accepted_chunks_ordered_witness:
  "map xc_sequence (xa_chunks sample_xattestation) = [NInt 0, NInt 1]"
proof -
  from accepted_chunks_ordered [OF sample_xattestation_ok]
  have "map xc_sequence (xa_chunks sample_xattestation)
      = map (\<lambda>k. NInt (int k)) [0..<length (xa_chunks sample_xattestation)]" by blast
  moreover have "length (xa_chunks sample_xattestation) = Suc (Suc 0)"
    by (simp add: sample_xattestation_def)
  ultimately show ?thesis by simp
qed

text \<open>
  C24. A stale extraction lease is inert: when no row of the job carries the lease unexpired, a
  heartbeat answers false, a deferral and a failure answer lease-lost, a completion answers null or
  reports a stored result, and none of the four changes the database.
\<close>

theorem extraction_stale_inert:
  assumes "extraction_lease_stale d l (effective_clock clock n)"
  shows "(\<forall>hb d'. heartbeat_extraction l ttl clock n d = Inr (hb, d') \<longrightarrow> \<not> hb \<and> d' = d)
    \<and> (\<forall>df d'. defer_extraction l clock n d = Inr (df, d') \<longrightarrow> df = Defer_lease_lost \<and> d' = d)
    \<and> (\<forall>cr d'. complete_extraction_tx sha256 i l a (effective_clock clock n) d = Inr (cr, d')
          \<longrightarrow> d' = d \<and> (\<forall>x. cr = Some x \<longrightarrow> xr_outcome x = Replayed))
    \<and> (\<forall>fr d'. fail_extraction_tx l c retryable (effective_clock clock n) d = Inr (fr, d')
          \<longrightarrow> fr = Lease_lost \<and> d' = d)"
  using heartbeat_extraction_stale [OF assms] defer_extraction_stale [OF assms]
    complete_extraction_stale [OF assms] fail_extraction_stale [OF assms] by blast

theorem extraction_stale_inert_witness:
  "defer_extraction sample_xlease No_override 23000 extracting_db = Inr (Defer_lease_lost, extracting_db)"
proof -
  have stale: "extraction_lease_stale extracting_db sample_xlease (effective_clock No_override 23000)"
    by code_simp
  have "map_sum id fst (defer_extraction sample_xlease No_override 23000 extracting_db)
      = Inr Defer_lease_lost" by code_simp
  then obtain d3 where d3: "defer_extraction sample_xlease No_override 23000 extracting_db
      = Inr (Defer_lease_lost, d3)" by (auto simp: map_sum_Inr_iff)
  with extraction_stale_inert [OF stale] d3 show ?thesis by blast
qed

text \<open>
  A deferral undoes its claim: after a claim and a deferral of its lease the attempt table is
  the one the claim started from (the expired attempt of a reaped job stays closed), and the job
  row is the one before the claim but for being retried in five seconds: its attempt is given back.
\<close>

theorem deferral_undoes_claim:
  assumes "queue_ok (queue_of d)"
    and "claim_extraction_tx env w pv e ttl q now d = Inr (Claimed l, d1)"
    and "defer_extraction l clock n d1 = Inr (Deferred, d2)"
  shows "\<exists>job \<in> set (jobs d). j_id job = xl_jobId l
     \<and> jobs d2 = update_rows (same_job job)
         (retry_row (effective_clock clock n + 5000) ''extraction_service_busy''
            ''The text extraction request was deferred before admission.'') (jobs d)
     \<and> attempts d2 =
         (if j_status job = J_RUNNING
          then attempts (close_expired_extraction job J_FAILED now d) else attempts d)"
  using defer_undoes_claim [OF assms]
  by (auto simp: deferred_row_def admission_retry_delay_ms_def extraction_claim_base_def)

theorem deferral_undoes_claim_witness:
  "\<exists>d2. defer_extraction sample_xlease No_override 3001 extracting_db = Inr (Deferred, d2)
     \<and> length (attempts d2) = length (attempts validated_db)"
proof -
  have "map_sum id fst (defer_extraction sample_xlease No_override 3001 extracting_db) = Inr Deferred"
    by code_simp
  then obtain d2 where d2: "defer_extraction sample_xlease No_override 3001 extracting_db = Inr (Deferred, d2)"
    by (auto simp: map_sum_Inr_iff)
  from deferral_undoes_claim [OF validated_queue_ok sample_xclaim d2] d2 show ?thesis
    by (auto simp: close_expired_extraction_def)
qed

text \<open>
  C22. What an applied completion stores is what was attested: the job SUCCEEDED, one new extraction
  row, and, read back in sequence order, exactly the attested chunks with their hashes; the stored
  extraction matches the attestation, and the four lifecycle carriers agree on READY.
\<close>

theorem extraction_completion_stored:
  assumes "assert_extraction_attestation nfc a = Inr u" "chunks_owned d"
    and "complete_extraction_tx sha256 newId l a now d = Inr (Some r, d')" "xr_outcome r = Applied"
  shows "\<exists>job. List.find (job_key (xl_organizationId l) (xl_jobId l)) (jobs d')
           = Some (succeed_row now (extraction_job_result newId a) job)
     \<and> extractions d' = extractions d @ [extraction_row_of newId l a now]
     \<and> stored_chunks d' (extraction_row_of newId l a now) = map (chunk_row_of sha256 newId l) (xa_chunks a)
     \<and> extraction_matches sha256 (extraction_row_of newId l a now)
         (stored_chunks d' (extraction_row_of newId l a now)) a
     \<and> lifecycle_agrees d' (extraction_authority_key l) desired_ready"
  by (rule extraction_completion_effects [OF assms])

lemma sample_chunks_owned: "chunks_owned extracting_db"
  by (simp add: chunks_owned_def extracting_db_def validated_db_def scanning_db_def upload_db_def)

lemma sample_applied: "xr_outcome sample_completion_result = Applied"
  by (simp add: sample_completion_result_def)

theorem extraction_completion_stored_witness:
  "lifecycle_agrees extracted_db (extraction_authority_key sample_xlease) desired_ready"
  using extraction_completion_stored [OF sample_xattestation_ok sample_chunks_owned sample_xcompletion
      sample_applied] by blast

text \<open>
  Completion is idempotent once the database has sealed the extraction: after an applied
  completion, completing again with the same lease and attestation answers "replayed" with the
  stored extraction and changes nothing, provided an admission row seals exactly this extraction.
\<close>

theorem extraction_completion_replay:
  assumes "assert_extraction_attestation nfc a = Inr u" "chunks_owned d"
    and "complete_extraction_tx sha256 newId l a now d = Inr (Some r, d')" "xr_outcome r = Applied"
    and "admission_seals m (extraction_row_of newId l a now)"
  shows "complete_extraction_tx sha256 newId' l a now' (admitted d' m)
    = Inr (Some (r\<lparr>xr_outcome := Replayed\<rparr>), admitted d' m)"
  by (rule extraction_replay [OF assms])

theorem extraction_completion_replay_witness:
  "complete_extraction_tx sample_sha256 ''f9'' sample_xlease sample_xattestation 99999
      (admitted extracted_db sample_admission)
    = Inr (Some (sample_completion_result\<lparr>xr_outcome := Replayed\<rparr>), admitted extracted_db sample_admission)"
proof -
  have "admission_seals sample_admission (extraction_row_of ''f1'' sample_xlease sample_xattestation 3300)"
    by code_simp
  from extraction_completion_replay [OF sample_xattestation_ok sample_chunks_owned sample_xcompletion
      sample_applied this] show ?thesis .
qed

text \<open>
  Failure of a held extraction lease: retried exactly when the caller allows it and an attempt is
  left, 5 seconds to 15 minutes later with the intake back at EXTRACTING; otherwise the job is
  dead-lettered and the intake, its command, batch and Inbox entry agree on ATTENTION with the code.
\<close>

theorem extraction_failure_policy:
  assumes "fail_extraction_tx l c retryable now d = Inr (res, d')" "res \<noteq> Lease_lost"
  shows "\<exists>job row w. List.find (job_key (xl_organizationId l) (xl_jobId l)) (jobs d) = Some job
     \<and> List.find (job_key (xl_organizationId l) (xl_jobId l)) (jobs d') = Some row
     \<and> j_attempts row = j_attempts job \<and> j_leaseId row = None \<and> j_leaseExpiresAt row = None
     \<and> j_lastErrorCode row = Some (extraction_failure_code c)
     \<and> lifecycle_agrees d' (extraction_authority_key l) w
     \<and> (if retryable \<and> j_attempts job < j_maxAttempts job
        then res = Retrying \<and> j_status row = J_RETRYING \<and> j_completedAt row = None
          \<and> now + 5000 \<le> j_runAfter row \<and> j_runAfter row \<le> now + 900000
          \<and> w_intakeStatus w = EXTRACTING
        else res = Dead_letter \<and> j_status row = J_DEAD_LETTER \<and> j_completedAt row = Some now
          \<and> w_intakeStatus w = ATTENTION \<and> w_failureCode w = Some (extraction_failure_code c))"
  by (rule extraction_failure_effects [OF assms])

theorem extraction_failure_policy_witness:
  "\<exists>d' row. fail_extraction_tx sample_xlease Extraction_resource_limit False 3300 extracting_db
       = Inr (Dead_letter, d')
     \<and> List.find (job_key ''o'' ''j2'') (jobs d') = Some row \<and> j_leaseId row = None
     \<and> j_lastErrorCode row = Some ''extraction_resource_limit''"
proof -
  have "map_sum id fst (fail_extraction_tx sample_xlease Extraction_resource_limit False 3300 extracting_db)
      = Inr Dead_letter" by code_simp
  then obtain d' where d': "fail_extraction_tx sample_xlease Extraction_resource_limit False 3300 extracting_db
      = Inr (Dead_letter, d')" by (auto simp: map_sum_Inr_iff)
  from extraction_failure_policy [OF d'] show ?thesis using d'
    by (auto simp: sample_xlease_def)
qed

end
