(* ===== verification/Extraction_Authority.thy ===== *)
theory Extraction_Authority
  imports Extraction_Effects
begin

text \<open>
  \<open>src/server/documents/extraction-authority.ts\<close>: the checks a stored extraction passes before its
  text is shown, and the state a document's extraction is shown in. What the query of
  \<open>getDocumentExtractionLifecycles\<close> answers for one document is an \<open>extraction_view\<close>; the query itself
  is in \<open>Extraction_Query\<close>. A chunk is paired with its own identifier, which \<open>chunk_row\<close> does not hold.
  Dates are always valid here, \<open>sequence\<close> columns are integers.
\<close>

definition max_authority_duration :: int where "max_authority_duration = 180000"
definition max_job_attempts :: int where "max_job_attempts = 1000000"
definition max_paragraph_id_length :: int where "max_paragraph_id_length = 64"

text \<open>\<open>PAPERPILOT_EXTRACTION_POLICY_VERSION\<close>, when the environment sets it.\<close>

definition authoritative_extraction_policy_version :: "string option \<Rightarrow> tx_error + string" where
  "authoritative_extraction_policy_version configured =
     (let value = (case configured of None \<Rightarrow> extraction_policy_version | Some s \<Rightarrow> s)
      in if policy_value_pattern value then Inr value
         else Inl (Error ''PAPERPILOT_EXTRACTION_POLICY_VERSION is invalid for extraction authority.''))"

section \<open>The job's payload\<close>

definition current_extraction_job_payload ::
    "json \<Rightarrow> attestation_row \<Rightarrow> string \<Rightarrow> extraction_payload option" where
  "current_extraction_job_payload value v policyVersion =
     (case json_object value of
        None \<Rightarrow> None
      | Some payload \<Rightarrow>
          if \<not> exact_keys payload [''schemaVersion'', ''source'', ''validationAttestationId'',
                 ''policyVersion'', ''storageVersion'', ''toolchainDigest'']
             \<or> field payload ''schemaVersion'' \<noteq> Some (jint 1)
             \<or> field payload ''source'' \<noteq> Some (JStr ''accepted-document-validation'')
             \<or> field payload ''validationAttestationId'' \<noteq> Some (JStr (v_id v))
             \<or> field payload ''policyVersion'' \<noteq> Some (JStr policyVersion)
             \<or> field payload ''storageVersion'' \<noteq> Some (JStr (v_storageVersion v))
          then None
          else (case str_field nonzero_digest (field payload ''toolchainDigest'') of
                  None \<Rightarrow> None
                | Some digest \<Rightarrow>
                    Some \<lparr>ep_validationAttestationId = v_id v, ep_policyVersion = policyVersion,
                          ep_storageVersion = v_storageVersion v, ep_toolchainDigest = digest\<rparr>))"

section \<open>The generation\<close>

definition extraction_result_is_sound :: "extraction_row \<Rightarrow> bool" where
  "extraction_result_is_sound f \<longleftrightarrow>
     (case json_object (f_result f) of
        None \<Rightarrow> False
      | Some result \<Rightarrow>
          exact_keys result [''schemaVersion'', ''engine'', ''engineVersion'', ''extractedAt'',
            ''completedAt'', ''durationMs'', ''totalDurationMs'']
          \<and> field result ''schemaVersion'' = Some (jint 1)
          \<and> field result ''engine'' = Some (JStr ''poppler'')
          \<and> field result ''engineVersion'' = Some (JStr (f_engineVersion f))
          \<and> field result ''extractedAt'' = Some (JStr (iso_format (f_extractedAt f)))
          \<and> field result ''completedAt'' = Some (JStr (iso_format (f_completedAt f)))
          \<and> field result ''durationMs'' = Some (JNum (f_durationMs f))
          \<and> field result ''totalDurationMs'' = Some (JNum (f_totalDurationMs f)))"

definition locator_is_sound :: "json \<Rightarrow> jnum \<Rightarrow> string \<Rightarrow> bool" where
  "locator_is_sound v pageNumber paragraphId \<longleftrightarrow>
     (case json_object v of
        None \<Rightarrow> False
      | Some locator \<Rightarrow>
          exact_keys locator [''schemaVersion'', ''kind'', ''pageNumber'', ''paragraphId'']
          \<and> field locator ''schemaVersion'' = Some (jint 1)
          \<and> field locator ''kind'' = Some (JStr ''pdf-text'')
          \<and> field locator ''pageNumber'' = Some (JNum pageNumber)
          \<and> field locator ''paragraphId'' = Some (JStr paragraphId))"

text \<open>\<open>generation.job\<close> and \<open>generation.jobAttempt\<close> are the arguments \<open>j\<close> and \<open>t\<close>.\<close>

definition extraction_generation_is_sound ::
    "extraction_row \<Rightarrow> job \<Rightarrow> job_attempt \<Rightarrow> attestation_row \<Rightarrow> string \<Rightarrow> bool" where
  "extraction_generation_is_sound f j t v policyVersion \<longleftrightarrow>
     f_validationAttestationId f = v_id v
     \<and> valid_opaque_id (f_id f) \<and> valid_opaque_id (f_jobId f) \<and> valid_opaque_id (f_jobAttemptId f)
     \<and> valid_opaque_id (f_validationAttestationId f)
     \<and> f_documentId f = v_documentId v \<and> f_assetId f = v_assetId v
     \<and> f_inputSha256 f = v_inputSha256 v \<and> f_inputSizeBytes f = v_inputSizeBytes v
     \<and> f_storageVersion f = v_storageVersion v \<and> f_extractionPolicyVersion f = policyVersion
     \<and> nonzero_digest (f_toolchainDigest f)
     \<and> f_engine f = ''poppler'' \<and> safe_value_pattern (f_engineVersion f)
     \<and> v_pageCount v = Some (f_pageCount f)
     \<and> bounded_integer 0 max_extracted_chunk_count (f_chunkCount f)
     \<and> bounded_integer 0 max_extracted_text_bytes (f_textBytes f)
     \<and> v_checkedAt v \<le> f_extractedAt f \<and> f_extractedAt f \<le> f_completedAt f
     \<and> f_completedAt f \<le> f_checkedAt f
     \<and> bounded_integer 0 max_authority_duration (f_durationMs f)
     \<and> bounded_integer (num_val (f_durationMs f)) max_authority_duration (f_totalDurationMs f)
     \<and> j_id j = f_jobId f \<and> j_type j = TEXT_EXTRACTION \<and> j_status j = J_SUCCEEDED
     \<and> j_documentId j = Some (f_documentId f) \<and> j_assetId j = Some (f_assetId f)
     \<and> t_id t = f_jobAttemptId f \<and> t_jobId t = f_jobId f \<and> t_status t = J_SUCCEEDED
     \<and> extraction_result_is_sound f"

definition extraction_manifest_admission_is_sound ::
    "manifest_admission \<Rightarrow> extraction_row \<Rightarrow> ident \<Rightarrow> bool" where
  "extraction_manifest_admission_is_sound m f organizationId \<longleftrightarrow>
     m_org m = organizationId \<and> m_documentId m = f_documentId f \<and> m_extractionId m = f_id f
     \<and> m_schemaVersion m = 1 \<and> m_verdict m = f_verdict f \<and> m_pageCount m = f_pageCount f
     \<and> m_chunkCount m = f_chunkCount f \<and> m_textBytes m = f_textBytes f
     \<and> nonzero_digest (m_manifestSha256 m)"

section \<open>The chunks\<close>

definition paragraph_identity :: "chunk_row \<Rightarrow> (int \<times> int) option" where
  "paragraph_identity h =
     (case h_paragraphId h of
        None \<Rightarrow> None
      | Some s \<Rightarrow>
          if max_paragraph_id_length < js_length s then None
          else (case parse_paragraph_id s of
                  None \<Rightarrow> None
                | Some (page, ordinal) \<Rightarrow>
                    if page \<le> max_safe_integer \<and> ordinal \<le> max_safe_integer
                       \<and> h_pageStart h = Some (NInt page)
                       \<and> 1 \<le> ordinal \<and> ordinal \<le> max_extracted_chunk_count
                    then Some (page, ordinal) else None))"

definition extraction_chunk_is_sound ::
    "(string \<Rightarrow> string) \<Rightarrow> (string \<Rightarrow> string) \<Rightarrow> extraction_row \<Rightarrow> ident \<times> chunk_row \<Rightarrow> bool" where
  "extraction_chunk_is_sound nfc sha256 f c \<longleftrightarrow>
     (let h = snd c in
      bounded_integer 0 (num_val (f_chunkCount f) - 1) (h_sequence h)
      \<and> valid_opaque_id (fst c)
      \<and> bounded_count 1 (num_val (f_pageCount f)) (h_pageStart h)
      \<and> h_pageEnd h = h_pageStart h \<and> h_sectionId h = None \<and> h_sectionTitle h = None
      \<and> h_charStart h = None \<and> h_charEnd h = None
      \<and> paragraph_identity h \<noteq> None
      \<and> canonical_text nfc (h_text h) \<and> 1 \<le> utf8_bytes (h_text h)
      \<and> sha256 (h_text h) = h_contentHash h
      \<and> (case (h_pageStart h, h_paragraphId h) of
           (Some page, Some paragraph) \<Rightarrow> locator_is_sound (h_locator h) page paragraph
         | _ \<Rightarrow> False))"

definition extraction_chunk_transition_is_sound :: "chunk_row \<Rightarrow> chunk_row \<Rightarrow> bool" where
  "extraction_chunk_transition_is_sound previous current \<longleftrightarrow>
     (case (paragraph_identity previous, paragraph_identity current) of
        (Some (p, q), Some (p', q')) \<Rightarrow>
          h_sequence current = NInt (num_val (h_sequence previous) + 1)
          \<and> p \<le> p' \<and> (if p' = p then q' = q \<or> q' = q + 1 else q' = 1)
      | _ \<Rightarrow> False)"

text \<open>The loop over the chunks: the measured byte total, or None where it returns false.\<close>

fun extraction_chunks_measured ::
    "(string \<Rightarrow> string) \<Rightarrow> (string \<Rightarrow> string) \<Rightarrow> extraction_row \<Rightarrow> (ident \<times> chunk_row) list \<Rightarrow> int
      \<Rightarrow> chunk_row option \<Rightarrow> int \<Rightarrow> int option" where
  "extraction_chunks_measured nfc sha256 f [] index previous measured = Some measured"
| "extraction_chunks_measured nfc sha256 f (c # cs) index previous measured =
     (if h_sequence (snd c) \<noteq> NInt index \<or> \<not> extraction_chunk_is_sound nfc sha256 f c then None
      else (case paragraph_identity (snd c) of
              None \<Rightarrow> None
            | Some (page, ordinal) \<Rightarrow>
                if (index = 0 \<and> ordinal \<noteq> 1)
                   \<or> (case previous of
                        None \<Rightarrow> False
                      | Some h \<Rightarrow> \<not> extraction_chunk_transition_is_sound h (snd c))
                then None
                else if max_extracted_text_bytes < measured + utf8_bytes (h_text (snd c)) then None
                else extraction_chunks_measured nfc sha256 f cs (index + 1) (Some (snd c))
                       (measured + utf8_bytes (h_text (snd c)))))"

definition extraction_chunks_are_sound ::
    "(string \<Rightarrow> string) \<Rightarrow> (string \<Rightarrow> string) \<Rightarrow> extraction_row \<Rightarrow> (ident \<times> chunk_row) list \<Rightarrow> bool" where
  "extraction_chunks_are_sound nfc sha256 f cs \<longleftrightarrow>
     NInt (int (length cs)) = f_chunkCount f
     \<and> (case f_verdict f of
          NO_TEXT \<Rightarrow> f_chunkCount f = NInt 0 \<and> f_textBytes f = NInt 0
        | EXTRACTED \<Rightarrow>
            1 \<le> num_val (f_chunkCount f) \<and> 1 \<le> num_val (f_textBytes f)
            \<and> (case extraction_chunks_measured nfc sha256 f cs 0 None 0 of
                 None \<Rightarrow> False
               | Some measured \<Rightarrow> NInt measured = f_textBytes f))"

section \<open>The state a document is shown in\<close>

datatype job_authority_state = Job_queued | Job_extracting | Job_succeeded | Job_failed

definition authoritative_extraction_job_state :: "job_status \<Rightarrow> int \<Rightarrow> int \<Rightarrow> job_authority_state" where
  "authoritative_extraction_job_state status made allowed =
     (if \<not> (0 \<le> made \<and> made \<le> max_job_attempts)
         \<or> \<not> (1 \<le> allowed \<and> allowed \<le> max_job_attempts) then Job_failed
      else if status = J_QUEUED then (if made < allowed then Job_queued else Job_failed)
      else if status = J_RETRYING
        then (if 1 \<le> made \<and> made < allowed then Job_queued else Job_failed)
      else if status = J_RUNNING
        then (if 1 \<le> made \<and> made \<le> allowed then Job_extracting else Job_failed)
      else if status = J_SUCCEEDED
        then (if 1 \<le> made \<and> made \<le> allowed then Job_succeeded else Job_failed)
      else Job_failed)"

datatype extraction_state =
    Shown_unavailable | Shown_not_started | Shown_queued | Shown_extracting | Shown_ready | Shown_no_text | Shown_failed

record extraction_lifecycle =
  el_documentId :: ident
  el_state :: extraction_state
  el_extractionId :: "ident option"
  el_manifestSha256 :: "string option"

definition plain_lifecycle :: "ident \<Rightarrow> extraction_state \<Rightarrow> extraction_lifecycle" where
  "plain_lifecycle i s =
     \<lparr>el_documentId = i, el_state = s, el_extractionId = None, el_manifestSha256 = None\<rparr>"

text \<open>
  What the query reads of one document: its at most two newest ORIGINAL assets, its newest
  validation attestation with its job and attempt, its newest extraction job under the current
  policy, and that job's newest extraction with its job, attempt and admission.
\<close>

record extraction_view =
  ev_document :: document
  ev_assets :: "asset list"
  ev_validation :: "(attestation_row \<times> job \<times> job_attempt) option"
  ev_job :: "job option"
  ev_generation :: "(extraction_row \<times> job \<times> job_attempt \<times> manifest_admission option) option"

text \<open>The last checks, of a job that succeeded; None stands for the failed state.\<close>

definition admitted_generation ::
    "ident \<Rightarrow> string \<Rightarrow> attestation_row \<Rightarrow> job \<Rightarrow> extraction_payload \<Rightarrow> extraction_view
      \<Rightarrow> (extraction_row \<times> manifest_admission) option" where
  "admitted_generation organizationId policyVersion v job payload w =
     (case ev_generation w of
        None \<Rightarrow> None
      | Some (f, j, t, admission) \<Rightarrow>
          if f_validationAttestationId f \<noteq> v_id v \<or> f_jobId f \<noteq> j_id job
             \<or> f_toolchainDigest f \<noteq> ep_toolchainDigest payload
             \<or> \<not> extraction_generation_is_sound f j t v policyVersion
          then None
          else (case admission of
                  None \<Rightarrow> None
                | Some m \<Rightarrow>
                    if extraction_manifest_admission_is_sound m f organizationId then Some (f, m)
                    else None))"

definition extraction_job_lifecycle ::
    "ident \<Rightarrow> string \<Rightarrow> attestation_row \<Rightarrow> asset \<Rightarrow> job \<Rightarrow> extraction_view \<Rightarrow> extraction_lifecycle" where
  "extraction_job_lifecycle organizationId policyVersion v a job w =
     (let i = d_id (ev_document w);
          jobState = authoritative_extraction_job_state (j_status job) (j_attempts job) (j_maxAttempts job)
      in case current_extraction_job_payload (j_payload job) v policyVersion of
           None \<Rightarrow> plain_lifecycle i Shown_failed
         | Some payload \<Rightarrow>
             if \<not> valid_opaque_id (j_id job) \<or> j_type job \<noteq> TEXT_EXTRACTION
                \<or> j_documentId job \<noteq> Some i \<or> j_assetId job \<noteq> Some (a_id a)
                \<or> jobState = Job_failed
             then plain_lifecycle i Shown_failed
             else if jobState = Job_queued then plain_lifecycle i Shown_queued
             else if jobState = Job_extracting then plain_lifecycle i Shown_extracting
             else (case admitted_generation organizationId policyVersion v job payload w of
                     None \<Rightarrow> plain_lifecycle i Shown_failed
                   | Some (f, m) \<Rightarrow>
                       \<lparr>el_documentId = i,
                        el_state = (if f_verdict f = NO_TEXT then Shown_no_text else Shown_ready),
                        el_extractionId = Some (f_id f),
                        el_manifestSha256 = Some (m_manifestSha256 m)\<rparr>))"

text \<open>One document of the answer; the loop's \<open>continue\<close> leaves it unavailable.\<close>

definition document_extraction_lifecycle ::
    "ident \<Rightarrow> string \<Rightarrow> extraction_view \<Rightarrow> extraction_lifecycle" where
  "document_extraction_lifecycle organizationId policyVersion w =
     (case (ev_assets w, ev_validation w) of
        ([a], Some (v, vj, vt)) \<Rightarrow>
          if \<not> current_accepted_validation v vj vt (ev_document w) a False
          then plain_lifecycle (d_id (ev_document w)) Shown_unavailable
          else (case ev_job w of
                  None \<Rightarrow> plain_lifecycle (d_id (ev_document w)) Shown_not_started
                | Some job \<Rightarrow> extraction_job_lifecycle organizationId policyVersion v a job w)
      | _ \<Rightarrow> plain_lifecycle (d_id (ev_document w)) Shown_unavailable)"

definition document_extraction_lifecycles ::
    "ident \<Rightarrow> string \<Rightarrow> ident list \<Rightarrow> extraction_view list \<Rightarrow> ident \<rightharpoonup> extraction_lifecycle" where
  "document_extraction_lifecycles organizationId policyVersion documentIds views =
     fold (\<lambda>w m. m(d_id (ev_document w) \<mapsto> document_extraction_lifecycle organizationId policyVersion w))
       views (map_of (map (\<lambda>i. (i, plain_lifecycle i Shown_unavailable)) documentIds))"

section \<open>Paragraph identifiers stay short\<close>

lemma positive_decimal_grows:
  assumes "positive_decimal s"
  shows "10 ^ (length s - 1) \<le> digits_val s"
proof -
  obtain c t where s: "s = c # t" using assms by (cases s) (auto simp: positive_decimal_def)
  then have t: "list_all is_digit t" using assms by (simp add: positive_decimal_def)
  have "positive_decimal [c]" using assms by (simp add: s positive_decimal_def)
  then have c: "1 \<le> digits_val [c]" by (rule positive_decimal_pos)
  from t have "10 ^ length t * digits_val [c] \<le> digits_val (c # t)"
  proof (induction t rule: rev_induct)
    case (snoc x u)
    then have "10 ^ length u * digits_val [c] \<le> digits_val (c # u)" "0 \<le> digit_val x"
      using digit_val_nonneg [of x] by simp_all
    then show ?case using digits_val_snoc [of "c # u" x] by simp
  qed simp
  with c have "(10::int) ^ length t \<le> digits_val (c # t)"
    by (smt (verit) mult_le_cancel_left1 zero_less_power)
  then show ?thesis by (simp add: s)
qed

lemma positive_decimal_short:
  assumes "positive_decimal s" "digits_val s < 10 ^ n"
  shows "length s \<le> n"
proof (rule ccontr)
  assume "\<not> length s \<le> n"
  then have "(10::int) ^ n \<le> 10 ^ (length s - 1)" by (intro power_increasing) simp_all
  with positive_decimal_grows [OF assms(1)] assms(2) show False by linarith
qed

lemma js_length_le: "js_length s \<le> 2 * int (length s)"
  by (induction s) auto

lemma parse_paragraph_id_length:
  assumes "parse_paragraph_id s = Some (p, q)" "p < 10 ^ n" "q < 10 ^ n"
  shows "length s \<le> 2 * n + 3"
proof -
  let ?rest = "dropWhile is_digit (drop 1 s)"
  let ?page = "takeWhile is_digit (drop 1 s)"
  from assms(1) have *: "take 1 s = ''p''" "take 2 ?rest = ''-p''" "positive_decimal ?page"
    "positive_decimal (drop 2 ?rest)" "p = digits_val ?page" "q = digits_val (drop 2 ?rest)"
    by (auto simp: parse_paragraph_id_def Let_def split: if_splits)
  have "length ?page \<le> n" "length (drop 2 ?rest) \<le> n"
    using positive_decimal_short [OF *(3), of n] positive_decimal_short [OF *(4), of n] assms(2,3) *(5,6)
    by simp_all
  moreover have "length (drop 1 s) = length ?page + length ?rest"
    by (metis length_append takeWhile_dropWhile_id)
  ultimately show ?thesis by simp
qed

text \<open>A place the completion accepts is one the authority reads back.\<close>

lemma paragraph_identity_of_chunk:
  assumes "parse_paragraph_id (xc_paragraphId c) = Some (p, q)" "xc_pageNumber c = NInt p"
    and "1 \<le> q" "q \<le> max_extracted_chunk_count" "p \<le> max_extracted_page_count"
  shows "paragraph_identity (chunk_row_of sha256 i l c) = Some (p, q)"
proof -
  have "p < 10 ^ 4" "q < 10 ^ 4"
    using assms(4,5) unfolding max_extracted_chunk_count_def max_extracted_page_count_def by auto
  then have "length (xc_paragraphId c) \<le> 2 * 4 + 3"
    by (rule parse_paragraph_id_length [OF assms(1)])
  then have "js_length (xc_paragraphId c) \<le> max_paragraph_id_length"
    using js_length_le [of "xc_paragraphId c"] by (simp add: max_paragraph_id_length_def)
  with assms show ?thesis
    by (simp add: paragraph_identity_def chunk_row_of_def max_safe_integer_def
        max_extracted_chunk_count_def max_extracted_page_count_def)
qed

section \<open>The chunks of a completion\<close>

lemma stored_locator_is_sound: "locator_is_sound (JObj (chunk_locator c)) (xc_pageNumber c) (xc_paragraphId c)"
  by (simp add: locator_is_sound_def chunk_locator_def exact_keys_def obj_keys_def field_def)

lemma canonical_text_bytes: "canonical_text nfc s \<Longrightarrow> 1 \<le> utf8_bytes s"
  by (cases s) (auto simp: canonical_text_def utf8_bytes_def)

lemma stored_chunk_is_sound:
  assumes "chunk_at c (p, q)" "xc_sequence c = NInt i" "0 \<le> i" "i < n" "canonical_text nfc (xc_text c)"
    and "1 \<le> p" "p \<le> P" "P \<le> max_extracted_page_count" "1 \<le> q" "q \<le> n" "n \<le> max_extracted_chunk_count"
    and "f_chunkCount f = NInt n" "f_pageCount f = NInt P"
  shows "paragraph_identity (chunk_row_of sha256 k l c) = Some (p, q)
    \<and> (extraction_chunk_is_sound nfc sha256 f (x, chunk_row_of sha256 k l c) \<longleftrightarrow> valid_opaque_id x)"
proof -
  have at: "parse_paragraph_id (xc_paragraphId c) = Some (p, q)" "xc_pageNumber c = NInt p"
    using assms(1) by (simp_all add: chunk_at_def)
  have pi: "paragraph_identity (chunk_row_of sha256 k l c) = Some (p, q)"
    using assms at by (intro paragraph_identity_of_chunk) simp_all
  moreover have "bounded_integer 0 (n - 1) (NInt i)" "bounded_integer 1 P (NInt p)"
    using assms by (simp_all add: max_safe_integer_def max_extracted_chunk_count_def max_extracted_page_count_def)
  moreover have "i \<le> max_safe_integer" "p \<le> max_safe_integer"
    using assms by (simp_all add: max_safe_integer_def max_extracted_chunk_count_def max_extracted_page_count_def)
  ultimately show ?thesis
    using assms(2,5,12,13) at stored_locator_is_sound [of c] canonical_text_bytes [OF assms(5)]
    by (simp add: extraction_chunk_is_sound_def chunk_row_of_def)
qed

text \<open>What the loop knows of the chunk before: its place and its sequence number.\<close>

fun previous_chunk_at :: "int \<Rightarrow> int \<times> int \<Rightarrow> chunk_row option \<Rightarrow> bool" where
  "previous_chunk_at index prev None \<longleftrightarrow> index = 0 \<and> prev = (0, 0)"
| "previous_chunk_at index prev (Some h) \<longleftrightarrow>
     0 < index \<and> paragraph_identity h = Some prev \<and> h_sequence h = NInt (index - 1)"

lemma follows_transition:
  assumes "previous_chunk_at i prev ph" "paragraph_follows prev p q" "fst prev \<le> p" "1 \<le> p"
    and "paragraph_identity h = Some (p, q)" "h_sequence h = NInt i"
  shows "i = 0 \<Longrightarrow> q = 1" and "ph = Some h' \<Longrightarrow> extraction_chunk_transition_is_sound h' h"
proof -
  obtain p0 q0 where prev: "prev = (p0, q0)" by (cases prev)
  show "q = 1" if "i = 0"
    using assms(1-4) that by (cases ph) (auto simp: paragraph_follows_def)
  show "extraction_chunk_transition_is_sound h' h" if "ph = Some h'"
    using assms by (simp add: that prev extraction_chunk_transition_is_sound_def paragraph_follows_def)
qed

lemma stored_chunks_measured:
  assumes "assert_extraction_chunks nfc P cs i prev m = Inr tot" "previous_chunk_at i prev ph"
    and "0 \<le> i" "snd prev \<le> i" "n = i + int (length cs)" "n \<le> max_extracted_chunk_count"
    and "P \<le> max_extracted_page_count" "f_chunkCount f = NInt n" "f_pageCount f = NInt P"
    and "length ids = length cs"
  shows "extraction_chunks_measured nfc sha256 f (zip ids (map (chunk_row_of sha256 k l) cs)) i ph m
    = (if list_all valid_opaque_id ids then Some tot else None)"
  using assms
proof (induction cs arbitrary: i prev m ph ids)
  case Nil
  then show ?case by simp
next
  case (Cons c cs)
  from Cons.prems(10) obtain x xs where ids: "ids = x # xs" "length xs = length cs" by (cases ids) auto
  from Cons.prems(1) obtain bytes pos where
    c: "assert_extraction_chunk nfc c i P prev = Inr (bytes, pos)"
    and le: "m + bytes \<le> max_extracted_text_bytes"
    and rest: "assert_extraction_chunks nfc P cs (i + 1) pos (m + bytes) = Inr tot"
    by (auto simp: and_then_Inr_iff)
  from c obtain p q where pos: "pos = (p, q)" and ca: "chunk_at c pos" and s: "xc_sequence c = NInt i"
    and pq: "1 \<le> p" "p \<le> P" "1 \<le> q" "fst prev \<le> p" "paragraph_follows prev p q"
    and b: "bytes = utf8_bytes (xc_text c)" and ct: "canonical_text nfc (xc_text c)"
    by (rule assert_chunkE)
  let ?h = "chunk_row_of sha256 k l c"
  have q: "q \<le> i + 1" using pq(5) Cons.prems(3,4) by (auto simp: paragraph_follows_def)
  have h: "paragraph_identity ?h = Some (p, q)"
    "extraction_chunk_is_sound nfc sha256 f (x, ?h) = valid_opaque_id x"
    using stored_chunk_is_sound [of c p q i n nfc P f sha256 k l x] ca [unfolded pos] s Cons.prems(3,5-9) pq ct q
    by simp_all
  have seq: "h_sequence ?h = NInt i" "h_text ?h = xc_text c" by (simp_all add: chunk_row_of_def s)
  note tr = follows_transition [OF Cons.prems(2) pq(5,4,1) h(1) seq(1)]
  have "extraction_chunks_measured nfc sha256 f (zip xs (map (chunk_row_of sha256 k l) cs)) (i + 1)
      (Some ?h) (m + bytes) = (if list_all valid_opaque_id xs then Some tot else None)"
    using rest
    by (rule Cons.IH) (use Cons.prems(3,5-9) ids(2) h(1) seq(1) pos q in simp_all)
  with h seq tr le b show ?case
    by (cases "i = 0"; cases ph) (simp_all add: ids)
qed

lemma stored_chunks_are_sound:
  assumes att: "assert_extraction_attestation nfc a = Inr u" and len: "length ids = length (xa_chunks a)"
  shows "extraction_chunks_are_sound nfc sha256 (extraction_row_of newId l a now)
      (zip ids (map (chunk_row_of sha256 newId l) (xa_chunks a))) \<longleftrightarrow> list_all valid_opaque_id ids"
proof -
  from att obtain tot where h: "extraction_header_ok a"
    and c: "assert_extraction_chunks nfc (num_val (xa_pageCount a)) (xa_chunks a) 0 (0, 0) 0 = Inr tot"
    and t: "NInt tot = xa_textBytes a"
    and v: "if xa_verdict a = EXTRACTED
            then 1 \<le> num_val (xa_chunkCount a) \<and> 1 \<le> num_val (xa_textBytes a)
            else xa_chunkCount a = NInt 0 \<and> xa_textBytes a = NInt 0"
    by (auto simp: assert_extraction_attestation_def and_then_Inr_iff)
  from h have n: "xa_chunkCount a = NInt (int (length (xa_chunks a)))"
    "int (length (xa_chunks a)) \<le> max_extracted_chunk_count"
    and P: "bounded_integer 1 max_extracted_page_count (xa_pageCount a)"
    by (auto simp: extraction_header_ok_def)
  from P obtain P where P: "xa_pageCount a = NInt P" "P \<le> max_extracted_page_count"
    by (rule bounded_integerE)
  let ?f = "extraction_row_of newId l a now"
  have "extraction_chunks_measured nfc sha256 ?f (zip ids (map (chunk_row_of sha256 newId l) (xa_chunks a))) 0 None 0
      = (if list_all valid_opaque_id ids then Some tot else None)"
    by (rule stored_chunks_measured [OF c]) (use n P len in \<open>simp_all add: extraction_row_of_def\<close>)
  moreover have "xa_chunkCount a = NInt 0 \<Longrightarrow> ids = []" using n len by simp
  moreover have "f_chunkCount ?f = xa_chunkCount a" "f_textBytes ?f = xa_textBytes a" "f_verdict ?f = xa_verdict a"
    by (simp_all add: extraction_row_of_def)
  ultimately show ?thesis
    using v n t len by (cases "xa_verdict a") (simp_all add: extraction_chunks_are_sound_def)
qed

section \<open>The state after a completion\<close>

text \<open>
  What the authority asks of a completion beyond what the completion checks: identifiers of the
  bounded alphabet, the current policy, a job budget in range, and a service clock that reads at or
  after the validation and at or before the completion.
\<close>

definition shown_after_completion ::
    "string \<Rightarrow> ident \<Rightarrow> extraction_lease \<Rightarrow> extraction_attestation \<Rightarrow> int \<Rightarrow> millis \<Rightarrow> millis \<Rightarrow> bool" where
  "shown_after_completion policyVersion newId l a maxAttempts checkedAt now \<longleftrightarrow>
     valid_opaque_id newId \<and> valid_opaque_id (xl_jobId l) \<and> valid_opaque_id (xl_jobAttemptId l)
     \<and> xl_policyVersion l = policyVersion \<and> maxAttempts \<le> max_job_attempts
     \<and> checkedAt \<le> the (xa_extractedAt a) \<and> the (xa_completedAt a) \<le> now"

lemma current_payload_parsed:
  assumes "parse_extraction_payload value = Some p"
  shows "current_extraction_job_payload value v policyVersion =
    (if ep_validationAttestationId p = v_id v \<and> ep_policyVersion p = policyVersion
        \<and> ep_storageVersion p = v_storageVersion v then Some p else None)"
proof -
  from assms obtain o1 where o1: "json_object value = Some o1"
    "exact_keys o1 [''schemaVersion'', ''source'', ''validationAttestationId'', ''policyVersion'',
           ''storageVersion'', ''toolchainDigest'']"
    "field o1 ''schemaVersion'' = Some (jint 1)"
    "field o1 ''source'' = Some (JStr ''accepted-document-validation'')"
    "field o1 ''validationAttestationId'' = Some (JStr (ep_validationAttestationId p))"
    "field o1 ''policyVersion'' = Some (JStr (ep_policyVersion p))"
    "field o1 ''storageVersion'' = Some (JStr (ep_storageVersion p))"
    "field o1 ''toolchainDigest'' = Some (JStr (ep_toolchainDigest p))"
    "nonzero_digest (ep_toolchainDigest p)"
    by (auto simp: parse_extraction_payload_def Option.bind_eq_Some_conv str_field_Some_iff split: if_splits)
  then show ?thesis
    by (cases p) (auto simp: current_extraction_job_payload_def)
qed

lemma stored_result_is_sound: "xa_engine a = ''poppler'' \<Longrightarrow> extraction_result_is_sound (extraction_row_of i l a now)"
  by (simp add: extraction_result_is_sound_def extraction_row_of_def extraction_result_def exact_keys_def
      obj_keys_def field_def)

lemma nonzero_payload_digest: "parse_extraction_payload value = Some p \<Longrightarrow> nonzero_digest (ep_toolchainDigest p)"
  using parse_extraction_payload_ok by (auto simp: extraction_payload_ok_def)

text \<open>The generation of a completion, against the validation its target holds.\<close>

lemma completed_generation_sound:
  assumes h: "extraction_header_ok a" and al: "extraction_completion_allowed d l a now job"
    and key: "job_key (xl_organizationId l) (xl_jobId l) job"
    and p: "parse_extraction_payload (j_payload job) = Some p" and tl: "target_for_lease l g"
    and g: "authoritative_extraction_target d' job' p = Some (g\<lparr>xt_intake := k\<rparr>)"
    and job': "job_pipeline_key job' = job_pipeline_key job" "j_org job' = j_org job"
    and t: "t_id t = xl_jobAttemptId l" "t_jobId t = xl_jobId l"
  shows "extraction_generation_is_sound (extraction_row_of newId l a now) (succeed_row now res job)
      (succeed_attempt_row now res' t) (xt_validation g) policyVersion
    \<longleftrightarrow> shown_after_completion policyVersion newId l a 0 (v_checkedAt (xt_validation g)) now"
  using g
proof (rule authoritative_targetD)
  fix key' vj vt
  let ?v = "xt_validation g"
  assume *: "job_pipeline_key job' = Some key'"
    "List.find (document_key (j_org job') (ak_documentId key')) (documents d') = Some (xt_document (g\<lparr>xt_intake := k\<rparr>))"
    "List.find (asset_key (j_org job') (ak_assetId key')) (assets d') = Some (xt_asset (g\<lparr>xt_intake := k\<rparr>))"
    "v_pageCount (xt_validation (g\<lparr>xt_intake := k\<rparr>)) = Some (xt_pageCount (g\<lparr>xt_intake := k\<rparr>))"
    "v_storageVersion (xt_validation (g\<lparr>xt_intake := k\<rparr>)) = ep_storageVersion p"
    "current_accepted_validation (xt_validation (g\<lparr>xt_intake := k\<rparr>)) vj vt
       (xt_document (g\<lparr>xt_intake := k\<rparr>)) (xt_asset (g\<lparr>xt_intake := k\<rparr>)) False"
  from *(6) have c: "v_documentId ?v = d_id (xt_document g)" "v_assetId ?v = a_id (xt_asset g)"
    "valid_opaque_id (v_id ?v)"
    by (simp_all add: current_accepted_validation_def attestation_is_current_def)
  from al have cur: "extraction_lease_current l now job" and pl: "payload_for_lease l job"
    and fl: "attestation_for_extraction l a"
    by (simp_all add: extraction_completion_allowed_def extraction_held_def)
  have ids: "d_id (xt_document g) = xl_documentId l" "a_id (xt_asset g) = xl_assetId l"
    using find_SomeD [OF *(2)] find_SomeD [OF *(3)] job_pipeline_keyD(1,2) [of job] *(1) job' cur
    by (simp_all add: document_key_def asset_key_def extraction_lease_current_def)
  have dg: "nonzero_digest (xl_toolchainDigest l)" "ep_storageVersion p = xl_storageVersion l"
    using pl p nonzero_payload_digest [OF p] by (auto simp: payload_for_lease_def)
  from h obtain e2 c2 where dates: "xa_extractedAt a = Some e2" "xa_completedAt a = Some c2" "e2 \<le> c2"
    by (rule extraction_header_dates)
  note rs = stored_result_is_sound [of a newId l now]
  show ?thesis
    using h fl tl cur key t *(4,5) c ids dg dates rs
    by (auto simp: extraction_generation_is_sound_def shown_after_completion_def extraction_row_of_def
        extraction_header_ok_def attestation_for_extraction_def target_for_lease_def job_rows
        succeed_attempt_row_def extraction_lease_current_def job_key_def max_extraction_duration_ms_def
        max_authority_duration_def max_job_attempts_def)
qed

lemma held_attempt:
  assumes ok: "queue_ok (queue_of d)" and held: "extraction_held d l now job"
    and job: "List.find (job_key (xl_organizationId l) (xl_jobId l)) (jobs d) = Some job"
  obtains t where "List.find (attempt_key (xl_organizationId l) (xl_jobAttemptId l)) (attempts d) = Some t"
    "t_id t = xl_jobAttemptId l" "t_jobId t = xl_jobId l"
    "1 \<le> j_attempts job" "j_attempts job \<le> j_maxAttempts job"
proof -
  from held obtain t where t: "List.find (attempt_key (xl_organizationId l) (xl_jobAttemptId l)) (attempts d) = Some t"
    "t_jobId t = xl_jobId l" "t_attemptNumber t = j_attempts job"
    by (auto simp: extraction_held_def extraction_attempt_current_def extraction_lease_current_def
        attempt_current_def split: option.splits)
  from find_SomeD [OF t(1)] have "t_id t = xl_jobAttemptId l" "t \<in> set (attempts d)"
    by (simp_all add: attempt_key_def)
  moreover from this ok find_SomeD [OF job] have "attempt_ok (jobs d) t" "job_ok job"
    by (auto simp: queue_of_def list_all_iff)
  ultimately show thesis
    using t that by (auto simp: attempt_ok_def job_ok_def list_ex_iff)
qed

text \<open>The succeeded job of a completion, its generation sealed by \<open>m\<close>.\<close>

lemma completed_job_lifecycle:
  assumes "extraction_generation_is_sound f j t v policyVersion
      \<longleftrightarrow> shown_after_completion policyVersion newId l a 0 (v_checkedAt v) now"
    and "f = extraction_row_of newId l a now" "ev_generation w = Some (f, j, t, Some m)" "admission_seals m f"
    and "j = succeed_row now res job" "extraction_lease_current l now job" "payload_for_lease l job"
    and "job_key (xl_organizationId l) (xl_jobId l) job" "1 \<le> j_attempts job" "j_attempts job \<le> j_maxAttempts job"
    and "target_for_lease l g" "v = xt_validation g" "v_storageVersion v = xl_storageVersion l"
    and "d_id (ev_document w) = xl_documentId l" "a_id x = xl_assetId l" "attestation_for_extraction l a"
  shows "extraction_job_lifecycle (xl_organizationId l) policyVersion v x j w =
    (if shown_after_completion policyVersion newId l a (j_maxAttempts j) (v_checkedAt v) now
     then \<lparr>el_documentId = xl_documentId l,
           el_state = (if xa_verdict a = NO_TEXT then Shown_no_text else Shown_ready),
           el_extractionId = Some newId, el_manifestSha256 = Some (m_manifestSha256 m)\<rparr>
     else plain_lifecycle (xl_documentId l) Shown_failed)"
proof -
  from assms(7) obtain p where p: "parse_extraction_payload (j_payload job) = Some p"
    "ep_validationAttestationId p = xl_validationAttestationId l" "ep_policyVersion p = xl_policyVersion l"
    "ep_storageVersion p = xl_storageVersion l" "ep_toolchainDigest p = xl_toolchainDigest l"
    by (auto simp: payload_for_lease_def split: option.splits)
  have payload: "current_extraction_job_payload (j_payload j) v policyVersion
      = (if xl_policyVersion l = policyVersion then Some p else None)"
    using current_payload_parsed [OF p(1)] p assms(5,11-13)
    by (simp add: job_rows target_for_lease_def)
  have state: "authoritative_extraction_job_state (j_status j) (j_attempts j) (j_maxAttempts j)
      = (if j_maxAttempts j \<le> max_job_attempts then Job_succeeded else Job_failed)"
    using assms(5,9,10) by (simp add: authoritative_extraction_job_state_def job_rows)
  have row: "j_id j = xl_jobId l" "j_type j = TEXT_EXTRACTION" "j_documentId j = Some (xl_documentId l)"
    "j_assetId j = Some (xl_assetId l)"
    using assms(5,6,8) by (simp_all add: job_rows job_key_def extraction_lease_current_def)
  have gen: "admitted_generation (xl_organizationId l) policyVersion v j p w
      = (if shown_after_completion policyVersion newId l a 0 (v_checkedAt v) now then Some (f, m) else None)"
    using assms(1-4,11,12,16) p row
    by (auto simp: admitted_generation_def extraction_row_of_def target_for_lease_def admission_seals_def
        extraction_manifest_admission_is_sound_def nonzero_digest_def attestation_for_extraction_def)
  show ?thesis
    using payload state row gen assms(2,14,15)
    by (auto simp: extraction_job_lifecycle_def Let_def shown_after_completion_def extraction_row_of_def
        max_job_attempts_def)
qed

lemma completed_rows:
  assumes run: "complete_extraction_tx sha256 newId l a now d = Inr (Some r, d')" "xr_outcome r = Applied"
    and t: "List.find (attempt_key (xl_organizationId l) (xl_jobAttemptId l)) (attempts d) = Some t"
    and seal: "admission_seals m (extraction_row_of newId l a now)"
  shows "List.find (attempt_key (xl_organizationId l) (xl_jobAttemptId l)) (attempts d')
      = Some (succeed_attempt_row now (extraction_job_result newId a) t)"
    "List.find (\<lambda>f. f_jobAttemptId f = xl_jobAttemptId l) (extractions d') = Some (extraction_row_of newId l a now)"
    "admission_of (admitted d' m) (extraction_row_of newId l a now) = Some m"
proof -
  from run obtain d1 where
    pr: "project_lifecycle d (extraction_authority_key l) Extraction_ready (Some now) = Inr (True, d1)"
    and ap: "apply_extraction sha256 newId l a now d1 = Inr d'"
    and none: "List.find (\<lambda>f. f_jobAttemptId f = xl_jobAttemptId l) (extractions d) = None"
    by (rule complete_extraction_appliedE)
  note e = apply_extractionE [OF ap] and f = outside_sameD [OF project_outside_same [OF pr]]
  show "List.find (attempt_key (xl_organizationId l) (xl_jobAttemptId l)) (attempts d')
      = Some (succeed_attempt_row now (extraction_job_result newId a) t)"
    unfolding e(2) using t
    by (intro find_update_same) (simp_all add: f attempt_key_def succeed_attempt_row_def)
  show "List.find (\<lambda>f. f_jobAttemptId f = xl_jobAttemptId l) (extractions d') = Some (extraction_row_of newId l a now)"
    using none by (simp add: e(3) f find_append extraction_row_of_def)
  show "admission_of (admitted d' m) (extraction_row_of newId l a now) = Some m"
    using seal by (simp add: admission_of_def admitted_def admission_seals_def)
qed

section \<open>A deferred first attempt\<close>

text \<open>
  A deferral gives the claim's attempt back but leaves the job RETRYING, and the authority takes a
  RETRYING job without an attempt for a broken one.
\<close>

lemma deferred_job_state:
  assumes "queue_ok (queue_of d)"
    and "claim_extraction_tx env w pv e ttl q now d = Inr (Claimed l, d1)"
    and "defer_extraction l clock n d1 = Inr (Deferred, d2)"
  shows "\<exists>job \<in> set (jobs d). \<exists>row \<in> set (jobs d2).
       j_id job = xl_jobId l \<and> j_id row = xl_jobId l
     \<and> j_status row = J_RETRYING \<and> j_attempts row = j_attempts job \<and> j_payload row = j_payload job
     \<and> j_attempts row < j_maxAttempts row
     \<and> (j_maxAttempts job \<le> max_job_attempts \<longrightarrow>
          authoritative_extraction_job_state (j_status row) (j_attempts row) (j_maxAttempts row)
            = (if j_attempts job = 0 then Job_failed else Job_queued))"
proof -
  from assms(2) obtain job0 where job0: "job0 \<in> set (jobs d)" "j_attempts job0 < j_maxAttempts job0"
    "xl_jobId l = j_id job0"
    by (rule claim_extraction_claimedE) (simp add: make_extraction_lease_def)
  from defer_undoes_claim [OF assms] obtain job where job: "job \<in> set (jobs d)" "j_id job = xl_jobId l"
    "jobs d2 = update_rows (same_job job) (deferred_row (effective_clock clock n)) (jobs d)" by blast
  have "job = job0"
    using assms(1) job(1,2) job0(1,3) by (auto simp: queue_of_def distinct_map dest: inj_onD)
  let ?row = "deferred_row (effective_clock clock n) job"
  have "?row \<in> set (jobs d2)"
    using job(1) by (force simp: job(3) update_rows_def job_key_def)
  moreover have "0 \<le> j_attempts job"
    using assms(1) job(1) by (simp add: queue_of_def list_all_iff job_ok_def)
  ultimately show ?thesis
    using job(1,2) job0(2) \<open>job = job0\<close>
    by (intro bexI [of _ job] bexI [of _ ?row])
      (auto simp: deferred_row_def job_rows authoritative_extraction_job_state_def)
qed

end
