(* ===== verification/Extraction_Query.thy ===== *)
theory Extraction_Query
  imports Extraction_Authority
begin

text \<open>
  The query of \<open>getDocumentExtractionLifecycles\<close> over the tables, and what it answers for a document
  whose extraction was just completed. Tables list their rows in the order they were created; where two
  jobs were created at the same time the code takes the greater identifier, and so does \<open>id_less\<close>.
\<close>

section \<open>The newest row\<close>

definition newest_by :: "('r \<Rightarrow> 'r \<Rightarrow> bool) \<Rightarrow> 'r list \<Rightarrow> 'r option" where
  "newest_by older rs =
     fold (\<lambda>r best. case best of None \<Rightarrow> Some r | Some b \<Rightarrow> if older b r then Some r else best) rs None"

lemma newest_by_snoc:
  "newest_by older (rs @ [r]) = (case newest_by older rs of None \<Rightarrow> Some r | Some b \<Rightarrow> if older b r then Some r else Some b)"
  by (simp add: newest_by_def split: option.split)

lemma newest_by_mem: "newest_by older rs = Some r \<Longrightarrow> r \<in> set rs"
proof (induction rs arbitrary: r rule: rev_induct)
  case (snoc x xs)
  then show ?case by (auto simp: newest_by_snoc split: option.splits if_splits)
qed (simp add: newest_by_def)

lemma newest_by_None_iff: "newest_by older rs = None \<longleftrightarrow> rs = []"
  by (induction rs rule: rev_induct) (simp_all add: newest_by_def split: option.split)

section \<open>The query\<close>

text \<open>At most two ORIGINAL assets of a document, the newest first.\<close>

definition lifecycle_assets :: "ident \<Rightarrow> db \<Rightarrow> document \<Rightarrow> asset list" where
  "lifecycle_assets org d x =
     List.map_filter (\<lambda>l. List.find (asset_key org (da_assetId l)) (assets d))
       (take 2 (rev (filter (\<lambda>l. da_org l = org \<and> da_documentId l = d_id x \<and> da_role l = ORIGINAL) (document_assets d))))"

definition lifecycle_validation :: "ident \<Rightarrow> db \<Rightarrow> document \<Rightarrow> (attestation_row \<times> job \<times> job_attempt) option" where
  "lifecycle_validation org d x = do {
     v \<leftarrow> newest_by (\<lambda>b r. v_checkedAt b \<le> v_checkedAt r)
            (filter (\<lambda>v. v_org v = org \<and> v_documentId v = d_id x) (attestations d));
     j \<leftarrow> List.find (job_key org (v_jobId v)) (jobs d);
     t \<leftarrow> List.find (attempt_key org (v_jobAttemptId v)) (attempts d);
     Some (v, j, t)
   }"

text \<open>The filter on the path \<open>policyVersion\<close> of the job's payload.\<close>

definition under_policy :: "string \<Rightarrow> job \<Rightarrow> bool" where
  "under_policy policyVersion j \<longleftrightarrow>
     Option.bind (json_object (j_payload j)) (\<lambda>p. field p ''policyVersion'') = Some (JStr policyVersion)"

definition extraction_jobs_under :: "ident \<Rightarrow> string \<Rightarrow> db \<Rightarrow> document \<Rightarrow> job list" where
  "extraction_jobs_under org policyVersion d x =
     filter (\<lambda>j. j_org j = org \<and> j_documentId j = Some (d_id x) \<and> j_type j = TEXT_EXTRACTION
        \<and> under_policy policyVersion j) (jobs d)"

definition created_before :: "(ident \<Rightarrow> ident \<Rightarrow> bool) \<Rightarrow> job \<Rightarrow> job \<Rightarrow> bool" where
  "created_before id_less b r \<longleftrightarrow>
     j_createdAt b < j_createdAt r \<or> (j_createdAt b = j_createdAt r \<and> id_less (j_id b) (j_id r))"

definition lifecycle_generation ::
    "ident \<Rightarrow> db \<Rightarrow> job \<Rightarrow> (extraction_row \<times> job \<times> job_attempt \<times> manifest_admission option) option" where
  "lifecycle_generation org d job = do {
     f \<leftarrow> newest_by (\<lambda>_ _. True)
            (filter (\<lambda>f. f_org f = org \<and> f_jobId f = j_id job \<and> j_documentId job = Some (f_documentId f)
               \<and> j_assetId job = Some (f_assetId f)) (extractions d));
     j \<leftarrow> List.find (job_key org (f_jobId f)) (jobs d);
     t \<leftarrow> List.find (attempt_key org (f_jobAttemptId f)) (attempts d);
     Some (f, j, t, admission_of d f)
   }"

definition lifecycle_view :: "(ident \<Rightarrow> ident \<Rightarrow> bool) \<Rightarrow> ident \<Rightarrow> string \<Rightarrow> db \<Rightarrow> document \<Rightarrow> extraction_view" where
  "lifecycle_view id_less org policyVersion d x =
     (let job = newest_by (created_before id_less) (extraction_jobs_under org policyVersion d x)
      in \<lparr>ev_document = x, ev_assets = lifecycle_assets org d x, ev_validation = lifecycle_validation org d x,
          ev_job = job, ev_generation = Option.bind job (lifecycle_generation org d)\<rparr>)"

text \<open>\<open>getDocumentExtractionLifecycles\<close>; \<open>configured\<close> is the environment's policy version.\<close>

definition get_document_extraction_lifecycles ::
    "(ident \<Rightarrow> ident \<Rightarrow> bool) \<Rightarrow> string option \<Rightarrow> ident \<Rightarrow> ident list \<Rightarrow> db
      \<Rightarrow> tx_error + (ident \<rightharpoonup> extraction_lifecycle)" where
  "get_document_extraction_lifecycles id_less configured org documentIds d =
     (if documentIds = [] then Inr Map.empty
      else and_then (authoritative_extraction_policy_version configured) (\<lambda>policyVersion.
        Inr (document_extraction_lifecycles org policyVersion documentIds
          (map (lifecycle_view id_less org policyVersion d)
             (filter (\<lambda>x. d_org x = org \<and> d_id x \<in> set documentIds) (documents d))))))"

lemma lifecycles_of_document:
  assumes "distinct (map (d_id \<circ> ev_document) ws)" "w \<in> set ws"
  shows "document_extraction_lifecycles org pv ids ws (d_id (ev_document w)) = Some (document_extraction_lifecycle org pv w)"
proof -
  have other: "fold (\<lambda>w m. m(d_id (ev_document w) \<mapsto> f w)) vs m i = m i"
    if "i \<notin> (d_id \<circ> ev_document) ` set vs" for f :: "extraction_view \<Rightarrow> extraction_lifecycle" and vs m i
    using that by (induction vs arbitrary: m) auto
  have "fold (\<lambda>w m. m(d_id (ev_document w) \<mapsto> f w)) ws m (d_id (ev_document w)) = Some (f w)"
    for f :: "extraction_view \<Rightarrow> extraction_lifecycle" and m
    using assms by (induction ws arbitrary: m) (auto simp: other)
  then show ?thesis by (simp add: document_extraction_lifecycles_def)
qed

lemma get_lifecycle:
  assumes keyed: "distinct (map (\<lambda>x. (d_org x, d_id x)) (documents d))"
    and x: "List.find (document_key org i) (documents d) = Some x" and i: "i \<in> set ids"
    and pv: "authoritative_extraction_policy_version configured = Inr policyVersion"
  shows "\<exists>m. get_document_extraction_lifecycles id_less configured org ids d = Inr m
    \<and> m i = Some (document_extraction_lifecycle org policyVersion (lifecycle_view id_less org policyVersion d x))"
proof -
  let ?view = "lifecycle_view id_less org policyVersion d"
  let ?xs = "filter (\<lambda>x. d_org x = org \<and> d_id x \<in> set ids) (documents d)"
  have doc: "ev_document (?view y) = y" for y by (simp add: lifecycle_view_def Let_def)
  from find_SomeD [OF x] i have x': "x \<in> set ?xs" "d_id x = i" by (auto simp: document_key_def)
  have "distinct (map (\<lambda>x. (d_org x, d_id x)) ?xs)" using keyed by (rule distinct_map_filter)
  then have "distinct (map d_id ?xs)" by (auto simp: distinct_map inj_on_def)
  then have "distinct (map (d_id \<circ> ev_document) (map ?view ?xs))" by (simp add: doc o_def)
  from lifecycles_of_document [OF this, of "?view x"] x' i show ?thesis
    by (auto simp: get_document_extraction_lifecycles_def pv doc)
qed

section \<open>A completed extraction\<close>

text \<open>The extraction a completion stores is the newest of its job.\<close>

lemma completed_extractions:
  assumes run: "complete_extraction_tx sha256 newId l a now d = Inr (Some r, d')" "xr_outcome r = Applied"
  shows "extractions d' = extractions d @ [extraction_row_of newId l a now]"
proof -
  from run obtain d1 where
    pr: "project_lifecycle d (extraction_authority_key l) Extraction_ready (Some now) = Inr (True, d1)"
    and ap: "apply_extraction sha256 newId l a now d1 = Inr d'"
    by (rule complete_extraction_appliedE)
  show ?thesis using apply_extractionE(3) [OF ap] outside_sameD [OF project_outside_same [OF pr]] by simp
qed

lemma completed_extraction_new:
  assumes run: "complete_extraction_tx sha256 newId l a now d = Inr (Some r, d')" "xr_outcome r = Applied"
  shows "\<not> list_ex (extraction_clash (extraction_row_of newId l a now)) (extractions d)"
proof -
  from run obtain d1 where
    pr: "project_lifecycle d (extraction_authority_key l) Extraction_ready (Some now) = Inr (True, d1)"
    and ap: "apply_extraction sha256 newId l a now d1 = Inr d'"
    by (rule complete_extraction_appliedE)
  show ?thesis using apply_extractionE(4) [OF ap] outside_sameD [OF project_outside_same [OF pr]] by simp
qed

lemma lifecycle_assets_found:
  assumes "a \<in> set (lifecycle_assets org d x)"
  shows "List.find (asset_key org (a_id a)) (assets d) = Some a"
proof -
  from assms obtain i where i: "List.find (asset_key org i) (assets d) = Some a"
    by (auto simp: lifecycle_assets_def map_filter_def)
  from find_SomeD [OF this] have "a_id a = i" by (simp add: asset_key_def)
  with i show ?thesis by simp
qed

lemma completed_generation:
  assumes run: "complete_extraction_tx sha256 newId l a now d = Inr (Some r, d')" "xr_outcome r = Applied"
    and job: "j_id job = xl_jobId l" "j_documentId job = Some (xl_documentId l)" "j_assetId job = Some (xl_assetId l)"
    and rows: "List.find (job_key (xl_organizationId l) (xl_jobId l)) (jobs d') = Some job"
      "List.find (attempt_key (xl_organizationId l) (xl_jobAttemptId l)) (attempts d') = Some t"
  shows "lifecycle_generation (xl_organizationId l) (admitted d' m) job
    = Some (extraction_row_of newId l a now, job, t, admission_of (admitted d' m) (extraction_row_of newId l a now))"
proof -
  let ?d = "admitted d' m" and ?f = "extraction_row_of newId l a now"
  let ?own = "\<lambda>f. f_org f = xl_organizationId l \<and> f_jobId f = j_id job \<and> j_documentId job = Some (f_documentId f)
      \<and> j_assetId job = Some (f_assetId f)"
  have "extractions ?d = extractions d @ [?f]" using completed_extractions [OF run] by (simp add: admitted_def)
  moreover have "?own ?f" using job by (simp add: extraction_row_of_def)
  ultimately have "newest_by (\<lambda>_ _. True) (filter ?own (extractions ?d)) = Some ?f"
    by (simp add: newest_by_snoc split: option.split)
  then show ?thesis
    using rows by (simp add: lifecycle_generation_def extraction_row_of_def admitted_def)
qed

text \<open>
  A query whose asset and attestation are those of a lease that completed finds the lease's target: its
  validation is current, whatever job the query finds.
\<close>

lemma completed_target_view:
  assumes run: "complete_extraction_tx sha256 newId l a now d = Inr (Some r, d')" "xr_outcome r = Applied"
    and ids: "distinct (map v_id (attestations d'))"
    and x: "List.find (document_key (xl_organizationId l) (xl_documentId l)) (documents d') = Some x"
    and w: "w = lifecycle_view id_less (xl_organizationId l) policyVersion (admitted d' m) x"
    and rows: "map a_id (ev_assets w) = [xl_assetId l]" "ev_validation w = Some (v, vj, vt)"
      "v_id v = xl_validationAttestationId l"
  obtains job p g k where
    "List.find (job_key (xl_organizationId l) (xl_jobId l)) (jobs d) = Some job"
    "extraction_completion_allowed d l a now job"
    "List.find (job_key (xl_organizationId l) (xl_jobId l)) (jobs d')
      = Some (succeed_row now (extraction_job_result newId a) job)"
    "parse_extraction_payload (j_payload job) = Some p" "target_for_lease l g"
    "authoritative_extraction_target (admitted d' m) (succeed_row now (extraction_job_result newId a) job) p
      = Some (g\<lparr>xt_intake := k\<rparr>)"
    "ev_assets w = [xt_asset g]" "v = xt_validation g" "x = xt_document g"
    "current_accepted_validation v vj vt x (xt_asset g) False"
    "v_storageVersion (xt_validation g) = xl_storageVersion l" "d_id x = xl_documentId l" "a_id (xt_asset g) = xl_assetId l"
proof -
  let ?d = "admitted d' m" and ?org = "xl_organizationId l"
  from run obtain job p g k where
    job: "List.find (job_key ?org (xl_jobId l)) (jobs d) = Some job"
    and al: "extraction_completion_allowed d l a now job"
    and row: "List.find (job_key ?org (xl_jobId l)) (jobs d') = Some (succeed_row now (extraction_job_result newId a) job)"
    and p: "parse_extraction_payload (j_payload job) = Some p" and tl: "target_for_lease l g"
    and tgt: "authoritative_extraction_target ?d (succeed_row now (extraction_job_result newId a) job) p
      = Some (g\<lparr>xt_intake := k\<rparr>)"
    by (rule completed_target [where m = m])
  let ?job = "succeed_row now (extraction_job_result newId a) job"
  from find_SomeD [OF job] have key: "job_key ?org (xl_jobId l) job" by simp
  from al have cur: "extraction_lease_current l now job" and pl: "payload_for_lease l job"
    by (simp_all add: extraction_completion_allowed_def extraction_held_def)
  from tgt show thesis
  proof (rule authoritative_targetD)
    fix key' vj' vt'
    assume *: "job_pipeline_key ?job = Some key'"
      "List.find (document_key (j_org ?job) (ak_documentId key')) (documents ?d) = Some (xt_document (g\<lparr>xt_intake := k\<rparr>))"
      "List.find (asset_key (j_org ?job) (ak_assetId key')) (assets ?d) = Some (xt_asset (g\<lparr>xt_intake := k\<rparr>))"
      "List.find (\<lambda>v. v_org v = j_org ?job \<and> v_id v = ep_validationAttestationId p) (attestations ?d)
         = Some (xt_validation (g\<lparr>xt_intake := k\<rparr>))"
      "List.find (job_key (j_org ?job) (v_jobId (xt_validation (g\<lparr>xt_intake := k\<rparr>)))) (jobs ?d) = Some vj'"
      "List.find (attempt_key (j_org ?job) (v_jobAttemptId (xt_validation (g\<lparr>xt_intake := k\<rparr>)))) (attempts ?d) = Some vt'"
      "v_storageVersion (xt_validation (g\<lparr>xt_intake := k\<rparr>)) = ep_storageVersion p"
      "current_accepted_validation (xt_validation (g\<lparr>xt_intake := k\<rparr>)) vj' vt'
         (xt_document (g\<lparr>xt_intake := k\<rparr>)) (xt_asset (g\<lparr>xt_intake := k\<rparr>)) False"
    have org: "j_org ?job = ?org" using key by (simp add: job_key_def job_rows)
    have jk: "ak_documentId key' = xl_documentId l" "ak_assetId key' = xl_assetId l"
      using job_pipeline_keyD(1,2) [of job key'] *(1) cur by (simp_all add: extraction_lease_current_def)
    have pv: "ep_validationAttestationId p = xl_validationAttestationId l" "v_storageVersion (xt_validation g) = xl_storageVersion l"
      using pl p *(7) by (simp_all add: payload_for_lease_def)
    have doc: "x = xt_document g" using *(2) x org jk by (simp add: admitted_def)
    have assets: "ev_assets w = [xt_asset g]"
    proof -
      from rows(1) obtain b where b: "ev_assets w = [b]" "a_id b = xl_assetId l" by auto
      then have "List.find (asset_key ?org (xl_assetId l)) (assets ?d) = Some b"
        using lifecycle_assets_found [of b ?org ?d x] by (simp add: w lifecycle_view_def Let_def)
      with *(3) org jk b show ?thesis by simp
    qed
    have val: "v = xt_validation g" "vj = vj'" "vt = vt'"
    proof -
      have v: "v \<in> set (attestations ?d)" "List.find (job_key ?org (v_jobId v)) (jobs ?d) = Some vj"
        "List.find (attempt_key ?org (v_jobAttemptId v)) (attempts ?d) = Some vt"
        using rows(2) by (auto simp: w lifecycle_view_def Let_def lifecycle_validation_def bind_eq_Some_conv dest: newest_by_mem)
      from find_SomeD [OF *(4)] ids v(1) rows(3) pv(1) show "v = xt_validation g"
        by (auto simp: admitted_def dest: distinct_keyD)
      with v(2,3) *(5,6) org show "vj = vj'" "vt = vt'" by simp_all
    qed
    have "d_id x = xl_documentId l" "a_id (xt_asset g) = xl_assetId l"
      using find_SomeD [OF x] rows(1) assets by (simp_all add: document_key_def)
    then show thesis
      using that [OF job al row p tl tgt assets val(1) doc] *(8) pv(2) by (simp add: val doc)
  qed
qed

text \<open>The state a completed extraction is shown in, when the query finds its job; and when it finds none.\<close>

lemma completed_lifecycle:
  assumes att: "assert_extraction_attestation nfc a = Inr u" and ok: "queue_ok (queue_of d)"
    and run: "complete_extraction_tx sha256 newId l a now d = Inr (Some r, d')" "xr_outcome r = Applied"
    and seal: "admission_seals m (extraction_row_of newId l a now)"
    and ids: "distinct (map v_id (attestations d'))"
    and x: "List.find (document_key (xl_organizationId l) (xl_documentId l)) (documents d') = Some x"
    and w: "w = lifecycle_view id_less (xl_organizationId l) policyVersion (admitted d' m) x"
    and rows: "map a_id (ev_assets w) = [xl_assetId l]" "ev_validation w = Some (v, vj, vt)"
      "v_id v = xl_validationAttestationId l"
  shows "ev_job w = Some job \<Longrightarrow> j_id job = xl_jobId l \<Longrightarrow> xl_policyVersion l = policyVersion
      \<and> document_extraction_lifecycle (xl_organizationId l) policyVersion w =
        (if shown_after_completion policyVersion newId l a (j_maxAttempts job) (v_checkedAt v) now
         then \<lparr>el_documentId = xl_documentId l,
               el_state = (if xa_verdict a = NO_TEXT then Shown_no_text else Shown_ready),
               el_extractionId = Some newId, el_manifestSha256 = Some (m_manifestSha256 m)\<rparr>
         else plain_lifecycle (xl_documentId l) Shown_failed)"
    and "ev_job w = None \<Longrightarrow> document_extraction_lifecycle (xl_organizationId l) policyVersion w
        = plain_lifecycle (xl_documentId l) Shown_not_started"
proof -
  let ?d = "admitted d' m" and ?f = "extraction_row_of newId l a now"
    and ?res = "extraction_job_result newId a" and ?org = "xl_organizationId l"
  from completed_target_view [OF run ids x w rows] obtain job0 p g k where
    job0: "List.find (job_key ?org (xl_jobId l)) (jobs d) = Some job0"
    and al: "extraction_completion_allowed d l a now job0"
    and row: "List.find (job_key ?org (xl_jobId l)) (jobs d') = Some (succeed_row now ?res job0)"
    and p: "parse_extraction_payload (j_payload job0) = Some p" and tl: "target_for_lease l g"
    and tgt: "authoritative_extraction_target ?d (succeed_row now ?res job0) p = Some (g\<lparr>xt_intake := k\<rparr>)"
    and view: "ev_assets w = [xt_asset g]" "v = xt_validation g" "x = xt_document g"
      "current_accepted_validation v vj vt x (xt_asset g) False" "v_storageVersion (xt_validation g) = xl_storageVersion l"
      "d_id x = xl_documentId l" "a_id (xt_asset g) = xl_assetId l" .
  let ?job = "succeed_row now ?res job0"
  have wd: "ev_document w = x" by (simp add: w lifecycle_view_def Let_def)
  show "document_extraction_lifecycle ?org policyVersion w = plain_lifecycle (xl_documentId l) Shown_not_started"
    if "ev_job w = None"
    using that view(4,6) rows(2) by (simp add: document_extraction_lifecycle_def view(1) wd)
  assume found: "ev_job w = Some job" "j_id job = xl_jobId l"
  from find_SomeD [OF job0] have key: "job_key ?org (xl_jobId l) job0" by simp
  from al have cur: "extraction_lease_current l now job0" and pl: "payload_for_lease l job0"
    and held: "extraction_held d l now job0" and fl: "attestation_for_extraction l a"
    by (simp_all add: extraction_completion_allowed_def extraction_held_def)
  from held_attempt [OF ok held job0] obtain t where
    t: "List.find (attempt_key ?org (xl_jobAttemptId l)) (attempts d) = Some t"
    and tk: "t_id t = xl_jobAttemptId l" "t_jobId t = xl_jobId l"
    and budget: "1 \<le> j_attempts job0" "j_attempts job0 \<le> j_maxAttempts job0" .
  note stored = completed_rows [OF run t seal]
  have under: "job \<in> set (jobs d')" "under_policy policyVersion job"
    using found(1) by (auto simp: w lifecycle_view_def Let_def extraction_jobs_under_def admitted_def dest!: newest_by_mem)
  have "distinct (map j_id (jobs d'))"
    using queue_steps_ok [OF complete_extraction_refines [OF ok run(1)] ok] by (simp add: queue_of_def)
  then have job: "job = ?job"
    using find_SomeD [OF row] found(2) under(1) by (auto simp: job_key_def dest: distinct_keyD)
  have "ep_policyVersion p = policyVersion"
    using under(2) p by (auto simp: job under_policy_def job_rows parse_extraction_payload_def bind_eq_Some_conv
        str_field_Some_iff split: if_splits)
  then have policy: "xl_policyVersion l = policyVersion" using pl p by (simp add: payload_for_lease_def)
  have jrow: "j_documentId ?job = Some (xl_documentId l)" "j_assetId ?job = Some (xl_assetId l)" "j_id ?job = xl_jobId l"
    using cur key by (simp_all add: job_rows extraction_lease_current_def job_key_def)
  have gen: "ev_generation w = Some (?f, ?job, succeed_attempt_row now ?res t, Some m)"
    using completed_generation [OF run jrow(3,1,2) row stored(1)] found(1) stored(3)
    by (simp add: w lifecycle_view_def Let_def job)
  have "j_org ?job = j_org job0" by (simp add: job_rows)
  from completed_generation_sound [OF _ al key p tl tgt pipeline_key_rows(2) this tk, of newId ?res ?res policyVersion]
  have sound: "extraction_generation_is_sound ?f ?job (succeed_attempt_row now ?res t) (xt_validation g) policyVersion
      \<longleftrightarrow> shown_after_completion policyVersion newId l a 0 (v_checkedAt (xt_validation g)) now"
    using assert_attestation_chunks [OF att] by blast
  from completed_job_lifecycle [OF sound refl gen seal refl cur pl key budget tl refl view(5) _ view(7) fl] wd view(6)
  show "xl_policyVersion l = policyVersion
      \<and> document_extraction_lifecycle (xl_organizationId l) policyVersion w =
        (if shown_after_completion policyVersion newId l a (j_maxAttempts job) (v_checkedAt v) now
         then \<lparr>el_documentId = xl_documentId l,
               el_state = (if xa_verdict a = NO_TEXT then Shown_no_text else Shown_ready),
               el_extractionId = Some newId, el_manifestSha256 = Some (m_manifestSha256 m)\<rparr>
         else plain_lifecycle (xl_documentId l) Shown_failed)"
    using view(4) rows(2) found(1) policy by (simp add: document_extraction_lifecycle_def view(1,2,3) job)
qed

end
