(* ===== verification/Authority_Properties.thy ===== *)
theory Authority_Properties
  imports Extraction_Query Extraction_Properties
begin

text \<open>
  What the extraction authority shows of what the extraction worker stores, with the upload of
  \<open>Extraction_Properties\<close> as the concrete run.
\<close>

text \<open>
  C33. The chunks a completion stores are the ones the authority lets a reader see: for an attestation
  that \<open>assertExtractionAttestation\<close> accepts, \<open>extractionChunksAreSound\<close> holds of the stored chunks
  exactly when the identifiers the database gave them are well formed. No accepted extraction is
  later withheld over its sequence, places, texts, hashes, locators or byte total.
\<close>

theorem completed_chunks_sound:
  assumes "assert_extraction_attestation nfc a = Inr u" "chunks_owned d"
    and "complete_extraction_tx sha256 newId l a now d = Inr (Some r, d')" "xr_outcome r = Applied"
    and "length ids = length (xa_chunks a)"
  shows "extraction_chunks_are_sound nfc sha256 (extraction_row_of newId l a now)
      (zip ids (stored_chunks d' (extraction_row_of newId l a now))) \<longleftrightarrow> list_all valid_opaque_id ids"
proof -
  from extraction_completion_effects [OF assms(1-4)]
  have "stored_chunks d' (extraction_row_of newId l a now) = map (chunk_row_of sha256 newId l) (xa_chunks a)"
    by blast
  with stored_chunks_are_sound [OF assms(1,5)] show ?thesis by simp
qed

theorem completed_chunks_sound_witness:
  "extraction_chunks_are_sound id sample_sha256 (extraction_row_of ''f1'' sample_xlease sample_xattestation 3300)
     (zip [''h1'', ''h2''] (stored_chunks extracted_db (extraction_row_of ''f1'' sample_xlease sample_xattestation 3300)))"
proof -
  have "length [''h1'', ''h2''] = length (xa_chunks sample_xattestation)"
    by (simp add: sample_xattestation_def)
  moreover have "list_all valid_opaque_id [''h1'', ''h2'']" by code_simp
  ultimately show ?thesis
    using completed_chunks_sound [OF sample_xattestation_ok sample_chunks_owned sample_xcompletion sample_applied]
    by simp
qed

text \<open>
  C32. The state a completed extraction is shown in. After a completion whose admission is sealed, and
  while the document's one original asset and its newest validation are the lease's,
  \<open>getDocumentExtractionLifecycles\<close> answers: when the newest extraction job under the current policy is
  the lease's (which only a lease of that policy can be), ready or no-text with this extraction and its
  manifest exactly when the identifiers are well formed, the job budget is in range and the extraction
  service's clock read no earlier than the validation and no later than the completion, and failed
  otherwise; when there is no extraction job under the current policy, not-started.
\<close>

theorem completed_extraction_shown:
  assumes "assert_extraction_attestation nfc a = Inr u" "queue_ok (queue_of d)"
    and "complete_extraction_tx sha256 newId l a now d = Inr (Some r, d')" "xr_outcome r = Applied"
    and "admission_seals m (extraction_row_of newId l a now)"
    and "distinct (map (\<lambda>x. (d_org x, d_id x)) (documents d'))" "distinct (map v_id (attestations d'))"
    and "List.find (document_key (xl_organizationId l) (xl_documentId l)) (documents d') = Some x"
    and "w = lifecycle_view id_less (xl_organizationId l) policyVersion (admitted d' m) x"
    and "map a_id (ev_assets w) = [xl_assetId l]" "ev_validation w = Some (v, vj, vt)"
    and "v_id v = xl_validationAttestationId l"
    and "authoritative_extraction_policy_version configured = Inr policyVersion" "xl_documentId l \<in> set documentIds"
  shows "\<exists>answer shown.
    get_document_extraction_lifecycles id_less configured (xl_organizationId l) documentIds (admitted d' m) = Inr answer
    \<and> answer (xl_documentId l) = Some shown
    \<and> (case ev_job w of
         None \<Rightarrow> shown = plain_lifecycle (xl_documentId l) Shown_not_started
       | Some job \<Rightarrow> j_id job = xl_jobId l \<longrightarrow> xl_policyVersion l = policyVersion
           \<and> shown =
             (if valid_opaque_id newId \<and> valid_opaque_id (xl_jobId l) \<and> valid_opaque_id (xl_jobAttemptId l)
                 \<and> j_maxAttempts job \<le> max_job_attempts
                 \<and> v_checkedAt v \<le> the (xa_extractedAt a) \<and> the (xa_completedAt a) \<le> now
              then \<lparr>el_documentId = xl_documentId l,
                    el_state = (if xa_verdict a = NO_TEXT then Shown_no_text else Shown_ready),
                    el_extractionId = Some newId, el_manifestSha256 = Some (m_manifestSha256 m)\<rparr>
              else plain_lifecycle (xl_documentId l) Shown_failed))"
proof -
  have docs: "documents (admitted d' m) = documents d'" by (simp add: admitted_def)
  from get_lifecycle [of "admitted d' m", unfolded docs, OF assms(6,8,14,13), of id_less] obtain answer where
    answer: "get_document_extraction_lifecycles id_less configured (xl_organizationId l) documentIds (admitted d' m) = Inr answer"
      "answer (xl_documentId l) = Some (document_extraction_lifecycle (xl_organizationId l) policyVersion w)"
    unfolding assms(9) by blast
  note shown = completed_lifecycle [OF assms(1-5,7-12)]
  show ?thesis
  proof (intro exI [of _ answer] exI conjI)
    show "get_document_extraction_lifecycles id_less configured (xl_organizationId l) documentIds (admitted d' m) = Inr answer"
      "answer (xl_documentId l) = Some (document_extraction_lifecycle (xl_organizationId l) policyVersion w)"
      by (rule answer)+
  next
    show "case ev_job w of
        None \<Rightarrow> document_extraction_lifecycle (xl_organizationId l) policyVersion w
          = plain_lifecycle (xl_documentId l) Shown_not_started
      | Some job \<Rightarrow> j_id job = xl_jobId l \<longrightarrow> xl_policyVersion l = policyVersion
          \<and> document_extraction_lifecycle (xl_organizationId l) policyVersion w =
            (if valid_opaque_id newId \<and> valid_opaque_id (xl_jobId l) \<and> valid_opaque_id (xl_jobAttemptId l)
                \<and> j_maxAttempts job \<le> max_job_attempts
                \<and> v_checkedAt v \<le> the (xa_extractedAt a) \<and> the (xa_completedAt a) \<le> now
             then \<lparr>el_documentId = xl_documentId l,
                   el_state = (if xa_verdict a = NO_TEXT then Shown_no_text else Shown_ready),
                   el_extractionId = Some newId, el_manifestSha256 = Some (m_manifestSha256 m)\<rparr>
             else plain_lifecycle (xl_documentId l) Shown_failed)"
    proof (cases "ev_job w")
      case None
      then show ?thesis using shown(2) by simp
    qed (use shown(1) in \<open>simp add: shown_after_completion_def conj_ac\<close>)
  qed
qed

lemma extracting_queue_ok: "queue_ok (queue_of extracting_db)"
  by code_simp

lemma sample_sealed: "admission_seals sample_admission (extraction_row_of ''f1'' sample_xlease sample_xattestation 3300)"
  by code_simp

definition sample_id_less :: "ident \<Rightarrow> ident \<Rightarrow> bool" where
  "sample_id_less a b = (length a < length b)"

definition sample_view :: extraction_view where
  "sample_view = lifecycle_view sample_id_less ''o'' extraction_policy_version (admitted extracted_db sample_admission)
     (hd (documents extracted_db))"

lemma sample_view_asset:
  "map a_id (lifecycle_assets ''o'' (admitted extracted_db sample_admission) (hd (documents extracted_db))) = [''a'']"
  by code_simp

lemma sample_view_validation:
  "map_option (\<lambda>(v, _). (v_id v, v_checkedAt v))
     (lifecycle_validation ''o'' (admitted extracted_db sample_admission) (hd (documents extracted_db))) = Some (''v1'', 2000)"
  by code_simp

lemma sample_view_job:
  "map j_id (extraction_jobs_under ''o'' extraction_policy_version (admitted extracted_db sample_admission)
     (hd (documents extracted_db))) = [''j2'']"
  by code_simp

lemma sample_job_budgets: "list_all (\<lambda>j. j_maxAttempts j \<le> max_job_attempts) (jobs extracted_db)"
  by code_simp

lemma sample_view_rows:
  "map a_id (ev_assets sample_view) = [''a'']"
  "map_option (\<lambda>(v, _). (v_id v, v_checkedAt v)) (ev_validation sample_view) = Some (''v1'', 2000)"
  "\<exists>job. ev_job sample_view = Some job \<and> j_id job = ''j2'' \<and> j_maxAttempts job \<le> max_job_attempts"
proof -
  show "map a_id (ev_assets sample_view) = [''a'']"
    "map_option (\<lambda>(v, _). (v_id v, v_checkedAt v)) (ev_validation sample_view) = Some (''v1'', 2000)"
    by (simp_all only: sample_view_def lifecycle_view_def Let_def extraction_view.select_convs
        sample_view_asset sample_view_validation)
  let ?jobs = "extraction_jobs_under ''o'' extraction_policy_version (admitted extracted_db sample_admission)
     (hd (documents extracted_db))"
  from sample_view_job obtain job where job: "?jobs = [job]" "j_id job = ''j2''" by auto
  then have "job \<in> set ?jobs" by simp
  then have "job \<in> set (jobs extracted_db)" by (auto simp: extraction_jobs_under_def admitted_def)
  with sample_job_budgets have "j_maxAttempts job \<le> max_job_attempts" by (simp add: list_all_iff)
  moreover have "ev_job sample_view = Some job"
    by (simp add: sample_view_def lifecycle_view_def Let_def job(1) newest_by_def)
  ultimately show "\<exists>job. ev_job sample_view = Some job \<and> j_id job = ''j2'' \<and> j_maxAttempts job \<le> max_job_attempts"
    using job(2) by blast
qed

lemma sample_view_names:
  "xl_organizationId sample_xlease = ''o''" "xl_documentId sample_xlease = ''d''" "xl_assetId sample_xlease = ''a''"
  "xl_validationAttestationId sample_xlease = ''v1''" "xl_jobId sample_xlease = ''j2''"
  by (simp_all add: sample_xlease_def)

lemma sample_view_keys:
  "distinct (map (\<lambda>x. (d_org x, d_id x)) (documents extracted_db))" "distinct (map v_id (attestations extracted_db))"
  "List.find (document_key ''o'' ''d'') (documents extracted_db) = Some (hd (documents extracted_db))"
  by code_simp+

lemma sample_view_bounds:
  "valid_opaque_id ''f1''" "valid_opaque_id ''j2''" "valid_opaque_id (xl_jobAttemptId sample_xlease)"
  "2000 \<le> the (xa_extractedAt sample_xattestation)" "the (xa_completedAt sample_xattestation) \<le> 3300"
  by code_simp+

lemma sample_view_shown:
  "document_extraction_lifecycle ''o'' extraction_policy_version sample_view
    = \<lparr>el_documentId = ''d'', el_state = Shown_ready, el_extractionId = Some ''f1'', el_manifestSha256 = Some sample_sha\<rparr>"
proof -
  obtain v vj vt job where v: "ev_validation sample_view = Some (v, vj, vt)" "v_id v = ''v1''" "v_checkedAt v = 2000"
    and job: "ev_job sample_view = Some job" "j_id job = ''j2''" "j_maxAttempts job \<le> max_job_attempts"
    using sample_view_rows(2,3) by auto
  from completed_lifecycle(1) [OF sample_xattestation_ok extracting_queue_ok sample_xcompletion sample_applied
      sample_sealed sample_view_keys(2) sample_view_keys(3) [folded sample_view_names(1,2)]
      sample_view_def [folded sample_view_names(1)] sample_view_rows(1) [folded sample_view_names(3)]
      v(1) v(2) [folded sample_view_names(4)] job(1) job(2) [folded sample_view_names(5)]]
    v(3) job(3) sample_view_bounds
  show ?thesis
    by (auto simp: sample_view_names sample_admission_def sample_xattestation_def shown_after_completion_def)
qed

theorem completed_extraction_shown_witness:
  "\<exists>answer. get_document_extraction_lifecycles sample_id_less None ''o'' [''d''] (admitted extracted_db sample_admission)
       = Inr answer
     \<and> answer ''d'' = Some \<lparr>el_documentId = ''d'', el_state = Shown_ready, el_extractionId = Some ''f1'',
          el_manifestSha256 = Some sample_sha\<rparr>"
proof -
  obtain v vj vt job where v: "ev_validation sample_view = Some (v, vj, vt)" "v_id v = ''v1''" "v_checkedAt v = 2000"
    and job: "ev_job sample_view = Some job" "j_id job = ''j2''" "j_maxAttempts job \<le> max_job_attempts"
    using sample_view_rows(2,3) by auto
  have pv: "authoritative_extraction_policy_version None = Inr extraction_policy_version" by code_simp
  from completed_extraction_shown [OF sample_xattestation_ok extracting_queue_ok sample_xcompletion sample_applied
      sample_sealed sample_view_keys(1,2) sample_view_keys(3) [folded sample_view_names(1,2)]
      sample_view_def [folded sample_view_names(1)] sample_view_rows(1) [folded sample_view_names(3)]
      v(1) v(2) [folded sample_view_names(4)] pv, of "[''d'']"] job sample_view_bounds v(3)
  show ?thesis by (auto simp: sample_view_names sample_admission_def sample_xattestation_def)
qed

text \<open>
  C34. A deferred extraction: the job a deferral puts back is RETRYING with the attempts it had before
  the claim and can be claimed again, yet \<open>authoritativeExtractionJobState\<close> classifies it as failed
  when it had none, as queued otherwise. A document whose very first claim was deferred is shown as
  failed until the next claim.
\<close>

theorem deferred_job_shown:
  assumes "queue_ok (queue_of d)"
    and "claim_extraction_tx env w pv e ttl q now d = Inr (Claimed l, d1)"
    and "defer_extraction l clock n d1 = Inr (Deferred, d2)"
  shows "\<exists>job \<in> set (jobs d). \<exists>row \<in> set (jobs d2).
       j_id job = xl_jobId l \<and> j_id row = xl_jobId l
     \<and> j_status row = J_RETRYING \<and> j_attempts row = j_attempts job \<and> j_payload row = j_payload job
     \<and> j_attempts row < j_maxAttempts row
     \<and> (j_maxAttempts job \<le> max_job_attempts \<longrightarrow>
          authoritative_extraction_job_state (j_status row) (j_attempts row) (j_maxAttempts row)
            = (if j_attempts job = 0 then Job_failed else Job_queued))"
  by (rule deferred_job_state [OF assms])

theorem deferred_job_shown_witness:
  "\<exists>d2 row. defer_extraction sample_xlease No_override 3001 extracting_db = Inr (Deferred, d2)
     \<and> row \<in> set (jobs d2) \<and> j_id row = ''j2'' \<and> j_status row = J_RETRYING
     \<and> authoritative_extraction_job_state (j_status row) (j_attempts row) (j_maxAttempts row) = Job_failed"
proof -
  have "map_sum id fst (defer_extraction sample_xlease No_override 3001 extracting_db) = Inr Deferred"
    by code_simp
  then obtain d2 where d2: "defer_extraction sample_xlease No_override 3001 extracting_db = Inr (Deferred, d2)"
    by (auto simp: map_sum_Inr_iff)
  have "list_all (\<lambda>j. if j_id j = ''j2'' then j_attempts j = 0 \<and> j_maxAttempts j \<le> max_job_attempts else True)
      (jobs validated_db)" by code_simp
  then have j: "j \<in> set (jobs validated_db) \<Longrightarrow> j_id j = ''j2'' \<Longrightarrow> j_attempts j = 0
      \<and> j_maxAttempts j \<le> max_job_attempts" for j
    by (auto simp: list_all_iff)
  have "xl_jobId sample_xlease = ''j2''" by (simp add: sample_xlease_def)
  with deferred_job_shown [OF validated_queue_ok sample_xclaim d2] d2 j show ?thesis by fastforce
qed

end
