(* ===== verification/Pipeline.thy ===== *)
theory Pipeline
  imports Extraction_Effects
begin

text \<open>
  The two workers over one database: transactions of the validation job and of the text
  extraction job in any order. The queue contract of either gives the contract of both, and with
  it what holds of every run: at most one running attempt of a job, the attempt budget, settled
  rows that stay, and leases that pass to another holder only after they expired.
\<close>

section \<open>Interleaved transactions\<close>

datatype pipeline_event = Validation_event validation_event | Extraction_event extraction_event

fun run_pipeline ::
    "(string \<Rightarrow> string) \<Rightarrow> (string \<Rightarrow> string) \<Rightarrow> pipeline_event \<Rightarrow> db \<Rightarrow> unit tx" where
  "run_pipeline nfc sha256 (Validation_event e) d = run_validation e d"
| "run_pipeline nfc sha256 (Extraction_event e) d = run_extraction nfc sha256 e d"

fun pipeline_clock :: "pipeline_event \<Rightarrow> millis" where
  "pipeline_clock (Validation_event e) = validation_clock e"
| "pipeline_clock (Extraction_event e) = extraction_clock e"

fun pipeline_admissible :: "pipeline_event \<Rightarrow> bool" where
  "pipeline_admissible (Validation_event e) = validation_admissible e"
| "pipeline_admissible (Extraction_event e) = extraction_admissible e"

lemma run_pipeline_refines:
  assumes "pipeline_admissible e" "queue_ok (queue_of d)" "run_pipeline nfc sha256 e d = Inr (u, d')"
  shows "(queue_step (pipeline_clock e))\<^sup>*\<^sup>* (queue_of d) (queue_of d')"
  using assms by (cases e) (auto intro: vq.refines xq.refines)

interpretation pq: leased_queue "run_pipeline nfc sha256" pipeline_clock pipeline_admissible
  by unfold_locales (rule run_pipeline_refines)

definition run_all ::
    "(string \<Rightarrow> string) \<Rightarrow> (string \<Rightarrow> string) \<Rightarrow> pipeline_event list \<Rightarrow> db \<Rightarrow> db" where
  "run_all nfc sha256 = run_events (run_pipeline nfc sha256)"

lemma run_all_ok:
  "list_all pipeline_admissible es \<Longrightarrow> queue_ok (queue_of d) \<Longrightarrow> queue_ok (queue_of (run_all nfc sha256 es d))"
  unfolding run_all_def by (rule pq.run_inv)

section \<open>The attempt budget\<close>

lemma attempt_numbers_bounded:
  assumes ok: "queue_ok (js, ts)" and j: "j \<in> set js"
  shows "int (length (filter (\<lambda>t. t_jobId t = j_id j) ts)) \<le> j_attempts j"
proof -
  let ?ts = "filter (\<lambda>t. t_jobId t = j_id j) ts"
  from ok have d: "distinct (map j_id js)" and a: "list_all (attempt_ok js) ts"
    and n: "distinct (map (\<lambda>t. (t_jobId t, t_attemptNumber t)) ts)" and jo: "list_all job_ok js"
    by simp_all
  have "distinct (map (\<lambda>t. (t_jobId t, t_attemptNumber t)) ?ts)"
    using n by (rule distinct_map_filter)
  moreover have "map (\<lambda>t. (t_jobId t, t_attemptNumber t)) ?ts = map (Pair (j_id j)) (map t_attemptNumber ?ts)"
    by simp
  ultimately have dist: "distinct (map t_attemptNumber ?ts)"
    by (auto simp: distinct_map intro: inj_on_imageI2)
  have "set (map t_attemptNumber ?ts) \<subseteq> {1..j_attempts j}"
  proof
    fix x assume "x \<in> set (map t_attemptNumber ?ts)"
    then obtain t where t: "t \<in> set ts" "t_jobId t = j_id j" "x = t_attemptNumber t" by auto
    with a have "attempt_ok js t" by (simp add: list_all_iff)
    then obtain y where "y \<in> set js" "j_id y = t_jobId t" "1 \<le> t_attemptNumber t"
      "t_attemptNumber t \<le> j_attempts y" by (rule attempt_okE)
    moreover from this t j have "y = j" by (intro distinct_keyD [OF d]) simp_all
    ultimately show "x \<in> {1..j_attempts j}" using t by simp
  qed
  then have "card (set (map t_attemptNumber ?ts)) \<le> card {1..j_attempts j}"
    by (intro card_mono) simp_all
  then have "length ?ts \<le> nat (j_attempts j)"
    using distinct_card [OF dist] by simp
  moreover have "0 \<le> j_attempts j" using jo j by (simp add: list_all_iff job_ok_def)
  ultimately show ?thesis by linarith
qed

section \<open>Lease handover within one transaction\<close>

text \<open>
  A job of the given id that runs under the given live lease, or cannot be claimed at this clock.
\<close>

definition kept_or_parked :: "millis \<Rightarrow> ident \<Rightarrow> ident option \<Rightarrow> job list \<Rightarrow> bool" where
  "kept_or_parked now i lease js \<longleftrightarrow>
     (\<forall>j \<in> set js. j_id j = i \<longrightarrow>
        (j_status j = J_RUNNING \<and> j_leaseId j = lease \<and> \<not> expired now (j_leaseExpiresAt j))
        \<or> settled j \<or> (j_status j = J_RETRYING \<and> now < j_runAfter j))"

lemma kept_or_parked_update:
  assumes "kept_or_parked now i lease js" "distinct (map j_id js)" "j \<in> set js" "j_id (f j) = j_id j"
    and "j_id j = i \<Longrightarrow>
        (j_status (f j) = J_RUNNING \<and> j_leaseId (f j) = lease \<and> \<not> expired now (j_leaseExpiresAt (f j)))
        \<or> settled (f j) \<or> (j_status (f j) = J_RETRYING \<and> now < j_runAfter (f j))"
  shows "kept_or_parked now i lease (update_rows (same_job j) f js)"
  using assms by (auto simp: kept_or_parked_def update_same_job)

lemma update_rows_ids: "(\<And>x. j_id (f x) = j_id x) \<Longrightarrow> j_id ` set (update_rows P f js) = j_id ` set js"
  using map_update_rows [of j_id f P js] by (metis list.set_map)

lemma queue_step_kept:
  assumes "queue_step now q q'" "queue_ok q" "kept_or_parked now i lease (fst q)" "i \<in> j_id ` set (fst q)"
  shows "kept_or_parked now i lease (fst q') \<and> i \<in> j_id ` set (fst q')"
  using assms
proof (induction rule: queue_step.induct)
  case (enqueue j js ts)
  then show ?case by (auto simp: kept_or_parked_def)
next
  case (claim j js expiry ts ts' t worker attempt lid)
  have "j_id j \<noteq> i"
    using claim.prems(2) claim.hyps(1-3) by (auto simp: kept_or_parked_def claim_candidate_def settled_def)
  then show ?case
    using claim by (auto simp: update_rows_ids intro!: kept_or_parked_update)
next
  case (heartbeat j js expiry ts)
  then have "j_id j = i \<Longrightarrow> j_status j = J_RUNNING \<and> j_leaseId j = lease"
    by (auto simp: kept_or_parked_def lease_live_def settled_def)
  with heartbeat show ?case
    by (auto simp: update_rows_ids lease_live_def intro!: kept_or_parked_update)
next
  case (succeed j js ts ts' result)
  then show ?case
    by (auto simp: update_rows_ids settled_def succeed_row_def unlock_row_def
        intro!: kept_or_parked_update)
next
  case (retry j js later ts ts' c m)
  then show ?case
    by (auto simp: update_rows_ids settled_def retry_row_def unlock_row_def
        intro!: kept_or_parked_update)
next
  case (dead_letter j js ts ts' c m)
  then show ?case
    by (auto simp: update_rows_ids settled_def dead_letter_row_def unlock_row_def
        intro!: kept_or_parked_update)
next
  case (deferral j js later ts ts' c m)
  then show ?case
    by (auto simp: update_rows_ids settled_def retry_row_def unlock_row_def
        intro!: kept_or_parked_update)
qed

lemma queue_steps_kept:
  assumes "(queue_step now)\<^sup>*\<^sup>* q q'" "queue_ok q" "kept_or_parked now i lease (fst q)" "i \<in> j_id ` set (fst q)"
  shows "kept_or_parked now i lease (fst q') \<and> i \<in> j_id ` set (fst q')"
  using assms
proof (induction rule: rtranclp_induct)
  case (step y z)
  from step.hyps(1) step.prems(1) have "queue_ok y" by (rule queue_steps_ok)
  with step queue_step_kept [OF step.hyps(2)] show ?case by blast
qed simp

lemma queue_steps_handover:
  assumes st: "(queue_step now)\<^sup>*\<^sup>* (js, ts) (js', ts')" and ok: "queue_ok (js, ts)"
    and j: "j \<in> set js" "j_status j = J_RUNNING" and j': "j' \<in> set js'" "j_id j' = j_id j" "j_status j' = J_RUNNING"
    and ne: "j_leaseId j' \<noteq> j_leaseId j"
  shows "expired now (j_leaseExpiresAt j)"
proof (rule ccontr)
  assume live: "\<not> expired now (j_leaseExpiresAt j)"
  have "x = j" if "x \<in> set js" "j_id x = j_id j" for x
    using ok j(1) that by (intro distinct_keyD [of j_id js]) simp_all
  with live j have "kept_or_parked now (j_id j) (j_leaseId j) js"
    by (auto simp: kept_or_parked_def)
  with queue_steps_kept [OF st ok, of "j_id j" "j_leaseId j"] j(1)
  have "kept_or_parked now (j_id j) (j_leaseId j) js'" by simp
  with j' ne show False by (auto simp: kept_or_parked_def settled_def)
qed

lemma pipeline_handover:
  assumes adm: "pipeline_admissible e" and ok: "queue_ok (queue_of d)"
    and run: "run_pipeline nfc sha256 e d = Inr (u, d')"
    and j: "j \<in> set (jobs d)" "j_status j = J_RUNNING"
    and j': "j' \<in> set (jobs d')" "j_id j' = j_id j" "j_status j' = J_RUNNING" "j_leaseId j' \<noteq> j_leaseId j"
  shows "expired (pipeline_clock e) (j_leaseExpiresAt j)"
  using pq.refines [OF adm ok run] ok j j' by (auto simp: queue_of_def intro: queue_steps_handover)

section \<open>Lifecycle rows in a run\<close>

text \<open>An intake that is READY, FAILED or CANCELLED is left as it is by every transaction.\<close>

definition final_intake :: "intake \<Rightarrow> bool" where
  "final_intake k \<longleftrightarrow> k_status k \<in> {READY, FAILED, CANCELLED}"

lemma intake_evolves_final:
  assumes "list_all2 intake_evolves ks ks'" "k \<in> set ks" "final_intake k"
  shows "k \<in> set ks'"
proof -
  from assms(2) obtain n where n: "n < length ks" "k = ks ! n" by (auto simp: in_set_conv_nth)
  with assms(1) have "intake_evolves k (ks' ! n)" and len: "n < length ks'"
    by (auto simp: list_all2_conv_all_nth)
  moreover have "\<not> intake_step (k_status k) s" for s
    using assms(3)
    by (auto simp: final_intake_def elim: intake_step_from_readyE intake_step_from_failedE
        intake_step_from_cancelledE)
  ultimately have "ks' ! n = k" by (auto simp: intake_evolves_def)
  with len show ?thesis by (metis nth_mem)
qed

text \<open>What a transaction does to the intakes: nothing, or one projection or two.\<close>

definition intakes_move :: "db \<Rightarrow> db \<Rightarrow> bool" where
  "intakes_move d d' \<longleftrightarrow> (\<forall>k \<in> set (intakes d). final_intake k \<longrightarrow> k \<in> set (intakes d'))"

lemma intakes_move_refl [simp]: "intakes d' = intakes d \<Longrightarrow> intakes_move d d'"
  by (simp add: intakes_move_def)

lemma intakes_move_trans: "intakes_move a b \<Longrightarrow> intakes_move b c \<Longrightarrow> intakes_move a c"
  by (auto simp: intakes_move_def)

lemma project_moves: "project_lifecycle d key p (Some t) = Inr (ok, d') \<Longrightarrow> intakes_move d d'"
  by (auto simp: intakes_move_def intro: intake_evolves_final project_intakes_evolve)


lemma target_failure_moves:
  "fail_target_without_claim d job c now = Inr d' \<Longrightarrow> intakes_move d d'"
  "fail_extraction_target d job c now = Inr d' \<Longrightarrow> intakes_move d d'"
proof -
  assume "fail_target_without_claim d job c now = Inr d'"
  then obtain d1 where "project_unclaimed_failure d job c now = Inr d1" "intakes d' = intakes d1"
    by (auto simp: fail_target_without_claim_def and_then_Inr_iff Let_def fail_pending_document_def
        quarantine_scanning_def)
  then show "intakes_move d d'"
    using project_moves
    by (auto simp: project_unclaimed_failure_def map_sum_Inr_iff intakes_move_def split: option.splits)
next
  assume *: "fail_extraction_target d job c now = Inr d'"
  then obtain d1 where d1: "(case job_pipeline_key job of None \<Rightarrow> Inr d
       | Some key \<Rightarrow> map_sum id snd (project_lifecycle d key (Extraction_attention c) (Some now))) = Inr d1"
    unfolding fail_extraction_target_def by (rule and_then_InrE)
  then have "intakes_move d d1"
    using project_moves by (auto simp: map_sum_Inr_iff split: option.splits)
  moreover from * d1 have "intakes d' = intakes d1"
    by (auto simp: fail_extraction_target_def and_then_Inr_iff Let_def)
  ultimately show "intakes_move d d'" by (simp add: intakes_move_def)
qed

lemma open_job_lease_moves: "open_job_lease env w ttl now job d = Inr d' \<Longrightarrow> intakes d' = intakes d"
  by (auto simp: open_job_lease_def and_then_Inr_iff)

lemma claim_target_moves:
  "claim_validation_target env w ttl now job d = Inr (r, d') \<Longrightarrow> intakes_move d d'"
  "claim_extraction_target env w ttl now job d = Inr (r', d') \<Longrightarrow> intakes_move d d'"
proof -
  assume *: "claim_validation_target env w ttl now job d = Inr (r, d')"
  show "intakes_move d d'"
  proof (cases "validation_target d job")
    case None
    with * show ?thesis
      by (auto simp: claim_validation_target_def map_sum_Inr_iff intro: target_failure_moves)
  next
    case (Some tgt)
    obtain p key x a rc where "tgt = (p, key, x, a, rc)" by (cases tgt)
    with * Some obtain okp d1 where pr: "project_lifecycle d key Validation_claim (Some now) = Inr (okp, d1)"
      and rest: "fail_target_without_claim d1 job ''validation_target_invalid'' now = Inr d'
        \<or> take_validation_lease env w ttl now job x a d1 = Inr d'"
      by (auto simp: claim_validation_target_def and_then_Inr_iff map_sum_Inr_iff split: if_splits)
    from rest have "intakes_move d1 d'"
      by (auto simp: take_validation_lease_def and_then_Inr_iff update_one_Inr_iff
          dest!: open_job_lease_moves intro: target_failure_moves)
    with project_moves [OF pr] show ?thesis by (rule intakes_move_trans)
  qed
next
  assume *: "claim_extraction_target env w ttl now job d = Inr (r', d')"
  show "intakes_move d d'"
  proof (cases "Option.bind (parse_extraction_payload (j_payload job))
             (\<lambda>p. map_option (\<lambda>g. (p, g)) (authoritative_extraction_target d job p))")
    case None
    with * show ?thesis
      by (auto simp: claim_extraction_target_def map_sum_Inr_iff intro: target_failure_moves)
  next
    case (Some pg)
    obtain p g where "pg = (p, g)" by (cases pg)
    with * Some obtain okp d1 where
      pr: "project_lifecycle d (target_authority_key job g) Extraction_claim (Some now) = Inr (okp, d1)"
      and rest: "fail_extraction_target d1 job ''extraction_target_invalid'' now = Inr d'
        \<or> open_job_lease env w ttl now job d1 = Inr d'"
      by (auto simp: claim_extraction_target_def and_then_Inr_iff map_sum_Inr_iff split: if_splits)
    from rest have "intakes_move d1 d'"
      by (auto dest!: open_job_lease_moves intro: target_failure_moves)
    with project_moves [OF pr] show ?thesis by (rule intakes_move_trans)
  qed
qed

lemma claim_tx_moves:
  "claim_validation_tx env w ttl now d = Inr (r, d') \<Longrightarrow> intakes_move d d'"
  "claim_extraction_tx env w pv e ttl q now d = Inr (r', d') \<Longrightarrow> intakes_move d d'"
proof -
  have cong: "intakes_move x d' \<Longrightarrow> intakes x = intakes d \<Longrightarrow> intakes_move d d'" for x
    by (simp add: intakes_move_def)
  have base: "intakes (close_expired_attempt job s m now d) = intakes d"
    "intakes (close_expired_extraction job s now d) = intakes d"
    "intakes (reset_processing_document job (quarantine_scanning job (close_expired_attempt job s m now d)))
       = intakes d" for job s m
    by (simp_all add: close_expired_attempt_def close_expired_extraction_def
        reset_processing_document_def quarantine_scanning_def)
  show "intakes_move d d'" if "claim_validation_tx env w ttl now d = Inr (r, d')"
    using that
    by (auto simp: claim_validation_tx_def map_sum_Inr_iff split: option.splits if_splits
        intro: target_failure_moves claim_target_moves
        dest!: target_failure_moves(1) claim_target_moves(1) elim!: cong simp: base)
  show "intakes_move d d'" if "claim_extraction_tx env w pv e ttl q now d = Inr (r', d')"
    using that
    by (auto simp: claim_extraction_tx_def map_sum_Inr_iff split: option.splits if_splits
        dest!: target_failure_moves(2) claim_target_moves(2) elim!: cong simp: base)
qed

lemma completion_moves:
  "complete_validation_tx ids l a e now d = Inr (r, d') \<Longrightarrow> intakes_move d d'"
  "complete_extraction_tx sha256 i xl xa now d = Inr (xr, d') \<Longrightarrow> intakes_move d d'"
proof -
  show "intakes_move d d'" if "complete_validation_tx ids l a e now d = Inr (r, d')"
    using that
  proof (cases rule: complete_validation_txE)
    case (applied job rc d1)
    with project_moves [OF applied(4)] apply_validation_lifecycle(1) [OF applied(5)]
    show ?thesis by (simp add: intakes_move_def)
  qed simp_all
  show "intakes_move d d'" if "complete_extraction_tx sha256 i xl xa now d = Inr (xr, d')"
    using that
  proof (cases rule: complete_extraction_txE)
    case (applied job d1)
    then have "intakes d' = intakes d1" by (auto simp: apply_extraction_def and_then_Inr_iff)
    with project_moves [OF applied(4)] show ?thesis by (simp add: intakes_move_def)
  qed simp_all
qed

lemma failure_moves:
  "fail_validation_tx l c retryable now d = Inr (r, d') \<Longrightarrow> intakes_move d d'"
  "fail_extraction_tx xl xc retryable now d = Inr (r, d') \<Longrightarrow> intakes_move d d'"
  "defer_extraction xl clock n d = Inr (dr, d') \<Longrightarrow> intakes_move d d'"
proof -
  show "intakes_move d d'" if "fail_validation_tx l c retryable now d = Inr (r, d')"
    using that
  proof (cases rule: fail_validation_txE)
    case (applied job d1 canRetry)
    then have "intakes d' = intakes d1"
      by (auto simp: apply_validation_failure_def and_then_Inr_iff Let_def release_scanned_asset_def
          update_processing_document_def reject_changed_asset_def split: if_splits)
    with project_moves [OF applied(4)] show ?thesis by (simp add: intakes_move_def)
  qed simp
  show "intakes_move d d'" if "fail_extraction_tx xl xc retryable now d = Inr (r, d')"
    using that
  proof (cases rule: fail_extraction_txE)
    case (applied job d1 canRetry)
    then have "intakes d' = intakes d1"
      by (auto simp: apply_extraction_failure_def and_then_Inr_iff Let_def split: if_splits)
    with project_moves [OF applied(4)] show ?thesis by (simp add: intakes_move_def)
  qed simp
  show "intakes_move d d'" if "defer_extraction xl clock n d = Inr (dr, d')"
    using that
  proof (cases rule: defer_extractionE)
    case (applied ov now job d1)
    then have "intakes d' = intakes d1" by (auto simp: apply_deferral_def and_then_Inr_iff)
    with project_moves [OF applied(6)] show ?thesis by (simp add: intakes_move_def)
  qed simp
qed

lemma enqueue_moves:
  "enqueue_validation i now x d = Inr (j, d') \<Longrightarrow> intakes_move d d'"
  "enqueue_extraction i t xx d = Inr (j, d') \<Longrightarrow> intakes_move d d'"
  by (auto simp: enqueue_validation_def and_then_Inr_iff map_sum_Inr_iff Let_def
        dest!: enqueue_extraction_appends split: option.splits if_splits)

lemma run_pipeline_moves:
  assumes "run_pipeline nfc sha256 e d = Inr (u, d')"
  shows "intakes_move d d'"
proof (cases e)
  case (Validation_event v)
  with assms show ?thesis
    by (cases v) (auto simp: map_sum_Inr_iff and_then_Inr_iff heartbeat_validation_def
        complete_validation_def fail_validation_def
        intro: claim_tx_moves completion_moves failure_moves enqueue_moves)
next
  case (Extraction_event x)
  with assms show ?thesis
    by (cases x) (auto simp: map_sum_Inr_iff and_then_Inr_iff heartbeat_extraction_def Let_def
        run_extraction_claim_def complete_extraction_def fail_extraction_def
        intro: claim_tx_moves completion_moves failure_moves enqueue_moves)
qed

interpretation pf: keeping "run_pipeline nfc sha256" "\<lambda>_. True" "\<lambda>_. True"
    "\<lambda>k d. k \<in> set (intakes d) \<and> final_intake k"
  by unfold_locales (auto simp: intakes_move_def dest!: run_pipeline_moves)

lemma run_all_final_intakes:
  assumes "k \<in> set (intakes d)" "final_intake k"
  shows "k \<in> set (intakes (run_all nfc sha256 es d))"
  unfolding run_all_def
  by (rule pf.run_kept [THEN conjunct1]) (use assms in \<open>simp_all add: list_all_iff\<close>)

end
