(* ===== verification/Iso_Dates.thy ===== *)
theory Iso_Dates
  imports Js_Text
begin

text \<open>
  The round trip of \<open>Date\<close>: for every date of the years 0 to 9999 the text \<open>toISOString\<close> writes
  is canonical and parses back to the same date. The services write their timestamps this way and
  the contracts read them back.
\<close>

section \<open>The calendar\<close>

text \<open>The day of an era of 400 years splits into century, four-year cycle and year.\<close>

lemma year_of_era:
  assumes doe: "0 \<le> doe" "doe < (146097::int)"
    and yoe: "yoe = (doe - doe div 1460 + doe div 36524 - doe div 146096) div 365"
  shows "0 \<le> yoe" and "yoe \<le> 399"
    and "0 \<le> doe - (365 * yoe + yoe div 4 - yoe div 100)"
    and "doe - (365 * yoe + yoe div 4 - yoe div 100) \<le> 365"
proof -
  have goal: "0 \<le> yoe \<and> yoe \<le> 399 \<and> 0 \<le> doe - (365 * yoe + yoe div 4 - yoe div 100)
    \<and> doe - (365 * yoe + yoe div 4 - yoe div 100) \<le> 365"
  proof (cases "doe = 146096")
    case True
    then show ?thesis by (simp add: yoe)
  next
    case False
    define c where "c = doe div 36524"
    define s where "s = doe mod 36524"
    define u where "u = s div 1461"
    define v where "v = s mod 1461"
    define t where "t = (u + v + 24 * c) div 1460"
    define j where "j = (v - t) div 365"
    have c: "0 \<le> c" "c \<le> 3" and s: "0 \<le> s" "s < 36524" and d: "doe = 36524 * c + s"
      using doe False by (auto simp: c_def s_def)
    have u: "0 \<le> u" "u \<le> 24" and v: "0 \<le> v" "v \<le> 1460" and su: "s = 1461 * u + v"
      using s by (auto simp: u_def v_def)
    have t: "0 \<le> t" "t \<le> 1" "v = 0 \<Longrightarrow> t = 0" "v = 1460 \<Longrightarrow> t = 1"
      using u v c by (auto simp: t_def)
    have vt: "0 \<le> v - t" "v - t \<le> 1459" using t v by (cases "v = 0"; cases "v = 1460"; simp)+
    then have j: "0 \<le> j" "j \<le> 3" "365 * j \<le> v - t" "v - t \<le> 365 * j + 364"
      by (auto simp: j_def)
    have "doe = 1460 * (25 * c + u) + (u + v + 24 * c)" using d su by simp
    then have a: "doe div 1460 = 25 * c + u + t" by (simp add: t_def)
    have e: "doe div 146096 = 0" using doe False by simp
    have b: "doe div 36524 = c" by (simp add: c_def)
    have "doe - doe div 1460 + doe div 36524 - doe div 146096 = 365 * (100 * c + 4 * u) + (v - t)"
      unfolding a b e by (simp add: d su)
    then have y: "yoe = 100 * c + 4 * u + j" by (simp add: yoe j_def)
    have y4: "yoe div 4 = 25 * c + u" using j y by simp
    have y100: "yoe div 100 = c" using j u y by simp
    show ?thesis using c u j t d su by (simp only: y4 y100) (simp add: y)
  qed
  from goal show "0 \<le> yoe" "yoe \<le> 399" "0 \<le> doe - (365 * yoe + yoe div 4 - yoe div 100)"
    "doe - (365 * yoe + yoe div 4 - yoe div 100) \<le> 365" by simp_all
qed

lemma month_of_year:
  assumes "0 \<le> doy" "doy \<le> (365::int)" "mp = (5 * doy + 2) div 153"
  shows "0 \<le> mp" and "mp \<le> 11" and "(153 * mp + 2) div 5 \<le> doy" and "doy - (153 * mp + 2) div 5 \<le> 30"
proof -
  show mp: "0 \<le> mp" "mp \<le> 11" using assms by simp_all
  have b: "153 * mp \<le> 5 * doy + 2" "5 * doy + 2 \<le> 153 * mp + 152" using assms(3) by simp_all
  then show "(153 * mp + 2) div 5 \<le> doy" by simp
  from b show "doy - (153 * mp + 2) div 5 \<le> 30" by simp
qed

lemma civil_round_trip:
  assumes "civil_from_days z = (y, m, d)"
  shows "days_from_civil y m 1 + (d - 1) = z" and "1 \<le> m" "m \<le> 12" "1 \<le> d" "d \<le> 31"
proof -
  define era where "era = (z + 719468) div 146097"
  define doe where "doe = (z + 719468) mod 146097"
  define yoe where "yoe = (doe - doe div 1460 + doe div 36524 - doe div 146096) div 365"
  define doy where "doy = doe - (365 * yoe + yoe div 4 - yoe div 100)"
  define mp where "mp = (5 * doy + 2) div 153"
  have "0 \<le> doe" "doe < 146097" by (simp_all add: doe_def)
  note yb = year_of_era [OF this yoe_def]
  then have "0 \<le> doy" "doy \<le> 365" by (simp_all add: doy_def)
  note mb = month_of_year [OF this mp_def]
  have y: "y = yoe + era * 400 + (if m \<le> 2 then 1 else 0)"
    and m: "m = (if mp < 10 then mp + 3 else mp - 9)" and d: "d = doy - (153 * mp + 2) div 5 + 1"
    using assms unfolding civil_from_days_def Let_def era_def [symmetric] doe_def [symmetric]
      yoe_def [symmetric] doy_def [symmetric] mp_def [symmetric]
    by auto
  show "1 \<le> m" "m \<le> 12" "1 \<le> d" "d \<le> 31" using mb by (auto simp: m d)
  have y': "(if m \<le> 2 then y - 1 else y) = yoe + era * 400" by (simp add: y)
  have mp': "(if m > 2 then m - 3 else m + 9) = mp" using mb by (auto simp: m)
  have era': "(yoe + era * 400) div 400 = era" using yb by simp
  have "days_from_civil y m 1
      = era * 146097 + (yoe * 365 + yoe div 4 - yoe div 100 + (153 * mp + 2) div 5) - 719468"
    unfolding days_from_civil_def Let_def y' mp' era' by simp
  moreover have "era * 146097 + doe = z + 719468" by (simp add: era_def doe_def)
  ultimately show "days_from_civil y m 1 + (d - 1) = z" by (simp add: d doy_def)
qed

section \<open>Digits\<close>

lemma digit_char_code: "code (digit_char n) = 48 + nat (n mod 10)"
proof -
  have "n mod 10 = 0 \<or> n mod 10 = 1 \<or> n mod 10 = 2 \<or> n mod 10 = 3 \<or> n mod 10 = 4 \<or> n mod 10 = 5
    \<or> n mod 10 = 6 \<or> n mod 10 = 7 \<or> n mod 10 = 8 \<or> n mod 10 = 9" by presburger
  then show ?thesis by (elim disjE) (simp_all add: digit_char_def code_def)
qed

lemma digit_char_val [simp]: "digit_val (digit_char n) = n mod 10"
  by (simp add: digit_val_def digit_char_code)

lemma is_digit_digit_char [simp]: "is_digit (digit_char n)"
  by (simp add: is_digit_def digit_char_code)

lemma length_padded [simp]: "length (padded k n) = k"
  by (induction k arbitrary: n) auto

lemma padded_digits [simp]: "list_all is_digit (padded k n)"
  by (induction k arbitrary: n) auto

lemma digits_val_padded: "digits_val (padded k n) = n mod 10 ^ k"
proof (induction k arbitrary: n)
  case (Suc k)
  have "10 * (n div 10 mod 10 ^ k) + n mod 10 = n mod 10 ^ Suc k"
    using zmod_zmult2_eq [of "10 ^ k" n 10] by (simp add: algebra_simps)
  with Suc show ?case by (simp add: digits_val_def)
qed (simp add: digits_val_def)

lemma digits_val_padded_small: "0 \<le> n \<Longrightarrow> n < 10 ^ k \<Longrightarrow> digits_val (padded k n) = n"
  by (simp add: digits_val_padded)

section \<open>Timestamps\<close>

definition four_digit_year :: "millis \<Rightarrow> bool" where
  "four_digit_year t \<longleftrightarrow>
     (case civil_from_days (t div 86400000) of (y, m, d) \<Rightarrow> 0 \<le> y \<and> y \<le> 9999)"

text \<open>The text by its eight fields of fixed width, and what reading the fields gives.\<close>

definition stamp :: "int \<Rightarrow> int \<Rightarrow> int \<Rightarrow> int \<Rightarrow> int \<Rightarrow> int \<Rightarrow> int \<Rightarrow> string" where
  "stamp y m d h mi sec ms =
     padded 4 y @ ''-'' @ padded 2 m @ ''-'' @ padded 2 d @ ''T'' @ padded 2 h @ '':'' @ padded 2 mi
     @ '':'' @ padded 2 sec @ ''.'' @ padded 3 ms @ ''Z''"

lemma stamp_pattern: "iso_pattern (stamp y m d h mi sec ms)"
  by (simp add: iso_pattern_def stamp_def numeral_eq_Suc)

lemma stamp_fields:
  "take 4 (stamp y m d h mi sec ms) = padded 4 y"
  "take 2 (drop 5 (stamp y m d h mi sec ms)) = padded 2 m"
  "take 2 (drop 8 (stamp y m d h mi sec ms)) = padded 2 d"
  "take 2 (drop 11 (stamp y m d h mi sec ms)) = padded 2 h"
  "take 2 (drop 14 (stamp y m d h mi sec ms)) = padded 2 mi"
  "take 2 (drop 17 (stamp y m d h mi sec ms)) = padded 2 sec"
  "take 3 (drop 20 (stamp y m d h mi sec ms)) = padded 3 ms"
  by (simp_all add: stamp_def numeral_eq_Suc)

lemma iso_round_trip:
  assumes "four_digit_year t"
  shows "canonical_iso (iso_format t) = Some t"
proof -
  obtain y m d where c: "civil_from_days (t div 86400000) = (y, m, d)"
    by (cases "civil_from_days (t div 86400000)") auto
  define r where "r = t mod 86400000"
  have r: "0 \<le> r" "r < 86400000" by (simp_all add: r_def)
  define h where "h = r div 3600000"
  define mi where "mi = r div 60000 mod 60"
  define sec where "sec = r div 1000 mod 60"
  define ms where "ms = r mod 1000"
  have b: "0 \<le> h" "h \<le> 23" "0 \<le> mi" "mi \<le> 59" "0 \<le> sec" "sec \<le> 59" "0 \<le> ms" "ms \<le> 999"
    using r by (simp_all add: h_def mi_def sec_def ms_def)
  have rsum: "r = h * 3600000 + mi * 60000 + sec * 1000 + ms"
  proof -
    have q: "r div 60000 = r div 1000 div 60" "r div 3600000 = r div 60000 div 60"
      by (simp_all add: zdiv_zmult2_eq [symmetric])
    have "r = 1000 * (r div 1000) + ms" by (simp add: ms_def)
    moreover have "r div 1000 = 60 * (r div 60000) + sec" by (simp add: q(1) sec_def)
    moreover have "r div 60000 = 60 * h + mi" by (simp add: q(2) h_def mi_def)
    ultimately show ?thesis by linarith
  qed
  have y: "0 \<le> y" "y \<le> 9999" using assms c by (simp_all add: four_digit_year_def)
  have f: "iso_format t = stamp y m d h mi sec ms"
    using y c by (simp add: iso_format_def iso_year_def stamp_def Let_def h_def mi_def sec_def ms_def r_def)
  note cv = civil_round_trip [OF c]
  have v: "digits_val (padded 4 y) = y" "digits_val (padded 2 m) = m" "digits_val (padded 2 d) = d"
    "digits_val (padded 2 h) = h" "digits_val (padded 2 mi) = mi" "digits_val (padded 2 sec) = sec"
    "digits_val (padded 3 ms) = ms"
    using y cv b by (simp_all add: digits_val_padded_small)
  have "iso_parse (iso_format t)
      = Some ((days_from_civil y m 1 + (d - 1)) * 86400000 + h * 3600000 + mi * 60000 + sec * 1000 + ms)"
    using cv b by (simp add: iso_parse_def f stamp_pattern stamp_fields v Let_def)
  also have "\<dots> = Some (t div 86400000 * 86400000 + r)" using rsum cv(1) by simp
  also have "\<dots> = Some t" by (simp add: r_def)
  finally show ?thesis by (simp add: canonical_iso_def)
qed

end
