(* ===== verification/Unicode_Text.thy ===== *)
theory Unicode_Text
  imports Extracted_Text Iso_Dates
begin

text \<open>
  Texts as lists of Unicode code points and as UTF-8 bytes. The extractor service normalises a page
  code point by code point; the contract and the job code test the bytes it sends. The lemmas say
  that the byte tests of \<open>Extracted_Text\<close> hold exactly when the code points have the property.
  The general categories \<open>Cc\<close>, \<open>Cf\<close> and \<open>Zs\<close> are the ranges of the Unicode character database.
\<close>

section \<open>Encoding\<close>

definition byte :: "int \<Rightarrow> char" where
  "byte b = char_of (nat b)"

definition utf8_char :: "int \<Rightarrow> string" where
  "utf8_char p =
     (if p < 128 then [byte p]
      else if p < 2048 then [byte (192 + p div 64), byte (128 + p mod 64)]
      else if p < 65536
      then [byte (224 + p div 4096), byte (128 + p div 64 mod 64), byte (128 + p mod 64)]
      else [byte (240 + p div 262144), byte (128 + p div 4096 mod 64), byte (128 + p div 64 mod 64),
            byte (128 + p mod 64)])"

definition utf8_encode :: "int list \<Rightarrow> string" where
  "utf8_encode ps = concat (map utf8_char ps)"

definition scalar :: "int \<Rightarrow> bool" where
  "scalar p \<longleftrightarrow> 0 \<le> p \<and> p \<le> 1114111 \<and> \<not> (55296 \<le> p \<and> p \<le> 57343)"

text \<open>
  \<open>new TextDecoder("utf-8", { fatal: true }).decode\<close>: the code points of a well formed text, its
  byte order mark removed; an ill formed one (overlong, a surrogate, a stray byte) is refused.
\<close>

definition utf8_decode :: "string \<Rightarrow> int list option" where
  "utf8_decode s =
     (let ps = code_points s
      in if list_all scalar ps \<and> utf8_encode ps = s
         then Some (if take 1 ps = [65279] then drop 1 ps else ps) else None)"

definition point_size :: "int \<Rightarrow> int" where
  "point_size p = (if p < 128 then 1 else if p < 2048 then 2 else if p < 65536 then 3 else 4)"

definition text_size :: "int list \<Rightarrow> int" where
  "text_size ps = sum_list (map point_size ps)"

lemma utf8_encode_simps [simp]:
  "utf8_encode [] = []" "utf8_encode (p # ps) = utf8_char p @ utf8_encode ps"
  "utf8_encode (ps @ qs) = utf8_encode ps @ utf8_encode qs"
  by (simp_all add: utf8_encode_def)

lemma text_size_simps [simp]:
  "text_size [] = 0" "text_size (p # ps) = point_size p + text_size ps"
  "text_size (ps @ qs) = text_size ps + text_size qs"
  by (simp_all add: text_size_def)

lemma point_size_bounds: "1 \<le> point_size p" "point_size p \<le> 4"
  by (simp_all add: point_size_def)

lemma text_size_nonneg: "0 \<le> text_size ps"
proof (induction ps)
  case (Cons p ps)
  then show ?case using point_size_bounds(1) [of p] by simp
qed simp

lemma text_size_pos: "ps \<noteq> [] \<Longrightarrow> 1 \<le> text_size ps"
  using point_size_bounds(1) [of "hd ps"] text_size_nonneg [of "tl ps"] by (cases ps) simp_all

lemma code_byte: "0 \<le> b \<Longrightarrow> b < 256 \<Longrightarrow> code (byte b) = nat b"
  by (simp add: code_def byte_def)

lemma byte_inject:
  "0 \<le> a \<Longrightarrow> a < 256 \<Longrightarrow> 0 \<le> b \<Longrightarrow> b < 256 \<Longrightarrow> byte a = byte b \<longleftrightarrow> a = b"
  using code_byte [of a] code_byte [of b] by (metis eq_nat_nat_iff)

lemma byte_space: "byte 32 = CHR '' ''"
  by code_simp

definition char_bytes :: "int \<Rightarrow> int list" where
  "char_bytes p = map (\<lambda>c. int (code c)) (utf8_char p)"

lemma utf8_char_cases:
  assumes "scalar p"
  obtains "0 \<le> p" "p < 128" "utf8_char p = [byte p]" "point_size p = 1"
      "char_bytes p = [p]"
  | x y where "p = 64 * x + y" "2 \<le> x" "x \<le> 31" "0 \<le> y" "y \<le> 63" "128 \<le> p" "p < 2048"
      "utf8_char p = [byte (192 + x), byte (128 + y)]" "point_size p = 2"
      "char_bytes p = [192 + x, 128 + y]"
  | x y z where "p = 4096 * x + 64 * y + z" "0 \<le> x" "x \<le> 15" "0 \<le> y" "y \<le> 63" "0 \<le> z" "z \<le> 63"
      "2048 \<le> p" "p < 65536" "utf8_char p = [byte (224 + x), byte (128 + y), byte (128 + z)]"
      "point_size p = 3" "char_bytes p = [224 + x, 128 + y, 128 + z]"
  | w x y z where "p = 262144 * w + 4096 * x + 64 * y + z" "0 \<le> w" "w \<le> 4" "0 \<le> x" "x \<le> 63"
      "0 \<le> y" "y \<le> 63" "0 \<le> z" "z \<le> 63" "65536 \<le> p"
      "utf8_char p = [byte (240 + w), byte (128 + x), byte (128 + y), byte (128 + z)]"
      "point_size p = 4" "char_bytes p = [240 + w, 128 + x, 128 + y, 128 + z]"
proof -
  have b: "0 \<le> p" "p \<le> 1114111" using assms by (simp_all add: scalar_def)
  consider "p < 128" | "128 \<le> p" "p < 2048" | "2048 \<le> p" "p < 65536" | "65536 \<le> p" by linarith
  then show thesis
  proof cases
    case 1
    then show ?thesis using b by (intro that(1)) (simp_all add: utf8_char_def point_size_def char_bytes_def code_byte)
  next
    case 2
    then show ?thesis
      by (intro that(2) [of "p div 64" "p mod 64"]) (simp_all add: utf8_char_def point_size_def char_bytes_def code_byte)
  next
    case 3
    have "p = 64 * (p div 64) + p mod 64" by simp
    moreover have "p div 64 = 64 * (p div 4096) + p div 64 mod 64"
      using zdiv_zmult2_eq [of 64 p 64] by simp
    ultimately have e: "p = 4096 * (p div 4096) + 64 * (p div 64 mod 64) + p mod 64" by linarith
    have u: "utf8_char p
        = [byte (224 + p div 4096), byte (128 + p div 64 mod 64), byte (128 + p mod 64)]"
      using 3 by (simp add: utf8_char_def)
    have c: "char_bytes p = [224 + p div 4096, 128 + p div 64 mod 64, 128 + p mod 64]"
      using 3 by (simp add: u char_bytes_def code_byte)
    from 3 show ?thesis
      by (intro that(3) [OF e _ _ _ _ _ _ _ _ u _ c]) (simp_all add: point_size_def)
  next
    case 4
    have "p = 64 * (p div 64) + p mod 64" by simp
    moreover have "p div 64 = 64 * (p div 4096) + p div 64 mod 64"
      using zdiv_zmult2_eq [of 64 p 64] by simp
    moreover have "p div 4096 = 64 * (p div 262144) + p div 4096 mod 64"
      using zdiv_zmult2_eq [of 64 p 4096] by simp
    ultimately have e:
      "p = 262144 * (p div 262144) + 4096 * (p div 4096 mod 64) + 64 * (p div 64 mod 64) + p mod 64"
      by linarith
    have u: "utf8_char p = [byte (240 + p div 262144), byte (128 + p div 4096 mod 64),
        byte (128 + p div 64 mod 64), byte (128 + p mod 64)]"
      using 4 by (simp add: utf8_char_def)
    have c: "char_bytes p = [240 + p div 262144, 128 + p div 4096 mod 64, 128 + p div 64 mod 64,
        128 + p mod 64]"
      using 4 b by (simp add: u char_bytes_def code_byte)
    from 4 b show ?thesis
      by (intro that(4) [OF e _ _ _ _ _ _ _ _ _ u _ c]) (simp_all add: point_size_def)
  qed
qed

lemma length_utf8_char: "scalar p \<Longrightarrow> int (length (utf8_char p)) = point_size p"
  by (cases p rule: utf8_char_cases) simp_all

lemma utf8_bytes_encode: "list_all scalar ps \<Longrightarrow> utf8_bytes (utf8_encode ps) = text_size ps"
  by (induction ps) (simp_all add: utf8_bytes_def length_utf8_char)

lemma utf8_char_nonempty [simp]: "utf8_char p \<noteq> []"
  by (simp add: utf8_char_def)

lemma utf8_encode_Nil_iff [simp]: "utf8_encode ps = [] \<longleftrightarrow> ps = []"
  by (cases ps) simp_all

section \<open>Reading the code points back\<close>

lemma utf8_points_continue:
  "0 \<le> y \<Longrightarrow> y \<le> 63 \<Longrightarrow> utf8_points (Some q) ((128 + y) # bs) = utf8_points (Some (64 * q + y)) bs"
  by simp

lemma lead_bits_simps:
  "p < 128 \<Longrightarrow> lead_bits p = p" "0 \<le> x \<Longrightarrow> x \<le> 31 \<Longrightarrow> lead_bits (192 + x) = x"
  "0 \<le> x \<Longrightarrow> x \<le> 15 \<Longrightarrow> lead_bits (224 + x) = x" "0 \<le> x \<Longrightarrow> lead_bits (240 + x) = x"
  by (simp_all add: lead_bits_def)

lemma utf8_points_None:
  assumes "scalar p"
  shows "utf8_points None (char_bytes p @ bs) = utf8_points (Some p) bs"
  using assms
proof (cases p rule: utf8_char_cases)
  case 1
  then show ?thesis by (simp only: append.simps utf8_points.simps lead_bits_simps)
next
  case (2 x y)
  have "0 \<le> x" using 2(2) by simp
  then show ?thesis
    using 2 by (simp only: append.simps utf8_points.simps(3) lead_bits_simps utf8_points_continue)
next
  case (3 x y z)
  have "64 * (64 * x + y) + z = p" using 3(1) by simp
  then show ?thesis using 3(2-7,12)
    by (simp only: append.simps utf8_points.simps(3) lead_bits_simps utf8_points_continue)
next
  case (4 w x y z)
  have "64 * (64 * (64 * w + x) + y) + z = p" using 4(1) by simp
  then show ?thesis using 4(2-9,13)
    by (simp only: append.simps utf8_points.simps(3) lead_bits_simps utf8_points_continue)
qed

lemma utf8_points_Some:
  assumes "scalar p"
  shows "utf8_points (Some q) (char_bytes p @ bs) = q # utf8_points (Some p) bs"
proof -
  obtain b bs' where b: "char_bytes p = b # bs'" "\<not> (128 \<le> b \<and> b < 192)"
    using assms by (cases p rule: utf8_char_cases) auto
  then have "utf8_points (Some q) (char_bytes p @ bs) = q # utf8_points None (char_bytes p @ bs)"
    by auto
  with utf8_points_None [OF assms] show ?thesis by simp
qed

lemma utf8_points_encode:
  "list_all scalar ps \<Longrightarrow> utf8_points (Some q) (concat (map char_bytes ps)) = q # ps"
  by (induction ps arbitrary: q) (simp_all add: utf8_points_Some)

lemma code_points_encode:
  assumes "list_all scalar ps"
  shows "code_points (utf8_encode ps) = ps"
proof -
  have "map (\<lambda>c. int (code c)) (utf8_encode ps) = concat (map char_bytes ps)"
    by (induction ps) (simp_all add: char_bytes_def)
  then have "code_points (utf8_encode ps) = utf8_points None (concat (map char_bytes ps))"
    by (simp add: code_points_def)
  also have "\<dots> = ps"
    using assms by (cases ps) (simp_all add: utf8_points_None utf8_points_encode)
  finally show ?thesis .
qed

lemma utf8_decode_scalar: "utf8_decode s = Some ps \<Longrightarrow> list_all scalar ps"
  by (auto simp: utf8_decode_def Let_def list_all_iff split: if_splits dest: in_set_dropD)

section \<open>Length and white space\<close>

lemma js_length_nonneg: "0 \<le> js_length s"
  by (induction s) auto

lemma js_length_encode_pos:
  assumes "list_all scalar ps" "ps \<noteq> []"
  shows "1 \<le> js_length (utf8_encode ps)"
proof -
  obtain p qs where ps: "ps = p # qs" using assms by (cases ps) auto
  then have "scalar p" using assms by simp
  then show ?thesis using js_length_nonneg [of "utf8_encode qs"]
    by (cases p rule: utf8_char_cases) (auto simp: ps code_byte)
qed

text \<open>What \<open>trim\<close> removes: white space and line terminators, the byte order mark included.\<close>

definition white_point :: "int \<Rightarrow> bool" where
  "white_point p \<longleftrightarrow> space_separator p \<or> (9 \<le> p \<and> p \<le> 13) \<or> p = 8232 \<or> p = 8233 \<or> p = 65279"

lemma white_len_continuation: "128 \<le> code c \<Longrightarrow> code c < 192 \<Longrightarrow> white_len (map code (c # s)) = 0"
  by (auto split: list.splits)

lemma trim_start_continuation: "128 \<le> code c \<Longrightarrow> code c < 192 \<Longrightarrow> trim_start (c # s) = c # s"
  using white_len_continuation by (subst trim_start.simps) simp

lemma white_len_1: "a < 128 \<Longrightarrow> white_len (a # r) = (if a = 32 \<or> (9 \<le> a \<and> a \<le> 13) then 1 else 0)"
  by (auto split: list.splits)

lemma white_len_2: "192 \<le> a \<Longrightarrow> a < 224 \<Longrightarrow> white_len (a # b # r) = (if a = 194 \<and> b = 160 then 2 else 0)"
  by (auto split: list.splits)

lemma white_len_3:
  "224 \<le> a \<Longrightarrow> white_len (a # b # c # r) =
     (if (a = 225 \<and> b = 154 \<and> c = 128)
        \<or> (a = 226 \<and> b = 128 \<and> ((128 \<le> c \<and> c \<le> 138) \<or> c = 168 \<or> c = 169 \<or> c = 175))
        \<or> (a = 226 \<and> b = 129 \<and> c = 159) \<or> (a = 227 \<and> b = 128 \<and> c = 128)
        \<or> (a = 239 \<and> b = 187 \<and> c = 191) then 3 else 0)"
  by (simp only: white_len.simps list.case) simp

lemma white_len_4: "240 \<le> a \<Longrightarrow> white_len (a # r) = 0"
  by (auto split: list.splits)

lemma base_64_digits:
  assumes "0 \<le> y" "y \<le> 63" "0 \<le> z" "z \<le> 63" "0 \<le> b" "b \<le> 63" "0 \<le> c" "c \<le> (63::int)"
  shows "4096 * x + 64 * y + z = 4096 * a + 64 * b + c \<longleftrightarrow> x = a \<and> y = b \<and> z = c"
proof
  assume e: "4096 * x + 64 * y + z = 4096 * a + 64 * b + c"
  then have "x = a" using assms by linarith
  moreover from this have "y = b" using e assms by linarith
  ultimately show "x = a \<and> y = b \<and> z = c" using e by simp
qed simp

lemma white_len_char:
  assumes "scalar p"
  shows "white_len (map code (utf8_char p @ s)) = (if white_point p then length (utf8_char p) else 0)"
  using assms
proof (cases p rule: utf8_char_cases)
  case 1
  then have "white_point p \<longleftrightarrow> nat p = 32 \<or> (9 \<le> nat p \<and> nat p \<le> 13)"
    by (auto simp: white_point_def space_separator_def)
  moreover have "nat p < 128" using 1 by simp
  ultimately show ?thesis using 1 white_len_1 [of "nat p" "map code s"]
    by (simp only: list.map append.simps code_byte) simp
next
  case (2 x y)
  have "white_point p \<longleftrightarrow> 64 * x + y = 160"
  proof -
    have "p \<noteq> 32" "\<not> (9 \<le> p \<and> p \<le> 13)" "p < 2048" using 2(6,7) by simp_all
    then show ?thesis unfolding white_point_def space_separator_def 2(1) [symmetric] by auto
  qed
  also have "\<dots> \<longleftrightarrow> x = 2 \<and> y = 32" using 2(4,5) by presburger
  finally have "white_point p \<longleftrightarrow> x = 2 \<and> y = 32" .
  moreover have "nat (192 + x) = 194 \<longleftrightarrow> x = 2" "nat (128 + y) = 160 \<longleftrightarrow> y = 32"
    "192 \<le> nat (192 + x)" "nat (192 + x) < 224" using 2(1-5) by auto
  ultimately show ?thesis unfolding 2(8) using 2(2-5)
    by (simp add: code_byte white_len_2 del: white_len.simps)
next
  case (3 x y z)
  have w: "white_point p \<longleftrightarrow> (x = 1 \<and> y = 26 \<and> z = 0)
      \<or> (x = 2 \<and> y = 0 \<and> (z \<le> 10 \<or> z = 40 \<or> z = 41 \<or> z = 47)) \<or> (x = 2 \<and> y = 1 \<and> z = 31)
      \<or> (x = 3 \<and> y = 0 \<and> z = 0) \<or> (x = 15 \<and> y = 59 \<and> z = 63)"
  proof -
    note digits = base_64_digits [OF 3(4-7), of _ _ x, folded 3(1)]
    have d1: "p = 5760 \<longleftrightarrow> x = 1 \<and> y = 26 \<and> z = 0" using digits [of 26 0 1] by simp
    have d2: "p = 8232 \<longleftrightarrow> x = 2 \<and> y = 0 \<and> z = 40" using digits [of 0 40 2] by simp
    have d3: "p = 8233 \<longleftrightarrow> x = 2 \<and> y = 0 \<and> z = 41" using digits [of 0 41 2] by simp
    have d4: "p = 8239 \<longleftrightarrow> x = 2 \<and> y = 0 \<and> z = 47" using digits [of 0 47 2] by simp
    have d5: "p = 8287 \<longleftrightarrow> x = 2 \<and> y = 1 \<and> z = 31" using digits [of 1 31 2] by simp
    have d6: "p = 12288 \<longleftrightarrow> x = 3 \<and> y = 0 \<and> z = 0" using digits [of 0 0 3] by simp
    have d7: "p = 65279 \<longleftrightarrow> x = 15 \<and> y = 59 \<and> z = 63" using digits [of 59 63 15] by simp
    have d8: "8192 \<le> p \<and> p \<le> 8202 \<longleftrightarrow> x = 2 \<and> y = 0 \<and> z \<le> 10"
    proof
      assume p: "8192 \<le> p \<and> p \<le> 8202"
      then have "x = 2" using 3(1,4-7) by linarith
      moreover from this have "y = 0" using p 3(1,4-7) by linarith
      ultimately show "x = 2 \<and> y = 0 \<and> z \<le> 10" using p 3(1) by simp
    qed (use 3(1,6) in simp)
    have "white_point p \<longleftrightarrow> p = 5760 \<or> (8192 \<le> p \<and> p \<le> 8202) \<or> p = 8239 \<or> p = 8287
        \<or> p = 12288 \<or> p = 8232 \<or> p = 8233 \<or> p = 65279"
    proof -
      have "p \<noteq> 32" "p \<noteq> 160" "\<not> (9 \<le> p \<and> p \<le> 13)" using 3(8) by simp_all
      then show ?thesis unfolding white_point_def space_separator_def by blast
    qed
    then show ?thesis unfolding d1 d2 d3 d4 d5 d6 d7 d8 by blast
  qed
  have n: "nat (224 + x) = k \<longleftrightarrow> 224 + x = int k" "nat (128 + y) = k \<longleftrightarrow> 128 + y = int k"
    "nat (128 + z) = k \<longleftrightarrow> 128 + z = int k" "nat (128 + z) \<le> 138 \<longleftrightarrow> z \<le> 10"
    "128 \<le> nat (128 + z)" "224 \<le> nat (224 + x)" for k
  proof -
    have nat_eq: "0 \<le> a \<Longrightarrow> nat a = k \<longleftrightarrow> a = int k" for a by linarith
    show "nat (224 + x) = k \<longleftrightarrow> 224 + x = int k" using 3(2) by (intro nat_eq) simp
    show "nat (128 + y) = k \<longleftrightarrow> 128 + y = int k" using 3(4) by (intro nat_eq) simp
    show "nat (128 + z) = k \<longleftrightarrow> 128 + z = int k" using 3(6) by (intro nat_eq) simp
    show "nat (128 + z) \<le> 138 \<longleftrightarrow> z \<le> 10" using 3(6) by linarith
    show "128 \<le> nat (128 + z)" "224 \<le> nat (224 + x)" using 3(2,6) by linarith+
  qed
  have m: "map code (utf8_char p @ s) = nat (224 + x) # nat (128 + y) # nat (128 + z) # map code s"
    unfolding 3(10) using 3(2-7) by (simp add: code_byte)
  show ?thesis unfolding m white_len_3 [OF n(6)] n w using n(5) by (auto simp: 3(10))
next
  case (4 w x y z)
  then have "\<not> white_point p" by (simp add: white_point_def space_separator_def)
  then show ?thesis using 4 by (simp add: code_byte white_len_4 del: white_len.simps)
qed

lemma trim_start_encode:
  "list_all scalar ps \<Longrightarrow> trim_start (utf8_encode ps) = utf8_encode (dropWhile white_point ps)"
proof (induction ps)
  case (Cons p ps)
  then have "white_len (map code (utf8_char p @ utf8_encode ps))
      = (if white_point p then length (utf8_char p) else 0)" by (intro white_len_char) simp
  with Cons show ?case by (subst trim_start.simps) simp
qed (simp add: trim_start.simps)

lemma trim_end_continuation:
  "list_all (\<lambda>c. 128 \<le> code c \<and> code c < 192) cs \<Longrightarrow> trim_end (cs @ s) = cs @ trim_end s"
  by (induction cs) (simp_all add: trim_start_continuation)

lemma utf8_char_lead:
  assumes "scalar p"
  obtains c cs where "utf8_char p = c # cs" "list_all (\<lambda>c. 128 \<le> code c \<and> code c < 192) cs"
  using assms
  by (cases p rule: utf8_char_cases) (auto simp: code_byte le_nat_iff nat_less_iff intro: that)

lemma trim_end_encode:
  assumes "list_all scalar ps" "ps = [] \<or> \<not> white_point (last ps)"
  shows "trim_end (utf8_encode ps) = utf8_encode ps"
  using assms
proof (induction ps)
  case (Cons p ps)
  obtain c cs where c: "utf8_char p = c # cs" "list_all (\<lambda>c. 128 \<le> code c \<and> code c < 192) cs"
    using Cons.prems by (auto intro: utf8_char_lead)
  have "dropWhile white_point (p # ps) \<noteq> []"
    using Cons.prems(2) by (metis dropWhile_eq_Nil_conv last_in_set list.distinct(1))
  then have "trim_start (c # cs @ utf8_encode ps) \<noteq> []"
    using trim_start_encode [OF Cons.prems(1)] c by simp
  moreover have "trim_end (utf8_encode ps) = utf8_encode ps"
    using Cons by (cases "ps = []") auto
  ultimately show ?case using c by (simp add: trim_end_continuation)
qed simp

lemma js_trim_encode:
  assumes "list_all scalar ps" "ps = [] \<or> (\<not> white_point (hd ps) \<and> \<not> white_point (last ps))"
  shows "js_trim (utf8_encode ps) = utf8_encode ps"
proof -
  have "dropWhile white_point ps = ps" using assms by (cases ps) auto
  then show ?thesis using assms by (auto simp: js_trim_def trim_start_encode trim_end_encode)
qed

section \<open>Spaces\<close>

lemma space_in_char: "scalar p \<Longrightarrow> CHR '' '' \<in> set (utf8_char p) \<longleftrightarrow> p = 32"
  by (cases p rule: utf8_char_cases) (auto simp: byte_space [symmetric] byte_inject)

lemma filter_space_encode:
  "list_all scalar ps \<Longrightarrow>
     filter (\<lambda>c. c \<noteq> CHR '' '') (utf8_encode ps) = utf8_encode (filter (\<lambda>p. p \<noteq> 32) ps)"
proof (induction ps)
  case (Cons p ps)
  show ?case
  proof (cases "p = 32")
    case True
    with Cons show ?thesis by (simp add: utf8_char_def byte_space)
  next
    case False
    then have "filter (\<lambda>c. c \<noteq> CHR '' '') (utf8_char p) = utf8_char p"
      using Cons.prems space_in_char [of p] by (auto simp: filter_id_conv)
    with Cons False show ?thesis by simp
  qed
qed simp

fun double_blank :: "int list \<Rightarrow> bool" where
  "double_blank (a # b # ps) \<longleftrightarrow> (a = 32 \<and> b = 32) \<or> double_blank (b # ps)"
| "double_blank _ \<longleftrightarrow> False"

lemma double_space_skip: "CHR '' '' \<notin> set cs \<Longrightarrow> double_space (cs @ s) = double_space s"
proof (induction cs)
  case (Cons c cs)
  then show ?case by (cases "cs @ s") (auto split: list.splits)
qed simp

lemma double_space_char: "scalar v \<Longrightarrow> \<not> double_space (utf8_char v)"
  by (cases v rule: utf8_char_cases) (simp_all add: byte_space [symmetric] byte_inject)

lemma double_space_encode:
  "list_all scalar ps \<Longrightarrow> double_space (utf8_encode ps) = double_blank ps"
proof (induction ps rule: double_blank.induct)
  case (1 a b ps)
  have a: "scalar a" and b: "scalar b" using 1 by simp_all
  show ?case
  proof (cases "a = 32")
    case True
    then have u: "utf8_char a = '' ''" by (simp add: utf8_char_def byte_space)
    have "hd (utf8_char b) = CHR '' '' \<longleftrightarrow> b = 32"
      using b by (cases b rule: utf8_char_cases) (auto simp: byte_space [symmetric] byte_inject)
    then show ?thesis
      using 1 True u by (cases "utf8_char b") auto
  next
    case False
    with a have "CHR '' '' \<notin> set (utf8_char a)" by (simp add: space_in_char)
    with 1 False show ?thesis by (simp add: double_space_skip)
  qed
qed (simp_all add: double_space_char)

end
