(* ===== verification/Contract_Values.thy ===== *)
theory Contract_Values
  imports Unicode_Text
begin

text \<open>
  Reading the fields of an untrusted JSON object, the way every response contract and wire protocol
  of the repository does it: an object with exactly the expected keys, a bounded safe integer, a
  string of a pattern, a canonical timestamp, a canonical decimal. A reader gives None for a value
  it refuses; the caller decides which error that is.
\<close>

section \<open>Readers\<close>

fun record_with :: "string list \<Rightarrow> json option \<Rightarrow> fields option" where
  "record_with ks (Some (JObj r)) = (if exact_keys r ks then Some r else None)"
| "record_with ks _ = None"

fun integer_within :: "int \<Rightarrow> int \<Rightarrow> json option \<Rightarrow> jnum option" where
  "integer_within lo hi (Some (JNum n)) = (if bounded_integer lo hi n then Some n else None)"
| "integer_within lo hi _ = None"

fun nullable_integer :: "int \<Rightarrow> int \<Rightarrow> json option \<Rightarrow> jnum option option" where
  "nullable_integer lo hi (Some JNull) = Some None"
| "nullable_integer lo hi v = map_option Some (integer_within lo hi v)"

fun text_where :: "(string \<Rightarrow> bool) \<Rightarrow> json option \<Rightarrow> string option" where
  "text_where P (Some (JStr s)) = (if P s then Some s else None)"
| "text_where P _ = None"

fun timestamp_at :: "json option \<Rightarrow> millis option" where
  "timestamp_at (Some (JStr s)) = canonical_iso s"
| "timestamp_at _ = None"

fun array_at :: "json option \<Rightarrow> json list option" where
  "array_at (Some (JArr vs)) = Some vs"
| "array_at _ = None"

definition or_throw :: "'e \<Rightarrow> 'a option \<Rightarrow> 'e + 'a" where
  "or_throw e v = (case v of None \<Rightarrow> Inl e | Some a \<Rightarrow> Inr a)"

lemma or_throw_Inr_iff [simp]: "or_throw e v = Inr a \<longleftrightarrow> v = Some a"
  by (simp add: or_throw_def split: option.splits)

lemma throw_unless_True [simp]: "throw_unless True e = Inr ()"
  by (simp add: throw_unless_def)

lemma record_with_Some_iff: "record_with ks v = Some r \<longleftrightarrow> v = Some (JObj r) \<and> exact_keys r ks"
  by (cases "(ks, v)" rule: record_with.cases) auto

lemma integer_within_Some_iff:
  "integer_within lo hi v = Some n \<longleftrightarrow> v = Some (JNum n) \<and> bounded_integer lo hi n"
  by (cases "(lo, hi, v)" rule: integer_within.cases) auto

lemma text_where_Some_iff: "text_where P v = Some s \<longleftrightarrow> v = Some (JStr s) \<and> P s"
  by (cases "(P, v)" rule: text_where.cases) auto

lemma timestamp_at_Some_iff: "timestamp_at v = Some t \<longleftrightarrow> (\<exists>s. v = Some (JStr s) \<and> canonical_iso s = Some t)"
  by (cases v rule: timestamp_at.cases) auto

lemma array_at_Some_iff: "array_at v = Some vs \<longleftrightarrow> v = Some (JArr vs)"
  by (cases v rule: array_at.cases) auto

lemmas reader_iffs =
  record_with_Some_iff integer_within_Some_iff text_where_Some_iff timestamp_at_Some_iff array_at_Some_iff

section \<open>Bounded identifiers\<close>

text \<open>\<open>/^[A-Za-z0-9][A-Za-z0-9._:+-]*$/\<close> with a bound on the length.\<close>

definition wire_identifier :: "int \<Rightarrow> string \<Rightarrow> bool" where
  "wire_identifier maximum s \<longleftrightarrow>
     js_length s \<le> maximum
     \<and> head_tail is_alnum (\<lambda>c. is_alnum c \<or> one_of ''._:+-'' c) (length s) s"

lemma js_length_ascii: "list_all (\<lambda>c. code c < 128) s \<Longrightarrow> js_length s = int (length s)"
  by (induction s) auto

lemma digit_ascii: "is_digit c \<Longrightarrow> code c < 128"
  by (simp add: is_digit_def)

lemma alnum_ascii: "is_alnum c \<Longrightarrow> code c < 128"
  by (auto simp: is_alnum_def is_lower_def is_upper_def is_digit_def)

lemma wire_char_ascii: "is_alnum c \<or> one_of ''._:+-'' c \<Longrightarrow> code c < 128"
  using alnum_ascii by (auto simp: one_of_def code_def)

lemma wire_identifier_head_tail:
  assumes "wire_identifier maximum s"
  shows "int (length s) \<le> maximum"
    and "head_tail is_alnum (\<lambda>c. is_alnum c \<or> one_of ''._:+-'' c) (length s - 1) s"
proof -
  from assms obtain c cs where s: "s = c # cs" "is_alnum c" "list_all (\<lambda>c. is_alnum c \<or> one_of ''._:+-'' c) cs"
    and "js_length s \<le> maximum"
    by (cases s) (auto simp: wire_identifier_def)
  moreover have "js_length s = int (length s)"
    using s wire_char_ascii by (intro js_length_ascii) (auto simp: list_all_iff)
  ultimately show "int (length s) \<le> maximum"
    "head_tail is_alnum (\<lambda>c. is_alnum c \<or> one_of ''._:+-'' c) (length s - 1) s" by simp_all
qed

lemma wire_identifier_safe: "wire_identifier maximum s \<Longrightarrow> maximum \<le> 128 \<Longrightarrow> safe_value_pattern s"
  using wire_identifier_head_tail [of maximum s] unfolding safe_value_pattern_def
  by (auto elim!: head_tail_mono simp: one_of_def)

section \<open>Decimals\<close>

text \<open>Decimal digits, as in a template literal or \<open>String(n)\<close>.\<close>

fun decimal :: "nat \<Rightarrow> string" where
  "decimal n = (if n < 10 then [digit_char (int n)] else decimal (n div 10) @ [digit_char (int n)])"

declare decimal.simps [simp del]

text \<open>\<open>/^(?:0|[1-9]\d*)$/\<close>\<close>

definition canonical_decimal :: "string \<Rightarrow> bool" where
  "canonical_decimal s \<longleftrightarrow> s = ''0'' \<or> positive_decimal s"

lemma digits_val_decimal: "digits_val (decimal n) = int n"
proof (induction n rule: decimal.induct)
  case (1 n)
  show ?case
  proof (cases "n < 10")
    case True
    then show ?thesis by (simp add: decimal.simps [of n] digits_val_def)
  next
    case False
    have "10 * int (n div 10) + int n mod 10 = int n" by presburger
    then show ?thesis using False 1 by (simp add: decimal.simps [of n] digits_val_snoc)
  qed
qed

lemma decimal_digits: "list_all is_digit (decimal n) \<and> decimal n \<noteq> []"
proof (induction n rule: decimal.induct)
  case (1 n)
  then show ?case by (cases "n < 10") (simp_all add: decimal.simps [of n])
qed

lemma digit_char_zero_iff: "0 \<le> n \<Longrightarrow> n < 10 \<Longrightarrow> digit_char n = CHR ''0'' \<longleftrightarrow> n = 0"
  using digit_char_code [of n] digit_char_code [of 0] by (auto simp: digit_char_def)

lemma hd_decimal: "0 < n \<Longrightarrow> hd (decimal n) \<noteq> CHR ''0''"
proof (induction n rule: decimal.induct)
  case (1 n)
  show ?case
  proof (cases "n < 10")
    case True
    then show ?thesis using 1 digit_char_zero_iff [of "int n"] by (simp add: decimal.simps [of n])
  next
    case False
    then have "0 < n div 10" by simp
    then show ?thesis using 1 False decimal_digits [of "n div 10"] by (simp add: decimal.simps [of n])
  qed
qed

lemma positive_decimal_decimal: "0 < n \<Longrightarrow> positive_decimal (decimal n)"
  using decimal_digits [of n] hd_decimal [of n] by (simp add: positive_decimal_def)

lemma length_decimal: "0 < k \<Longrightarrow> n < 10 ^ k \<Longrightarrow> length (decimal n) \<le> k"
proof (induction n arbitrary: k rule: decimal.induct)
  case (1 n)
  show ?case
  proof (cases "n < 10")
    case True
    then show ?thesis using 1 by (simp add: decimal.simps [of n])
  next
    case False
    obtain j where k: "k = Suc j" using 1 by (cases k) auto
    have "0 < j" using False 1(3) k by (cases j) auto
    moreover have "n div 10 < 10 ^ j" using 1(3) k by (simp add: less_mult_imp_div_less)
    ultimately have "length (decimal (n div 10)) \<le> j" using 1(1) [OF False] by simp
    then show ?thesis using False k by (simp add: decimal.simps [of n])
  qed
qed

lemma canonical_decimal_decimal: "canonical_decimal (decimal n)"
proof (cases "n = 0")
  case True
  then show ?thesis by (simp add: canonical_decimal_def decimal.simps digit_char_def)
qed (simp add: canonical_decimal_def positive_decimal_decimal)

section \<open>Paragraph identifiers\<close>

definition paragraph_id :: "nat \<Rightarrow> nat \<Rightarrow> string" where
  "paragraph_id page ordinal = ''p'' @ decimal page @ ''-p'' @ decimal ordinal"

lemma parse_paragraph_id_format:
  assumes "0 < page" "0 < ordinal"
  shows "parse_paragraph_id (paragraph_id page ordinal) = Some (int page, int ordinal)"
proof -
  have nd: "\<not> is_digit (CHR ''-'')" by (simp add: char_class_defs)
  have d: "\<And>c. c \<in> set (decimal page) \<Longrightarrow> is_digit c" using decimal_digits [of page] by (simp add: list_all_iff)
  have t: "takeWhile is_digit (decimal page @ CHR ''-'' # s) = decimal page" for s
    using d nd by (simp add: takeWhile_append2)
  have r: "dropWhile is_digit (decimal page @ CHR ''-'' # s) = CHR ''-'' # s" for s
    using d nd by (simp add: dropWhile_append2)
  show ?thesis
    using assms by (simp add: parse_paragraph_id_def paragraph_id_def t r positive_decimal_decimal
        digits_val_decimal)
qed

end
