(* ===== verification/Text_Normalization.thy ===== *)
theory Text_Normalization
  imports Contract_Values Extraction_Jobs
begin

text \<open>
  The extractor service's text normalisation (\<open>services/document-extractor/src/text-normalization.ts\<close>):
  the raw output of \<open>pdftotext\<close> becomes the chunks of the document. A text is the list of its code
  points; \<open>nfc\<close> is Unicode NFC. The decoder refuses ill formed UTF-8, so no lone surrogate occurs and
  an index counted in UTF-16 units is a boundary between code points.
\<close>

section \<open>Failures and limits\<close>

datatype runner_failure =
    Rf_aborted | Rf_timeout | Rf_input_unsupported | Rf_output_limit | Rf_spawn | Rf_protocol | Rf_tool

record text_limits =
  tl_maxTextBytes :: int
  tl_maxChunkCount :: int
  tl_maxChunkBytes :: int

record normalized_text =
  nt_chunks :: "extracted_chunk list"
  nt_textBytes :: int

section \<open>Code points\<close>

text \<open>\<open>\p{Cc}\<close>\<close>

definition control_point :: "int \<Rightarrow> bool" where
  "control_point p \<longleftrightarrow> p \<le> 31 \<or> (127 \<le> p \<and> p \<le> 159)"

text \<open>\<open>\p{Cf}\<close>\<close>

definition format_ranges :: "(int \<times> int) list" where
  "format_ranges =
     [(173, 173), (1536, 1541), (1564, 1564), (1757, 1757), (1807, 1807), (2192, 2193), (2274, 2274),
      (6158, 6158), (8203, 8207), (8234, 8238), (8288, 8292), (8294, 8303), (65279, 65279),
      (65529, 65531), (69821, 69821), (69837, 69837), (78896, 78911), (113824, 113827),
      (119155, 119162), (917505, 917505), (917536, 917631)]"

definition format_point :: "int \<Rightarrow> bool" where
  "format_point p \<longleftrightarrow> list_ex (\<lambda>(a, b). a \<le> p \<and> p \<le> b) format_ranges"

definition noncharacter :: "int \<Rightarrow> bool" where
  "noncharacter p \<longleftrightarrow>
     (64976 \<le> p \<and> p \<le> 65007) \<or> p mod 65536 = 65534 \<or> p mod 65536 = 65535"

text \<open>\<open>[\t\n\r\f]\<close>\<close>

definition delimiter :: "int \<Rightarrow> bool" where
  "delimiter p \<longleftrightarrow> p = 9 \<or> p = 10 \<or> p = 13 \<or> p = 12"

definition reject_unsafe_unicode :: "int list \<Rightarrow> runner_failure + unit" where
  "reject_unsafe_unicode v =
     throw_unless
       (\<not> list_ex (\<lambda>p. control_point p \<or> format_point p) (filter (\<lambda>p. \<not> delimiter p) v)
        \<and> \<not> list_ex noncharacter v) Rf_protocol"

section \<open>Lines and paragraphs\<close>

text \<open>\<open>split\<close> on one code point, and \<open>join\<close> with a space.\<close>

fun split_on :: "int \<Rightarrow> int list \<Rightarrow> int list list" where
  "split_on d [] = [[]]"
| "split_on d (p # ps) =
     (if p = d then [] # split_on d ps
      else (case split_on d ps of l # ls \<Rightarrow> (p # l) # ls | [] \<Rightarrow> [[p]]))"

fun join_lines :: "int list list \<Rightarrow> int list" where
  "join_lines [] = []"
| "join_lines [l] = l"
| "join_lines (l # ls) = l @ [32] @ join_lines ls"

text \<open>\<open>replace(/\r\n?/g, "\n")\<close> and \<open>replace(/[\u2028\u2029]/g, "\n")\<close>\<close>

fun unify_returns :: "int list \<Rightarrow> int list" where
  "unify_returns (p # q # ps) =
     (if p = 13 \<and> q = 10 then 10 # unify_returns ps
      else (if p = 13 then 10 else p) # unify_returns (q # ps))"
| "unify_returns [p] = [if p = 13 then 10 else p]"
| "unify_returns [] = []"

definition unify_separators :: "int list \<Rightarrow> int list" where
  "unify_separators ps = map (\<lambda>p. if p = 8232 \<or> p = 8233 then 10 else p) ps"

text \<open>\<open>replace(/[\p{Zs}\t]+/gu, " ")\<close>; the flag says that the previous code point was in a run.\<close>

definition horizontal_space :: "int \<Rightarrow> bool" where
  "horizontal_space p \<longleftrightarrow> space_separator p \<or> p = 9"

fun squeeze :: "bool \<Rightarrow> int list \<Rightarrow> int list" where
  "squeeze b [] = []"
| "squeeze b (p # ps) =
     (if horizontal_space p then (if b then squeeze True ps else 32 # squeeze True ps)
      else p # squeeze False ps)"

definition trim_left :: "int list \<Rightarrow> int list" where
  "trim_left ps = dropWhile white_point ps"

definition trim_right :: "int list \<Rightarrow> int list" where
  "trim_right ps = rev (dropWhile white_point (rev ps))"

definition trim_points :: "int list \<Rightarrow> int list" where
  "trim_points ps = trim_right (trim_left ps)"

definition flush_lines :: "int list list \<Rightarrow> int list list" where
  "flush_lines lines =
     (if lines = [] then []
      else (let paragraph = trim_points (squeeze False (join_lines lines))
            in if paragraph = [] then [] else [paragraph]))"

fun collect_paragraphs :: "int list list \<Rightarrow> int list list \<Rightarrow> int list list" where
  "collect_paragraphs lines [] = flush_lines lines"
| "collect_paragraphs lines (raw # rest) =
     (let line = trim_points (squeeze False raw)
      in if line = [] then flush_lines lines @ collect_paragraphs [] rest
         else collect_paragraphs (lines @ [line]) rest)"

definition normalized_page :: "(int list \<Rightarrow> int list) \<Rightarrow> int list \<Rightarrow> int list" where
  "normalized_page nfc page = nfc (unify_separators (unify_returns page))"

definition paragraphs_for_page ::
    "(int list \<Rightarrow> int list) \<Rightarrow> int list \<Rightarrow> runner_failure + int list list" where
  "paragraphs_for_page nfc page =
     and_then (reject_unsafe_unicode (normalized_page nfc page)) (\<lambda>_.
     Inr (collect_paragraphs [] (split_on 10 (normalized_page nfc page))))"

section \<open>Splitting a paragraph\<close>

text \<open>The loop of \<open>prefixWithinUtf8Limit\<close>: the end of the prefix and its last space.\<close>

fun prefix_loop :: "int \<Rightarrow> int list \<Rightarrow> int \<Rightarrow> int \<Rightarrow> int \<Rightarrow> int \<times> int" where
  "prefix_loop limit [] bytes pos lastSpace = (pos, lastSpace)"
| "prefix_loop limit (p # ps) bytes pos lastSpace =
     (if bytes + point_size p > limit then (pos, lastSpace)
      else prefix_loop limit ps (bytes + point_size p) (pos + 1) (if p = 32 then pos else lastSpace))"

definition prefix_within_limit :: "int list \<Rightarrow> int \<Rightarrow> runner_failure + int" where
  "prefix_within_limit v limit =
     (let (pos, lastSpace) = prefix_loop limit v 0 0 (-1)
      in if pos = int (length v) then Inr pos
         else if v ! nat pos = 32 then Inr pos
         else if lastSpace > 0 then Inr lastSpace
         else if pos < 1 then Inl Rf_output_limit
         else Inr pos)"

function split_paragraph :: "int list \<Rightarrow> int \<Rightarrow> runner_failure + int list list" where
  "split_paragraph remaining limit =
     (if text_size remaining \<le> limit then Inr (if remaining \<noteq> [] then [remaining] else [])
      else (case prefix_within_limit remaining limit of
              Inl e \<Rightarrow> Inl e
            | Inr pos \<Rightarrow>
                (let part = trim_right (take (nat pos) remaining)
                 in if part = [] then Inl Rf_protocol
                    else (case split_paragraph (trim_left (drop (nat pos) remaining)) limit of
                            Inl e \<Rightarrow> Inl e
                          | Inr parts \<Rightarrow> Inr (part # parts)))))"
  by pat_completeness auto
termination
proof (relation "measure (length \<circ> fst)")
  fix remaining :: "int list" and limit pos part
  assume part: "part = trim_right (take (nat pos) remaining)" "part \<noteq> []"
  then have "0 < nat pos" "remaining \<noteq> []"
    by (cases "nat pos"; auto simp: trim_right_def)+
  then show "((trim_left (drop (nat pos) remaining), limit), remaining, limit) \<in> measure (length \<circ> fst)"
    using length_dropWhile_le [of white_point "drop (nat pos) remaining"]
    by (auto simp: trim_left_def intro: le_less_trans)
qed simp

declare split_paragraph.simps [simp del]

section \<open>The chunks of a document\<close>

text \<open>Pushing the parts of one paragraph, the paragraphs of one page, and the pages.\<close>

fun push_parts :: "text_limits \<Rightarrow> nat \<Rightarrow> nat \<Rightarrow> int list list \<Rightarrow> normalized_text
    \<Rightarrow> runner_failure + normalized_text" where
  "push_parts lim page ordinal [] st = Inr st"
| "push_parts lim page ordinal (part # parts) st =
     (if int (length (nt_chunks st)) \<ge> tl_maxChunkCount lim then Inl Rf_output_limit
      else if text_size part < 1 \<or> nt_textBytes st + text_size part > tl_maxTextBytes lim
      then Inl Rf_output_limit
      else push_parts lim page ordinal parts
        \<lparr>nt_chunks = nt_chunks st
           @ [\<lparr>xc_sequence = NInt (int (length (nt_chunks st))), xc_pageNumber = NInt (int page),
               xc_paragraphId = paragraph_id page ordinal, xc_text = utf8_encode part\<rparr>],
         nt_textBytes = nt_textBytes st + text_size part\<rparr>)"

fun push_paragraphs :: "text_limits \<Rightarrow> nat \<Rightarrow> nat \<Rightarrow> int list list \<Rightarrow> int \<Rightarrow> normalized_text
    \<Rightarrow> runner_failure + (int \<times> normalized_text)" where
  "push_paragraphs lim page ordinal [] sourceBytes st = Inr (sourceBytes, st)"
| "push_paragraphs lim page ordinal (para # paras) sourceBytes st =
     (if sourceBytes + text_size para > tl_maxTextBytes lim then Inl Rf_output_limit
      else and_then (split_paragraph para (tl_maxChunkBytes lim)) (\<lambda>parts.
        and_then (push_parts lim page ordinal parts st) (\<lambda>st'.
        push_paragraphs lim page (Suc ordinal) paras (sourceBytes + text_size para) st')))"

fun push_pages :: "(int list \<Rightarrow> int list) \<Rightarrow> text_limits \<Rightarrow> nat \<Rightarrow> int list list \<Rightarrow> int \<Rightarrow> normalized_text
    \<Rightarrow> runner_failure + normalized_text" where
  "push_pages nfc lim page [] sourceBytes st = Inr st"
| "push_pages nfc lim page (raw # pages) sourceBytes st =
     and_then (paragraphs_for_page nfc raw) (\<lambda>paras.
     and_then (push_paragraphs lim page 1 paras sourceBytes st) (\<lambda>(sourceBytes', st').
     push_pages nfc lim (Suc page) pages sourceBytes' st'))"

text \<open>\<open>/^[ \t\r\n]*$/\<close>\<close>

definition blank_page :: "int list \<Rightarrow> bool" where
  "blank_page ps \<longleftrightarrow> list_all (\<lambda>p. p = 32 \<or> p = 9 \<or> p = 13 \<or> p = 10) ps"

definition document_pages :: "int list \<Rightarrow> nat \<Rightarrow> int list list" where
  "document_pages raw pageCount =
     (let pages = split_on 12 raw
      in if length pages = pageCount + 1 \<and> blank_page (last pages) then butlast pages else pages)"

definition normalize_poppler_text ::
    "(int list \<Rightarrow> int list) \<Rightarrow> string \<Rightarrow> nat \<Rightarrow> text_limits \<Rightarrow> runner_failure + normalized_text" where
  "normalize_poppler_text nfc bytes pageCount lim =
     (case utf8_decode bytes of
        None \<Rightarrow> Inl Rf_protocol
      | Some raw \<Rightarrow>
          and_then (reject_unsafe_unicode raw) (\<lambda>_.
          if length (document_pages raw pageCount) \<noteq> pageCount then Inl Rf_protocol
          else push_pages nfc lim 1 (document_pages raw pageCount) 0
                 \<lparr>nt_chunks = [], nt_textBytes = 0\<rparr>))"

end
