(* ===== verification/Normalization_Laws.thy ===== *)
theory Normalization_Laws
  imports Text_Normalization
begin

text \<open>
  What the text normalisation guarantees of every chunk: it is clean (canonical, without any
  control, format or noncharacter code point, single inner spaces only), it fits the byte limit, the
  chunks stand in reading order, and no visible code point of a page is lost or moved.
\<close>

section \<open>What the code relies on in Unicode NFC\<close>

definition layout_point :: "int \<Rightarrow> bool" where
  "layout_point p \<longleftrightarrow> control_point p \<or> p = 8232 \<or> p = 8233"

text \<open>
  Facts of UAX 15: the form is idempotent and closed under substrings, a space neither composes with
  its neighbours nor reorders them, the form of a well formed text is well formed, and it introduces
  no control and no line or paragraph separator.
\<close>

definition nfc_laws :: "(int list \<Rightarrow> int list) \<Rightarrow> bool" where
  "nfc_laws nfc \<longleftrightarrow>
     (\<forall>x. nfc (nfc x) = nfc x)
     \<and> (\<forall>x y z. nfc (x @ y @ z) = x @ y @ z \<longrightarrow> nfc y = y)
     \<and> (\<forall>x y. nfc x = x \<longrightarrow> nfc y = y \<longrightarrow> nfc (x @ [32] @ y) = x @ [32] @ y)
     \<and> (\<forall>x. list_all scalar x \<longrightarrow> list_all scalar (nfc x))
     \<and> (\<forall>x p. p \<in> set (nfc x) \<longrightarrow> layout_point p \<longrightarrow> p \<in> set x)"

lemma nfc_laws_id: "nfc_laws id"
  by (simp add: nfc_laws_def)

lemma nfc_idem: "nfc_laws nfc \<Longrightarrow> nfc (nfc x) = nfc x"
  by (simp add: nfc_laws_def)

lemma nfc_substring: "nfc_laws nfc \<Longrightarrow> nfc (x @ y @ z) = x @ y @ z \<Longrightarrow> nfc y = y"
  unfolding nfc_laws_def by blast

lemma nfc_space: "nfc_laws nfc \<Longrightarrow> nfc x = x \<Longrightarrow> nfc y = y \<Longrightarrow> nfc (x @ [32] @ y) = x @ [32] @ y"
  unfolding nfc_laws_def by blast

lemma nfc_scalar: "nfc_laws nfc \<Longrightarrow> list_all scalar x \<Longrightarrow> list_all scalar (nfc x)"
  unfolding nfc_laws_def by blast

lemma nfc_layout: "nfc_laws nfc \<Longrightarrow> p \<in> set (nfc x) \<Longrightarrow> layout_point p \<Longrightarrow> p \<in> set x"
  unfolding nfc_laws_def by blast

lemma nfc_prefix: "nfc_laws nfc \<Longrightarrow> nfc (x @ y) = x @ y \<Longrightarrow> nfc x = x"
  using nfc_substring [of nfc "[]" x y] by simp

lemma nfc_suffix: "nfc_laws nfc \<Longrightarrow> nfc (x @ y) = x @ y \<Longrightarrow> nfc y = y"
  using nfc_substring [of nfc x y "[]"] by simp

section \<open>Trimming and squeezing\<close>

lemma trim_left_split: "\<exists>ws. ps = ws @ trim_left ps \<and> list_all white_point ws"
  by (intro exI [of _ "takeWhile white_point ps"])
    (auto simp: trim_left_def list_all_iff dest: set_takeWhileD)

lemma trim_right_split: "\<exists>ws. ps = trim_right ps @ ws \<and> list_all white_point ws"
proof (intro exI conjI)
  have "rev (takeWhile white_point (rev ps) @ dropWhile white_point (rev ps)) = ps" by simp
  then show "ps = trim_right ps @ rev (takeWhile white_point (rev ps))"
    by (simp only: rev_append trim_right_def)
  show "list_all white_point (rev (takeWhile white_point (rev ps)))"
    by (auto simp: list_all_iff dest: set_takeWhileD)
qed

lemma trim_points_split:
  obtains us vs where "ps = us @ trim_points ps @ vs" "list_all white_point us" "list_all white_point vs"
  using trim_left_split [of ps] trim_right_split [of "trim_left ps"] by (metis trim_points_def)

lemma hd_trim_left: "trim_left ps \<noteq> [] \<Longrightarrow> \<not> white_point (hd (trim_left ps))"
  unfolding trim_left_def by (rule hd_dropWhile)

lemma last_trim_right: "trim_right ps \<noteq> [] \<Longrightarrow> \<not> white_point (last (trim_right ps))"
  unfolding trim_right_def by (simp add: last_rev hd_dropWhile)

lemma hd_trim_right: "trim_right ps \<noteq> [] \<Longrightarrow> hd (trim_right ps) = hd ps"
  using trim_right_split [of ps] by (metis hd_append2)

lemma trim_ends:
  assumes "trim_points ps \<noteq> []"
  shows "\<not> white_point (hd (trim_points ps))" "\<not> white_point (last (trim_points ps))"
proof -
  have "trim_left ps \<noteq> []" using assms by (auto simp: trim_points_def trim_right_def)
  then show "\<not> white_point (hd (trim_points ps))"
    using assms hd_trim_right hd_trim_left by (simp add: trim_points_def)
  show "\<not> white_point (last (trim_points ps))"
    using assms last_trim_right by (simp add: trim_points_def)
qed

text \<open>The visible code points: what neither trimming nor squeezing removes.\<close>

definition visible :: "int list \<Rightarrow> int list" where
  "visible ps = filter (\<lambda>p. \<not> white_point p) ps"

lemma visible_simps [simp]:
  "visible [] = []" "visible (ps @ qs) = visible ps @ visible qs"
  "visible (p # ps) = (if white_point p then visible ps else p # visible ps)"
  by (simp_all add: visible_def)

lemma visible_white: "list_all white_point ps \<Longrightarrow> visible ps = []"
  by (induction ps) auto

lemma white_point_horizontal: "horizontal_space p \<Longrightarrow> white_point p"
  by (auto simp: horizontal_space_def white_point_def)

lemma white_point_space [simp]: "white_point 32" "white_point 10" "horizontal_space 32"
  by (simp_all add: white_point_def space_separator_def horizontal_space_def)

lemma visible_trim_left [simp]: "visible (trim_left ps) = visible ps"
  using trim_left_split [of ps] by (metis append_Nil visible_simps(2) visible_white)

lemma visible_trim_right [simp]: "visible (trim_right ps) = visible ps"
  using trim_right_split [of ps] by (metis append_Nil2 visible_simps(2) visible_white)

lemma visible_trim_points [simp]: "visible (trim_points ps) = visible ps"
  by (simp add: trim_points_def)

lemma visible_squeeze [simp]: "visible (squeeze b ps) = visible ps"
  by (induction b ps rule: squeeze.induct) (auto dest: white_point_horizontal)

lemma visible_join_lines [simp]: "visible (join_lines ls) = concat (map visible ls)"
  by (induction ls rule: join_lines.induct) simp_all

lemma set_trim_points: "set (trim_points ps) \<subseteq> set ps"
  by (rule trim_points_split [of ps]) (metis Un_upper1 le_supI2 set_append)

lemma set_squeeze: "set (squeeze b ps) \<subseteq> insert 32 {p \<in> set ps. \<not> horizontal_space p}"
  by (induction b ps rule: squeeze.induct) auto

lemma set_join_lines: "set (join_lines ls) \<subseteq> insert 32 (\<Union>l \<in> set ls. set l)"
  by (induction ls rule: join_lines.induct) auto

lemma squeeze_no_double: "\<not> double_blank (squeeze b ps) \<and> (b \<longrightarrow> squeeze b ps = [] \<or> hd (squeeze b ps) \<noteq> 32)"
proof (induction b ps rule: squeeze.induct)
  case (2 b p ps)
  show ?case
  proof (cases "horizontal_space p")
    case True
    with 2 show ?thesis by (cases "squeeze True ps") auto
  next
    case False
    then have "p \<noteq> 32" by auto
    with 2 False show ?thesis by (cases "squeeze False ps") auto
  qed
qed auto

lemma double_blank_append: "double_blank xs \<Longrightarrow> double_blank (xs @ ys)"
  by (induction xs rule: double_blank.induct) auto

lemma double_blank_Cons: "double_blank xs \<Longrightarrow> double_blank (x # xs)"
  by (cases xs) auto

lemma double_blank_substring: "double_blank y \<Longrightarrow> double_blank (x @ y @ z)"
  by (induction x) (auto simp: double_blank_append double_blank_Cons)

lemma nfc_squeeze:
  assumes laws: "nfc_laws nfc"
  shows "nfc ps = ps \<Longrightarrow> nfc (squeeze b ps) = squeeze b ps"
proof (induction "length ps" arbitrary: b ps rule: less_induct)
  case less
  define w where "w = takeWhile (\<lambda>p. \<not> horizontal_space p) ps"
  define r where "r = dropWhile (\<lambda>p. \<not> horizontal_space p) ps"
  have ps: "ps = w @ r" by (simp add: w_def r_def)
  have w: "list_all (\<lambda>p. \<not> horizontal_space p) w" by (auto simp: w_def list_all_iff dest: set_takeWhileD)
  have sq: "squeeze b (w @ r) = w @ squeeze (b \<and> w = []) r" using w by (induction w arbitrary: b) auto
  have nw: "nfc w = w" using less.prems nfc_prefix [OF laws, of w r] by (simp add: ps)
  show ?case
  proof (cases r)
    case Nil
    then show ?thesis using nw sq by (simp add: ps)
  next
    case (Cons p q)
    then have p: "horizontal_space p" using hd_dropWhile [of "\<lambda>p. \<not> horizontal_space p" ps] by (simp add: r_def)
    have "nfc q = q" using less.prems nfc_suffix [OF laws, of "w @ [p]" q] by (simp add: ps Cons)
    then have q: "nfc (squeeze True q) = squeeze True q" using less.hyps [of q True] by (simp add: ps Cons)
    show ?thesis
    proof (cases "b \<and> w = []")
      case True
      then show ?thesis using q p by (simp add: ps sq Cons)
    next
      case False
      then have "squeeze b ps = w @ [32] @ squeeze True q" using p sq by (simp add: ps Cons)
      then show ?thesis using nfc_space [OF laws nw q] by simp
    qed
  qed
qed

lemma nfc_trim_points: "nfc_laws nfc \<Longrightarrow> nfc ps = ps \<Longrightarrow> nfc (trim_points ps) = trim_points ps"
  by (rule trim_points_split [of ps]) (metis nfc_substring)

lemma nfc_join_lines:
  "nfc_laws nfc \<Longrightarrow> (\<And>l. l \<in> set ls \<Longrightarrow> nfc l = l) \<Longrightarrow> ls \<noteq> [] \<Longrightarrow> nfc (join_lines ls) = join_lines ls"
  by (induction ls rule: join_lines.induct) (auto intro: nfc_space simp del: append.simps)

section \<open>Lines and pages\<close>

lemma split_on_prefix: "split_on d ps \<noteq> [] \<and> (\<exists>z. ps = hd (split_on d ps) @ z)"
  by (induction d ps rule: split_on.induct) (auto split: list.splits)

lemma split_on_substring: "l \<in> set (split_on d ps) \<Longrightarrow> (\<exists>x z. ps = x @ l @ z) \<and> d \<notin> set l"
proof (induction ps arbitrary: l)
  case (Cons p ps)
  have longer: "\<exists>x z. p # ps = x @ l @ z" if "\<exists>x z. ps = x @ l @ z" for l
    using that by (metis append_Cons)
  obtain l0 ls where s: "split_on d ps = l0 # ls"
    using split_on_prefix [of d ps] by (cases "split_on d ps") auto
  then obtain z where z: "ps = l0 @ z" using split_on_prefix [of d ps] by auto
  show ?case
  proof (cases "p = d")
    case True
    then consider "l = []" | "l \<in> set (split_on d ps)" using Cons.prems by auto
    then show ?thesis
    proof cases
      case 1
      then have "p # ps = [] @ l @ (p # ps)" by simp
      then show ?thesis using 1 by (metis empty_iff empty_set)
    next
      case 2
      then show ?thesis using Cons.IH longer by blast
    qed
  next
    case False
    then consider "l = p # l0" | "l \<in> set ls" using Cons.prems s by auto
    then show ?thesis
    proof cases
      case 1
      have "p # ps = [] @ l @ z" by (simp add: 1 z)
      moreover have "d \<notin> set l0" using Cons.IH [of l0] s by simp
      ultimately show ?thesis using 1 False by (metis set_ConsD)
    next
      case 2
      then show ?thesis using Cons.IH [of l] s longer by simp
    qed
  qed
qed simp

lemma visible_split_on: "white_point d \<Longrightarrow> concat (map visible (split_on d ps)) = visible ps"
proof (induction d ps rule: split_on.induct)
  case (2 d p ps)
  then show ?case by (auto split: list.splits)
qed simp

lemma set_unify_returns: "set (unify_returns ps) \<subseteq> insert 10 (set ps - {13})"
  by (induction ps rule: unify_returns.induct) auto

lemma white_13 [simp]: "white_point 13"
  by (simp add: white_point_def)

lemma visible_unify_returns [simp]: "visible (unify_returns ps) = visible ps"
  by (induction ps rule: unify_returns.induct) auto

lemma visible_unify_separators [simp]: "visible (unify_separators ps) = visible ps"
  by (induction ps) (auto simp: unify_separators_def white_point_def)

definition safe_point :: "int \<Rightarrow> bool" where
  "safe_point p \<longleftrightarrow>
     scalar p \<and> \<not> control_point p \<and> \<not> format_point p \<and> \<not> noncharacter p \<and> p \<noteq> 8232 \<and> p \<noteq> 8233"

lemma safe_point_white: "safe_point p \<Longrightarrow> white_point p \<longleftrightarrow> space_separator p"
proof -
  assume p: "safe_point p"
  have "format_point 65279" by (simp add: format_point_def format_ranges_def)
  then have "p \<noteq> 65279" "\<not> (9 \<le> p \<and> p \<le> 13)" "p \<noteq> 8232" "p \<noteq> 8233"
    using p by (auto simp: safe_point_def control_point_def)
  then show "white_point p \<longleftrightarrow> space_separator p" by (auto simp: white_point_def)
qed

lemma safe_point_space [simp]: "safe_point 32"
  by (simp add: safe_point_def scalar_def control_point_def format_point_def format_ranges_def
      noncharacter_def)

definition clean_text :: "(int list \<Rightarrow> int list) \<Rightarrow> int list \<Rightarrow> bool" where
  "clean_text nfc ps \<longleftrightarrow>
     ps \<noteq> [] \<and> nfc ps = ps \<and> list_all (\<lambda>p. safe_point p \<and> (space_separator p \<longrightarrow> p = 32)) ps
     \<and> \<not> double_blank ps \<and> \<not> white_point (hd ps) \<and> \<not> white_point (last ps)"

text \<open>Trimming and squeezing a text of safe code points and tabs makes it clean.\<close>

lemma squeezed_clean:
  assumes laws: "nfc_laws nfc" and "nfc ps = ps" and pts: "list_all (\<lambda>p. safe_point p \<or> p = 9) ps"
    and ne: "trim_points (squeeze False ps) \<noteq> []"
  shows "clean_text nfc (trim_points (squeeze False ps))"
proof -
  obtain us vs where "squeeze False ps = us @ trim_points (squeeze False ps) @ vs"
    by (rule trim_points_split)
  then have "\<not> double_blank (trim_points (squeeze False ps))"
    using squeeze_no_double [of False ps] double_blank_substring by metis
  moreover have "safe_point p \<and> (space_separator p \<longrightarrow> p = 32)"
    if "p \<in> set (trim_points (squeeze False ps))" for p
  proof -
    from that have "p = 32 \<or> (p \<in> set ps \<and> \<not> horizontal_space p)"
      using set_trim_points set_squeeze by blast
    then show ?thesis using pts by (auto simp: list_all_iff horizontal_space_def)
  qed
  ultimately show ?thesis
    using assms trim_ends [OF ne] by (simp add: clean_text_def list_all_iff nfc_trim_points nfc_squeeze)
qed

lemma flush_lines_clean:
  assumes "nfc_laws nfc" "list_all (clean_text nfc) lines"
  shows "list_all (clean_text nfc) (flush_lines lines)"
proof (cases "lines = []")
  case False
  have "list_all (\<lambda>p. safe_point p \<or> p = 9) (join_lines lines)"
  unfolding list_all_iff
  proof
    fix p assume "p \<in> set (join_lines lines)"
    then consider "p = 32" | l where "l \<in> set lines" "p \<in> set l" using set_join_lines by blast
    then show "safe_point p \<or> p = 9"
      by cases (use assms(2) in \<open>auto simp: list_all_iff clean_text_def\<close>)
  qed
  moreover have "nfc (join_lines lines) = join_lines lines"
    using assms False by (intro nfc_join_lines) (auto simp: list_all_iff clean_text_def)
  ultimately show ?thesis using assms(1) by (auto simp: flush_lines_def Let_def intro: squeezed_clean)
qed (simp add: flush_lines_def)

lemma flush_lines_visible: "concat (map visible (flush_lines lines)) = concat (map visible lines)"
proof -
  define para where "para = trim_points (squeeze False (join_lines lines))"
  have "concat (map visible lines) = visible para" by (simp add: para_def)
  then show ?thesis
    by (cases "lines = []"; cases "para = []") (simp_all add: flush_lines_def para_def [symmetric])
qed

lemma collect_paragraphs_clean:
  assumes laws: "nfc_laws nfc"
  shows "list_all (clean_text nfc) lines \<Longrightarrow>
    list_all (\<lambda>l. nfc l = l \<and> list_all (\<lambda>p. safe_point p \<or> p = 9) l) raws \<Longrightarrow>
    list_all (clean_text nfc) (collect_paragraphs lines raws)"
proof (induction lines raws rule: collect_paragraphs.induct)
  case (2 lines raw rest)
  then show ?case
    using flush_lines_clean [OF laws, of lines] squeezed_clean [OF laws, of raw] by (auto simp: Let_def)
qed (simp add: flush_lines_clean laws)

lemma collect_paragraphs_visible:
  "concat (map visible (collect_paragraphs lines raws))
    = concat (map visible lines) @ concat (map visible raws)"
proof (induction lines raws rule: collect_paragraphs.induct)
  case (2 lines raw rest)
  have v: "visible (trim_points (squeeze False raw)) = visible raw" by simp
  show ?case
  proof (cases "trim_points (squeeze False raw) = []")
    case True
    then show ?thesis using 2(1) [OF refl] v by (simp add: flush_lines_visible)
  next
    case False
    then show ?thesis using 2(2) [OF refl] by (simp add: Let_def)
  qed
qed (simp add: flush_lines_visible)

lemma normalized_page_points:
  assumes laws: "nfc_laws nfc" and "list_all scalar raw" "12 \<notin> set raw"
    and safe: "reject_unsafe_unicode (normalized_page nfc raw) = Inr ()"
    and p: "p \<in> set (normalized_page nfc raw)" "p \<noteq> 10"
  shows "safe_point p \<or> p = 9"
proof -
  define u where "u = unify_separators (unify_returns raw)"
  have u: "set u \<subseteq> insert 10 (set raw - {13, 8232, 8233})"
    using set_unify_returns [of raw] by (auto simp: u_def unify_separators_def)
  have n: "normalized_page nfc raw = nfc u" by (simp add: normalized_page_def u_def)
  have "scalar 10" by (simp add: scalar_def)
  then have "list_all scalar u" using subsetD [OF u] assms(2) unfolding list_all_iff by blast
  then have "list_all scalar (nfc u)" by (rule nfc_scalar [OF laws])
  then have "scalar p" using p n by (simp add: list_all_iff)
  moreover have "\<not> layout_point p \<or> (p \<in> set raw \<and> p \<notin> {13, 8232, 8233})"
    using nfc_layout [OF laws, of p u] subsetD [OF u, of p] p(2) p(1) [unfolded n] by blast
  then have "p \<noteq> 12" "p \<noteq> 13" "p \<noteq> 8232" "p \<noteq> 8233"
    using \<open>12 \<notin> set raw\<close> by (auto simp: layout_point_def control_point_def)
  ultimately show ?thesis
    using safe p by (auto simp: reject_unsafe_unicode_def list_ex_iff delimiter_def safe_point_def)
qed

lemma paragraphs_for_page_clean:
  assumes laws: "nfc_laws nfc" and raw: "list_all scalar raw" "12 \<notin> set raw"
    and ok: "paragraphs_for_page nfc raw = Inr paras"
  shows "list_all (clean_text nfc) paras"
    and "concat (map visible paras) = visible (normalized_page nfc raw)"
proof -
  let ?n = "normalized_page nfc raw"
  from ok have safe: "reject_unsafe_unicode ?n = Inr ()" and p: "paras = collect_paragraphs [] (split_on 10 ?n)"
    by (auto simp: paragraphs_for_page_def and_then_Inr_iff)
  have "nfc l = l \<and> list_all (\<lambda>p. safe_point p \<or> p = 9) l" if l: "l \<in> set (split_on 10 ?n)" for l
  proof -
    from split_on_substring [OF l] obtain x z where xz: "?n = x @ l @ z" "10 \<notin> set l" by blast
    have "nfc ?n = ?n" by (simp add: normalized_page_def nfc_idem [OF laws])
    then have "nfc l = l" using nfc_substring [OF laws, of x l z] by (simp add: xz(1))
    moreover have "safe_point p \<or> p = 9" if "p \<in> set l" for p
      using that xz normalized_page_points [OF laws raw safe, of p] by auto
    ultimately show ?thesis by (auto simp: list_all_iff)
  qed
  then show "list_all (clean_text nfc) paras"
    unfolding p by (intro collect_paragraphs_clean [OF laws]) (simp_all add: list_all_iff)
  show "concat (map visible paras) = visible ?n"
    by (simp add: p collect_paragraphs_visible visible_split_on)
qed

end
