(* ===== verification/Normalization_Chunks.thy ===== *)
theory Normalization_Chunks
  imports Normalization_Laws
begin

text \<open>
  The chunks of \<open>normalizePopplerText\<close>: splitting a paragraph always succeeds at the configured
  limits and loses nothing visible, and the chunks of a document are clean parts in reading order.
\<close>

section \<open>Splitting a paragraph\<close>

lemma prefix_loop_spec:
  assumes "prefix_loop limit v bytes pos lastSpace = (e, ls)" "bytes \<le> limit"
  shows "\<exists>k \<le> length v. e = pos + int k \<and> bytes + text_size (take k v) \<le> limit
    \<and> (ls = lastSpace \<or> (pos \<le> ls \<and> ls < e))
    \<and> (k < length v \<longrightarrow> limit < bytes + text_size (take (Suc k) v))"
  using assms
proof (induction limit v bytes pos lastSpace rule: prefix_loop.induct)
  case (2 limit p ps bytes pos lastSpace)
  show ?case
  proof (cases "bytes + point_size p > limit")
    case True
    then show ?thesis using 2 by (intro exI [of _ 0]) simp
  next
    case False
    then obtain k where "k \<le> length ps" "e = pos + 1 + int k"
      "bytes + point_size p + text_size (take k ps) \<le> limit"
      "ls = (if p = 32 then pos else lastSpace) \<or> (pos + 1 \<le> ls \<and> ls < e)"
      "k < length ps \<longrightarrow> limit < bytes + point_size p + text_size (take (Suc k) ps)"
      using 2 by auto
    then show ?thesis by (intro exI [of _ "Suc k"]) (auto split: if_splits)
  qed
qed simp

lemma text_size_take_le: "text_size (take k v) \<le> text_size v"
  using text_size_nonneg [of "drop k v"] append_take_drop_id [of k v] text_size_simps(3) [of "take k v" "drop k v"]
  by simp

lemma text_size_take_mono: "j \<le> k \<Longrightarrow> text_size (take j v) \<le> text_size (take k v)"
  using text_size_take_le [of j "take k v"] by (simp add: min_absorb1)

lemma prefix_within_limit_bounds:
  assumes "prefix_within_limit v limit = Inr pos" "0 \<le> limit"
  shows "0 \<le> pos" "nat pos \<le> length v" "text_size (take (nat pos) v) \<le> limit"
proof -
  obtain e ls where l: "prefix_loop limit v 0 0 (-1) = (e, ls)" by (cases "prefix_loop limit v 0 0 (-1)")
  from prefix_loop_spec [OF l] assms(2) obtain k where k: "k \<le> length v" "e = int k"
    "text_size (take k v) \<le> limit" "ls = -1 \<or> (0 \<le> ls \<and> ls < e)" by auto
  have pos: "pos = e \<or> (0 < ls \<and> pos = ls)"
    using assms(1) by (auto simp: prefix_within_limit_def l Let_def split: if_splits)
  then have "0 \<le> pos \<and> nat pos \<le> k" using k by auto
  then show "0 \<le> pos" "nat pos \<le> length v" "text_size (take (nat pos) v) \<le> limit"
    using k text_size_take_mono [of "nat pos" k v] by auto
qed

lemma prefix_within_limit_total:
  assumes "limit < text_size v" "4 \<le> limit" "v \<noteq> []" "hd v \<noteq> 32"
  obtains pos where "prefix_within_limit v limit = Inr pos" "1 \<le> pos"
proof -
  obtain e ls where l: "prefix_loop limit v 0 0 (-1) = (e, ls)" by (cases "prefix_loop limit v 0 0 (-1)")
  from prefix_loop_spec [OF l] assms(2) obtain k where k: "k \<le> length v" "e = int k"
    "text_size (take k v) \<le> limit" "k < length v \<longrightarrow> limit < text_size (take (Suc k) v)" by auto
  have "k \<noteq> 0"
  proof
    assume "k = 0"
    then have "limit < text_size (take 1 v)" using k assms(3) by simp
    also have "text_size (take 1 v) \<le> 4" using point_size_bounds(2) [of "hd v"] assms(3) by (cases v) simp_all
    finally show False using assms(2) by simp
  qed
  moreover have "k \<noteq> length v" using k(3) assms(1) by auto
  ultimately have "1 \<le> e" "e \<noteq> int (length v)" using k by auto
  then show thesis
    by (cases "v ! nat e = 32"; cases "ls > 0")
      (auto simp: prefix_within_limit_def l intro!: that)
qed

lemma clean_text_part:
  assumes laws: "nfc_laws nfc" and "clean_text nfc (x @ y @ z)" "y \<noteq> []"
    and "\<not> white_point (hd y)" "\<not> white_point (last y)"
  shows "clean_text nfc y"
  using assms nfc_substring [OF laws, of x y z] double_blank_substring [of y x z]
  by (auto simp: clean_text_def)

text \<open>The piece cut off a clean paragraph, and the rest of it.\<close>

lemma cut_part_clean:
  assumes "nfc_laws nfc" "clean_text nfc ps" "trim_right (take k ps) \<noteq> []"
  shows "clean_text nfc (trim_right (take k ps))"
proof -
  let ?y = "trim_right (take k ps)"
  obtain ws where ws: "take k ps = ?y @ ws" using trim_right_split by blast
  have ps: "ps = [] @ ?y @ (ws @ drop k ps)"
    using append_take_drop_id [of k ps] ws by (metis append.assoc append_Nil)
  have "hd ?y = hd ps" using assms(3) by (subst (2) ps) simp
  moreover have "\<not> white_point (last ?y)" using assms(3) by (rule last_trim_right)
  moreover have "clean_text nfc ([] @ ?y @ (ws @ drop k ps))" unfolding ps [symmetric] by (rule assms(2))
  ultimately show ?thesis
    using assms by (intro clean_text_part [OF assms(1), of "[]" ?y "ws @ drop k ps"]) (simp_all add: clean_text_def)
qed

lemma cut_rest_clean:
  assumes "nfc_laws nfc" "clean_text nfc ps" "0 < k"
  shows "trim_left (drop k ps) = [] \<or> clean_text nfc (trim_left (drop k ps))"
    and "length (trim_left (drop k ps)) < length ps"
proof -
  let ?y = "trim_left (drop k ps)"
  obtain us where us: "drop k ps = us @ ?y" using trim_left_split by blast
  have ps: "ps = (take k ps @ us) @ ?y @ []" using append_take_drop_id [of k ps] us by simp
  show "?y = [] \<or> clean_text nfc ?y"
  proof (cases "?y = []")
    case False
    have "last ?y = last ps" using False by (subst (2) ps) simp
    moreover have "\<not> white_point (hd ?y)" using False by (rule hd_trim_left)
    moreover have "clean_text nfc ((take k ps @ us) @ ?y @ [])" unfolding ps [symmetric] by (rule assms(2))
    ultimately have "clean_text nfc ?y"
      using assms(2) False
      by (intro clean_text_part [OF assms(1), of "take k ps @ us" ?y "[]"]) (simp_all add: clean_text_def)
    then show ?thesis ..
  qed simp
  have "0 < length ps" using assms(2) by (simp add: clean_text_def)
  moreover have "length ?y \<le> length ps - k"
    using length_dropWhile_le [of white_point "drop k ps"] by (simp add: trim_left_def)
  ultimately show "length ?y < length ps" using assms(3) by linarith
qed

lemma split_paragraph_parts:
  assumes laws: "nfc_laws nfc" and "0 \<le> limit"
  shows "ps = [] \<or> clean_text nfc ps \<Longrightarrow> split_paragraph ps limit = Inr parts \<Longrightarrow>
    list_all (\<lambda>q. clean_text nfc q \<and> text_size q \<le> limit) parts \<and> (ps \<noteq> [] \<longrightarrow> parts \<noteq> [])
    \<and> concat (map visible parts) = visible ps"
proof (induction "length ps" arbitrary: ps parts rule: less_induct)
  case less
  show ?case
  proof (cases "text_size ps \<le> limit")
    case True
    then show ?thesis using less.prems by (auto simp: split_paragraph.simps [of ps])
  next
    case False
    then have "ps \<noteq> []" using assms(2) by auto
    then have clean: "clean_text nfc ps" using less.prems by simp
    from less.prems False obtain pos rest where pos: "prefix_within_limit ps limit = Inr pos"
      and part: "trim_right (take (nat pos) ps) \<noteq> []"
      and rest: "split_paragraph (trim_left (drop (nat pos) ps)) limit = Inr rest"
      and parts: "parts = trim_right (take (nat pos) ps) # rest"
      by (auto simp: split_paragraph.simps [of ps] Let_def split: sum.splits if_splits)
    have "0 < nat pos" using part by (cases "nat pos") (auto simp: trim_right_def)
    note cr = cut_rest_clean [OF laws clean this]
    note ih = less.hyps [OF cr(2) cr(1) rest]
    obtain ws where "take (nat pos) ps = trim_right (take (nat pos) ps) @ ws"
      using trim_right_split by blast
    then have "text_size (trim_right (take (nat pos) ps)) \<le> text_size (take (nat pos) ps)"
      using text_size_nonneg [of ws] text_size_simps(3) [of "trim_right (take (nat pos) ps)" ws] by simp
    then have "text_size (trim_right (take (nat pos) ps)) \<le> limit"
      using prefix_within_limit_bounds [OF pos assms(2)] by simp
    moreover have "visible ps = visible (take (nat pos) ps) @ visible (drop (nat pos) ps)"
      unfolding visible_simps(2) [symmetric] by simp
    ultimately show ?thesis using cut_part_clean [OF laws clean part] ih parts by simp
  qed
qed

lemma split_paragraph_total:
  assumes laws: "nfc_laws nfc" and lim: "4 \<le> limit"
  shows "ps = [] \<or> clean_text nfc ps \<Longrightarrow> \<exists>parts. split_paragraph ps limit = Inr parts"
proof (induction "length ps" arbitrary: ps rule: less_induct)
  case less
  show ?case
  proof (cases "text_size ps \<le> limit")
    case True
    then show ?thesis by (simp add: split_paragraph.simps [of ps])
  next
    case False
    then have ne: "ps \<noteq> []" using lim by auto
    then have clean: "clean_text nfc ps" using less.prems by simp
    then have hd: "\<not> white_point (hd ps)" by (simp add: clean_text_def)
    then have "hd ps \<noteq> 32" by auto
    with False lim ne obtain pos where pos: "prefix_within_limit ps limit = Inr pos" "1 \<le> pos"
      by (meson linorder_not_le prefix_within_limit_total)
    obtain p qs where ps: "ps = p # qs" using ne by (cases ps) auto
    have "p \<in> set (take (nat pos) ps)" using pos(2) by (cases "nat pos") (auto simp: ps)
    then have part: "trim_right (take (nat pos) ps) \<noteq> []"
      using hd by (auto simp: trim_right_def ps)
    have "0 < nat pos" using pos(2) by simp
    note cr = cut_rest_clean [OF laws clean this]
    from less.hyps [OF cr(2) cr(1)] obtain rest
      where "split_paragraph (trim_left (drop (nat pos) ps)) limit = Inr rest" by blast
    then show ?thesis using False pos part by (simp add: split_paragraph.simps [of ps])
  qed
qed

section \<open>The chunks in order\<close>

type_synonym placed = "nat \<times> nat \<times> int list"   \<comment> \<open>page, paragraph, text\<close>

definition placed_chunk :: "nat \<Rightarrow> placed \<Rightarrow> extracted_chunk" where
  "placed_chunk i x =
     (case x of (page, ordinal, part) \<Rightarrow>
        \<lparr>xc_sequence = NInt (int i), xc_pageNumber = NInt (int page),
         xc_paragraphId = paragraph_id page ordinal, xc_text = utf8_encode part\<rparr>)"

fun chunks_from :: "nat \<Rightarrow> placed list \<Rightarrow> extracted_chunk list" where
  "chunks_from i [] = []"
| "chunks_from i (x # xs) = placed_chunk i x # chunks_from (Suc i) xs"

definition placed_size :: "placed list \<Rightarrow> int" where
  "placed_size xs = sum_list (map (\<lambda>(page, ordinal, part). text_size part) xs)"

text \<open>Reading order: a new page starts at paragraph 1, the same page continues or goes to the next.\<close>

fun in_order :: "nat \<times> nat \<Rightarrow> placed list \<Rightarrow> bool" where
  "in_order prev [] \<longleftrightarrow> True"
| "in_order prev ((page, ordinal, part) # xs) \<longleftrightarrow>
     ((page = fst prev \<and> (ordinal = snd prev \<or> ordinal = Suc (snd prev)))
      \<or> (fst prev < page \<and> ordinal = 1)) \<and> in_order (page, ordinal) xs"

fun last_place :: "nat \<times> nat \<Rightarrow> placed list \<Rightarrow> nat \<times> nat" where
  "last_place prev [] = prev"
| "last_place prev ((page, ordinal, part) # xs) = last_place (page, ordinal) xs"

lemma chunks_from_append: "chunks_from i (xs @ ys) = chunks_from i xs @ chunks_from (i + length xs) ys"
  by (induction xs arbitrary: i) auto

lemma length_chunks_from [simp]: "length (chunks_from i xs) = length xs"
  by (induction xs arbitrary: i) auto

lemma placed_size_simps [simp]:
  "placed_size [] = 0" "placed_size (xs @ ys) = placed_size xs + placed_size ys"
  "placed_size ((page, ordinal, part) # xs) = text_size part + placed_size xs"
  by (simp_all add: placed_size_def)

lemma in_order_append: "in_order prev (xs @ ys) \<longleftrightarrow> in_order prev xs \<and> in_order (last_place prev xs) ys"
  by (induction prev xs rule: in_order.induct) auto

lemma last_place_append: "last_place prev (xs @ ys) = last_place (last_place prev xs) ys"
  by (induction prev xs rule: last_place.induct) auto

text \<open>The state of the loops holds exactly the chunks placed so far.\<close>

definition holds :: "text_limits \<Rightarrow> normalized_text \<Rightarrow> placed list \<Rightarrow> bool" where
  "holds lim st xs \<longleftrightarrow>
     nt_chunks st = chunks_from 0 xs \<and> nt_textBytes st = placed_size xs \<and> in_order (0, 0) xs
     \<and> int (length xs) \<le> tl_maxChunkCount lim \<and> placed_size xs \<le> tl_maxTextBytes lim"

definition next_paragraph :: "nat \<Rightarrow> nat \<Rightarrow> nat \<times> nat \<Rightarrow> bool" where
  "next_paragraph page ordinal prev \<longleftrightarrow>
     (ordinal = 1 \<and> fst prev < page) \<or> (1 < ordinal \<and> prev = (page, ordinal - 1))
     \<or> prev = (page, ordinal)"

lemma push_parts_holds:
  "push_parts lim page ordinal parts st = Inr st' \<Longrightarrow> holds lim st xs \<Longrightarrow>
     next_paragraph page ordinal (last_place (0, 0) xs) \<Longrightarrow>
     holds lim st' (xs @ map (\<lambda>part. (page, ordinal, part)) parts)"
proof (induction lim page ordinal parts st arbitrary: xs rule: push_parts.induct)
  case (2 lim page ordinal part parts st)
  define st1 where "st1 = \<lparr>nt_chunks = nt_chunks st
           @ [\<lparr>xc_sequence = NInt (int (length (nt_chunks st))), xc_pageNumber = NInt (int page),
               xc_paragraphId = paragraph_id page ordinal, xc_text = utf8_encode part\<rparr>],
         nt_textBytes = nt_textBytes st + text_size part\<rparr>"
  from 2(2) have ok: "\<not> int (length (nt_chunks st)) \<ge> tl_maxChunkCount lim"
    "\<not> (text_size part < 1 \<or> nt_textBytes st + text_size part > tl_maxTextBytes lim)"
    and rest: "push_parts lim page ordinal parts st1 = Inr st'"
    by (auto simp: st1_def split: if_splits)
  have "holds lim st1 (xs @ [(page, ordinal, part)])"
    using 2(3,4) ok
    by (auto simp: holds_def st1_def chunks_from_append placed_chunk_def in_order_append next_paragraph_def)
  moreover have "next_paragraph page ordinal (last_place (0, 0) (xs @ [(page, ordinal, part)]))"
    by (simp add: last_place_append next_paragraph_def)
  ultimately have "holds lim st' ((xs @ [(page, ordinal, part)]) @ map (\<lambda>part. (page, ordinal, part)) parts)"
    by (rule 2(1) [OF ok rest [unfolded st1_def], folded st1_def])
  then show ?case by simp
qed simp

lemma last_place_map:
  "parts \<noteq> [] \<Longrightarrow> last_place prev (map (\<lambda>part. (page, ordinal, part)) parts) = (page, ordinal)"
proof (induction parts arbitrary: prev)
  case (Cons part parts)
  then show ?case by (cases parts) auto
qed simp

definition good_place :: "(int list \<Rightarrow> int list) \<Rightarrow> text_limits \<Rightarrow> nat \<Rightarrow> placed \<Rightarrow> bool" where
  "good_place nfc lim bound x \<longleftrightarrow>
     (case x of (page, ordinal, part) \<Rightarrow>
        1 \<le> page \<and> page \<le> bound \<and> clean_text nfc part \<and> text_size part \<le> tl_maxChunkBytes lim)"

lemma push_paragraphs_holds:
  assumes laws: "nfc_laws nfc"
  shows "push_paragraphs lim page ordinal paras bytes st = Inr (bytes', st') \<Longrightarrow> holds lim st xs \<Longrightarrow>
    list_all (clean_text nfc) paras \<Longrightarrow>
    (ordinal = 1 \<and> fst (last_place (0, 0) xs) < page)
      \<or> (1 < ordinal \<and> last_place (0, 0) xs = (page, ordinal - 1)) \<Longrightarrow>
    0 \<le> tl_maxChunkBytes lim \<Longrightarrow> 1 \<le> page \<Longrightarrow>
    \<exists>ys. holds lim st' (xs @ ys) \<and> list_all (good_place nfc lim page) ys
      \<and> fst (last_place (0, 0) (xs @ ys)) \<le> page
      \<and> concat (map (\<lambda>(p, q, part). visible part) ys) = concat (map visible paras)"
proof (induction lim page ordinal paras bytes st arbitrary: xs bytes' st' rule: push_paragraphs.induct)
  case (1 lim page ordinal bytes st)
  then show ?case by (intro exI [of _ "[]"]) auto
next
  case (2 lim page ordinal para paras bytes st)
  from "2.prems"(1) obtain parts st1 where
    small: "\<not> bytes + text_size para > tl_maxTextBytes lim" and
    parts: "split_paragraph para (tl_maxChunkBytes lim) = Inr parts" and
    push: "push_parts lim page ordinal parts st = Inr st1" and
    rest: "push_paragraphs lim page (Suc ordinal) paras (bytes + text_size para) st1 = Inr (bytes', st')"
    by (auto simp: and_then_Inr_iff split: if_splits)
  let ?ys = "map (\<lambda>part. (page, ordinal, part)) parts"
  have para: "clean_text nfc para" "list_all (clean_text nfc) paras" using "2.prems"(3) by simp_all
  note sp = split_paragraph_parts [OF laws "2.prems"(5) disjI2 [OF para(1)] parts]
  then have ne: "parts \<noteq> []" using para by (auto simp: clean_text_def)
  have "next_paragraph page ordinal (last_place (0, 0) xs)"
    using "2.prems"(4) by (auto simp: next_paragraph_def)
  note h1 = push_parts_holds [OF push "2.prems"(2) this]
  have lp: "last_place (0, 0) (xs @ ?ys) = (page, ordinal)"
    using last_place_map [OF ne] by (simp add: last_place_append)
  then have np: "(Suc ordinal = 1 \<and> fst (last_place (0, 0) (xs @ ?ys)) < page)
      \<or> (1 < Suc ordinal \<and> last_place (0, 0) (xs @ ?ys) = (page, Suc ordinal - 1))"
    using "2.prems"(4) by auto
  from "2.IH" [OF small rest h1 para(2) np "2.prems"(5,6)] obtain ys where
    ys: "holds lim st' ((xs @ ?ys) @ ys)" "list_all (good_place nfc lim page) ys"
      "fst (last_place (0, 0) ((xs @ ?ys) @ ys)) \<le> page"
      "concat (map (\<lambda>(p, q, part). visible part) ys) = concat (map visible paras)" by blast
  have "list_all (good_place nfc lim page) ?ys"
    using sp "2.prems"(6) by (auto simp: list_all_iff good_place_def)
  moreover have "concat (map (\<lambda>(p, q, part). visible part) ?ys) = visible para"
    using sp by (simp add: comp_def)
  ultimately show ?case using ys by (intro exI [of _ "?ys @ ys"]) simp
qed

lemma good_place_mono: "good_place nfc lim m x \<Longrightarrow> m \<le> n \<Longrightarrow> good_place nfc lim n x"
  by (auto simp: good_place_def)

lemma push_pages_holds:
  assumes laws: "nfc_laws nfc" and lim: "0 \<le> tl_maxChunkBytes lim"
  shows "push_pages nfc lim page raws bytes st = Inr st' \<Longrightarrow> holds lim st xs \<Longrightarrow>
    list_all (\<lambda>raw. list_all scalar raw \<and> 12 \<notin> set raw) raws \<Longrightarrow>
    fst (last_place (0, 0) xs) < page \<Longrightarrow> 1 \<le> page \<Longrightarrow>
    \<exists>ys. holds lim st' (xs @ ys) \<and> list_all (good_place nfc lim (page + length raws - 1)) ys
      \<and> concat (map (\<lambda>(p, q, part). visible part) ys)
        = concat (map (\<lambda>raw. visible (normalized_page nfc raw)) raws)"
proof (induction raws arbitrary: page bytes st xs)
  case Nil
  then show ?case by (intro exI [of _ "[]"]) auto
next
  case (Cons raw raws)
  from Cons.prems(1) obtain paras bytes1 st1 where
    paras: "paragraphs_for_page nfc raw = Inr paras" and
    push: "push_paragraphs lim page 1 paras bytes st = Inr (bytes1, st1)" and
    rest: "push_pages nfc lim (Suc page) raws bytes1 st1 = Inr st'"
    by (auto simp: and_then_Inr_iff)
  have raw: "list_all scalar raw" "12 \<notin> set raw" using Cons.prems(3) by simp_all
  note cl = paragraphs_for_page_clean [OF laws raw paras]
  have "(1 = (1::nat) \<and> fst (last_place (0, 0) xs) < page)
      \<or> (1 < (1::nat) \<and> last_place (0, 0) xs = (page, 1 - 1))" using Cons.prems(4) by simp
  from push_paragraphs_holds [OF laws push Cons.prems(2) cl(1) this lim Cons.prems(5)] obtain ys where
    ys: "holds lim st1 (xs @ ys)" "list_all (good_place nfc lim page) ys"
      "fst (last_place (0, 0) (xs @ ys)) \<le> page"
      "concat (map (\<lambda>(p, q, part). visible part) ys) = visible (normalized_page nfc raw)"
    using cl(2) by auto
  have "list_all (\<lambda>raw. list_all scalar raw \<and> 12 \<notin> set raw) raws"
    "fst (last_place (0, 0) (xs @ ys)) < Suc page" using Cons.prems(3) ys(3) by simp_all
  from Cons.IH [OF rest ys(1) this] obtain zs where
    zs: "holds lim st' ((xs @ ys) @ zs)" "list_all (good_place nfc lim (Suc page + length raws - 1)) zs"
      "concat (map (\<lambda>(p, q, part). visible part) zs)
        = concat (map (\<lambda>raw. visible (normalized_page nfc raw)) raws)" by auto
  have "list_all (good_place nfc lim (page + length (raw # raws) - 1)) (ys @ zs)"
    using ys(2) zs(2) by (auto simp: list_all_iff intro: good_place_mono)
  then show ?case using ys zs by (intro exI [of _ "ys @ zs"]) simp
qed

lemma document_pages_points:
  assumes "list_all scalar raw" "page \<in> set (document_pages raw n)"
  shows "list_all scalar page \<and> 12 \<notin> set page"
proof -
  from assms(2) have "page \<in> set (split_on 12 raw)"
    by (auto simp: document_pages_def Let_def split: if_splits dest: in_set_butlastD)
  from split_on_substring [OF this] obtain x z where "raw = x @ page @ z" "12 \<notin> set page" by blast
  then show ?thesis using assms(1) by simp
qed

text \<open>The pages of a document lose only the delimiters and a blank terminal page.\<close>

lemma document_pages_visible: "concat (map visible (document_pages raw n)) = visible raw"
proof -
  let ?pages = "split_on 12 raw"
  have ne: "?pages \<noteq> []" using split_on_prefix by blast
  have v: "concat (map visible ?pages) = visible raw"
    by (rule visible_split_on) (simp add: white_point_def)
  have "visible ps = []" if "blank_page ps" for ps
    using that by (auto simp: blank_page_def list_all_iff visible_def filter_empty_conv white_point_def
        space_separator_def)
  moreover have "concat (map visible ?pages)
      = concat (map visible (butlast ?pages)) @ visible (last ?pages)"
  proof -
    have "concat (map visible (butlast ?pages @ [last ?pages])) = concat (map visible ?pages)"
      by (simp only: append_butlast_last_id [OF ne])
    then show ?thesis by simp
  qed
  ultimately show ?thesis using v by (simp add: document_pages_def Let_def)
qed

lemma normalized_chunks:
  assumes laws: "nfc_laws nfc" and lim: "0 \<le> tl_maxChunkBytes lim" "0 \<le> tl_maxChunkCount lim"
      "0 \<le> tl_maxTextBytes lim"
    and ok: "normalize_poppler_text nfc bytes n lim = Inr nt"
  obtains raw xs where "utf8_decode bytes = Some raw" "holds lim nt xs"
    "list_all (good_place nfc lim n) xs"
    "concat (map (\<lambda>(p, q, part). visible part) xs)
      = concat (map (\<lambda>page. visible (normalized_page nfc page)) (document_pages raw n))"
proof -
  from ok obtain raw where raw: "utf8_decode bytes = Some raw" and len: "length (document_pages raw n) = n"
    and push: "push_pages nfc lim 1 (document_pages raw n) 0 \<lparr>nt_chunks = [], nt_textBytes = 0\<rparr> = Inr nt"
    by (auto simp: normalize_poppler_text_def and_then_Inr_iff split: option.splits if_splits)
  have "holds lim \<lparr>nt_chunks = [], nt_textBytes = 0\<rparr> []" using lim by (simp add: holds_def)
  moreover have "list_all (\<lambda>raw. list_all scalar raw \<and> 12 \<notin> set raw) (document_pages raw n)"
    using document_pages_points [OF utf8_decode_scalar [OF raw]] by (auto simp: list_all_iff)
  ultimately obtain ys where "holds lim nt ([] @ ys)"
    "list_all (good_place nfc lim (1 + length (document_pages raw n) - 1)) ys"
    "concat (map (\<lambda>(p, q, part). visible part) ys)
      = concat (map (\<lambda>raw. visible (normalized_page nfc raw)) (document_pages raw n))"
    using push_pages_holds [OF laws lim(1) push, of "[]"] by auto
  then show thesis using len by (intro that [OF raw, of ys]) simp_all
qed

end
