(* ===== verification/Extraction_Contract.thy ===== *)
theory Extraction_Contract
  imports Contract_Values Extraction_Completion
begin

text \<open>
  The contract of the extractor service's answer (\<open>src/server/documents/extraction-contract.ts\<close>):
  the closed JSON object, its bindings to the request, its chunks and its clock window, and the
  attestation it becomes. The lemmas relate it to the checks the job code makes of an attestation.
\<close>

section \<open>Expectations and failures\<close>

datatype extraction_contract_failure =
    Xf_invalid_response | Xf_input_mismatch | Xf_policy_mismatch | Xf_toolchain_mismatch
  | Xf_engine_mismatch | Xf_result_stale | Xf_clock_invalid

datatype extraction_contract_error =
    Extraction_contract_error extraction_contract_failure
  | Extraction_expectations_error   \<comment> \<open>the TypeError for invalid expectations\<close>

abbreviation extraction_invalid :: extraction_contract_error where
  "extraction_invalid \<equiv> Extraction_contract_error Xf_invalid_response"

record extraction_expectations =
  xe_inputSha256 :: string
  xe_inputSizeBytes :: int
  xe_storageVersion :: string
  xe_policyVersion :: string
  xe_toolchainDigest :: string
  xe_expectedEngineVersion :: string
  xe_now :: "millis option"
  xe_maxDurationMs :: jnum
  xe_resultMaxAgeMs :: jnum
  xe_futureClockSkewMs :: jnum

text \<open>\<open>/^[A-Za-z0-9][A-Za-z0-9._:+-]{0,127}$/\<close>\<close>

definition engine_version_pattern :: "string \<Rightarrow> bool" where
  "engine_version_pattern s \<longleftrightarrow> head_tail is_alnum (\<lambda>c. is_alnum c \<or> one_of ''._:+-'' c) 127 s"

lemma engine_version_safe: "engine_version_pattern s \<Longrightarrow> safe_value_pattern s"
  unfolding engine_version_pattern_def safe_value_pattern_def
  by (erule head_tail_mono) (auto simp: one_of_def)

definition extraction_expectations_ok :: "extraction_expectations \<Rightarrow> bool" where
  "extraction_expectations_ok e \<longleftrightarrow>
     sha256_pattern (xe_inputSha256 e) \<and> 1 \<le> xe_inputSizeBytes e
     \<and> safe_value_pattern (xe_storageVersion e) \<and> safe_value_pattern (xe_policyVersion e)
     \<and> sha256_pattern (xe_toolchainDigest e) \<and> \<not> zero_digest (xe_toolchainDigest e)
     \<and> engine_version_pattern (xe_expectedEngineVersion e) \<and> xe_now e \<noteq> None
     \<and> safe_integer (xe_maxDurationMs e) \<and> 1 \<le> num_val (xe_maxDurationMs e)
     \<and> safe_integer (xe_resultMaxAgeMs e) \<and> 1 \<le> num_val (xe_resultMaxAgeMs e)
     \<and> safe_integer (xe_futureClockSkewMs e) \<and> 0 \<le> num_val (xe_futureClockSkewMs e)
     \<and> num_val (xe_futureClockSkewMs e) < num_val (xe_resultMaxAgeMs e)"

section \<open>The parts of the response\<close>

definition response_keys :: "string list" where
  "response_keys = [''schemaVersion'', ''policyVersion'', ''storageVersion'', ''toolchainDigest'',
     ''verdict'', ''input'', ''extraction'', ''chunks'', ''completedAt'', ''totalDurationMs'']"

definition extraction_keys :: "string list" where
  "extraction_keys = [''engine'', ''engineVersion'', ''pageCount'', ''chunkCount'', ''textBytes'',
     ''extractedAt'', ''durationMs'']"

definition chunk_keys :: "string list" where
  "chunk_keys = [''sequence'', ''pageNumber'', ''paragraphId'', ''text'']"

fun wire_verdict :: "extraction_verdict \<Rightarrow> string" where
  "wire_verdict EXTRACTED = ''extracted''"
| "wire_verdict NO_TEXT = ''no_text''"

definition verdict_of_wire :: "string \<Rightarrow> extraction_verdict" where
  "verdict_of_wire s = (if s = ''extracted'' then EXTRACTED else NO_TEXT)"

text \<open>The bindings: policy, storage version, toolchain, verdict and input, in the code's order.\<close>

definition response_bindings ::
    "extraction_expectations \<Rightarrow> fields \<Rightarrow> extraction_contract_error + extraction_verdict" where
  "response_bindings e r =
     and_then (throw_unless (field r ''schemaVersion'' = Some (jint 1)) extraction_invalid) (\<lambda>_.
     and_then (or_throw extraction_invalid (text_where safe_value_pattern (field r ''policyVersion'')))
       (\<lambda>policy.
     and_then (or_throw extraction_invalid (text_where safe_value_pattern (field r ''storageVersion'')))
       (\<lambda>storage.
     and_then (throw_unless (policy = xe_policyVersion e)
       (Extraction_contract_error Xf_policy_mismatch)) (\<lambda>_.
     and_then (throw_unless (storage = xe_storageVersion e)
       (Extraction_contract_error Xf_input_mismatch)) (\<lambda>_.
     and_then (or_throw extraction_invalid (text_where sha256_pattern (field r ''toolchainDigest'')))
       (\<lambda>toolchain.
     and_then (throw_unless (toolchain = xe_toolchainDigest e)
       (Extraction_contract_error Xf_toolchain_mismatch)) (\<lambda>_.
     and_then (or_throw extraction_invalid
       (text_where (\<lambda>s. s = ''extracted'' \<or> s = ''no_text'') (field r ''verdict''))) (\<lambda>verdict.
     and_then (or_throw extraction_invalid (record_with [''sha256'', ''sizeBytes''] (field r ''input'')))
       (\<lambda>input.
     and_then (or_throw extraction_invalid (text_where canonical_decimal (field input ''sizeBytes'')))
       (\<lambda>size.
     and_then (throw_unless (field input ''sha256'' = Some (JStr (xe_inputSha256 e))
         \<and> digits_val size = xe_inputSizeBytes e)
       (Extraction_contract_error Xf_input_mismatch)) (\<lambda>_.
     Inr (verdict_of_wire verdict))))))))))))"

text \<open>The measures of the extraction and the times, as an attestation that still has no chunks.\<close>

definition response_measures ::
    "extraction_expectations \<Rightarrow> fields \<Rightarrow> extraction_verdict
      \<Rightarrow> extraction_contract_error + extraction_attestation" where
  "response_measures e r verdict =
     and_then (or_throw extraction_invalid (record_with extraction_keys (field r ''extraction''))) (\<lambda>x.
     and_then (throw_unless (field x ''engine'' = Some (JStr ''poppler''))
       (Extraction_contract_error Xf_engine_mismatch)) (\<lambda>_.
     and_then (or_throw extraction_invalid (text_where safe_value_pattern (field x ''engineVersion'')))
       (\<lambda>engine.
     and_then (throw_unless (engine_version_pattern engine) extraction_invalid) (\<lambda>_.
     and_then (throw_unless (engine = xe_expectedEngineVersion e)
       (Extraction_contract_error Xf_engine_mismatch)) (\<lambda>_.
     and_then (or_throw extraction_invalid
       (integer_within 1 max_extracted_page_count (field x ''pageCount''))) (\<lambda>pages.
     and_then (or_throw extraction_invalid
       (integer_within 0 max_extracted_chunk_count (field x ''chunkCount''))) (\<lambda>count.
     and_then (or_throw extraction_invalid
       (integer_within 0 max_extracted_text_bytes (field x ''textBytes''))) (\<lambda>bytes.
     and_then (or_throw extraction_invalid (timestamp_at (field x ''extractedAt''))) (\<lambda>extracted.
     and_then (or_throw extraction_invalid
       (integer_within 0 (num_val (xe_maxDurationMs e)) (field x ''durationMs''))) (\<lambda>took.
     and_then (or_throw extraction_invalid (timestamp_at (field r ''completedAt''))) (\<lambda>completed.
     and_then (or_throw extraction_invalid
       (integer_within 0 (num_val (xe_maxDurationMs e)) (field r ''totalDurationMs''))) (\<lambda>whole.
     and_then (throw_unless (extracted \<le> completed \<and> num_val took \<le> num_val whole)
       extraction_invalid) (\<lambda>_.
     Inr \<lparr>xa_inputSha256 = xe_inputSha256 e, xa_inputSizeBytes = xe_inputSizeBytes e,
          xa_storageVersion = xe_storageVersion e, xa_policyVersion = xe_policyVersion e,
          xa_toolchainDigest = xe_toolchainDigest e, xa_verdict = verdict, xa_engine = ''poppler'',
          xa_engineVersion = engine, xa_pageCount = pages, xa_chunkCount = count,
          xa_textBytes = bytes, xa_extractedAt = Some extracted, xa_completedAt = Some completed,
          xa_durationMs = took, xa_totalDurationMs = whole, xa_chunks = []\<rparr>)))))))))))))"

section \<open>The chunks\<close>

definition response_chunk ::
    "(string \<Rightarrow> string) \<Rightarrow> int \<Rightarrow> int \<Rightarrow> int \<times> int \<Rightarrow> json
      \<Rightarrow> extraction_contract_error + (extracted_chunk \<times> int \<times> int)" where
  "response_chunk nfc pageCount index prev v =
     and_then (or_throw extraction_invalid (record_with chunk_keys (Some v))) (\<lambda>r.
     and_then (or_throw extraction_invalid
       (integer_within 0 (max_extracted_chunk_count - 1) (field r ''sequence''))) (\<lambda>sequence.
     and_then (throw_unless (sequence = NInt index) extraction_invalid) (\<lambda>_.
     and_then (or_throw extraction_invalid (integer_within 1 pageCount (field r ''pageNumber'')))
       (\<lambda>page.
     and_then (throw_unless (fst prev \<le> num_val page) extraction_invalid) (\<lambda>_.
     and_then (or_throw extraction_invalid (text_where (\<lambda>s. True) (field r ''paragraphId''))) (\<lambda>pid.
     and_then (or_throw extraction_invalid (chunk_position pageCount prev page pid)) (\<lambda>position.
     and_then (or_throw extraction_invalid (text_where (canonical_text nfc) (field r ''text'')))
       (\<lambda>text.
     Inr (\<lparr>xc_sequence = sequence, xc_pageNumber = page, xc_paragraphId = pid, xc_text = text\<rparr>,
          position)))))))))"

fun response_chunks ::
    "(string \<Rightarrow> string) \<Rightarrow> int \<Rightarrow> json list \<Rightarrow> int \<Rightarrow> int \<times> int \<Rightarrow> int
      \<Rightarrow> extraction_contract_error + (extracted_chunk list \<times> int)" where
  "response_chunks nfc pageCount [] index prev measured = Inr ([], measured)"
| "response_chunks nfc pageCount (v # vs) index prev measured =
     and_then (response_chunk nfc pageCount index prev v) (\<lambda>(c, position).
     and_then (throw_unless (measured + utf8_bytes (xc_text c) \<le> max_extracted_text_bytes)
       extraction_invalid) (\<lambda>_.
     and_then (response_chunks nfc pageCount vs (index + 1) position (measured + utf8_bytes (xc_text c)))
       (\<lambda>(cs, m). Inr (c # cs, m))))"

definition response_text ::
    "(string \<Rightarrow> string) \<Rightarrow> fields \<Rightarrow> extraction_attestation
      \<Rightarrow> extraction_contract_error + extraction_attestation" where
  "response_text nfc r a =
     and_then (or_throw extraction_invalid (array_at (field r ''chunks''))) (\<lambda>vs.
     and_then (throw_unless (NInt (int (length vs)) = xa_chunkCount a) extraction_invalid) (\<lambda>_.
     and_then (response_chunks nfc (num_val (xa_pageCount a)) vs 0 (0, 0) 0) (\<lambda>(cs, measured).
     and_then (throw_unless (NInt measured = xa_textBytes a) extraction_invalid) (\<lambda>_.
     and_then (throw_unless
         (if xa_verdict a = EXTRACTED then xa_chunkCount a \<noteq> NInt 0 \<and> xa_textBytes a \<noteq> NInt 0
          else xa_chunkCount a = NInt 0 \<and> xa_textBytes a = NInt 0 \<and> cs = [])
       extraction_invalid) (\<lambda>_.
     Inr (a\<lparr>xa_chunks := cs\<rparr>))))))"

text \<open>The clock window of the two timestamps.\<close>

definition response_freshness ::
    "extraction_expectations \<Rightarrow> extraction_attestation \<Rightarrow> extraction_contract_error + unit" where
  "response_freshness e a =
     (let now = the (xe_now e); skew = num_val (xe_futureClockSkewMs e)
      in and_then (throw_unless (the (xa_extractedAt a) \<le> now + skew \<and> the (xa_completedAt a) \<le> now + skew)
           (Extraction_contract_error Xf_clock_invalid)) (\<lambda>_.
         throw_unless (now - the (xa_completedAt a) \<le> num_val (xe_resultMaxAgeMs e))
           (Extraction_contract_error Xf_result_stale)))"

definition parse_extraction_response ::
    "(string \<Rightarrow> string) \<Rightarrow> json \<Rightarrow> extraction_expectations
      \<Rightarrow> extraction_contract_error + extraction_attestation" where
  "parse_extraction_response nfc v e =
     and_then (throw_unless (extraction_expectations_ok e) Extraction_expectations_error) (\<lambda>_.
     and_then (or_throw extraction_invalid (record_with response_keys (Some v))) (\<lambda>r.
     and_then (response_bindings e r) (\<lambda>verdict.
     and_then (response_measures e r verdict) (\<lambda>a0.
     and_then (response_text nfc r a0) (\<lambda>a.
     and_then (response_freshness e a) (\<lambda>_. Inr a))))))"

section \<open>An accepted response\<close>

lemma response_chunk_asserted:
  assumes "response_chunk nfc pageCount index prev v = Inr (c, position)"
  shows "assert_extraction_chunk nfc c index pageCount prev = Inr (utf8_bytes (xc_text c), position)"
  using assms
  by (auto simp: response_chunk_def and_then_Inr_iff reader_iffs assert_extraction_chunk_def)

lemma response_chunks_asserted:
  "response_chunks nfc pageCount vs index prev measured = Inr (cs, m) \<Longrightarrow>
     assert_extraction_chunks nfc pageCount cs index prev measured = Inr m \<and> length cs = length vs"
proof (induction vs arbitrary: index prev measured cs m)
  case (Cons v vs)
  from Cons.prems obtain c position cs' where
    c: "response_chunk nfc pageCount index prev v = Inr (c, position)" and
    "measured + utf8_bytes (xc_text c) \<le> max_extracted_text_bytes" and
    "response_chunks nfc pageCount vs (index + 1) position (measured + utf8_bytes (xc_text c)) = Inr (cs', m)"
    and "cs = c # cs'"
    by (auto simp: and_then_Inr_iff)
  with Cons.IH response_chunk_asserted [OF c] show ?case by (cases position) auto
qed simp

lemma response_measures_facts:
  assumes "response_measures e r verdict = Inr a"
  obtains engine pages count bytes extracted took completed whole where
    "a = \<lparr>xa_inputSha256 = xe_inputSha256 e, xa_inputSizeBytes = xe_inputSizeBytes e,
          xa_storageVersion = xe_storageVersion e, xa_policyVersion = xe_policyVersion e,
          xa_toolchainDigest = xe_toolchainDigest e, xa_verdict = verdict, xa_engine = ''poppler'',
          xa_engineVersion = xe_expectedEngineVersion e, xa_pageCount = pages, xa_chunkCount = count,
          xa_textBytes = bytes, xa_extractedAt = Some extracted, xa_completedAt = Some completed,
          xa_durationMs = took, xa_totalDurationMs = whole, xa_chunks = []\<rparr>"
    "bounded_integer 1 max_extracted_page_count pages"
    "bounded_integer 0 max_extracted_chunk_count count"
    "bounded_integer 0 max_extracted_text_bytes bytes"
    "bounded_integer 0 (num_val (xe_maxDurationMs e)) took"
    "bounded_integer (num_val took) (num_val (xe_maxDurationMs e)) whole"
    "extracted \<le> completed"
proof -
  have mono: "bounded_integer 0 hi n \<Longrightarrow> lo \<le> num_val n \<Longrightarrow> bounded_integer lo hi n" for lo hi n
    by (cases n) auto
  from assms show thesis
    unfolding response_measures_def
    by (elim and_then_InrE, simp only: or_throw_Inr_iff throw_unless_Inr_iff integer_within_Some_iff
        sum.inject, elim conjE, intro that [OF sym])
      (assumption | erule mono)+
qed

lemma response_text_facts:
  assumes "response_text nfc r a0 = Inr a"
  obtains cs m where "a = a0\<lparr>xa_chunks := cs\<rparr>"
    "assert_extraction_chunks nfc (num_val (xa_pageCount a0)) cs 0 (0, 0) 0 = Inr m"
    "NInt m = xa_textBytes a0" "NInt (int (length cs)) = xa_chunkCount a0"
    "if xa_verdict a0 = EXTRACTED then xa_chunkCount a0 \<noteq> NInt 0 \<and> xa_textBytes a0 \<noteq> NInt 0
     else xa_chunkCount a0 = NInt 0 \<and> xa_textBytes a0 = NInt 0 \<and> cs = []"
proof -
  from assms obtain vs y where
    len: "NInt (int (length vs)) = xa_chunkCount a0" and
    y: "response_chunks nfc (num_val (xa_pageCount a0)) vs 0 (0, 0) 0 = Inr y" and
    m: "NInt (snd y) = xa_textBytes a0" and a: "a = a0\<lparr>xa_chunks := fst y\<rparr>" and
    v: "if xa_verdict a0 = EXTRACTED then xa_chunkCount a0 \<noteq> NInt 0 \<and> xa_textBytes a0 \<noteq> NInt 0
     else xa_chunkCount a0 = NInt 0 \<and> xa_textBytes a0 = NInt 0 \<and> fst y = []"
    unfolding response_text_def
    by (elim and_then_InrE, simp only: split_beta)
      (elim and_then_InrE, simp only: throw_unless_Inr_iff sum.inject or_throw_Inr_iff)
  from response_chunks_asserted [of nfc _ vs 0 "(0, 0)" 0 "fst y" "snd y"] y
  have "assert_extraction_chunks nfc (num_val (xa_pageCount a0)) (fst y) 0 (0, 0) 0 = Inr (snd y)"
    "length (fst y) = length vs" by simp_all
  then show thesis using len m a v by (intro that [of "fst y" "snd y"]) simp_all
qed

lemma parse_extraction_parts:
  assumes "parse_extraction_response nfc v e = Inr a"
  obtains r verdict a0 where "extraction_expectations_ok e" "record_with response_keys (Some v) = Some r"
    "response_bindings e r = Inr verdict" "response_measures e r verdict = Inr a0"
    "response_text nfc r a0 = Inr a" "response_freshness e a = Inr ()"
  using assms by (auto simp: parse_extraction_response_def and_then_Inr_iff)

text \<open>
  An accepted response is an attestation the job code accepts, when the client's limits are within
  the job's: the policy has the configured form, and size and duration respect the job's bounds.
\<close>

lemma accepted_response_attested:
  assumes ok: "parse_extraction_response nfc v e = Inr a"
    and policy: "policy_value_pattern (xe_policyVersion e)"
    and size: "xe_inputSizeBytes e \<le> max_input_bytes"
    and took: "num_val (xe_maxDurationMs e) \<le> max_extraction_duration_ms"
  shows "assert_extraction_attestation nfc a = Inr ()"
proof -
  from ok obtain r verdict a0 where exp: "extraction_expectations_ok e"
    and m: "response_measures e r verdict = Inr a0" and t: "response_text nfc r a0 = Inr a"
    by (rule parse_extraction_parts)
  from m obtain engine pages count bytes extracted took completed whole where
    a0: "a0 = \<lparr>xa_inputSha256 = xe_inputSha256 e, xa_inputSizeBytes = xe_inputSizeBytes e,
          xa_storageVersion = xe_storageVersion e, xa_policyVersion = xe_policyVersion e,
          xa_toolchainDigest = xe_toolchainDigest e, xa_verdict = verdict, xa_engine = ''poppler'',
          xa_engineVersion = xe_expectedEngineVersion e, xa_pageCount = pages, xa_chunkCount = count,
          xa_textBytes = bytes, xa_extractedAt = Some extracted, xa_completedAt = Some completed,
          xa_durationMs = took, xa_totalDurationMs = whole, xa_chunks = []\<rparr>"
    and counts: "bounded_integer 1 max_extracted_page_count pages"
      "bounded_integer 0 max_extracted_chunk_count count"
      "bounded_integer 0 max_extracted_text_bytes bytes"
    and times: "bounded_integer 0 (num_val (xe_maxDurationMs e)) took"
      "bounded_integer (num_val took) (num_val (xe_maxDurationMs e)) whole" "extracted \<le> completed"
    by (rule response_measures_facts)
  from t obtain cs n where a: "a = a0\<lparr>xa_chunks := cs\<rparr>"
    and cs: "assert_extraction_chunks nfc (num_val (xa_pageCount a0)) cs 0 (0, 0) 0 = Inr n"
    and n: "NInt n = xa_textBytes a0" "NInt (int (length cs)) = xa_chunkCount a0"
    and verdict: "if xa_verdict a0 = EXTRACTED then xa_chunkCount a0 \<noteq> NInt 0 \<and> xa_textBytes a0 \<noteq> NInt 0
     else xa_chunkCount a0 = NInt 0 \<and> xa_textBytes a0 = NInt 0 \<and> cs = []"
    by (rule response_text_facts)
  have "extraction_header_ok a"
    using exp counts n(2) policy size engine_version_safe times(3)
      bounded_integer_mono [OF times(1) order_refl took] bounded_integer_mono [OF times(2) order_refl took]
    by (simp add: extraction_header_ok_def extraction_expectations_ok_def a a0)
  moreover have "1 \<le> num_val count" "1 \<le> num_val bytes" if "xa_verdict a0 = EXTRACTED"
    using verdict that counts by (auto simp: a0 elim!: bounded_integerE)
  ultimately show ?thesis
    using cs n verdict by (auto simp: assert_extraction_attestation_def a a0)
qed

text \<open>The bindings, the clock window and the durations of an accepted response.\<close>

lemma accepted_response_bound:
  assumes ok: "parse_extraction_response nfc v e = Inr a"
  shows "xa_inputSha256 a = xe_inputSha256 e \<and> xa_inputSizeBytes a = xe_inputSizeBytes e
    \<and> xa_storageVersion a = xe_storageVersion e \<and> xa_policyVersion a = xe_policyVersion e
    \<and> xa_toolchainDigest a = xe_toolchainDigest e \<and> xa_engineVersion a = xe_expectedEngineVersion e"
    and "\<exists>x c now. xa_extractedAt a = Some x \<and> xa_completedAt a = Some c \<and> xe_now e = Some now \<and> x \<le> c
         \<and> c \<le> now + num_val (xe_futureClockSkewMs e) \<and> now - c \<le> num_val (xe_resultMaxAgeMs e)"
    and "0 \<le> num_val (xa_durationMs a) \<and> num_val (xa_durationMs a) \<le> num_val (xa_totalDurationMs a)
    \<and> num_val (xa_totalDurationMs a) \<le> num_val (xe_maxDurationMs e)"
proof -
  from ok obtain r verdict a0 where exp: "extraction_expectations_ok e"
    and m: "response_measures e r verdict = Inr a0" and t: "response_text nfc r a0 = Inr a"
    and f: "response_freshness e a = Inr ()"
    by (rule parse_extraction_parts)
  from t obtain cs where a: "a = a0\<lparr>xa_chunks := cs\<rparr>" by (rule response_text_facts)
  from m show "xa_inputSha256 a = xe_inputSha256 e \<and> xa_inputSizeBytes a = xe_inputSizeBytes e
    \<and> xa_storageVersion a = xe_storageVersion e \<and> xa_policyVersion a = xe_policyVersion e
    \<and> xa_toolchainDigest a = xe_toolchainDigest e \<and> xa_engineVersion a = xe_expectedEngineVersion e"
    by (rule response_measures_facts) (simp add: a)
  from m show "\<exists>x c now. xa_extractedAt a = Some x \<and> xa_completedAt a = Some c \<and> xe_now e = Some now
      \<and> x \<le> c \<and> c \<le> now + num_val (xe_futureClockSkewMs e) \<and> now - c \<le> num_val (xe_resultMaxAgeMs e)"
    by (rule response_measures_facts)
      (use exp f in \<open>auto simp: a response_freshness_def Let_def and_then_Inr_iff extraction_expectations_ok_def\<close>)
  from m show "0 \<le> num_val (xa_durationMs a) \<and> num_val (xa_durationMs a) \<le> num_val (xa_totalDurationMs a)
    \<and> num_val (xa_totalDurationMs a) \<le> num_val (xe_maxDurationMs e)"
    by (rule response_measures_facts) (auto simp: a elim!: bounded_integerE)
qed

end
