(* ===== verification/Extraction_Service.thy ===== *)
theory Extraction_Service
  imports Normalization_Chunks Extraction_Contract
begin

text \<open>
  The extractor service behind the contract: the report its Poppler wrapper prints
  (\<open>services/document-extractor/wrappers/poppler.ts\<close>), the protocol check of that report
  (\<open>src/command-protocol.ts\<close>) and the answer to the request (\<open>src/service.ts\<close>). Files, sockets and
  child processes are outside the model: the wrapper's standard output arrives as the JSON it printed,
  the two clocks and the measured durations are arguments.
\<close>

section \<open>The wrapper's report\<close>

definition chunk_json :: "extracted_chunk \<Rightarrow> json" where
  "chunk_json c =
     JObj [(''sequence'', JNum (xc_sequence c)), (''pageNumber'', JNum (xc_pageNumber c)),
           (''paragraphId'', JStr (xc_paragraphId c)), (''text'', JStr (xc_text c))]"

definition poppler_report :: "string \<Rightarrow> nat \<Rightarrow> normalized_text \<Rightarrow> json" where
  "poppler_report engineVersion pageCount nt =
     JObj [(''schemaVersion'', jint 1),
           (''outcome'', JStr (if nt_chunks nt = [] then ''no_text'' else ''extracted'')),
           (''engine'', JStr ''poppler''), (''engineVersion'', JStr engineVersion),
           (''pageCount'', jint (int pageCount)), (''chunkCount'', jint (int (length (nt_chunks nt)))),
           (''textBytes'', jint (nt_textBytes nt)),
           (''chunks'', JArr (map chunk_json (nt_chunks nt)))]"

section \<open>The protocol check\<close>

record extraction_limits = text_limits +
  tl_maxPageCount :: int

record poppler_extraction =
  pe_outcome :: extraction_verdict
  pe_engineVersion :: string
  pe_pageCount :: jnum
  pe_chunkCount :: jnum
  pe_textBytes :: jnum
  pe_chunks :: "extracted_chunk list"

abbreviation protocol :: runner_failure where
  "protocol \<equiv> Rf_protocol"

text \<open>\<open>[\p{Cc}\p{Cf}\p{Cs}\p{Zl}\p{Zp}]\<close> and the noncharacters\<close>

definition unsafe_point :: "int \<Rightarrow> bool" where
  "unsafe_point p \<longleftrightarrow>
     control_point p \<or> format_point p \<or> (55296 \<le> p \<and> p \<le> 57343) \<or> p = 8232 \<or> p = 8233
     \<or> noncharacter p"

definition wire_text :: "(string \<Rightarrow> string) \<Rightarrow> int \<Rightarrow> string \<Rightarrow> bool" where
  "wire_text nfc maximum s \<longleftrightarrow>
     js_length s \<noteq> 0 \<and> s = js_trim s \<and> s = nfc s \<and> \<not> list_ex unsafe_point (code_points s)
     \<and> \<not> list_ex space_separator (code_points (filter (\<lambda>c. c \<noteq> CHR '' '') s))
     \<and> \<not> double_space s \<and> utf8_bytes s \<le> maximum"

definition validate_chunk ::
    "(string \<Rightarrow> string) \<Rightarrow> extraction_limits \<Rightarrow> int \<Rightarrow> json \<Rightarrow> runner_failure + extracted_chunk" where
  "validate_chunk nfc lim index v =
     and_then (or_throw protocol (record_with chunk_keys (Some v))) (\<lambda>r.
     and_then (throw_unless (field r ''sequence'' = Some (jint index)) protocol) (\<lambda>_.
     and_then (or_throw protocol (integer_within 1 (tl_maxPageCount lim) (field r ''pageNumber'')))
       (\<lambda>page.
     and_then (or_throw protocol (text_where (\<lambda>s. js_length s \<le> 64
         \<and> (case parse_paragraph_id s of None \<Rightarrow> False | Some (p, q) \<Rightarrow> p = num_val page))
       (field r ''paragraphId''))) (\<lambda>pid.
     and_then (or_throw protocol (text_where (wire_text nfc (tl_maxChunkBytes lim)) (field r ''text'')))
       (\<lambda>text.
     Inr \<lparr>xc_sequence = NInt index, xc_pageNumber = page, xc_paragraphId = pid, xc_text = text\<rparr>)))))"

fun validate_chunks ::
    "(string \<Rightarrow> string) \<Rightarrow> extraction_limits \<Rightarrow> int \<Rightarrow> json list \<Rightarrow> runner_failure + extracted_chunk list"
where
  "validate_chunks nfc lim index [] = Inr []"
| "validate_chunks nfc lim index (v # vs) =
     and_then (validate_chunk nfc lim index v) (\<lambda>c.
     and_then (validate_chunks nfc lim (index + 1) vs) (\<lambda>cs. Inr (c # cs)))"

text \<open>The second loop: pages and paragraphs in order, and the measured bytes.\<close>

fun validate_order :: "int \<times> int \<Rightarrow> int \<Rightarrow> extracted_chunk list \<Rightarrow> runner_failure + int" where
  "validate_order prev measured [] = Inr measured"
| "validate_order prev measured (c # cs) =
     (let page = num_val (xc_pageNumber c) in
      if page < fst prev then Inl protocol
      else (case parse_paragraph_id (xc_paragraphId c) of
              None \<Rightarrow> Inl protocol
            | Some (_, ordinal) \<Rightarrow>
                (if \<bar>ordinal\<bar> > max_safe_integer then Inl protocol
                 else if page \<noteq> fst prev \<and> ordinal \<noteq> 1 then Inl protocol
                 else (let before' = (if page \<noteq> fst prev then 0 else snd prev)
                       in if ordinal \<noteq> before' \<and> ordinal \<noteq> before' + 1 then Inl protocol
                          else validate_order (page, ordinal) (measured + utf8_bytes (xc_text c)) cs))))"

definition report_keys :: "fields \<Rightarrow> string list" where
  "report_keys r =
     (if field r ''schemaVersion'' \<noteq> None then [''schemaVersion''] else [])
     @ [''outcome'', ''engine'', ''engineVersion'', ''pageCount'', ''chunkCount'', ''textBytes'', ''chunks'']"

definition validate_extraction_result ::
    "(string \<Rightarrow> string) \<Rightarrow> json \<Rightarrow> extraction_limits \<Rightarrow> runner_failure + poppler_extraction" where
  "validate_extraction_result nfc v lim =
     and_then (or_throw protocol (json_object v)) (\<lambda>r.
     and_then (throw_unless (exact_keys r (report_keys r)) protocol) (\<lambda>_.
     and_then (throw_unless (field r ''schemaVersion'' \<in> {None, Some (jint 1)}) protocol) (\<lambda>_.
     and_then (or_throw protocol (text_where (\<lambda>s. s = ''extracted'' \<or> s = ''no_text'') (field r ''outcome'')))
       (\<lambda>outcome.
     and_then (or_throw protocol (array_at (field r ''chunks''))) (\<lambda>vs.
     and_then (or_throw protocol (integer_within 1 (tl_maxPageCount lim) (field r ''pageCount''))) (\<lambda>pages.
     and_then (or_throw protocol (integer_within 0 (tl_maxChunkCount lim) (field r ''chunkCount'')))
       (\<lambda>count.
     and_then (or_throw protocol (integer_within 0 (tl_maxTextBytes lim) (field r ''textBytes''))) (\<lambda>bytes.
     and_then (or_throw protocol (text_where (wire_identifier 64) (field r ''engine''))) (\<lambda>engine.
     and_then (throw_unless (count = NInt (int (length vs))) protocol) (\<lambda>_.
     and_then (validate_chunks nfc lim 0 vs) (\<lambda>cs.
     and_then (validate_order (0, 0) 0 cs) (\<lambda>measured.
     and_then (throw_unless (NInt measured = bytes \<and> engine = ''poppler''
         \<and> \<not> (outcome = ''no_text'' \<and> (count \<noteq> NInt 0 \<or> bytes \<noteq> NInt 0))
         \<and> \<not> (outcome = ''extracted'' \<and> (num_val count < 1 \<or> num_val bytes < 1))) protocol) (\<lambda>_.
     and_then (or_throw protocol (text_where (wire_identifier 128) (field r ''engineVersion''))) (\<lambda>version.
     Inr \<lparr>pe_outcome = verdict_of_wire outcome, pe_engineVersion = version, pe_pageCount = pages,
          pe_chunkCount = count, pe_textBytes = bytes, pe_chunks = cs\<rparr>))))))))))))))"

section \<open>The answer\<close>

datatype safe_error =
    Not_found | Method_not_allowed | Unauthorized | Invalid_headers | Unsupported_media_type
  | Body_too_large | Body_timeout | Body_incomplete | Content_mismatch | Policy_mismatch
  | Extractor_busy | Extraction_input_unsupported_error | Extraction_resource_limit_error
  | Extraction_unavailable | Not_ready | Internal_error

fun safe_error_status :: "safe_error \<Rightarrow> int" where
  "safe_error_status Not_found = 404"
| "safe_error_status Method_not_allowed = 405"
| "safe_error_status Unauthorized = 401"
| "safe_error_status Invalid_headers = 400"
| "safe_error_status Unsupported_media_type = 415"
| "safe_error_status Body_too_large = 413"
| "safe_error_status Body_timeout = 408"
| "safe_error_status Body_incomplete = 400"
| "safe_error_status Content_mismatch = 422"
| "safe_error_status Policy_mismatch = 409"
| "safe_error_status Extractor_busy = 503"
| "safe_error_status Extraction_input_unsupported_error = 422"
| "safe_error_status Extraction_resource_limit_error = 422"
| "safe_error_status Extraction_unavailable = 503"
| "safe_error_status Not_ready = 503"
| "safe_error_status Internal_error = 500"

fun runner_failure_response :: "runner_failure \<Rightarrow> safe_error" where
  "runner_failure_response Rf_input_unsupported = Extraction_input_unsupported_error"
| "runner_failure_response Rf_output_limit = Extraction_resource_limit_error"
| "runner_failure_response _ = Extraction_unavailable"

record extractor_configuration =
  ec_policyVersion :: string
  ec_toolchainDigest :: string
  ec_limits :: extraction_limits
  ec_extractionTimeoutMs :: int
  ec_maxBodyBytes :: int
  ec_maxResponseBytes :: int

record extraction_request =
  er_expectedSha256 :: string
  er_expectedSizeBytes :: nat
  er_storageVersion :: string

text \<open>What the service measures: the wall clock and the monotonic clock, at both reading points.\<close>

record service_clocks =
  sc_extractedAt :: "millis option"
  sc_extractionMs :: int
  sc_completedAt :: "millis option"
  sc_totalMs :: int

record completed_extraction =
  ce_value :: poppler_extraction
  ce_extractedAt :: millis
  ce_durationMs :: int

definition safe_now :: "millis option \<Rightarrow> runner_failure + millis" where
  "safe_now t = or_throw protocol t"

definition duration :: "int \<Rightarrow> int \<Rightarrow> runner_failure + int" where
  "duration elapsed maximum =
     (let v = max 0 elapsed
      in if v > max_safe_integer \<or> v > maximum then Inl Rf_timeout else Inr v)"

definition extract_with_timing ::
    "(string \<Rightarrow> string) \<Rightarrow> extractor_configuration \<Rightarrow> service_clocks \<Rightarrow> runner_failure + json
      \<Rightarrow> runner_failure + completed_extraction" where
  "extract_with_timing nfc cfg clocks inspected =
     and_then inspected (\<lambda>raw.
     and_then (validate_extraction_result nfc raw (ec_limits cfg)) (\<lambda>v.
     and_then (safe_now (sc_extractedAt clocks)) (\<lambda>extractedAt.
     and_then (duration (sc_extractionMs clocks) (ec_extractionTimeoutMs cfg)) (\<lambda>took.
     Inr \<lparr>ce_value = v, ce_extractedAt = extractedAt, ce_durationMs = took\<rparr>))))"

definition response_json ::
    "extractor_configuration \<Rightarrow> extraction_request \<Rightarrow> completed_extraction \<Rightarrow> millis \<Rightarrow> int \<Rightarrow> json" where
  "response_json cfg req x completedAt totalMs =
     JObj [(''schemaVersion'', jint 1), (''policyVersion'', JStr (ec_policyVersion cfg)),
       (''storageVersion'', JStr (er_storageVersion req)),
       (''toolchainDigest'', JStr (ec_toolchainDigest cfg)),
       (''verdict'', JStr (wire_verdict (pe_outcome (ce_value x)))),
       (''input'', JObj [(''sha256'', JStr (er_expectedSha256 req)),
          (''sizeBytes'', JStr (decimal (er_expectedSizeBytes req)))]),
       (''extraction'', JObj [(''engine'', JStr ''poppler''),
          (''engineVersion'', JStr (pe_engineVersion (ce_value x))),
          (''pageCount'', JNum (pe_pageCount (ce_value x))),
          (''chunkCount'', JNum (pe_chunkCount (ce_value x))),
          (''textBytes'', JNum (pe_textBytes (ce_value x))),
          (''extractedAt'', JStr (iso_format (ce_extractedAt x))),
          (''durationMs'', jint (ce_durationMs x))]),
       (''chunks'', JArr (map chunk_json (pe_chunks (ce_value x)))),
       (''completedAt'', JStr (iso_format completedAt)), (''totalDurationMs'', jint totalMs)]"

definition response_body ::
    "extractor_configuration \<Rightarrow> extraction_request \<Rightarrow> completed_extraction \<Rightarrow> millis \<Rightarrow> int
      \<Rightarrow> runner_failure + json" where
  "response_body cfg req x completedAt totalMs =
     (if ce_extractedAt x > completedAt then Inl protocol
      else Inr (response_json cfg req x completedAt totalMs))"

text \<open>
  The part of the handler after the body is received: what the runner reports becomes the answer or a
  safe error. A failure outside the runner call is answered as an internal error, as the outer
  handler does; \<open>render\<close> is the serialiser whose output length is bounded.
\<close>

definition to_safe :: "(runner_failure \<Rightarrow> safe_error) \<Rightarrow> runner_failure + 'a \<Rightarrow> safe_error + 'a" where
  "to_safe f m = (case m of Inl e \<Rightarrow> Inl (f e) | Inr a \<Rightarrow> Inr a)"

definition answer_extraction ::
    "(string \<Rightarrow> string) \<Rightarrow> (json \<Rightarrow> string) \<Rightarrow> extractor_configuration \<Rightarrow> extraction_request
      \<Rightarrow> service_clocks \<Rightarrow> runner_failure + json \<Rightarrow> safe_error + json" where
  "answer_extraction nfc render cfg req clocks inspected =
     and_then (to_safe runner_failure_response (extract_with_timing nfc cfg clocks inspected)) (\<lambda>x.
     and_then (to_safe (\<lambda>_. Internal_error) (safe_now (sc_completedAt clocks))) (\<lambda>completedAt.
     and_then (to_safe (\<lambda>_. Internal_error)
         (duration (sc_totalMs clocks) (ec_extractionTimeoutMs cfg))) (\<lambda>totalMs.
     and_then (throw_unless (ce_durationMs x \<le> totalMs) Internal_error) (\<lambda>_.
     and_then (to_safe (\<lambda>_. Internal_error) (response_body cfg req x completedAt totalMs)) (\<lambda>body.
     and_then (throw_unless (utf8_bytes (render body) \<le> ec_maxResponseBytes cfg) Internal_error) (\<lambda>_.
     Inr body))))))"

end
