(* ===== verification/Extraction_Compat.thy ===== *)
theory Extraction_Compat
  imports Extraction_Service
begin

text \<open>
  The extractor service and the contract of its client agree: a clean chunk passes the text tests of
  both sides, the report of a normalised document passes the service's protocol check, and the answer
  built from a checked report is accepted by the contract exactly when every chunk lies on a page of
  the document.
\<close>

section \<open>Clean texts pass the byte tests\<close>

definition text_nfc :: "(int list \<Rightarrow> int list) \<Rightarrow> string \<Rightarrow> string" where
  "text_nfc nfc s = utf8_encode (nfc (code_points s))"

lemma clean_scalars: "clean_text nfc ps \<Longrightarrow> list_all scalar ps"
  by (auto simp: clean_text_def safe_point_def list_all_iff)

lemma clean_text_bytes:
  assumes "clean_text nfc ps"
  shows "js_length (utf8_encode ps) \<noteq> 0" "utf8_encode ps = js_trim (utf8_encode ps)"
    "utf8_encode ps = text_nfc nfc (utf8_encode ps)" "code_points (utf8_encode ps) = ps"
    "\<not> list_ex space_separator (code_points (filter (\<lambda>c. c \<noteq> CHR '' '') (utf8_encode ps)))"
    "\<not> double_space (utf8_encode ps)" "utf8_bytes (utf8_encode ps) = text_size ps"
proof -
  note s = clean_scalars [OF assms]
  show "js_length (utf8_encode ps) \<noteq> 0"
    using js_length_encode_pos [OF s] assms by (auto simp: clean_text_def)
  show "utf8_encode ps = js_trim (utf8_encode ps)"
    using js_trim_encode [OF s] assms by (simp add: clean_text_def)
  show "code_points (utf8_encode ps) = ps" by (rule code_points_encode [OF s])
  then show "utf8_encode ps = text_nfc nfc (utf8_encode ps)"
    using assms by (simp add: text_nfc_def clean_text_def)
  have "list_all scalar (filter (\<lambda>p. p \<noteq> 32) ps)" using s by (auto simp: list_all_iff)
  then show "\<not> list_ex space_separator (code_points (filter (\<lambda>c. c \<noteq> CHR '' '') (utf8_encode ps)))"
    using assms by (auto simp: filter_space_encode [OF s] code_points_encode clean_text_def list_all_iff
        list_ex_iff)
  show "\<not> double_space (utf8_encode ps)"
    using assms by (simp add: double_space_encode [OF s] clean_text_def)
  show "utf8_bytes (utf8_encode ps) = text_size ps" by (rule utf8_bytes_encode [OF s])
qed

lemma clean_wire_text:
  assumes "clean_text nfc ps" "text_size ps \<le> maximum"
  shows "wire_text (text_nfc nfc) maximum (utf8_encode ps)"
proof -
  have "\<not> list_ex unsafe_point ps"
    using assms(1) by (auto simp: clean_text_def list_all_iff list_ex_iff safe_point_def unsafe_point_def scalar_def)
  then show ?thesis
    using clean_text_bytes [OF assms(1)] assms(2) by (simp add: wire_text_def)
qed

lemma format_range: "(a, b) \<in> set format_ranges \<Longrightarrow> a \<le> p \<Longrightarrow> p \<le> b \<Longrightarrow> format_point p"
  by (auto simp: format_point_def list_ex_iff)

lemma prohibited_unsafe:
  assumes "prohibited_point p"
  shows "unsafe_point p"
proof -
  have r: "(1564, 1564) \<in> set format_ranges" "(8203, 8207) \<in> set format_ranges"
    "(8234, 8238) \<in> set format_ranges" "(8294, 8303) \<in> set format_ranges"
    "(65279, 65279) \<in> set format_ranges" by (simp_all add: format_ranges_def)
  from assms consider "control_point p" | "p = 1564" | "p = 8206" | "p = 8207" | "8234 \<le> p" "p \<le> 8238"
    | "8294 \<le> p" "p \<le> 8297" | "p = 65279"
    unfolding prohibited_point_def control_point_def by blast
  then have "control_point p \<or> format_point p"
    by cases (use format_range [OF r(1), of p] format_range [OF r(2), of p] format_range [OF r(3), of p]
        format_range [OF r(4), of p] format_range [OF r(5), of p] in simp_all)
  then show ?thesis by (auto simp: unsafe_point_def)
qed

lemma wire_text_canonical:
  "wire_text nfc maximum s \<Longrightarrow> maximum \<le> max_extracted_chunk_bytes \<Longrightarrow> canonical_text nfc s"
  using prohibited_unsafe by (auto simp: wire_text_def canonical_text_def list_ex_iff)

section \<open>Identifiers\<close>

lemma js_length_paragraph_id:
  assumes "page \<le> 4096" "ordinal \<le> 4096"
  shows "js_length (paragraph_id page ordinal) \<le> 64"
proof -
  have "list_all (\<lambda>c. code c < 128) (decimal n)" for n
    using decimal_digits [of n] by (auto simp: list_all_iff digit_ascii)
  then have "list_all (\<lambda>c. code c < 128) (paragraph_id page ordinal)"
    by (simp add: paragraph_id_def code_def)
  moreover have "length (decimal page) \<le> 4" "length (decimal ordinal) \<le> 4"
    using length_decimal [of 4 page] length_decimal [of 4 ordinal] assms by simp_all
  ultimately show ?thesis using js_length_ascii [of "paragraph_id page ordinal"]
    by (simp add: paragraph_id_def)
qed

lemma wire_identifier_iff: "wire_identifier 128 s \<longleftrightarrow> engine_version_pattern s"
proof (cases s)
  case (Cons c cs)
  have "js_length s = int (length s)"
    if "is_alnum c" "list_all (\<lambda>c. is_alnum c \<or> one_of ''._:+-'' c) cs"
    using that wire_char_ascii by (intro js_length_ascii) (auto simp: Cons list_all_iff)
  then show ?thesis by (auto simp: wire_identifier_def engine_version_pattern_def Cons)
qed (simp add: wire_identifier_def engine_version_pattern_def)

lemma wire_identifier_poppler: "wire_identifier 64 ''poppler''"
  by code_simp

section \<open>The report of a normalised document\<close>

lemma chunk_json_fields [simp]:
  "record_with chunk_keys (Some (chunk_json c)) =
     Some [(''sequence'', JNum (xc_sequence c)), (''pageNumber'', JNum (xc_pageNumber c)),
           (''paragraphId'', JStr (xc_paragraphId c)), (''text'', JStr (xc_text c))]"
  by (simp add: chunk_json_def chunk_keys_def exact_keys_def obj_keys_def)

lemma in_order_ordinal:
  "in_order prev xs \<Longrightarrow> (page, ordinal, part) \<in> set xs \<Longrightarrow> ordinal \<le> snd prev + length xs"
proof (induction prev xs rule: in_order.induct)
  case (2 prev p q t xs)
  then show ?case by (auto; fastforce)
qed simp

lemma in_order_positive:
  "in_order prev xs \<Longrightarrow> fst prev = 0 \<or> 1 \<le> snd prev \<Longrightarrow> (page, ordinal, part) \<in> set xs \<Longrightarrow>
     1 \<le> page \<Longrightarrow> \<forall>x \<in> set xs. 1 \<le> fst x \<Longrightarrow> 1 \<le> ordinal"
proof (induction prev xs rule: in_order.induct)
  case (2 prev p q t xs)
  have "1 \<le> q" using 2 by auto
  with 2 show ?case by auto
qed simp

definition placed_ok :: "(int list \<Rightarrow> int list) \<Rightarrow> extraction_limits \<Rightarrow> placed \<Rightarrow> bool" where
  "placed_ok nfc lim x \<longleftrightarrow>
     (case x of (page, ordinal, part) \<Rightarrow>
        1 \<le> page \<and> int page \<le> tl_maxPageCount lim \<and> 1 \<le> ordinal \<and> ordinal \<le> 4096 \<and> page \<le> 4096
        \<and> clean_text nfc part \<and> text_size part \<le> tl_maxChunkBytes lim)"

lemma validate_placed_chunk:
  assumes "placed_ok nfc lim x"
  shows "validate_chunk (text_nfc nfc) lim (int i) (chunk_json (placed_chunk i x)) = Inr (placed_chunk i x)"
proof -
  obtain page ordinal part where x: "x = (page, ordinal, part)" by (cases x)
  have p: "parse_paragraph_id (paragraph_id page ordinal) = Some (int page, int ordinal)"
    using assms by (intro parse_paragraph_id_format) (auto simp: placed_ok_def x)
  show ?thesis
    using assms clean_wire_text js_length_paragraph_id [of page ordinal]
    by (auto simp: validate_chunk_def placed_ok_def x placed_chunk_def p field_def max_safe_integer_def
        or_throw_def)
qed

lemma validate_placed_chunks:
  "list_all (placed_ok nfc lim) xs \<Longrightarrow>
     validate_chunks (text_nfc nfc) lim (int i) (map chunk_json (chunks_from i xs)) = Inr (chunks_from i xs)"
proof (induction xs arbitrary: i)
  case (Cons x xs)
  then show ?case using validate_placed_chunk [of nfc lim x i] Cons.IH [of "Suc i"] by (simp add: add.commute)
qed simp

lemma validate_placed_order:
  "list_all (placed_ok nfc lim) xs \<Longrightarrow> in_order (p, q) xs \<Longrightarrow>
     validate_order (int p, int q) m (chunks_from i xs) = Inr (m + placed_size xs)"
proof (induction xs arbitrary: p q m i)
  case (Cons x xs)
  obtain page ordinal part where x: "x = (page, ordinal, part)" by (cases x)
  have ok: "1 \<le> page" "1 \<le> ordinal" "ordinal \<le> 4096" "clean_text nfc part"
    using Cons.prems(1) by (auto simp: placed_ok_def x)
  have pid: "parse_paragraph_id (paragraph_id page ordinal) = Some (int page, int ordinal)"
    using ok by (intro parse_paragraph_id_format) auto
  have o: "(page = p \<and> (ordinal = q \<or> ordinal = Suc q)) \<or> (p < page \<and> ordinal = 1)"
    and rest: "in_order (page, ordinal) xs" using Cons.prems(2) by (simp_all add: x)
  from Cons.IH [OF _ rest, of "m + text_size part" "Suc i"] Cons.prems(1)
  have "validate_order (int page, int ordinal) (m + text_size part) (chunks_from (Suc i) xs)
      = Inr (m + placed_size (x # xs))" by (simp add: x)
  then show ?case
    using o ok(3) clean_text_bytes(7) [OF ok(4)]
    by (auto simp: x placed_chunk_def pid Let_def max_safe_integer_def add.commute [of 1 "int q"])
qed simp

definition limits_ok :: "extraction_limits \<Rightarrow> bool" where
  "limits_ok lim \<longleftrightarrow>
     1 \<le> tl_maxPageCount lim \<and> tl_maxPageCount lim \<le> max_extracted_page_count
     \<and> 1 \<le> tl_maxTextBytes lim \<and> tl_maxTextBytes lim \<le> max_extracted_text_bytes
     \<and> 1 \<le> tl_maxChunkCount lim \<and> tl_maxChunkCount lim \<le> max_extracted_chunk_count
     \<and> 256 \<le> tl_maxChunkBytes lim \<and> tl_maxChunkBytes lim \<le> max_extracted_chunk_bytes"

lemmas hard_limits =
  max_extracted_page_count_def max_extracted_text_bytes_def max_extracted_chunk_count_def
  max_extracted_chunk_bytes_def

lemma exact_keys_report:
  "exact_keys [(''schemaVersion'', a), (''outcome'', b), (''engine'', c), (''engineVersion'', d),
     (''pageCount'', e), (''chunkCount'', f), (''textBytes'', g), (''chunks'', h)]
     (''schemaVersion'' # [''outcome'', ''engine'', ''engineVersion'', ''pageCount'', ''chunkCount'',
        ''textBytes'', ''chunks''])"
  by (simp add: exact_keys_def obj_keys_def)

lemma placed_size_pos:
  assumes "list_all (placed_ok nfc lim) xs" "xs \<noteq> []"
  shows "1 \<le> placed_size xs"
proof -
  have n: "0 \<le> placed_size ys" for ys
    using text_size_nonneg by (induction ys) auto
  obtain p q t ys where xs: "xs = (p, q, t) # ys" using assms(2) by (cases xs) auto
  then have "t \<noteq> []" using assms(1) by (simp add: placed_ok_def clean_text_def)
  then show ?thesis using text_size_pos [of t] n [of ys] by (simp add: xs)
qed

lemma normalized_placed_ok:
  assumes laws: "nfc_laws nfc" and lim: "limits_ok lim" and n: "1 \<le> n" "int n \<le> tl_maxPageCount lim"
    and ok: "normalize_poppler_text nfc bytes n (text_limits.truncate lim) = Inr nt"
  obtains raw xs where "utf8_decode bytes = Some raw" "nt_chunks nt = chunks_from 0 xs"
    "nt_textBytes nt = placed_size xs" "in_order (0, 0) xs" "list_all (placed_ok nfc lim) xs"
    "\<forall>(page, ordinal, part) \<in> set xs. page \<le> n"
    "int (length xs) \<le> tl_maxChunkCount lim" "placed_size xs \<le> tl_maxTextBytes lim"
    "concat (map (\<lambda>(p, q, part). visible part) xs)
      = concat (map (\<lambda>page. visible (normalized_page nfc page)) (document_pages raw n))"
proof -
  let ?l = "text_limits.truncate lim"
  have tr: "tl_maxChunkBytes ?l = tl_maxChunkBytes lim" "tl_maxChunkCount ?l = tl_maxChunkCount lim"
    "tl_maxTextBytes ?l = tl_maxTextBytes lim" by (simp_all add: text_limits.defs)
  have z: "0 \<le> tl_maxChunkBytes ?l" "0 \<le> tl_maxChunkCount ?l" "0 \<le> tl_maxTextBytes ?l"
    using lim by (simp_all add: limits_ok_def tr)
  from normalized_chunks [OF laws z ok] obtain raw xs where
    raw: "utf8_decode bytes = Some raw" and h: "holds ?l nt xs" and g: "list_all (good_place nfc ?l n) xs"
    and v: "concat (map (\<lambda>(p, q, part). visible part) xs)
      = concat (map (\<lambda>page. visible (normalized_page nfc page)) (document_pages raw n))" .
  have io: "in_order (0, 0) xs" and len: "int (length xs) \<le> tl_maxChunkCount lim"
    using h by (simp_all add: holds_def tr)
  have len': "length xs \<le> 4096" using len lim by (simp add: limits_ok_def hard_limits)
  have n': "n \<le> 2000" using n lim by (simp add: limits_ok_def hard_limits)
  have "placed_ok nfc lim x" if x: "x \<in> set xs" for x
  proof -
    obtain page ordinal part where e: "x = (page, ordinal, part)" by (cases x)
    have gx: "1 \<le> page" "page \<le> n" "clean_text nfc part" "text_size part \<le> tl_maxChunkBytes lim"
      using g x by (auto simp: list_all_iff good_place_def tr e)
    have "ordinal \<le> 4096" using in_order_ordinal [OF io x [unfolded e]] len' by simp
    moreover have "\<forall>x \<in> set xs. 1 \<le> fst x" using g by (auto simp: list_all_iff good_place_def)
    then have "1 \<le> ordinal" using in_order_positive [OF io _ x [unfolded e] gx(1)] by simp
    ultimately show ?thesis using gx n n' by (simp add: placed_ok_def e)
  qed
  moreover have "\<forall>(page, ordinal, part) \<in> set xs. page \<le> n"
    using g by (auto simp: list_all_iff good_place_def)
  ultimately show thesis
    using h io len v by (intro that [OF raw]) (auto simp: holds_def tr list_all_iff)
qed

lemma report_validates:
  assumes lim: "limits_ok lim" and n: "1 \<le> n" "int n \<le> tl_maxPageCount lim"
    and engine: "engine_version_pattern version"
    and nt: "nt_chunks nt = chunks_from 0 xs" "nt_textBytes nt = placed_size xs"
    and xs: "in_order (0, 0) xs" "list_all (placed_ok nfc lim) xs"
      "int (length xs) \<le> tl_maxChunkCount lim" "placed_size xs \<le> tl_maxTextBytes lim"
  shows "validate_extraction_result (text_nfc nfc) (poppler_report version n nt) lim =
    Inr \<lparr>pe_outcome = (if nt_chunks nt = [] then NO_TEXT else EXTRACTED), pe_engineVersion = version,
      pe_pageCount = NInt (int n), pe_chunkCount = NInt (int (length (nt_chunks nt))),
      pe_textBytes = NInt (nt_textBytes nt), pe_chunks = nt_chunks nt\<rparr>"
proof -
  have b: "bounded_integer 1 (tl_maxPageCount lim) (NInt (int n))"
    "bounded_integer 0 (tl_maxChunkCount lim) (NInt (int (length xs)))"
    using lim n xs(3) by (simp_all add: limits_ok_def hard_limits max_safe_integer_def)
  have nonneg: "0 \<le> placed_size ys" for ys using text_size_nonneg by (induction ys) auto
  then have b': "bounded_integer 0 (tl_maxTextBytes lim) (NInt (placed_size xs))"
    using lim xs(4) nonneg [of xs] by (simp add: limits_ok_def hard_limits max_safe_integer_def)
  have pos: "1 \<le> placed_size xs" if "xs \<noteq> []" using placed_size_pos [OF xs(2) that] .
  have cs: "validate_chunks (text_nfc nfc) lim 0 (map chunk_json (chunks_from 0 xs)) = Inr (chunks_from 0 xs)"
    using validate_placed_chunks [OF xs(2), of 0] by simp
  have od: "validate_order (0, 0) 0 (chunks_from 0 xs) = Inr (placed_size xs)"
    using validate_placed_order [OF xs(2), of 0 0 0 0] xs(1) by simp
  have e: "wire_identifier 128 version" using engine by (simp add: wire_identifier_iff)
  have empty: "chunks_from 0 xs = [] \<longleftrightarrow> xs = []" by (cases xs) auto
  show ?thesis
    using b b' cs od e pos
    by (cases "xs = []")
      (simp_all add: validate_extraction_result_def poppler_report_def report_keys_def field_def
        exact_keys_report nt empty wire_identifier_poppler verdict_of_wire_def or_throw_def
        del: bounded_integer.simps)
qed

text \<open>Every chunk lies on a page of the document.\<close>

definition on_pages :: "poppler_extraction \<Rightarrow> bool" where
  "on_pages v \<longleftrightarrow> list_all (\<lambda>c. num_val (xc_pageNumber c) \<le> num_val (pe_pageCount v)) (pe_chunks v)"

lemma report_checked:
  assumes "nfc_laws nfc" "limits_ok lim" "1 \<le> n" "int n \<le> tl_maxPageCount lim"
    and "normalize_poppler_text nfc bytes n (text_limits.truncate lim) = Inr nt"
    and "engine_version_pattern version"
  shows "\<exists>x. validate_extraction_result (text_nfc nfc) (poppler_report version n nt) lim = Inr x
    \<and> pe_chunks x = nt_chunks nt \<and> pe_textBytes x = NInt (nt_textBytes nt)
    \<and> pe_pageCount x = NInt (int n) \<and> pe_engineVersion x = version \<and> on_pages x"
proof -
  from assms(1-5) obtain raw xs where nt: "nt_chunks nt = chunks_from 0 xs" "nt_textBytes nt = placed_size xs"
    and xs: "in_order (0, 0) xs" "list_all (placed_ok nfc lim) xs"
    and pages: "\<forall>(page, ordinal, part) \<in> set xs. page \<le> n"
    and sizes: "int (length xs) \<le> tl_maxChunkCount lim" "placed_size xs \<le> tl_maxTextBytes lim"
    by (rule normalized_placed_ok)
  have "list_all (\<lambda>c. num_val (xc_pageNumber c) \<le> int n) (chunks_from i xs)" for i
    using pages by (induction xs arbitrary: i) (auto simp: placed_chunk_def)
  with report_validates [OF assms(2-4,6) nt xs sizes] nt show ?thesis by (simp add: on_pages_def)
qed

end
