(* ===== verification/Extraction_Agreement.thy ===== *)
theory Extraction_Agreement
  imports Extraction_Compat
begin

text \<open>
  The answer of the extractor service under the contract of its client: for a request and expectations
  that match, the contract returns exactly the attestation of the checked report, unless a chunk lies
  beyond the reported page count, which the service does not check and the contract refuses.
\<close>

section \<open>A checked report\<close>

lemma validated_chunk:
  assumes "validate_chunk nfc lim i v = Inr c"
  shows "xc_sequence c = NInt i" "bounded_integer 1 (tl_maxPageCount lim) (xc_pageNumber c)"
    "\<exists>q. parse_paragraph_id (xc_paragraphId c) = Some (num_val (xc_pageNumber c), q)"
    "wire_text nfc (tl_maxChunkBytes lim) (xc_text c)"
  using assms
  by (auto simp: validate_chunk_def and_then_Inr_iff reader_iffs split: option.splits)

lemma validate_order_mono: "validate_order prev m cs = Inr measured \<Longrightarrow> m \<le> measured"
proof (induction prev m cs rule: validate_order.induct)
  case (2 prev m c cs)
  have "0 \<le> utf8_bytes (xc_text c)" by (simp add: utf8_bytes_def)
  with 2 show ?case by (fastforce simp: Let_def split: if_splits option.splits prod.splits)
qed simp

lemma validated_chunks_accepted:
  assumes lim: "limits_ok lim"
  shows "validate_chunks nfc lim i vs = Inr cs \<Longrightarrow> validate_order prev m cs = Inr measured \<Longrightarrow>
    measured \<le> max_extracted_text_bytes \<Longrightarrow> 0 \<le> i \<Longrightarrow> i + int (length cs) \<le> max_extracted_chunk_count \<Longrightarrow>
    response_chunks nfc pageCount (map chunk_json cs) i prev m =
      (if list_all (\<lambda>c. num_val (xc_pageNumber c) \<le> pageCount) cs then Inr (cs, measured)
       else Inl extraction_invalid)"
proof (induction vs arbitrary: i prev m cs)
  case (Cons v vs)
  from Cons.prems(1) obtain c cs' where c: "validate_chunk nfc lim i v = Inr c"
    and cs': "validate_chunks nfc lim (i + 1) vs = Inr cs'" and cs: "cs = c # cs'"
    by (auto simp: and_then_Inr_iff)
  note vc = validated_chunk [OF c]
  from vc(2) obtain page where page: "xc_pageNumber c = NInt page" "1 \<le> page" "\<bar>page\<bar> \<le> max_safe_integer"
    by (rule bounded_integerE) simp
  from vc(3) obtain q where q: "parse_paragraph_id (xc_paragraphId c) = Some (page, q)"
    using page by auto
  from Cons.prems(2) have o: "fst prev \<le> page" "\<bar>q\<bar> \<le> max_safe_integer" "page \<noteq> fst prev \<longrightarrow> q = 1"
    "page = fst prev \<longrightarrow> q = snd prev \<or> q = snd prev + 1"
    and rest: "validate_order (page, q) (m + utf8_bytes (xc_text c)) cs' = Inr measured"
    by (auto simp: cs q page Let_def split: if_splits)
  have small: "m + utf8_bytes (xc_text c) \<le> max_extracted_text_bytes"
    using validate_order_mono [OF rest] Cons.prems(3) by simp
  have tx: "canonical_text nfc (xc_text c)"
    using vc(4) lim by (auto simp: limits_ok_def intro: wire_text_canonical)
  have i: "0 \<le> i" "i \<le> max_safe_integer" "i < max_extracted_chunk_count"
    using Cons.prems(4,5) by (simp_all add: cs hard_limits max_safe_integer_def)
  show ?case
  proof (cases "page \<le> pageCount")
    case True
    have "chunk_position pageCount prev (NInt page) (xc_paragraphId c) = Some (page, q)"
      using True o page by (simp add: chunk_position_def q paragraph_follows_def)
    then have "response_chunk nfc pageCount i prev (chunk_json c) = Inr (c, page, q)"
      using True o page vc(1) tx i
      by (simp add: response_chunk_def field_def or_throw_def)
    then show ?thesis
      using Cons.IH [OF cs' rest Cons.prems(3)] Cons.prems(4,5) small True
      by (simp add: cs page)
  next
    case False
    then have "response_chunk nfc pageCount i prev (chunk_json c) = Inl extraction_invalid"
      using page vc(1) i by (simp add: response_chunk_def field_def or_throw_def)
    then show ?thesis using False by (simp add: cs page)
  qed
qed simp

lemma validate_chunks_length: "validate_chunks nfc lim i vs = Inr cs \<Longrightarrow> length cs = length vs"
  by (induction vs arbitrary: i cs) (auto simp: and_then_Inr_iff)

lemma validated_extraction:
  assumes "validate_extraction_result nfc v lim = Inr x"
  obtains vs measured where
    "bounded_integer 1 (tl_maxPageCount lim) (pe_pageCount x)"
    "bounded_integer 0 (tl_maxTextBytes lim) (pe_textBytes x)"
    "bounded_integer 0 (tl_maxChunkCount lim) (pe_chunkCount x)"
    "pe_chunkCount x = NInt (int (length (pe_chunks x)))"
    "validate_chunks nfc lim 0 vs = Inr (pe_chunks x)"
    "validate_order (0, 0) 0 (pe_chunks x) = Inr measured" "pe_textBytes x = NInt measured"
    "engine_version_pattern (pe_engineVersion x)"
    "if pe_outcome x = EXTRACTED then pe_chunkCount x \<noteq> NInt 0 \<and> pe_textBytes x \<noteq> NInt 0
     else pe_chunkCount x = NInt 0 \<and> pe_textBytes x = NInt 0 \<and> pe_chunks x = []"
proof -
  from assms obtain outcome vs pages bytes cs measured version where
    outcome: "outcome = ''extracted'' \<or> outcome = ''no_text''" and
    pages: "bounded_integer 1 (tl_maxPageCount lim) pages" and
    count: "bounded_integer 0 (tl_maxChunkCount lim) (NInt (int (length vs)))" and
    bytes: "bounded_integer 0 (tl_maxTextBytes lim) bytes" "NInt measured = bytes" and
    cs: "validate_chunks nfc lim 0 vs = Inr cs" and od: "validate_order (0, 0) 0 cs = Inr measured" and
    no_text: "\<not> (outcome = ''no_text'' \<and> (NInt (int (length vs)) \<noteq> NInt 0 \<or> bytes \<noteq> NInt 0))" and
    some_text: "\<not> (outcome = ''extracted''
      \<and> (num_val (NInt (int (length vs))) < 1 \<or> num_val bytes < 1))" and
    version: "wire_identifier 128 version" and
    x: "\<lparr>pe_outcome = verdict_of_wire outcome, pe_engineVersion = version, pe_pageCount = pages,
          pe_chunkCount = NInt (int (length vs)), pe_textBytes = bytes, pe_chunks = cs\<rparr> = x"
    unfolding validate_extraction_result_def
    by (elim and_then_InrE) (simp only: or_throw_Inr_iff throw_unless_Inr_iff integer_within_Some_iff
        text_where_Some_iff sum.inject, elim conjE, assumption)
  have len: "length cs = length vs" using validate_chunks_length [OF cs] .
  have "if verdict_of_wire outcome = EXTRACTED then length vs \<noteq> 0 \<and> bytes \<noteq> NInt 0
     else length vs = 0 \<and> bytes = NInt 0 \<and> cs = []"
    using outcome no_text some_text len by (auto simp: verdict_of_wire_def)
  then show thesis
    using pages count bytes cs od version len
    by (intro that [of vs measured]) (auto simp: x [symmetric] wire_identifier_iff)
qed

section \<open>The answer\<close>

definition request_matches ::
    "extractor_configuration \<Rightarrow> extraction_request \<Rightarrow> extraction_expectations \<Rightarrow> bool" where
  "request_matches cfg req e \<longleftrightarrow>
     xe_inputSha256 e = er_expectedSha256 req
     \<and> xe_inputSizeBytes e = int (er_expectedSizeBytes req)
     \<and> xe_storageVersion e = er_storageVersion req \<and> xe_policyVersion e = ec_policyVersion cfg
     \<and> xe_toolchainDigest e = ec_toolchainDigest cfg"

definition answered_attestation ::
    "extraction_expectations \<Rightarrow> completed_extraction \<Rightarrow> millis \<Rightarrow> int \<Rightarrow> extraction_attestation" where
  "answered_attestation e x completedAt totalMs =
     \<lparr>xa_inputSha256 = xe_inputSha256 e, xa_inputSizeBytes = xe_inputSizeBytes e,
      xa_storageVersion = xe_storageVersion e, xa_policyVersion = xe_policyVersion e,
      xa_toolchainDigest = xe_toolchainDigest e, xa_verdict = pe_outcome (ce_value x),
      xa_engine = ''poppler'', xa_engineVersion = pe_engineVersion (ce_value x),
      xa_pageCount = pe_pageCount (ce_value x), xa_chunkCount = pe_chunkCount (ce_value x),
      xa_textBytes = pe_textBytes (ce_value x), xa_extractedAt = Some (ce_extractedAt x),
      xa_completedAt = Some completedAt, xa_durationMs = NInt (ce_durationMs x),
      xa_totalDurationMs = NInt totalMs, xa_chunks = pe_chunks (ce_value x)\<rparr>"

lemma response_json_record:
  "record_with response_keys (Some (response_json cfg req x completedAt totalMs)) =
     json_object (response_json cfg req x completedAt totalMs)"
  by (simp add: response_json_def response_keys_def exact_keys_def obj_keys_def)

lemma to_safe_Inr_iff [simp]: "to_safe f m = Inr a \<longleftrightarrow> m = Inr a"
  by (auto simp: to_safe_def split: sum.splits)

lemma answer_facts:
  assumes "answer_extraction nfc render cfg req clocks inspected = Inr body"
  obtains x completedAt totalMs where
    "extract_with_timing nfc cfg clocks inspected = Inr x" "sc_completedAt clocks = Some completedAt"
    "totalMs = max 0 (sc_totalMs clocks)" "totalMs \<le> max_safe_integer" "ce_durationMs x \<le> totalMs"
    "ce_extractedAt x \<le> completedAt" "body = response_json cfg req x completedAt totalMs"
proof -
  from assms obtain x completedAt where
    "extract_with_timing nfc cfg clocks inspected = Inr x" "sc_completedAt clocks = Some completedAt"
    "max 0 (sc_totalMs clocks) \<le> max_safe_integer" "ce_durationMs x \<le> max 0 (sc_totalMs clocks)"
    "ce_extractedAt x \<le> completedAt"
    "body = response_json cfg req x completedAt (max 0 (sc_totalMs clocks))"
    by (auto simp: answer_extraction_def and_then_Inr_iff safe_now_def duration_def Let_def
        response_body_def not_less split: if_splits)
  then show thesis by (intro that [OF _ _ refl])
qed

lemma extract_with_timing_facts:
  assumes "extract_with_timing nfc cfg clocks inspected = Inr x"
  shows "\<exists>raw. inspected = Inr raw \<and> validate_extraction_result nfc raw (ec_limits cfg) = Inr (ce_value x)"
    and "sc_extractedAt clocks = Some (ce_extractedAt x)" and "0 \<le> ce_durationMs x"
  using assms
  by (auto simp: extract_with_timing_def and_then_Inr_iff safe_now_def duration_def Let_def
      split: if_splits)

lemma answer_bindings:
  assumes "request_matches cfg req e" "extraction_expectations_ok e"
    and "json_object (response_json cfg req x completedAt totalMs) = Some r"
  shows "response_bindings e r = Inr (pe_outcome (ce_value x))"
proof -
  have v: "wire_verdict o' = ''extracted'' \<or> wire_verdict o' = ''no_text''" "verdict_of_wire (wire_verdict o') = o'"
    for o' by (cases o'; simp add: verdict_of_wire_def)+
  have k: "exact_keys [(''sha256'', a), (''sizeBytes'', b)] [''sha256'', ''sizeBytes'']" for a b
    by (simp add: exact_keys_def obj_keys_def)
  show ?thesis
    using assms
    by (auto simp: response_json_def response_bindings_def field_def request_matches_def
        extraction_expectations_ok_def or_throw_def k canonical_decimal_decimal digits_val_decimal v)
qed

lemma answer_measures:
  assumes "extraction_expectations_ok e" "limits_ok (ec_limits cfg)"
    and v: "validate_extraction_result nfc raw (ec_limits cfg) = Inr (ce_value x)"
    and "xe_expectedEngineVersion e = pe_engineVersion (ce_value x)"
    and "four_digit_year (ce_extractedAt x)" "four_digit_year completedAt" "ce_extractedAt x \<le> completedAt"
    and "0 \<le> ce_durationMs x" "ce_durationMs x \<le> totalMs" "totalMs \<le> num_val (xe_maxDurationMs e)"
      "totalMs \<le> max_safe_integer"
    and "json_object (response_json cfg req x completedAt totalMs) = Some r"
  shows "response_measures e r (pe_outcome (ce_value x))
    = Inr (answered_attestation e x completedAt totalMs\<lparr>xa_chunks := []\<rparr>)"
proof -
  have k: "exact_keys [(''engine'', a), (''engineVersion'', b), (''pageCount'', c), (''chunkCount'', d),
     (''textBytes'', f), (''extractedAt'', g), (''durationMs'', h)] extraction_keys" for a b c d f g h
    by (simp add: exact_keys_def obj_keys_def extraction_keys_def)
  from v obtain vs measured where
    b: "bounded_integer 1 (tl_maxPageCount (ec_limits cfg)) (pe_pageCount (ce_value x))"
      "bounded_integer 0 (tl_maxTextBytes (ec_limits cfg)) (pe_textBytes (ce_value x))"
      "bounded_integer 0 (tl_maxChunkCount (ec_limits cfg)) (pe_chunkCount (ce_value x))"
      "engine_version_pattern (pe_engineVersion (ce_value x))" by (rule validated_extraction)
  have c: "bounded_integer 1 max_extracted_page_count (pe_pageCount (ce_value x))"
    "bounded_integer 0 max_extracted_text_bytes (pe_textBytes (ce_value x))"
    "bounded_integer 0 max_extracted_chunk_count (pe_chunkCount (ce_value x))"
    using b assms(2) by (auto simp: limits_ok_def intro: bounded_integer_mono)
  show ?thesis
    using assms b(4) c engine_version_safe [OF b(4)]
    by (auto simp: response_json_def response_measures_def field_def or_throw_def k
        iso_round_trip answered_attestation_def)
qed

text \<open>The contract on the answer of a matching request, with both outcomes.\<close>

definition fresh_for :: "extraction_expectations \<Rightarrow> completed_extraction \<Rightarrow> millis \<Rightarrow> bool" where
  "fresh_for e x completedAt \<longleftrightarrow>
     (case xe_now e of None \<Rightarrow> False
      | Some now \<Rightarrow> completedAt \<le> now + num_val (xe_futureClockSkewMs e)
          \<and> now - completedAt \<le> num_val (xe_resultMaxAgeMs e))
     \<and> four_digit_year (ce_extractedAt x) \<and> four_digit_year completedAt"

lemma answer_under_contract:
  assumes ok: "answer_extraction nfc render cfg req clocks inspected = Inr body"
    and x: "extract_with_timing nfc cfg clocks inspected = Inr x"
    and completed: "sc_completedAt clocks = Some completedAt"
    and lim: "limits_ok (ec_limits cfg)" and match: "request_matches cfg req e"
    and exp: "extraction_expectations_ok e"
    and engine: "xe_expectedEngineVersion e = pe_engineVersion (ce_value x)"
    and fresh: "fresh_for e x completedAt"
    and quick: "max 0 (sc_totalMs clocks) \<le> num_val (xe_maxDurationMs e)"
  shows "parse_extraction_response nfc body e =
    (if on_pages (ce_value x)
     then Inr (answered_attestation e x completedAt (max 0 (sc_totalMs clocks)))
     else Inl extraction_invalid)"
proof -
  from ok x completed have total: "max 0 (sc_totalMs clocks) \<le> max_safe_integer"
    "ce_durationMs x \<le> max 0 (sc_totalMs clocks)" "ce_extractedAt x \<le> completedAt"
    and body: "body = response_json cfg req x completedAt (max 0 (sc_totalMs clocks))"
    by (auto elim!: answer_facts)
  let ?totalMs = "max 0 (sc_totalMs clocks)"
  from extract_with_timing_facts [OF x] obtain raw where
    v: "validate_extraction_result nfc raw (ec_limits cfg) = Inr (ce_value x)" and d: "0 \<le> ce_durationMs x"
    by blast
  obtain r where r: "json_object body = Some r" by (simp add: body response_json_def)
  then have chunks: "field r ''chunks'' = Some (JArr (map chunk_json (pe_chunks (ce_value x))))"
    by (auto simp: body response_json_def field_def)
  have rec: "record_with response_keys (Some body) = Some r"
    using r response_json_record [of cfg req x completedAt ?totalMs] by (simp add: body)
  have b: "response_bindings e r = Inr (pe_outcome (ce_value x))"
    using r by (intro answer_bindings [OF match exp]) (simp add: body)
  have yr: "four_digit_year (ce_extractedAt x)" "four_digit_year completedAt"
    using fresh by (simp_all add: fresh_for_def)
  have m: "response_measures e r (pe_outcome (ce_value x))
      = Inr (answered_attestation e x completedAt ?totalMs\<lparr>xa_chunks := []\<rparr>)"
    using r by (intro answer_measures [OF exp lim v engine yr total(3) d total(2) quick total(1)])
      (simp add: body)
  from v obtain vs measured where
    count: "bounded_integer 0 (tl_maxChunkCount (ec_limits cfg)) (pe_chunkCount (ce_value x))"
      "pe_chunkCount (ce_value x) = NInt (int (length (pe_chunks (ce_value x))))" and
    bytes: "bounded_integer 0 (tl_maxTextBytes (ec_limits cfg)) (pe_textBytes (ce_value x))"
      "pe_textBytes (ce_value x) = NInt measured" and
    cs: "validate_chunks nfc (ec_limits cfg) 0 vs = Inr (pe_chunks (ce_value x))" and
    od: "validate_order (0, 0) 0 (pe_chunks (ce_value x)) = Inr measured" and
    verdict: "if pe_outcome (ce_value x) = EXTRACTED
      then pe_chunkCount (ce_value x) \<noteq> NInt 0 \<and> pe_textBytes (ce_value x) \<noteq> NInt 0
      else pe_chunkCount (ce_value x) = NInt 0 \<and> pe_textBytes (ce_value x) = NInt 0
        \<and> pe_chunks (ce_value x) = []"
    by (rule validated_extraction)
  have "measured \<le> max_extracted_text_bytes" using bytes lim by (simp add: limits_ok_def)
  moreover have "0 + int (length (pe_chunks (ce_value x))) \<le> max_extracted_chunk_count"
    using count lim by (simp add: limits_ok_def)
  ultimately have rc: "response_chunks nfc (num_val (pe_pageCount (ce_value x)))
      (map chunk_json (pe_chunks (ce_value x))) 0 (0, 0) 0 =
      (if on_pages (ce_value x) then Inr (pe_chunks (ce_value x), measured) else Inl extraction_invalid)"
    unfolding on_pages_def by (intro validated_chunks_accepted [OF lim cs od]) simp_all
  have t: "response_text nfc r (answered_attestation e x completedAt ?totalMs\<lparr>xa_chunks := []\<rparr>) =
      (if on_pages (ce_value x) then Inr (answered_attestation e x completedAt ?totalMs)
       else Inl extraction_invalid)"
    using rc count(2) bytes(2) verdict
    by (auto simp: response_text_def chunks or_throw_def answered_attestation_def split: if_splits)
  have f: "response_freshness e (answered_attestation e x completedAt ?totalMs) = Inr ()"
    using fresh total(3)
    by (auto simp: response_freshness_def fresh_for_def answered_attestation_def Let_def split: option.splits)
  show ?thesis
    using exp rec b m t f by (simp add: parse_extraction_response_def or_throw_def)
qed

end
