(* ===== verification/Service_Properties.thy ===== *)
theory Service_Properties
  imports Extraction_Agreement
begin

text \<open>
  The properties of the extractor service and of its contract, with a concrete document: two pages of
  raw \<open>pdftotext\<close> output, normalised, reported, answered and accepted. In the run NFC is the identity.
\<close>

section \<open>A document\<close>

definition newline :: string where "newline = [byte 10]"
definition form_feed :: string where "form_feed = [byte 12]"

definition sample_digest :: string where
  "sample_digest = replicate 64 (CHR ''a'')"

definition sample_raw :: string where
  "sample_raw = '' A  title'' @ newline @ ''of it'' @ newline @ newline @ ''Next'' @ form_feed
     @ ''Page two'' @ newline @ form_feed"

definition sample_limits :: extraction_limits where
  "sample_limits = \<lparr>tl_maxTextBytes = 1000, tl_maxChunkCount = 20, tl_maxChunkBytes = 256,
     tl_maxPageCount = 100\<rparr>"

definition sample_normalized :: normalized_text where
  "sample_normalized = \<lparr>nt_chunks =
     [\<lparr>xc_sequence = NInt 0, xc_pageNumber = NInt 1, xc_paragraphId = ''p1-p1'', xc_text = ''A title of it''\<rparr>,
      \<lparr>xc_sequence = NInt 1, xc_pageNumber = NInt 1, xc_paragraphId = ''p1-p2'', xc_text = ''Next''\<rparr>,
      \<lparr>xc_sequence = NInt 2, xc_pageNumber = NInt 2, xc_paragraphId = ''p2-p1'', xc_text = ''Page two''\<rparr>],
     nt_textBytes = 25\<rparr>"

definition sample_configuration :: extractor_configuration where
  "sample_configuration = \<lparr>ec_policyVersion = ''paperpilot-text-extraction-v1'',
     ec_toolchainDigest = sample_digest, ec_limits = sample_limits, ec_extractionTimeoutMs = 45000,
     ec_maxBodyBytes = 1000000, ec_maxResponseBytes = 65536\<rparr>"

definition sample_request :: extraction_request where
  "sample_request = \<lparr>er_expectedSha256 = sample_digest, er_expectedSizeBytes = 1234,
     er_storageVersion = ''local-quarantine-v2''\<rparr>"

definition sample_clocks :: service_clocks where
  "sample_clocks = \<lparr>sc_extractedAt = Some 1000, sc_extractionMs = 50, sc_completedAt = Some 1100,
     sc_totalMs = 60\<rparr>"

definition sample_expectations :: extraction_expectations where
  "sample_expectations = \<lparr>xe_inputSha256 = sample_digest, xe_inputSizeBytes = 1234,
     xe_storageVersion = ''local-quarantine-v2'', xe_policyVersion = ''paperpilot-text-extraction-v1'',
     xe_toolchainDigest = sample_digest, xe_expectedEngineVersion = ''24.02.0'', xe_now = Some 1200,
     xe_maxDurationMs = NInt 75000, xe_resultMaxAgeMs = NInt 900000, xe_futureClockSkewMs = NInt 300000\<rparr>"

definition sample_report :: json where
  "sample_report = poppler_report ''24.02.0'' 2 sample_normalized"

definition sample_extraction :: completed_extraction where
  "sample_extraction =
     \<lparr>ce_value = \<lparr>pe_outcome = EXTRACTED, pe_engineVersion = ''24.02.0'', pe_pageCount = NInt 2,
        pe_chunkCount = NInt 3, pe_textBytes = NInt 25, pe_chunks = nt_chunks sample_normalized\<rparr>,
      ce_extractedAt = 1000, ce_durationMs = 50\<rparr>"

definition sample_body :: json where
  "sample_body = response_json sample_configuration sample_request sample_extraction 1100 60"

lemma sample_normalizes:
  "normalize_poppler_text id sample_raw 2 (text_limits.truncate sample_limits) = Inr sample_normalized"
  by code_simp

lemma sample_checked: "validate_extraction_result (text_nfc id) sample_report sample_limits = Inr (ce_value sample_extraction)"
  by code_simp

lemma sample_answered:
  "answer_extraction (text_nfc id) (\<lambda>v. []) sample_configuration sample_request sample_clocks
     (Inr sample_report) = Inr sample_body"
  by code_simp

lemma sample_timed:
  "extract_with_timing (text_nfc id) sample_configuration sample_clocks (Inr sample_report) = Inr sample_extraction"
  by code_simp

section \<open>Properties\<close>

text \<open>
  C26. Nothing a reader sees is lost: the chunks that \<open>normalizePopplerText\<close> produces carry, in order,
  exactly the visible code points of the document's pages in Normalization Form C. Trimming, the
  squeezing of spaces, the joining of lines, the paragraph breaks and the splitting at the byte limit
  move and drop white space only.
\<close>

theorem normalization_keeps_text:
  assumes "nfc_laws nfc" "limits_ok lim" "1 \<le> n" "int n \<le> tl_maxPageCount lim"
    and "normalize_poppler_text nfc bytes n (text_limits.truncate lim) = Inr nt"
  shows "\<exists>raw. utf8_decode bytes = Some raw
    \<and> concat (map (\<lambda>c. visible (code_points (xc_text c))) (nt_chunks nt))
      = concat (map (\<lambda>page. visible (normalized_page nfc page)) (document_pages raw n))"
proof -
  from assms obtain raw xs where raw: "utf8_decode bytes = Some raw"
    and nt: "nt_chunks nt = chunks_from 0 xs" and xs: "list_all (placed_ok nfc lim) xs"
    and v: "concat (map (\<lambda>(p, q, part). visible part) xs)
      = concat (map (\<lambda>page. visible (normalized_page nfc page)) (document_pages raw n))"
    by (rule normalized_placed_ok)
  have "concat (map (\<lambda>c. visible (code_points (xc_text c))) (chunks_from i xs))
      = concat (map (\<lambda>(p, q, part). visible part) xs)" for i
    using xs by (induction xs arbitrary: i)
      (auto simp: placed_ok_def placed_chunk_def code_points_encode clean_scalars)
  with raw nt v show ?thesis by simp
qed

theorem normalization_keeps_text_witness:
  "concat (map (\<lambda>c. visible (code_points (xc_text c))) (nt_chunks sample_normalized))
     = visible (map (\<lambda>c. int (code c)) ''AtitleofitNextPagetwo'')"
proof -
  have "limits_ok sample_limits" by code_simp
  moreover have "int 2 \<le> tl_maxPageCount sample_limits" by (simp add: sample_limits_def)
  ultimately obtain raw where "utf8_decode sample_raw = Some raw"
    "concat (map (\<lambda>c. visible (code_points (xc_text c))) (nt_chunks sample_normalized))
      = concat (map (\<lambda>page. visible (normalized_page id page)) (document_pages raw 2))"
    using normalization_keeps_text [OF nfc_laws_id _ _ _ sample_normalizes] by auto
  moreover have "map_option (\<lambda>raw. concat (map (\<lambda>page. visible (normalized_page id page)) (document_pages raw 2)))
      (utf8_decode sample_raw) = Some (visible (map (\<lambda>c. int (code c)) ''AtitleofitNextPagetwo''))"
    by code_simp
  ultimately show ?thesis by simp
qed

text \<open>
  The wrapper and the service agree: the report the Poppler wrapper prints for a normalised
  document passes \<open>validateExtractionResult\<close> unchanged, for every document within the configured
  limits, and every chunk lies on a page of the document.
\<close>

theorem normalized_report_checked:
  assumes "nfc_laws nfc" "limits_ok lim" "1 \<le> n" "int n \<le> tl_maxPageCount lim"
    and "normalize_poppler_text nfc bytes n (text_limits.truncate lim) = Inr nt"
    and "engine_version_pattern version"
  shows "\<exists>x. validate_extraction_result (text_nfc nfc) (poppler_report version n nt) lim = Inr x
    \<and> pe_chunks x = nt_chunks nt \<and> pe_textBytes x = NInt (nt_textBytes nt)
    \<and> pe_pageCount x = NInt (int n) \<and> pe_engineVersion x = version \<and> on_pages x"
  using assms by (rule report_checked)

theorem normalized_report_checked_witness:
  "\<exists>x. validate_extraction_result (text_nfc id) sample_report sample_limits = Inr x
    \<and> pe_chunks x = nt_chunks sample_normalized \<and> on_pages x"
proof -
  have "limits_ok sample_limits" "engine_version_pattern ''24.02.0''" by code_simp+
  moreover have "int 2 \<le> tl_maxPageCount sample_limits" by (simp add: sample_limits_def)
  ultimately show ?thesis
    using normalized_report_checked [OF nfc_laws_id _ _ _ sample_normalizes, of "''24.02.0''"]
    by (auto simp: sample_report_def)
qed

text \<open>
  C25. The service and the contract agree up to one test: for a matching request, in time and in the
  clock window, \<open>parseExternalDocumentExtractionResponse\<close> returns exactly the attestation of the report
  the service checked, unless a chunk lies beyond the reported page count. The service's protocol check
  bounds page numbers by its configured limit only, so it answers such a report and the contract
  refuses the answer as an invalid response.
\<close>

theorem service_answer_contract:
  assumes "answer_extraction nfc render cfg req clocks inspected = Inr body"
    and "extract_with_timing nfc cfg clocks inspected = Inr x"
    and "sc_completedAt clocks = Some completedAt"
    and "limits_ok (ec_limits cfg)" and "request_matches cfg req e"
    and "extraction_expectations_ok e"
    and "xe_expectedEngineVersion e = pe_engineVersion (ce_value x)"
    and "fresh_for e x completedAt"
    and "max 0 (sc_totalMs clocks) \<le> num_val (xe_maxDurationMs e)"
  shows "parse_extraction_response nfc body e =
    (if on_pages (ce_value x)
     then Inr (answered_attestation e x completedAt (max 0 (sc_totalMs clocks)))
     else Inl extraction_invalid)"
  using assms by (rule answer_under_contract)

theorem service_answer_contract_witness:
  "parse_extraction_response (text_nfc id) sample_body sample_expectations
     = Inr (answered_attestation sample_expectations sample_extraction 1100 60)"
proof -
  have "limits_ok (ec_limits sample_configuration)"
    "request_matches sample_configuration sample_request sample_expectations"
    "extraction_expectations_ok sample_expectations"
    "xe_expectedEngineVersion sample_expectations = pe_engineVersion (ce_value sample_extraction)"
    "fresh_for sample_expectations sample_extraction 1100"
    "max 0 (sc_totalMs sample_clocks) \<le> num_val (xe_maxDurationMs sample_expectations)"
    "sc_completedAt sample_clocks = Some 1100" "on_pages (ce_value sample_extraction)"
    "max 0 (sc_totalMs sample_clocks) = 60" by code_simp+
  then show ?thesis
    using service_answer_contract [OF sample_answered sample_timed] by simp
qed

text \<open>
  C4. From the raw text of a PDF to an accepted attestation: whenever the extractor service answers a
  normalised document, for the request and expectations of its client, the contract accepts the answer
  with exactly the normalised chunks, and the attestation passes the checks of
  \<open>completeDocumentTextExtractionLease\<close>.
\<close>

theorem extraction_end_to_end:
  assumes "nfc_laws nfc" "limits_ok (ec_limits cfg)" "1 \<le> n" "int n \<le> tl_maxPageCount (ec_limits cfg)"
    and "normalize_poppler_text nfc bytes n (text_limits.truncate (ec_limits cfg)) = Inr nt"
    and "engine_version_pattern (xe_expectedEngineVersion e)"
    and "answer_extraction (text_nfc nfc) render cfg req clocks
      (Inr (poppler_report (xe_expectedEngineVersion e) n nt)) = Inr body"
    and "request_matches cfg req e" "extraction_expectations_ok e"
    and "\<forall>x t. sc_extractedAt clocks = Some (ce_extractedAt x) \<longrightarrow> sc_completedAt clocks = Some t
      \<longrightarrow> fresh_for e x t"
    and "max 0 (sc_totalMs clocks) \<le> num_val (xe_maxDurationMs e)"
    and "policy_value_pattern (xe_policyVersion e)" "xe_inputSizeBytes e \<le> max_input_bytes"
      "num_val (xe_maxDurationMs e) \<le> max_extraction_duration_ms"
  shows "\<exists>a. parse_extraction_response (text_nfc nfc) body e = Inr a \<and> xa_chunks a = nt_chunks nt
    \<and> assert_extraction_attestation (text_nfc nfc) a = Inr ()"
proof -
  from assms(7) obtain x t where x: "extract_with_timing (text_nfc nfc) cfg clocks
      (Inr (poppler_report (xe_expectedEngineVersion e) n nt)) = Inr x" "sc_completedAt clocks = Some t"
    by (rule answer_facts)
  from report_checked [OF assms(1-6)] obtain y where
    y: "validate_extraction_result (text_nfc nfc) (poppler_report (xe_expectedEngineVersion e) n nt)
        (ec_limits cfg) = Inr y"
      "pe_chunks y = nt_chunks nt" "pe_engineVersion y = xe_expectedEngineVersion e" "on_pages y" by blast
  with extract_with_timing_facts [OF x(1)] have v: "ce_value x = y" and
    at: "sc_extractedAt clocks = Some (ce_extractedAt x)" by auto
  have p: "parse_extraction_response (text_nfc nfc) body e
      = Inr (answered_attestation e x t (max 0 (sc_totalMs clocks)))"
    using answer_under_contract [OF assms(7) x assms(2,8,9) _ _ assms(11)] assms(10) x(2) at y v by simp
  with accepted_response_attested [OF p assms(12-14)] y v show ?thesis
    by (auto simp: answered_attestation_def)
qed

theorem extraction_end_to_end_witness:
  "\<exists>a. parse_extraction_response (text_nfc id) sample_body sample_expectations = Inr a
    \<and> xa_chunks a = nt_chunks sample_normalized
    \<and> assert_extraction_attestation (text_nfc id) a = Inr ()"
proof -
  have c: "limits_ok (ec_limits sample_configuration)"
    "engine_version_pattern (xe_expectedEngineVersion sample_expectations)"
    "request_matches sample_configuration sample_request sample_expectations"
    "extraction_expectations_ok sample_expectations"
    "max 0 (sc_totalMs sample_clocks) \<le> num_val (xe_maxDurationMs sample_expectations)"
    "policy_value_pattern (xe_policyVersion sample_expectations)"
    "xe_inputSizeBytes sample_expectations \<le> max_input_bytes"
    "num_val (xe_maxDurationMs sample_expectations) \<le> max_extraction_duration_ms"
    by code_simp+
  have y: "four_digit_year 1000" "four_digit_year 1100" by code_simp+
  have f: "\<forall>x t. sc_extractedAt sample_clocks = Some (ce_extractedAt x)
      \<longrightarrow> sc_completedAt sample_clocks = Some t \<longrightarrow> fresh_for sample_expectations x t"
    using y by (auto simp: fresh_for_def sample_clocks_def sample_expectations_def)
  have l: "ec_limits sample_configuration = sample_limits" by (simp add: sample_configuration_def)
  have n: "int 2 \<le> tl_maxPageCount (ec_limits sample_configuration)" by (simp add: l sample_limits_def)
  have e: "xe_expectedEngineVersion sample_expectations = ''24.02.0''" by (simp add: sample_expectations_def)
  show ?thesis
    using extraction_end_to_end [OF nfc_laws_id c(1) _ n sample_normalizes [folded l] c(2)
        sample_answered [unfolded sample_report_def, folded e] c(3,4) f c(5-8)]
    by simp
qed

text \<open>
  C38. What the contract guarantees by itself, whoever answers: an accepted response is bound to the
  request's digest, size, storage version, policy, toolchain and engine, it is completed inside the
  clock window, its durations respect the client's limit, and it is an attestation the job code takes.
\<close>

theorem extraction_contract_sound:
  assumes "parse_extraction_response nfc v e = Inr a"
    and "policy_value_pattern (xe_policyVersion e)" "xe_inputSizeBytes e \<le> max_input_bytes"
      "num_val (xe_maxDurationMs e) \<le> max_extraction_duration_ms"
  shows "assert_extraction_attestation nfc a = Inr ()
    \<and> xa_inputSha256 a = xe_inputSha256 e \<and> xa_inputSizeBytes a = xe_inputSizeBytes e
    \<and> xa_storageVersion a = xe_storageVersion e \<and> xa_policyVersion a = xe_policyVersion e
    \<and> xa_toolchainDigest a = xe_toolchainDigest e \<and> xa_engineVersion a = xe_expectedEngineVersion e
    \<and> (\<exists>x c now. xa_extractedAt a = Some x \<and> xa_completedAt a = Some c \<and> xe_now e = Some now \<and> x \<le> c
         \<and> c \<le> now + num_val (xe_futureClockSkewMs e) \<and> now - c \<le> num_val (xe_resultMaxAgeMs e))
    \<and> 0 \<le> num_val (xa_durationMs a) \<and> num_val (xa_durationMs a) \<le> num_val (xa_totalDurationMs a)
    \<and> num_val (xa_totalDurationMs a) \<le> num_val (xe_maxDurationMs e)"
  using accepted_response_attested [OF assms] accepted_response_bound [OF assms(1)] by blast

theorem extraction_contract_sound_witness:
  "\<exists>a. parse_extraction_response (text_nfc id) sample_body sample_expectations = Inr a
    \<and> xa_inputSha256 a = sample_digest \<and> num_val (xa_totalDurationMs a) \<le> 75000"
proof -
  obtain a where a: "parse_extraction_response (text_nfc id) sample_body sample_expectations = Inr a"
  proof -
    have "case parse_extraction_response (text_nfc id) sample_body sample_expectations of
        Inr a \<Rightarrow> True | Inl e \<Rightarrow> False" by code_simp
    then show thesis by (cases "parse_extraction_response (text_nfc id) sample_body sample_expectations")
      (auto intro: that)
  qed
  have "policy_value_pattern (xe_policyVersion sample_expectations)"
    "xe_inputSizeBytes sample_expectations \<le> max_input_bytes"
    "num_val (xe_maxDurationMs sample_expectations) \<le> max_extraction_duration_ms"
    by code_simp+
  from extraction_contract_sound [OF a this] a show ?thesis by (auto simp: sample_expectations_def)
qed

end
