(* ===== verification/Validation_Contract.thy ===== *)
theory Validation_Contract
  imports Contract_Values Validation_Jobs
begin

text \<open>
  The contract of the validator service's answer (\<open>src/server/documents/validation-contract.ts\<close>):
  the closed JSON object, its bindings to the request, the malware and PDF findings, the chronology,
  the clock window and the verdict, and the attestation it becomes. The lemmas relate it to the checks
  the job code makes of an attestation.
\<close>

section \<open>Expectations and failures\<close>

datatype validation_contract_failure =
    Vf_invalid_response | Vf_content_binding_mismatch | Vf_storage_binding_mismatch
  | Vf_policy_binding_mismatch | Vf_signatures_stale | Vf_clock_invalid

fun validation_contract_message :: "validation_contract_failure \<Rightarrow> string" where
  "validation_contract_message Vf_invalid_response =
     ''The validation service returned an invalid attestation.''"
| "validation_contract_message Vf_content_binding_mismatch =
     ''The validation service returned an attestation for different content.''"
| "validation_contract_message Vf_storage_binding_mismatch =
     ''The validation service returned an attestation for a different storage version.''"
| "validation_contract_message Vf_policy_binding_mismatch =
     ''The validation service returned an attestation for a different policy.''"
| "validation_contract_message Vf_signatures_stale =
     ''The validation service did not use a sufficiently fresh signature database.''"
| "validation_contract_message Vf_clock_invalid =
     ''The validation service returned an invalid attestation timestamp.''"

abbreviation validation_invalid :: validation_contract_failure where
  "validation_invalid \<equiv> Vf_invalid_response"

record validation_expectations =
  ve_expectedSha256 :: string
  ve_expectedSizeBytes :: int
  ve_expectedStorageVersion :: string
  ve_expectedPolicyVersion :: string
  ve_now :: "millis option"
  ve_signatureMaxAgeMs :: jnum
  ve_futureClockSkewMs :: jnum
  ve_maxDurationMs :: jnum

definition validation_expectations_ok :: "validation_expectations \<Rightarrow> bool" where
  "validation_expectations_ok e \<longleftrightarrow>
     sha256_pattern (ve_expectedSha256 e)
     \<and> 0 < ve_expectedSizeBytes e \<and> ve_expectedSizeBytes e \<le> max_safe_integer
     \<and> wire_identifier 256 (ve_expectedStorageVersion e)
     \<and> wire_identifier 128 (ve_expectedPolicyVersion e) \<and> ve_now e \<noteq> None
     \<and> safe_integer (ve_signatureMaxAgeMs e) \<and> 0 < num_val (ve_signatureMaxAgeMs e)
     \<and> safe_integer (ve_futureClockSkewMs e) \<and> 0 \<le> num_val (ve_futureClockSkewMs e)
     \<and> num_val (ve_futureClockSkewMs e) < num_val (ve_signatureMaxAgeMs e)
     \<and> safe_integer (ve_maxDurationMs e) \<and> 0 < num_val (ve_maxDurationMs e)"

section \<open>The closed record\<close>

definition validation_keys :: "string list" where
  "validation_keys = [''schemaVersion'', ''policyVersion'', ''storageVersion'', ''toolchainDigest'',
     ''verdict'', ''rejectionCode'', ''input'', ''malware'', ''pdf'', ''completedAt'', ''totalDurationMs'']"

definition malware_keys :: "string list" where
  "malware_keys = [''verdict'', ''engine'', ''engineVersion'', ''signatureVersion'',
     ''signaturePublishedAt'', ''scannedAt'', ''detectionCount'', ''durationMs'']"

definition pdf_keys :: "string list" where
  "pdf_keys = [''structuralVerdict'', ''engine'', ''engineVersion'', ''pdfVersion'', ''pageCount'',
     ''objectCount'', ''revisionCount'', ''warningCount'', ''checkedAt'', ''durationMs'']"

definition supported_pdf_versions :: "string list" where
  "supported_pdf_versions =
     [''1.0'', ''1.1'', ''1.2'', ''1.3'', ''1.4'', ''1.5'', ''1.6'', ''1.7'', ''2.0'']"

definition max_detection_count :: int where "max_detection_count = 128"
definition max_page_count :: int where "max_page_count = 100000"
definition max_object_count :: int where "max_object_count = 10000000"
definition max_revision_count :: int where "max_revision_count = 10000"
definition max_warning_count :: int where "max_warning_count = 10000"

text \<open>\<open>/^[1-9]\d{0,15}$/\<close>\<close>

definition canonical_size :: "string \<Rightarrow> bool" where
  "canonical_size s \<longleftrightarrow> positive_decimal s \<and> length s \<le> 16"

fun rejection_code_at :: "json option \<Rightarrow> string option option" where
  "rejection_code_at (Some JNull) = Some None"
| "rejection_code_at (Some (JStr s)) = (if s \<in> set validation_rejection_codes then Some (Some s) else None)"
| "rejection_code_at _ = None"

section \<open>The parts of the response\<close>

record validation_identity =
  vx_accepted :: bool
  vx_rejectionCode :: "string option"
  vx_toolchainDigest :: string

definition validation_bindings ::
    "validation_expectations \<Rightarrow> fields \<Rightarrow> validation_contract_failure + validation_identity" where
  "validation_bindings e r =
     and_then (throw_unless (field r ''schemaVersion'' = Some (jint 1)) validation_invalid) (\<lambda>_.
     and_then (or_throw validation_invalid (text_where (wire_identifier 128) (field r ''policyVersion'')))
       (\<lambda>policy.
     and_then (throw_unless (policy = ve_expectedPolicyVersion e) Vf_policy_binding_mismatch) (\<lambda>_.
     and_then (or_throw validation_invalid (text_where (wire_identifier 256) (field r ''storageVersion'')))
       (\<lambda>storage.
     and_then (throw_unless (storage = ve_expectedStorageVersion e) Vf_storage_binding_mismatch) (\<lambda>_.
     and_then (or_throw validation_invalid (text_where sha256_pattern (field r ''toolchainDigest'')))
       (\<lambda>toolchain.
     and_then (or_throw validation_invalid
       (text_where (\<lambda>s. s = ''accepted'' \<or> s = ''rejected'') (field r ''verdict''))) (\<lambda>verdict.
     and_then (or_throw validation_invalid (rejection_code_at (field r ''rejectionCode''))) (\<lambda>rejection.
     and_then (or_throw validation_invalid (record_with [''sha256'', ''sizeBytes''] (field r ''input'')))
       (\<lambda>input.
     and_then (or_throw validation_invalid (text_where sha256_pattern (field input ''sha256''))) (\<lambda>sha.
     and_then (or_throw validation_invalid (text_where canonical_size (field input ''sizeBytes''))) (\<lambda>size.
     and_then (throw_unless (digits_val size \<le> max_safe_integer \<and> sha = ve_expectedSha256 e
         \<and> digits_val size = ve_expectedSizeBytes e) Vf_content_binding_mismatch) (\<lambda>_.
     Inr \<lparr>vx_accepted = (verdict = ''accepted''), vx_rejectionCode = rejection,
          vx_toolchainDigest = toolchain\<rparr>))))))))))))"

record malware_finding =
  mf_clean :: bool
  mf_engine :: string
  mf_engineVersion :: string
  mf_signatureVersion :: string
  mf_signaturePublishedAt :: millis
  mf_scannedAt :: millis
  mf_detectionCount :: jnum
  mf_durationMs :: jnum

definition malware_of_response ::
    "validation_expectations \<Rightarrow> fields \<Rightarrow> validation_contract_failure + malware_finding" where
  "malware_of_response e r =
     and_then (or_throw validation_invalid (record_with malware_keys (field r ''malware''))) (\<lambda>m.
     and_then (or_throw validation_invalid
       (text_where (\<lambda>s. s = ''clean'' \<or> s = ''infected'') (field m ''verdict''))) (\<lambda>verdict.
     and_then (or_throw validation_invalid (text_where (wire_identifier 64) (field m ''engine''))) (\<lambda>engine.
     and_then (or_throw validation_invalid (text_where (wire_identifier 128) (field m ''engineVersion'')))
       (\<lambda>version.
     and_then (or_throw validation_invalid (text_where (wire_identifier 128) (field m ''signatureVersion'')))
       (\<lambda>signature.
     and_then (or_throw validation_invalid (timestamp_at (field m ''signaturePublishedAt''))) (\<lambda>published.
     and_then (or_throw validation_invalid (timestamp_at (field m ''scannedAt''))) (\<lambda>scanned.
     and_then (or_throw validation_invalid
       (integer_within 0 max_detection_count (field m ''detectionCount''))) (\<lambda>detections.
     and_then (or_throw validation_invalid
       (integer_within 0 (num_val (ve_maxDurationMs e)) (field m ''durationMs''))) (\<lambda>took.
     and_then (throw_unless (\<not> ((verdict = ''clean'' \<and> detections \<noteq> NInt 0)
         \<or> (verdict = ''infected'' \<and> num_val detections < 1))) validation_invalid) (\<lambda>_.
     Inr \<lparr>mf_clean = (verdict = ''clean''), mf_engine = engine, mf_engineVersion = version,
          mf_signatureVersion = signature, mf_signaturePublishedAt = published, mf_scannedAt = scanned,
          mf_detectionCount = detections, mf_durationMs = took\<rparr>))))))))))"

record pdf_finding =
  pf_valid :: bool
  pf_engine :: string
  pf_engineVersion :: string
  pf_pdfVersion :: string
  pf_pageCount :: "jnum option"
  pf_objectCount :: "jnum option"
  pf_revisionCount :: "jnum option"
  pf_warningCount :: jnum
  pf_checkedAt :: millis
  pf_durationMs :: jnum

text \<open>What a structurally valid PDF must report.\<close>

definition structure_complete :: "string \<Rightarrow> jnum option \<Rightarrow> jnum option \<Rightarrow> jnum option \<Rightarrow> jnum \<Rightarrow> bool" where
  "structure_complete pdfVersion pages objects revisions warnings \<longleftrightarrow>
     pdfVersion \<noteq> ''unknown'' \<and> pages \<noteq> None \<and> objects \<noteq> None \<and> revisions \<noteq> None \<and> warnings = NInt 0"

definition pdf_of_response ::
    "validation_expectations \<Rightarrow> fields \<Rightarrow> validation_contract_failure + pdf_finding" where
  "pdf_of_response e r =
     and_then (or_throw validation_invalid (record_with pdf_keys (field r ''pdf''))) (\<lambda>p.
     and_then (or_throw validation_invalid
       (text_where (\<lambda>s. s = ''valid'' \<or> s = ''invalid'') (field p ''structuralVerdict''))) (\<lambda>verdict.
     and_then (or_throw validation_invalid (text_where (wire_identifier 64) (field p ''engine''))) (\<lambda>engine.
     and_then (or_throw validation_invalid (text_where (wire_identifier 128) (field p ''engineVersion'')))
       (\<lambda>version.
     and_then (or_throw validation_invalid
       (text_where (\<lambda>s. s = ''unknown'' \<or> s \<in> set supported_pdf_versions) (field p ''pdfVersion'')))
       (\<lambda>pdfVersion.
     and_then (or_throw validation_invalid (nullable_integer 1 max_page_count (field p ''pageCount'')))
       (\<lambda>pages.
     and_then (or_throw validation_invalid (nullable_integer 1 max_object_count (field p ''objectCount'')))
       (\<lambda>objects.
     and_then (or_throw validation_invalid
       (nullable_integer 1 max_revision_count (field p ''revisionCount''))) (\<lambda>revisions.
     and_then (or_throw validation_invalid (integer_within 0 max_warning_count (field p ''warningCount'')))
       (\<lambda>warnings.
     and_then (or_throw validation_invalid (timestamp_at (field p ''checkedAt''))) (\<lambda>checked.
     and_then (or_throw validation_invalid
       (integer_within 0 (num_val (ve_maxDurationMs e)) (field p ''durationMs''))) (\<lambda>took.
     and_then (throw_unless (verdict \<noteq> ''valid''
         \<or> structure_complete pdfVersion pages objects revisions warnings) validation_invalid) (\<lambda>_.
     Inr \<lparr>pf_valid = (verdict = ''valid''), pf_engine = engine, pf_engineVersion = version,
          pf_pdfVersion = pdfVersion, pf_pageCount = pages, pf_objectCount = objects,
          pf_revisionCount = revisions, pf_warningCount = warnings, pf_checkedAt = checked,
          pf_durationMs = took\<rparr>))))))))))))"

text \<open>The completion time and the total duration, then chronology and clock window.\<close>

definition validation_times ::
    "validation_expectations \<Rightarrow> fields \<Rightarrow> malware_finding \<Rightarrow> pdf_finding
      \<Rightarrow> validation_contract_failure + (millis \<times> jnum)" where
  "validation_times e r m p =
     and_then (or_throw validation_invalid (timestamp_at (field r ''completedAt''))) (\<lambda>completed.
     and_then (or_throw validation_invalid
       (integer_within 0 (num_val (ve_maxDurationMs e)) (field r ''totalDurationMs''))) (\<lambda>whole.
     and_then (throw_unless (num_val (mf_durationMs m) \<le> num_val whole
         \<and> num_val (pf_durationMs p) \<le> num_val whole
         \<and> mf_signaturePublishedAt m \<le> mf_scannedAt m \<and> mf_scannedAt m \<le> pf_checkedAt p
         \<and> mf_scannedAt m \<le> completed \<and> pf_checkedAt p \<le> completed) validation_invalid) (\<lambda>_.
     let now = the (ve_now e); latest = now + num_val (ve_futureClockSkewMs e)
     in and_then (throw_unless (mf_signaturePublishedAt m \<le> latest \<and> mf_scannedAt m \<le> latest
           \<and> pf_checkedAt p \<le> latest \<and> completed \<le> latest) Vf_clock_invalid) (\<lambda>_.
        and_then (throw_unless (now - mf_signaturePublishedAt m \<le> num_val (ve_signatureMaxAgeMs e))
           Vf_signatures_stale) (\<lambda>_.
        Inr (completed, whole))))))"

definition verdict_consistent :: "validation_identity \<Rightarrow> bool \<Rightarrow> bool \<Rightarrow> bool" where
  "verdict_consistent i clean valid \<longleftrightarrow>
     (if vx_accepted i then clean \<and> valid \<and> vx_rejectionCode i = None
      else vx_rejectionCode i \<noteq> None
        \<and> \<not> ((clean \<and> valid \<and> vx_rejectionCode i \<noteq> Some ''pdf_policy_violation'')
           \<or> (clean \<and> \<not> valid \<and> vx_rejectionCode i \<noteq> Some ''pdf_invalid''
                \<and> vx_rejectionCode i \<noteq> Some ''pdf_resource_limit_exceeded'')
           \<or> (\<not> clean \<and> valid \<and> vx_rejectionCode i \<noteq> Some ''malware_detected'')
           \<or> (\<not> clean \<and> \<not> valid \<and> vx_rejectionCode i \<noteq> Some ''malware_and_pdf_invalid'')))"

definition result_summary :: "malware_finding \<Rightarrow> pdf_finding \<Rightarrow> millis \<Rightarrow> jnum \<Rightarrow> fields" where
  "result_summary m p completed whole =
     [(''schemaVersion'', jint 1), (''detectionCount'', JNum (mf_detectionCount m)),
      (''warningCount'', JNum (pf_warningCount p)), (''malwareDurationMs'', JNum (mf_durationMs m)),
      (''pdfDurationMs'', JNum (pf_durationMs p)), (''totalDurationMs'', JNum whole),
      (''completedAt'', JStr (iso_format completed))]"

definition validation_attestation_of ::
    "validation_expectations \<Rightarrow> validation_identity \<Rightarrow> malware_finding \<Rightarrow> pdf_finding \<Rightarrow> millis \<Rightarrow> jnum
      \<Rightarrow> validated_attestation" where
  "validation_attestation_of e i m p completed whole =
     \<lparr>va_inputSha256 = ve_expectedSha256 e, va_inputSizeBytes = ve_expectedSizeBytes e,
      va_storageVersion = ve_expectedStorageVersion e, va_policyVersion = ve_expectedPolicyVersion e,
      va_toolchainDigest = vx_toolchainDigest i,
      va_verdict = (if vx_accepted i then ACCEPTED else REJECTED),
      va_rejectionCode = vx_rejectionCode i,
      va_malwareVerdict = (if mf_clean m then CLEAN else INFECTED), va_malwareEngine = mf_engine m,
      va_malwareEngineVersion = mf_engineVersion m, va_signatureVersion = mf_signatureVersion m,
      va_signaturePublishedAt = Some (mf_signaturePublishedAt m), va_scannedAt = Some (mf_scannedAt m),
      va_pdfStructuralVerdict = (if pf_valid p then VALID else INVALID), va_pdfEngine = pf_engine p,
      va_pdfEngineVersion = pf_engineVersion p, va_pdfVersion = pf_pdfVersion p,
      va_pageCount = pf_pageCount p, va_objectCount = pf_objectCount p,
      va_revisionCount = pf_revisionCount p, va_checkedAt = Some (pf_checkedAt p),
      va_result = result_summary m p completed whole\<rparr>"

definition parse_validation_response ::
    "json \<Rightarrow> validation_expectations \<Rightarrow> validation_contract_failure + validated_attestation" where
  "parse_validation_response v e =
     and_then (throw_unless (validation_expectations_ok e) validation_invalid) (\<lambda>_.
     and_then (or_throw validation_invalid (record_with validation_keys (Some v))) (\<lambda>r.
     and_then (validation_bindings e r) (\<lambda>i.
     and_then (malware_of_response e r) (\<lambda>m.
     and_then (pdf_of_response e r) (\<lambda>p.
     and_then (validation_times e r m p) (\<lambda>(completed, whole).
     and_then (throw_unless (verdict_consistent i (mf_clean m) (pf_valid p)) validation_invalid) (\<lambda>_.
     Inr (validation_attestation_of e i m p completed whole))))))))"

section \<open>An accepted response\<close>

lemma nullable_integer_Some_iff:
  "nullable_integer lo hi v = Some c \<longleftrightarrow>
     (v = Some JNull \<and> c = None) \<or> (\<exists>n. v = Some (JNum n) \<and> bounded_integer lo hi n \<and> c = Some n)"
  by (cases "(lo, hi, v)" rule: nullable_integer.cases) (auto simp: integer_within_Some_iff)

lemma malware_of_response_cases:
  assumes "malware_of_response e r = Inr m"
  obtains verdict engine version signature published scanned detections took where
    "m = \<lparr>mf_clean = (verdict = ''clean''), mf_engine = engine, mf_engineVersion = version,
          mf_signatureVersion = signature, mf_signaturePublishedAt = published, mf_scannedAt = scanned,
          mf_detectionCount = detections, mf_durationMs = took\<rparr>"
    "verdict = ''clean'' \<or> verdict = ''infected''"
    "wire_identifier 64 engine" "wire_identifier 128 version" "wire_identifier 128 signature"
    "bounded_integer 0 max_detection_count detections"
    "bounded_integer 0 (num_val (ve_maxDurationMs e)) took"
    "\<not> ((verdict = ''clean'' \<and> detections \<noteq> NInt 0) \<or> (verdict = ''infected'' \<and> num_val detections < 1))"
  using assms unfolding malware_of_response_def
  by (elim and_then_InrE, simp only: or_throw_Inr_iff throw_unless_Inr_iff integer_within_Some_iff
      text_where_Some_iff sum.inject, elim conjE)
    (drule sym, assumption)

lemma nullable_integer_bounded:
  "nullable_integer lo hi v = Some c \<Longrightarrow> pred_option (bounded_integer lo hi) c"
  by (auto simp: nullable_integer_Some_iff)

lemma pdf_of_response_cases:
  assumes "pdf_of_response e r = Inr p"
  obtains verdict engine version pdfVersion pages objects revisions warnings checked took where
    "p = \<lparr>pf_valid = (verdict = ''valid''), pf_engine = engine, pf_engineVersion = version,
          pf_pdfVersion = pdfVersion, pf_pageCount = pages, pf_objectCount = objects,
          pf_revisionCount = revisions, pf_warningCount = warnings, pf_checkedAt = checked,
          pf_durationMs = took\<rparr>"
    "wire_identifier 64 engine" "wire_identifier 128 version"
    "pdfVersion = ''unknown'' \<or> pdfVersion \<in> set supported_pdf_versions"
    "pred_option (bounded_integer 1 max_page_count) pages"
    "pred_option (bounded_integer 1 max_object_count) objects"
    "pred_option (bounded_integer 1 max_revision_count) revisions"
    "bounded_integer 0 max_warning_count warnings"
    "bounded_integer 0 (num_val (ve_maxDurationMs e)) took"
    "verdict \<noteq> ''valid'' \<or> structure_complete pdfVersion pages objects revisions warnings"
  using assms unfolding pdf_of_response_def
  by (elim and_then_InrE, simp only: or_throw_Inr_iff throw_unless_Inr_iff integer_within_Some_iff
      text_where_Some_iff sum.inject, elim conjE)
    (drule sym, (drule nullable_integer_bounded)+, assumption)

lemma validation_times_cases:
  assumes "validation_times e r m p = Inr (completed, whole)"
  shows "bounded_integer 0 (num_val (ve_maxDurationMs e)) whole"
    and "num_val (mf_durationMs m) \<le> num_val whole \<and> num_val (pf_durationMs p) \<le> num_val whole"
    and "mf_signaturePublishedAt m \<le> mf_scannedAt m \<and> mf_scannedAt m \<le> pf_checkedAt p
      \<and> pf_checkedAt p \<le> completed"
    and "completed \<le> the (ve_now e) + num_val (ve_futureClockSkewMs e)"
    and "the (ve_now e) - mf_signaturePublishedAt m \<le> num_val (ve_signatureMaxAgeMs e)"
    and "canonical_iso (iso_format completed) = Some completed"
  using assms canonical_iso_format
  by (auto simp: validation_times_def and_then_Inr_iff Let_def reader_iffs)

lemma validation_bindings_rejection:
  assumes "validation_bindings e r = Inr i"
  shows "vx_rejectionCode i = None \<or> the (vx_rejectionCode i) \<in> set validation_rejection_codes"
    and "sha256_pattern (vx_toolchainDigest i)"
proof -
  have code: "c = None \<or> the c \<in> set validation_rejection_codes" if "rejection_code_at v = Some c" for v c
    using that by (cases v rule: rejection_code_at.cases) (auto split: if_splits)
  from assms obtain v c where "rejection_code_at v = Some c" "vx_rejectionCode i = c"
    "sha256_pattern (vx_toolchainDigest i)"
    by (auto simp: validation_bindings_def and_then_Inr_iff reader_iffs)
  with code show "vx_rejectionCode i = None \<or> the (vx_rejectionCode i) \<in> set validation_rejection_codes"
    "sha256_pattern (vx_toolchainDigest i)" by auto
qed

lemma parse_validation_parts:
  assumes "parse_validation_response v e = Inr a"
  obtains r i m p completed whole where "validation_expectations_ok e"
    "record_with validation_keys (Some v) = Some r" "validation_bindings e r = Inr i"
    "malware_of_response e r = Inr m" "pdf_of_response e r = Inr p"
    "validation_times e r m p = Inr (completed, whole)" "verdict_consistent i (mf_clean m) (pf_valid p)"
    "a = validation_attestation_of e i m p completed whole"
  using assms by (auto simp: parse_validation_response_def and_then_Inr_iff)

lemma result_summary_ok:
  assumes "bounded_integer 0 max_detection_count (mf_detectionCount m)"
    and "bounded_integer 0 max_warning_count (pf_warningCount p)"
    and "bounded_integer 0 120000 (mf_durationMs m)" "bounded_integer 0 120000 (pf_durationMs p)"
    and "bounded_integer 0 120000 whole"
    and "num_val (mf_durationMs m) \<le> num_val whole \<and> num_val (pf_durationMs p) \<le> num_val whole"
    and "canonical_iso (iso_format completed) = Some completed" "checked \<le> completed"
  shows "attestation_result_ok (result_summary m p completed whole) checked"
proof -
  have "bounded_integer (max (num_val (mf_durationMs m)) (num_val (pf_durationMs p))) 120000 whole"
    using assms(5,6) by (cases whole) auto
  moreover note canonical_iso_pattern [OF assms(7)] canonical_iso_parse [OF assms(7)]
  ultimately show ?thesis
    using assms
    by (simp add: attestation_result_ok_def result_summary_def field_def exact_keys_def obj_keys_def
        max_detection_count_def max_warning_count_def)
qed

lemma require_versions_safe:
  "list_all (\<lambda>(label, v). safe_value_pattern v) vs \<Longrightarrow> require_versions vs = Inr ()"
  by (induction vs rule: require_versions.induct) (auto simp: require_version_def)

lemma bounded_count_at_least:
  "pred_option (bounded_integer 1 hi) c \<Longrightarrow> count_at_least 1 c \<and> count_at_least 0 c"
  by (cases c) (auto elim: bounded_integerE)

lemma supported_version_safe: "v = ''unknown'' \<or> v \<in> set supported_pdf_versions \<Longrightarrow> safe_value_pattern v"
proof -
  have "list_all safe_value_pattern (''unknown'' # supported_pdf_versions)" by code_simp
  then show "v = ''unknown'' \<or> v \<in> set supported_pdf_versions \<Longrightarrow> safe_value_pattern v"
    by (auto simp: list_all_iff)
qed

text \<open>
  An accepted response is an attestation the job code accepts, when the client's limits are within
  the job's: the storage version has the job's form and the durations respect its two minutes.
\<close>

lemma accepted_validation_attested:
  assumes ok: "parse_validation_response v e = Inr a"
    and storage: "safe_value_pattern (ve_expectedStorageVersion e)"
    and took: "num_val (ve_maxDurationMs e) \<le> 120000"
  shows "assert_attestation a = Inr ()"
proof -
  from ok obtain r i m p completed whole where exp: "validation_expectations_ok e"
    and i: "validation_bindings e r = Inr i" and m: "malware_of_response e r = Inr m"
    and p: "pdf_of_response e r = Inr p" and t: "validation_times e r m p = Inr (completed, whole)"
    and c: "verdict_consistent i (mf_clean m) (pf_valid p)"
    and a: "a = validation_attestation_of e i m p completed whole"
    by (rule parse_validation_parts)
  note tm = validation_times_cases [OF t]
  note rb = validation_bindings_rejection [OF i]
  from m have mw: "wire_identifier 64 (mf_engine m)" "wire_identifier 128 (mf_engineVersion m)"
    "wire_identifier 128 (mf_signatureVersion m)"
    "bounded_integer 0 max_detection_count (mf_detectionCount m)"
    "bounded_integer 0 (num_val (ve_maxDurationMs e)) (mf_durationMs m)"
    by (auto elim: malware_of_response_cases)
  from p have pw: "wire_identifier 64 (pf_engine p)" "wire_identifier 128 (pf_engineVersion p)"
    "pf_pdfVersion p = ''unknown'' \<or> pf_pdfVersion p \<in> set supported_pdf_versions"
    "pred_option (bounded_integer 1 max_page_count) (pf_pageCount p)"
    "pred_option (bounded_integer 1 max_object_count) (pf_objectCount p)"
    "pred_option (bounded_integer 1 max_revision_count) (pf_revisionCount p)"
    "bounded_integer 0 max_warning_count (pf_warningCount p)"
    "bounded_integer 0 (num_val (ve_maxDurationMs e)) (pf_durationMs p)"
    "pf_valid p \<Longrightarrow> pf_pageCount p \<noteq> None"
    by (auto simp: structure_complete_def elim!: pdf_of_response_cases)
  have bound: "bounded_integer 0 (num_val (ve_maxDurationMs e)) n \<Longrightarrow> bounded_integer 0 120000 n" for n
    using took by (auto intro: bounded_integer_mono)
  have "attestation_result_ok (result_summary m p completed whole) (pf_checkedAt p)"
    using mw(4) pw(7) bound [OF mw(5)] bound [OF pw(8)] bound [OF tm(1)] tm(2,6) tm(3)
    by (intro result_summary_ok) auto
  moreover have "count_at_least 1 (pf_pageCount p)" "count_at_least 0 (pf_objectCount p)"
    "count_at_least 1 (pf_revisionCount p)"
    using bounded_count_at_least [OF pw(4)] bounded_count_at_least [OF pw(5)]
      bounded_count_at_least [OF pw(6)] by simp_all
  moreover have "require_versions
       [(''storageVersion'', va_storageVersion a), (''policyVersion'', va_policyVersion a),
        (''malwareEngine'', va_malwareEngine a), (''malwareEngineVersion'', va_malwareEngineVersion a),
        (''signatureVersion'', va_signatureVersion a), (''pdfEngine'', va_pdfEngine a),
        (''pdfEngineVersion'', va_pdfEngineVersion a), (''pdfVersion'', va_pdfVersion a)] = Inr ()"
    using storage exp mw(1-3) pw(1,2) supported_version_safe [OF pw(3)]
    by (intro require_versions_safe) (auto simp: a validation_attestation_of_def
        validation_expectations_ok_def intro: wire_identifier_safe)
  moreover have "va_verdict a = ACCEPTED \<longrightarrow> accepted_consistent a"
    using c pw(9) by (auto simp: a validation_attestation_of_def verdict_consistent_def
        accepted_consistent_def split: if_splits)
  moreover have "va_verdict a = REJECTED \<longrightarrow> rejected_consistent a \<and> truthy (va_rejectionCode a)
      \<and> the (va_rejectionCode a) \<in> set validation_rejection_codes"
    using c rb(1) by (auto simp: a validation_attestation_of_def verdict_consistent_def
        rejected_consistent_def Let_def validation_rejection_codes_def split: if_splits)
  ultimately show ?thesis
    using exp rb(2) tm(3)
    by (auto simp: assert_attestation_def a validation_attestation_of_def validation_expectations_ok_def)
qed

end
