(* ===== verification/Validation_Service.thy ===== *)
theory Validation_Service
  imports Validation_Contract
begin

text \<open>
  The validator service behind the contract (\<open>services/document-validator\<close>): the reports of its
  malware and PDF runners (\<open>src/command-protocol.ts\<close>), the service's own check of them and the answer
  (\<open>src/service.ts\<close>). Files, sockets and child processes are outside the model: a runner's report
  arrives as the JSON it printed, the clocks and the measured durations are arguments.
\<close>

section \<open>The runners' reports\<close>

datatype inspection_failure =
    If_aborted | If_timeout | If_output_limit | If_spawn | If_protocol | If_tool

record malware_inspection =
  mi_clean :: bool
  mi_engine :: string
  mi_engineVersion :: string
  mi_signatureVersion :: string
  mi_signaturePublishedAt :: string
  mi_detectionCount :: jnum

datatype pdf_outcome = Pdf_valid | Pdf_invalid | Pdf_policy_violation | Pdf_resource_limit

record pdf_inspection =
  pi_outcome :: pdf_outcome
  pi_engine :: string
  pi_engineVersion :: string
  pi_pdfVersion :: string
  pi_pageCount :: "jnum option"
  pi_objectCount :: "jnum option"
  pi_revisionCount :: "jnum option"
  pi_warningCount :: jnum

fun pdf_outcome_at :: "json option \<Rightarrow> pdf_outcome option" where
  "pdf_outcome_at (Some (JStr s)) =
     (if s = ''valid'' then Some Pdf_valid else if s = ''invalid'' then Some Pdf_invalid
      else if s = ''policy_violation'' then Some Pdf_policy_violation
      else if s = ''resource_limit'' then Some Pdf_resource_limit else None)"
| "pdf_outcome_at _ = None"

definition structurally_valid :: "pdf_outcome \<Rightarrow> bool" where
  "structurally_valid r \<longleftrightarrow> r = Pdf_valid \<or> r = Pdf_policy_violation"

definition inspect_malware :: "json \<Rightarrow> inspection_failure + malware_inspection" where
  "inspect_malware v =
     and_then (or_throw If_protocol (record_with [''schemaVersion'', ''verdict'', ''engine'',
         ''engineVersion'', ''signatureVersion'', ''signaturePublishedAt'', ''detectionCount''] (Some v)))
       (\<lambda>r.
     and_then (throw_unless (field r ''schemaVersion'' = Some (jint 1)) If_protocol) (\<lambda>_.
     and_then (or_throw If_protocol
       (text_where (\<lambda>s. s = ''clean'' \<or> s = ''infected'') (field r ''verdict''))) (\<lambda>verdict.
     and_then (or_throw If_protocol (integer_within 0 max_detection_count (field r ''detectionCount'')))
       (\<lambda>detections.
     and_then (throw_unless (\<not> ((verdict = ''clean'' \<and> detections \<noteq> NInt 0)
         \<or> (verdict = ''infected'' \<and> num_val detections < 1))) If_protocol) (\<lambda>_.
     and_then (or_throw If_protocol (text_where (wire_identifier 64) (field r ''engine''))) (\<lambda>engine.
     and_then (or_throw If_protocol (text_where (wire_identifier 128) (field r ''engineVersion'')))
       (\<lambda>version.
     and_then (or_throw If_protocol (text_where (wire_identifier 128) (field r ''signatureVersion'')))
       (\<lambda>signature.
     and_then (or_throw If_protocol
       (text_where (\<lambda>s. canonical_iso s \<noteq> None) (field r ''signaturePublishedAt''))) (\<lambda>published.
     Inr \<lparr>mi_clean = (verdict = ''clean''), mi_engine = engine, mi_engineVersion = version,
          mi_signatureVersion = signature, mi_signaturePublishedAt = published,
          mi_detectionCount = detections\<rparr>)))))))))"

definition inspect_pdf :: "json \<Rightarrow> inspection_failure + pdf_inspection" where
  "inspect_pdf v =
     and_then (or_throw If_protocol (record_with [''schemaVersion'', ''outcome'', ''engine'',
         ''engineVersion'', ''pdfVersion'', ''pageCount'', ''objectCount'', ''revisionCount'',
         ''warningCount''] (Some v))) (\<lambda>r.
     and_then (throw_unless (field r ''schemaVersion'' = Some (jint 1)) If_protocol) (\<lambda>_.
     and_then (or_throw If_protocol (pdf_outcome_at (field r ''outcome''))) (\<lambda>outcome.
     and_then (or_throw If_protocol
       (text_where (\<lambda>s. s = ''unknown'' \<or> s \<in> set supported_pdf_versions) (field r ''pdfVersion'')))
       (\<lambda>pdfVersion.
     and_then (or_throw If_protocol (nullable_integer 1 max_page_count (field r ''pageCount''))) (\<lambda>pages.
     and_then (or_throw If_protocol (nullable_integer 1 max_object_count (field r ''objectCount'')))
       (\<lambda>objects.
     and_then (or_throw If_protocol (nullable_integer 1 max_revision_count (field r ''revisionCount'')))
       (\<lambda>revisions.
     and_then (or_throw If_protocol (integer_within 0 max_warning_count (field r ''warningCount'')))
       (\<lambda>warnings.
     and_then (throw_unless (\<not> structurally_valid outcome
         \<or> structure_complete pdfVersion pages objects revisions warnings) If_protocol) (\<lambda>_.
     and_then (or_throw If_protocol (text_where (wire_identifier 64) (field r ''engine''))) (\<lambda>engine.
     and_then (or_throw If_protocol (text_where (wire_identifier 128) (field r ''engineVersion'')))
       (\<lambda>version.
     Inr \<lparr>pi_outcome = outcome, pi_engine = engine, pi_engineVersion = version,
          pi_pdfVersion = pdfVersion, pi_pageCount = pages, pi_objectCount = objects,
          pi_revisionCount = revisions, pi_warningCount = warnings\<rparr>)))))))))))"

section \<open>The service's own check\<close>

definition malware_inspection_ok :: "malware_inspection \<Rightarrow> bool" where
  "malware_inspection_ok m \<longleftrightarrow>
     wire_identifier 64 (mi_engine m) \<and> wire_identifier 128 (mi_engineVersion m)
     \<and> wire_identifier 128 (mi_signatureVersion m) \<and> canonical_iso (mi_signaturePublishedAt m) \<noteq> None
     \<and> bounded_integer 0 max_detection_count (mi_detectionCount m)
     \<and> (if mi_clean m then mi_detectionCount m = NInt 0 else 1 \<le> num_val (mi_detectionCount m))"

fun nullable_within :: "int \<Rightarrow> int \<Rightarrow> jnum option \<Rightarrow> bool" where
  "nullable_within lo hi None \<longleftrightarrow> True"
| "nullable_within lo hi (Some n) \<longleftrightarrow> bounded_integer lo hi n"

lemma nullable_within_iff: "nullable_within lo hi c \<longleftrightarrow> pred_option (bounded_integer lo hi) c"
  by (cases c) simp_all

definition pdf_inspection_ok :: "pdf_inspection \<Rightarrow> bool" where
  "pdf_inspection_ok p \<longleftrightarrow>
     wire_identifier 64 (pi_engine p) \<and> wire_identifier 128 (pi_engineVersion p)
     \<and> (pi_pdfVersion p = ''unknown'' \<or> pi_pdfVersion p \<in> set supported_pdf_versions)
     \<and> nullable_within 1 max_page_count (pi_pageCount p)
     \<and> nullable_within 1 max_object_count (pi_objectCount p)
     \<and> nullable_within 1 max_revision_count (pi_revisionCount p)
     \<and> bounded_integer 0 max_warning_count (pi_warningCount p)
     \<and> (\<not> structurally_valid (pi_outcome p)
        \<or> structure_complete (pi_pdfVersion p) (pi_pageCount p) (pi_objectCount p) (pi_revisionCount p)
            (pi_warningCount p))"

lemma inspect_malware_cases:
  assumes "inspect_malware v = Inr m"
  obtains verdict detections engine version signature published where
    "m = \<lparr>mi_clean = (verdict = ''clean''), mi_engine = engine, mi_engineVersion = version,
          mi_signatureVersion = signature, mi_signaturePublishedAt = published, mi_detectionCount = detections\<rparr>"
    "verdict = ''clean'' \<or> verdict = ''infected''"
    "bounded_integer 0 max_detection_count detections"
    "\<not> ((verdict = ''clean'' \<and> detections \<noteq> NInt 0) \<or> (verdict = ''infected'' \<and> num_val detections < 1))"
    "wire_identifier 64 engine" "wire_identifier 128 version" "wire_identifier 128 signature"
    "canonical_iso published \<noteq> None"
  using assms unfolding inspect_malware_def
  by (elim and_then_InrE, simp only: or_throw_Inr_iff throw_unless_Inr_iff integer_within_Some_iff
      text_where_Some_iff sum.inject, elim conjE)
    (drule sym, assumption)

lemma inspect_malware_ok: "inspect_malware v = Inr m \<Longrightarrow> malware_inspection_ok m"
  by (erule inspect_malware_cases) (auto simp: malware_inspection_ok_def)

lemma inspect_pdf_cases:
  assumes "inspect_pdf v = Inr p"
  obtains outcome pdfVersion pages objects revisions warnings engine version where
    "p = \<lparr>pi_outcome = outcome, pi_engine = engine, pi_engineVersion = version,
          pi_pdfVersion = pdfVersion, pi_pageCount = pages, pi_objectCount = objects,
          pi_revisionCount = revisions, pi_warningCount = warnings\<rparr>"
    "pdfVersion = ''unknown'' \<or> pdfVersion \<in> set supported_pdf_versions"
    "pred_option (bounded_integer 1 max_page_count) pages"
    "pred_option (bounded_integer 1 max_object_count) objects"
    "pred_option (bounded_integer 1 max_revision_count) revisions"
    "bounded_integer 0 max_warning_count warnings"
    "\<not> structurally_valid outcome \<or> structure_complete pdfVersion pages objects revisions warnings"
    "wire_identifier 64 engine" "wire_identifier 128 version"
  using assms unfolding inspect_pdf_def
  by (elim and_then_InrE, simp only: or_throw_Inr_iff throw_unless_Inr_iff integer_within_Some_iff
      text_where_Some_iff sum.inject, elim conjE)
    (drule sym, (drule nullable_integer_bounded)+, assumption)

lemma inspect_pdf_ok: "inspect_pdf v = Inr p \<Longrightarrow> pdf_inspection_ok p"
  by (erule inspect_pdf_cases) (simp add: pdf_inspection_ok_def nullable_within_iff)

section \<open>The answer\<close>

record validator_configuration =
  vc_policyVersion :: string
  vc_toolchainDigest :: string
  vc_validationTimeoutMs :: int
  vc_maxPageCount :: int
  vc_maxObjectCount :: int
  vc_maxRevisionCount :: int

record validation_request =
  vr_expectedSha256 :: string
  vr_expectedSizeBytes :: nat
  vr_storageVersion :: string

text \<open>The readings of the wall clock and of the monotonic clock, in the order the service takes them.\<close>

record validator_clocks =
  wc_scannedAt :: "millis option"
  wc_malwareMs :: int
  wc_checkedAt :: "millis option"
  wc_pdfMs :: int
  wc_completedAt :: "millis option"
  wc_totalMs :: int

definition canonical_duration :: "int \<Rightarrow> int \<Rightarrow> inspection_failure + int" where
  "canonical_duration elapsed maximum =
     (let v = max 0 elapsed
      in if v > max_safe_integer \<or> v > maximum then Inl If_timeout else Inr v)"

definition inspect_with_timing ::
    "('a \<Rightarrow> bool) \<Rightarrow> inspection_failure + 'a \<Rightarrow> millis option \<Rightarrow> int \<Rightarrow> int
      \<Rightarrow> inspection_failure + ('a \<times> millis \<times> int)" where
  "inspect_with_timing valid operation now elapsed maximum =
     and_then operation (\<lambda>v.
     and_then (throw_unless (valid v) If_protocol) (\<lambda>_.
     and_then (or_throw If_protocol now) (\<lambda>t.
     and_then (canonical_duration elapsed maximum) (\<lambda>took. Inr (v, t, took)))))"

fun exceeds :: "int \<Rightarrow> jnum option \<Rightarrow> bool" where
  "exceeds limit None \<longleftrightarrow> False"
| "exceeds limit (Some n) \<longleftrightarrow> num_val n > limit"

definition exceeds_policy :: "validator_configuration \<Rightarrow> pdf_inspection \<Rightarrow> bool" where
  "exceeds_policy cfg p \<longleftrightarrow>
     structurally_valid (pi_outcome p)
     \<and> (exceeds (vc_maxPageCount cfg) (pi_pageCount p) \<or> exceeds (vc_maxObjectCount cfg) (pi_objectCount p)
        \<or> exceeds (vc_maxRevisionCount cfg) (pi_revisionCount p))"

text \<open>The rejection code, None for an accepted document.\<close>

definition validator_rejection ::
    "validator_configuration \<Rightarrow> malware_inspection \<Rightarrow> pdf_inspection \<Rightarrow> string option" where
  "validator_rejection cfg m p =
     (let valid = structurally_valid (pi_outcome p);
          violation = (pi_outcome p = Pdf_policy_violation \<or> exceeds_policy cfg p)
      in if mi_clean m \<and> valid \<and> \<not> violation then None
         else if \<not> mi_clean m \<and> \<not> valid then Some ''malware_and_pdf_invalid''
         else if \<not> mi_clean m then Some ''malware_detected''
         else if violation then Some ''pdf_policy_violation''
         else if pi_outcome p = Pdf_resource_limit then Some ''pdf_resource_limit_exceeded''
         else Some ''pdf_invalid'')"

fun nullable_text :: "string option \<Rightarrow> json" where
  "nullable_text None = JNull"
| "nullable_text (Some s) = JStr s"

fun nullable_number :: "jnum option \<Rightarrow> json" where
  "nullable_number None = JNull"
| "nullable_number (Some n) = JNum n"

definition validation_json ::
    "validator_configuration \<Rightarrow> validation_request \<Rightarrow> malware_inspection \<times> millis \<times> int
      \<Rightarrow> pdf_inspection \<times> millis \<times> int \<Rightarrow> millis \<Rightarrow> int \<Rightarrow> json" where
  "validation_json cfg req x y completedAt totalMs =
     (case (x, y) of ((m, scannedAt, malwareMs), (p, checkedAt, pdfMs)) \<Rightarrow>
        JObj [(''schemaVersion'', jint 1), (''policyVersion'', JStr (vc_policyVersion cfg)),
          (''storageVersion'', JStr (vr_storageVersion req)),
          (''toolchainDigest'', JStr (vc_toolchainDigest cfg)),
          (''verdict'', JStr (if validator_rejection cfg m p = None then ''accepted'' else ''rejected'')),
          (''rejectionCode'', nullable_text (validator_rejection cfg m p)),
          (''input'', JObj [(''sha256'', JStr (vr_expectedSha256 req)),
             (''sizeBytes'', JStr (decimal (vr_expectedSizeBytes req)))]),
          (''malware'', JObj [(''verdict'', JStr (if mi_clean m then ''clean'' else ''infected'')),
             (''engine'', JStr (mi_engine m)), (''engineVersion'', JStr (mi_engineVersion m)),
             (''signatureVersion'', JStr (mi_signatureVersion m)),
             (''signaturePublishedAt'', JStr (mi_signaturePublishedAt m)),
             (''scannedAt'', JStr (iso_format scannedAt)),
             (''detectionCount'', JNum (mi_detectionCount m)), (''durationMs'', jint malwareMs)]),
          (''pdf'', JObj
            [(''structuralVerdict'', JStr (if structurally_valid (pi_outcome p) then ''valid'' else ''invalid'')),
             (''engine'', JStr (pi_engine p)), (''engineVersion'', JStr (pi_engineVersion p)),
             (''pdfVersion'', JStr (pi_pdfVersion p)), (''pageCount'', nullable_number (pi_pageCount p)),
             (''objectCount'', nullable_number (pi_objectCount p)),
             (''revisionCount'', nullable_number (pi_revisionCount p)),
             (''warningCount'', JNum (pi_warningCount p)),
             (''checkedAt'', JStr (iso_format checkedAt)), (''durationMs'', jint pdfMs)]),
          (''completedAt'', JStr (iso_format completedAt)), (''totalDurationMs'', jint totalMs)])"

definition validate_file ::
    "validator_configuration \<Rightarrow> validation_request \<Rightarrow> validator_clocks
      \<Rightarrow> inspection_failure + malware_inspection \<Rightarrow> inspection_failure + pdf_inspection
      \<Rightarrow> inspection_failure + json" where
  "validate_file cfg req clocks malware pdf =
     and_then (inspect_with_timing malware_inspection_ok malware (wc_scannedAt clocks)
       (wc_malwareMs clocks) (vc_validationTimeoutMs cfg)) (\<lambda>(m, scannedAt, malwareMs).
     and_then (throw_unless (the (canonical_iso (mi_signaturePublishedAt m)) \<le> scannedAt) If_protocol) (\<lambda>_.
     and_then (inspect_with_timing pdf_inspection_ok pdf (wc_checkedAt clocks)
       (wc_pdfMs clocks) (vc_validationTimeoutMs cfg)) (\<lambda>(p, checkedAt, pdfMs).
     and_then (throw_unless (scannedAt \<le> checkedAt) If_protocol) (\<lambda>_.
     and_then (or_throw If_protocol (wc_completedAt clocks)) (\<lambda>completedAt.
     and_then (throw_unless (checkedAt \<le> completedAt) If_protocol) (\<lambda>_.
     and_then (canonical_duration (wc_totalMs clocks) (vc_validationTimeoutMs cfg)) (\<lambda>totalMs.
     and_then (throw_unless (malwareMs \<le> totalMs \<and> pdfMs \<le> totalMs) If_protocol) (\<lambda>_.
     Inr (validation_json cfg req (m, scannedAt, malwareMs) (p, checkedAt, pdfMs) completedAt totalMs)))))))))"

end
