(* ===== verification/Validation_Agreement.thy ===== *)
theory Validation_Agreement
  imports Validation_Service
begin

text \<open>
  The validator service against the contract of its client: what \<open>validateFile\<close> answers for a matching
  request passes \<open>parseExternalDocumentValidationResponse\<close>, part by part.
\<close>

section \<open>What an answer says\<close>

record completed_validation =
  cv_malware :: malware_inspection
  cv_scannedAt :: millis
  cv_malwareMs :: int
  cv_pdf :: pdf_inspection
  cv_checkedAt :: millis
  cv_pdfMs :: int
  cv_completedAt :: millis
  cv_totalMs :: int

definition completed_json :: "validator_configuration \<Rightarrow> validation_request \<Rightarrow> completed_validation \<Rightarrow> json" where
  "completed_json cfg req x =
     validation_json cfg req (cv_malware x, cv_scannedAt x, cv_malwareMs x)
       (cv_pdf x, cv_checkedAt x, cv_pdfMs x) (cv_completedAt x) (cv_totalMs x)"

definition completed_ok :: "validator_configuration \<Rightarrow> completed_validation \<Rightarrow> bool" where
  "completed_ok cfg x \<longleftrightarrow>
     malware_inspection_ok (cv_malware x) \<and> pdf_inspection_ok (cv_pdf x)
     \<and> the (canonical_iso (mi_signaturePublishedAt (cv_malware x))) \<le> cv_scannedAt x
     \<and> cv_scannedAt x \<le> cv_checkedAt x \<and> cv_checkedAt x \<le> cv_completedAt x
     \<and> 0 \<le> cv_malwareMs x \<and> 0 \<le> cv_pdfMs x
     \<and> cv_malwareMs x \<le> cv_totalMs x \<and> cv_pdfMs x \<le> cv_totalMs x
     \<and> cv_totalMs x \<le> vc_validationTimeoutMs cfg \<and> cv_totalMs x \<le> max_safe_integer"

lemma canonical_duration_Inr_iff:
  "canonical_duration elapsed maximum = Inr d \<longleftrightarrow>
     d = max 0 elapsed \<and> d \<le> max_safe_integer \<and> d \<le> maximum"
  by (auto simp: canonical_duration_def Let_def)

lemma inspect_with_timing_facts:
  assumes "inspect_with_timing valid operation now elapsed maximum = Inr (v, t, took)"
  shows "operation = Inr v" "valid v" "now = Some t" "0 \<le> took" "took \<le> max_safe_integer"
  using assms by (auto simp: inspect_with_timing_def and_then_Inr_iff canonical_duration_Inr_iff)

lemma validate_file_facts:
  assumes "validate_file cfg req clocks malware pdf = Inr body"
  obtains x where "malware = Inr (cv_malware x)" "pdf = Inr (cv_pdf x)"
    "wc_scannedAt clocks = Some (cv_scannedAt x)" "wc_checkedAt clocks = Some (cv_checkedAt x)"
    "wc_completedAt clocks = Some (cv_completedAt x)" "cv_totalMs x = max 0 (wc_totalMs clocks)"
    "completed_ok cfg x" "body = completed_json cfg req x"
proof -
  from assms obtain m scannedAt malwareMs p checkedAt pdfMs completedAt totalMs where
    m: "inspect_with_timing malware_inspection_ok malware (wc_scannedAt clocks)
       (wc_malwareMs clocks) (vc_validationTimeoutMs cfg) = Inr (m, scannedAt, malwareMs)"
    and p: "inspect_with_timing pdf_inspection_ok pdf (wc_checkedAt clocks)
       (wc_pdfMs clocks) (vc_validationTimeoutMs cfg) = Inr (p, checkedAt, pdfMs)"
    and t: "wc_completedAt clocks = Some completedAt"
      "canonical_duration (wc_totalMs clocks) (vc_validationTimeoutMs cfg) = Inr totalMs"
    and c: "the (canonical_iso (mi_signaturePublishedAt m)) \<le> scannedAt" "scannedAt \<le> checkedAt"
      "checkedAt \<le> completedAt" "malwareMs \<le> totalMs" "pdfMs \<le> totalMs"
    and b: "body = validation_json cfg req (m, scannedAt, malwareMs) (p, checkedAt, pdfMs) completedAt totalMs"
    unfolding validate_file_def by (fastforce simp: and_then_Inr_iff)
  from t(2) have d: "totalMs = max 0 (wc_totalMs clocks)" "totalMs \<le> max_safe_integer"
    "totalMs \<le> vc_validationTimeoutMs cfg" unfolding canonical_duration_Inr_iff by blast+
  note m' = inspect_with_timing_facts [OF m] and p' = inspect_with_timing_facts [OF p]
  show thesis
    by (rule that [of "\<lparr>cv_malware = m, cv_scannedAt = scannedAt, cv_malwareMs = malwareMs, cv_pdf = p,
        cv_checkedAt = checkedAt, cv_pdfMs = pdfMs, cv_completedAt = completedAt, cv_totalMs = totalMs\<rparr>"])
      (use m' p' t(1) d c b in \<open>simp_all add: completed_json_def completed_ok_def\<close>)
qed

section \<open>Matching expectations\<close>

definition validation_request_matches ::
    "validator_configuration \<Rightarrow> validation_request \<Rightarrow> validation_expectations \<Rightarrow> bool" where
  "validation_request_matches cfg req e \<longleftrightarrow>
     vr_expectedSha256 req = ve_expectedSha256 e
     \<and> int (vr_expectedSizeBytes req) = ve_expectedSizeBytes e
     \<and> vr_storageVersion req = ve_expectedStorageVersion e
     \<and> vc_policyVersion cfg = ve_expectedPolicyVersion e \<and> sha256_pattern (vc_toolchainDigest cfg)"

definition validated_in_time :: "validation_expectations \<Rightarrow> completed_validation \<Rightarrow> bool" where
  "validated_in_time e x \<longleftrightarrow>
     four_digit_year (cv_scannedAt x) \<and> four_digit_year (cv_checkedAt x) \<and> four_digit_year (cv_completedAt x)
     \<and> (case ve_now e of None \<Rightarrow> False
        | Some now \<Rightarrow> cv_completedAt x \<le> now + num_val (ve_futureClockSkewMs e)
            \<and> now - the (canonical_iso (mi_signaturePublishedAt (cv_malware x)))
                \<le> num_val (ve_signatureMaxAgeMs e))
     \<and> cv_totalMs x \<le> num_val (ve_maxDurationMs e)"

definition answered_identity :: "validator_configuration \<Rightarrow> completed_validation \<Rightarrow> validation_identity" where
  "answered_identity cfg x =
     \<lparr>vx_accepted = (validator_rejection cfg (cv_malware x) (cv_pdf x) = None),
      vx_rejectionCode = validator_rejection cfg (cv_malware x) (cv_pdf x),
      vx_toolchainDigest = vc_toolchainDigest cfg\<rparr>"

definition answered_malware :: "completed_validation \<Rightarrow> malware_finding" where
  "answered_malware x =
     (let m = cv_malware x
      in \<lparr>mf_clean = mi_clean m, mf_engine = mi_engine m, mf_engineVersion = mi_engineVersion m,
          mf_signatureVersion = mi_signatureVersion m,
          mf_signaturePublishedAt = the (canonical_iso (mi_signaturePublishedAt m)),
          mf_scannedAt = cv_scannedAt x, mf_detectionCount = mi_detectionCount m,
          mf_durationMs = NInt (cv_malwareMs x)\<rparr>)"

definition answered_pdf :: "completed_validation \<Rightarrow> pdf_finding" where
  "answered_pdf x =
     (let p = cv_pdf x
      in \<lparr>pf_valid = structurally_valid (pi_outcome p), pf_engine = pi_engine p,
          pf_engineVersion = pi_engineVersion p, pf_pdfVersion = pi_pdfVersion p,
          pf_pageCount = pi_pageCount p, pf_objectCount = pi_objectCount p,
          pf_revisionCount = pi_revisionCount p, pf_warningCount = pi_warningCount p,
          pf_checkedAt = cv_checkedAt x, pf_durationMs = NInt (cv_pdfMs x)\<rparr>)"

lemma canonical_size_decimal:
  assumes "0 < n" "int n \<le> max_safe_integer"
  shows "canonical_size (decimal n)"
proof -
  have "n < 10 ^ 16" using assms(2) by (simp add: max_safe_integer_def)
  then show ?thesis
    using length_decimal [of 16 n] positive_decimal_decimal [OF assms(1)] by (simp add: canonical_size_def)
qed

lemma validator_rejection_read:
  "rejection_code_at (Some (nullable_text (validator_rejection cfg m p))) = Some (validator_rejection cfg m p)"
  by (simp add: validator_rejection_def Let_def validation_rejection_codes_def)

lemma nullable_integer_number:
  "pred_option (bounded_integer lo hi) c \<Longrightarrow> nullable_integer lo hi (Some (nullable_number c)) = Some c"
  by (cases c) simp_all

section \<open>The parts of the answer\<close>

lemma answer_validation_record:
  "json_object (completed_json cfg req x) = Some r
    \<Longrightarrow> record_with validation_keys (Some (completed_json cfg req x)) = Some r"
  by (auto simp: completed_json_def validation_json_def exact_keys_def obj_keys_def validation_keys_def)

lemma answer_validation_bindings:
  assumes "validation_request_matches cfg req e" "validation_expectations_ok e"
    and "json_object (completed_json cfg req x) = Some r"
  shows "validation_bindings e r = Inr (answered_identity cfg x)"
proof -
  have k: "exact_keys [(''sha256'', a), (''sizeBytes'', b)] [''sha256'', ''sizeBytes'']" for a b
    by (simp add: exact_keys_def obj_keys_def)
  have s: "canonical_size (decimal (vr_expectedSizeBytes req))"
    using assms(1,2) by (intro canonical_size_decimal)
      (auto simp: validation_request_matches_def validation_expectations_ok_def)
  show ?thesis
    using assms s
    by (auto simp: completed_json_def validation_json_def validation_bindings_def field_def or_throw_def k
        validation_request_matches_def validation_expectations_ok_def digits_val_decimal
        validator_rejection_read answered_identity_def)
qed

lemma answer_malware:
  assumes "completed_ok cfg x" "validated_in_time e x"
    and "json_object (completed_json cfg req x) = Some r"
  shows "malware_of_response e r = Inr (answered_malware x)"
proof -
  let ?m = "cv_malware x"
  obtain published where p: "canonical_iso (mi_signaturePublishedAt ?m) = Some published"
    using assms(1) by (auto simp: completed_ok_def malware_inspection_ok_def)
  have k: "exact_keys [(''verdict'', a), (''engine'', b), (''engineVersion'', c), (''signatureVersion'', d),
     (''signaturePublishedAt'', f), (''scannedAt'', g), (''detectionCount'', h), (''durationMs'', i)]
     malware_keys" for a b c d f g h i
    by (simp add: exact_keys_def obj_keys_def malware_keys_def)
  have d: "bounded_integer 0 (num_val (ve_maxDurationMs e)) (NInt (cv_malwareMs x))"
    using assms(1,2) by (simp add: completed_ok_def validated_in_time_def)
  have "canonical_iso (iso_format (cv_scannedAt x)) = Some (cv_scannedAt x)"
    using assms(2) by (intro iso_round_trip) (simp add: validated_in_time_def)
  with assms p d show ?thesis
    by (cases "mi_clean ?m") (auto simp: completed_json_def validation_json_def malware_of_response_def
        field_def or_throw_def k completed_ok_def malware_inspection_ok_def answered_malware_def Let_def)
qed

lemma answer_pdf:
  assumes "completed_ok cfg x" "validated_in_time e x"
    and "json_object (completed_json cfg req x) = Some r"
  shows "pdf_of_response e r = Inr (answered_pdf x)"
proof -
  have k: "exact_keys [(''structuralVerdict'', a), (''engine'', b), (''engineVersion'', c), (''pdfVersion'', d),
     (''pageCount'', f), (''objectCount'', g), (''revisionCount'', h), (''warningCount'', i),
     (''checkedAt'', j), (''durationMs'', l)] pdf_keys" for a b c d f g h i j l
    by (simp add: exact_keys_def obj_keys_def pdf_keys_def)
  have d: "bounded_integer 0 (num_val (ve_maxDurationMs e)) (NInt (cv_pdfMs x))"
    using assms(1,2) by (simp add: completed_ok_def validated_in_time_def)
  have "canonical_iso (iso_format (cv_checkedAt x)) = Some (cv_checkedAt x)"
    using assms(2) by (intro iso_round_trip) (simp add: validated_in_time_def)
  with assms d show ?thesis
    by (cases "structurally_valid (pi_outcome (cv_pdf x))")
      (auto simp: completed_json_def validation_json_def pdf_of_response_def
        field_def or_throw_def k completed_ok_def pdf_inspection_ok_def nullable_within_iff answered_pdf_def Let_def
        nullable_integer_number)
qed

lemma answer_times:
  assumes "completed_ok cfg x" "validated_in_time e x" "validation_expectations_ok e"
    and "json_object (completed_json cfg req x) = Some r"
  shows "validation_times e r (answered_malware x) (answered_pdf x)
    = Inr (cv_completedAt x, NInt (cv_totalMs x))"
proof -
  have b: "0 \<le> cv_totalMs x" "cv_totalMs x \<le> max_safe_integer" "cv_totalMs x \<le> num_val (ve_maxDurationMs e)"
    using assms(1,2) by (simp_all add: completed_ok_def validated_in_time_def)
  obtain now where now: "ve_now e = Some now" using assms(3) by (auto simp: validation_expectations_ok_def)
  have y: "canonical_iso (iso_format (cv_completedAt x)) = Some (cv_completedAt x)"
    using assms(2) by (intro iso_round_trip) (simp add: validated_in_time_def)
  let ?published = "the (canonical_iso (mi_signaturePublishedAt (cv_malware x)))"
  let ?latest = "now + num_val (ve_futureClockSkewMs e)"
  have c: "?published \<le> cv_scannedAt x" "cv_scannedAt x \<le> cv_checkedAt x" "cv_checkedAt x \<le> cv_completedAt x"
    "cv_malwareMs x \<le> cv_totalMs x" "cv_pdfMs x \<le> cv_totalMs x"
    using assms(1) by (simp_all add: completed_ok_def)
  have w: "cv_completedAt x \<le> ?latest" "now - ?published \<le> num_val (ve_signatureMaxAgeMs e)"
    using assms(2) now by (simp_all add: validated_in_time_def)
  have l: "?published \<le> ?latest" "cv_scannedAt x \<le> ?latest" "cv_checkedAt x \<le> ?latest"
    "cv_scannedAt x \<le> cv_completedAt x" using c w(1) by linarith+
  have f: "field r ''completedAt'' = Some (JStr (iso_format (cv_completedAt x)))"
    "field r ''totalDurationMs'' = Some (jint (cv_totalMs x))"
    using assms(4) by (auto simp: completed_json_def validation_json_def field_def)
  show ?thesis
    using b y c w l by (simp add: validation_times_def f or_throw_def now Let_def answered_malware_def
        answered_pdf_def)
qed

lemma answer_verdict:
  "verdict_consistent (answered_identity cfg x) (mf_clean (answered_malware x)) (pf_valid (answered_pdf x))"
  by (cases "pi_outcome (cv_pdf x)")
    (auto simp: verdict_consistent_def answered_identity_def answered_malware_def answered_pdf_def Let_def
      validator_rejection_def exceeds_policy_def structurally_valid_def)

definition answered_validation ::
    "validation_expectations \<Rightarrow> validator_configuration \<Rightarrow> completed_validation \<Rightarrow> validated_attestation" where
  "answered_validation e cfg x =
     validation_attestation_of e (answered_identity cfg x) (answered_malware x) (answered_pdf x)
       (cv_completedAt x) (NInt (cv_totalMs x))"

lemma answer_accepted:
  assumes "completed_ok cfg x" "validated_in_time e x" "validation_expectations_ok e"
    and "validation_request_matches cfg req e"
  shows "parse_validation_response (completed_json cfg req x) e = Inr (answered_validation e cfg x)"
proof -
  obtain r where r: "json_object (completed_json cfg req x) = Some r"
    by (simp add: completed_json_def validation_json_def)
  show ?thesis
    using assms(3) answer_validation_record [OF r] answer_validation_bindings [OF assms(4,3) r]
      answer_malware [OF assms(1,2) r] answer_pdf [OF assms(1,2) r] answer_times [OF assms(1-3) r] answer_verdict
    by (simp add: parse_validation_response_def or_throw_def answered_validation_def)
qed

text \<open>The verdict, as the policy states it.\<close>

definition document_acceptable :: "validator_configuration \<Rightarrow> malware_inspection \<Rightarrow> pdf_inspection \<Rightarrow> bool" where
  "document_acceptable cfg m p \<longleftrightarrow>
     mi_clean m \<and> pi_outcome p = Pdf_valid
     \<and> \<not> exceeds (vc_maxPageCount cfg) (pi_pageCount p) \<and> \<not> exceeds (vc_maxObjectCount cfg) (pi_objectCount p)
     \<and> \<not> exceeds (vc_maxRevisionCount cfg) (pi_revisionCount p)"

lemma validator_rejection_None_iff: "validator_rejection cfg m p = None \<longleftrightarrow> document_acceptable cfg m p"
  by (cases "pi_outcome p") (auto simp: validator_rejection_def document_acceptable_def Let_def
      exceeds_policy_def structurally_valid_def)

end
