(* ===== verification/Validation_Service_Properties.thy ===== *)
theory Validation_Service_Properties
  imports Validation_Agreement
begin

text \<open>
  The properties of the validator service and of its contract, on a concrete run: a clean two-page
  document reported by the runners, answered, accepted and attested.
\<close>

section \<open>A document\<close>

definition sample_hash :: string where "sample_hash = replicate 64 (CHR ''b'')"

definition sample_malware_report :: json where
  "sample_malware_report = JObj [(''schemaVersion'', jint 1), (''verdict'', JStr ''clean''),
     (''engine'', JStr ''clamav''), (''engineVersion'', JStr ''1.4.1''), (''signatureVersion'', JStr ''27400''),
     (''signaturePublishedAt'', JStr ''1970-01-01T00:00:00.500Z''), (''detectionCount'', jint 0)]"

definition sample_pdf_report :: json where
  "sample_pdf_report = JObj [(''schemaVersion'', jint 1), (''outcome'', JStr ''valid''),
     (''engine'', JStr ''qpdf''), (''engineVersion'', JStr ''11.9.1''), (''pdfVersion'', JStr ''1.7''),
     (''pageCount'', jint 2), (''objectCount'', jint 30), (''revisionCount'', jint 1), (''warningCount'', jint 0)]"

definition sample_validator :: validator_configuration where
  "sample_validator = \<lparr>vc_policyVersion = ''paperpilot-pdf-validation-v1'', vc_toolchainDigest = sample_hash,
     vc_validationTimeoutMs = 60000, vc_maxPageCount = 2000, vc_maxObjectCount = 500000,
     vc_maxRevisionCount = 100\<rparr>"

definition sample_validation_request :: validation_request where
  "sample_validation_request = \<lparr>vr_expectedSha256 = sample_hash, vr_expectedSizeBytes = 1234,
     vr_storageVersion = ''local-quarantine-v2''\<rparr>"

definition sample_validator_clocks :: validator_clocks where
  "sample_validator_clocks = \<lparr>wc_scannedAt = Some 1000, wc_malwareMs = 20, wc_checkedAt = Some 1050,
     wc_pdfMs = 30, wc_completedAt = Some 1060, wc_totalMs = 55\<rparr>"

definition sample_validation_expectations :: validation_expectations where
  "sample_validation_expectations = \<lparr>ve_expectedSha256 = sample_hash, ve_expectedSizeBytes = 1234,
     ve_expectedStorageVersion = ''local-quarantine-v2'',
     ve_expectedPolicyVersion = ''paperpilot-pdf-validation-v1'', ve_now = Some 1200,
     ve_signatureMaxAgeMs = NInt 86400000, ve_futureClockSkewMs = NInt 300000, ve_maxDurationMs = NInt 90000\<rparr>"

definition sample_completed :: completed_validation where
  "sample_completed =
     \<lparr>cv_malware = \<lparr>mi_clean = True, mi_engine = ''clamav'', mi_engineVersion = ''1.4.1'',
        mi_signatureVersion = ''27400'', mi_signaturePublishedAt = ''1970-01-01T00:00:00.500Z'',
        mi_detectionCount = NInt 0\<rparr>,
      cv_scannedAt = 1000, cv_malwareMs = 20,
      cv_pdf = \<lparr>pi_outcome = Pdf_valid, pi_engine = ''qpdf'', pi_engineVersion = ''11.9.1'',
        pi_pdfVersion = ''1.7'', pi_pageCount = Some (NInt 2), pi_objectCount = Some (NInt 30),
        pi_revisionCount = Some (NInt 1), pi_warningCount = NInt 0\<rparr>,
      cv_checkedAt = 1050, cv_pdfMs = 30, cv_completedAt = 1060, cv_totalMs = 55\<rparr>"

lemma sample_runner_reports:
  "inspect_malware sample_malware_report = Inr (cv_malware sample_completed)"
  "inspect_pdf sample_pdf_report = Inr (cv_pdf sample_completed)"
  by code_simp+

lemma sample_validated:
  "validate_file sample_validator sample_validation_request sample_validator_clocks
     (inspect_malware sample_malware_report) (inspect_pdf sample_pdf_report)
   = Inr (completed_json sample_validator sample_validation_request sample_completed)"
  by code_simp

section \<open>Properties\<close>

text \<open>
  C6. Whatever the runners report, the validator's answer to a matching request, in time and in the
  clock window, is accepted by the contract of the client, the attestation passes the job's
  \<open>assertAttestation\<close>, and its verdict is ACCEPTED exactly for a clean, valid PDF within the service's
  page, object and revision limits.
\<close>

theorem validator_answer_accepted:
  assumes "validate_file cfg req clocks (inspect_malware vm) (inspect_pdf vp) = Inr body"
    and "validation_request_matches cfg req e" "validation_expectations_ok e"
    and "\<forall>x. wc_scannedAt clocks = Some (cv_scannedAt x) \<longrightarrow> wc_checkedAt clocks = Some (cv_checkedAt x)
      \<longrightarrow> wc_completedAt clocks = Some (cv_completedAt x) \<longrightarrow> cv_totalMs x = max 0 (wc_totalMs clocks)
      \<longrightarrow> inspect_malware vm = Inr (cv_malware x) \<longrightarrow> validated_in_time e x"
    and "safe_value_pattern (ve_expectedStorageVersion e)" "num_val (ve_maxDurationMs e) \<le> 120000"
  shows "\<exists>a m p. parse_validation_response body e = Inr a \<and> assert_attestation a = Inr ()
    \<and> inspect_malware vm = Inr m \<and> inspect_pdf vp = Inr p
    \<and> (va_verdict a = ACCEPTED \<longleftrightarrow> document_acceptable cfg m p)
    \<and> va_rejectionCode a = validator_rejection cfg m p"
proof -
  from assms(1) obtain x where x: "inspect_malware vm = Inr (cv_malware x)" "inspect_pdf vp = Inr (cv_pdf x)"
    "wc_scannedAt clocks = Some (cv_scannedAt x)" "wc_checkedAt clocks = Some (cv_checkedAt x)"
    "wc_completedAt clocks = Some (cv_completedAt x)" "cv_totalMs x = max 0 (wc_totalMs clocks)"
    "completed_ok cfg x" "body = completed_json cfg req x"
    by (rule validate_file_facts)
  have p: "parse_validation_response body e = Inr (answered_validation e cfg x)"
    using answer_accepted [OF x(7) _ assms(3,2)] assms(4) x by simp
  have "assert_attestation (answered_validation e cfg x) = Inr ()"
    by (rule accepted_validation_attested [OF p assms(5,6)])
  then show ?thesis
    using p x(1,2) validator_rejection_None_iff [of cfg "cv_malware x" "cv_pdf x"]
    by (auto simp: answered_validation_def validation_attestation_of_def answered_identity_def)
qed

theorem validator_answer_accepted_witness:
  "\<exists>a. parse_validation_response (completed_json sample_validator sample_validation_request sample_completed)
        sample_validation_expectations = Inr a
    \<and> va_verdict a = ACCEPTED \<and> assert_attestation a = Inr ()"
proof -
  have c: "validation_request_matches sample_validator sample_validation_request sample_validation_expectations"
    "validation_expectations_ok sample_validation_expectations"
    "safe_value_pattern (ve_expectedStorageVersion sample_validation_expectations)"
    "num_val (ve_maxDurationMs sample_validation_expectations) \<le> 120000"
    "document_acceptable sample_validator (cv_malware sample_completed) (cv_pdf sample_completed)"
    by code_simp+
  have y: "four_digit_year 1000" "four_digit_year 1050" "four_digit_year 1060"
    "canonical_iso ''1970-01-01T00:00:00.500Z'' = Some 500" by code_simp+
  have "validated_in_time sample_validation_expectations x"
    if "wc_scannedAt sample_validator_clocks = Some (cv_scannedAt x)"
      "wc_checkedAt sample_validator_clocks = Some (cv_checkedAt x)"
      "wc_completedAt sample_validator_clocks = Some (cv_completedAt x)"
      "cv_totalMs x = max 0 (wc_totalMs sample_validator_clocks)"
      "inspect_malware sample_malware_report = Inr (cv_malware x)" for x
    using that y by (auto simp: sample_runner_reports validated_in_time_def sample_validator_clocks_def
        sample_validation_expectations_def sample_completed_def dest!: sym [of _ "cv_malware x"])
  then show ?thesis
    using validator_answer_accepted [OF sample_validated c(1,2) _ c(3,4)] c(5)
    by (auto simp: sample_runner_reports)
qed

text \<open>
  C39. What the validation contract guarantees by itself, whoever answers: an accepted response is bound
  to the expected digest, size, storage and policy, its signatures are fresh at the client's clock, its
  times are in order inside the clock window, a verdict ACCEPTED comes with a clean scan and a valid
  structure, and it is an attestation the job code takes.
\<close>

theorem validation_contract_sound:
  assumes "parse_validation_response v e = Inr a"
    and "safe_value_pattern (ve_expectedStorageVersion e)" "num_val (ve_maxDurationMs e) \<le> 120000"
  shows "assert_attestation a = Inr ()
    \<and> va_inputSha256 a = ve_expectedSha256 e \<and> va_inputSizeBytes a = ve_expectedSizeBytes e
    \<and> va_storageVersion a = ve_expectedStorageVersion e \<and> va_policyVersion a = ve_expectedPolicyVersion e
    \<and> (\<exists>s m p now. va_signaturePublishedAt a = Some s \<and> va_scannedAt a = Some m \<and> va_checkedAt a = Some p
         \<and> ve_now e = Some now \<and> s \<le> m \<and> m \<le> p \<and> p \<le> now + num_val (ve_futureClockSkewMs e)
         \<and> now - s \<le> num_val (ve_signatureMaxAgeMs e))
    \<and> (va_verdict a = ACCEPTED \<longrightarrow> va_malwareVerdict a = CLEAN \<and> va_pdfStructuralVerdict a = VALID
         \<and> va_rejectionCode a = None)"
proof -
  from assms(1) obtain r i m p completed whole where exp: "validation_expectations_ok e"
    and t: "validation_times e r m p = Inr (completed, whole)"
    and c: "verdict_consistent i (mf_clean m) (pf_valid p)"
    and a: "a = validation_attestation_of e i m p completed whole"
    by (rule parse_validation_parts)
  note tm = validation_times_cases [OF t]
  obtain now where "ve_now e = Some now" using exp by (auto simp: validation_expectations_ok_def)
  then show ?thesis
    using accepted_validation_attested [OF assms] tm(3-5) c
    by (auto simp: a validation_attestation_of_def verdict_consistent_def split: if_splits)
qed

theorem validation_contract_sound_witness:
  "\<exists>a. parse_validation_response (completed_json sample_validator sample_validation_request sample_completed)
        sample_validation_expectations = Inr a
    \<and> va_inputSha256 a = sample_hash \<and> assert_attestation a = Inr ()"
proof -
  have c: "safe_value_pattern (ve_expectedStorageVersion sample_validation_expectations)"
    "num_val (ve_maxDurationMs sample_validation_expectations) \<le> 120000" by code_simp+
  let ?r = "parse_validation_response
    (completed_json sample_validator sample_validation_request sample_completed) sample_validation_expectations"
  have "case ?r of Inr a \<Rightarrow> True | Inl e \<Rightarrow> False" by code_simp
  then obtain a where "?r = Inr a" by (cases ?r) auto
  from validation_contract_sound [OF this c] this show ?thesis
    by (auto simp: sample_validation_expectations_def)
qed

end
