(* ===== verification/Collaboration_Contract.thy ===== *)
theory Collaboration_Contract
  imports Contract_Values
begin

text \<open>
  The commands of workspace collaboration before they reach the database
  (\<open>src/server/workspaces/collaboration-contract.ts\<close>, \<open>src/lib/workspace-roles.ts\<close>): the closed roles,
  who may grant and manage which role, the validation of the JSON commands, and the mirror of the
  \<open>Idempotency-Key\<close> header. A JSON object is the list of its properties in the order \<open>Object.keys\<close>
  gives them. \<open>toLowerCase\<close> is the parameter \<open>lower\<close>: it is the Unicode case table.
\<close>

section \<open>Problems\<close>

datatype http_problem = Http_problem (problem_status: int) (problem_code: string) (problem_message: string)

abbreviation validation_problem :: "string \<Rightarrow> http_problem" where
  "validation_problem m \<equiv> Http_problem 400 ''validation'' m"

section \<open>Roles\<close>

datatype workspace_role = Owner | Admin | Member | Viewer

fun role_name :: "workspace_role \<Rightarrow> string" where
  "role_name Owner = ''owner''"
| "role_name Admin = ''admin''"
| "role_name Member = ''member''"
| "role_name Viewer = ''viewer''"

definition workspace_roles :: "workspace_role list" where
  "workspace_roles = [Owner, Admin, Member, Viewer]"

definition mutating_roles :: "workspace_role list" where
  "mutating_roles = [Owner, Admin, Member]"

definition managing_roles :: "workspace_role list" where
  "managing_roles = [Owner, Admin]"

text \<open>\<open>isWorkspaceRole\<close> and \<open>isInvitableWorkspaceRole\<close>, with the role they recognise.\<close>

definition workspace_role_of :: "string \<Rightarrow> workspace_role option" where
  "workspace_role_of s = List.find (\<lambda>r. role_name r = s) workspace_roles"

definition invitable_role_of :: "string \<Rightarrow> workspace_role option" where
  "invitable_role_of s =
     (if s = ''admin'' then Some Admin else if s = ''member'' then Some Member
      else if s = ''viewer'' then Some Viewer else None)"

fun invitation_roles_for :: "workspace_role \<Rightarrow> workspace_role list" where
  "invitation_roles_for Owner = [Admin, Member, Viewer]"
| "invitation_roles_for Admin = [Member, Viewer]"
| "invitation_roles_for _ = []"

definition role_invalid :: http_problem where
  "role_invalid = Http_problem 409 ''workspace_role_invalid''
     ''This workspace has an unsupported membership role.''"

definition require_manager :: "string \<Rightarrow> http_problem + workspace_role" where
  "require_manager s =
     and_then (or_throw role_invalid (workspace_role_of s)) (\<lambda>r.
     and_then (throw_unless (r = Owner \<or> r = Admin)
       (Http_problem 403 ''workspace_forbidden'' ''This workspace role cannot manage collaborators.'')) (\<lambda>_.
     Inr r))"

lemma workspace_role_of_name [simp]: "workspace_role_of (role_name r) = Some r"
  by (cases r) (simp_all add: workspace_role_of_def workspace_roles_def)

lemma workspace_role_of_Some_iff: "workspace_role_of s = Some r \<longleftrightarrow> s = role_name r"
  by (cases r) (auto simp: workspace_role_of_def workspace_roles_def)

lemma invitable_role_of_Some_iff: "invitable_role_of s = Some r \<longleftrightarrow> s = role_name r \<and> r \<noteq> Owner"
  by (cases r) (auto simp: invitable_role_of_def)

lemma invitation_roles_for_iff:
  "r \<in> set (invitation_roles_for a) \<longleftrightarrow> (a = Owner \<and> r \<noteq> Owner) \<or> (a = Admin \<and> (r = Member \<or> r = Viewer))"
  by (cases a; cases r) simp_all

section \<open>Reading a command\<close>

text \<open>
  \<open>Object.keys(record).find(...)\<close> and then \<open>if (unexpected)\<close>: an unexpected key that is the empty
  string is falsy and passes.
\<close>

definition object_with_keys :: "string \<Rightarrow> string list \<Rightarrow> json \<Rightarrow> http_problem + fields" where
  "object_with_keys label allowed v =
     (case v of
        JObj r \<Rightarrow>
          (case List.find (\<lambda>k. k \<notin> set allowed) (obj_keys r) of
             None \<Rightarrow> Inr r
           | Some k \<Rightarrow> if k = [] then Inr r
               else Inl (validation_problem (label @ '' contains an unsupported field: '' @ k @ ''.'')))
      | _ \<Rightarrow> Inl (validation_problem (label @ '' must be a JSON object.'')))"

definition command_schema :: "fields \<Rightarrow> http_problem + unit" where
  "command_schema r =
     throw_unless (field r ''schemaVersion'' = Some (jint 1)) (validation_problem ''schemaVersion must be 1.'')"

text \<open>\<open>/^[a-zA-Z0-9._:-]{1,200}$/\<close>\<close>

definition operation_id_pattern :: "string \<Rightarrow> bool" where
  "operation_id_pattern s \<longleftrightarrow>
     s \<noteq> [] \<and> length s \<le> 200 \<and> list_all (\<lambda>c. is_alnum c \<or> one_of ''._:-'' c) s"

definition operation_id :: "json option \<Rightarrow> http_problem + string" where
  "operation_id v = or_throw (validation_problem (''clientOperationId must contain 1 to 200 letters, ''
     @ ''numbers, dots, underscores, colons, or hyphens.'')) (text_where operation_id_pattern v)"

definition expected_version :: "json option \<Rightarrow> http_problem + int" where
  "expected_version v =
     map_sum id num_val (or_throw (validation_problem ''expectedVersion must be a non-negative integer.'')
       (integer_within 0 max_safe_integer v))"

definition invitable_role :: "json option \<Rightarrow> http_problem + workspace_role" where
  "invitable_role v =
     (case v of
        Some (JStr s) \<Rightarrow> or_throw (validation_problem ''role must be admin, member, or viewer.'') (invitable_role_of s)
      | _ \<Rightarrow> Inl (validation_problem ''role must be admin, member, or viewer.''))"

text \<open>\<open>/^[^\s@<>]+@[^\s@<>]+\.[^\s@<>]+$/\<close> and no control character, over code points.\<close>

definition mailbox_point :: "int \<Rightarrow> bool" where
  "mailbox_point p \<longleftrightarrow> \<not> white_point p \<and> p \<noteq> 64 \<and> p \<noteq> 60 \<and> p \<noteq> 62"

definition email_pattern :: "int list \<Rightarrow> bool" where
  "email_pattern ps \<longleftrightarrow>
     (let before_at = takeWhile (\<lambda>p. p \<noteq> 64) ps; rest = dropWhile (\<lambda>p. p \<noteq> 64) ps; domain = tl rest
      in before_at \<noteq> [] \<and> rest \<noteq> [] \<and> list_all mailbox_point before_at \<and> list_all mailbox_point domain
        \<and> 46 \<in> set (butlast (tl domain)))"

definition control_free :: "int list \<Rightarrow> bool" where
  "control_free ps \<longleftrightarrow> list_all (\<lambda>p. 32 \<le> p \<and> p \<noteq> 127) ps"

definition normalize_email :: "(string \<Rightarrow> string) \<Rightarrow> json option \<Rightarrow> http_problem + string" where
  "normalize_email lower v =
     (case v of
        Some (JStr s) \<Rightarrow>
          (let t = lower (js_trim s)
           in if 3 \<le> js_length t \<and> js_length t \<le> 254 \<and> email_pattern (code_points t)
                \<and> control_free (code_points t)
              then Inr t
              else Inl (validation_problem
                ''email must be a valid address containing at most 254 characters.''))
      | _ \<Rightarrow> Inl (validation_problem ''email must be text.''))"

definition path_id :: "string \<Rightarrow> json option \<Rightarrow> http_problem + string" where
  "path_id label v = or_throw (validation_problem (label @ '' is invalid.'')) (text_where operation_id_pattern v)"

section \<open>The commands\<close>

record invitation_command =
  ic_operationId :: string
  ic_expectedVersion :: int
  ic_email :: string
  ic_role :: workspace_role

definition read_invitation_command :: "(string \<Rightarrow> string) \<Rightarrow> json \<Rightarrow> http_problem + invitation_command" where
  "read_invitation_command lower v =
     and_then (object_with_keys ''Invitation command''
       [''schemaVersion'', ''clientOperationId'', ''expectedVersion'', ''email'', ''role''] v) (\<lambda>r.
     and_then (command_schema r) (\<lambda>_.
     and_then (operation_id (field r ''clientOperationId'')) (\<lambda>op.
     and_then (expected_version (field r ''expectedVersion'')) (\<lambda>version.
     and_then (normalize_email lower (field r ''email'')) (\<lambda>email.
     and_then (invitable_role (field r ''role'')) (\<lambda>role.
     Inr \<lparr>ic_operationId = op, ic_expectedVersion = version, ic_email = email, ic_role = role\<rparr>))))))"

record cancel_command =
  cc_operationId :: string
  cc_expectedVersion :: int

definition read_cancel_command :: "json \<Rightarrow> http_problem + cancel_command" where
  "read_cancel_command v =
     and_then (object_with_keys ''Invitation cancellation''
       [''schemaVersion'', ''clientOperationId'', ''expectedVersion''] v) (\<lambda>r.
     and_then (command_schema r) (\<lambda>_.
     and_then (operation_id (field r ''clientOperationId'')) (\<lambda>op.
     and_then (expected_version (field r ''expectedVersion'')) (\<lambda>version.
     Inr \<lparr>cc_operationId = op, cc_expectedVersion = version\<rparr>))))"

datatype invitation_decision = Accept | Reject

fun decision_name :: "invitation_decision \<Rightarrow> string" where
  "decision_name Accept = ''accept''"
| "decision_name Reject = ''reject''"

fun decision_of :: "json option \<Rightarrow> invitation_decision option" where
  "decision_of (Some (JStr s)) =
     (if s = ''accept'' then Some Accept else if s = ''reject'' then Some Reject else None)"
| "decision_of _ = None"

record decision_command =
  dc_operationId :: string
  dc_decision :: invitation_decision

definition read_decision_command :: "json \<Rightarrow> http_problem + decision_command" where
  "read_decision_command v =
     and_then (object_with_keys ''Invitation decision''
       [''schemaVersion'', ''clientOperationId'', ''decision''] v) (\<lambda>r.
     and_then (or_throw (validation_problem ''decision must be accept or reject.'')
       (decision_of (field r ''decision''))) (\<lambda>decision.
     and_then (command_schema r) (\<lambda>_.
     and_then (operation_id (field r ''clientOperationId'')) (\<lambda>op.
     Inr \<lparr>dc_operationId = op, dc_decision = decision\<rparr>))))"

record role_command =
  rc_operationId :: string
  rc_expectedVersion :: int
  rc_role :: workspace_role

definition read_role_command :: "json \<Rightarrow> http_problem + role_command" where
  "read_role_command v =
     and_then (object_with_keys ''Role update''
       [''schemaVersion'', ''clientOperationId'', ''expectedVersion'', ''role''] v) (\<lambda>r.
     and_then (command_schema r) (\<lambda>_.
     and_then (operation_id (field r ''clientOperationId'')) (\<lambda>op.
     and_then (expected_version (field r ''expectedVersion'')) (\<lambda>version.
     and_then (invitable_role (field r ''role'')) (\<lambda>role.
     Inr \<lparr>rc_operationId = op, rc_expectedVersion = version, rc_role = role\<rparr>)))))"

definition removal_confirmation :: string where "removal_confirmation = ''REMOVE_MEMBER''"

record removal_command =
  mc_operationId :: string
  mc_expectedVersion :: int

definition read_removal_command :: "json \<Rightarrow> http_problem + removal_command" where
  "read_removal_command v =
     and_then (object_with_keys ''Member removal''
       [''schemaVersion'', ''clientOperationId'', ''expectedVersion'', ''confirmation''] v) (\<lambda>r.
     and_then (throw_unless (field r ''confirmation'' = Some (JStr removal_confirmation))
       (validation_problem (''confirmation must be '' @ removal_confirmation @ ''.''))) (\<lambda>_.
     and_then (command_schema r) (\<lambda>_.
     and_then (operation_id (field r ''clientOperationId'')) (\<lambda>op.
     and_then (expected_version (field r ''expectedVersion'')) (\<lambda>version.
     Inr \<lparr>mc_operationId = op, mc_expectedVersion = version\<rparr>)))))"

text \<open>\<open>{ ...record, key: value }\<close>: an existing property keeps its place.\<close>

fun assign :: "string \<Rightarrow> json \<Rightarrow> fields \<Rightarrow> fields" where
  "assign k v [] = [(k, v)]"
| "assign k v ((k', v') # r) = (if k' = k then (k, v) # r else (k', v') # assign k v r)"

lemma field_assign: "field (assign k v r) k' = (if k' = k then Some v else field r k')"
  by (induction k v r rule: assign.induct) (auto simp: field_def)

text \<open>The \<open>Idempotency-Key\<close> header, None when the request has none.\<close>

definition apply_idempotency_header :: "string option \<Rightarrow> fields \<Rightarrow> http_problem + fields" where
  "apply_idempotency_header header body =
     (case map_option js_trim header of
        None \<Rightarrow> Inr body
      | Some h \<Rightarrow>
          if h = [] then Inr body
          else and_then (operation_id (Some (JStr h))) (\<lambda>_.
            and_then (throw_unless (field body ''clientOperationId'' = None
                \<or> field body ''clientOperationId'' = Some (JStr h))
              (Http_problem 400 ''idempotency_mismatch'' ''Idempotency-Key must match clientOperationId.'')) (\<lambda>_.
            Inr (assign ''clientOperationId'' (JStr h) body))))"

end
