(* ===== verification/Workspace_Store.thy ===== *)
theory Workspace_Store
  imports Collaboration_Contract
begin

text \<open>
  The tables the collaboration service reads and writes, one record per Prisma model with the columns
  it uses, and the steps its transactions share (\<open>src/server/workspaces/collaboration-service.ts\<close>,
  \<open>src/server/audit/retained-principal.ts\<close>, \<open>src/server/workspaces/authorization.ts\<close>): the membership
  that authorises the actor, the idempotency record, the optimistic revision, the retained principal
  and the audit event. Advisory and row locks and the isolation level are assumptions of the model: a
  transaction body runs alone. A body that throws leaves the database as it was.
\<close>

section \<open>Rows\<close>

record organization =
  og_id :: ident
  og_name :: string
  og_slug :: string
  og_kind :: string
  og_personalOwnerId :: "ident option"
  og_revision :: int

record member_row =
  mr_id :: ident
  mr_org :: ident
  mr_user :: ident
  mr_role :: string

record invitation_row =
  iv_id :: ident
  iv_org :: ident
  iv_email :: string
  iv_role :: string
  iv_teamId :: "ident option"
  iv_status :: string
  iv_expiresAt :: millis
  iv_createdAt :: millis
  iv_inviterId :: ident

record user_row =
  us_id :: ident
  us_email :: string

record idempotency_row =
  ir_org :: ident
  ir_actorUserId :: "ident option"
  ir_key :: string
  ir_command :: string
  ir_requestHash :: string
  ir_response :: json
  ir_status :: string
  ir_completedAt :: "millis option"
  ir_expiresAt :: millis

record principal_row =
  rp_id :: ident
  rp_org :: ident
  rp_liveUserId :: "ident option"
  rp_pseudonymizedAt :: "millis option"

record session_row =
  ss_userId :: ident
  ss_activeOrganizationId :: "ident option"
  ss_activeTeamId :: "ident option"

record project_row =
  pj_org :: ident
  pj_createdById :: "ident option"
  pj_visibility :: string

record collaboration_audit =
  ca_org :: ident
  ca_actorUserId :: ident
  ca_actorPrincipalId :: ident
  ca_action :: string
  ca_entityType :: string
  ca_entityId :: ident
  ca_requestId :: string
  ca_metadata :: fields

record workspace_db =
  organizations :: "organization list"
  members :: "member_row list"
  invitations :: "invitation_row list"
  users :: "user_row list"
  idempotency :: "idempotency_row list"
  principals :: "principal_row list"
  sessions :: "session_row list"
  projects :: "project_row list"
  collaboration_audits :: "collaboration_audit list"

text \<open>
  A body throws an \<open>HttpProblem\<close>, or Prisma does: \<open>Conflict\<close> is P2002 or P2034, which the caller
  retries, \<open>Missing\<close> any other known request error.
\<close>

datatype collaboration_error = Problem http_problem | Conflict | Missing

type_synonym 'a collaboration_tx = "collaboration_error + ('a \<times> workspace_db)"

abbreviation lift_problem :: "http_problem + 'a \<Rightarrow> collaboration_error + 'a" where
  "lift_problem \<equiv> map_sum Problem id"

abbreviation problem_409 :: "string \<Rightarrow> string \<Rightarrow> collaboration_error" where
  "problem_409 c m \<equiv> Problem (Http_problem 409 c m)"

definition workspace_not_found :: collaboration_error where
  "workspace_not_found = Problem (Http_problem 404 ''workspace_not_found'' ''Workspace was not found.'')"

lemma lift_problem_Inr_iff [simp]: "map_sum f id m = Inr y \<longleftrightarrow> m = Inr y"
  by (cases m) simp_all

section \<open>The environment\<close>

text \<open>
  What the service takes from outside: lower-casing, the database's case-insensitive comparison (stored
  text first), and SHA-256 in hexadecimal.
\<close>

record collaboration_env =
  ce_lower :: "string \<Rightarrow> string"
  ce_same_email :: "string \<Rightarrow> string \<Rightarrow> bool"
  ce_sha256 :: "string \<Rightarrow> string"

text \<open>The values generated while a transaction runs: identifiers and the database's clock.\<close>

record fresh_values =
  fv_id :: ident
  fv_principalId :: ident
  fv_createdAt :: millis

section \<open>The request hash\<close>

text \<open>\<open>JSON.stringify\<close> of a string.\<close>

definition hex_digit :: "nat \<Rightarrow> char" where
  "hex_digit n = ''0123456789abcdef'' ! n"

definition json_escape :: "char \<Rightarrow> string" where
  "json_escape c =
     (if code c = 34 then [char_of (92::nat), char_of (34::nat)]
      else if code c = 92 then [char_of (92::nat), char_of (92::nat)]
      else if code c = 8 then char_of (92::nat) # ''b'' else if code c = 12 then char_of (92::nat) # ''f''
      else if code c = 10 then char_of (92::nat) # ''n'' else if code c = 13 then char_of (92::nat) # ''r''
      else if code c = 9 then char_of (92::nat) # ''t''
      else if code c < 32 then char_of (92::nat) # ''u00'' @ [hex_digit (code c div 16), hex_digit (code c mod 16)]
      else [c])"

definition json_quote :: "string \<Rightarrow> string" where
  "json_quote s = char_of (34::nat) # concat (map json_escape s) @ [char_of (34::nat)]"

text \<open>
  \<open>stableJson\<close> on the payloads the service hashes: objects of text. Their keys are ASCII words that
  differ in a lower-case letter, where \<open>localeCompare\<close> is the order of the characters.
\<close>

fun key_before :: "string \<Rightarrow> string \<Rightarrow> bool" where
  "key_before [] _ \<longleftrightarrow> True"
| "key_before _ [] \<longleftrightarrow> False"
| "key_before (a # s) (b # t) \<longleftrightarrow> code a < code b \<or> (a = b \<and> key_before s t)"

fun insert_entry :: "string \<times> string \<Rightarrow> (string \<times> string) list \<Rightarrow> (string \<times> string) list" where
  "insert_entry e [] = [e]"
| "insert_entry e (e' # es) = (if key_before (fst e) (fst e') then e # e' # es else e' # insert_entry e es)"

fun comma_join :: "string list \<Rightarrow> string" where
  "comma_join [] = []"
| "comma_join [s] = s"
| "comma_join (s # t # r) = s @ '','' @ comma_join (t # r)"

definition stable_object :: "(string \<times> string) list \<Rightarrow> string" where
  "stable_object es =
     ''{'' @ comma_join (map (\<lambda>(k, v). json_quote k @ '':'' @ v) (foldr insert_entry es [])) @ ''}''"

definition request_hash :: "collaboration_env \<Rightarrow> string \<Rightarrow> (string \<times> string) list \<Rightarrow> string" where
  "request_hash env command payload =
     ce_sha256 env (stable_object
       [(''command'', json_quote command),
        (''payload'', stable_object (map (\<lambda>(k, v). (k, json_quote v)) payload))])"

section \<open>Authority\<close>

definition closed_role :: "string \<Rightarrow> collaboration_error + workspace_role" where
  "closed_role s = or_throw (Problem role_invalid) (workspace_role_of s)"

definition require_invitable_role :: "string \<Rightarrow> collaboration_error + workspace_role" where
  "require_invitable_role s =
     or_throw (problem_409 ''invitation_role_invalid'' ''This invitation has an unsupported workspace role.'')
       (invitable_role_of s)"

definition require_invite_permission :: "workspace_role \<Rightarrow> workspace_role \<Rightarrow> collaboration_error + unit" where
  "require_invite_permission actor role =
     throw_unless (role \<in> set (invitation_roles_for actor))
       (Problem (Http_problem 403 ''workspace_forbidden'' ''This workspace role cannot grant the requested role.''))"

definition require_target_permission :: "workspace_role \<Rightarrow> workspace_role \<Rightarrow> collaboration_error + unit" where
  "require_target_permission actor target =
     and_then (throw_unless (target \<noteq> Owner) (problem_409 ''owner_membership_protected''
       ''Owner membership cannot be transferred, changed, or removed.'')) (\<lambda>_.
     throw_unless (actor = Owner \<or> (actor = Admin \<and> (target = Member \<or> target = Viewer)))
       (Problem (Http_problem 403 ''workspace_forbidden'' ''This workspace role cannot manage that collaborator.'')))"

definition member_of :: "ident \<Rightarrow> ident \<Rightarrow> workspace_db \<Rightarrow> member_row option" where
  "member_of ws user d = List.find (\<lambda>m. mr_org m = ws \<and> mr_user m = user) (members d)"

definition organization_of :: "ident \<Rightarrow> workspace_db \<Rightarrow> organization option" where
  "organization_of ws d = List.find (\<lambda>g. og_id g = ws) (organizations d)"

text \<open>\<open>requireActorMembership\<close>: the workspace's revision and the actor's role.\<close>

definition actor_membership :: "ident \<Rightarrow> ident \<Rightarrow> workspace_db \<Rightarrow> collaboration_error + (int \<times> workspace_role)" where
  "actor_membership ws user d =
     and_then (or_throw workspace_not_found (member_of ws user d)) (\<lambda>m.
     and_then (or_throw Missing (organization_of ws d)) (\<lambda>g.
     and_then (closed_role (mr_role m)) (\<lambda>r. Inr (og_revision g, r))))"

section \<open>Idempotency\<close>

definition replay_result :: "json \<Rightarrow> int \<Rightarrow> collaboration_error + fields" where
  "replay_result response version =
     (case response of
        JObj r \<Rightarrow>
          and_then (throw_unless (field r ''schemaVersion'' = Some (jint 1))
            (problem_409 ''idempotency_schema_mismatch''
              ''The prior collaboration result uses an unsupported schema version.'')) (\<lambda>_.
          Inr (assign ''aggregateVersion'' (jint version)
            (assign ''outcome'' (JStr ''replayed'') (assign ''schemaVersion'' (jint 1) r))))
      | _ \<Rightarrow> Inl (problem_409 ''idempotency_in_progress''
          ''The prior collaboration command is still being resolved.''))"

definition prior_command :: "ident \<Rightarrow> string \<Rightarrow> workspace_db \<Rightarrow> idempotency_row option" where
  "prior_command ws op d = List.find (\<lambda>i. ir_org i = ws \<and> ir_key i = op) (idempotency d)"

definition replay_if_present ::
    "ident \<Rightarrow> ident \<Rightarrow> string \<Rightarrow> string \<Rightarrow> string \<Rightarrow> int \<Rightarrow> workspace_db
      \<Rightarrow> collaboration_error + fields option" where
  "replay_if_present ws user op command hash version d =
     (case prior_command ws op d of
        None \<Rightarrow> Inr None
      | Some i \<Rightarrow>
          and_then (throw_unless (ir_actorUserId i = Some user \<and> ir_command i = command
              \<and> ir_requestHash i = hash)
            (problem_409 ''idempotency_conflict''
              ''clientOperationId was already used for a different collaboration command.'')) (\<lambda>_.
          map_sum id Some (replay_result (ir_response i) version)))"

definition week_ms :: int where "week_ms = 7 * 24 * 60 * 60 * 1000"

definition idempotency_clash :: "idempotency_row \<Rightarrow> idempotency_row \<Rightarrow> bool" where
  "idempotency_clash a b \<longleftrightarrow> ir_org a = ir_org b \<and> ir_key a = ir_key b"

text \<open>\<open>create\<close>, which throws P2002 on a unique key.\<close>

definition insert_row :: "('r \<Rightarrow> 'r \<Rightarrow> bool) \<Rightarrow> 'r \<Rightarrow> 'r list \<Rightarrow> collaboration_error + 'r list" where
  "insert_row clash r rs = (if list_ex (clash r) rs then Inl Conflict else Inr (rs @ [r]))"

lemma insert_row_Inr_iff: "insert_row clash r rs = Inr rs' \<longleftrightarrow> \<not> list_ex (clash r) rs \<and> rs' = rs @ [r]"
  by (auto simp: insert_row_def)

definition store_command ::
    "ident \<Rightarrow> ident \<Rightarrow> string \<Rightarrow> string \<Rightarrow> string \<Rightarrow> fields \<Rightarrow> millis \<Rightarrow> workspace_db
      \<Rightarrow> collaboration_error + workspace_db" where
  "store_command ws user op command hash result now d =
     and_then (insert_row idempotency_clash
       \<lparr>ir_org = ws, ir_actorUserId = Some user, ir_key = op, ir_command = command, ir_requestHash = hash,
        ir_response = JObj result, ir_status = ''COMPLETED'', ir_completedAt = Some now,
        ir_expiresAt = now + week_ms\<rparr> (idempotency d)) (\<lambda>rows.
     Inr (d\<lparr>idempotency := rows\<rparr>))"

section \<open>Revision, principal, audit\<close>

definition version_conflict :: collaboration_error where
  "version_conflict = problem_409 ''version_conflict''
     ''Workspace changed since it was loaded. Refresh before retrying.''"

definition bump_revision :: "ident \<Rightarrow> int \<Rightarrow> workspace_db \<Rightarrow> int collaboration_tx" where
  "bump_revision ws expected d =
     (let at = (\<lambda>g. og_id g = ws \<and> og_revision g = expected)
      in if count_rows at (organizations d) \<noteq> 1 then Inl version_conflict
         else Inr (expected + 1,
           d\<lparr>organizations := update_rows at (\<lambda>g. g\<lparr>og_revision := og_revision g + 1\<rparr>) (organizations d)\<rparr>))"

definition principal_clash :: "principal_row \<Rightarrow> principal_row \<Rightarrow> bool" where
  "principal_clash a b \<longleftrightarrow> rp_id a = rp_id b
     \<or> (rp_org a = rp_org b \<and> rp_liveUserId a = rp_liveUserId b \<and> rp_liveUserId a \<noteq> None)"

definition live_principal :: "ident \<Rightarrow> ident \<Rightarrow> ident \<Rightarrow> workspace_db \<Rightarrow> ident collaboration_tx" where
  "live_principal ws user fresh d =
     and_then (case List.find (\<lambda>p. rp_org p = ws \<and> rp_liveUserId p = Some user) (principals d) of
         Some p \<Rightarrow> Inr (rp_id p, principals d)
       | None \<Rightarrow>
           map_sum id (Pair fresh)
             (insert_row principal_clash
               \<lparr>rp_id = fresh, rp_org = ws, rp_liveUserId = Some user, rp_pseudonymizedAt = None\<rparr> (principals d)))
       (\<lambda>(i, ps).
     case filter (\<lambda>p. rp_org p = ws \<and> rp_id p = i) ps of
       [live] \<Rightarrow>
         if rp_liveUserId live = Some user \<and> rp_pseudonymizedAt live = None
         then Inr (i, d\<lparr>principals := ps\<rparr>)
         else Inl (problem_409 ''retained_actor_not_live''
           ''The account can no longer authorize retained workspace activity.'')
     | _ \<Rightarrow> Inl (problem_409 ''retained_actor_not_live''
         ''The account can no longer authorize retained workspace activity.''))"

definition append_audit ::
    "ident \<Rightarrow> ident \<Rightarrow> ident \<Rightarrow> string \<Rightarrow> string \<Rightarrow> ident \<Rightarrow> string \<Rightarrow> fields \<Rightarrow> workspace_db \<Rightarrow> workspace_db" where
  "append_audit ws user who action entity entityId op metadata d =
     d\<lparr>collaboration_audits := collaboration_audits d @
       [\<lparr>ca_org = ws, ca_actorUserId = user, ca_actorPrincipalId = who, ca_action = action,
         ca_entityType = entity, ca_entityId = entityId, ca_requestId = op, ca_metadata = metadata\<rparr>]\<rparr>"

end
