(* ===== verification/Collaboration_Service.thy ===== *)
theory Collaboration_Service
  imports Workspace_Store
begin

text \<open>
  The five collaboration mutations (\<open>src/server/workspaces/collaboration-service.ts\<close>) and the personal
  workspace (\<open>src/server/workspaces/authorization.ts\<close>). Each mutation reads its command, runs one
  transaction body, and answers with the JSON result it also stores for replays.
\<close>

record session_user =
  su_id :: ident
  su_email :: string

definition max_user_workspaces :: nat where "max_user_workspaces = 100"
definition max_invitation_inbox :: nat where "max_invitation_inbox = 100"
definition max_workspace_members :: nat where "max_workspace_members = 500"
definition max_pending_invitations :: nat where "max_pending_invitations = 100"

definition applied_result :: "int \<Rightarrow> fields \<Rightarrow> fields" where
  "applied_result version resource =
     [(''schemaVersion'', jint 1), (''outcome'', JStr ''applied''), (''aggregateVersion'', jint version)] @ resource"

text \<open>The end of every body: the stored result, then the audit event.\<close>

definition complete_command ::
    "ident \<Rightarrow> ident \<Rightarrow> string \<Rightarrow> string \<Rightarrow> string \<Rightarrow> fields \<Rightarrow> millis \<Rightarrow> ident
      \<Rightarrow> string \<times> string \<times> ident \<times> fields \<Rightarrow> workspace_db \<Rightarrow> fields collaboration_tx" where
  "complete_command ws user op command hash result now who audit d =
     (case audit of (action, entity, entityId, metadata) \<Rightarrow>
        map_sum id (\<lambda>d'. (result, append_audit ws user who action entity entityId op metadata d'))
          (store_command ws user op command hash result now d))"

text \<open>A stored answer ends the body; otherwise it goes on.\<close>

definition unless_replayed ::
    "collaboration_error + fields option \<Rightarrow> workspace_db \<Rightarrow> fields collaboration_tx \<Rightarrow> fields collaboration_tx" where
  "unless_replayed replay d body =
     and_then replay (\<lambda>r. case r of Some result \<Rightarrow> Inr (result, d) | None \<Rightarrow> body)"

section \<open>Invitations\<close>

definition pending_at :: "millis \<Rightarrow> invitation_row \<Rightarrow> bool" where
  "pending_at now i \<longleftrightarrow> iv_status i = ''pending'' \<and> now < iv_expiresAt i"

definition cancel_expired :: "collaboration_env \<Rightarrow> ident \<Rightarrow> string \<Rightarrow> millis \<Rightarrow> workspace_db \<Rightarrow> workspace_db" where
  "cancel_expired env ws email now d =
     d\<lparr>invitations := update_rows (\<lambda>i. iv_org i = ws \<and> ce_same_email env (iv_email i) email
         \<and> iv_status i = ''pending'' \<and> iv_expiresAt i \<le> now)
       (\<lambda>i. i\<lparr>iv_status := ''canceled''\<rparr>) (invitations d)\<rparr>"

definition recipient_is_member :: "collaboration_env \<Rightarrow> ident \<Rightarrow> string \<Rightarrow> workspace_db \<Rightarrow> bool" where
  "recipient_is_member env ws email d \<longleftrightarrow>
     (case List.find (\<lambda>u. ce_same_email env (us_email u) email) (users d) of
        None \<Rightarrow> False | Some u \<Rightarrow> member_of ws (us_id u) d \<noteq> None)"

definition invitation_room ::
    "collaboration_env \<Rightarrow> ident \<Rightarrow> string \<Rightarrow> millis \<Rightarrow> workspace_db \<Rightarrow> collaboration_error + unit" where
  "invitation_room env ws email now d =
     and_then (throw_unless (\<not> list_ex (\<lambda>i. iv_org i = ws \<and> ce_same_email env (iv_email i) email
         \<and> pending_at now i) (invitations d))
       (problem_409 ''invitation_pending'' ''That recipient already has a pending invitation.'')) (\<lambda>_.
     and_then (throw_unless (count_rows (\<lambda>i. iv_org i = ws \<and> pending_at now i) (invitations d)
         < max_pending_invitations)
       (problem_409 ''invitation_register_limit'' ''This workspace has reached its pending invitation limit.'')) (\<lambda>_.
     throw_unless (count_rows (\<lambda>i. ce_same_email env (iv_email i) email \<and> pending_at now i
         \<and> iv_teamId i = None) (invitations d) < max_invitation_inbox)
       (problem_409 ''recipient_invitation_limit''
         ''That recipient has reached the pending invitation limit.'')))"

definition invitation_create_name :: string where
  "invitation_create_name = ''collaboration.invitation.create.v1''"

definition invitation_clash :: "invitation_row \<Rightarrow> invitation_row \<Rightarrow> bool" where
  "invitation_clash a b \<longleftrightarrow> iv_id a = iv_id b"

definition new_invitation ::
    "ident \<Rightarrow> ident \<Rightarrow> invitation_command \<Rightarrow> millis \<Rightarrow> fresh_values \<Rightarrow> invitation_row" where
  "new_invitation ws user c now fr =
     \<lparr>iv_id = fv_id fr, iv_org = ws, iv_email = ic_email c, iv_role = role_name (ic_role c), iv_teamId = None,
      iv_status = ''pending'', iv_expiresAt = now + week_ms, iv_createdAt = fv_createdAt fr, iv_inviterId = user\<rparr>"

definition invitation_resource :: "invitation_row \<Rightarrow> fields" where
  "invitation_resource i =
     [(''invitation'', JObj [(''id'', JStr (iv_id i)), (''email'', JStr (iv_email i)), (''role'', JStr (iv_role i)),
        (''status'', JStr ''pending''), (''createdAt'', JStr (iso_format (iv_createdAt i))),
        (''expiresAt'', JStr (iso_format (iv_expiresAt i)))])]"

definition create_invitation_tx ::
    "collaboration_env \<Rightarrow> session_user \<Rightarrow> ident \<Rightarrow> invitation_command \<Rightarrow> millis \<Rightarrow> fresh_values
      \<Rightarrow> workspace_db \<Rightarrow> fields collaboration_tx" where
  "create_invitation_tx env user ws c now fr d =
     (let hash = request_hash env invitation_create_name
        [(''email'', ic_email c), (''role'', role_name (ic_role c))]
      in and_then (actor_membership ws (su_id user) d) (\<lambda>(revision, role).
         and_then (lift_problem (require_manager (role_name role))) (\<lambda>_.
         unless_replayed (replay_if_present ws (su_id user) (ic_operationId c) invitation_create_name hash revision d) d
         (and_then (throw_unless (revision = ic_expectedVersion c) version_conflict) (\<lambda>_.
          and_then (require_invite_permission role (ic_role c)) (\<lambda>_.
          and_then (throw_unless (\<not> recipient_is_member env ws (ic_email c) d)
            (problem_409 ''already_a_member'' ''That recipient already belongs to this workspace.'')) (\<lambda>_.
          let d1 = cancel_expired env ws (ic_email c) now d; i = new_invitation ws (su_id user) c now fr
          in and_then (invitation_room env ws (ic_email c) now d1) (\<lambda>_.
             and_then (bump_revision ws (ic_expectedVersion c) d1) (\<lambda>(version, d2).
             and_then (live_principal ws (su_id user) (fv_principalId fr) d2) (\<lambda>(who, d3).
             and_then (insert_row invitation_clash i (invitations d3)) (\<lambda>rows.
             complete_command ws (su_id user) (ic_operationId c) invitation_create_name hash
               (applied_result version (invitation_resource i)) now who
               (''collaboration.invitation.created'', ''invitation'', iv_id i, [(''role'', JStr (iv_role i))])
               (d3\<lparr>invitations := rows\<rparr>))))))))))))"

definition create_invitation ::
    "collaboration_env \<Rightarrow> session_user \<Rightarrow> ident \<Rightarrow> json \<Rightarrow> millis \<Rightarrow> fresh_values
      \<Rightarrow> workspace_db \<Rightarrow> fields collaboration_tx" where
  "create_invitation env user ws v now fr d =
     and_then (lift_problem (read_invitation_command (ce_lower env) v)) (\<lambda>c.
     create_invitation_tx env user ws c now fr d)"

definition invitation_cancel_name :: string where
  "invitation_cancel_name = ''collaboration.invitation.cancel.v1''"

definition invitation_not_found :: collaboration_error where
  "invitation_not_found = Problem (Http_problem 404 ''invitation_not_found'' ''Invitation was not found.'')"

definition invitation_not_pending :: collaboration_error where
  "invitation_not_pending = problem_409 ''invitation_not_pending'' ''Invitation is no longer pending.''"

definition set_invitation_status :: "ident \<Rightarrow> string \<Rightarrow> workspace_db \<Rightarrow> workspace_db" where
  "set_invitation_status i status d =
     d\<lparr>invitations := update_rows (\<lambda>r. iv_id r = i) (\<lambda>r. r\<lparr>iv_status := status\<rparr>) (invitations d)\<rparr>"

definition cancel_invitation_tx ::
    "collaboration_env \<Rightarrow> session_user \<Rightarrow> ident \<Rightarrow> ident \<Rightarrow> cancel_command \<Rightarrow> millis \<Rightarrow> fresh_values
      \<Rightarrow> workspace_db \<Rightarrow> fields collaboration_tx" where
  "cancel_invitation_tx env user ws invitationId c now fr d =
     (let hash = request_hash env invitation_cancel_name [(''invitationId'', invitationId)]
      in and_then (actor_membership ws (su_id user) d) (\<lambda>(revision, role).
         and_then (lift_problem (require_manager (role_name role))) (\<lambda>_.
         unless_replayed (replay_if_present ws (su_id user) (cc_operationId c) invitation_cancel_name hash revision d) d
         (and_then (throw_unless (revision = cc_expectedVersion c) version_conflict) (\<lambda>_.
          and_then (or_throw invitation_not_found
            (List.find (\<lambda>i. iv_id i = invitationId \<and> iv_org i = ws \<and> iv_teamId i = None) (invitations d))) (\<lambda>i.
          and_then (require_invitable_role (iv_role i)) (\<lambda>invited.
          and_then (require_invite_permission role invited) (\<lambda>_.
          and_then (throw_unless (iv_status i = ''pending'') invitation_not_pending) (\<lambda>_.
          and_then (bump_revision ws (cc_expectedVersion c) d) (\<lambda>(version, d1).
          and_then (live_principal ws (su_id user) (fv_principalId fr) d1) (\<lambda>(who, d2).
          complete_command ws (su_id user) (cc_operationId c) invitation_cancel_name hash
            (applied_result version
              [(''invitation'', JObj [(''id'', JStr (iv_id i)), (''status'', JStr ''canceled'')])]) now who
            (''collaboration.invitation.canceled'', ''invitation'', iv_id i, [(''role'', JStr (role_name invited))])
            (set_invitation_status (iv_id i) ''canceled'' d2))))))))))))"

definition cancel_invitation ::
    "collaboration_env \<Rightarrow> session_user \<Rightarrow> ident \<Rightarrow> ident \<Rightarrow> json \<Rightarrow> millis \<Rightarrow> fresh_values
      \<Rightarrow> workspace_db \<Rightarrow> fields collaboration_tx" where
  "cancel_invitation env user ws invitationId v now fr d =
     and_then (lift_problem (read_cancel_command v)) (\<lambda>c.
     cancel_invitation_tx env user ws invitationId c now fr d)"

section \<open>The decision of the recipient\<close>

definition decision_command_name :: "invitation_decision \<Rightarrow> string" where
  "decision_command_name x = ''collaboration.invitation.'' @ decision_name x @ ''.v1''"

fun terminal_status :: "invitation_decision \<Rightarrow> string" where
  "terminal_status Accept = ''accepted''"
| "terminal_status Reject = ''rejected''"

definition inbox_invitation ::
    "collaboration_env \<Rightarrow> string \<Rightarrow> ident \<Rightarrow> invitation_row \<Rightarrow> bool" where
  "inbox_invitation env email invitationId i \<longleftrightarrow>
     iv_id i = invitationId \<and> ce_same_email env (iv_email i) email \<and> iv_teamId i = None"

definition acceptance_room :: "ident \<Rightarrow> ident \<Rightarrow> workspace_db \<Rightarrow> collaboration_error + unit" where
  "acceptance_room ws user d =
     and_then (throw_unless (count_rows (\<lambda>m. mr_org m = ws) (members d) < max_workspace_members)
       (problem_409 ''member_register_limit'' ''This workspace has reached its collaborator limit.'')) (\<lambda>_.
     throw_unless (count_rows (\<lambda>m. mr_user m = user) (members d) < max_user_workspaces)
       (problem_409 ''workspace_register_limit'' ''This account has reached its workspace limit.''))"

definition member_clash :: "member_row \<Rightarrow> member_row \<Rightarrow> bool" where
  "member_clash a b \<longleftrightarrow> mr_id a = mr_id b \<or> (mr_org a = mr_org b \<and> mr_user a = mr_user b)"

text \<open>The two clock readings of the body come first: the expiry test, then \<open>now\<close>.\<close>

definition decide_invitation_tx ::
    "collaboration_env \<Rightarrow> session_user \<Rightarrow> string \<Rightarrow> ident \<Rightarrow> ident \<Rightarrow> decision_command \<Rightarrow> millis \<Rightarrow> millis
      \<Rightarrow> fresh_values \<Rightarrow> workspace_db \<Rightarrow> fields collaboration_tx" where
  "decide_invitation_tx env user email ws invitationId c checked now fr d =
     (let accept = (dc_decision c = Accept); command = decision_command_name (dc_decision c);
          hash = request_hash env command [(''invitationId'', invitationId)]
      in and_then (or_throw invitation_not_found
           (List.find (\<lambda>i. inbox_invitation env email invitationId i \<and> iv_org i = ws) (invitations d))) (\<lambda>i.
         and_then (or_throw Missing (organization_of ws d)) (\<lambda>g.
         unless_replayed (replay_if_present ws (su_id user) (dc_operationId c) command hash (og_revision g) d) d
         (and_then (throw_unless (iv_status i = ''pending'' \<and> checked < iv_expiresAt i) invitation_not_pending) (\<lambda>_.
          and_then (require_invitable_role (iv_role i)) (\<lambda>invited.
          and_then (actor_membership ws (iv_inviterId i) d) (\<lambda>(inviter_revision, inviter).
          and_then (require_invite_permission inviter invited) (\<lambda>_.
          and_then (throw_unless (member_of ws (su_id user) d = None)
            (problem_409 ''already_a_member'' ''This account already belongs to the workspace.'')) (\<lambda>_.
          and_then (if accept then acceptance_room ws (su_id user) d else Inr ()) (\<lambda>_.
          and_then (bump_revision ws (og_revision g) d) (\<lambda>(version, d1).
          and_then (if accept
              then insert_row member_clash
                \<lparr>mr_id = fv_id fr, mr_org = ws, mr_user = su_id user, mr_role = role_name invited\<rparr> (members d1)
              else Inr (members d1)) (\<lambda>rows.
          and_then (live_principal ws (su_id user) (fv_principalId fr) (d1\<lparr>members := rows\<rparr>)) (\<lambda>(who, d2).
          complete_command ws (su_id user) (dc_operationId c) command hash
            (applied_result version
              ([(''invitation'', JObj [(''id'', JStr (iv_id i)), (''status'', JStr (terminal_status (dc_decision c)))])]
               @ (if accept
                  then [(''membership'', JObj [(''workspaceId'', JStr ws), (''role'', JStr (role_name invited))])]
                  else []))) now who
            (''collaboration.invitation.'' @ terminal_status (dc_decision c), ''invitation'', iv_id i,
              [(''role'', JStr (role_name invited))])
            (set_invitation_status (iv_id i) (terminal_status (dc_decision c)) d2))))))))))))))"

text \<open>The workspace is the one of the invitation found before the transaction starts.\<close>

definition decide_invitation ::
    "collaboration_env \<Rightarrow> session_user \<Rightarrow> ident \<Rightarrow> json \<Rightarrow> workspace_db \<Rightarrow> millis \<Rightarrow> millis \<Rightarrow> fresh_values
      \<Rightarrow> workspace_db \<Rightarrow> fields collaboration_tx" where
  "decide_invitation env user invitationId v before_tx checked now fr d =
     and_then (lift_problem (read_decision_command v)) (\<lambda>c.
     and_then (lift_problem (normalize_email (ce_lower env) (Some (JStr (su_email user))))) (\<lambda>email.
     and_then (or_throw invitation_not_found
       (List.find (inbox_invitation env email invitationId) (invitations before_tx))) (\<lambda>initial.
     decide_invitation_tx env user email (iv_org initial) invitationId c checked now fr d)))"

section \<open>Members\<close>

definition member_not_found :: collaboration_error where
  "member_not_found = Problem (Http_problem 404 ''member_not_found'' ''Collaborator was not found.'')"

definition role_update_name :: string where
  "role_update_name = ''collaboration.member.role.update.v1''"

definition member_remove_name :: string where
  "member_remove_name = ''collaboration.member.remove.v1''"

text \<open>The target of a member command, with its role: not the actor, and one the actor may manage.\<close>

definition managed_target ::
    "string \<Rightarrow> session_user \<Rightarrow> ident \<Rightarrow> ident \<Rightarrow> workspace_role \<Rightarrow> workspace_db
      \<Rightarrow> collaboration_error + (member_row \<times> workspace_role)" where
  "managed_target self_message user ws memberId role d =
     and_then (or_throw member_not_found
       (List.find (\<lambda>m. mr_id m = memberId \<and> mr_org m = ws) (members d))) (\<lambda>initial.
     and_then (throw_unless (mr_user initial \<noteq> su_id user)
       (problem_409 ''self_membership_protected'' self_message)) (\<lambda>_.
     and_then (or_throw member_not_found
       (List.find (\<lambda>m. mr_id m = memberId \<and> mr_org m = ws \<and> mr_user m = mr_user initial) (members d))) (\<lambda>target.
     and_then (closed_role (mr_role target)) (\<lambda>target_role.
     and_then (require_target_permission role target_role) (\<lambda>_.
     Inr (target, target_role))))))"

definition update_role_tx ::
    "collaboration_env \<Rightarrow> session_user \<Rightarrow> ident \<Rightarrow> ident \<Rightarrow> role_command \<Rightarrow> millis \<Rightarrow> fresh_values
      \<Rightarrow> workspace_db \<Rightarrow> fields collaboration_tx" where
  "update_role_tx env user ws memberId c now fr d =
     (let hash = request_hash env role_update_name [(''memberId'', memberId), (''role'', role_name (rc_role c))]
      in and_then (actor_membership ws (su_id user) d) (\<lambda>(revision, role).
         and_then (lift_problem (require_manager (role_name role))) (\<lambda>_.
         unless_replayed (replay_if_present ws (su_id user) (rc_operationId c) role_update_name hash revision d) d
         (and_then (throw_unless (revision = rc_expectedVersion c) version_conflict) (\<lambda>_.
          and_then (managed_target ''Use another owner to change your membership.'' user ws memberId role d)
            (\<lambda>(target, target_role).
          and_then (throw_unless (\<not> (role = Admin \<and> rc_role c = Admin))
            (Problem (Http_problem 403 ''workspace_forbidden''
              ''Administrators cannot grant the administrator role.''))) (\<lambda>_.
          and_then (bump_revision ws (rc_expectedVersion c) d) (\<lambda>(version, d1).
          and_then (live_principal ws (su_id user) (fv_principalId fr) d1) (\<lambda>(who, d2).
          complete_command ws (su_id user) (rc_operationId c) role_update_name hash
            (applied_result version
              [(''member'', JObj [(''id'', JStr (mr_id target)), (''role'', JStr (role_name (rc_role c)))])]) now who
            (''collaboration.member.role.updated'', ''member'', mr_id target,
              [(''previousRole'', JStr (role_name target_role)), (''role'', JStr (role_name (rc_role c)))])
            (d2\<lparr>members := update_rows (\<lambda>m. mr_id m = mr_id target)
               (\<lambda>m. m\<lparr>mr_role := role_name (rc_role c)\<rparr>) (members d2)\<rparr>))))))))))"

definition update_member_role ::
    "collaboration_env \<Rightarrow> session_user \<Rightarrow> ident \<Rightarrow> ident \<Rightarrow> json \<Rightarrow> millis \<Rightarrow> fresh_values
      \<Rightarrow> workspace_db \<Rightarrow> fields collaboration_tx" where
  "update_member_role env user ws memberId v now fr d =
     and_then (lift_problem (read_role_command v)) (\<lambda>c. update_role_tx env user ws memberId c now fr d)"

definition inviter_pending :: "ident \<Rightarrow> ident \<Rightarrow> invitation_row \<Rightarrow> bool" where
  "inviter_pending ws user i \<longleftrightarrow> iv_org i = ws \<and> iv_inviterId i = user \<and> iv_status i = ''pending''"

definition drop_member :: "ident \<Rightarrow> member_row \<Rightarrow> workspace_db \<Rightarrow> workspace_db" where
  "drop_member ws target d =
     d\<lparr>invitations := update_rows (inviter_pending ws (mr_user target)) (\<lambda>i. i\<lparr>iv_status := ''canceled''\<rparr>)
         (invitations d),
       sessions := update_rows (\<lambda>s. ss_userId s = mr_user target \<and> ss_activeOrganizationId s = Some ws)
         (\<lambda>s. s\<lparr>ss_activeOrganizationId := None, ss_activeTeamId := None\<rparr>) (sessions d),
       members := delete_rows (\<lambda>m. mr_id m = mr_id target) (members d)\<rparr>"

definition remove_member_tx ::
    "collaboration_env \<Rightarrow> session_user \<Rightarrow> ident \<Rightarrow> ident \<Rightarrow> removal_command \<Rightarrow> millis \<Rightarrow> fresh_values
      \<Rightarrow> workspace_db \<Rightarrow> fields collaboration_tx" where
  "remove_member_tx env user ws memberId c now fr d =
     (let hash = request_hash env member_remove_name
        [(''memberId'', memberId), (''confirmation'', removal_confirmation)]
      in and_then (actor_membership ws (su_id user) d) (\<lambda>(revision, role).
         and_then (lift_problem (require_manager (role_name role))) (\<lambda>_.
         unless_replayed (replay_if_present ws (su_id user) (mc_operationId c) member_remove_name hash revision d) d
         (and_then (throw_unless (revision = mc_expectedVersion c) version_conflict) (\<lambda>_.
          and_then (managed_target ''Use another owner to remove your membership.'' user ws memberId role d)
            (\<lambda>(target, target_role).
          and_then (throw_unless (count_rows (\<lambda>p. pj_org p = ws \<and> pj_createdById p = Some (mr_user target)
              \<and> pj_visibility p = ''PRIVATE'') (projects d) = 0)
            (problem_409 ''private_projects_require_reassignment''
              (''Reassign or delete this collaborator'' @ [char_of (39::nat)]
                @ ''s private projects before removal.''))) (\<lambda>_.
          and_then (bump_revision ws (mc_expectedVersion c) d) (\<lambda>(version, d1).
          and_then (live_principal ws (su_id user) (fv_principalId fr) d1) (\<lambda>(who, d2).
          complete_command ws (su_id user) (mc_operationId c) member_remove_name hash
            (applied_result version
              [(''member'', JObj [(''id'', JStr (mr_id target)), (''status'', JStr ''removed'')])]) now who
            (''collaboration.member.removed'', ''member'', mr_id target,
              [(''previousRole'', JStr (role_name target_role)),
               (''canceledInvitationCount'', jint (int (count_rows (inviter_pending ws (mr_user target)) (invitations d2))))])
            (drop_member ws target d2))))))))))"

definition remove_member ::
    "collaboration_env \<Rightarrow> session_user \<Rightarrow> ident \<Rightarrow> ident \<Rightarrow> json \<Rightarrow> millis \<Rightarrow> fresh_values
      \<Rightarrow> workspace_db \<Rightarrow> fields collaboration_tx" where
  "remove_member env user ws memberId v now fr d =
     and_then (lift_problem (read_removal_command v)) (\<lambda>c. remove_member_tx env user ws memberId c now fr d)"

section \<open>The personal workspace\<close>

definition slug_point :: "int \<Rightarrow> string" where
  "slug_point p =
     (if (97 \<le> p \<and> p \<le> 122) \<or> (48 \<le> p \<and> p \<le> 57) \<or> p = 45 then utf8_char p
      else if 65536 \<le> p then ''--'' else ''-'')"

definition personal_slug :: "collaboration_env \<Rightarrow> ident \<Rightarrow> string" where
  "personal_slug env user = ''personal-'' @ concat (map slug_point (code_points (ce_lower env user)))"

definition organization_clash :: "organization \<Rightarrow> organization \<Rightarrow> bool" where
  "organization_clash a b \<longleftrightarrow> og_id a = og_id b \<or> og_slug a = og_slug b
     \<or> (og_personalOwnerId a = og_personalOwnerId b \<and> og_personalOwnerId a \<noteq> None)"

definition ensure_personal_workspace ::
    "collaboration_env \<Rightarrow> ident \<Rightarrow> string \<Rightarrow> ident \<Rightarrow> ident \<Rightarrow> workspace_db
      \<Rightarrow> (organization \<times> member_row) collaboration_tx" where
  "ensure_personal_workspace env user name fresh_org fresh_member d =
     (let title = (if js_trim name = [] then ''My'' else js_trim name) @ '' research workspace'';
          g0 = \<lparr>og_id = fresh_org, og_name = title, og_slug = personal_slug env user, og_kind = ''PERSONAL'',
            og_personalOwnerId = Some user, og_revision = 0\<rparr>
      in and_then (case List.find (\<lambda>g. og_personalOwnerId g = Some user) (organizations d) of
             Some g \<Rightarrow> Inr (g, d)
           | None \<Rightarrow> map_sum id (\<lambda>rows. (g0, d\<lparr>organizations := rows\<rparr>))
               (insert_row organization_clash g0 (organizations d))) (\<lambda>(g, d1).
         case member_of (og_id g) user d1 of
           Some m \<Rightarrow> Inr ((g, m), d1)
         | None \<Rightarrow>
             let m0 = \<lparr>mr_id = fresh_member, mr_org = og_id g, mr_user = user, mr_role = ''owner''\<rparr>
             in map_sum id (\<lambda>rows. ((g, m0), d1\<lparr>members := rows\<rparr>)) (insert_row member_clash m0 (members d1))))"

end
