(* ===== verification/Collaboration_Effects.thy ===== *)
theory Collaboration_Effects
  imports Collaboration_Service
begin

text \<open>
  What the bodies of the collaboration service do to the database: one inversion lemma per body, over
  one description of how every applied command commits (\<open>committed\<close>).
\<close>

section \<open>The shared steps\<close>

lemma unless_replayed_InrE:
  assumes "unless_replayed replay d body = Inr (res, d')"
  obtains (replayed) "replay = Inr (Some res)" "d' = d" | (applied) "replay = Inr None" "body = Inr (res, d')"
proof -
  from assms obtain r where r: "replay = Inr r"
    and b: "(case r of Some result \<Rightarrow> Inr (result, d) | None \<Rightarrow> body) = Inr (res, d')"
    unfolding unless_replayed_def by (rule and_then_InrE)
  show thesis
  proof (cases r)
    case None
    with r b show thesis by (intro applied) simp_all
  next
    case (Some x)
    with r b show thesis by (intro replayed) simp_all
  qed
qed

definition bumped :: "ident \<Rightarrow> int \<Rightarrow> organization list \<Rightarrow> organization list" where
  "bumped ws revision gs =
     update_rows (\<lambda>g. og_id g = ws \<and> og_revision g = revision) (\<lambda>g. g\<lparr>og_revision := og_revision g + 1\<rparr>) gs"

lemma bump_revision_InrE:
  assumes "bump_revision ws expected d = Inr (version, d')"
  obtains "version = expected + 1" "d' = d\<lparr>organizations := bumped ws expected (organizations d)\<rparr>"
    "count_rows (\<lambda>g. og_id g = ws \<and> og_revision g = expected) (organizations d) = 1"
  using assms by (auto simp: bump_revision_def bumped_def Let_def split: if_splits)

lemma live_principal_InrE:
  assumes "live_principal ws user fresh d = Inr (who, d')"
  obtains ps where "d' = d\<lparr>principals := principals d @ ps\<rparr>" "list_all (\<lambda>p. rp_org p = ws) ps"
proof -
  from assms obtain x where
    x: "(case List.find (\<lambda>p. rp_org p = ws \<and> rp_liveUserId p = Some user) (principals d) of
         Some p \<Rightarrow> Inr (rp_id p, principals d)
       | None \<Rightarrow>
           map_sum id (Pair fresh)
             (insert_row principal_clash
               \<lparr>rp_id = fresh, rp_org = ws, rp_liveUserId = Some user, rp_pseudonymizedAt = None\<rparr> (principals d)))
      = Inr x"
    and y: "(case x of (i, ps) \<Rightarrow> case filter (\<lambda>p. rp_org p = ws \<and> rp_id p = i) ps of
       [live] \<Rightarrow>
         if rp_liveUserId live = Some user \<and> rp_pseudonymizedAt live = None
         then Inr (i, d\<lparr>principals := ps\<rparr>)
         else Inl (problem_409 ''retained_actor_not_live''
           ''The account can no longer authorize retained workspace activity.'')
     | _ \<Rightarrow> Inl (problem_409 ''retained_actor_not_live''
         ''The account can no longer authorize retained workspace activity.'')) = Inr (who, d')"
    unfolding live_principal_def by (rule and_then_InrE)
  obtain i ps where i: "x = (i, ps)" by (cases x)
  from y i have d': "d' = d\<lparr>principals := ps\<rparr>" by (auto split: list.splits if_splits)
  from x i have "ps = principals d \<or> (\<exists>p. rp_org p = ws \<and> ps = principals d @ [p])"
    by (auto simp: map_sum_Inr_iff insert_row_Inr_iff split: option.splits)
  with d' show thesis
    using that [of "[]"] that [of "[p]" for p] by auto
qed

text \<open>
  An applied command: from \<open>d\<close>, where the command changed only members, invitations and sessions, to the
  final database.
\<close>

definition committed ::
    "ident \<Rightarrow> ident \<Rightarrow> string \<Rightarrow> string \<Rightarrow> string \<Rightarrow> int \<Rightarrow> fields \<Rightarrow> workspace_db \<Rightarrow> workspace_db \<Rightarrow> bool" where
  "committed ws user op command hash revision res d d' \<longleftrightarrow>
     (\<exists>ps row au resource.
        d' = d\<lparr>organizations := bumped ws revision (organizations d), principals := principals d @ ps,
               idempotency := idempotency d @ [row], collaboration_audits := collaboration_audits d @ [au]\<rparr>
        \<and> list_all (\<lambda>p. rp_org p = ws) ps \<and> ca_org au = ws
        \<and> ir_org row = ws \<and> ir_key row = op \<and> ir_actorUserId row = Some user \<and> ir_command row = command
        \<and> ir_requestHash row = hash \<and> ir_response row = JObj res
        \<and> res = applied_result (revision + 1) resource
        \<and> count_rows (\<lambda>g. og_id g = ws \<and> og_revision g = revision) (organizations d) = 1
        \<and> prior_command ws op d = None)"

lemma complete_command_InrE:
  assumes "complete_command ws user op command hash result now who audit d = Inr (res, d')"
  obtains row au where "res = result" "ca_org au = ws" "prior_command ws op d = None"
    "ir_org row = ws" "ir_key row = op" "ir_actorUserId row = Some user" "ir_command row = command"
    "ir_requestHash row = hash" "ir_response row = JObj result"
    "d' = d\<lparr>idempotency := idempotency d @ [row], collaboration_audits := collaboration_audits d @ [au]\<rparr>"
proof -
  obtain action entity entityId metadata where au: "audit = (action, entity, entityId, metadata)" by (cases audit)
  let ?row = "\<lparr>ir_org = ws, ir_actorUserId = Some user, ir_key = op, ir_command = command, ir_requestHash = hash,
     ir_response = JObj result, ir_status = ''COMPLETED'', ir_completedAt = Some now,
     ir_expiresAt = now + week_ms\<rparr>"
  let ?au = "\<lparr>ca_org = ws, ca_actorUserId = user, ca_actorPrincipalId = who, ca_action = action,
     ca_entityType = entity, ca_entityId = entityId, ca_requestId = op, ca_metadata = metadata\<rparr>"
  from assms have n: "\<not> list_ex (idempotency_clash ?row) (idempotency d)" and r: "res = result"
    and d': "d' = d\<lparr>idempotency := idempotency d @ [?row], collaboration_audits := collaboration_audits d @ [?au]\<rparr>"
    by (auto simp: complete_command_def store_command_def append_audit_def map_sum_Inr_iff and_then_Inr_iff
        insert_row_Inr_iff au)
  have "prior_command ws op d = None"
    using n by (auto simp: idempotency_clash_def prior_command_def find_None_iff list_ex_iff)
  then show thesis
    by (intro that [of ?au ?row, OF r _ _ _ _ _ _ _ _ d']) simp_all
qed

lemma committedI:
  assumes "bump_revision ws revision d0 = Inr (version, d1)"
    and "live_principal ws user fresh d1' = Inr (who, d2)"
    and "complete_command ws user op command hash (applied_result version resource) now who audit d3
      = Inr (res, d')"
    and "d1' = d1\<lparr>members := ms\<rparr>"
    and "d3 = d2\<lparr>members := ms', invitations := invs, sessions := ss\<rparr>"
  shows "committed ws user op command hash revision res
    (d0\<lparr>members := ms', invitations := invs, sessions := ss\<rparr>) d'"
proof -
  from assms(1) have b: "version = revision + 1" "d1 = d0\<lparr>organizations := bumped ws revision (organizations d0)\<rparr>"
    "count_rows (\<lambda>g. og_id g = ws \<and> og_revision g = revision) (organizations d0) = 1"
    by (auto elim: bump_revision_InrE)
  from assms(2) obtain ps where p: "d2 = d1'\<lparr>principals := principals d1' @ ps\<rparr>"
    "list_all (\<lambda>p. rp_org p = ws) ps" by (rule live_principal_InrE)
  from assms(3) obtain row au where c: "res = applied_result version resource" "ca_org au = ws"
    "prior_command ws op d3 = None" "ir_org row = ws" "ir_key row = op" "ir_actorUserId row = Some user"
    "ir_command row = command" "ir_requestHash row = hash" "ir_response row = JObj (applied_result version resource)"
    "d' = d3\<lparr>idempotency := idempotency d3 @ [row], collaboration_audits := collaboration_audits d3 @ [au]\<rparr>"
    by (rule complete_command_InrE)
  have "prior_command ws op d3 = prior_command ws op d0"
    by (simp add: prior_command_def assms(4,5) p(1) b(2))
  moreover have "d' = d0\<lparr>members := ms', invitations := invs, sessions := ss,
      organizations := bumped ws revision (organizations d0), principals := principals d0 @ ps,
      idempotency := idempotency d0 @ [row], collaboration_audits := collaboration_audits d0 @ [au]\<rparr>"
    by (simp add: c(10) assms(4,5) p(1) b(2))
  ultimately show ?thesis
    unfolding committed_def using p(2) c b(1,3)
    by (intro exI [of _ ps] exI [of _ row] exI [of _ au] exI [of _ resource]) (simp add: prior_command_def)
qed

section \<open>The five bodies\<close>

lemma require_manager_iff [simp]:
  "require_manager (role_name role) = Inr r \<longleftrightarrow> r = role \<and> (role = Owner \<or> role = Admin)"
  by (auto simp: require_manager_def and_then_Inr_iff)

lemma and_then_pair_InrE:
  assumes "and_then m (\<lambda>(a, b). f a b) = Inr y"
  obtains a b where "m = Inr (a, b)" "f a b = Inr y"
  using assms by (auto simp: and_then_Inr_iff)

lemma throw_unless_InrE: "throw_unless P e = Inr u \<Longrightarrow> (P \<Longrightarrow> R) \<Longrightarrow> R"
  by simp

lemma or_throw_InrE: "or_throw e v = Inr a \<Longrightarrow> (v = Some a \<Longrightarrow> R) \<Longrightarrow> R"
  by simp

lemma manager_InrE:
  assumes "lift_problem (require_manager (role_name role)) = Inr r"
  obtains "role = Owner \<or> role = Admin"
  using assms by auto

lemma invite_permission_InrE:
  assumes "require_invite_permission actor role = Inr u"
  obtains "role \<in> set (invitation_roles_for actor)"
  using assms by (simp add: require_invite_permission_def)

lemma invitable_role_InrE:
  assumes "require_invitable_role s = Inr r"
  obtains "invitable_role_of s = Some r"
  using assms by (simp add: require_invitable_role_def)

lemmas body_elims = invitable_role_InrE invite_permission_InrE and_then_pair_InrE and_then_InrE throw_unless_InrE or_throw_InrE manager_InrE
  unless_replayed_InrE

lemma create_invitation_tx_steps:
  assumes "create_invitation_tx env user ws c now fr d = Inr (res, d')"
  obtains (replayed) hash revision role where "actor_membership ws (su_id user) d = Inr (revision, role)"
      "replay_if_present ws (su_id user) (ic_operationId c) invitation_create_name hash revision d = Inr (Some res)"
      "hash = request_hash env invitation_create_name [(''email'', ic_email c), (''role'', role_name (ic_role c))]"
      "role = Owner \<or> role = Admin" "d' = d"
  | (applied) hash revision role u version d2 who d3 rows where
      "actor_membership ws (su_id user) d = Inr (revision, role)"
      "hash = request_hash env invitation_create_name [(''email'', ic_email c), (''role'', role_name (ic_role c))]"
      "role = Owner \<or> role = Admin" "revision = ic_expectedVersion c"
      "ic_role c \<in> set (invitation_roles_for role)" "\<not> recipient_is_member env ws (ic_email c) d"
      "invitation_room env ws (ic_email c) now (cancel_expired env ws (ic_email c) now d) = Inr u"
      "bump_revision ws (ic_expectedVersion c) (cancel_expired env ws (ic_email c) now d) = Inr (version, d2)"
      "live_principal ws (su_id user) (fv_principalId fr) d2 = Inr (who, d3)"
      "insert_row invitation_clash (new_invitation ws (su_id user) c now fr) (invitations d3) = Inr rows"
      "complete_command ws (su_id user) (ic_operationId c) invitation_create_name hash
         (applied_result version (invitation_resource (new_invitation ws (su_id user) c now fr))) now who
         (''collaboration.invitation.created'', ''invitation'', iv_id (new_invitation ws (su_id user) c now fr),
           [(''role'', JStr (iv_role (new_invitation ws (su_id user) c now fr)))])
         (d3\<lparr>invitations := rows\<rparr>) = Inr (res, d')"
  using assms unfolding create_invitation_tx_def Let_def
  apply (elim body_elims)
   apply (rule replayed; (assumption | rule refl))
  apply (rule applied; (assumption | rule refl))
  done

lemma cancel_invitation_tx_steps:
  assumes "cancel_invitation_tx env user ws invitationId c now fr d = Inr (res, d')"
  obtains (replayed) hash revision role where "actor_membership ws (su_id user) d = Inr (revision, role)"
      "replay_if_present ws (su_id user) (cc_operationId c) invitation_cancel_name hash revision d = Inr (Some res)"
      "hash = request_hash env invitation_cancel_name [(''invitationId'', invitationId)]"
      "role = Owner \<or> role = Admin" "d' = d"
  | (applied) hash revision role i invited version d1 who d2 where
      "actor_membership ws (su_id user) d = Inr (revision, role)"
      "hash = request_hash env invitation_cancel_name [(''invitationId'', invitationId)]"
      "role = Owner \<or> role = Admin" "revision = cc_expectedVersion c"
      "List.find (\<lambda>i. iv_id i = invitationId \<and> iv_org i = ws \<and> iv_teamId i = None) (invitations d) = Some i"
      "invitable_role_of (iv_role i) = Some invited" "invited \<in> set (invitation_roles_for role)"
      "iv_status i = ''pending''"
      "bump_revision ws (cc_expectedVersion c) d = Inr (version, d1)"
      "live_principal ws (su_id user) (fv_principalId fr) d1 = Inr (who, d2)"
      "complete_command ws (su_id user) (cc_operationId c) invitation_cancel_name hash
            (applied_result version
              [(''invitation'', JObj [(''id'', JStr (iv_id i)), (''status'', JStr ''canceled'')])]) now who
            (''collaboration.invitation.canceled'', ''invitation'', iv_id i, [(''role'', JStr (role_name invited))])
            (set_invitation_status (iv_id i) ''canceled'' d2) = Inr (res, d')"
  using assms unfolding cancel_invitation_tx_def Let_def
  apply (elim body_elims)
   apply (rule replayed; (assumption | rule refl))
  apply (rule applied; (assumption | rule refl))
  done

lemma decide_invitation_tx_steps:
  assumes "decide_invitation_tx env user email ws invitationId c checked now fr d = Inr (res, d')"
  obtains (replayed) hash i g where
      "List.find (\<lambda>i. inbox_invitation env email invitationId i \<and> iv_org i = ws) (invitations d) = Some i"
      "organization_of ws d = Some g"
      "replay_if_present ws (su_id user) (dc_operationId c) (decision_command_name (dc_decision c)) hash
         (og_revision g) d = Inr (Some res)"
      "hash = request_hash env (decision_command_name (dc_decision c)) [(''invitationId'', invitationId)]"
      "d' = d"
  | (applied) hash i g invited inviter_revision inviter u version d1 rows who d2 where
      "List.find (\<lambda>i. inbox_invitation env email invitationId i \<and> iv_org i = ws) (invitations d) = Some i"
      "organization_of ws d = Some g"
      "hash = request_hash env (decision_command_name (dc_decision c)) [(''invitationId'', invitationId)]"
      "iv_status i = ''pending'' \<and> checked < iv_expiresAt i" "invitable_role_of (iv_role i) = Some invited"
      "actor_membership ws (iv_inviterId i) d = Inr (inviter_revision, inviter)"
      "invited \<in> set (invitation_roles_for inviter)" "member_of ws (su_id user) d = None"
      "(if dc_decision c = Accept then acceptance_room ws (su_id user) d else Inr ()) = Inr u"
      "bump_revision ws (og_revision g) d = Inr (version, d1)"
      "(if dc_decision c = Accept
        then insert_row member_clash
          \<lparr>mr_id = fv_id fr, mr_org = ws, mr_user = su_id user, mr_role = role_name invited\<rparr> (members d1)
        else Inr (members d1)) = Inr rows"
      "live_principal ws (su_id user) (fv_principalId fr) (d1\<lparr>members := rows\<rparr>) = Inr (who, d2)"
      "complete_command ws (su_id user) (dc_operationId c) (decision_command_name (dc_decision c)) hash
         (applied_result version
           ([(''invitation'', JObj [(''id'', JStr (iv_id i)), (''status'', JStr (terminal_status (dc_decision c)))])]
            @ (if dc_decision c = Accept
               then [(''membership'', JObj [(''workspaceId'', JStr ws), (''role'', JStr (role_name invited))])]
               else []))) now who
         (''collaboration.invitation.'' @ terminal_status (dc_decision c), ''invitation'', iv_id i,
           [(''role'', JStr (role_name invited))])
         (set_invitation_status (iv_id i) (terminal_status (dc_decision c)) d2) = Inr (res, d')"
  using assms unfolding decide_invitation_tx_def Let_def
  apply (elim body_elims)
   apply (rule replayed; (assumption | rule refl))
  apply (rule applied; (assumption | rule refl))
  done

lemma managed_target_InrE:
  assumes "managed_target msg user ws memberId role d = Inr (target, target_role)"
  obtains "target \<in> set (members d)" "mr_id target = memberId" "mr_org target = ws"
    "mr_user target \<noteq> su_id user" "mr_role target = role_name target_role" "target_role \<noteq> Owner"
    "role = Owner \<or> (role = Admin \<and> (target_role = Member \<or> target_role = Viewer))"
  using assms
  by (auto simp: managed_target_def and_then_Inr_iff closed_role_def workspace_role_of_Some_iff
      require_target_permission_def dest!: find_SomeD)

lemma update_role_tx_steps:
  assumes "update_role_tx env user ws memberId c now fr d = Inr (res, d')"
  obtains (replayed) hash revision role where "actor_membership ws (su_id user) d = Inr (revision, role)"
      "replay_if_present ws (su_id user) (rc_operationId c) role_update_name hash revision d = Inr (Some res)"
      "hash = request_hash env role_update_name [(''memberId'', memberId), (''role'', role_name (rc_role c))]"
      "role = Owner \<or> role = Admin" "d' = d"
  | (applied) hash revision role target target_role version d1 who d2 where
      "actor_membership ws (su_id user) d = Inr (revision, role)"
      "hash = request_hash env role_update_name [(''memberId'', memberId), (''role'', role_name (rc_role c))]"
      "role = Owner \<or> role = Admin" "revision = rc_expectedVersion c"
      "managed_target ''Use another owner to change your membership.'' user ws memberId role d
         = Inr (target, target_role)"
      "\<not> (role = Admin \<and> rc_role c = Admin)"
      "bump_revision ws (rc_expectedVersion c) d = Inr (version, d1)"
      "live_principal ws (su_id user) (fv_principalId fr) d1 = Inr (who, d2)"
      "complete_command ws (su_id user) (rc_operationId c) role_update_name hash
         (applied_result version
           [(''member'', JObj [(''id'', JStr (mr_id target)), (''role'', JStr (role_name (rc_role c)))])]) now who
         (''collaboration.member.role.updated'', ''member'', mr_id target,
           [(''previousRole'', JStr (role_name target_role)), (''role'', JStr (role_name (rc_role c)))])
         (d2\<lparr>members := update_rows (\<lambda>m. mr_id m = mr_id target)
            (\<lambda>m. m\<lparr>mr_role := role_name (rc_role c)\<rparr>) (members d2)\<rparr>) = Inr (res, d')"
  using assms unfolding update_role_tx_def Let_def
  apply (elim body_elims)
   apply (rule replayed; (assumption | rule refl))
  apply (rule applied; (assumption | rule refl))
  done

lemma remove_member_tx_steps:
  assumes "remove_member_tx env user ws memberId c now fr d = Inr (res, d')"
  obtains (replayed) hash revision role where "actor_membership ws (su_id user) d = Inr (revision, role)"
      "replay_if_present ws (su_id user) (mc_operationId c) member_remove_name hash revision d = Inr (Some res)"
      "hash = request_hash env member_remove_name
         [(''memberId'', memberId), (''confirmation'', removal_confirmation)]"
      "role = Owner \<or> role = Admin" "d' = d"
  | (applied) hash revision role target target_role version d1 who d2 where
      "actor_membership ws (su_id user) d = Inr (revision, role)"
      "hash = request_hash env member_remove_name
         [(''memberId'', memberId), (''confirmation'', removal_confirmation)]"
      "role = Owner \<or> role = Admin" "revision = mc_expectedVersion c"
      "managed_target ''Use another owner to remove your membership.'' user ws memberId role d
         = Inr (target, target_role)"
      "count_rows (\<lambda>p. pj_org p = ws \<and> pj_createdById p = Some (mr_user target)
         \<and> pj_visibility p = ''PRIVATE'') (projects d) = 0"
      "bump_revision ws (mc_expectedVersion c) d = Inr (version, d1)"
      "live_principal ws (su_id user) (fv_principalId fr) d1 = Inr (who, d2)"
      "complete_command ws (su_id user) (mc_operationId c) member_remove_name hash
         (applied_result version
           [(''member'', JObj [(''id'', JStr (mr_id target)), (''status'', JStr ''removed'')])]) now who
         (''collaboration.member.removed'', ''member'', mr_id target,
           [(''previousRole'', JStr (role_name target_role)),
            (''canceledInvitationCount'', jint (int (count_rows (inviter_pending ws (mr_user target)) (invitations d2))))])
         (drop_member ws target d2) = Inr (res, d')"
  using assms unfolding remove_member_tx_def Let_def
  apply (elim body_elims)
   apply (rule replayed; (assumption | rule refl))
  apply (rule applied; (assumption | rule refl))
  done

end
