(* ===== verification/Collaboration_Policy.thy ===== *)
theory Collaboration_Policy
  imports Collaboration_Effects
begin

text \<open>
  The abstract policy of workspace membership and the refinement of the service to it. The abstract
  state says which role every user has in every workspace and whose personal workspace each is; a
  policy step grants, changes or revokes one role under the authority of another member. The lemmas
  reduce every applied body to one \<open>workspace_change\<close>.
\<close>

section \<open>The policy\<close>

record authority =
  granted :: "ident \<times> ident \<rightharpoonup> workspace_role"
  personal :: "ident \<rightharpoonup> ident"

fun manages :: "workspace_role \<Rightarrow> workspace_role \<Rightarrow> bool" where
  "manages Owner r \<longleftrightarrow> r \<noteq> Owner"
| "manages Admin r \<longleftrightarrow> r = Member \<or> r = Viewer"
| "manages _ r \<longleftrightarrow> False"

inductive policy_step :: "authority \<Rightarrow> authority \<Rightarrow> bool" where
  stay: "policy_step A A"
| join: "granted A (ws, inviter) = Some a \<Longrightarrow> manages a r \<Longrightarrow> granted A (ws, u) = None
    \<Longrightarrow> policy_step A (A\<lparr>granted := (granted A)((ws, u) \<mapsto> r)\<rparr>)"
| regrade: "granted A (ws, actor) = Some a \<Longrightarrow> granted A (ws, u) = Some r0 \<Longrightarrow> actor \<noteq> u
    \<Longrightarrow> manages a r0 \<Longrightarrow> manages a r \<Longrightarrow> policy_step A (A\<lparr>granted := (granted A)((ws, u) \<mapsto> r)\<rparr>)"
| revoke: "granted A (ws, actor) = Some a \<Longrightarrow> granted A (ws, u) = Some r0 \<Longrightarrow> actor \<noteq> u
    \<Longrightarrow> manages a r0 \<Longrightarrow> policy_step A (A\<lparr>granted := (granted A)((ws, u) := None)\<rparr>)"
| found: "personal A ws = None \<Longrightarrow> (\<forall>v. granted A (ws, v) = None)
    \<Longrightarrow> policy_step A (A\<lparr>granted := (granted A)((ws, u) \<mapsto> Owner), personal := (personal A)(ws \<mapsto> u)\<rparr>)"

inductive_cases policy_stepE: "policy_step A B"

lemma manages_not_owner: "manages a r \<Longrightarrow> r \<noteq> Owner"
  by (cases a) auto

lemma manages_invitation_roles: "r \<in> set (invitation_roles_for a) \<longleftrightarrow> manages a r"
  by (cases a; cases r) simp_all

lemma policy_step_owner_kept: "policy_step A B \<Longrightarrow> granted A (ws, u) = Some Owner \<Longrightarrow> granted B (ws, u) = Some Owner"
  by (erule policy_step.cases) (auto dest: manages_not_owner)

lemma policy_step_owner_new:
  assumes "policy_step A B" "granted B (ws, u) = Some Owner"
  shows "granted A (ws, u) = Some Owner \<or> personal B ws = Some u"
  using assms by (cases rule: policy_step.cases) (auto dest: manages_not_owner split: if_splits)

text \<open>In a step of the policy nobody but an owner or an administrator is in the way of a change.\<close>

lemma policy_step_unmanaged:
  assumes "policy_step A B" "\<forall>v a. granted A (ws, v) = Some a \<longrightarrow> a = Member \<or> a = Viewer"
    and "granted A (ws, u) \<noteq> None"
  shows "granted B (ws, v) = granted A (ws, v)"
  using assms
proof (cases rule: policy_step.cases)
  case (join ws' inviter a r u')
  then show ?thesis using assms(2) by (cases "ws' = ws") (cases a; auto)+
next
  case (regrade ws' actor a u' r0 r)
  then show ?thesis using assms(2) by (cases "ws' = ws") (cases a; auto)+
next
  case (revoke ws' actor a u' r0)
  then show ?thesis using assms(2) by (cases "ws' = ws") (cases a; auto)+
qed auto

section \<open>The changes of a workspace\<close>

datatype member_change = Keep | Join member_row | Set_role ident workspace_role | Leave ident

fun change_members :: "member_change \<Rightarrow> member_row list \<Rightarrow> member_row list" where
  "change_members Keep ms = ms"
| "change_members (Join m) ms = ms @ [m]"
| "change_members (Set_role i r) ms = update_rows (\<lambda>m. mr_id m = i) (\<lambda>m. m\<lparr>mr_role := role_name r\<rparr>) ms"
| "change_members (Leave i) ms = delete_rows (\<lambda>m. mr_id m = i) ms"

text \<open>A member row the actor may manage, with its role.\<close>

definition manageable :: "ident \<Rightarrow> ident \<Rightarrow> workspace_role \<Rightarrow> ident \<Rightarrow> workspace_db \<Rightarrow> bool" where
  "manageable ws user a i d \<longleftrightarrow>
     (\<exists>m \<in> set (members d). mr_id m = i \<and> mr_org m = ws \<and> mr_user m \<noteq> user
        \<and> (\<exists>r0. mr_role m = role_name r0 \<and> manages a r0))"

definition role_in :: "ident \<Rightarrow> ident \<Rightarrow> workspace_db \<Rightarrow> workspace_role option" where
  "role_in ws user d = Option.bind (member_of ws user d) (\<lambda>m. workspace_role_of (mr_role m))"

fun allowed_change :: "ident \<Rightarrow> ident \<Rightarrow> member_change \<Rightarrow> workspace_db \<Rightarrow> bool" where
  "allowed_change ws user Keep d \<longleftrightarrow> True"
| "allowed_change ws user (Join m) d \<longleftrightarrow>
     mr_org m = ws \<and> mr_user m = user \<and> member_of ws user d = None
     \<and> \<not> list_ex (\<lambda>x. mr_id x = mr_id m) (members d)
     \<and> (\<exists>r inviter a. mr_role m = role_name r \<and> role_in ws inviter d = Some a \<and> manages a r)
     \<and> count_rows (\<lambda>m. mr_org m = ws) (members d) < max_workspace_members
     \<and> count_rows (\<lambda>m. mr_user m = user) (members d) < max_user_workspaces"
| "allowed_change ws user (Set_role i r) d \<longleftrightarrow>
     (\<exists>a. role_in ws user d = Some a \<and> manages a r \<and> manageable ws user a i d)"
| "allowed_change ws user (Leave i) d \<longleftrightarrow> (\<exists>a. role_in ws user d = Some a \<and> manageable ws user a i d)"

text \<open>Pending invitations of the workspace are settled, new ones of the workspace are appended.\<close>

definition invitations_follow :: "ident \<Rightarrow> invitation_row list \<Rightarrow> invitation_row list \<Rightarrow> bool" where
  "invitations_follow ws is js \<longleftrightarrow>
     (\<exists>P s extra. js = update_rows P (\<lambda>i. i\<lparr>iv_status := s\<rparr>) is @ extra
        \<and> (\<forall>i \<in> set is. P i \<longrightarrow> iv_org i = ws \<and> iv_status i = ''pending'')
        \<and> (s = ''canceled'' \<or> s = ''accepted'' \<or> s = ''rejected'')
        \<and> (extra = [] \<or> (\<exists>i r. extra = [i] \<and> iv_org i = ws \<and> iv_status i = ''pending'' \<and> iv_teamId i = None
             \<and> iv_role i = role_name r \<and> r \<noteq> Owner \<and> \<not> list_ex (\<lambda>x. iv_id x = iv_id i) is)))"

definition sessions_follow :: "ident \<Rightarrow> session_row list \<Rightarrow> session_row list \<Rightarrow> bool" where
  "sessions_follow ws ss ts \<longleftrightarrow>
     (\<exists>P. ts = update_rows P (\<lambda>s. s\<lparr>ss_activeOrganizationId := None, ss_activeTeamId := None\<rparr>) ss
        \<and> (\<forall>s \<in> set ss. P s \<longrightarrow> ss_activeOrganizationId s = Some ws))"

definition workspace_change :: "ident \<Rightarrow> ident \<Rightarrow> member_change \<Rightarrow> workspace_db \<Rightarrow> workspace_db \<Rightarrow> bool" where
  "workspace_change ws user ch d d' \<longleftrightarrow>
     members d' = change_members ch (members d) \<and> allowed_change ws user ch d
     \<and> invitations_follow ws (invitations d) (invitations d')
     \<and> sessions_follow ws (sessions d) (sessions d') \<and> users d' = users d \<and> projects d' = projects d
     \<and> (\<exists>ps row au revision.
          principals d' = principals d @ ps \<and> list_all (\<lambda>p. rp_org p = ws) ps
          \<and> idempotency d' = idempotency d @ [row] \<and> ir_org row = ws \<and> prior_command ws (ir_key row) d = None
          \<and> collaboration_audits d' = collaboration_audits d @ [au] \<and> ca_org au = ws
          \<and> organizations d' = bumped ws revision (organizations d)
          \<and> count_rows (\<lambda>g. og_id g = ws \<and> og_revision g = revision) (organizations d) = 1)"

lemma invitations_follow_refl: "invitations_follow ws is is"
  unfolding invitations_follow_def
  by (intro exI [of _ "\<lambda>i. False"] exI [of _ "''canceled''"] exI [of _ "[]"]) (simp add: update_rows_def)

lemma sessions_follow_refl: "sessions_follow ws ss ss"
  unfolding sessions_follow_def by (intro exI [of _ "\<lambda>s. False"]) (simp add: update_rows_def)

lemma workspace_changeI:
  assumes "committed ws user op command hash revision res d1 d'"
    and "d1 = d\<lparr>members := change_members ch (members d), invitations := invs, sessions := ss\<rparr>"
    and "allowed_change ws user ch d" "invitations_follow ws (invitations d) invs"
    and "sessions_follow ws (sessions d) ss"
  shows "workspace_change ws user ch d d'"
proof -
  from assms(1) obtain ps row au where
    "d' = d1\<lparr>organizations := bumped ws revision (organizations d1), principals := principals d1 @ ps,
       idempotency := idempotency d1 @ [row], collaboration_audits := collaboration_audits d1 @ [au]\<rparr>"
    "list_all (\<lambda>p. rp_org p = ws) ps" "ca_org au = ws" "ir_org row = ws"
    "count_rows (\<lambda>g. og_id g = ws \<and> og_revision g = revision) (organizations d1) = 1"
    "prior_command ws (ir_key row) d1 = None"
    unfolding committed_def by blast
  then show ?thesis
    using assms(2-5) unfolding workspace_change_def by (auto simp: prior_command_def)
qed

end
