(* ===== verification/Collaboration_Changes.thy ===== *)
theory Collaboration_Changes
  imports Collaboration_Policy
begin

text \<open>
  Every body of the collaboration service is a replay, which changes nothing, or one allowed
  \<open>workspace_change\<close>. The schema's keys and the closed columns are the invariant \<open>workspace_wf\<close>.
\<close>

section \<open>The well-formed database\<close>

definition invitation_statuses :: "string list" where
  "invitation_statuses = [''pending'', ''canceled'', ''accepted'', ''rejected'']"

definition workspace_wf :: "workspace_db \<Rightarrow> bool" where
  "workspace_wf d \<longleftrightarrow>
     distinct (map og_id (organizations d)) \<and> distinct (map mr_id (members d))
     \<and> distinct (map (\<lambda>m. (mr_org m, mr_user m)) (members d)) \<and> distinct (map iv_id (invitations d))
     \<and> distinct (map (\<lambda>i. (ir_org i, ir_key i)) (idempotency d))
     \<and> list_all (\<lambda>m. workspace_role_of (mr_role m) \<noteq> None) (members d)
     \<and> list_all (\<lambda>m. list_ex (\<lambda>g. og_id g = mr_org m) (organizations d)) (members d)
     \<and> list_all (\<lambda>i. iv_status i \<in> set invitation_statuses \<and> invitable_role_of (iv_role i) \<noteq> None) (invitations d)
     \<and> list_all (\<lambda>g. case og_personalOwnerId g of None \<Rightarrow> True
         | Some u \<Rightarrow> role_in (og_id g) u d = Some Owner) (organizations d)"

lemma workspace_wfD:
  assumes "workspace_wf d"
  shows "distinct (map og_id (organizations d))" "distinct (map mr_id (members d))"
    "distinct (map (\<lambda>m. (mr_org m, mr_user m)) (members d))" "distinct (map iv_id (invitations d))"
    "distinct (map (\<lambda>i. (ir_org i, ir_key i)) (idempotency d))"
    "\<And>m. m \<in> set (members d) \<Longrightarrow> \<exists>r. mr_role m = role_name r"
    "\<And>m. m \<in> set (members d) \<Longrightarrow> \<exists>g \<in> set (organizations d). og_id g = mr_org m"
proof -
  note w = assms [unfolded workspace_wf_def list_all_iff list_ex_iff]
  from w show "distinct (map og_id (organizations d))" "distinct (map mr_id (members d))"
    "distinct (map (\<lambda>m. (mr_org m, mr_user m)) (members d))" "distinct (map iv_id (invitations d))"
    "distinct (map (\<lambda>i. (ir_org i, ir_key i)) (idempotency d))" by simp_all
  fix m assume "m \<in> set (members d)"
  with w have "workspace_role_of (mr_role m) \<noteq> None" "\<exists>g \<in> set (organizations d). og_id g = mr_org m" by blast+
  then show "\<exists>r. mr_role m = role_name r" "\<exists>g \<in> set (organizations d). og_id g = mr_org m"
    by (auto simp: workspace_role_of_Some_iff)
qed

section \<open>Actors\<close>

lemma actor_membership_InrD:
  assumes "actor_membership ws user d = Inr (revision, role)"
  shows "role_in ws user d = Some role" "organization_of ws d \<noteq> None"
    "\<exists>g. organization_of ws d = Some g \<and> revision = og_revision g"
  using assms by (auto simp: actor_membership_def and_then_Inr_iff closed_role_def role_in_def)

lemma managed_target_manageable:
  assumes "managed_target msg user ws memberId role d = Inr (target, target_role)"
  shows "manageable ws (su_id user) role memberId d" "mr_id target = memberId"
proof -
  from assms show "mr_id target = memberId" by (rule managed_target_InrE)
  from assms show "manageable ws (su_id user) role memberId d"
  proof (rule managed_target_InrE)
    assume t: "target \<in> set (members d)" "mr_id target = memberId" "mr_org target = ws"
      "mr_user target \<noteq> su_id user" "mr_role target = role_name target_role" "target_role \<noteq> Owner"
      "role = Owner \<or> (role = Admin \<and> (target_role = Member \<or> target_role = Viewer))"
    then have "manages role target_role" by auto
    with t show ?thesis unfolding manageable_def by blast
  qed
qed

section \<open>The bodies as workspace changes\<close>

lemma bump_principal_frame:
  assumes "bump_revision ws expected d = Inr (version, d1)"
    and "live_principal ws user fresh (d1\<lparr>members := ms\<rparr>) = Inr (who, d2)"
  shows "members d2 = ms" "invitations d2 = invitations d" "sessions d2 = sessions d"
  using assms by (auto elim!: bump_revision_InrE live_principal_InrE)

lemma update_cancel_expired_follow:
  "invitations_follow ws (invitations d)
     (invitations (cancel_expired env ws email now d) @ extra)"
  if "extra = [] \<or> (\<exists>i r. extra = [i] \<and> iv_org i = ws \<and> iv_status i = ''pending'' \<and> iv_teamId i = None
             \<and> iv_role i = role_name r \<and> r \<noteq> Owner \<and> \<not> list_ex (\<lambda>x. iv_id x = iv_id i) (invitations d))"
  unfolding invitations_follow_def cancel_expired_def
  by (rule exI [of _ "\<lambda>i. iv_org i = ws \<and> ce_same_email env (iv_email i) email
         \<and> iv_status i = ''pending'' \<and> iv_expiresAt i \<le> now"], rule exI [of _ "''canceled''"], rule exI [of _ extra])
    (use that in simp)

lemma create_invitation_change:
  assumes run: "create_invitation_tx env user ws c now fr d = Inr (res, d')" and role: "ic_role c \<noteq> Owner"
  shows "d' = d \<or> workspace_change ws (su_id user) Keep d d'"
  using run
proof (cases rule: create_invitation_tx_steps)
  case (applied hash revision role u version d2 who d3 rows)
  let ?d1 = "cancel_expired env ws (ic_email c) now d"
  let ?i = "new_invitation ws (su_id user) c now fr"
  have l: "live_principal ws (su_id user) (fv_principalId fr) (d2\<lparr>members := members d2\<rparr>) = Inr (who, d3)"
    using applied(9) by simp
  have d2: "members d2 = members d" using applied(8) by (auto elim: bump_revision_InrE simp: cancel_expired_def)
  note fr = bump_principal_frame [OF applied(8) l]
  from applied(10) have rows: "rows = invitations ?d1 @ [?i]"
    and new: "\<not> list_ex (invitation_clash ?i) (invitations ?d1)" by (simp_all add: insert_row_Inr_iff fr)
  have "committed ws (su_id user) (ic_operationId c) invitation_create_name hash (ic_expectedVersion c) res
      (?d1\<lparr>members := members d, invitations := rows, sessions := sessions d\<rparr>) d'"
    using fr d2 by (intro committedI [OF applied(8) l applied(11) refl])
      (cases d3, simp add: cancel_expired_def)
  moreover have "map iv_id (invitations ?d1) = map iv_id (invitations d)"
    by (simp add: cancel_expired_def map_update_rows)
  then have "iv_id ` set (invitations ?d1) = iv_id ` set (invitations d)" by (metis set_map)
  with new have "\<not> list_ex (\<lambda>x. iv_id x = iv_id ?i) (invitations d)"
    by (auto simp: list_ex_iff invitation_clash_def image_iff) (metis imageI image_iff)
  then have "invitations_follow ws (invitations d) rows"
    unfolding rows using role
    by (intro update_cancel_expired_follow) (auto simp: new_invitation_def)
  ultimately have "workspace_change ws (su_id user) Keep d d'"
    by (intro workspace_changeI [where ch = Keep and invs = rows and ss = "sessions d"])
      (auto simp: cancel_expired_def sessions_follow_refl)
  then show ?thesis ..
qed simp

lemma settle_follow:
  assumes "distinct (map iv_id js)" "i \<in> set js" "iv_org i = ws" "iv_status i = ''pending''"
    and "s = ''canceled'' \<or> s = ''accepted'' \<or> s = ''rejected''"
  shows "invitations_follow ws js (update_rows (\<lambda>r. iv_id r = iv_id i) (\<lambda>r. r\<lparr>iv_status := s\<rparr>) js)"
proof -
  have "\<And>r. r \<in> set js \<Longrightarrow> iv_id r = iv_id i \<Longrightarrow> r = i" using distinct_keyD [OF assms(1) _ assms(2)] by blast
  with assms show ?thesis
    unfolding invitations_follow_def
    by (intro exI [of _ "\<lambda>r. iv_id r = iv_id i"] exI [of _ s] exI [of _ "[]"]) auto
qed

lemma cancel_invitation_change:
  assumes wf: "workspace_wf d" and run: "cancel_invitation_tx env user ws invitationId c now fr d = Inr (res, d')"
  shows "d' = d \<or> workspace_change ws (su_id user) Keep d d'"
  using run
proof (cases rule: cancel_invitation_tx_steps)
  case (applied hash revision role i invited version d1 who d2)
  have l: "live_principal ws (su_id user) (fv_principalId fr) (d1\<lparr>members := members d1\<rparr>) = Inr (who, d2)"
    using applied by simp
  have d1: "members d1 = members d" using applied(9) by (auto elim: bump_revision_InrE)
  note fr = bump_principal_frame [OF applied(9) l]
  let ?invs = "update_rows (\<lambda>r. iv_id r = iv_id i) (\<lambda>r. r\<lparr>iv_status := ''canceled''\<rparr>) (invitations d)"
  have "committed ws (su_id user) (cc_operationId c) invitation_cancel_name hash (cc_expectedVersion c) res
      (d\<lparr>members := members d, invitations := ?invs, sessions := sessions d\<rparr>) d'"
    using fr d1 by (intro committedI [OF applied(9) l applied(11) refl])
      (cases d2, simp add: set_invitation_status_def)
  moreover have "invitations_follow ws (invitations d) ?invs"
    using applied(5,8) workspace_wfD(4) [OF wf] by (intro settle_follow) (auto dest: find_SomeD)
  ultimately have "workspace_change ws (su_id user) Keep d d'"
    by (intro workspace_changeI [where ch = Keep and invs = ?invs and ss = "sessions d"])
      (auto simp: sessions_follow_refl)
  then show ?thesis ..
qed simp

lemma update_role_change:
  assumes wf: "workspace_wf d" and run: "update_role_tx env user ws memberId c now fr d = Inr (res, d')"
    and role: "rc_role c \<noteq> Owner"
  shows "d' = d \<or> workspace_change ws (su_id user) (Set_role memberId (rc_role c)) d d'"
  using run
proof (cases rule: update_role_tx_steps)
  case (applied hash revision actor target target_role version d1 who d2)
  have l: "live_principal ws (su_id user) (fv_principalId fr) (d1\<lparr>members := members d1\<rparr>) = Inr (who, d2)"
    using applied by simp
  have d1: "members d1 = members d" using applied(7) by (auto elim: bump_revision_InrE)
  note fr = bump_principal_frame [OF applied(7) l]
  note t = managed_target_manageable [OF applied(5)]
  let ?ch = "Set_role memberId (rc_role c)"
  have "committed ws (su_id user) (rc_operationId c) role_update_name hash (rc_expectedVersion c) res
      (d\<lparr>members := change_members ?ch (members d), invitations := invitations d, sessions := sessions d\<rparr>) d'"
    using fr d1 t(2) by (intro committedI [OF applied(7) l applied(9) refl]) (cases d2, simp)
  moreover have "manages actor (rc_role c)"
    using applied(3,6) role by (cases "rc_role c") auto
  then have "allowed_change ws (su_id user) ?ch d"
    using actor_membership_InrD(1) [OF applied(1)] t(1) by auto
  ultimately have "workspace_change ws (su_id user) ?ch d d'"
    by (intro workspace_changeI [where ch = ?ch and invs = "invitations d" and ss = "sessions d"])
      (auto simp: sessions_follow_refl invitations_follow_refl)
  then show ?thesis ..
qed simp

lemma remove_member_change:
  assumes wf: "workspace_wf d" and run: "remove_member_tx env user ws memberId c now fr d = Inr (res, d')"
  shows "d' = d \<or> workspace_change ws (su_id user) (Leave memberId) d d'"
  using run
proof (cases rule: remove_member_tx_steps)
  case (applied hash revision actor target target_role version d1 who d2)
  have l: "live_principal ws (su_id user) (fv_principalId fr) (d1\<lparr>members := members d1\<rparr>) = Inr (who, d2)"
    using applied by simp
  have d1: "members d1 = members d" using applied(7) by (auto elim: bump_revision_InrE)
  note fr = bump_principal_frame [OF applied(7) l]
  note t = managed_target_manageable [OF applied(5)]
  let ?ch = "Leave memberId"
  let ?d3 = "drop_member ws target d"
  have "committed ws (su_id user) (mc_operationId c) member_remove_name hash (mc_expectedVersion c) res
      (d\<lparr>members := change_members ?ch (members d), invitations := invitations ?d3,
          sessions := sessions ?d3\<rparr>) d'"
    using fr d1 t(2) by (intro committedI [OF applied(7) l applied(9) refl]) (cases d2, simp add: drop_member_def)
  moreover have "invitations_follow ws (invitations d) (invitations ?d3)"
    unfolding invitations_follow_def drop_member_def
    by (rule exI [of _ "inviter_pending ws (mr_user target)"], rule exI [of _ "''canceled''"], rule exI [of _ "[]"])
      (simp add: inviter_pending_def)
  moreover have "sessions_follow ws (sessions d) (sessions ?d3)"
    unfolding sessions_follow_def drop_member_def
    by (rule exI [of _ "\<lambda>s. ss_userId s = mr_user target \<and> ss_activeOrganizationId s = Some ws"]) simp
  moreover have "allowed_change ws (su_id user) ?ch d"
    using actor_membership_InrD(1) [OF applied(1)] t(1) by auto
  ultimately have "workspace_change ws (su_id user) ?ch d d'"
    by (intro workspace_changeI [where ch = ?ch and invs = "invitations ?d3" and ss = "sessions ?d3"]) auto
  then show ?thesis ..
qed simp

lemma decide_invitation_change:
  assumes wf: "workspace_wf d"
    and run: "decide_invitation_tx env user email ws invitationId c checked now fr d = Inr (res, d')"
  shows "d' = d \<or> workspace_change ws (su_id user) Keep d d'
    \<or> (\<exists>m. workspace_change ws (su_id user) (Join m) d d')"
  using run
proof (cases rule: decide_invitation_tx_steps)
  case (applied hash i g invited inviter_revision inviter u version d1 rows who d2)
  have d1: "members d1 = members d" using applied(10) by (auto elim: bump_revision_InrE)
  note fr = bump_principal_frame [OF applied(10,12)]
  let ?m = "\<lparr>mr_id = fv_id fr, mr_org = ws, mr_user = su_id user, mr_role = role_name invited\<rparr>"
  let ?ch = "if dc_decision c = Accept then Join ?m else Keep"
  let ?invs = "update_rows (\<lambda>r. iv_id r = iv_id i) (\<lambda>r. r\<lparr>iv_status := terminal_status (dc_decision c)\<rparr>) (invitations d)"
  have rows: "rows = change_members ?ch (members d)"
    using applied(11) d1 by (auto simp: insert_row_Inr_iff split: if_splits)
  have "committed ws (su_id user) (dc_operationId c) (decision_command_name (dc_decision c)) hash (og_revision g) res
      (d\<lparr>members := rows, invitations := ?invs, sessions := sessions d\<rparr>) d'"
    using fr by (intro committedI [OF applied(10,12,13) refl]) (cases d2, simp add: set_invitation_status_def)
  moreover have "invitations_follow ws (invitations d) ?invs"
    using applied(1,4) workspace_wfD(4) [OF wf]
    by (intro settle_follow) (auto dest: find_SomeD, cases "dc_decision c", auto)
  moreover have "allowed_change ws (su_id user) ?ch d"
  proof (cases "dc_decision c = Accept")
    case True
    have "manages inviter invited" using applied(7) by (simp add: manages_invitation_roles)
    moreover have "\<not> list_ex (\<lambda>x. mr_id x = fv_id fr) (members d)"
      using applied(11) True d1 by (auto simp: insert_row_Inr_iff member_clash_def list_ex_iff)
    ultimately show ?thesis
      using True applied(8,9) actor_membership_InrD(1) [OF applied(6)]
      by (auto simp: acceptance_room_def and_then_Inr_iff)
  qed simp
  ultimately have "workspace_change ws (su_id user) ?ch d d'"
    by (intro workspace_changeI [where ch = ?ch and invs = ?invs and ss = "sessions d"])
      (auto simp: sessions_follow_refl rows)
  then show ?thesis by (auto split: if_splits)
qed simp

end
