(* ===== verification/Collaboration_System.thy ===== *)
theory Collaboration_System
  imports Collaboration_Changes Transactions
begin

text \<open>
  The collaboration service as a system: events (a request with the values its transaction reads from
  outside), the database after an event, and runs. The invariant \<open>workspace_wf\<close> holds along every run,
  and every event is a step of the policy.
\<close>

section \<open>Events\<close>

datatype collaboration_event =
    Invite session_user ident json millis fresh_values
  | Cancel_invite session_user ident ident json millis fresh_values
  | Decide session_user ident json workspace_db millis millis fresh_values
  | Regrade session_user ident ident json millis fresh_values
  | Expel session_user ident ident json millis fresh_values
  | Open_personal ident string ident ident

fun run_collaboration ::
    "collaboration_env \<Rightarrow> collaboration_event \<Rightarrow> workspace_db \<Rightarrow> fields option collaboration_tx" where
  "run_collaboration env (Invite user ws v now fr) d =
     map_sum id (map_prod Some id) (create_invitation env user ws v now fr d)"
| "run_collaboration env (Cancel_invite user ws i v now fr) d =
     map_sum id (map_prod Some id) (cancel_invitation env user ws i v now fr d)"
| "run_collaboration env (Decide user i v earlier checked now fr) d =
     map_sum id (map_prod Some id) (decide_invitation env user i v earlier checked now fr d)"
| "run_collaboration env (Regrade user ws m v now fr) d =
     map_sum id (map_prod Some id) (update_member_role env user ws m v now fr d)"
| "run_collaboration env (Expel user ws m v now fr) d =
     map_sum id (map_prod Some id) (remove_member env user ws m v now fr d)"
| "run_collaboration env (Open_personal user name fresh_org fresh_member) d =
     map_sum id (map_prod (\<lambda>_. None) id) (ensure_personal_workspace env user name fresh_org fresh_member d)"

text \<open>A transaction that throws leaves the database alone.\<close>

definition after_event :: "collaboration_env \<Rightarrow> collaboration_event \<Rightarrow> workspace_db \<Rightarrow> workspace_db" where
  "after_event env ev d = (case run_collaboration env ev d of Inl e \<Rightarrow> d | Inr (r, d') \<Rightarrow> d')"

definition after_events :: "collaboration_env \<Rightarrow> collaboration_event list \<Rightarrow> workspace_db \<Rightarrow> workspace_db" where
  "after_events env evs d = run_events (run_collaboration env) evs d"

lemma after_events_simps [simp]:
  "after_events env [] d = d"
  "after_events env (ev # evs) d = after_events env evs (after_event env ev d)"
  by (simp_all add: after_events_def after_event_def split: sum.split)

definition personal_change :: "ident \<Rightarrow> workspace_db \<Rightarrow> workspace_db \<Rightarrow> bool" where
  "personal_change u d d' \<longleftrightarrow>
     \<not> list_ex (\<lambda>g. og_personalOwnerId g = Some u) (organizations d)
     \<and> (\<exists>g m. d' = d\<lparr>organizations := organizations d @ [g], members := members d @ [m]\<rparr>
        \<and> \<not> list_ex (\<lambda>x. og_id x = og_id g) (organizations d) \<and> \<not> list_ex (\<lambda>x. mr_id x = mr_id m) (members d)
        \<and> og_personalOwnerId g = Some u \<and> mr_org m = og_id g \<and> mr_user m = u \<and> mr_role m = ''owner'')"

lemma invitable_role_not_owner: "invitable_role v = Inr r \<Longrightarrow> r \<noteq> Owner"
  by (auto simp: invitable_role_def invitable_role_of_Some_iff split: option.splits json.splits)

lemma read_invitation_role:
  assumes "read_invitation_command lower v = Inr c"
  shows "ic_role c \<noteq> Owner"
proof -
  from assms obtain w where "invitable_role w = Inr (ic_role c)"
    unfolding read_invitation_command_def by (elim and_then_InrE) (simp only: sum.inject, metis invitation_command.select_convs(4))
  then show ?thesis by (rule invitable_role_not_owner)
qed

lemma read_role_role:
  assumes "read_role_command v = Inr c"
  shows "rc_role c \<noteq> Owner"
proof -
  from assms obtain w where "invitable_role w = Inr (rc_role c)"
    unfolding read_role_command_def by (elim and_then_InrE) (simp only: sum.inject, metis role_command.select_convs(3))
  then show ?thesis by (rule invitable_role_not_owner)
qed

lemma ensure_personal_change:
  assumes wf: "workspace_wf d"
    and run: "ensure_personal_workspace env user name fresh_org fresh_member d = Inr (r, d')"
  shows "d' = d \<or> personal_change user d d'"
proof (cases "List.find (\<lambda>g. og_personalOwnerId g = Some user) (organizations d)")
  case (Some g)
  then have "g \<in> set (organizations d)" "og_personalOwnerId g = Some user" by (auto dest: find_SomeD)
  with wf have "role_in (og_id g) user d = Some Owner" by (auto simp: workspace_wf_def list_all_iff)
  then have "member_of (og_id g) user d \<noteq> None" by (auto simp: role_in_def bind_eq_Some_conv)
  with Some run show ?thesis by (auto simp: ensure_personal_workspace_def Let_def)
next
  case None
  let ?g = "\<lparr>og_id = fresh_org, og_name = (if js_trim name = [] then ''My'' else js_trim name) @ '' research workspace'',
     og_slug = personal_slug env user, og_kind = ''PERSONAL'', og_personalOwnerId = Some user, og_revision = 0\<rparr>"
  from None run have new: "\<not> list_ex (organization_clash ?g) (organizations d)"
    by (auto simp: ensure_personal_workspace_def Let_def and_then_Inr_iff map_sum_Inr_iff insert_row_Inr_iff)
  then have fresh: "\<not> list_ex (\<lambda>x. og_id x = fresh_org) (organizations d)"
    by (auto simp: list_ex_iff organization_clash_def)
  then have "member_of fresh_org user d = None"
    using workspace_wfD(7) [OF wf] by (fastforce simp: member_of_def find_None_iff list_ex_iff)
  then have m1: "member_of fresh_org user (d\<lparr>organizations := organizations d @ [?g]\<rparr>) = None"
    by (simp add: member_of_def)
  let ?m = "\<lparr>mr_id = fresh_member, mr_org = fresh_org, mr_user = user, mr_role = ''owner''\<rparr>"
  have ins: "insert_row organization_clash ?g (organizations d) = Inr (organizations d @ [?g])"
    using new by (simp add: insert_row_Inr_iff)
  have "map_sum id (\<lambda>rows. ((?g, ?m), d\<lparr>organizations := organizations d @ [?g], members := rows\<rparr>))
      (insert_row member_clash ?m (members d)) = Inr (r, d')"
    using run by (simp add: ensure_personal_workspace_def Let_def None ins m1)
  then have "\<not> list_ex (member_clash ?m) (members d)"
    and "d' = d\<lparr>organizations := organizations d @ [?g], members := members d @ [?m]\<rparr>"
    by (auto simp: map_sum_Inr_iff insert_row_Inr_iff)
  then have "personal_change user d d'"
    unfolding personal_change_def using fresh None
    by (intro conjI exI [of _ ?g] exI [of _ ?m]) (auto simp: member_clash_def list_ex_iff find_None_iff)
  then show ?thesis ..
qed

text \<open>The account an event acts for, and the workspace its request names, if it names one.\<close>

fun event_actor :: "collaboration_event \<Rightarrow> ident" where
  "event_actor (Invite user ws v now fr) = su_id user"
| "event_actor (Cancel_invite user ws i v now fr) = su_id user"
| "event_actor (Decide user i v earlier checked now fr) = su_id user"
| "event_actor (Regrade user ws m v now fr) = su_id user"
| "event_actor (Expel user ws m v now fr) = su_id user"
| "event_actor (Open_personal user name fresh_org fresh_member) = user"

fun event_workspace :: "collaboration_event \<Rightarrow> ident option" where
  "event_workspace (Invite user ws v now fr) = Some ws"
| "event_workspace (Cancel_invite user ws i v now fr) = Some ws"
| "event_workspace (Regrade user ws m v now fr) = Some ws"
| "event_workspace (Expel user ws m v now fr) = Some ws"
| "event_workspace _ = None"

definition known_change :: "collaboration_event \<Rightarrow> workspace_db \<Rightarrow> workspace_db \<Rightarrow> bool" where
  "known_change ev d d' \<longleftrightarrow>
     d' = d
     \<or> (\<exists>ws ch. event_workspace ev \<in> {None, Some ws} \<and> workspace_change ws (event_actor ev) ch d d')
     \<or> (event_workspace ev = None \<and> personal_change (event_actor ev) d d')"

lemma run_collaboration_change:
  assumes wf: "workspace_wf d" and run: "run_collaboration env ev d = Inr (r, d')"
  shows "known_change ev d d'"
proof (cases ev)
  case (Invite user ws v now fr)
  with run obtain c res where "read_invitation_command (ce_lower env) v = Inr c"
    "create_invitation_tx env user ws c now fr d = Inr (res, d')"
    by (auto simp: create_invitation_def and_then_Inr_iff map_sum_Inr_iff)
  then show ?thesis
    using create_invitation_change read_invitation_role Invite unfolding known_change_def by fastforce
next
  case (Cancel_invite user ws i v now fr)
  with run obtain c res where "cancel_invitation_tx env user ws i c now fr d = Inr (res, d')"
    by (auto simp: cancel_invitation_def and_then_Inr_iff map_sum_Inr_iff)
  then show ?thesis using cancel_invitation_change [OF wf] Cancel_invite unfolding known_change_def by fastforce
next
  case (Decide user i v earlier checked now fr)
  with run obtain email ws c res where "decide_invitation_tx env user email ws i c checked now fr d = Inr (res, d')"
    by (auto simp: decide_invitation_def and_then_Inr_iff map_sum_Inr_iff)
  then show ?thesis using decide_invitation_change [OF wf] Decide unfolding known_change_def by fastforce
next
  case (Regrade user ws m v now fr)
  with run obtain c res where "read_role_command v = Inr c" "update_role_tx env user ws m c now fr d = Inr (res, d')"
    by (auto simp: update_member_role_def and_then_Inr_iff map_sum_Inr_iff)
  then show ?thesis using update_role_change [OF wf] read_role_role Regrade unfolding known_change_def by fastforce
next
  case (Expel user ws m v now fr)
  with run obtain c res where "remove_member_tx env user ws m c now fr d = Inr (res, d')"
    by (auto simp: remove_member_def and_then_Inr_iff map_sum_Inr_iff)
  then show ?thesis using remove_member_change [OF wf] Expel unfolding known_change_def by fastforce
next
  case (Open_personal user name fresh_org fresh_member)
  with run obtain x where "ensure_personal_workspace env user name fresh_org fresh_member d = Inr (x, d')"
    by (auto simp: map_sum_Inr_iff)
  then show ?thesis using ensure_personal_change [OF wf] Open_personal unfolding known_change_def by fastforce
qed

lemma after_event_change: "workspace_wf d \<Longrightarrow> known_change ev d (after_event env ev d)"
  using run_collaboration_change [of d env ev]
  by (auto simp: after_event_def known_change_def split: sum.splits)

end
