(* ===== verification/Collaboration_Invariants.thy ===== *)
theory Collaboration_Invariants
  imports Collaboration_System
begin

text \<open>
  The refinement of the collaboration service to the membership policy and the invariant
  \<open>workspace_wf\<close>, over every event.
\<close>

section \<open>Roles after a change\<close>

lemma member_of_iff:
  assumes "distinct (map (\<lambda>m. (mr_org m, mr_user m)) (members d))"
  shows "member_of ws u d = Some m \<longleftrightarrow> m \<in> set (members d) \<and> mr_org m = ws \<and> mr_user m = u"
proof
  assume "m \<in> set (members d) \<and> mr_org m = ws \<and> mr_user m = u"
  with find_unique_key [OF assms, of m] show "member_of ws u d = Some m"
    by (simp add: member_of_def)
qed (auto simp: member_of_def dest: find_SomeD)

lemma member_of_None: "m \<in> set (members d) \<Longrightarrow> member_of (mr_org m) (mr_user m) d \<noteq> None"
  by (auto simp: member_of_def find_None_iff)

lemma role_in_join:
  assumes "members d' = members d @ [m]" "member_of (mr_org m) (mr_user m) d = None"
  shows "role_in ws u d' =
    (if ws = mr_org m \<and> u = mr_user m then workspace_role_of (mr_role m) else role_in ws u d)"
  using assms by (auto simp: role_in_def member_of_def find_append split: option.splits)

lemma role_in_set_role:
  assumes ids: "distinct (map mr_id (members d))" and m: "m \<in> set (members d)"
    and d': "members d' = update_rows (\<lambda>x. mr_id x = mr_id m) (\<lambda>x. x\<lparr>mr_role := role_name r\<rparr>) (members d)"
    and keys: "distinct (map (\<lambda>m. (mr_org m, mr_user m)) (members d))"
  shows "role_in ws u d' = (if ws = mr_org m \<and> u = mr_user m then Some r else role_in ws u d)"
proof -
  have f: "member_of ws u d' = map_option (\<lambda>x. if mr_id x = mr_id m then x\<lparr>mr_role := role_name r\<rparr> else x)
      (member_of ws u d)"
    unfolding member_of_def d' by (rule find_update_rows) simp
  have same: "mr_id x = mr_id m \<longleftrightarrow> x = m" if "x \<in> set (members d)" for x
    using distinct_keyD [OF ids that m] by blast
  show ?thesis
  proof (cases "member_of ws u d")
    case None
    then have "\<not> (ws = mr_org m \<and> u = mr_user m)" using member_of_None [OF m] by blast
    with None f show ?thesis by (auto simp: role_in_def)
  next
    case (Some x)
    then have x: "x \<in> set (members d)" "mr_org x = ws" "mr_user x = u"
      using member_of_iff [OF keys] by auto
    have "ws = mr_org m \<and> u = mr_user m \<longleftrightarrow> x = m"
      using x m distinct_keyD [OF keys x(1) m] by auto
    with Some f same [OF x(1)] show ?thesis by (simp add: role_in_def)
  qed
qed

lemma role_in_leave:
  assumes ids: "distinct (map mr_id (members d))" and m: "m \<in> set (members d)"
    and d': "members d' = delete_rows (\<lambda>x. mr_id x = mr_id m) (members d)"
    and keys: "distinct (map (\<lambda>m. (mr_org m, mr_user m)) (members d))"
  shows "role_in ws u d' = (if ws = mr_org m \<and> u = mr_user m then None else role_in ws u d)"
proof -
  have same: "mr_id x = mr_id m \<longleftrightarrow> x = m" if "x \<in> set (members d)" for x
    using distinct_keyD [OF ids that m] by blast
  have keys': "distinct (map (\<lambda>m. (mr_org m, mr_user m)) (members d'))"
    using keys by (simp add: d' delete_rows_def distinct_map_filter)
  have mem: "x \<in> set (members d') \<longleftrightarrow> x \<in> set (members d) \<and> x \<noteq> m" for x
    using same by (auto simp: d' delete_rows_def)
  show ?thesis
  proof (cases "ws = mr_org m \<and> u = mr_user m")
    case True
    have "member_of ws u d' = None"
    proof (rule ccontr)
      assume "member_of ws u d' \<noteq> None"
      then obtain x where "x \<in> set (members d')" "mr_org x = ws" "mr_user x = u"
        using member_of_iff [OF keys'] by auto
      with True mem show False using distinct_keyD [OF keys _ m, of x] by auto
    qed
    with True show ?thesis by (simp add: role_in_def)
  next
    case False
    have "member_of ws u d' = Some x \<longleftrightarrow> member_of ws u d = Some x" for x
      using False by (auto simp: member_of_iff [OF keys'] member_of_iff [OF keys] mem)
    then have "member_of ws u d' = member_of ws u d" by (metis not_None_eq)
    with False show ?thesis by (auto simp: role_in_def)
  qed
qed

section \<open>The refinement\<close>

definition authority_of :: "workspace_db \<Rightarrow> authority" where
  "authority_of d =
     \<lparr>granted = (\<lambda>(ws, u). role_in ws u d),
      personal = (\<lambda>ws. Option.bind (organization_of ws d) og_personalOwnerId)\<rparr>"

lemma personal_bumped:
  assumes "organizations d' = bumped ws revision (organizations d)"
  shows "personal (authority_of d') = personal (authority_of d)"
proof -
  have "organization_of x d' = map_option (\<lambda>g. if og_id g = ws \<and> og_revision g = revision
      then g\<lparr>og_revision := og_revision g + 1\<rparr> else g) (organization_of x d)" for x
    unfolding organization_of_def assms bumped_def by (rule find_update_rows) simp
  then have "Option.bind (organization_of x d') og_personalOwnerId = Option.bind (organization_of x d) og_personalOwnerId"
    for x by (cases "organization_of x d") simp_all
  then show ?thesis by (simp add: authority_of_def)
qed

lemma authority_eqI:
  assumes "personal (authority_of d') = personal A" "\<And>ws u. role_in ws u d' = granted A (ws, u)"
  shows "authority_of d' = A"
  using assms by (cases A) (auto simp: authority_of_def fun_eq_iff)

lemma manageableE:
  assumes "manageable ws user a i d"
  obtains m r0 where "m \<in> set (members d)" "mr_id m = i" "mr_org m = ws" "mr_user m \<noteq> user"
    "mr_role m = role_name r0" "manages a r0"
  using assms unfolding manageable_def by blast

lemma granted_authority [simp]: "granted (authority_of d) (ws, u) = role_in ws u d"
  by (simp add: authority_of_def)

lemma workspace_change_policy:
  assumes wf: "workspace_wf d" and ch: "workspace_change ws user ch d d'"
  shows "policy_step (authority_of d) (authority_of d')"
proof -
  note keys = workspace_wfD(3) [OF wf] and ids = workspace_wfD(2) [OF wf]
  from ch have mem: "members d' = change_members ch (members d)" and ok: "allowed_change ws user ch d"
    unfolding workspace_change_def by blast+
  from ch obtain revision where "organizations d' = bumped ws revision (organizations d)"
    unfolding workspace_change_def by blast
  then have per: "personal (authority_of d') = personal (authority_of d)" by (rule personal_bumped)
  show ?thesis
  proof (cases ch)
    case Keep
    with mem have "authority_of d' = authority_of d"
      by (intro authority_eqI [OF per]) (simp add: role_in_def member_of_def)
    then show ?thesis by (simp add: policy_step.stay)
  next
    case (Join m)
    with ok obtain r inviter a where m: "mr_org m = ws" "mr_user m = user" "member_of ws user d = None"
      "mr_role m = role_name r" "role_in ws inviter d = Some a" "manages a r" by auto
    have "authority_of d' = (authority_of d)\<lparr>granted := (granted (authority_of d))((ws, user) \<mapsto> r)\<rparr>"
      using Join mem m role_in_join [of d' d m] by (intro authority_eqI) (auto simp: per)
    moreover have "role_in ws user d = None" using m(3) by (simp add: role_in_def)
    ultimately show ?thesis using m(5,6) by (auto intro: policy_step.join)
  next
    case (Set_role i r)
    with ok obtain a where a: "role_in ws user d = Some a" "manages a r" "manageable ws user a i d" by auto
    from a(3) obtain m r0 where m: "m \<in> set (members d)" "mr_id m = i" "mr_org m = ws" "mr_user m \<noteq> user"
      "mr_role m = role_name r0" "manages a r0" by (rule manageableE)
    have "authority_of d' = (authority_of d)\<lparr>granted := (granted (authority_of d))((ws, mr_user m) \<mapsto> r)\<rparr>"
      using Set_role mem m role_in_set_role [OF ids m(1) _ keys, of d' r]
      by (intro authority_eqI) (auto simp: per)
    moreover have "role_in ws (mr_user m) d = Some r0"
      using m member_of_iff [OF keys, of ws "mr_user m" m] by (simp add: role_in_def)
    ultimately show ?thesis using a m by (auto intro: policy_step.regrade)
  next
    case (Leave i)
    with ok obtain a where a: "role_in ws user d = Some a" "manageable ws user a i d" by auto
    from a(2) obtain m r0 where m: "m \<in> set (members d)" "mr_id m = i" "mr_org m = ws" "mr_user m \<noteq> user"
      "mr_role m = role_name r0" "manages a r0" by (rule manageableE)
    have "authority_of d' = (authority_of d)\<lparr>granted := (granted (authority_of d))((ws, mr_user m) := None)\<rparr>"
      using Leave mem m role_in_leave [OF ids m(1) _ keys, of d']
      by (intro authority_eqI) (auto simp: per)
    moreover have "role_in ws (mr_user m) d = Some r0"
      using m member_of_iff [OF keys, of ws "mr_user m" m] by (simp add: role_in_def)
    ultimately show ?thesis using a m by (auto intro: policy_step.revoke)
  qed
qed

lemma organization_without_members:
  assumes wf: "workspace_wf d" and new: "\<not> list_ex (\<lambda>x. og_id x = ws) (organizations d)"
  shows "member_of ws u d = None" "organization_of ws d = None"
  using workspace_wfD(7) [OF wf] new
  by (fastforce simp: member_of_def organization_of_def find_None_iff list_ex_iff)+

lemma personal_change_policy:
  assumes wf: "workspace_wf d" and ch: "personal_change u d d'"
  shows "policy_step (authority_of d) (authority_of d')"
proof -
  from ch obtain g m where d': "d' = d\<lparr>organizations := organizations d @ [g], members := members d @ [m]\<rparr>"
    and new: "\<not> list_ex (\<lambda>x. og_id x = og_id g) (organizations d)"
    and m: "og_personalOwnerId g = Some u" "mr_org m = og_id g" "mr_user m = u" "mr_role m = role_name Owner"
    unfolding personal_change_def by (auto simp: role_name.simps)
  note none = organization_without_members [OF wf new]
  have "organization_of x d' = (if x = og_id g then Some g else organization_of x d)" for x
    using none(2) by (auto simp: d' organization_of_def find_append split: option.splits)
  then have "personal (authority_of d') = (personal (authority_of d))(og_id g \<mapsto> u)"
    using m(1) by (auto simp: authority_of_def fun_eq_iff)
  then have "authority_of d' = (authority_of d)\<lparr>granted := (granted (authority_of d))((og_id g, u) \<mapsto> Owner),
      personal := (personal (authority_of d))(og_id g \<mapsto> u)\<rparr>"
    using none(1) m(2,3) role_in_join [of d' d m]
    by (intro authority_eqI) (auto simp: d' m(4) simp del: role_name.simps)
  moreover have "personal (authority_of d) (og_id g) = None" "\<forall>v. granted (authority_of d) (og_id g, v) = None"
    using none by (simp_all add: authority_of_def role_in_def)
  ultimately show ?thesis by (auto intro: policy_step.found)
qed

lemma known_change_policy: "workspace_wf d \<Longrightarrow> known_change ev d d' \<Longrightarrow> policy_step (authority_of d) (authority_of d')"
  unfolding known_change_def using workspace_change_policy personal_change_policy policy_step.stay by blast

end
