(* ===== verification/Collaboration_Runs.thy ===== *)
theory Collaboration_Runs
  imports Collaboration_Invariants
begin

text \<open>
  Runs of the collaboration service: \<open>workspace_wf\<close> is preserved by every event, so a run is a run of the
  policy; other workspaces are untouched; stored answers are found again; the registers keep their
  limits.
\<close>

section \<open>The invariant\<close>

lemma map_og_id_bumped: "map og_id (bumped ws revision gs) = map og_id gs"
  unfolding bumped_def by (rule map_update_rows) simp

lemma map_owner_bumped:
  "map (\<lambda>g. (og_id g, og_personalOwnerId g)) (bumped ws revision gs) = map (\<lambda>g. (og_id g, og_personalOwnerId g)) gs"
  unfolding bumped_def by (rule map_update_rows) simp

definition personal_owners :: "organization list \<Rightarrow> workspace_db \<Rightarrow> bool" where
  "personal_owners gs d \<longleftrightarrow>
     (\<forall>(i, o1) \<in> set (map (\<lambda>g. (og_id g, og_personalOwnerId g)) gs). \<forall>u. o1 = Some u \<longrightarrow> role_in i u d = Some Owner)"

lemma workspace_wf_parts:
  "workspace_wf d \<longleftrightarrow>
     distinct (map og_id (organizations d)) \<and> distinct (map mr_id (members d))
     \<and> distinct (map (\<lambda>m. (mr_org m, mr_user m)) (members d)) \<and> distinct (map iv_id (invitations d))
     \<and> distinct (map (\<lambda>i. (ir_org i, ir_key i)) (idempotency d))
     \<and> (\<forall>m \<in> set (members d). workspace_role_of (mr_role m) \<noteq> None)
     \<and> (\<forall>m \<in> set (members d). mr_org m \<in> set (map og_id (organizations d)))
     \<and> (\<forall>i \<in> set (invitations d). iv_status i \<in> set invitation_statuses \<and> invitable_role_of (iv_role i) \<noteq> None)
     \<and> personal_owners (organizations d) d"
  unfolding workspace_wf_def personal_owners_def
  by (force simp: list_all_iff list_ex_iff split: option.splits)

lemma workspace_change_owners:
  assumes wf: "workspace_wf d" and ch: "workspace_change ws user ch d d'"
  shows "personal_owners (organizations d') d'"
proof -
  from ch obtain revision where o: "organizations d' = bumped ws revision (organizations d)"
    unfolding workspace_change_def by blast
  have "role_in i u d' = Some Owner" if "role_in i u d = Some Owner" for i u
    using policy_step_owner_kept [OF workspace_change_policy [OF wf ch], of i u] that by simp
  moreover have "personal_owners (organizations d) d" using wf by (simp add: workspace_wf_parts)
  ultimately show ?thesis unfolding personal_owners_def o map_owner_bumped by blast
qed

lemma allowed_change_members:
  assumes "allowed_change ws user ch d" "distinct (map mr_id (members d))"
    "distinct (map (\<lambda>m. (mr_org m, mr_user m)) (members d))"
    "\<forall>m \<in> set (members d). workspace_role_of (mr_role m) \<noteq> None"
  shows "distinct (map mr_id (change_members ch (members d)))
    \<and> distinct (map (\<lambda>m. (mr_org m, mr_user m)) (change_members ch (members d)))
    \<and> (\<forall>m \<in> set (change_members ch (members d)). workspace_role_of (mr_role m) \<noteq> None)"
proof (cases ch)
  case Keep
  with assms show ?thesis by simp
next
  case (Join m)
  with assms(1) have "mr_id m \<notin> mr_id ` set (members d)" "member_of (mr_org m) (mr_user m) d = None"
    "workspace_role_of (mr_role m) \<noteq> None"
    by (auto simp: list_ex_iff)
  moreover from this(2) have "(mr_org m, mr_user m) \<notin> (\<lambda>m. (mr_org m, mr_user m)) ` set (members d)"
    using member_of_None by fastforce
  ultimately show ?thesis using assms(2-4) Join by auto
next
  case (Set_role i r)
  have "map mr_id (change_members ch (members d)) = map mr_id (members d)"
    "map (\<lambda>m. (mr_org m, mr_user m)) (change_members ch (members d)) = map (\<lambda>m. (mr_org m, mr_user m)) (members d)"
    unfolding Set_role change_members.simps by (rule map_update_rows, simp)+
  with assms(2-4) Set_role show ?thesis by (auto dest!: set_update_rows)
next
  case (Leave i)
  with assms(2-4) show ?thesis by (auto simp: delete_rows_def distinct_map_filter)
qed

lemma invitations_follow_wf:
  assumes "invitations_follow ws js js'" "distinct (map iv_id js)"
    and "\<forall>i \<in> set js. iv_status i \<in> set invitation_statuses \<and> invitable_role_of (iv_role i) \<noteq> None"
  shows "distinct (map iv_id js')
    \<and> (\<forall>i \<in> set js'. iv_status i \<in> set invitation_statuses \<and> invitable_role_of (iv_role i) \<noteq> None)"
proof -
  from assms(1) obtain P s extra where js': "js' = update_rows P (\<lambda>i. i\<lparr>iv_status := s\<rparr>) js @ extra"
    and s': "s = ''canceled'' \<or> s = ''accepted'' \<or> s = ''rejected''"
    and e: "extra = [] \<or> (\<exists>i r. extra = [i] \<and> iv_org i = ws \<and> iv_status i = ''pending'' \<and> iv_teamId i = None
             \<and> iv_role i = role_name r \<and> r \<noteq> Owner \<and> \<not> list_ex (\<lambda>x. iv_id x = iv_id i) js)"
    unfolding invitations_follow_def by blast
  from s' have s: "s \<in> set invitation_statuses" by (auto simp: invitation_statuses_def)
  have "map iv_id (update_rows P (\<lambda>i. i\<lparr>iv_status := s\<rparr>) js) = map iv_id js"
    by (rule map_update_rows) simp
  then have "distinct (map iv_id js')"
    using e assms(2) by (auto simp: js' list_ex_iff)
  moreover have "iv_status i \<in> set invitation_statuses \<and> invitable_role_of (iv_role i) \<noteq> None"
    if "i \<in> set (update_rows P (\<lambda>i. i\<lparr>iv_status := s\<rparr>) js)" for i
    using set_update_rows [OF that] assms(3) s by auto
  moreover have "iv_status i \<in> set invitation_statuses \<and> invitable_role_of (iv_role i) \<noteq> None"
    if "i \<in> set extra" for i
    using that e by (auto simp: invitation_statuses_def invitable_role_of_Some_iff)
  ultimately show ?thesis by (auto simp: js')
qed

lemma workspace_change_wf:
  assumes wf: "workspace_wf d" and ch: "workspace_change ws user ch d d'"
  shows "workspace_wf d'"
proof -
  note w = wf [unfolded workspace_wf_parts]
  from ch have mem: "members d' = change_members ch (members d)" and ok: "allowed_change ws user ch d"
    and inv: "invitations_follow ws (invitations d) (invitations d')"
    unfolding workspace_change_def by blast+
  from ch obtain row revision where i: "idempotency d' = idempotency d @ [row]" "ir_org row = ws"
    "prior_command ws (ir_key row) d = None" and o: "organizations d' = bumped ws revision (organizations d)"
    unfolding workspace_change_def by blast
  from i have idem: "distinct (map (\<lambda>i. (ir_org i, ir_key i)) (idempotency d'))"
    using w by (auto simp: prior_command_def find_None_iff)
  have m: "distinct (map mr_id (members d'))" "distinct (map (\<lambda>m. (mr_org m, mr_user m)) (members d'))"
    "\<forall>m \<in> set (members d'). workspace_role_of (mr_role m) \<noteq> None"
    using allowed_change_members [OF ok] w by (simp_all add: mem)
  have "mr_org x \<in> set (map og_id (organizations d))" if "x \<in> set (members d')" for x
  proof (cases ch)
    case (Join y)
    with ok obtain inviter a where "role_in ws inviter d = Some a" "mr_org y = ws" by auto
    then obtain z where "z \<in> set (members d)" "mr_org z = mr_org y"
      by (auto simp: role_in_def bind_eq_Some_conv member_of_def dest!: find_SomeD)
    with w have "mr_org y \<in> set (map og_id (organizations d))" by metis
    with Join that w mem show ?thesis by auto
  next
    case (Set_role k r)
    with that mem obtain x0 where "x0 \<in> set (members d)" "mr_org x = mr_org x0"
      by (auto dest!: set_update_rows split: if_splits)
    with w show ?thesis by metis
  qed (use that w mem in \<open>auto simp: delete_rows_def\<close>)
  then have orgs: "\<forall>x \<in> set (members d'). mr_org x \<in> set (map og_id (organizations d'))"
    by (simp add: o map_og_id_bumped)
  have "distinct (map og_id (organizations d'))" using w by (simp add: o map_og_id_bumped)
  then show ?thesis
    unfolding workspace_wf_parts
    using m idem orgs invitations_follow_wf [OF inv] w workspace_change_owners [OF wf ch] by blast
qed

lemma personal_change_wf:
  assumes wf: "workspace_wf d" and ch: "personal_change u d d'"
  shows "workspace_wf d'"
proof -
  note w = wf [unfolded workspace_wf_parts]
  from ch obtain g m where d': "d' = d\<lparr>organizations := organizations d @ [g], members := members d @ [m]\<rparr>"
    and new: "\<not> list_ex (\<lambda>x. og_id x = og_id g) (organizations d)" "\<not> list_ex (\<lambda>x. mr_id x = mr_id m) (members d)"
    and m: "og_personalOwnerId g = Some u" "mr_org m = og_id g" "mr_user m = u" "mr_role m = role_name Owner"
    unfolding personal_change_def by (auto simp: role_name.simps)
  note none = organization_without_members [OF wf new(1)]
  have r: "role_in x v d' = (if x = og_id g \<and> v = u then Some Owner else role_in x v d)" for x v
    using none(1) m role_in_join [of d' d m] by (simp add: d' del: role_name.simps)
  have "personal_owners (organizations d) d" using w by blast
  moreover have "x \<noteq> og_id g" if "x \<in> set (map og_id (organizations d))" for x
    using that new(1) by (auto simp: list_ex_iff)
  moreover have "organizations d' = organizations d @ [g]" by (simp add: d')
  ultimately have "personal_owners (organizations d') d'"
    using m(1) by (auto simp: personal_owners_def r)
  moreover have "(mr_org m, mr_user m) \<notin> (\<lambda>m. (mr_org m, mr_user m)) ` set (members d)"
    using none(1) m member_of_None by fastforce
  moreover have "workspace_role_of (mr_role m) \<noteq> None" by (simp add: m(4) del: role_name.simps)
  ultimately show ?thesis
    unfolding workspace_wf_parts using w new m(2) by (auto simp: d' list_ex_iff)
qed

lemma known_change_wf: "workspace_wf d \<Longrightarrow> known_change ev d d' \<Longrightarrow> workspace_wf d'"
  unfolding known_change_def using workspace_change_wf personal_change_wf by blast

lemma after_event_wf: "workspace_wf d \<Longrightarrow> workspace_wf (after_event env ev d)"
  by (rule known_change_wf [OF _ after_event_change])

text \<open>The service preserves \<open>workspace_wf\<close> and refines the membership policy.\<close>

interpretation cs: refining "run_collaboration env" "\<lambda>_. True" workspace_wf authority_of "\<lambda>_. policy_step"
proof
  fix e d a d' assume "workspace_wf d" "run_collaboration env e d = Inr (a, d')"
  then have k: "workspace_wf d" "known_change e d d'" by (simp_all add: run_collaboration_change)
  show "workspace_wf d'" by (rule known_change_wf [OF k])
  show "policy_step\<^sup>*\<^sup>* (authority_of d) (authority_of d')" by (rule r_into_rtranclp, rule known_change_policy [OF k])
qed

lemma all_admissible: "list_all (\<lambda>_. True) evs"
  by (simp add: list_all_iff)

lemma after_events_wf: "workspace_wf d \<Longrightarrow> workspace_wf (after_events env evs d)"
  unfolding after_events_def by (rule cs.run_inv [OF all_admissible])

lemma after_events_policy:
  assumes "workspace_wf d"
  shows "policy_step\<^sup>*\<^sup>* (authority_of d) (authority_of (after_events env evs d))"
proof -
  let ?any = "\<lambda>q q'. list_ex (\<lambda>_. policy_step q q') evs"
  have "?any\<^sup>*\<^sup>* (authority_of d) (authority_of (after_events env evs d))"
    unfolding after_events_def by (rule cs.run_refines [OF all_admissible assms])
  moreover have "?any \<le> policy_step" by (auto simp: list_ex_iff)
  ultimately show ?thesis by (rule rtranclp_mono [THEN predicate2D, rotated])
qed

end
