(* ===== verification/Collaboration_Laws.thy ===== *)
theory Collaboration_Laws
  imports Collaboration_Runs
begin

text \<open>
  Three laws of runs: an event touches the rows of one workspace, an answered command is answered
  again in the same words, and the registers stay within their limits.
\<close>

section \<open>One workspace at a time\<close>

text \<open>Everything the database holds of one workspace.\<close>

record workspace_rows =
  wr_organizations :: "organization list"
  wr_members :: "member_row list"
  wr_invitations :: "invitation_row list"
  wr_idempotency :: "idempotency_row list"
  wr_principals :: "principal_row list"
  wr_sessions :: "session_row list"
  wr_projects :: "project_row list"
  wr_audits :: "collaboration_audit list"

definition rows_of :: "ident \<Rightarrow> workspace_db \<Rightarrow> workspace_rows" where
  "rows_of ws d =
     \<lparr>wr_organizations = filter (\<lambda>g. og_id g = ws) (organizations d),
      wr_members = filter (\<lambda>m. mr_org m = ws) (members d),
      wr_invitations = filter (\<lambda>i. iv_org i = ws) (invitations d),
      wr_idempotency = filter (\<lambda>i. ir_org i = ws) (idempotency d),
      wr_principals = filter (\<lambda>p. rp_org p = ws) (principals d),
      wr_sessions = filter (\<lambda>s. ss_activeOrganizationId s = Some ws) (sessions d),
      wr_projects = filter (\<lambda>p. pj_org p = ws) (projects d),
      wr_audits = filter (\<lambda>a. ca_org a = ws) (collaboration_audits d)\<rparr>"

lemma filter_update_rows_other:
  assumes "\<And>r. r \<in> set rs \<Longrightarrow> P r \<Longrightarrow> \<not> Q r \<and> \<not> Q (f r)"
  shows "filter Q (update_rows P f rs) = filter Q rs"
  using assms by (induction rs) auto

lemma change_members_elsewhere:
  assumes wf: "workspace_wf d" and ok: "allowed_change ws user ch d" and x: "x \<noteq> ws"
  shows "filter (\<lambda>m. mr_org m = x) (change_members ch (members d)) = filter (\<lambda>m. mr_org m = x) (members d)"
proof -
  have one: "mr_org m = ws" if "m \<in> set (members d)" "manageable ws user a (mr_id m) d" for m a
    using that distinct_keyD [OF workspace_wfD(2) [OF wf]] unfolding manageable_def by metis
  show ?thesis
  proof (cases ch)
    case (Set_role i r)
    with ok obtain a where "manageable ws user a i d" by auto
    with one x show ?thesis unfolding Set_role change_members.simps
      by (intro filter_update_rows_other) auto
  next
    case (Leave i)
    with ok obtain a where "manageable ws user a i d" by auto
    with one x show ?thesis unfolding Leave change_members.simps delete_rows_def filter_filter
      by (intro filter_cong) auto
  qed (use ok x in auto)
qed

lemma workspace_change_elsewhere:
  assumes wf: "workspace_wf d" and ch: "workspace_change ws user ch d d'" and x: "x \<noteq> ws"
  shows "rows_of x d' = rows_of x d"
proof -
  from ch have mem: "members d' = change_members ch (members d)" and ok: "allowed_change ws user ch d"
    and inv: "invitations_follow ws (invitations d) (invitations d')"
    and ses: "sessions_follow ws (sessions d) (sessions d')" and pj: "projects d' = projects d"
    unfolding workspace_change_def by blast+
  from ch obtain ps row au revision where "principals d' = principals d @ ps" "list_all (\<lambda>p. rp_org p = ws) ps"
    "idempotency d' = idempotency d @ [row]" "ir_org row = ws"
    "collaboration_audits d' = collaboration_audits d @ [au]" "ca_org au = ws"
    and o: "organizations d' = bumped ws revision (organizations d)"
    unfolding workspace_change_def by blast
  moreover have "filter (\<lambda>g. og_id g = x) (organizations d') = filter (\<lambda>g. og_id g = x) (organizations d)"
    unfolding o bumped_def using x by (intro filter_update_rows_other) auto
  moreover have "filter (\<lambda>i. iv_org i = x) (invitations d') = filter (\<lambda>i. iv_org i = x) (invitations d)"
  proof -
    from inv obtain P s extra where "invitations d' = update_rows P (\<lambda>i. i\<lparr>iv_status := s\<rparr>) (invitations d) @ extra"
      "\<forall>i \<in> set (invitations d). P i \<longrightarrow> iv_org i = ws" "\<forall>i \<in> set extra. iv_org i = ws"
      unfolding invitations_follow_def by force
    moreover have "filter (\<lambda>i. iv_org i = x) (update_rows P (\<lambda>i. i\<lparr>iv_status := s\<rparr>) (invitations d))
        = filter (\<lambda>i. iv_org i = x) (invitations d)"
      using calculation x by (intro filter_update_rows_other) auto
    ultimately show ?thesis using x by (auto simp: filter_empty_conv)
  qed
  moreover have "filter (\<lambda>s. ss_activeOrganizationId s = Some x) (sessions d')
      = filter (\<lambda>s. ss_activeOrganizationId s = Some x) (sessions d)"
  proof -
    from ses obtain P where "sessions d'
        = update_rows P (\<lambda>s. s\<lparr>ss_activeOrganizationId := None, ss_activeTeamId := None\<rparr>) (sessions d)"
      "\<forall>s \<in> set (sessions d). P s \<longrightarrow> ss_activeOrganizationId s = Some ws"
      unfolding sessions_follow_def by blast
    then show ?thesis using x by (auto intro!: filter_update_rows_other)
  qed
  ultimately show ?thesis
    using x change_members_elsewhere [OF wf ok x] by (auto simp: rows_of_def mem pj filter_empty_conv list_all_iff)
qed

lemma personal_change_elsewhere:
  assumes "personal_change u d d'"
  shows "\<exists>ws. (\<forall>g \<in> set (organizations d). og_id g \<noteq> ws) \<and> (\<forall>x. x \<noteq> ws \<longrightarrow> rows_of x d' = rows_of x d)"
  using assms by (auto simp: personal_change_def rows_of_def list_ex_iff)

definition revision_of :: "ident \<Rightarrow> workspace_db \<Rightarrow> int option" where
  "revision_of ws d = map_option og_revision (organization_of ws d)"

lemma workspace_change_revision:
  assumes wf: "workspace_wf d" and ch: "workspace_change ws user ch d d'"
  shows "\<exists>n. revision_of ws d = Some n \<and> revision_of ws d' = Some (n + 1)"
proof -
  from ch obtain n where o: "organizations d' = bumped ws n (organizations d)"
    and c: "count_rows (\<lambda>g. og_id g = ws \<and> og_revision g = n) (organizations d) = 1"
    unfolding workspace_change_def by blast
  from c have "filter (\<lambda>g. og_id g = ws \<and> og_revision g = n) (organizations d) \<noteq> []"
    by (auto simp: count_rows_def)
  then obtain g where g: "g \<in> set (organizations d)" "og_id g = ws" "og_revision g = n"
    by (auto simp: filter_empty_conv)
  have f: "organization_of ws d = Some g"
    using find_unique_key [OF workspace_wfD(1) [OF wf] g(1)] g(2) by (simp add: organization_of_def)
  have "organization_of ws d' = map_option (\<lambda>g. if og_id g = ws \<and> og_revision g = n
      then g\<lparr>og_revision := og_revision g + 1\<rparr> else g) (organization_of ws d)"
    unfolding organization_of_def o bumped_def by (rule find_update_rows) simp
  with f g show ?thesis by (simp add: revision_of_def)
qed

section \<open>The registers\<close>

lemma count_rows_append: "count_rows P (rs @ ss) = count_rows P rs + count_rows P ss"
  by (simp add: count_rows_def)

lemma count_rows_single: "count_rows P [r] = (if P r then 1 else 0)"
  by (simp add: count_rows_def)

lemma count_update_rows: "(\<And>r. Q (f r) = Q r) \<Longrightarrow> count_rows Q (update_rows P f rs) = count_rows Q rs"
  by (induction rs) (auto simp: count_rows_def)

lemma count_delete_rows_le: "count_rows Q (delete_rows P rs) \<le> count_rows Q rs"
  by (induction rs) (auto simp: count_rows_def delete_rows_def)

definition opened_personal :: "ident \<Rightarrow> workspace_db \<Rightarrow> bool" where
  "opened_personal u d \<longleftrightarrow> list_ex (\<lambda>g. og_personalOwnerId g = Some u) (organizations d)"

lemma opened_personal_iff: "opened_personal u d \<longleftrightarrow> Some u \<in> set (map og_personalOwnerId (organizations d))"
  by (force simp: opened_personal_def list_ex_iff)

definition registers_ok :: "workspace_db \<Rightarrow> bool" where
  "registers_ok d \<longleftrightarrow>
     (\<forall>ws. count_rows (\<lambda>m. mr_org m = ws) (members d) \<le> max_workspace_members)
     \<and> (\<forall>u. count_rows (\<lambda>m. mr_user m = u) (members d)
          \<le> max_user_workspaces + (if opened_personal u d then 1 else 0))"

lemma change_members_count:
  assumes ok: "allowed_change ws user ch d"
  shows "count_rows (\<lambda>m. mr_org m = x) (change_members ch (members d))
      \<le> max (count_rows (\<lambda>m. mr_org m = x) (members d)) max_workspace_members"
    and "count_rows (\<lambda>m. mr_user m = u) (change_members ch (members d))
      \<le> max (count_rows (\<lambda>m. mr_user m = u) (members d)) max_user_workspaces"
proof -
  have "count_rows (\<lambda>m. mr_org m = x) (change_members ch (members d))
      \<le> max (count_rows (\<lambda>m. mr_org m = x) (members d)) max_workspace_members
    \<and> count_rows (\<lambda>m. mr_user m = u) (change_members ch (members d))
      \<le> max (count_rows (\<lambda>m. mr_user m = u) (members d)) max_user_workspaces"
  proof (cases ch)
    case (Join m)
    then show ?thesis using ok by (auto simp: count_rows_append count_rows_single)
  next
    case (Set_role i r)
    then show ?thesis by (simp add: count_update_rows)
  next
    case (Leave i)
    then show ?thesis by (simp add: count_delete_rows_le le_max_iff_disj)
  qed simp
  then show "count_rows (\<lambda>m. mr_org m = x) (change_members ch (members d))
      \<le> max (count_rows (\<lambda>m. mr_org m = x) (members d)) max_workspace_members"
    "count_rows (\<lambda>m. mr_user m = u) (change_members ch (members d))
      \<le> max (count_rows (\<lambda>m. mr_user m = u) (members d)) max_user_workspaces" by blast+
qed

lemma opened_personal_bumped:
  assumes "organizations d' = bumped ws n (organizations d)"
  shows "opened_personal u d' = opened_personal u d"
proof -
  have "map og_personalOwnerId (organizations d') = map og_personalOwnerId (organizations d)"
    unfolding assms bumped_def by (rule map_update_rows) simp
  then show ?thesis by (simp only: opened_personal_iff)
qed

lemma known_change_registers:
  assumes wf: "workspace_wf d" and ch: "known_change ev d d'" and ok: "registers_ok d"
  shows "registers_ok d'"
proof -
  consider "d' = d" | ws user ch where "workspace_change ws user ch d d'" | u where "personal_change u d d'"
    using ch unfolding known_change_def by blast
  then show ?thesis
  proof cases
    case 1
    with ok show ?thesis by simp
  next
    case (2 ws user ch)
    then have a: "allowed_change ws user ch d" "members d' = change_members ch (members d)"
      and "\<exists>n. organizations d' = bumped ws n (organizations d)"
      unfolding workspace_change_def by blast+
    then have "opened_personal u d' = opened_personal u d" for u using opened_personal_bumped by blast
    moreover have "count_rows (\<lambda>m. mr_org m = x) (members d') \<le> max_workspace_members" for x
    proof -
      have "count_rows (\<lambda>m. mr_org m = x) (members d) \<le> max_workspace_members" using ok by (simp add: registers_ok_def)
      with change_members_count(1) [OF a(1), of x] show ?thesis by (simp add: a(2))
    qed
    moreover have "count_rows (\<lambda>m. mr_user m = v) (members d')
        \<le> max_user_workspaces + (if opened_personal v d then 1 else 0)" for v
    proof -
      have "count_rows (\<lambda>m. mr_user m = v) (members d)
          \<le> max_user_workspaces + (if opened_personal v d then 1 else 0)" using ok unfolding registers_ok_def by blast
      with change_members_count(2) [OF a(1), of v] show ?thesis by (simp add: a(2) split: if_splits)
    qed
    ultimately show ?thesis by (simp add: registers_ok_def)
  next
    case (3 u)
    then obtain g m where d': "d' = d\<lparr>organizations := organizations d @ [g], members := members d @ [m]\<rparr>"
      and g: "\<not> list_ex (\<lambda>x. og_id x = og_id g) (organizations d)" "og_personalOwnerId g = Some u"
        "mr_org m = og_id g" "mr_user m = u"
      unfolding personal_change_def by blast
    have none: "\<not> opened_personal u d" using 3 by (simp add: personal_change_def opened_personal_def)
    have zero: "count_rows (\<lambda>x. mr_org x = og_id g) (members d) = 0"
      using organization_without_members(1) [OF wf g(1)] member_of_None
      by (fastforce simp: count_rows_def filter_empty_conv)
    have "count_rows (\<lambda>x. mr_org x = ws) (members d') \<le> max_workspace_members" for ws
      using ok g(3) zero by (cases "ws = og_id g") (simp_all add: registers_ok_def d' count_rows_append count_rows_single max_workspace_members_def)
    moreover have opened: "opened_personal v d' \<longleftrightarrow> opened_personal v d \<or> v = u" for v
      using g(2) by (auto simp: opened_personal_def d')
    have "count_rows (\<lambda>x. mr_user x = v) (members d')
        \<le> max_user_workspaces + (if opened_personal v d' then 1 else 0)" for v
    proof -
      have "count_rows (\<lambda>x. mr_user x = v) (members d)
          \<le> max_user_workspaces + (if opened_personal v d then 1 else 0)" using ok unfolding registers_ok_def by blast
      with none g(4) show ?thesis
        unfolding opened by (cases "v = u") (simp_all add: d' count_rows_append count_rows_single)
    qed
    ultimately show ?thesis unfolding registers_ok_def by blast
  qed
qed

interpretation cr: keeping "run_collaboration env" "\<lambda>_. True" workspace_wf "\<lambda>_ :: unit. registers_ok"
  by unfold_locales (auto intro: known_change_registers run_collaboration_change)

end
