(* ===== verification/Collaboration_Replay.thy ===== *)
theory Collaboration_Replay
  imports Collaboration_Runs
begin

text \<open>
  Replays: an answered command leaves an idempotency row that every later database still holds, and the
  same request then gets the stored answer.
\<close>

definition answer_agrees :: "fields \<Rightarrow> fields \<Rightarrow> bool" where
  "answer_agrees r res \<longleftrightarrow>
     field r ''schemaVersion'' = Some (jint 1) \<and>
     (\<forall>k. k \<noteq> ''outcome'' \<longrightarrow> k \<noteq> ''aggregateVersion'' \<longrightarrow> field r k = field res k)"

definition answered :: "ident \<Rightarrow> ident \<Rightarrow> string \<Rightarrow> string \<Rightarrow> string \<Rightarrow> fields \<Rightarrow> workspace_db \<Rightarrow> bool" where
  "answered ws user op command hash res d \<longleftrightarrow>
     (\<exists>row r. prior_command ws op d = Some row \<and> ir_actorUserId row = Some user \<and> ir_command row = command
        \<and> ir_requestHash row = hash \<and> ir_response row = JObj r \<and> answer_agrees r res)"

text \<open>An answer that was stored, as a later request gets it.\<close>

definition replay_of :: "fields \<Rightarrow> fields \<Rightarrow> int \<Rightarrow> bool" where
  "replay_of res' res version \<longleftrightarrow>
     field res' ''outcome'' = Some (JStr ''replayed'')
     \<and> field res' ''aggregateVersion'' = Some (jint version)
     \<and> (\<forall>k. k \<noteq> ''outcome'' \<longrightarrow> k \<noteq> ''aggregateVersion'' \<longrightarrow> field res' k = field res k)"

lemma replay_result_Inr:
  "replay_result response version = Inr res \<longleftrightarrow>
     (\<exists>r. response = JObj r \<and> field r ''schemaVersion'' = Some (jint 1)
        \<and> res = assign ''aggregateVersion'' (jint version)
            (assign ''outcome'' (JStr ''replayed'') (assign ''schemaVersion'' (jint 1) r)))"
  by (cases response) (auto simp: replay_result_def and_then_Inr_iff)

lemma replay_if_present_answered:
  assumes "replay_if_present ws user op command hash version d = Inr (Some res)"
  shows "answered ws user op command hash res d"
  using assms
  by (auto simp: replay_if_present_def and_then_Inr_iff map_sum_Inr_iff replay_result_Inr answered_def
      answer_agrees_def field_assign split: option.splits)

lemma answered_replay:
  assumes "answered ws user op command hash res d"
  obtains res' where "replay_if_present ws user op command hash version d = Inr (Some res')"
    "replay_of res' res version"
proof -
  from assms obtain row r where p: "prior_command ws op d = Some row" "ir_actorUserId row = Some user"
    "ir_command row = command" "ir_requestHash row = hash" "ir_response row = JObj r" and a: "answer_agrees r res"
    unfolding answered_def by blast
  let ?res' = "assign ''aggregateVersion'' (jint version)
      (assign ''outcome'' (JStr ''replayed'') (assign ''schemaVersion'' (jint 1) r))"
  have "replay_result (JObj r) version = Inr ?res'"
    using a by (simp add: replay_result_Inr answer_agrees_def)
  with p have "replay_if_present ws user op command hash version d = Inr (Some ?res')"
    by (simp add: replay_if_present_def)
  moreover have "field ?res' k = field res k" if "k \<noteq> ''outcome''" "k \<noteq> ''aggregateVersion''" for k
  proof -
    have k: "field r k = field res k" using a that by (simp add: answer_agrees_def)
    have "field r ''schemaVersion'' = Some (jint 1)" using a by (simp add: answer_agrees_def)
    with k that show ?thesis by (cases "k = ''schemaVersion''") (simp_all add: field_assign)
  qed
  then have "replay_of ?res' res version"
    unfolding replay_of_def by (simp add: field_assign)
  ultimately show thesis by (rule that)
qed

lemma answered_append:
  assumes "answered ws user op command hash res d" "idempotency d' = idempotency d @ rows"
  shows "answered ws user op command hash res d'"
  using assms by (auto simp: answered_def prior_command_def find_append split: option.splits)

lemma answered_kept:
  assumes "answered ws user op command hash res d" "known_change ev d d'"
  shows "answered ws user op command hash res d'"
proof -
  from assms(2) obtain rows where "idempotency d' = idempotency d @ rows"
    unfolding known_change_def workspace_change_def personal_change_def by fastforce
  with assms(1) show ?thesis by (rule answered_append)
qed

interpretation ca: keeping "run_collaboration env" "\<lambda>_. True" workspace_wf
    "\<lambda>(ws, user, op, command, hash, res). answered ws user op command hash res"
proof
  fix e d a d' k
  assume "workspace_wf d" "run_collaboration env e d = Inr (a, d')"
    and "(\<lambda>(ws, user, op, command, hash, res). answered ws user op command hash res) k d"
  then show "(\<lambda>(ws, user, op, command, hash, res). answered ws user op command hash res) k d'"
    by (cases k) (auto intro: answered_kept run_collaboration_change)
qed

lemma answered_later:
  "answered ws user op command hash res d \<Longrightarrow> workspace_wf d
    \<Longrightarrow> answered ws user op command hash res (after_events env evs d)"
  using ca.run_kept [OF all_admissible, of d "(ws, user, op, command, hash, res)"] by (simp add: after_events_def)

lemma completed_answered:
  assumes "complete_command ws user op command hash (applied_result version resource) now who audit d
    = Inr (res, d')"
  shows "answered ws user op command hash res d'"
  using assms
proof (rule complete_command_InrE)
  fix row au
  assume r: "res = applied_result version resource" "prior_command ws op d = None" "ir_org row = ws"
    "ir_key row = op" "ir_actorUserId row = Some user" "ir_command row = command" "ir_requestHash row = hash"
    "ir_response row = JObj (applied_result version resource)"
    "d' = d\<lparr>idempotency := idempotency d @ [row], collaboration_audits := collaboration_audits d @ [au]\<rparr>"
  have "prior_command ws op d' = Some row"
    using r(2-4) by (simp add: prior_command_def r(9) find_append)
  moreover have "answer_agrees (applied_result version resource) res"
    by (simp add: answer_agrees_def r(1) applied_result_def field_def)
  ultimately show ?thesis unfolding answered_def using r(5-8) by blast
qed

lemma create_invitation_answered:
  assumes "create_invitation_tx env user ws c now fr d = Inr (res, d')"
  shows "answered ws (su_id user) (ic_operationId c) invitation_create_name (request_hash env invitation_create_name
     [(''email'', ic_email c), (''role'', role_name (ic_role c))]) res d'"
  using assms by (cases rule: create_invitation_tx_steps)
    (simp_all add: replay_if_present_answered completed_answered)

lemma cancel_invitation_answered:
  assumes "cancel_invitation_tx env user ws i c now fr d = Inr (res, d')"
  shows "answered ws (su_id user) (cc_operationId c) invitation_cancel_name
     (request_hash env invitation_cancel_name [(''invitationId'', i)]) res d'"
  using assms by (cases rule: cancel_invitation_tx_steps)
    (simp_all add: replay_if_present_answered completed_answered)

lemma decide_invitation_answered:
  assumes "decide_invitation_tx env user email ws i c checked now fr d = Inr (res, d')"
  shows "answered ws (su_id user) (dc_operationId c) (decision_command_name (dc_decision c))
     (request_hash env (decision_command_name (dc_decision c)) [(''invitationId'', i)]) res d'"
  using assms by (cases rule: decide_invitation_tx_steps)
    (simp_all only: replay_if_present_answered completed_answered)

lemma update_role_answered:
  assumes "update_role_tx env user ws m c now fr d = Inr (res, d')"
  shows "answered ws (su_id user) (rc_operationId c) role_update_name
     (request_hash env role_update_name [(''memberId'', m), (''role'', role_name (rc_role c))]) res d'"
  using assms by (cases rule: update_role_tx_steps)
    (simp_all add: replay_if_present_answered completed_answered)

lemma remove_member_answered:
  assumes "remove_member_tx env user ws m c now fr d = Inr (res, d')"
  shows "answered ws (su_id user) (mc_operationId c) member_remove_name
     (request_hash env member_remove_name [(''memberId'', m), (''confirmation'', removal_confirmation)]) res d'"
  using assms by (cases rule: remove_member_tx_steps)
    (simp_all add: replay_if_present_answered completed_answered)

section \<open>The same request, later\<close>

lemma manager_membership:
  assumes wf: "workspace_wf d" and role: "role_in ws user d = Some role"
  obtains revision where "actor_membership ws user d = Inr (revision, role)"
proof -
  from role obtain m where m: "member_of ws user d = Some m" "workspace_role_of (mr_role m) = Some role"
    by (auto simp: role_in_def bind_eq_Some_conv)
  then have "m \<in> set (members d)" "mr_org m = ws" by (auto simp: member_of_def dest: find_SomeD)
  with workspace_wfD(7) [OF wf] obtain g where "g \<in> set (organizations d)" "og_id g = ws" by blast
  then obtain h where "organization_of ws d = Some h"
    unfolding organization_of_def by (cases "List.find (\<lambda>g. og_id g = ws) (organizations d)") (auto simp: find_None_iff)
  with m that show thesis by (simp add: actor_membership_def closed_role_def or_throw_def)
qed

lemma unless_replayed_Some [simp]: "unless_replayed (Inr (Some r)) d body = Inr (r, d)"
  by (simp add: unless_replayed_def)

lemma find_invitation_kept:
  assumes "known_change ev d d'" "List.find P (invitations d) = Some i" "\<And>i s. P (i\<lparr>iv_status := s\<rparr>) = P i"
  shows "\<exists>i'. List.find P (invitations d') = Some i' \<and> iv_org i' = iv_org i"
proof -
  from assms(1) have "invitations d' = invitations d \<or> (\<exists>ws. invitations_follow ws (invitations d) (invitations d'))"
    unfolding known_change_def workspace_change_def personal_change_def by fastforce
  then obtain ws where "invitations_follow ws (invitations d) (invitations d')"
    using invitations_follow_refl [of "[]" "invitations d"] by force
  then obtain Q s extra where "invitations d' = update_rows Q (\<lambda>i. i\<lparr>iv_status := s\<rparr>) (invitations d) @ extra"
    unfolding invitations_follow_def by blast
  with assms(2) show ?thesis
    using find_update_rows [of P "\<lambda>i. i\<lparr>iv_status := s\<rparr>" Q "invitations d"] assms(3)
    by (auto simp: find_append)
qed

lemma organization_of_None_iff: "organization_of ws d = None \<longleftrightarrow> ws \<notin> set (map og_id (organizations d))"
  by (auto simp: organization_of_def find_None_iff)

lemma organization_kept:
  assumes "known_change ev d d'" "organization_of ws d \<noteq> None"
  shows "organization_of ws d' \<noteq> None"
proof -
  consider "d' = d" | x n where "organizations d' = bumped x n (organizations d)"
    | g where "organizations d' = organizations d @ [g]"
    using assms(1) unfolding known_change_def workspace_change_def personal_change_def by fastforce
  then show ?thesis
    using assms(2) by cases (simp_all add: organization_of_None_iff map_og_id_bumped del: set_map)
qed

lemma decision_state_later:
  assumes "workspace_wf d" "List.find P (invitations d) = Some i" "iv_org i = ws" "organization_of ws d \<noteq> None"
    and "\<And>i s. P (i\<lparr>iv_status := s\<rparr>) = P i"
  shows "\<exists>i' g. List.find P (invitations (after_events env evs d)) = Some i' \<and> iv_org i' = ws
    \<and> organization_of ws (after_events env evs d) = Some g"
  using assms(1-4)
proof (induction evs arbitrary: d i)
  case Nil
  then show ?case by auto
next
  case (Cons ev evs)
  have k: "known_change ev d (after_event env ev d)" by (rule after_event_change [OF Cons.prems(1)])
  from find_invitation_kept [OF k Cons.prems(2) assms(5)] obtain i' where
    "List.find P (invitations (after_event env ev d)) = Some i'" "iv_org i' = iv_org i" by blast
  then show ?case
    using Cons.IH [OF after_event_wf [OF Cons.prems(1)], where i = i'] Cons.prems(3) organization_kept [OF k Cons.prems(4)]
    by simp
qed

fun retried :: "collaboration_event \<Rightarrow> millis \<Rightarrow> fresh_values \<Rightarrow> workspace_db \<Rightarrow> collaboration_event" where
  "retried (Invite user ws v now fr) t f d = Invite user ws v t f"
| "retried (Cancel_invite user ws i v now fr) t f d = Cancel_invite user ws i v t f"
| "retried (Decide user i v earlier checked now fr) t f d = Decide user i v d t t f"
| "retried (Regrade user ws m v now fr) t f d = Regrade user ws m v t f"
| "retried (Expel user ws m v now fr) t f d = Expel user ws m v t f"
| "retried (Open_personal user name fresh_org fresh_member) t f d = Open_personal user name fresh_org fresh_member"

definition still_manages :: "collaboration_event \<Rightarrow> workspace_db \<Rightarrow> bool" where
  "still_manages ev d \<longleftrightarrow>
     (case event_workspace ev of None \<Rightarrow> True
      | Some ws \<Rightarrow> role_in ws (event_actor ev) d = Some Owner \<or> role_in ws (event_actor ev) d = Some Admin)"

lemma manager_state:
  assumes "workspace_wf d" "event_workspace ev = Some ws" "still_manages ev d"
  obtains revision role where "actor_membership ws (event_actor ev) d = Inr (revision, role)"
    "role = Owner \<or> role = Admin"
proof -
  from assms(2,3) obtain role where "role_in ws (event_actor ev) d = Some role" "role = Owner \<or> role = Admin"
    by (auto simp: still_manages_def)
  with manager_membership [OF assms(1)] that show thesis by metis
qed

lemma decision_replayed:
  assumes wf: "workspace_wf d" and run: "decide_invitation env user i v earlier checked now fr d = Inr (res, d1)"
  shows "\<exists>res' version. decide_invitation env user i v (after_events env evs d1) t t f (after_events env evs d1)
    = Inr (res', after_events env evs d1) \<and> replay_of res' res version"
proof -
  let ?d2 = "after_events env evs d1"
  let ?ev = "Decide user i v earlier checked now fr"
  have k: "known_change ?ev d d1"
    using run_collaboration_change [OF wf, of env ?ev "Some res" d1] run by simp
  have wf1: "workspace_wf d1" by (rule known_change_wf [OF wf k])
  from run obtain c where c1: "read_decision_command v = Inr c"
    by (cases "read_decision_command v") (auto simp: decide_invitation_def)
  from run c1 obtain email where c2: "normalize_email (ce_lower env) (Some (JStr (su_email user))) = Inr email"
    by (cases "normalize_email (ce_lower env) (Some (JStr (su_email user)))") (auto simp: decide_invitation_def)
  from run c1 c2 obtain initial :: invitation_row where
    tx: "decide_invitation_tx env user email (iv_org initial) i c checked now fr d = Inr (res, d1)"
    by (auto simp: decide_invitation_def and_then_Inr_iff)
  let ?ws = "iv_org initial"
  let ?P = "inbox_invitation env email i"
  from tx obtain x g where x: "List.find (\<lambda>r. ?P r \<and> iv_org r = ?ws) (invitations d) = Some x"
    and g: "organization_of ?ws d = Some g"
    by (cases rule: decide_invitation_tx_steps)
  from x have m: "x \<in> set (invitations d)" "?P x" "iv_org x = ?ws" by (auto dest: find_SomeD)
  have "List.find ?P (invitations d) = Some x"
  proof -
    have only: "r = x" if "r \<in> set (invitations d)" "?P r" for r
      using distinct_keyD [OF workspace_wfD(4) [OF wf] that(1) m(1)] that(2) m(2)
      by (simp add: inbox_invitation_def)
    show ?thesis
    proof (cases "List.find ?P (invitations d)")
      case None
      with m show ?thesis by (auto simp: find_None_iff)
    next
      case (Some r)
      with only find_SomeD [OF Some] show ?thesis by auto
    qed
  qed
  from find_invitation_kept [OF k this] obtain y where
    y: "List.find ?P (invitations d1) = Some y" "iv_org y = ?ws" by (auto simp: m(3) inbox_invitation_def)
  have o1: "organization_of ?ws d1 \<noteq> None" using organization_kept [OF k] g by simp
  obtain z h where z: "List.find ?P (invitations ?d2) = Some z" "iv_org z = ?ws" "organization_of ?ws ?d2 = Some h"
    using decision_state_later [OF wf1 y o1, of env evs] by (auto simp: inbox_invitation_def)
  have z': "List.find (\<lambda>r. ?P r \<and> iv_org r = ?ws) (invitations ?d2) \<noteq> None"
    using find_SomeD [OF z(1)] z(2) by (auto simp: find_None_iff)
  let ?command = "decision_command_name (dc_decision c)"
  have "answered ?ws (su_id user) (dc_operationId c) ?command (request_hash env ?command [(''invitationId'', i)]) res ?d2"
    by (rule answered_later [OF decide_invitation_answered [OF tx] wf1])
  then obtain res' where "replay_if_present ?ws (su_id user) (dc_operationId c) ?command
      (request_hash env ?command [(''invitationId'', i)]) (og_revision h) ?d2 = Inr (Some res')"
    "replay_of res' res (og_revision h)" by (rule answered_replay)
  with c1 c2 z z' show ?thesis
    by (auto simp: decide_invitation_def decide_invitation_tx_def Let_def or_throw_def)
qed

text \<open>The four commands of a manager, by the same argument.\<close>

lemma manager_replayed:
  assumes wf: "workspace_wf d" and run: "run_collaboration env ev d = Inr (Some res, d1)"
    and ev: "event_workspace ev = Some ws" and still: "still_manages ev (after_events env evs d1)"
  shows "\<exists>res' version. run_collaboration env (retried ev t f (after_events env evs d1)) (after_events env evs d1)
    = Inr (Some res', after_events env evs d1) \<and> replay_of res' res version"
proof -
  let ?d2 = "after_events env evs d1"
  have wf1: "workspace_wf d1" by (rule known_change_wf [OF wf run_collaboration_change [OF wf run]])
  note later = answered_later [OF _ wf1, of _ _ _ _ _ _ env evs]
  obtain revision role where a: "actor_membership ws (event_actor ev) ?d2 = Inr (revision, role)"
    "role = Owner \<or> role = Admin"
    by (rule manager_state [OF after_events_wf [OF wf1] ev still])
  have m: "require_manager (role_name role) = Inr role" using a(2) by simp
  show ?thesis
  proof (cases ev)
    case (Invite user w v now fr)
    with ev have [simp]: "w = ws" by simp
    from run Invite obtain c where c: "read_invitation_command (ce_lower env) v = Inr c"
      and tx: "create_invitation_tx env user ws c now fr d = Inr (res, d1)"
      by (auto simp: create_invitation_def and_then_Inr_iff map_sum_Inr_iff)
    obtain res' where r: "replay_if_present ws (su_id user) (ic_operationId c) invitation_create_name
        (request_hash env invitation_create_name [(''email'', ic_email c), (''role'', role_name (ic_role c))]) revision ?d2 = Inr (Some res')"
      "replay_of res' res revision" by (rule answered_replay [OF later [OF create_invitation_answered [OF tx]]])
    have "actor_membership ws (su_id user) ?d2 = Inr (revision, role)" using a(1) Invite by simp
    then have "create_invitation_tx env user ws c t f ?d2 = Inr (res', ?d2)"
      by (simp only: create_invitation_tx_def Let_def m r(1) and_then.simps prod.case map_sum.simps unless_replayed_Some)
    with r(2) show ?thesis using Invite c by (auto simp: create_invitation_def)
  next
    case (Cancel_invite user w i v now fr)
    with ev have [simp]: "w = ws" by simp
    from run Cancel_invite obtain c where c: "read_cancel_command v = Inr c"
      and tx: "cancel_invitation_tx env user ws i c now fr d = Inr (res, d1)"
      by (auto simp: cancel_invitation_def and_then_Inr_iff map_sum_Inr_iff)
    obtain res' where r: "replay_if_present ws (su_id user) (cc_operationId c) invitation_cancel_name
        (request_hash env invitation_cancel_name [(''invitationId'', i)]) revision ?d2 = Inr (Some res')"
      "replay_of res' res revision" by (rule answered_replay [OF later [OF cancel_invitation_answered [OF tx]]])
    have "actor_membership ws (su_id user) ?d2 = Inr (revision, role)" using a(1) Cancel_invite by simp
    then have "cancel_invitation_tx env user ws i c t f ?d2 = Inr (res', ?d2)"
      by (simp only: cancel_invitation_tx_def Let_def m r(1) and_then.simps prod.case map_sum.simps unless_replayed_Some)
    with r(2) show ?thesis using Cancel_invite c by (auto simp: cancel_invitation_def)
  next
    case (Regrade user w i v now fr)
    with ev have [simp]: "w = ws" by simp
    from run Regrade obtain c where c: "read_role_command v = Inr c"
      and tx: "update_role_tx env user ws i c now fr d = Inr (res, d1)"
      by (auto simp: update_member_role_def and_then_Inr_iff map_sum_Inr_iff)
    obtain res' where r: "replay_if_present ws (su_id user) (rc_operationId c) role_update_name
        (request_hash env role_update_name [(''memberId'', i), (''role'', role_name (rc_role c))]) revision ?d2 = Inr (Some res')"
      "replay_of res' res revision" by (rule answered_replay [OF later [OF update_role_answered [OF tx]]])
    have "actor_membership ws (su_id user) ?d2 = Inr (revision, role)" using a(1) Regrade by simp
    then have "update_role_tx env user ws i c t f ?d2 = Inr (res', ?d2)"
      by (simp only: update_role_tx_def Let_def m r(1) and_then.simps prod.case map_sum.simps unless_replayed_Some)
    with r(2) show ?thesis using Regrade c by (auto simp: update_member_role_def)
  next
    case (Expel user w i v now fr)
    with ev have [simp]: "w = ws" by simp
    from run Expel obtain c where c: "read_removal_command v = Inr c"
      and tx: "remove_member_tx env user ws i c now fr d = Inr (res, d1)"
      by (auto simp: remove_member_def and_then_Inr_iff map_sum_Inr_iff)
    obtain res' where r: "replay_if_present ws (su_id user) (mc_operationId c) member_remove_name
        (request_hash env member_remove_name [(''memberId'', i), (''confirmation'', removal_confirmation)]) revision ?d2 = Inr (Some res')"
      "replay_of res' res revision" by (rule answered_replay [OF later [OF remove_member_answered [OF tx]]])
    have "actor_membership ws (su_id user) ?d2 = Inr (revision, role)" using a(1) Expel by simp
    then have "remove_member_tx env user ws i c t f ?d2 = Inr (res', ?d2)"
      by (simp only: remove_member_tx_def Let_def m r(1) and_then.simps prod.case map_sum.simps unless_replayed_Some)
    with r(2) show ?thesis using Expel c by (auto simp: remove_member_def)
  qed (use ev in simp_all)
qed

end
