(* ===== verification/Collaboration_Retry.thy ===== *)
theory Collaboration_Retry
  imports Collaboration_Runs
begin

text \<open>
  \<open>runSerializableTransaction\<close>: a transaction is run again, at most four times in all, as long as it
  loses against another one (P2002 or P2034, the error \<open>Conflict\<close>); any other error is thrown at
  once. Between two attempts other transactions may commit. An attempt draws new identifiers and reads
  the clock again, so its body is a function of the attempt's number.
\<close>

definition max_serializable_attempts :: nat where "max_serializable_attempts = 4"

text \<open>
  The result is the number of the last attempt, what it ended with, and the database it left. \<open>work k\<close>
  is the transaction of attempt \<open>k\<close>, \<open>others k\<close> what other transactions do after that attempt failed.
\<close>

function run_serializable ::
    "(nat \<Rightarrow> 'd \<Rightarrow> collaboration_error + ('a \<times> 'd)) \<Rightarrow> (nat \<Rightarrow> 'd \<Rightarrow> 'd) \<Rightarrow> nat \<Rightarrow> 'd
      \<Rightarrow> nat \<times> (collaboration_error + 'a) \<times> 'd" where
  "run_serializable work others attempt d =
     (if max_serializable_attempts \<le> attempt then (attempt, Inl Conflict, d)
      else case work attempt d of
          Inr (r, d') \<Rightarrow> (attempt, Inr r, d')
        | Inl e \<Rightarrow>
            (if e \<noteq> Conflict \<or> attempt = max_serializable_attempts - 1 then (attempt, Inl e, d)
             else run_serializable work others (attempt + 1) (others attempt d)))"
  by pat_completeness auto
termination
  by (relation "measure (\<lambda>(work, others, attempt, d). max_serializable_attempts - attempt)") auto

declare run_serializable.simps [simp del]

text \<open>What the other transactions have done before attempt \<open>k\<close> starts.\<close>

fun before_attempt :: "(nat \<Rightarrow> 'd \<Rightarrow> 'd) \<Rightarrow> nat \<Rightarrow> 'd \<Rightarrow> 'd" where
  "before_attempt others 0 d = d"
| "before_attempt others (Suc k) d = others k (before_attempt others k d)"

text \<open>
  The loop ends in the first attempt that does not lose, and in the fourth at the latest; what it leaves
  is what that attempt leaves.
\<close>

lemma run_serializable_from:
  assumes "k < max_serializable_attempts"
  shows "\<exists>n < max_serializable_attempts. k \<le> n
    \<and> (\<forall>i. k \<le> i \<and> i < n \<longrightarrow> work i (before_attempt others i d) = Inl Conflict)
    \<and> (n = max_serializable_attempts - 1 \<or> work n (before_attempt others n d) \<noteq> Inl Conflict)
    \<and> run_serializable work others k (before_attempt others k d) =
        (case work n (before_attempt others n d) of
           Inl e \<Rightarrow> (n, Inl e, before_attempt others n d) | Inr (r, d') \<Rightarrow> (n, Inr r, d'))"
  using assms
proof (induction "max_serializable_attempts - k" arbitrary: k)
  case (Suc m)
  let ?d = "before_attempt others k d"
  show ?case
  proof (cases "work k ?d = Inl Conflict \<and> k \<noteq> max_serializable_attempts - 1")
    case True
    with Suc have k: "m = max_serializable_attempts - Suc k" "Suc k < max_serializable_attempts" by auto
    from Suc.hyps(1) [OF k] obtain n where n: "n < max_serializable_attempts" "Suc k \<le> n"
      "\<forall>i. Suc k \<le> i \<and> i < n \<longrightarrow> work i (before_attempt others i d) = Inl Conflict"
      "n = max_serializable_attempts - 1 \<or> work n (before_attempt others n d) \<noteq> Inl Conflict"
      "run_serializable work others (Suc k) (before_attempt others (Suc k) d) =
        (case work n (before_attempt others n d) of
           Inl e \<Rightarrow> (n, Inl e, before_attempt others n d) | Inr (r, d') \<Rightarrow> (n, Inr r, d'))"
      by blast
    have "\<forall>i. k \<le> i \<and> i < n \<longrightarrow> work i (before_attempt others i d) = Inl Conflict"
      using n(3) True by (metis Suc_leI le_neq_implies_less)
    moreover have "run_serializable work others k ?d
        = run_serializable work others (Suc k) (before_attempt others (Suc k) d)"
      using True Suc.prems by (subst run_serializable.simps) simp
    ultimately show ?thesis using n(1,2,4,5) by (intro exI [of _ n]) simp
  next
    case False
    have "run_serializable work others k ?d =
        (case work k ?d of Inl e \<Rightarrow> (k, Inl e, ?d) | Inr (r, d') \<Rightarrow> (k, Inr r, d'))"
      using False Suc.prems by (subst run_serializable.simps) (auto split: sum.split)
    with False Suc.prems show ?thesis by (intro exI [of _ k]) auto
  qed
qed simp

section \<open>Commands with retries\<close>

text \<open>
  Attempt \<open>k\<close> of a command: \<open>evs k\<close> with its own fresh values; \<open>lost k\<close> says whether the database
  aborts it when it commits.
\<close>

definition command_attempt ::
    "collaboration_env \<Rightarrow> (nat \<Rightarrow> collaboration_event) \<Rightarrow> (nat \<Rightarrow> bool) \<Rightarrow> nat \<Rightarrow> workspace_db
      \<Rightarrow> fields option collaboration_tx" where
  "command_attempt env evs lost k d = (if lost k then Inl Conflict else run_collaboration env (evs k) d)"

definition run_command ::
    "collaboration_env \<Rightarrow> (nat \<Rightarrow> collaboration_event) \<Rightarrow> (nat \<Rightarrow> bool) \<Rightarrow> (nat \<Rightarrow> collaboration_event list)
      \<Rightarrow> workspace_db \<Rightarrow> nat \<times> (collaboration_error + fields option) \<times> workspace_db" where
  "run_command env evs lost others d =
     run_serializable (command_attempt env evs lost) (\<lambda>k. after_events env (others k)) 0 d"

lemma after_events_append: "after_events env (xs @ ys) d = after_events env ys (after_events env xs d)"
  by (simp add: after_events_def run_events_append)

lemma before_attempt_events:
  "before_attempt (\<lambda>k. after_events env (others k)) n d = after_events env (concat (map others [0..<n])) d"
  by (induction n) (simp_all add: after_events_append)

lemma run_command_serial:
  "\<exists>n < max_serializable_attempts. fst (run_command env evs lost others d) = n
    \<and> (\<forall>i < n. lost i \<or> run_collaboration env (evs i) (after_events env (concat (map others [0..<i])) d) = Inl Conflict)
    \<and> (case snd (run_command env evs lost others d) of
         (Inr r, d') \<Rightarrow> \<not> lost n \<and> d' = after_events env (concat (map others [0..<n]) @ [evs n]) d
           \<and> run_collaboration env (evs n) (after_events env (concat (map others [0..<n])) d) = Inr (r, d')
       | (Inl e, d') \<Rightarrow> d' = after_events env (concat (map others [0..<n])) d
           \<and> (if e = Conflict then n = max_serializable_attempts - 1
              else run_collaboration env (evs n) d' = Inl e))"
proof -
  let ?others = "\<lambda>k. after_events env (others k)"
  let ?work = "command_attempt env evs lost"
  let ?at = "\<lambda>n. before_attempt ?others n d"
  have "0 < max_serializable_attempts" by (simp add: max_serializable_attempts_def)
  from run_serializable_from [OF this, of ?work ?others d] obtain n
    where n: "n < max_serializable_attempts" "\<forall>i < n. ?work i (?at i) = Inl Conflict"
      "n = max_serializable_attempts - 1 \<or> ?work n (?at n) \<noteq> Inl Conflict"
      "run_command env evs lost others d =
        (case ?work n (?at n) of Inl e \<Rightarrow> (n, Inl e, ?at n) | Inr (r, d') \<Rightarrow> (n, Inr r, d'))"
    by (auto simp: run_command_def)
  show ?thesis
  proof (intro exI [of _ n] conjI n(1))
    show "fst (run_command env evs lost others d) = n" unfolding n(4) by (auto split: sum.split)
    show "\<forall>i < n. lost i \<or> run_collaboration env (evs i) (after_events env (concat (map others [0..<i])) d) = Inl Conflict"
      using n(2) by (auto simp: command_attempt_def before_attempt_events split: if_splits)
    show "case snd (run_command env evs lost others d) of
       (Inr r, d') \<Rightarrow> \<not> lost n \<and> d' = after_events env (concat (map others [0..<n]) @ [evs n]) d
         \<and> run_collaboration env (evs n) (after_events env (concat (map others [0..<n])) d) = Inr (r, d')
     | (Inl e, d') \<Rightarrow> d' = after_events env (concat (map others [0..<n])) d
         \<and> (if e = Conflict then n = max_serializable_attempts - 1
            else run_collaboration env (evs n) d' = Inl e)"
      unfolding n(4) using n(3)
      by (auto simp: command_attempt_def before_attempt_events after_events_append after_event_def
          split: sum.split if_splits)
  qed
qed

end
