(* ===== verification/Collaboration_Properties.thy ===== *)
theory Collaboration_Properties
  imports Collaboration_Laws Collaboration_Replay Collaboration_Retry
begin

text \<open>
  The properties of workspace collaboration, with a shared workspace of an owner, an administrator and
  a member, a project of the member, and an outsider who is invited and accepts.
\<close>

section \<open>A workspace\<close>

definition sample_service :: collaboration_env where
  "sample_service = \<lparr>ce_lower = id, ce_same_email = (=), ce_sha256 = filter (\<lambda>c. c \<in> set ''0123456789'')\<rparr>"

definition sample_workspaces :: workspace_db where
  "sample_workspaces =
     \<lparr>organizations =
        [\<lparr>og_id = ''lab'', og_name = ''Lab'', og_slug = ''lab'', og_kind = ''SHARED'', og_personalOwnerId = None,
          og_revision = 3\<rparr>],
      members =
        [\<lparr>mr_id = ''m1'', mr_org = ''lab'', mr_user = ''ann'', mr_role = ''owner''\<rparr>,
         \<lparr>mr_id = ''m2'', mr_org = ''lab'', mr_user = ''bob'', mr_role = ''admin''\<rparr>,
         \<lparr>mr_id = ''m3'', mr_org = ''lab'', mr_user = ''cyd'', mr_role = ''member''\<rparr>],
      invitations = [], users = [\<lparr>us_id = ''dan'', us_email = ''dan@lab.org''\<rparr>], idempotency = [], principals = [],
      sessions = [], projects = [], collaboration_audits = []\<rparr>"

definition sample_fresh :: "string \<Rightarrow> fresh_values" where
  "sample_fresh s = \<lparr>fv_id = s, fv_principalId = ''p-'' @ s, fv_createdAt = 1000\<rparr>"

definition sample_invite :: collaboration_event where
  "sample_invite = Invite \<lparr>su_id = ''bob'', su_email = ''bob@lab.org''\<rparr> ''lab''
     (JObj [(''schemaVersion'', jint 1), (''clientOperationId'', JStr ''op-1''), (''expectedVersion'', jint 3),
        (''email'', JStr ''dan@lab.org''), (''role'', JStr ''viewer'')]) 1000 (sample_fresh ''i1'')"

definition sample_invited :: workspace_db where
  "sample_invited = sample_workspaces
     \<lparr>organizations := map (\<lambda>g. g\<lparr>og_revision := 4\<rparr>) (organizations sample_workspaces),
      invitations :=
        [\<lparr>iv_id = ''i1'', iv_org = ''lab'', iv_email = ''dan@lab.org'', iv_role = ''viewer'', iv_teamId = None,
          iv_status = ''pending'', iv_expiresAt = 604801000, iv_createdAt = 1000, iv_inviterId = ''bob''\<rparr>],
      idempotency :=
        [\<lparr>ir_org = ''lab'', ir_actorUserId = Some ''bob'', ir_key = ''op-1'',
          ir_command = ''collaboration.invitation.create.v1'', ir_requestHash = ''1'',
          ir_response = JObj
            [(''schemaVersion'', jint 1), (''outcome'', JStr ''applied''), (''aggregateVersion'', jint 4),
             (''invitation'', JObj
                [(''id'', JStr ''i1''), (''email'', JStr ''dan@lab.org''), (''role'', JStr ''viewer''),
                 (''status'', JStr ''pending''), (''createdAt'', JStr ''1970-01-01T00:00:01.000Z''),
                 (''expiresAt'', JStr ''1970-01-08T00:00:01.000Z'')])],
          ir_status = ''COMPLETED'', ir_completedAt = Some 1000, ir_expiresAt = 604801000\<rparr>],
      principals := [\<lparr>rp_id = ''p-i1'', rp_org = ''lab'', rp_liveUserId = Some ''bob'', rp_pseudonymizedAt = None\<rparr>],
      collaboration_audits :=
        [\<lparr>ca_org = ''lab'', ca_actorUserId = ''bob'', ca_actorPrincipalId = ''p-i1'',
          ca_action = ''collaboration.invitation.created'', ca_entityType = ''invitation'', ca_entityId = ''i1'',
          ca_requestId = ''op-1'', ca_metadata = [(''role'', JStr ''viewer'')]\<rparr>]\<rparr>"

definition sample_accept :: collaboration_event where
  "sample_accept = Decide \<lparr>su_id = ''dan'', su_email = ''dan@lab.org''\<rparr> ''i1''
     (JObj [(''schemaVersion'', jint 1), (''clientOperationId'', JStr ''op-2''), (''decision'', JStr ''accept'')])
     sample_invited 2000 2000 (sample_fresh ''m4'')"

definition sample_accepted :: workspace_db where
  "sample_accepted = sample_invited
     \<lparr>organizations := map (\<lambda>g. g\<lparr>og_revision := 5\<rparr>) (organizations sample_workspaces),
      members := members sample_workspaces @
        [\<lparr>mr_id = ''m4'', mr_org = ''lab'', mr_user = ''dan'', mr_role = ''viewer''\<rparr>],
      invitations := map (\<lambda>i. i\<lparr>iv_status := ''accepted''\<rparr>) (invitations sample_invited),
      idempotency := idempotency sample_invited @
        [\<lparr>ir_org = ''lab'', ir_actorUserId = Some ''dan'', ir_key = ''op-2'',
          ir_command = ''collaboration.invitation.accept.v1'', ir_requestHash = ''11'',
          ir_response = JObj
            [(''schemaVersion'', jint 1), (''outcome'', JStr ''applied''), (''aggregateVersion'', jint 5),
             (''invitation'', JObj [(''id'', JStr ''i1''), (''status'', JStr ''accepted'')]),
             (''membership'', JObj [(''workspaceId'', JStr ''lab''), (''role'', JStr ''viewer'')])],
          ir_status = ''COMPLETED'', ir_completedAt = Some 2000, ir_expiresAt = 604802000\<rparr>],
      principals := principals sample_invited @
        [\<lparr>rp_id = ''p-m4'', rp_org = ''lab'', rp_liveUserId = Some ''dan'', rp_pseudonymizedAt = None\<rparr>],
      collaboration_audits := collaboration_audits sample_invited @
        [\<lparr>ca_org = ''lab'', ca_actorUserId = ''dan'', ca_actorPrincipalId = ''p-m4'',
          ca_action = ''collaboration.invitation.accepted'', ca_entityType = ''invitation'', ca_entityId = ''i1'',
          ca_requestId = ''op-2'', ca_metadata = [(''role'', JStr ''viewer'')]\<rparr>]\<rparr>"

definition sample_personal :: collaboration_event where
  "sample_personal = Open_personal ''dan'' ''Dan'' ''own'' ''m5''"

lemma sample_workspaces_wf: "workspace_wf sample_workspaces"
  by code_simp

lemma sample_invite_run:
  "case run_collaboration sample_service sample_invite sample_workspaces of
     Inr (Some res, d') \<Rightarrow> d' = sample_invited | _ \<Rightarrow> False"
  by code_simp

lemma sample_accept_run:
  "case run_collaboration sample_service sample_accept sample_invited of
     Inr (Some res, d') \<Rightarrow> d' = sample_accepted | _ \<Rightarrow> False"
  by code_simp

lemma sample_invite_after: "after_event sample_service sample_invite sample_workspaces = sample_invited"
  using sample_invite_run by (auto simp: after_event_def split: sum.splits option.splits)

lemma sample_accept_after: "after_event sample_service sample_accept sample_invited = sample_accepted"
  using sample_accept_run by (auto simp: after_event_def split: sum.splits option.splits)

abbreviation sample_run :: "collaboration_event list" where
  "sample_run \<equiv> [sample_invite, sample_accept, sample_personal]"

lemma sample_run_after:
  "after_events sample_service sample_run sample_workspaces = after_event sample_service sample_personal sample_accepted"
  by (simp add: sample_invite_after sample_accept_after)

lemma sample_joined:
  "role_in ''lab'' ''dan'' (after_event sample_service sample_personal sample_accepted) = Some Viewer"
  "role_in ''own'' ''dan'' (after_event sample_service sample_personal sample_accepted) = Some Owner"
  by code_simp+

section \<open>Properties\<close>

lemma policy_steps_owner:
  assumes "policy_step\<^sup>*\<^sup>* A B"
  shows "granted A (ws, u) = Some Owner \<Longrightarrow> granted B (ws, u) = Some Owner"
    and "personal A ws = Some v \<Longrightarrow> personal B ws = Some v"
    and "granted B (ws, u) = Some Owner \<Longrightarrow> granted A (ws, u) = Some Owner \<or> personal B ws = Some u"
  using assms
proof (induction rule: rtranclp_induct)
  case (step B C)
  { case 1
    then show ?case using step policy_step_owner_kept by blast
  next
    case 2
    have "personal B ws = Some v \<Longrightarrow> personal C ws = Some v"
      using step(2) by (cases rule: policy_step.cases) auto
    then show ?case using 2 step by blast
  next
    case 3
    have "personal B ws = Some u \<Longrightarrow> personal C ws = Some u"
      using step(2) by (cases rule: policy_step.cases) auto
    then show ?case using 3 step policy_step_owner_new by blast
  }
qed simp_all

text \<open>
  C3. Collaboration implements the membership policy: every run of invitations, decisions, role changes,
  removals and personal workspaces is a run of the policy in which each role is granted, changed or
  revoked under the authority of a member who may do so. Owners stay owners, and the only new owners
  are those of their own personal workspace.
\<close>

theorem collaboration_follows_policy:
  assumes "workspace_wf d"
  shows "policy_step\<^sup>*\<^sup>* (authority_of d) (authority_of (after_events env evs d))
    \<and> (\<forall>ws u. role_in ws u d = Some Owner \<longrightarrow> role_in ws u (after_events env evs d) = Some Owner)
    \<and> (\<forall>ws u. role_in ws u (after_events env evs d) = Some Owner
         \<longrightarrow> role_in ws u d = Some Owner \<or> personal (authority_of (after_events env evs d)) ws = Some u)"
proof -
  have p: "policy_step\<^sup>*\<^sup>* (authority_of d) (authority_of (after_events env evs d))"
    by (rule after_events_policy [OF assms])
  show ?thesis
    using p policy_steps_owner(1) [OF p] policy_steps_owner(3) [OF p] by simp
qed

theorem collaboration_follows_policy_witness:
  "role_in ''lab'' ''ann'' (after_event sample_service sample_personal sample_accepted) = Some Owner
   \<and> personal (authority_of (after_event sample_service sample_personal sample_accepted)) ''own'' = Some ''dan''"
proof -
  have a: "role_in ''lab'' ''ann'' sample_workspaces = Some Owner" "role_in ''own'' ''dan'' sample_workspaces = None"
    by code_simp+
  from collaboration_follows_policy [OF sample_workspaces_wf, of sample_service sample_run, unfolded sample_run_after]
  have o: "role_in ws u sample_workspaces = Some Owner
      \<Longrightarrow> role_in ws u (after_event sample_service sample_personal sample_accepted) = Some Owner"
    "role_in ws u (after_event sample_service sample_personal sample_accepted) = Some Owner
      \<Longrightarrow> role_in ws u sample_workspaces = Some Owner
        \<or> personal (authority_of (after_event sample_service sample_personal sample_accepted)) ws = Some u" for ws u
    by blast+
  from o(1) [OF a(1)] o(2) [OF sample_joined(2)] a(2) show ?thesis by simp
qed

text \<open>
  C36. The shape of the data: along every run identifiers and the pairs of workspace and user stay unique,
  every member has one of the four roles and belongs to a stored workspace, every invitation has a known
  status and an invitable role, an operation identifier is used once per workspace, and the owner of a
  personal workspace is its owner.
\<close>

theorem collaboration_data_wf:
  assumes "workspace_wf d"
  shows "workspace_wf (after_events env evs d)"
  using assms by (rule after_events_wf)

theorem collaboration_data_wf_witness:
  "workspace_wf (after_events sample_service sample_run sample_workspaces)"
  by (rule collaboration_data_wf [OF sample_workspaces_wf])

text \<open>
  C21. An event touches one workspace: all the rows of every other workspace, its members, invitations,
  stored answers, principals, active sessions, projects, audit events and revision, stay as they are.
  The touched workspace is the one the request names, if it names one, and its revision grows by exactly
  one, unless the event creates it.
\<close>

theorem collaboration_one_workspace:
  assumes "workspace_wf d"
  shows "after_event env ev d = d
    \<or> (\<exists>ws. event_workspace ev \<in> {None, Some ws} \<and> (\<forall>x. x \<noteq> ws \<longrightarrow> rows_of x (after_event env ev d) = rows_of x d)
         \<and> (organization_of ws d = None
            \<or> (\<exists>n. revision_of ws d = Some n \<and> revision_of ws (after_event env ev d) = Some (n + 1))))"
proof -
  from after_event_change [OF assms, of ev env, unfolded known_change_def]
  consider "after_event env ev d = d"
    | ws ch where "event_workspace ev \<in> {None, Some ws}" "workspace_change ws (event_actor ev) ch d (after_event env ev d)"
    | "event_workspace ev = None" "personal_change (event_actor ev) d (after_event env ev d)"
    by (elim disjE exE conjE) (rule that; assumption)+
  then show ?thesis
  proof cases
    case (2 ws ch)
    then show ?thesis
      using workspace_change_elsewhere [OF assms 2(2)] workspace_change_revision [OF assms 2(2)] by blast
  next
    case 3
    with personal_change_elsewhere [OF 3(2)] obtain ws where "\<forall>g \<in> set (organizations d). og_id g \<noteq> ws"
      "\<forall>x. x \<noteq> ws \<longrightarrow> rows_of x (after_event env ev d) = rows_of x d" by blast
    moreover from this(1) have "organization_of ws d = None" by (auto simp: organization_of_None_iff)
    ultimately show ?thesis using 3(1) by blast
  qed simp
qed

theorem collaboration_one_workspace_witness:
  "rows_of ''other'' sample_invited = rows_of ''other'' sample_workspaces
   \<and> revision_of ''lab'' sample_invited = Some 4"
proof -
  have "event_workspace sample_invite = Some ''lab''" by (simp add: sample_invite_def)
  moreover have "sample_invited \<noteq> sample_workspaces"
    by (simp add: sample_invited_def sample_workspaces_def)
  ultimately have "\<forall>x. x \<noteq> ''lab'' \<longrightarrow> rows_of x sample_invited = rows_of x sample_workspaces"
    "organization_of ''lab'' sample_workspaces = None
     \<or> (\<exists>n. revision_of ''lab'' sample_workspaces = Some n \<and> revision_of ''lab'' sample_invited = Some (n + 1))"
    using collaboration_one_workspace [OF sample_workspaces_wf, of sample_service sample_invite]
    by (auto simp: sample_invite_after)
  moreover have "revision_of ''lab'' sample_workspaces = Some 3" "organization_of ''lab'' sample_workspaces \<noteq> None"
    by code_simp+
  ultimately show ?thesis by auto
qed

text \<open>
  C10. Idempotency: once a command was answered, the same request by the same account, after any other
  events and with other clocks and fresh identifiers, gets the same answer, marked as replayed, and
  changes nothing. A manager's command asks in addition that the account still manages the workspace.
\<close>

theorem collaboration_replay:
  assumes "workspace_wf d" "run_collaboration env ev d = Inr (Some res, d1)"
    and "still_manages ev (after_events env evs d1)"
  shows "\<exists>res' version. run_collaboration env (retried ev t f (after_events env evs d1)) (after_events env evs d1)
      = Inr (Some res', after_events env evs d1)
    \<and> replay_of res' res version"
proof (cases "event_workspace ev")
  case (Some ws)
  with manager_replayed [OF assms(1,2) Some assms(3)] show ?thesis by blast
next
  case None
  then obtain user i v earlier checked now fr where ev: "ev = Decide user i v earlier checked now fr"
    using assms(2) by (cases ev) (auto simp: map_sum_Inr_iff)
  with assms(2) have "decide_invitation env user i v earlier checked now fr d = Inr (res, d1)"
    by (auto simp: map_sum_Inr_iff)
  from decision_replayed [OF assms(1) this, of evs t f] ev show ?thesis
    by (auto simp: map_sum_Inr_iff)
qed

theorem collaboration_replay_witness:
  "\<exists>res'. run_collaboration sample_service (retried sample_invite 5000 (sample_fresh ''i9'') sample_accepted) sample_accepted
      = Inr (Some res', sample_accepted) \<and> field res' ''outcome'' = Some (JStr ''replayed'')"
proof -
  obtain res where r: "run_collaboration sample_service sample_invite sample_workspaces = Inr (Some res, sample_invited)"
    using sample_invite_run by (auto split: sum.splits option.splits)
  have d: "after_events sample_service [sample_accept] sample_invited = sample_accepted" by (simp add: sample_accept_after)
  have "still_manages sample_invite sample_accepted" by code_simp
  from collaboration_replay [OF sample_workspaces_wf r this [folded d], of 5000 "sample_fresh ''i9''", unfolded d]
  show ?thesis by (auto simp: replay_of_def)
qed

text \<open>
  C27. The registers: along every run a workspace has at most 500 members, and an account belongs to at
  most 100 workspaces, plus one when it has opened its personal workspace: opening it is not counted, so
  an account that joins 100 workspaces first ends with 101, which \<open>listUserWorkspaces\<close> refuses to list.
\<close>

theorem collaboration_registers:
  assumes "workspace_wf d" "registers_ok d"
  shows "registers_ok (after_events env evs d)"
  unfolding after_events_def by (rule cr.run_kept [OF all_admissible assms])

theorem collaboration_registers_witness:
  "count_rows (\<lambda>m. mr_user m = ''dan'')
     (members (after_event sample_service sample_personal sample_accepted)) \<le> 101"
proof -
  have "count_rows (\<lambda>m. mr_org m = ws) (members sample_workspaces) \<le> max_workspace_members"
    "count_rows (\<lambda>m. mr_user m = ws) (members sample_workspaces) \<le> max_user_workspaces" for ws
    by (auto simp: sample_workspaces_def count_rows_def max_workspace_members_def max_user_workspaces_def)
  then have "registers_ok sample_workspaces"
    unfolding registers_ok_def by (meson le_add1 le_trans)
  from collaboration_registers [OF sample_workspaces_wf this, of sample_service
      sample_run, unfolded sample_run_after]
  have "count_rows (\<lambda>m. mr_user m = ''dan'')
      (members (after_event sample_service sample_personal sample_accepted))
    \<le> max_user_workspaces + (if opened_personal ''dan''
      (after_event sample_service sample_personal sample_accepted) then 1 else 0)"
    unfolding registers_ok_def by blast
  then show ?thesis by (simp add: max_user_workspaces_def split: if_splits)
qed

text \<open>
  C28. The retry loop ends: a command is attempted at most four times, and again only after it lost
  against another transaction. What it leaves is one run of the command after everything the others
  did meanwhile, or, when it fails, nothing of its own; it reports a lost race only after the fourth
  attempt, and any other error is that of its last attempt.
\<close>

theorem collaboration_retries:
  "\<exists>n < max_serializable_attempts. fst (run_command env evs lost others d) = n
    \<and> (\<forall>i < n. lost i \<or> run_collaboration env (evs i) (after_events env (concat (map others [0..<i])) d) = Inl Conflict)
    \<and> (case snd (run_command env evs lost others d) of
         (Inr r, d') \<Rightarrow> \<not> lost n \<and> d' = after_events env (concat (map others [0..<n]) @ [evs n]) d
           \<and> run_collaboration env (evs n) (after_events env (concat (map others [0..<n])) d) = Inr (r, d')
       | (Inl e, d') \<Rightarrow> d' = after_events env (concat (map others [0..<n])) d
           \<and> (if e = Conflict then n = max_serializable_attempts - 1
              else run_collaboration env (evs n) d' = Inl e))"
  by (rule run_command_serial)

theorem collaboration_retries_witness:
  "fst (run_command sample_service (\<lambda>_. sample_accept) (\<lambda>k. k = 0) (\<lambda>_. []) sample_invited) = 1
   \<and> snd (snd (run_command sample_service (\<lambda>_. sample_accept) (\<lambda>k. k = 0) (\<lambda>_. []) sample_invited)) = sample_accepted"
proof -
  let ?run = "run_command sample_service (\<lambda>_. sample_accept) (\<lambda>k. k = 0) (\<lambda>_. []) sample_invited"
  have none: "after_events sample_service (concat (map (\<lambda>_. []) [0..<i])) sample_invited = sample_invited" for i
    by (induction i) simp_all
  obtain res where acc: "run_collaboration sample_service sample_accept sample_invited = Inr (Some res, sample_accepted)"
    using sample_accept_run by (auto split: sum.splits option.splits)
  obtain r d' where s: "snd ?run = (r, d')" by (cases "snd ?run")
  from collaboration_retries [of sample_service "\<lambda>_. sample_accept" "\<lambda>k. k = 0" "\<lambda>_. []" sample_invited] obtain n
    where n: "n < max_serializable_attempts" "fst ?run = n"
      "\<forall>i < n. i = 0 \<or> run_collaboration sample_service sample_accept sample_invited = Inl Conflict"
      "case r of Inr r \<Rightarrow> n \<noteq> 0 \<and> d' = after_events sample_service [sample_accept] sample_invited
         | Inl e \<Rightarrow> if e = Conflict then n = max_serializable_attempts - 1
             else run_collaboration sample_service sample_accept d' = Inl e \<and> d' = sample_invited"
    unfolding s prod.case none after_events_append by (cases r) (auto split: if_splits)
  have "n \<le> 1" using n(3) [rule_format, of 1] by (cases "n \<le> 1") (simp_all add: acc)
  with n(1,2,4) s show ?thesis
    by (cases r) (auto simp: max_serializable_attempts_def acc sample_accept_after split: if_splits)
qed

end
