(* ===== verification/Split_Text.thy ===== *)
theory Split_Text
  imports Main
begin

text \<open>
  \<open>s.split(c)\<close> and \<open>parts.join(c)\<close> at a single character: splitting undoes joining, and joining undoes
  splitting.
\<close>

fun split_char :: "char \<Rightarrow> string \<Rightarrow> string list" where
  "split_char d [] = [[]]"
| "split_char d (c # cs) =
     (if c = d then [] # split_char d cs
      else (case split_char d cs of p # ps \<Rightarrow> (c # p) # ps | [] \<Rightarrow> [[c]]))"

fun join_char :: "char \<Rightarrow> string list \<Rightarrow> string" where
  "join_char d [] = []"
| "join_char d [p] = p"
| "join_char d (p # ps) = p @ [d] @ join_char d ps"

lemma split_char_not_Nil [simp]: "split_char d s \<noteq> []"
  by (induction s) (auto split: list.splits)

lemma split_char_plain: "d \<notin> set s \<Longrightarrow> split_char d s = [s]"
  by (induction s) (auto split: list.splits)

lemma split_char_at: "split_char d (u @ d # v) = split_char d u @ split_char d v"
  by (induction u) (auto split: list.splits)

lemma split_char_append: "d \<notin> set u \<Longrightarrow> split_char d (u @ d # v) = u # split_char d v"
  by (simp add: split_char_at split_char_plain)

lemma split_char_join: "list_all (\<lambda>p. d \<notin> set p) ps \<Longrightarrow> ps \<noteq> [] \<Longrightarrow> split_char d (join_char d ps) = ps"
proof (induction ps rule: join_char.induct)
  case (3 d p q ps)
  then show ?case by (simp add: split_char_append)
qed (simp_all add: split_char_plain)

lemma split_char_last: "d \<notin> set v \<Longrightarrow> last (split_char d (u @ d # v)) = v"
  by (simp add: split_char_at split_char_plain)

lemma split_char_pieces: "p \<in> set (split_char d s) \<Longrightarrow> set p \<subseteq> set s"
proof (induction s arbitrary: p)
  case (Cons c s)
  then show ?case by (cases "split_char d s") (fastforce split: if_splits)+
qed simp

lemma set_join_char: "set (join_char d ps) \<subseteq> insert d (\<Union> (set ` set ps))"
  by (induction ps rule: join_char.induct) auto

lemma join_split_char: "join_char d (split_char d s) = s"
proof (induction s)
  case (Cons c s)
  obtain p ps where "split_char d s = p # ps" by (cases "split_char d s") simp_all
  with Cons show ?case by (cases ps) auto
qed simp

lemma join_char_append:
  "ps \<noteq> [] \<Longrightarrow> qs \<noteq> [] \<Longrightarrow> join_char d (ps @ qs) = join_char d ps @ d # join_char d qs"
proof (induction ps)
  case (Cons p ps)
  then show ?case by (cases ps; cases qs) auto
qed simp

end
