(* ===== verification/Web_Address.thy ===== *)
theory Web_Address
  imports Contract_Values Split_Text "HOL-Library.Word"
begin

text \<open>
  The address part of the web source policy (\<open>src/server/integrations/web-source/url-policy.ts\<close>): the
  textual forms of IP addresses it reads, and the special-use ranges it refuses before a PDF is fetched.
  Octets and bytes are 8-bit words. \<open>isIP\<close> of \<open>node:net\<close> is an argument.
\<close>

unbundle bit_operations_syntax

section \<open>Text\<close>

definition lower_char :: "char \<Rightarrow> char" where
  "lower_char c = (if is_upper c then char_of (code c + 32) else c)"

section \<open>IPv4\<close>

text \<open>
  One part of \<open>address.split(".")\<close>: an integer between 0 and 255 that prints as the part itself.
\<close>

definition octet_of :: "string \<Rightarrow> 8 word option" where
  "octet_of part = (if canonical_decimal part \<and> digits_val part \<le> 255 then Some (word_of_int (digits_val part)) else None)"

definition parse_ipv4 :: "string \<Rightarrow> 8 word list option" where
  "parse_ipv4 address =
     (let parts = split_char (CHR ''.'') address
      in if length parts \<noteq> 4 then None
         else those (map octet_of parts))"

fun public_octets :: "8 word list \<Rightarrow> bool" where
  "public_octets (a # b # c # ds) \<longleftrightarrow>
     \<not> (a = 0 \<or> a = 10 \<or> a = 127
        \<or> (a = 100 \<and> b \<ge> 64 \<and> b \<le> 127)
        \<or> (a = 169 \<and> b = 254)
        \<or> (a = 172 \<and> b \<ge> 16 \<and> b \<le> 31)
        \<or> (a = 192 \<and> b = 0 \<and> c = 0)
        \<or> (a = 192 \<and> b = 0 \<and> c = 2)
        \<or> (a = 192 \<and> b = 88 \<and> c = 99)
        \<or> (a = 192 \<and> b = 168)
        \<or> (a = 198 \<and> (b = 18 \<or> b = 19))
        \<or> (a = 198 \<and> b = 51 \<and> c = 100)
        \<or> (a = 203 \<and> b = 0 \<and> c = 113)
        \<or> a \<ge> 224)"
| "public_octets _ \<longleftrightarrow> False"

definition is_public_ipv4 :: "string \<Rightarrow> bool" where
  "is_public_ipv4 address \<longleftrightarrow> (case parse_ipv4 address of None \<Rightarrow> False | Some value \<Rightarrow> public_octets value)"

section \<open>IPv6\<close>

definition hex_char :: "nat \<Rightarrow> char" where
  "hex_char n = (if n < 10 then char_of (48 + n) else char_of (87 + n))"

text \<open>\<open>toString(16)\<close>\<close>

fun hex_text :: "nat \<Rightarrow> string" where
  "hex_text n = (if n < 16 then [hex_char n] else hex_text (n div 16) @ [hex_char (n mod 16)])"

declare hex_text.simps [simp del]

definition hex_digit_val :: "char \<Rightarrow> nat" where
  "hex_digit_val c = (if is_digit c then code c - 48 else code c - 87)"

text \<open>\<open>Number.parseInt(group, 16)\<close> on lower-case hexadecimal digits\<close>

definition hex_val :: "string \<Rightarrow> nat" where
  "hex_val s = fold (\<lambda>c n. 16 * n + hex_digit_val c) s 0"

text \<open>The last \<open>:\<close>-separated piece, if it matches \<open>\d{1,3}(?:\.\d{1,3}){3}\<close>\<close>

definition dotted_quad :: "string \<Rightarrow> bool" where
  "dotted_quad s \<longleftrightarrow>
     (let parts = split_char (CHR ''.'') s
      in length parts = 4 \<and> list_all (\<lambda>p. 1 \<le> length p \<and> length p \<le> 3 \<and> list_all is_digit p) parts)"

definition ipv4_tail :: "string \<Rightarrow> string option" where
  "ipv4_tail raw = (let tail = last (split_char (CHR '':'') raw) in if dotted_quad tail then Some tail else None)"

definition octet_pair :: "8 word \<Rightarrow> 8 word \<Rightarrow> 32 word" where
  "octet_pair a b = push_bit 8 (ucast a) OR ucast b"

fun pair_groups :: "8 word list \<Rightarrow> string" where
  "pair_groups [a, b, c, d] = hex_text (unat (octet_pair a b)) @ '':'' @ hex_text (unat (octet_pair c d))"
| "pair_groups _ = []"

text \<open>\<open>raw.match(/::/g)\<close> and \<open>raw.split("::")\<close>\<close>

fun double_colons :: "string \<Rightarrow> nat" where
  "double_colons (c # d # cs) =
     (if c = CHR '':'' \<and> d = CHR '':'' then Suc (double_colons cs) else double_colons (d # cs))"
| "double_colons _ = 0"

fun split_double :: "string \<Rightarrow> string list" where
  "split_double (c # d # cs) =
     (if c = CHR '':'' \<and> d = CHR '':'' then [] # split_double cs
      else (case split_double (d # cs) of p # ps \<Rightarrow> (c # p) # ps | [] \<Rightarrow> [[c]]))"
| "split_double cs = [cs]"

definition groups_of :: "string \<Rightarrow> string list" where
  "groups_of raw = (if raw = [] then [] else split_char (CHR '':'') raw)"

definition hex_group :: "string \<Rightarrow> bool" where
  "hex_group s \<longleftrightarrow> 1 \<le> length s \<and> length s \<le> 4 \<and> list_all is_lower_hex s"

definition group_bytes :: "string \<Rightarrow> 8 word list" where
  "group_bytes s =
     (let group = (word_of_nat (hex_val s) :: 32 word)
      in [ucast (drop_bit 8 group), ucast (group AND 0xff)])"

definition parse_groups :: "string \<Rightarrow> 8 word list option" where
  "parse_groups raw =
     (if double_colons raw > 1 then None
      else let halves = split_double raw;
               left = groups_of (hd halves);
               right = (case tl halves of [] \<Rightarrow> [] | r # rs \<Rightarrow> groups_of r);
               missing = 8 - int (length left) - int (length right);
               compressed = double_colons raw > 0
           in if (compressed \<and> missing < 1) \<or> (\<not> compressed \<and> missing \<noteq> 0) then None
              else let groups = (if compressed then left @ replicate (nat missing) ''0'' @ right else left)
                   in if length groups \<noteq> 8 \<or> list_ex (\<lambda>g. \<not> hex_group g) groups then None
                      else Some (concat (map group_bytes groups)))"

definition ipv6_bytes :: "string \<Rightarrow> 8 word list option" where
  "ipv6_bytes address =
     (let raw = map lower_char address
      in if CHR ''%'' \<in> set raw then None
         else case ipv4_tail raw of
             None \<Rightarrow> parse_groups raw
           | Some tail \<Rightarrow>
               (case parse_ipv4 tail of
                  None \<Rightarrow> None
                | Some octets \<Rightarrow> parse_groups (take (length raw - length tail) raw @ pair_groups octets)))"

definition has_prefix :: "8 word list \<Rightarrow> 8 word list \<Rightarrow> bool" where
  "has_prefix bytes prefix \<longleftrightarrow> take (length prefix) bytes = prefix"

definition public_bytes :: "8 word list \<Rightarrow> bool" where
  "public_bytes bytes \<longleftrightarrow>
     hd bytes AND 0xe0 = 0x20
     \<and> \<not> (has_prefix bytes [0x20, 0x01, 0x00, 0x00]
        \<or> has_prefix bytes [0x20, 0x01, 0x00, 0x02, 0x00, 0x00]
        \<or> has_prefix bytes [0x20, 0x01, 0x0d, 0xb8]
        \<or> (has_prefix bytes [0x20, 0x01, 0x00] \<and> bytes ! 3 AND 0xf0 = 0x10)
        \<or> (has_prefix bytes [0x20, 0x01, 0x00] \<and> bytes ! 3 AND 0xf0 = 0x20)
        \<or> has_prefix bytes [0x20, 0x02])"

definition is_public_ipv6 :: "string \<Rightarrow> bool" where
  "is_public_ipv6 address \<longleftrightarrow> (case ipv6_bytes address of None \<Rightarrow> False | Some bytes \<Rightarrow> public_bytes bytes)"

section \<open>The policy\<close>

definition is_public_address :: "(string \<Rightarrow> nat) \<Rightarrow> string \<Rightarrow> bool" where
  "is_public_address isIP address \<longleftrightarrow>
     (let family = isIP address
      in if family = 4 then is_public_ipv4 address
         else if family = 6 then is_public_ipv6 address
         else False)"

datatype url_error = Url_error (url_error_code: string) (url_error_message: string)

definition require_public_addresses :: "(string \<Rightarrow> nat) \<Rightarrow> string list \<Rightarrow> url_error + string list" where
  "require_public_addresses isIP addresses =
     (if addresses = [] \<or> list_ex (\<lambda>a. \<not> is_public_address isIP a) addresses
      then Inl (Url_error ''private_address_forbidden''
             ''The source hostname did not resolve exclusively to eligible public addresses.'')
      else Inr addresses)"

end
