(* ===== verification/Web_Address_Laws.thy ===== *)
theory Web_Address_Laws
  imports Web_Address
begin

text \<open>
  What the address policy means: the refused ranges as a table of networks (address and prefix length,
  on the bits of an address), and the textual forms of an IPv6 address with the bytes they stand for.
\<close>

section \<open>Networks\<close>

definition byte_bits :: "8 word \<Rightarrow> bool list" where
  "byte_bits b = map (bit b) [7, 6, 5, 4, 3, 2, 1, 0]"

definition address_bits :: "8 word list \<Rightarrow> bool list" where
  "address_bits bytes = concat (map byte_bits bytes)"

type_synonym network = "8 word list \<times> nat"

fun in_network :: "8 word list \<Rightarrow> network \<Rightarrow> bool" where
  "in_network bytes (prefix, len) \<longleftrightarrow> take len (address_bits bytes) = take len (address_bits prefix)"

definition special_ipv4 :: "network list" where
  "special_ipv4 =
     [([0], 8), ([10], 8), ([127], 8), ([100, 64], 10), ([169, 254], 16), ([172, 16], 12),
      ([192, 0, 0], 24), ([192, 0, 2], 24), ([192, 88, 99], 24), ([192, 168], 16), ([198, 18], 15),
      ([198, 51, 100], 24), ([203, 0, 113], 24), ([224], 3)]"

definition global_ipv6 :: network where
  "global_ipv6 = ([0x20], 3)"

definition special_ipv6 :: "network list" where
  "special_ipv6 =
     [([0x20, 0x01, 0, 0], 32), ([0x20, 0x01, 0, 2, 0, 0], 48), ([0x20, 0x01, 0x0d, 0xb8], 32),
      ([0x20, 0x01, 0, 0x10], 28), ([0x20, 0x01, 0, 0x20], 28), ([0x20, 0x02], 16)]"

lemma length_byte_bits [simp]: "length (byte_bits b) = 8"
  by (simp add: byte_bits_def)

lemma byte_bits_inject [simp]: "byte_bits a = byte_bits b \<longleftrightarrow> a = b"
proof
  assume "byte_bits a = byte_bits b"
  then have "bit a n = bit b n" if "n < 8" for n
    using that by (auto simp: byte_bits_def less_Suc_eq numeral_eq_Suc)
  then show "a = b" by (intro bit_word_eqI) simp
qed simp

lemma address_bits_simps [simp]:
  "address_bits [] = []" "address_bits (b # bs) = byte_bits b @ address_bits bs"
  by (simp_all add: address_bits_def)

lemma length_address_bits [simp]: "length (address_bits bs) = 8 * length bs"
  by (induction bs) simp_all

text \<open>Facts about one byte: a prefix of its bits as a range, or as a masked value.\<close>

lemma byte_bits_take:
  fixes a b :: "8 word"
  shows "take 2 (byte_bits a) = take 2 (byte_bits b) \<longleftrightarrow> unat a div 64 = unat b div 64"
    "take 3 (byte_bits a) = take 3 (byte_bits b) \<longleftrightarrow> unat a div 32 = unat b div 32"
    "take 4 (byte_bits a) = take 4 (byte_bits b) \<longleftrightarrow> unat a div 16 = unat b div 16"
    "take 7 (byte_bits a) = take 7 (byte_bits b) \<longleftrightarrow> unat a div 2 = unat b div 2"
proof -
  have d: "drop_bit k a = drop_bit k b \<longleftrightarrow> unat a div 2 ^ k = unat b div 2 ^ k" for k
    by (simp only: word_unat_eq_iff unat_drop_bit_eq) (simp only: drop_bit_eq_div)
  have e: "drop_bit k a = drop_bit k b \<longleftrightarrow> (\<forall>n < 8. k \<le> n \<longrightarrow> bit a n = bit b n)" for k
  proof
    assume eq: "drop_bit k a = drop_bit k b"
    show "\<forall>n < 8. k \<le> n \<longrightarrow> bit a n = bit b n"
    proof (intro allI impI)
      fix n :: nat assume "k \<le> n"
      with arg_cong [OF eq, of "\<lambda>w. bit w (n - k)"] show "bit a n = bit b n"
        by (simp add: bit_drop_bit_eq)
    qed
  next
    assume *: "\<forall>n < 8. k \<le> n \<longrightarrow> bit a n = bit b n"
    show "drop_bit k a = drop_bit k b"
    proof (rule bit_word_eqI)
      fix n
      show "bit (drop_bit k a) n = bit (drop_bit k b) n"
        using * [rule_format, of "k + n"] bit_imp_le_length [of a "k + n"] bit_imp_le_length [of b "k + n"]
        by (cases "k + n < 8") (auto simp: bit_drop_bit_eq)
    qed
  qed
  have l: "(\<forall>n < (8::nat). k \<le> n \<longrightarrow> P n)
      \<longleftrightarrow> list_all (\<lambda>n. k \<le> n \<longrightarrow> P n) [0..<8]" for k P
    by (auto simp: list_all_iff)
  have range: "[0..<8] = [0, 1, 2, 3, 4, 5, 6, 7]" by code_simp
  have div: "unat a div 64 = unat b div 64 \<longleftrightarrow> drop_bit 6 a = drop_bit 6 b"
    "unat a div 32 = unat b div 32 \<longleftrightarrow> drop_bit 5 a = drop_bit 5 b"
    "unat a div 16 = unat b div 16 \<longleftrightarrow> drop_bit 4 a = drop_bit 4 b"
    "unat a div 2 = unat b div 2 \<longleftrightarrow> drop_bit 1 a = drop_bit 1 b"
    unfolding d by simp_all
  show "take 2 (byte_bits a) = take 2 (byte_bits b) \<longleftrightarrow> unat a div 64 = unat b div 64"
    "take 3 (byte_bits a) = take 3 (byte_bits b) \<longleftrightarrow> unat a div 32 = unat b div 32"
    "take 4 (byte_bits a) = take 4 (byte_bits b) \<longleftrightarrow> unat a div 16 = unat b div 16"
    "take 7 (byte_bits a) = take 7 (byte_bits b) \<longleftrightarrow> unat a div 2 = unat b div 2"
    unfolding div e l range byte_bits_def by (simp_all add: conj_ac)
qed

lemma unat_lt_8: "unat (b :: 8 word) < 256"
proof -
  have "unat b < 2 ^ LENGTH(8)" by (rule unsigned_less)
  then show ?thesis by simp
qed

lemma byte_ranges:
  fixes b :: "8 word"
  shows "take 2 (byte_bits b) = take 2 (byte_bits 64) \<longleftrightarrow> 64 \<le> b \<and> b \<le> 127"
    "take 4 (byte_bits b) = take 4 (byte_bits 16) \<longleftrightarrow> 16 \<le> b \<and> b \<le> 31"
    "take 7 (byte_bits b) = take 7 (byte_bits 18) \<longleftrightarrow> b = 18 \<or> b = 19"
    "take 3 (byte_bits b) = take 3 (byte_bits 224) \<longleftrightarrow> 224 \<le> b"
proof -
  have "unat b < 256" by (rule unat_lt_8)
  then show "take 2 (byte_bits b) = take 2 (byte_bits 64) \<longleftrightarrow> 64 \<le> b \<and> b \<le> 127"
    "take 4 (byte_bits b) = take 4 (byte_bits 16) \<longleftrightarrow> 16 \<le> b \<and> b \<le> 31"
    "take 7 (byte_bits b) = take 7 (byte_bits 18) \<longleftrightarrow> b = 18 \<or> b = 19"
    "take 3 (byte_bits b) = take 3 (byte_bits 224) \<longleftrightarrow> 224 \<le> b"
    by (auto simp: byte_bits_take word_le_nat_alt word_unat_eq_iff)
qed

lemma byte_masks:
  fixes b :: "8 word"
  shows "b AND 0xe0 = 0x20 \<longleftrightarrow> take 3 (byte_bits b) = take 3 (byte_bits 0x20)"
    "b AND 0xf0 = 0x10 \<longleftrightarrow> take 4 (byte_bits b) = take 4 (byte_bits 0x10)"
    "b AND 0xf0 = 0x20 \<longleftrightarrow> take 4 (byte_bits b) = take 4 (byte_bits 0x20)"
proof -
  have eq: "a = c \<longleftrightarrow> byte_bits a = byte_bits c" for a c by simp
  show "b AND 0xe0 = 0x20 \<longleftrightarrow> take 3 (byte_bits b) = take 3 (byte_bits 0x20)"
    unfolding eq [of "b AND 0xe0"] by (simp add: byte_bits_def bit_simps)
  show "b AND 0xf0 = 0x10 \<longleftrightarrow> take 4 (byte_bits b) = take 4 (byte_bits 0x10)"
    "b AND 0xf0 = 0x20 \<longleftrightarrow> take 4 (byte_bits b) = take 4 (byte_bits 0x20)"
    unfolding eq [of "b AND 0xf0"] by (simp_all add: byte_bits_def bit_simps)
qed

lemma public_octets_networks:
  assumes "length os = 4"
  shows "public_octets os \<longleftrightarrow> \<not> list_ex (in_network os) special_ipv4"
proof -
  from assms obtain a b c d where os: "os = [a, b, c, d]"
    by (auto simp: length_Suc_conv numeral_eq_Suc)
  show ?thesis
    unfolding os special_ipv4_def by (simp add: byte_ranges)
qed

lemma public_bytes_networks:
  assumes "length bs = 16"
  shows "public_bytes bs \<longleftrightarrow> in_network bs global_ipv6 \<and> \<not> list_ex (in_network bs) special_ipv6"
proof -
  from assms obtain a b c d e f rest where bs: "bs = a # b # c # d # e # f # rest" "length rest = 10"
    by (auto simp: length_Suc_conv numeral_eq_Suc)
  show ?thesis
    unfolding bs(1) special_ipv6_def global_ipv6_def public_bytes_def
    by (simp add: byte_masks has_prefix_def)
qed

end
