(* ===== verification/Web_Address_Text.thy ===== *)
theory Web_Address_Text
  imports Web_Address_Laws
begin

text \<open>
  The textual forms of addresses read back: hexadecimal and decimal digits
  undo printing, and an address written with all its groups, with a run of zero groups left out, or
  with an IPv4 tail is read as its sixteen bytes, in either case.
\<close>

section \<open>Double colons\<close>

definition single_colons :: "string \<Rightarrow> bool" where
  "single_colons s \<longleftrightarrow> double_colons s = 0 \<and> (s = [] \<or> last s \<noteq> CHR '':'')"

lemma split_double_plain: "double_colons s = 0 \<Longrightarrow> split_double s = [s]"
  by (induction s rule: double_colons.induct) (auto split: if_splits)

lemma double_colons_append:
  "single_colons s \<Longrightarrow> double_colons (s @ CHR '':'' # CHR '':'' # t) = Suc (double_colons t)"
  by (induction s rule: double_colons.induct) (auto simp: single_colons_def split: if_splits)

lemma split_double_append:
  "single_colons s \<Longrightarrow> split_double (s @ CHR '':'' # CHR '':'' # t) = s # split_double t"
  by (induction s rule: double_colons.induct) (auto simp: single_colons_def split: if_splits)

lemma double_colons_none: "CHR '':'' \<notin> set s \<Longrightarrow> double_colons s = 0"
  by (induction s rule: double_colons.induct) auto

lemma double_colons_piece:
  "CHR '':'' \<notin> set u \<Longrightarrow> v \<noteq> [] \<Longrightarrow> hd v \<noteq> CHR '':'' \<Longrightarrow> double_colons (u @ CHR '':'' # v) = double_colons v"
proof (induction u)
  case Nil
  then show ?case by (cases v) auto
next
  case (Cons c u)
  then show ?case by (cases u) auto
qed

lemma single_colons_join:
  "list_all (\<lambda>p. p \<noteq> [] \<and> CHR '':'' \<notin> set p) ps \<Longrightarrow> single_colons (join_char (CHR '':'') ps)"
proof (induction "CHR '':''" ps rule: join_char.induct)
  case (2 p)
  then show ?case by (cases p rule: rev_cases) (auto simp: single_colons_def double_colons_none)
next
  case (3 p q ps)
  let ?v = "join_char (CHR '':'') (q # ps)"
  have v: "?v \<noteq> []" "hd ?v \<noteq> CHR '':''" using 3(2) by (cases ps; cases q; auto)+
  with 3 double_colons_piece [of p ?v] show ?case by (auto simp: single_colons_def)
qed (simp add: single_colons_def)

section \<open>Digits\<close>

lemma hex_char_val: "n < 16 \<Longrightarrow> hex_digit_val (hex_char n) = n \<and> is_lower_hex (hex_char n)"
  by (auto simp: hex_digit_val_def hex_char_def is_lower_hex_def is_digit_def code_def)

lemma hex_text_facts:
  "hex_val (hex_text n) = n \<and> list_all is_lower_hex (hex_text n) \<and> hex_text n \<noteq> []"
proof (induction n rule: hex_text.induct)
  case (1 n)
  show ?case
  proof (cases "n < 16")
    case True
    then show ?thesis using hex_char_val by (simp add: hex_text.simps [of n] hex_val_def)
  next
    case False
    with 1 hex_char_val [of "n mod 16"] show ?thesis by (simp add: hex_text.simps [of n] hex_val_def)
  qed
qed

lemma length_hex_text: "0 < k \<Longrightarrow> n < 16 ^ k \<Longrightarrow> length (hex_text n) \<le> k"
proof (induction n arbitrary: k rule: hex_text.induct)
  case (1 n)
  show ?case
  proof (cases "n < 16")
    case True
    then show ?thesis using 1 by (simp add: hex_text.simps [of n])
  next
    case False
    obtain j where k: "k = Suc j" using 1 by (cases k) auto
    have "0 < j" using False 1(3) k by (cases j) auto
    moreover have "n div 16 < 16 ^ j" using 1(3) k by (simp add: less_mult_imp_div_less)
    ultimately have "length (hex_text (n div 16)) \<le> j" using 1(1) [OF False] by simp
    then show ?thesis using False k by (simp add: hex_text.simps [of n])
  qed
qed

lemma hex_group_hex_text: "n < 65536 \<Longrightarrow> hex_group (hex_text n)"
  using length_hex_text [of 4 n] hex_text_facts [of n]
  by (cases "hex_text n") (auto simp: hex_group_def)

lemma octet_of_decimal: "n < 256 \<Longrightarrow> octet_of (decimal n) = Some (word_of_nat n)"
  by (simp add: octet_of_def canonical_decimal_decimal digits_val_decimal)

section \<open>Groups\<close>

type_synonym group = "8 word \<times> 8 word"

definition group_text :: "group \<Rightarrow> string" where
  "group_text g = hex_text (256 * unat (fst g) + unat (snd g))"

definition groups_text :: "group list \<Rightarrow> string" where
  "groups_text gs = join_char (CHR '':'') (map group_text gs)"

definition bytes_of_groups :: "group list \<Rightarrow> 8 word list" where
  "bytes_of_groups gs = concat (map (\<lambda>(a, b). [a, b]) gs)"

lemma group_number: "256 * unat (a :: 8 word) + unat (b :: 8 word) < 65536"
  using unat_lt_8 [of a] unat_lt_8 [of b] by linarith

lemma hex_group_group_text: "hex_group (group_text g)"
  using group_number by (simp add: group_text_def hex_group_hex_text)

lemma group_bytes_text: "group_bytes (group_text (a, b)) = [a, b]"
proof -
  let ?n = "256 * unat a + unat b"
  define w :: "32 word" where "w = word_of_nat ?n"
  have n: "unat w = ?n"
    unfolding w_def unat_of_nat by (rule mod_less) (use group_number [of a b] in simp)
  have m: "(0xff :: 32 word) = mask 8" by (simp add: mask_numeral)
  have "unat (ucast (drop_bit 8 w) :: 8 word) = unat a"
    unfolding unsigned_ucast_eq unat_drop_bit_eq n using unat_lt_8 [of a] unat_lt_8 [of b]
    by (simp add: drop_bit_eq_div take_bit_nat_eq_self)
  moreover have "unat (ucast (w AND 0xff) :: 8 word) = unat b"
    unfolding m unsigned_ucast_eq take_bit_eq_mask [symmetric] unsigned_take_bit_eq n
    using unat_lt_8 [of b] by (simp add: take_bit_eq_mod)
  ultimately show ?thesis
    using hex_text_facts [of ?n] by (simp add: group_bytes_def group_text_def Let_def word_unat_eq_iff w_def)
qed

lemma group_text_chars: "c \<in> set (group_text g) \<Longrightarrow> is_lower_hex c" "group_text g \<noteq> []"
  using hex_group_group_text [of g] by (auto simp: hex_group_def list_all_iff)

lemma group_text_plain [simp]:
  "CHR '':'' \<notin> set (group_text g)" "CHR ''.'' \<notin> set (group_text g)" "CHR ''%'' \<notin> set (group_text g)"
  using group_text_chars(1) [of "CHR '':''" g] group_text_chars(1) [of "CHR ''.''" g]
    group_text_chars(1) [of "CHR ''%''" g]
  by (auto simp: is_lower_hex_def is_digit_def code_def)

lemma groups_text_plain [simp]: "CHR ''.'' \<notin> set (groups_text gs)" "CHR ''%'' \<notin> set (groups_text gs)"
  using set_join_char [of "CHR '':''" "map group_text gs"] by (auto simp: groups_text_def)

lemma single_colons_groups: "single_colons (groups_text gs)"
  unfolding groups_text_def by (rule single_colons_join) (simp add: list_all_iff group_text_chars(2))

lemma groups_of_text: "groups_of (groups_text gs) = map group_text gs"
proof (cases gs)
  case (Cons g hs)
  have "groups_text gs \<noteq> []" using group_text_chars(2) by (cases hs) (auto simp: Cons groups_text_def)
  then show ?thesis
    using split_char_join [of "CHR '':''" "map group_text gs"]
    by (simp add: groups_of_def groups_text_def list_all_iff Cons)
qed (simp add: groups_of_def groups_text_def)

lemma groups_bytes: "concat (map group_bytes (map group_text gs)) = bytes_of_groups gs"
  by (induction gs) (auto simp: bytes_of_groups_def group_bytes_text)

lemma groups_valid: "\<not> list_ex (\<lambda>g. \<not> hex_group g) (map group_text gs)"
  by (auto simp: list_ex_iff hex_group_group_text)

lemma parse_full: "length gs = 8 \<Longrightarrow> parse_groups (groups_text gs) = Some (bytes_of_groups gs)"
  using single_colons_groups [of gs] groups_valid [of gs] groups_bytes [of gs]
  by (simp add: parse_groups_def single_colons_def split_double_plain groups_of_text Let_def)

lemma zero_group: "hex_group ''0''" "group_bytes ''0'' = [0, 0]"
  by (simp_all add: hex_group_def is_lower_hex_def is_digit_def code_def group_bytes_def hex_val_def
      hex_digit_val_def)

lemma zero_groups: "concat (map group_bytes (replicate k ''0'')) = replicate (2 * k) 0"
  by (induction k) (simp_all add: zero_group)

lemma parse_compressed:
  assumes "length gs + length hs < 8"
  shows "parse_groups (groups_text gs @ ''::'' @ groups_text hs)
    = Some (bytes_of_groups gs @ replicate (16 - 2 * (length gs + length hs)) 0 @ bytes_of_groups hs)"
proof -
  let ?raw = "groups_text gs @ ''::'' @ groups_text hs"
  let ?k = "8 - (length gs + length hs)"
  have d: "double_colons ?raw = 1" "split_double ?raw = [groups_text gs, groups_text hs]"
    using single_colons_groups [of gs] single_colons_groups [of hs]
    by (simp_all add: double_colons_append split_double_append split_double_plain single_colons_def)
  have k: "nat (8 - int (length gs) - int (length hs)) = ?k" using assms by linarith
  have v: "\<not> list_ex (\<lambda>g. \<not> hex_group g) (map group_text gs @ replicate ?k ''0'' @ map group_text hs)"
    using groups_valid [of gs] groups_valid [of hs] zero_group by (auto simp: list_ex_iff)
  have "concat (map group_bytes (map group_text gs @ replicate ?k ''0'' @ map group_text hs))
      = bytes_of_groups gs @ replicate (2 * ?k) 0 @ bytes_of_groups hs"
    unfolding map_append concat_append groups_bytes zero_groups ..
  with d k v assms show ?thesis
    by (simp add: parse_groups_def groups_of_text Let_def diff_mult_distrib2)
qed

section \<open>IPv4 tails\<close>

definition dotted :: "8 word list \<Rightarrow> string" where
  "dotted os = join_char (CHR ''.'') (map (\<lambda>b. decimal (unat b)) os)"

lemma decimal_plain: "\<not> is_digit c \<Longrightarrow> c \<notin> set (decimal n)"
  using decimal_digits [of n] by (auto simp: list_all_iff)

lemma split_dotted:
  "os \<noteq> [] \<Longrightarrow> split_char (CHR ''.'') (dotted os) = map (\<lambda>b. decimal (unat b)) os"
  unfolding dotted_def
  by (rule split_char_join) (auto simp: list_all_iff is_digit_def code_def intro!: decimal_plain)

lemma those_map_Some: "(\<And>x. x \<in> set xs \<Longrightarrow> f x = Some (g x)) \<Longrightarrow> those (map f xs) = Some (map g xs)"
  by (induction xs) simp_all

lemma parse_ipv4_dotted: "length os = 4 \<Longrightarrow> parse_ipv4 (dotted os) = Some os"
  using those_map_Some [of os "\<lambda>b. octet_of (decimal (unat b))" "\<lambda>b. b"]
  by (cases os) (auto simp: parse_ipv4_def split_dotted octet_of_decimal unat_lt_8 o_def)

lemma dotted_quad_dotted: "length os = 4 \<Longrightarrow> dotted_quad (dotted os)"
  using decimal_digits length_decimal [of 3] unat_lt_8
  by (cases "os = []")
    (auto simp: dotted_quad_def split_dotted list_all_iff Suc_le_eq less_imp_le intro!: length_decimal less_le_trans [OF unat_lt_8])

lemma octet_pair_number: "unat (octet_pair a b) = 256 * unat a + unat b"
proof -
  have "octet_pair a b = push_bit 8 (ucast a) + ucast b"
    unfolding octet_pair_def
    by (rule disjunctive_add [symmetric]) (auto simp: bit_simps dest: bit_imp_le_length)
  then have e: "octet_pair a b = word_of_nat (256 * unat a + unat b)"
    by (simp add: push_bit_eq_mult)
  show ?thesis
    unfolding e unat_of_nat by (rule mod_less) (use group_number [of a b] in simp)
qed

lemma pair_groups_text: "pair_groups [a, b, c, d] = groups_text [(a, b), (c, d)]"
  by (simp add: octet_pair_number group_text_def groups_text_def)

section \<open>Whole addresses\<close>

lemma ipv4_tail_hex: "CHR ''.'' \<notin> set raw \<Longrightarrow> ipv4_tail raw = None"
proof -
  assume "CHR ''.'' \<notin> set raw"
  then have "CHR ''.'' \<notin> set (last (split_char (CHR '':'') raw))"
    using split_char_pieces [OF last_in_set [OF split_char_not_Nil]] by blast
  then show ?thesis by (simp add: ipv4_tail_def dotted_quad_def split_char_plain)
qed

lemma ipv6_bytes_hex:
  assumes "map lower_char written = raw" "CHR ''.'' \<notin> set raw" "CHR ''%'' \<notin> set raw"
  shows "ipv6_bytes written = parse_groups raw"
  using assms by (simp add: ipv6_bytes_def ipv4_tail_hex Let_def)

lemma dotted_plain: "c \<noteq> CHR ''.'' \<Longrightarrow> \<not> is_digit c \<Longrightarrow> c \<notin> set (dotted os)"
  using set_join_char [of "CHR ''.''" "map (\<lambda>b. decimal (unat b)) os"] decimal_plain [of c]
  by (auto simp: dotted_def)

lemma ipv6_bytes_dotted:
  assumes "map lower_char written = u @ CHR '':'' # dotted os" "length os = 4" "CHR ''%'' \<notin> set u"
  shows "ipv6_bytes written = parse_groups (u @ '':'' @ pair_groups os)"
proof -
  have c: "CHR '':'' \<notin> set (dotted os)" "CHR ''%'' \<notin> set (dotted os)"
    by (rule dotted_plain; simp add: is_digit_def code_def)+
  then have "ipv4_tail (u @ CHR '':'' # dotted os) = Some (dotted os)"
    using dotted_quad_dotted [OF assms(2)] by (simp add: ipv4_tail_def split_char_last Let_def)
  then show ?thesis
    using assms c by (simp add: ipv6_bytes_def Let_def parse_ipv4_dotted)
qed

text \<open>The ways to write the groups of an address.\<close>

inductive ipv6_text :: "8 word list \<Rightarrow> string \<Rightarrow> bool" where
  full: "length gs = 8 \<Longrightarrow> ipv6_text (bytes_of_groups gs) (groups_text gs)"
| compressed: "length gs + length hs < 8 \<Longrightarrow>
    ipv6_text (bytes_of_groups gs @ replicate (16 - 2 * (length gs + length hs)) 0 @ bytes_of_groups hs)
      (groups_text gs @ ''::'' @ groups_text hs)"
| full_quad: "length gs = 6 \<Longrightarrow>
    ipv6_text (bytes_of_groups gs @ [a, b, c, d]) (groups_text gs @ '':'' @ dotted [a, b, c, d])"
| compressed_quad: "length gs + length hs < 6 \<Longrightarrow>
    ipv6_text (bytes_of_groups gs @ replicate (12 - 2 * (length gs + length hs)) 0 @ bytes_of_groups hs @ [a, b, c, d])
      (groups_text gs @ ''::'' @ (if hs = [] then [] else groups_text hs @ '':'') @ dotted [a, b, c, d])"

lemma groups_text_append:
  "gs \<noteq> [] \<Longrightarrow> hs \<noteq> [] \<Longrightarrow> groups_text (gs @ hs) = groups_text gs @ '':'' @ groups_text hs"
proof (induction gs)
  case (Cons g gs)
  then show ?case by (cases gs; cases hs) (auto simp: groups_text_def)
qed simp

lemma bytes_of_groups_append: "bytes_of_groups (gs @ hs) = bytes_of_groups gs @ bytes_of_groups hs"
  by (simp add: bytes_of_groups_def)

lemma ipv6_text_bytes:
  assumes "ipv6_text bs raw" "map lower_char written = raw"
  shows "ipv6_bytes written = Some bs"
  using assms
proof (cases rule: ipv6_text.cases)
  case (full gs)
  then show ?thesis using assms(2) by (simp add: ipv6_bytes_hex parse_full)
next
  case (compressed gs hs)
  then show ?thesis using assms(2) parse_compressed [of gs hs] by (subst ipv6_bytes_hex) simp_all
next
  case (full_quad gs a b c d)
  have "parse_groups (groups_text gs @ '':'' @ pair_groups [a, b, c, d])
      = Some (bytes_of_groups (gs @ [(a, b), (c, d)]))"
    using full_quad(3) groups_text_append [of gs "[(a, b), (c, d)]"] parse_full [of "gs @ [(a, b), (c, d)]"]
    by (cases gs) (auto simp: pair_groups_text simp del: pair_groups.simps)
  then show ?thesis
    using full_quad assms(2) ipv6_bytes_dotted [of written "groups_text gs" "[a, b, c, d]"]
    by (auto simp: bytes_of_groups_append bytes_of_groups_def)
next
  case (compressed_quad gs hs a b c d)
  let ?u = "groups_text gs @ '':'' @ (if hs = [] then [] else CHR '':'' # groups_text hs)"
  let ?hs = "hs @ [(a, b), (c, d)]"
  have "?u @ '':'' @ pair_groups [a, b, c, d] = groups_text gs @ ''::'' @ groups_text ?hs"
    using groups_text_append [of hs "[(a, b), (c, d)]"]
    by (cases "hs = []") (simp_all add: pair_groups_text del: pair_groups.simps)
  moreover have "ipv6_bytes written = parse_groups (?u @ '':'' @ pair_groups [a, b, c, d])"
    using compressed_quad assms(2) by (intro ipv6_bytes_dotted) auto
  ultimately show ?thesis
    using compressed_quad parse_compressed [of gs ?hs]
    by (simp add: bytes_of_groups_append bytes_of_groups_def diff_mult_distrib2)
qed

end
