(* ===== verification/Web_Source_Policy.thy ===== *)
theory Web_Source_Policy
  imports Web_Address_Text "HOL-Library.Sublist"
begin

text \<open>
  The URL part of the web source policy (\<open>src/server/integrations/web-source/url-policy.ts\<close>): which
  source URLs are read at all, the canonical form of a policy, and whether a URL lies in a policy's
  origin and path. The WHATWG \<open>URL\<close> class and \<open>isIP\<close> are arguments.
\<close>

section \<open>The platform\<close>

record parsed_url =
  pu_protocol :: string
  pu_username :: string
  pu_password :: string
  pu_hash :: string
  pu_hostname :: string
  pu_pathname :: string
  pu_search :: string
  pu_origin :: string
  pu_href :: string

text \<open>\<open>new URL(raw)\<close>, \<open>new URL(path, base)\<close>, the \<open>hostname\<close> setter, and \<open>isIP\<close>\<close>

record web_platform =
  wp_url :: "string \<Rightarrow> parsed_url option"
  wp_url_at :: "string \<Rightarrow> string \<Rightarrow> parsed_url option"
  wp_set_hostname :: "string \<Rightarrow> parsed_url \<Rightarrow> parsed_url"
  wp_isIP :: "string \<Rightarrow> nat"

section \<open>Raw URLs\<close>

definition max_url_bytes :: int where "max_url_bytes = 2048"
definition max_origin_bytes :: int where "max_origin_bytes = 255"
definition max_path_prefix_bytes :: int where "max_path_prefix_bytes = 1024"

text \<open>Is there a \<open>%\<close> whose two next characters satisfy \<open>P\<close>, letters in either case?\<close>

fun encoded_where :: "(char \<Rightarrow> char \<Rightarrow> bool) \<Rightarrow> string \<Rightarrow> bool" where
  "encoded_where P (c # d # e # cs) \<longleftrightarrow>
     (c = CHR ''%'' \<and> P (lower_char d) (lower_char e)) \<or> encoded_where P (d # e # cs)"
| "encoded_where P _ \<longleftrightarrow> False"

definition encoded_control :: "string \<Rightarrow> bool" where
  "encoded_control = encoded_where (\<lambda>d e.
     (d = CHR ''0'' \<and> is_lower_hex e) \<or> (d = CHR ''1'' \<and> is_lower_hex e) \<or> (d = CHR ''7'' \<and> e = CHR ''f''))"

definition encoded_separator :: "string \<Rightarrow> bool" where
  "encoded_separator = encoded_where (\<lambda>d e.
     (d = CHR ''2'' \<and> e = CHR ''f'') \<or> (d = CHR ''5'' \<and> e = CHR ''c''))"

definition encoded_dot :: "string \<Rightarrow> bool" where
  "encoded_dot = encoded_where (\<lambda>d e. d = CHR ''2'' \<and> e = CHR ''e'')"

definition control_byte :: "char \<Rightarrow> bool" where
  "control_byte c \<longleftrightarrow> code c \<le> 31 \<or> code c = 127"

definition backslash :: char where "backslash = char_of (92 :: nat)"

definition ambiguous_text :: "string \<Rightarrow> bool" where
  "ambiguous_text v \<longleftrightarrow>
     backslash \<in> set v \<or> list_ex control_byte v \<or> encoded_control v \<or> encoded_separator v \<or> encoded_dot v"

definition unambiguous_raw_url :: "json \<Rightarrow> url_error + string" where
  "unambiguous_raw_url v =
     (case v of
        JStr s \<Rightarrow>
          (if s = [] \<or> s \<noteq> js_trim s
           then Inl (Url_error ''invalid_url'' ''A canonical absolute source URL is required.'')
           else if utf8_bytes s > max_url_bytes
           then Inl (Url_error ''url_too_long'' ''The source URL exceeds the supported length.'')
           else if ambiguous_text s
           then Inl (Url_error ''ambiguous_path_forbidden'' ''The source URL contains ambiguous path bytes.'')
           else Inr s)
      | _ \<Rightarrow> Inl (Url_error ''invalid_url'' ''A canonical absolute source URL is required.''))"

section \<open>Hostnames\<close>

definition dns_char :: "char \<Rightarrow> bool" where
  "dns_char c \<longleftrightarrow> is_lower c \<or> is_digit c"

text \<open>\<open>[a-z0-9](?:[a-z0-9-]{0,61}[a-z0-9])?\<close>\<close>

definition dns_label :: "string \<Rightarrow> bool" where
  "dns_label l \<longleftrightarrow>
     l \<noteq> [] \<and> length l \<le> 63 \<and> dns_char (hd l) \<and> dns_char (last l)
     \<and> list_all (\<lambda>c. dns_char c \<or> c = CHR ''-'') l"

definition public_dns_name :: "string \<Rightarrow> bool" where
  "public_dns_name s \<longleftrightarrow>
     1 \<le> length s \<and> length s \<le> 253
     \<and> length (split_char (CHR ''.'') s) \<ge> 2 \<and> list_all dns_label (split_char (CHR ''.'') s)"

definition blocked_dns_suffixes :: "string list" where
  "blocked_dns_suffixes =
     [''.arpa'', ''.corp'', ''.example'', ''.home'', ''.internal'', ''.invalid'', ''.lan'', ''.local'',
      ''.localdomain'', ''.localhost'', ''.onion'', ''.test'']"

definition ends_with :: "string \<Rightarrow> string \<Rightarrow> bool" where
  "ends_with s t \<longleftrightarrow> length t \<le> length s \<and> drop (length s - length t) s = t"

definition public_hostname :: "web_platform \<Rightarrow> string \<Rightarrow> url_error + string" where
  "public_hostname wp hostname =
     (let canonical = map lower_char hostname
      in if canonical = ''localhost'' \<or> ends_with canonical ''.'' \<or> wp_isIP wp canonical \<noteq> 0
           \<or> \<not> public_dns_name canonical
           \<or> list_ex (\<lambda>s. canonical = drop 1 s \<or> ends_with canonical s) blocked_dns_suffixes
         then Inl (Url_error ''public_dns_required'' ''The source URL must use an eligible public DNS hostname.'')
         else Inr canonical)"

section \<open>Canonical URLs\<close>

record canonical_url =
  cu_url :: string
  cu_origin :: string
  cu_hostname :: string
  cu_pathname :: string
  cu_pathAndQuery :: string

definition canonical_url_of :: "web_platform \<Rightarrow> parsed_url \<Rightarrow> url_error + canonical_url" where
  "canonical_url_of wp p =
     and_then (throw_unless (pu_protocol p = ''https:'')
        (Url_error ''https_required'' ''Web source URLs must use HTTPS.'')) (\<lambda>_.
     and_then (throw_unless (pu_username p = [] \<and> pu_password p = [])
        (Url_error ''credentials_forbidden'' ''Credentials are not accepted in source URLs.'')) (\<lambda>_.
     and_then (throw_unless (pu_hash p = [])
        (Url_error ''fragment_forbidden'' ''Source URL fragments are not accepted.'')) (\<lambda>_.
     and_then (public_hostname wp (pu_hostname p)) (\<lambda>hostname.
     and_then (throw_unless (\<not> (encoded_separator (pu_pathname p) \<or> encoded_dot (pu_pathname p)))
        (Url_error ''ambiguous_path_forbidden''
           ''Encoded separators and dot segments are not accepted in source paths.'')) (\<lambda>_.
     let p' = wp_set_hostname wp hostname p
     in if utf8_bytes (pu_origin p') > max_origin_bytes
        then Inl (Url_error ''invalid_url'' ''The source origin exceeds the supported length.'')
        else Inr \<lparr>cu_url = pu_href p', cu_origin = pu_origin p', cu_hostname = hostname,
                  cu_pathname = pu_pathname p', cu_pathAndQuery = pu_pathname p' @ pu_search p'\<rparr>)))))"

definition canonicalize_url :: "web_platform \<Rightarrow> json \<Rightarrow> url_error + canonical_url" where
  "canonicalize_url wp v =
     and_then (unambiguous_raw_url v) (\<lambda>raw.
       case wp_url wp raw of
         None \<Rightarrow> Inl (Url_error ''invalid_url'' ''A canonical absolute source URL is required.'')
       | Some p \<Rightarrow> canonical_url_of wp p)"

section \<open>Policies\<close>

record policy_boundary =
  pb_origin :: json
  pb_pathPrefix :: json

definition canonicalize_policy_origin :: "web_platform \<Rightarrow> json \<Rightarrow> url_error + string" where
  "canonicalize_policy_origin wp v =
     and_then (canonicalize_url wp v) (\<lambda>c.
       if cu_pathname c \<noteq> ''/'' \<or> cu_pathAndQuery c \<noteq> ''/''
       then Inl (Url_error ''invalid_url'' ''A policy origin cannot contain a path or query.'')
       else Inr (cu_origin c))"

definition policy_path_text :: "string \<Rightarrow> bool" where
  "policy_path_text s \<longleftrightarrow>
     s \<noteq> [] \<and> s = js_trim s \<and> hd s = CHR ''/'' \<and> CHR ''?'' \<notin> set s \<and> CHR ''#'' \<notin> set s
     \<and> \<not> ambiguous_text s \<and> utf8_bytes s \<le> max_path_prefix_bytes"

text \<open>\<open>new URL\<close> may also throw here; the error is then its \<open>TypeError\<close>.\<close>

definition canonicalize_path_prefix :: "web_platform \<Rightarrow> json \<Rightarrow> url_error + string" where
  "canonicalize_path_prefix wp v =
     (case v of
        JStr s \<Rightarrow>
          (if \<not> policy_path_text s
           then Inl (Url_error ''invalid_policy_path'' ''The policy path prefix is invalid.'')
           else case wp_url_at wp s ''https://policy.paperpilot.invalid'' of
               None \<Rightarrow> Inl (Url_error ''ERR_INVALID_URL'' ''Invalid URL'')
             | Some p \<Rightarrow>
                 (if pu_search p \<noteq> [] \<or> pu_hash p \<noteq> [] \<or> pu_pathname p \<noteq> s
                  then Inl (Url_error ''invalid_policy_path'' ''The policy path prefix must already be canonical.'')
                  else if s = ''/'' then Inr s
                  else Inr (if ends_with s ''/'' then butlast s else s)))
      | _ \<Rightarrow> Inl (Url_error ''invalid_policy_path'' ''The policy path prefix is invalid.''))"

definition matches_policy :: "web_platform \<Rightarrow> canonical_url \<Rightarrow> policy_boundary \<Rightarrow> url_error + bool" where
  "matches_policy wp candidate boundary =
     and_then (canonicalize_policy_origin wp (pb_origin boundary)) (\<lambda>origin.
     and_then (canonicalize_path_prefix wp (pb_pathPrefix boundary)) (\<lambda>pathPrefix.
     Inr (if cu_origin candidate \<noteq> origin then False
          else if pathPrefix = ''/'' then True
          else cu_pathname candidate = pathPrefix
            \<or> take (length pathPrefix + 1) (cu_pathname candidate) = pathPrefix @ ''/'')))"

section \<open>What it means\<close>

definition top_label :: "string \<Rightarrow> string" where
  "top_label host = last (split_char (CHR ''.'') host)"

definition reserved_labels :: "string list" where
  "reserved_labels = map (drop 1) blocked_dns_suffixes"

lemma segments_prefix:
  "prefix (split_char d s) (split_char d t) \<longleftrightarrow> t = s \<or> (\<exists>u. t = s @ d # u)"
proof
  assume "prefix (split_char d s) (split_char d t)"
  then obtain ps where ps: "split_char d t = split_char d s @ ps" by (auto simp: prefix_def)
  have "t = join_char d (split_char d s @ ps)" by (metis ps join_split_char)
  then show "t = s \<or> (\<exists>u. t = s @ d # u)"
    by (cases "ps = []") (auto simp: join_char_append join_split_char)
qed (auto simp: split_char_at)

lemma take_prefix_iff: "take (length s + 1) t = s @ [d] \<longleftrightarrow> (\<exists>u. t = s @ d # u)"
proof
  assume "take (length s + 1) t = s @ [d]"
  then have "t = (s @ [d]) @ drop (length s + 1) t" by (metis append_take_drop_id)
  then show "\<exists>u. t = s @ d # u" by auto
qed auto

lemma ends_with_append: "ends_with (s @ t) t"
  by (simp add: ends_with_def)

lemma top_label_blocked:
  assumes "top_label host = l" "CHR ''.'' \<notin> set l"
  shows "host = l \<or> ends_with host (CHR ''.'' # l)"
proof (cases "tl (split_char (CHR ''.'') host) = []")
  case True
  then have "split_char (CHR ''.'') host = [l]"
    using assms(1) by (cases "split_char (CHR ''.'') host") (auto simp: top_label_def)
  then show ?thesis using join_split_char [of "CHR ''.''" host] by simp
next
  case False
  let ?ps = "split_char (CHR ''.'') host"
  have "?ps = butlast ?ps @ [last ?ps]" by simp
  then have "?ps = butlast ?ps @ [l]" using assms(1) by (simp add: top_label_def del: append_butlast_last_id)
  moreover have "butlast ?ps \<noteq> []" using False by (cases ?ps) auto
  ultimately have "host = join_char (CHR ''.'') (butlast ?ps) @ CHR ''.'' # l"
    using join_char_append [of "butlast ?ps" "[l]" "CHR ''.''"] join_split_char [of "CHR ''.''" host] by simp
  then show ?thesis using ends_with_append [of _ "CHR ''.'' # l"] by metis
qed

lemma public_hostname_facts:
  assumes "public_hostname wp h = Inr host"
  shows "host = map lower_char h" "wp_isIP wp host = 0" "list_all dns_label (split_char (CHR ''.'') host)"
    "2 \<le> length (split_char (CHR ''.'') host)" "length host \<le> 253" "top_label host \<notin> set reserved_labels"
proof -
  note a = assms [unfolded public_hostname_def Let_def]
  from a show b: "host = map lower_char h" "wp_isIP wp host = 0"
    "list_all dns_label (split_char (CHR ''.'') host)" "2 \<le> length (split_char (CHR ''.'') host)"
    "length host \<le> 253"
    by (auto simp: public_dns_name_def split: if_splits)
  from a b(1) have free: "\<not> list_ex (\<lambda>s. host = drop 1 s \<or> ends_with host s) blocked_dns_suffixes"
    by (auto split: if_splits)
  show "top_label host \<notin> set reserved_labels"
  proof
    assume "top_label host \<in> set reserved_labels"
    then obtain s where s: "s \<in> set blocked_dns_suffixes" "top_label host = drop 1 s"
      by (auto simp: reserved_labels_def)
    have d: "s = CHR ''.'' # drop 1 s" "CHR ''.'' \<notin> set (drop 1 s)"
      using s(1) by (auto simp: blocked_dns_suffixes_def)
    from top_label_blocked [OF s(2) d(2)] have "host = drop 1 s \<or> ends_with host s"
      unfolding d(1) [symmetric] .
    with s(1) free show False by (auto simp: list_ex_iff)
  qed
qed

end
