(* ===== verification/Web_Source_Properties.thy ===== *)
theory Web_Source_Properties
  imports Web_Source_Policy
begin

text \<open>
  The properties of the web source policy, with a source on a public host and a platform that knows
  the URLs it needs.
\<close>

section \<open>Lengths\<close>

lemma those_length: "those xs = Some ys \<Longrightarrow> length ys = length xs"
  by (induction xs arbitrary: ys) (auto split: option.splits)

lemma parse_ipv4_length: "parse_ipv4 a = Some os \<Longrightarrow> length os = 4"
  by (auto simp: parse_ipv4_def Let_def dest: those_length split: if_splits)

lemma length_group_bytes: "length (concat (map group_bytes gs)) = 2 * length gs"
  by (induction gs) (simp_all add: group_bytes_def Let_def)

lemma parse_groups_length: "parse_groups raw = Some bs \<Longrightarrow> length bs = 16"
proof -
  assume "parse_groups raw = Some bs"
  then have "\<exists>gs. length gs = 8 \<and> bs = concat (map group_bytes gs)"
    by (auto simp: parse_groups_def Let_def simp del: map_append concat_append length_append split: if_splits)
  then show ?thesis by (auto simp: length_group_bytes)
qed

lemma ipv6_bytes_length: "ipv6_bytes a = Some bs \<Longrightarrow> length bs = 16"
  by (auto simp: ipv6_bytes_def Let_def dest: parse_groups_length split: if_splits option.splits)

lemma is_public_address_networks:
  "is_public_address isIP a \<longleftrightarrow>
     (isIP a = 4 \<and> (\<exists>os. parse_ipv4 a = Some os \<and> \<not> list_ex (in_network os) special_ipv4))
     \<or> (isIP a = 6 \<and> (\<exists>bs. ipv6_bytes a = Some bs \<and> in_network bs global_ipv6
          \<and> \<not> list_ex (in_network bs) special_ipv6))"
  using public_octets_networks [OF parse_ipv4_length] public_bytes_networks [OF ipv6_bytes_length]
  by (auto simp: is_public_address_def is_public_ipv4_def is_public_ipv6_def Let_def split: option.splits)

section \<open>A source\<close>

definition sample_url :: "string \<Rightarrow> parsed_url" where
  "sample_url path = \<lparr>pu_protocol = ''https:'', pu_username = [], pu_password = [], pu_hash = [],
     pu_hostname = ''papers.org'', pu_pathname = path, pu_search = [], pu_origin = ''https://papers.org'',
     pu_href = ''https://papers.org'' @ path\<rparr>"

definition sample_platform :: web_platform where
  "sample_platform =
     \<lparr>wp_url = (\<lambda>s. if s = ''https://papers.org/'' then Some (sample_url ''/'')
                     else if s = ''https://papers.org/pdf/1'' then Some (sample_url ''/pdf/1'') else None),
      wp_url_at = (\<lambda>s base. if s = ''/pdf/'' then Some (sample_url s) else None),
      wp_set_hostname = (\<lambda>h p. p\<lparr>pu_hostname := h\<rparr>),
      wp_isIP = (\<lambda>s. if s = ''8.8.8.8'' then 4 else if s = ''2400:cb00::8.8.8.8'' then 6 else 0)\<rparr>"

definition sample_candidate :: canonical_url where
  "sample_candidate = \<lparr>cu_url = ''https://papers.org/pdf/1'', cu_origin = ''https://papers.org'',
     cu_hostname = ''papers.org'', cu_pathname = ''/pdf/1'', cu_pathAndQuery = ''/pdf/1''\<rparr>"

definition sample_boundary :: policy_boundary where
  "sample_boundary = \<lparr>pb_origin = JStr ''https://papers.org/'', pb_pathPrefix = JStr ''/pdf/''\<rparr>"

lemma sample_source:
  "canonicalize_url sample_platform (JStr ''https://papers.org/pdf/1'') = Inr sample_candidate"
  "matches_policy sample_platform sample_candidate sample_boundary = Inr True"
  by code_simp+

section \<open>Properties\<close>

text \<open>
  C8. The address check is the table of special-use networks: resolved addresses are accepted exactly
  when there is one, and each is an IPv4 address outside the fourteen special ranges, or an IPv6 address
  inside 2000::/3 and outside its six special ranges.
\<close>

theorem web_addresses_public:
  "require_public_addresses isIP as = Inr bs \<longleftrightarrow>
     bs = as \<and> as \<noteq> []
     \<and> list_all (\<lambda>a.
          (isIP a = 4 \<and> (\<exists>os. parse_ipv4 a = Some os \<and> \<not> list_ex (in_network os) special_ipv4))
          \<or> (isIP a = 6 \<and> (\<exists>bs. ipv6_bytes a = Some bs \<and> in_network bs global_ipv6
               \<and> \<not> list_ex (in_network bs) special_ipv6))) as"
  unfolding is_public_address_networks [symmetric]
  by (auto simp: require_public_addresses_def list_all_iff list_ex_iff)

text \<open>
  Written addresses are read back: an IPv6 address with its eight groups, with a run of zero groups
  left out anywhere, or with its last two groups as an IPv4 address, in letters of either case, is read
  as its sixteen bytes; the four octets of an IPv4 address are read from its dotted decimal form.
\<close>

theorem web_addresses_read:
  assumes "ipv6_text bs raw" "map lower_char written = raw" "length os = 4"
  shows "ipv6_bytes written = Some bs \<and> length bs = 16 \<and> parse_ipv4 (dotted os) = Some os"
  using ipv6_text_bytes [OF assms(1,2)] ipv6_bytes_length parse_ipv4_dotted [OF assms(3)] by auto

theorem web_addresses_read_witness:
  "ipv6_bytes ''2400:CB00::8.8.8.8'' = Some ([0x24, 0, 0xcb, 0] @ replicate 8 0 @ [8, 8, 8, 8])"
proof -
  have "ipv6_text ([0x24, 0, 0xcb, 0] @ replicate 8 0 @ [8, 8, 8, 8]) ''2400:cb00::8.8.8.8''"
  proof -
    have "groups_text [(0x24, 0), (0xcb, 0)] @ ''::'' @ dotted [8, 8, 8, 8] = ''2400:cb00::8.8.8.8''"
      by (simp add: groups_text_def group_text_def dotted_def hex_text.simps hex_char_def decimal.simps
          digit_char_def char_of_eq_iff)
    with ipv6_text.compressed_quad [of "[(0x24, 0), (0xcb, 0)]" "[]" 8 8 8 8] show ?thesis
      by (simp add: bytes_of_groups_def)
  qed
  moreover have "map lower_char ''2400:CB00::8.8.8.8'' = ''2400:cb00::8.8.8.8''" by code_simp
  ultimately show ?thesis using web_addresses_read [of _ _ _ "[8, 8, 8, 8]"] by simp
qed

text \<open>
  C7. The scope of a source: a URL that was canonicalised and matches a policy is a URL of at most
  2048 bytes over HTTPS, without credentials or fragment, on a host name that is no IP address, has at
  least two labels and no reserved top-level label; it has the origin of the policy, and its path
  extends the policy's path by whole segments.
\<close>

theorem web_policy_scope:
  assumes "canonicalize_url wp v = Inr c" "matches_policy wp c boundary = Inr True"
  shows "\<exists>s p pathPrefix. v = JStr s \<and> utf8_bytes s \<le> max_url_bytes \<and> wp_url wp s = Some p
    \<and> pu_protocol p = ''https:'' \<and> pu_username p = [] \<and> pu_password p = [] \<and> pu_hash p = []
    \<and> wp_isIP wp (cu_hostname c) = 0 \<and> 2 \<le> length (split_char (CHR ''.'') (cu_hostname c))
    \<and> top_label (cu_hostname c) \<notin> set reserved_labels
    \<and> canonicalize_policy_origin wp (pb_origin boundary) = Inr (cu_origin c)
    \<and> canonicalize_path_prefix wp (pb_pathPrefix boundary) = Inr pathPrefix
    \<and> (pathPrefix = ''/''
       \<or> prefix (split_char (CHR ''/'') pathPrefix) (split_char (CHR ''/'') (cu_pathname c)))"
proof -
  obtain s p where sp: "unambiguous_raw_url v = Inr s" "wp_url wp s = Some p" "canonical_url_of wp p = Inr c"
    using assms(1) by (auto simp: canonicalize_url_def and_then_Inr_iff split: option.splits)
  have s: "v = JStr s" "utf8_bytes s \<le> max_url_bytes"
    using sp(1) by (auto simp: unambiguous_raw_url_def split: json.splits if_splits)
  obtain h where p: "pu_protocol p = ''https:''" "pu_username p = []" "pu_password p = []" "pu_hash p = []"
    and h: "public_hostname wp (pu_hostname p) = Inr h" "cu_hostname c = h"
    using sp(3) by (auto simp: canonical_url_of_def and_then_Inr_iff throw_unless_def Let_def split: if_splits)
  obtain pathPrefix where m: "canonicalize_policy_origin wp (pb_origin boundary) = Inr (cu_origin c)"
    "canonicalize_path_prefix wp (pb_pathPrefix boundary) = Inr pathPrefix"
    "pathPrefix = ''/'' \<or> cu_pathname c = pathPrefix
      \<or> take (length pathPrefix + 1) (cu_pathname c) = pathPrefix @ ''/''"
    using assms(2) by (auto simp: matches_policy_def and_then_Inr_iff split: if_splits)
  from m(3) have "pathPrefix = ''/''
      \<or> prefix (split_char (CHR ''/'') pathPrefix) (split_char (CHR ''/'') (cu_pathname c))"
    unfolding segments_prefix take_prefix_iff by blast
  with s sp(2) p h(2) m(1,2) public_hostname_facts [OF h(1)] show ?thesis by blast
qed

theorem web_policy_scope_witness:
  "top_label ''papers.org'' \<notin> set reserved_labels
   \<and> prefix (split_char (CHR ''/'') ''/pdf'') (split_char (CHR ''/'') ''/pdf/1'')"
proof -
  have "canonicalize_path_prefix sample_platform (pb_pathPrefix sample_boundary) = Inr ''/pdf''" by code_simp
  with web_policy_scope [OF sample_source] show ?thesis by (auto simp: sample_candidate_def)
qed

end
