(* ===== verification/Base64_Url.thy ===== *)
theory Base64_Url
  imports Js_Text
begin

text \<open>
  The base64url codec of \<open>Buffer\<close> (\<open>toString("base64url")\<close>, \<open>Buffer.from(_, "base64url")\<close>), without
  padding. Three bytes are four digits of six bits; one or two bytes at the end are two or three digits.
  Decoding is only modelled on texts of the alphabet, which is what the code tests first; the bits that
  do not fill a byte at the end are dropped.
\<close>

text \<open>The digits are \<open>A-Z\<close>, \<open>a-z\<close>, \<open>0-9\<close>, \<open>-\<close> and \<open>_\<close>, in this order.\<close>

definition digit64 :: "nat \<Rightarrow> char" where
  "digit64 n =
     char_of (if n < 26 then n + 65 else if n < 52 then n + 71 else if n < 62 then n - 4
              else if n = 62 then 45 else 95)"

definition value64 :: "char \<Rightarrow> nat" where
  "value64 c =
     (let k = code c in
      if 65 \<le> k \<and> k \<le> 90 then k - 65 else if 97 \<le> k \<and> k \<le> 122 then k - 71
      else if 48 \<le> k \<and> k \<le> 57 then k + 4 else if k = 45 then 62 else 63)"

text \<open>\<open>/^[A-Za-z0-9_-]+$/\<close>\<close>

definition base64_char :: "char \<Rightarrow> bool" where
  "base64_char c \<longleftrightarrow> is_alnum c \<or> code c = 95 \<or> code c = 45"

definition base64url_pattern :: "string \<Rightarrow> bool" where
  "base64url_pattern s \<longleftrightarrow> s \<noteq> [] \<and> list_all base64_char s"

fun sextets :: "nat list \<Rightarrow> nat list" where
  "sextets (a # b # c # bs) =
     [a div 4, (a mod 4) * 16 + b div 16, (b mod 16) * 4 + c div 64, c mod 64] @ sextets bs"
| "sextets [a, b] = [a div 4, (a mod 4) * 16 + b div 16, (b mod 16) * 4]"
| "sextets [a] = [a div 4, (a mod 4) * 16]"
| "sextets [] = []"

fun octets :: "nat list \<Rightarrow> nat list" where
  "octets (w # x # y # z # ws) =
     [w * 4 + x div 16, (x mod 16) * 16 + y div 4, (y mod 4) * 64 + z] @ octets ws"
| "octets [w, x, y] = [w * 4 + x div 16, (x mod 16) * 16 + y div 4]"
| "octets [w, x] = [w * 4 + x div 16]"
| "octets [w] = []"
| "octets [] = []"

definition base64url :: "string \<Rightarrow> string" where
  "base64url s = map digit64 (sextets (map code s))"

definition base64url_bytes :: "string \<Rightarrow> string" where
  "base64url_bytes s = map char_of (octets (map value64 s))"

lemma octets_sextets: "list_all (\<lambda>b. b < 256) bs \<Longrightarrow> octets (sextets bs) = bs"
proof (induction bs rule: sextets.induct)
  case (1 a b c bs)
  then have "((a mod 4) * 16 + b div 16) div 16 = a mod 4" "((a mod 4) * 16 + b div 16) mod 16 = b div 16"
    "((b mod 16) * 4 + c div 64) div 4 = b mod 16" "((b mod 16) * 4 + c div 64) mod 4 = c div 64"
    by (auto simp: less_mult_imp_div_less mod_less)
  with 1 show ?case by simp
next
  case (2 a b)
  then have "((a mod 4) * 16 + b div 16) div 16 = a mod 4" "((a mod 4) * 16 + b div 16) mod 16 = b div 16"
    by (auto simp: less_mult_imp_div_less)
  with 2 show ?case by simp
qed auto

lemma sextets_less: "list_all (\<lambda>b. b < 256) bs \<Longrightarrow> list_all (\<lambda>w. w < 64) (sextets bs)"
proof (induction bs rule: sextets.induct)
  case (1 a b c bs)
  have "(a mod 4) * 16 + b div 16 < 64" "(b mod 16) * 4 + c div 64 < 64" "a div 4 < 64"
    using 1(2) mod_less_divisor [of 4 a] mod_less_divisor [of 16 b] by (auto simp: less_mult_imp_div_less)
  with 1 show ?case by simp
next
  case (2 a b)
  have "(a mod 4) * 16 + b div 16 < 64" "(b mod 16) * 4 < 64" "a div 4 < 64"
    using 2 mod_less_divisor [of 4 a] mod_less_divisor [of 16 b] by (auto simp: less_mult_imp_div_less)
  then show ?case by simp
next
  case (3 a)
  have "(a mod 4) * 16 < 64" "a div 4 < 64"
    using 3 mod_less_divisor [of 4 a] by (auto simp: less_mult_imp_div_less)
  then show ?case by simp
qed simp

lemma length_sextets: "length (sextets bs) = (4 * length bs + 2) div 3"
  by (induction bs rule: sextets.induct) auto

lemma length_octets: "length (octets ws) = 3 * length ws div 4"
  by (induction ws rule: octets.induct) auto

lemma code_char_of: "n < 256 \<Longrightarrow> code (char_of n) = n"
  by (simp add: code_def take_bit_nat_eq_self)

lemma value_digit64: "n < 64 \<Longrightarrow> value64 (digit64 n) = n"
  by (auto simp: digit64_def value64_def code_char_of Let_def)

lemma digit64_pattern: "n < 64 \<Longrightarrow> base64_char (digit64 n)"
  by (auto simp: digit64_def base64_char_def char_class_defs code_char_of)

lemma code_less: "code c < 256"
  by (simp add: code_def)

lemma char_of_code [simp]: "char_of (code c) = c"
  by (simp add: code_def)

lemma base64url_bytes_base64url: "base64url_bytes (base64url s) = s"
proof -
  have b: "list_all (\<lambda>b. b < 256) (map code s)" by (simp add: list_all_iff code_less)
  have "map value64 (map digit64 (sextets (map code s))) = sextets (map code s)"
    using sextets_less [OF b] by (auto simp: list_all_iff value_digit64 intro: map_idI)
  then show ?thesis by (simp add: base64url_def base64url_bytes_def octets_sextets [OF b] map_idI)
qed

lemma base64url_chars: "list_all base64_char (base64url s)"
proof -
  have "list_all (\<lambda>b. b < 256) (map code s)" by (simp add: list_all_iff code_less)
  from sextets_less [OF this] show ?thesis by (simp add: base64url_def list_all_iff digit64_pattern)
qed

lemma base64url_empty [simp]: "base64url s = [] \<longleftrightarrow> s = []"
  unfolding base64url_def by (cases "map code s" rule: sextets.cases) auto

lemma base64url_pattern_base64url: "s \<noteq> [] \<Longrightarrow> base64url_pattern (base64url s)"
  by (simp add: base64url_pattern_def base64url_chars)

lemma length_base64url: "length (base64url s) = (4 * length s + 2) div 3"
  by (simp add: base64url_def length_sextets)

end
