(* ===== verification/Json_Text.thy ===== *)
theory Json_Text
  imports Contract_Values Split_Text
begin

text \<open>
  \<open>JSON.stringify\<close> on values, as the UTF-8 bytes of its result, and how long that result can get. A
  string is the list of its UTF-8 bytes; a lone surrogate, three bytes here, is written as an escape, as
  the language does since its well-formed \<open>JSON.stringify\<close>.
\<close>

definition hex_nibble :: "nat \<Rightarrow> char" where
  "hex_nibble n = ''0123456789abcdef'' ! (n mod 16)"

definition hex_escape :: "nat \<Rightarrow> string" where
  "hex_escape n = [CHR 0x5C, CHR ''u'', hex_nibble (n div 4096), hex_nibble (n div 256), hex_nibble (n div 16),
     hex_nibble n]"

definition escaped_char :: "char \<Rightarrow> string" where
  "escaped_char c =
     (if code c = 34 then [CHR 0x5C, CHR 0x22] else if code c = 92 then [CHR 0x5C, CHR 0x5C]
      else if code c = 8 then [CHR 0x5C, CHR ''b''] else if code c = 9 then [CHR 0x5C, CHR ''t'']
      else if code c = 10 then [CHR 0x5C, CHR ''n''] else if code c = 12 then [CHR 0x5C, CHR ''f'']
      else if code c = 13 then [CHR 0x5C, CHR ''r''] else if code c < 32 then hex_escape (code c)
      else [c])"

definition surrogate_bytes :: "char \<Rightarrow> char \<Rightarrow> char \<Rightarrow> bool" where
  "surrogate_bytes a b c \<longleftrightarrow> code a = 237 \<and> 160 \<le> code b \<and> code b < 192 \<and> 128 \<le> code c \<and> code c < 192"

fun json_chars :: "string \<Rightarrow> string" where
  "json_chars (a # b # c # s) =
     (if surrogate_bytes a b c
      then hex_escape (53248 + 64 * (code b - 128) + (code c - 128)) @ json_chars s
      else escaped_char a @ json_chars (b # c # s))"
| "json_chars (a # s) = escaped_char a @ json_chars s"
| "json_chars [] = []"

definition json_string :: "string \<Rightarrow> string" where
  "json_string s = [CHR 0x22] @ json_chars s @ [CHR 0x22]"

fun jnum_text :: "jnum \<Rightarrow> string" where
  "jnum_text (NInt i) = (if i < 0 then ''-'' @ decimal (nat (- i)) else decimal (nat i))"
| "jnum_text (NFrac s) = s"

lemma json_member_size [termination_simp]: "(k, v) \<in> set fs \<Longrightarrow> size v < Suc (size_list (size_prod (\<lambda>_. 0) size) fs)"
  by (induction fs) auto

fun stringify :: "json \<Rightarrow> string" where
  "stringify JNull = ''null''"
| "stringify (JBool b) = (if b then ''true'' else ''false'')"
| "stringify (JNum n) = jnum_text n"
| "stringify (JStr s) = json_string s"
| "stringify (JArr xs) = ''['' @ join_char (CHR '','') (map stringify xs) @ '']''"
| "stringify (JObj fs) = ''{'' @ join_char (CHR '','') (map (\<lambda>(k, v). json_string k @ '':'' @ stringify v) fs) @ ''}''"

section \<open>Texts without escapes\<close>

definition plain_char :: "char \<Rightarrow> bool" where
  "plain_char c \<longleftrightarrow> 32 \<le> code c \<and> code c < 128 \<and> code c \<noteq> 34 \<and> code c \<noteq> 92"

lemma escaped_plain: "plain_char c \<Longrightarrow> escaped_char c = [c]"
  by (simp add: plain_char_def escaped_char_def)

lemma plain_no_surrogate: "plain_char a \<Longrightarrow> \<not> surrogate_bytes a b c"
  by (simp add: surrogate_bytes_def plain_char_def)

lemma json_chars_plain: "list_all plain_char s \<Longrightarrow> json_chars s = s"
  by (induction s rule: json_chars.induct) (simp_all add: escaped_plain plain_no_surrogate)

section \<open>Lengths\<close>

lemma length_escaped_char: "length (escaped_char c) \<le> 6"
  by (simp add: escaped_char_def hex_escape_def)

lemma length_json_chars: "length (json_chars s) \<le> 6 * length s"
proof (induction s rule: json_chars.induct)
  case (1 a b c s)
  then show ?case
    using length_escaped_char [of a] by (cases "surrogate_bytes a b c") (simp_all add: hex_escape_def)
qed (use length_escaped_char in \<open>simp_all add: trans_le_add1 add_le_mono [of _ 6 _ 6, simplified]\<close>)

lemma length_json_string: "length (json_string s) \<le> 6 * length s + 2"
  using length_json_chars [of s] by (simp add: json_string_def)

lemma length_join_char: "length (join_char d ps) = sum_list (map length ps) + (length ps - 1)"
  by (induction d ps rule: join_char.induct) auto

text \<open>An upper bound that computes: six bytes for every byte of a string.\<close>

fun json_weight :: "json \<Rightarrow> nat" where
  "json_weight JNull = 4"
| "json_weight (JBool b) = 5"
| "json_weight (JNum n) = length (jnum_text n)"
| "json_weight (JStr s) = 6 * length s + 2"
| "json_weight (JArr xs) = 2 + sum_list (map (\<lambda>x. 1 + json_weight x) xs)"
| "json_weight (JObj fs) = 2 + sum_list (map (\<lambda>(k, v). 4 + 6 * length k + json_weight v) fs)"

lemma length_join_bound: "length (join_char d ps) \<le> sum_list (map (\<lambda>p. 1 + length p) ps)"
  by (induction d ps rule: join_char.induct) auto

lemma sum_list_le: "(\<And>x. x \<in> set xs \<Longrightarrow> f x \<le> (g x :: nat)) \<Longrightarrow> sum_list (map f xs) \<le> sum_list (map g xs)"
  by (induction xs) (auto intro: add_mono)

lemma length_stringify: "length (stringify j) \<le> json_weight j"
proof (induction j rule: stringify.induct)
  case (4 s)
  then show ?case using length_json_string [of s] by simp
next
  case (5 xs)
  have "length (join_char (CHR '','') (map stringify xs)) \<le> sum_list (map (\<lambda>x. 1 + length (stringify x)) xs)"
    using length_join_bound [of "CHR '',''" "map stringify xs"] by (simp add: comp_def)
  also have "\<dots> \<le> sum_list (map (\<lambda>x. 1 + json_weight x) xs)" using 5 by (intro sum_list_le) simp
  finally show ?case by simp
next
  case (6 fs)
  let ?m = "\<lambda>(k, v). json_string k @ '':'' @ stringify v"
  have "length (join_char (CHR '','') (map ?m fs)) \<le> sum_list (map (\<lambda>p. 1 + length (?m p)) fs)"
    using length_join_bound [of "CHR '',''" "map ?m fs"] by (simp add: comp_def)
  also have "\<dots> \<le> sum_list (map (\<lambda>(k, v). 4 + 6 * length k + json_weight v) fs)"
  proof (rule sum_list_le)
    fix p assume p: "p \<in> set fs"
    obtain k v where kv: "p = (k, v)" by (cases p)
    have "length (stringify v) \<le> json_weight v" using 6 p kv by auto
    then show "1 + length (?m p) \<le> (case p of (k, v) \<Rightarrow> 4 + 6 * length k + json_weight v)"
      using length_json_string [of k] by (simp add: kv)
  qed
  finally show ?case by simp
qed auto

end
