(* ===== verification/Reader_Cursor.thy ===== *)
theory Reader_Cursor
  imports Extraction_Authority Base64_Url Json_Text
begin

text \<open>
  The continuation cursors of the reader (\<open>src/server/documents/reader-cursor.ts\<close>): a cursor names an
  extraction and the sequence number of the next chunk, and is signed for one user, workspace and paper.
  HMAC-SHA-256 is the argument \<open>hmac\<close> (key, message), and \<open>parse\<close> stands for the fatal UTF-8 decoder
  followed by \<open>JSON.parse\<close>: None where either throws.
\<close>

section \<open>Errors and data\<close>

text \<open>
  The reader's problems: 400 for the query and the cursor, 404 and 409; a \<open>TypeError\<close>; any other error.
\<close>

datatype reader_error =
  Query_invalid | Paper_not_found | Cursor_stale | Reader_type_error string | Reader_failed string

record reader_subject =
  rs_userId :: ident
  rs_workspaceId :: ident
  rs_paperId :: ident

record reader_claims =
  rc_generationId :: ident
  rc_nextSequence :: jnum

definition max_reader_cursor_bytes :: int where "max_reader_cursor_bytes = 512"
definition min_cursor_secret_bytes :: int where "min_cursor_secret_bytes = 32"
definition max_cursor_secret_bytes :: int where "max_cursor_secret_bytes = 4096"
definition cursor_prefix :: string where "cursor_prefix = ''r1''"
definition cursor_hmac_domain :: string where "cursor_hmac_domain = ''paperpilot.reader.cursor.r1''"

definition valid_next_sequence :: "jnum \<Rightarrow> bool" where
  "valid_next_sequence n \<longleftrightarrow> bounded_integer 1 (max_extracted_chunk_count - 1) n"

definition valid_subject :: "reader_subject \<Rightarrow> bool" where
  "valid_subject s \<longleftrightarrow>
     valid_opaque_id (rs_userId s) \<and> valid_opaque_id (rs_workspaceId s) \<and> valid_opaque_id (rs_paperId s)"

definition valid_claims :: "reader_claims \<Rightarrow> bool" where
  "valid_claims c \<longleftrightarrow> valid_opaque_id (rc_generationId c) \<and> valid_next_sequence (rc_nextSequence c)"

text \<open>The secret of a codec, given as text: \<open>encodeURIComponent\<close> throws on a lone surrogate.\<close>

fun lone_surrogate :: "string \<Rightarrow> bool" where
  "lone_surrogate (a # b # c # s) \<longleftrightarrow> surrogate_bytes a b c \<or> lone_surrogate (b # c # s)"
| "lone_surrogate _ \<longleftrightarrow> False"

definition cursor_secret_bytes :: "string \<Rightarrow> reader_error + string" where
  "cursor_secret_bytes secret =
     (if lone_surrogate secret then Inl (Reader_type_error ''The Reader cursor secret is invalid.'')
      else if utf8_bytes secret < min_cursor_secret_bytes \<or> max_cursor_secret_bytes < utf8_bytes secret
      then Inl (Reader_type_error
        ''The Reader cursor secret must contain between 32 and 4096 bytes.'')
      else Inr secret)"

section \<open>Encoding\<close>

definition claims_json :: "reader_claims \<Rightarrow> json" where
  "claims_json c =
     JObj [(''g'', JStr (rc_generationId c)), (''s'', JNum (rc_nextSequence c)), (''v'', jint 1)]"

definition encode_payload :: "reader_claims \<Rightarrow> string" where
  "encode_payload c = base64url (stringify (claims_json c))"

definition decode_canonical_base64url :: "string \<Rightarrow> reader_error + string" where
  "decode_canonical_base64url s =
     (if base64url_pattern s \<and> base64url (base64url_bytes s) = s then Inr (base64url_bytes s)
      else Inl Query_invalid)"

fun claimed_sequence :: "json option \<Rightarrow> jnum option" where
  "claimed_sequence (Some (JNum n)) = (if valid_next_sequence n then Some n else None)"
| "claimed_sequence _ = None"

text \<open>
  The keys joined by NUL are \<open>g\<close>, \<open>s\<close> and \<open>v\<close> joined, and each of the three is present: these are the keys.
\<close>

definition parse_payload :: "(string \<Rightarrow> json option) \<Rightarrow> string \<Rightarrow> string \<Rightarrow> reader_error + reader_claims" where
  "parse_payload parse encoded bytes =
     (case Option.bind (parse bytes) json_object of
        None \<Rightarrow> Inl Query_invalid
      | Some claims \<Rightarrow>
          if exact_keys claims [''g'', ''s'', ''v''] \<and> field claims ''v'' = Some (jint 1)
          then (case (str_field valid_opaque_id (field claims ''g''), claimed_sequence (field claims ''s'')) of
                  (Some g, Some n) \<Rightarrow>
                    let canonical = \<lparr>rc_generationId = g, rc_nextSequence = n\<rparr>
                    in if encode_payload canonical = encoded then Inr canonical else Inl Query_invalid
                | _ \<Rightarrow> Inl Query_invalid)
          else Inl Query_invalid)"

definition authenticated_value :: "string \<Rightarrow> reader_subject \<Rightarrow> string" where
  "authenticated_value tokenWithoutSignature s =
     join_char (CHR 0x00)
       [cursor_hmac_domain, rs_userId s, rs_workspaceId s, rs_paperId s, tokenWithoutSignature]"

definition token_without_signature :: "string \<Rightarrow> string" where
  "token_without_signature payload = cursor_prefix @ ''.'' @ payload"

definition signature_of :: "(string \<Rightarrow> string \<Rightarrow> string) \<Rightarrow> string \<Rightarrow> string \<Rightarrow> reader_subject \<Rightarrow> string" where
  "signature_of hmac secret payload s = hmac secret (authenticated_value (token_without_signature payload) s)"

section \<open>The codec\<close>

definition issue_cursor ::
    "(string \<Rightarrow> string \<Rightarrow> string) \<Rightarrow> string \<Rightarrow> reader_subject \<Rightarrow> reader_claims \<Rightarrow> reader_error + string" where
  "issue_cursor hmac secret s c =
     (if \<not> valid_subject s then Inl (Reader_type_error ''The Reader cursor subject is invalid.'')
      else if \<not> valid_claims c then Inl (Reader_type_error ''The Reader cursor claims are invalid.'')
      else
        let payload = encode_payload c;
            token = token_without_signature payload @ ''.'' @ base64url (signature_of hmac secret payload s)
        in if max_reader_cursor_bytes < utf8_bytes token
           then Inl (Reader_type_error ''The Reader cursor claims exceed the encoded limit.'')
           else Inr token)"

text \<open>\<open>timingSafeEqual\<close> compares two digests of 32 bytes.\<close>

definition verify_cursor ::
    "(string \<Rightarrow> string \<Rightarrow> string) \<Rightarrow> (string \<Rightarrow> json option) \<Rightarrow> string \<Rightarrow> string \<Rightarrow> reader_subject
      \<Rightarrow> reader_error + reader_claims" where
  "verify_cursor hmac parse secret token s =
     (if token = [] \<or> max_reader_cursor_bytes < utf8_bytes token \<or> \<not> valid_subject s then Inl Query_invalid
      else case split_char (CHR ''.'') token of
          [prefix, part, mac] \<Rightarrow>
            (if prefix \<noteq> cursor_prefix then Inl Query_invalid
             else and_then (decode_canonical_base64url part) (\<lambda>payload.
                  and_then (decode_canonical_base64url mac) (\<lambda>signature.
                  if length signature \<noteq> 32 then Inl Query_invalid
                  else if signature \<noteq> signature_of hmac secret part s then Inl Query_invalid
                  else parse_payload parse part payload)))
        | _ \<Rightarrow> Inl Query_invalid)"

section \<open>What the codec guarantees\<close>

text \<open>The two laws of the platform: HMAC-SHA-256 has 32 bytes, and a payload written is read back.\<close>

definition hmac_law :: "(string \<Rightarrow> string \<Rightarrow> string) \<Rightarrow> bool" where
  "hmac_law hmac \<longleftrightarrow> (\<forall>key message. length (hmac key message) = 32)"

definition parse_law :: "(string \<Rightarrow> json option) \<Rightarrow> bool" where
  "parse_law parse \<longleftrightarrow> (\<forall>c. valid_claims c \<longrightarrow> parse (stringify (claims_json c)) = Some (claims_json c))"

lemma opaque_id_chars: "valid_opaque_id s \<Longrightarrow> list_all (\<lambda>c. is_alnum c \<or> one_of ''._:-'' c) s \<and> s \<noteq> []"
  by (cases s) (auto simp: valid_opaque_id_def opaque_id_pattern_def)

lemma opaque_char_plain: "is_alnum c \<or> one_of ''._:-'' c \<Longrightarrow> plain_char c \<and> code c \<noteq> 0"
  by (auto simp: plain_char_def char_class_defs)

lemma opaque_id_json: "valid_opaque_id s \<Longrightarrow> json_string s = [CHR 0x22] @ s @ [CHR 0x22]"
  using opaque_id_chars [of s] opaque_char_plain
  by (auto simp: json_string_def list_all_iff intro!: json_chars_plain)

lemma opaque_id_length: "valid_opaque_id s \<Longrightarrow> length s \<le> 200"
  by (simp add: valid_opaque_id_def utf8_bytes_def)

lemma next_sequence_text:
  assumes "valid_next_sequence n"
  shows "length (jnum_text n) \<le> 4"
proof -
  from assms obtain i where i: "n = NInt i" "1 \<le> i" "i \<le> 4095"
    by (auto simp: valid_next_sequence_def max_extracted_chunk_count_def elim: bounded_integerE)
  then have "length (decimal (nat i)) \<le> 4" by (intro length_decimal) auto
  with i show ?thesis by simp
qed

lemma claims_text_length:
  assumes "valid_claims c"
  shows "length (stringify (claims_json c)) \<le> 230" "stringify (claims_json c) \<noteq> []"
proof -
  have g: "length (json_string (rc_generationId c)) \<le> 202"
    using assms opaque_id_json [of "rc_generationId c"] opaque_id_length [of "rc_generationId c"]
    by (simp add: valid_claims_def)
  moreover have "length (jnum_text (rc_nextSequence c)) \<le> 4"
    using assms next_sequence_text by (simp add: valid_claims_def)
  ultimately show "length (stringify (claims_json c)) \<le> 230"
    using length_json_string [of "''g''"] length_json_string [of "''s''"] length_json_string [of "''v''"]
    by (simp add: claims_json_def json_string_def escaped_plain plain_char_def code_def decimal.simps)
  show "stringify (claims_json c) \<noteq> []" by (simp add: claims_json_def)
qed

text \<open>A valid request never hits the size limit of a token.\<close>

lemma issue_cursor_Inr_iff:
  assumes law: "hmac_law hmac"
  shows "issue_cursor hmac secret s c = Inr token \<longleftrightarrow>
    valid_subject s \<and> valid_claims c
    \<and> token = token_without_signature (encode_payload c) @ ''.''
        @ base64url (signature_of hmac secret (encode_payload c) s)"
proof -
  have "utf8_bytes (token_without_signature (encode_payload c) @ ''.''
      @ base64url (signature_of hmac secret (encode_payload c) s)) \<le> max_reader_cursor_bytes"
    if "valid_claims c"
  proof -
    have "length (signature_of hmac secret (encode_payload c) s) = 32"
      using law by (simp add: hmac_law_def signature_of_def)
    then have "length (base64url (signature_of hmac secret (encode_payload c) s)) \<le> 43"
      using length_base64url [of "signature_of hmac secret (encode_payload c) s"] by simp
    moreover have "length (encode_payload c) \<le> 307"
      using length_base64url [of "stringify (claims_json c)"] claims_text_length(1) [OF that]
      by (simp add: encode_payload_def)
    ultimately show ?thesis
      by (simp add: utf8_bytes_def max_reader_cursor_bytes_def token_without_signature_def cursor_prefix_def)
  qed
  then show ?thesis by (auto simp: issue_cursor_def Let_def)
qed

lemma base64_no_dot: "list_all base64_char s \<Longrightarrow> CHR ''.'' \<notin> set s"
  by (auto simp: list_all_iff base64_char_def char_class_defs)

lemma decode_encoded: "s \<noteq> [] \<Longrightarrow> decode_canonical_base64url (base64url s) = Inr s"
  by (simp add: decode_canonical_base64url_def base64url_pattern_base64url base64url_bytes_base64url)

lemma decode_canonical_Inr_iff:
  "decode_canonical_base64url s = Inr bytes \<longleftrightarrow> s = base64url bytes \<and> base64url_pattern s"
  by (auto simp: decode_canonical_base64url_def base64url_bytes_base64url split: if_splits)

lemma claimed_sequence_Some_iff: "claimed_sequence f = Some n \<longleftrightarrow> f = Some (JNum n) \<and> valid_next_sequence n"
  by (cases f rule: claimed_sequence.cases) auto

lemma parse_payload_Inr:
  assumes "parse_payload parse encoded bytes = Inr c"
  shows "valid_claims c \<and> encode_payload c = encoded"
  using assms
  by (auto simp: parse_payload_def Let_def valid_claims_def str_field_Some_iff claimed_sequence_Some_iff
      split: option.splits if_splits)

lemma parse_payload_written:
  assumes "parse_law parse" "valid_claims c"
  shows "parse_payload parse (encode_payload c) (stringify (claims_json c)) = Inr c"
proof -
  have "parse (stringify (claims_json c)) = Some (claims_json c)"
    using assms by (simp add: parse_law_def)
  then show ?thesis
    using assms(2)
    by (cases c) (simp add: parse_payload_def claims_json_def exact_keys_def obj_keys_def field_def Let_def valid_claims_def)
qed

lemma cursor_verifies:
  assumes law: "hmac_law hmac" and read: "parse_law parse"
  shows "verify_cursor hmac parse secret token s = Inr c \<longleftrightarrow> issue_cursor hmac secret s c = Inr token"
proof
  assume "verify_cursor hmac parse secret token s = Inr c"
  then obtain part mac payload signature where
    ok: "valid_subject s" and parts: "split_char (CHR ''.'') token = [cursor_prefix, part, mac]"
    and mac: "decode_canonical_base64url mac = Inr signature" "signature = signature_of hmac secret part s"
    and claims: "parse_payload parse part payload = Inr c"
    by (auto simp: verify_cursor_def and_then_Inr_iff split: if_splits list.splits)
  from parts have "token = join_char (CHR ''.'') [cursor_prefix, part, mac]"
    by (metis join_split_char)
  moreover have "mac = base64url signature" using mac(1) by (auto simp: decode_canonical_Inr_iff)
  ultimately show "issue_cursor hmac secret s c = Inr token"
    using ok mac(2) parse_payload_Inr [OF claims]
    by (simp add: issue_cursor_Inr_iff [OF law] token_without_signature_def)
next
  assume issued: "issue_cursor hmac secret s c = Inr token"
  let ?part = "encode_payload c" let ?mac = "signature_of hmac secret ?part s"
  from issued have ok: "valid_subject s" "valid_claims c"
    and token: "token = cursor_prefix @ ''.'' @ ?part @ ''.'' @ base64url ?mac"
    by (simp_all add: issue_cursor_Inr_iff [OF law] token_without_signature_def)
  have size: "utf8_bytes token \<le> max_reader_cursor_bytes"
    using issued by (auto simp: issue_cursor_def Let_def split: if_splits)
  have "split_char (CHR ''.'') token = [cursor_prefix, ?part, base64url ?mac]"
    unfolding token
    by (simp add: split_char_append split_char_plain base64_no_dot base64url_chars encode_payload_def
        cursor_prefix_def)
  moreover have len: "length ?mac = 32" using law by (simp add: hmac_law_def signature_of_def)
  moreover have "decode_canonical_base64url (base64url ?mac) = Inr ?mac"
    using len by (intro decode_encoded) auto
  moreover have "decode_canonical_base64url ?part = Inr (stringify (claims_json c))"
    unfolding encode_payload_def by (rule decode_encoded [OF claims_text_length(2) [OF ok(2)]])
  ultimately show "verify_cursor hmac parse secret token s = Inr c"
    using ok size token parse_payload_written [OF read ok(2)] by (simp add: verify_cursor_def)
qed

section \<open>A cursor is bound to its subject\<close>

lemma authenticated_value_inject:
  assumes "valid_subject s" "valid_subject s'"
    and "authenticated_value (token_without_signature (encode_payload c)) s
       = authenticated_value (token_without_signature (encode_payload c')) s'"
  shows "s = s'" and "encode_payload c = encode_payload c'"
proof -
  have ids: "CHR 0x00 \<notin> set i" if "valid_opaque_id i" for i
  proof
    assume "CHR 0x00 \<in> set i"
    then have "code (CHR 0x00) \<noteq> 0"
      using opaque_id_chars [OF that] opaque_char_plain [of "CHR 0x00"] by (auto simp: list_all_iff)
    then show False by (simp add: code_def)
  qed
  have tok: "CHR 0x00 \<notin> set (token_without_signature (encode_payload c))" for c
    using base64url_chars [of "stringify (claims_json c)"]
    by (auto simp: token_without_signature_def cursor_prefix_def encode_payload_def list_all_iff base64_char_def
        char_class_defs)
  have "split_char (CHR 0x00) (authenticated_value (token_without_signature (encode_payload c)) s)
      = [cursor_hmac_domain, rs_userId s, rs_workspaceId s, rs_paperId s, token_without_signature (encode_payload c)]"
    if "valid_subject s" for s c
    unfolding authenticated_value_def
    by (rule split_char_join) (use that ids tok in \<open>auto simp: valid_subject_def cursor_hmac_domain_def\<close>)
  with assms have "[cursor_hmac_domain, rs_userId s, rs_workspaceId s, rs_paperId s, token_without_signature (encode_payload c)]
    = [cursor_hmac_domain, rs_userId s', rs_workspaceId s', rs_paperId s', token_without_signature (encode_payload c')]"
    by metis
  then show "s = s'" "encode_payload c = encode_payload c'"
    by (auto simp: token_without_signature_def)
qed

lemma encode_payload_inject:
  assumes "parse_law parse" "valid_claims c" "valid_claims c'" "encode_payload c = encode_payload c'"
  shows "c = c'"
proof -
  have "stringify (claims_json c) = stringify (claims_json c')"
    using assms(4) unfolding encode_payload_def by (metis base64url_bytes_base64url)
  with assms have "parse_payload parse (encode_payload c) (stringify (claims_json c)) = Inr c'"
    using parse_payload_written [of parse c'] by simp
  with parse_payload_written [OF assms(1,2)] show ?thesis by simp
qed

lemma cursor_collision:
  assumes law: "hmac_law hmac" and read: "parse_law parse" and issued: "issue_cursor hmac key s c = Inr token"
    and verified: "verify_cursor hmac parse key token s' = Inr c'" and other: "s' \<noteq> s"
  shows "c' = c \<and> valid_subject s' \<and> (\<exists>part.
      token = part @ ''.'' @ base64url (hmac key (authenticated_value part s))
    \<and> authenticated_value part s' \<noteq> authenticated_value part s
    \<and> hmac key (authenticated_value part s') = hmac key (authenticated_value part s))"
proof -
  let ?p = "\<lambda>c. token_without_signature (encode_payload c)"
  from verified have "issue_cursor hmac key s' c' = Inr token" by (simp add: cursor_verifies [OF law read])
  with issued have s: "valid_subject s" "valid_subject s'" and c: "valid_claims c" "valid_claims c'"
    and token: "token = ?p c @ ''.'' @ base64url (hmac key (authenticated_value (?p c) s))"
    and eq: "?p c @ ''.'' @ base64url (hmac key (authenticated_value (?p c) s))
      = ?p c' @ ''.'' @ base64url (hmac key (authenticated_value (?p c') s'))"
    by (simp_all add: issue_cursor_Inr_iff [OF law] signature_of_def)
  have "length (hmac key m) = 32" for m using law by (simp add: hmac_law_def)
  then have "length (base64url (hmac key (authenticated_value (?p c) s)))
      = length (base64url (hmac key (authenticated_value (?p c') s')))"
    by (simp add: length_base64url)
  moreover have "a = a' \<and> b = b'" if "a @ ''.'' @ b = a' @ ''.'' @ b'" "length b = length b'" for a a' b b' :: string
    using that by simp
  ultimately have p: "?p c = ?p c'"
    and "base64url (hmac key (authenticated_value (?p c) s)) = base64url (hmac key (authenticated_value (?p c') s'))"
    using eq by blast+
  then have "hmac key (authenticated_value (?p c) s) = hmac key (authenticated_value (?p c') s')"
    by (metis base64url_bytes_base64url)
  moreover have "c' = c"
    using encode_payload_inject [OF read c] p by (simp add: token_without_signature_def)
  moreover have "authenticated_value (?p c) s \<noteq> authenticated_value (?p c) s'"
    using authenticated_value_inject(1) [OF s] other by blast
  ultimately show ?thesis using s(2) token by (intro conjI exI [of _ "?p c"]) simp_all
qed

end
