(* ===== verification/Reader_Service.thy ===== *)
theory Reader_Service
  imports Reader_Cursor
begin

text \<open>
  The reader of a workspace paper (\<open>src/server/documents/reader-service.ts\<close>): the page query, the rows one
  transaction reads and what they resolve to, and the page cut to the response limit. The Prisma queries
  are outside the model; their answers are the record \<open>reader_rows\<close>.
\<close>

definition default_reader_page_limit :: int where "default_reader_page_limit = 50"
definition max_reader_page_limit :: int where "max_reader_page_limit = 100"
definition max_reader_serialized_bytes :: int where "max_reader_serialized_bytes = 800 * 1024"

section \<open>What the reader answers\<close>

record document_metadata =
  dm_id :: ident
  dm_workspacePaperId :: ident
  dm_paperId :: ident
  dm_assetId :: ident
  dm_inputSha256 :: string
  dm_inputSizeBytes :: string
  dm_pageCount :: jnum
  dm_validationAttestationId :: ident
  dm_validationPolicyVersion :: string
  dm_validatedAt :: string

record generation_metadata =
  gm_id :: ident
  gm_validationAttestationId :: ident
  gm_manifestSha256 :: string
  gm_admittedAt :: string
  gm_policyVersion :: string
  gm_toolchainDigest :: string
  gm_engineVersion :: string
  gm_verdict :: extraction_verdict
  gm_pageCount :: jnum
  gm_chunkCount :: jnum
  gm_textBytes :: jnum
  gm_extractedAt :: string
  gm_completedAt :: string
  gm_checkedAt :: string

text \<open>A chunk as it is served; its locator repeats the page and the paragraph.\<close>

record reader_chunk =
  rk_id :: ident
  rk_sequence :: jnum
  rk_contentHash :: string
  rk_pageNumber :: jnum
  rk_paragraphId :: string
  rk_text :: string

datatype reader_page =
  Reader_unavailable
| Reader_processing document_metadata string
| Reader_no_text document_metadata generation_metadata
| Reader_ready document_metadata generation_metadata "reader_chunk list" "string option"

definition document_metadata_json :: "document_metadata \<Rightarrow> json" where
  "document_metadata_json x =
     JObj [(''id'', JStr (dm_id x)), (''workspacePaperId'', JStr (dm_workspacePaperId x)),
       (''paperId'', JStr (dm_paperId x)), (''assetId'', JStr (dm_assetId x)),
       (''inputSha256'', JStr (dm_inputSha256 x)), (''inputSizeBytes'', JStr (dm_inputSizeBytes x)),
       (''pageCount'', JNum (dm_pageCount x)),
       (''validationAttestationId'', JStr (dm_validationAttestationId x)),
       (''validationPolicyVersion'', JStr (dm_validationPolicyVersion x)),
       (''validatedAt'', JStr (dm_validatedAt x))]"

definition generation_metadata_json :: "generation_metadata \<Rightarrow> json" where
  "generation_metadata_json g =
     JObj [(''id'', JStr (gm_id g)), (''validationAttestationId'', JStr (gm_validationAttestationId g)),
       (''manifestSchemaVersion'', jint 1), (''manifestSha256'', JStr (gm_manifestSha256 g)),
       (''admittedAt'', JStr (gm_admittedAt g)), (''policyVersion'', JStr (gm_policyVersion g)),
       (''toolchainDigest'', JStr (gm_toolchainDigest g)), (''engine'', JStr ''poppler''),
       (''engineVersion'', JStr (gm_engineVersion g)),
       (''verdict'', JStr (extraction_verdict_name (gm_verdict g))),
       (''pageCount'', JNum (gm_pageCount g)), (''chunkCount'', JNum (gm_chunkCount g)),
       (''textBytes'', JNum (gm_textBytes g)), (''extractedAt'', JStr (gm_extractedAt g)),
       (''completedAt'', JStr (gm_completedAt g)), (''checkedAt'', JStr (gm_checkedAt g))]"

definition reader_chunk_json :: "reader_chunk \<Rightarrow> json" where
  "reader_chunk_json c =
     JObj [(''id'', JStr (rk_id c)), (''sequence'', JNum (rk_sequence c)),
       (''contentHash'', JStr (rk_contentHash c)), (''pageNumber'', JNum (rk_pageNumber c)),
       (''paragraphId'', JStr (rk_paragraphId c)), (''text'', JStr (rk_text c)),
       (''locator'', JObj [(''schemaVersion'', jint 1), (''kind'', JStr ''pdf-text''),
          (''pageNumber'', JNum (rk_pageNumber c)), (''paragraphId'', JStr (rk_paragraphId c))])]"

fun reader_page_json :: "reader_page \<Rightarrow> json" where
  "reader_page_json Reader_unavailable = JObj [(''schemaVersion'', jint 1), (''state'', JStr ''unavailable'')]"
| "reader_page_json (Reader_processing x policyVersion) =
     JObj [(''schemaVersion'', jint 1), (''state'', JStr ''processing''),
       (''document'', document_metadata_json x), (''extractionPolicyVersion'', JStr policyVersion)]"
| "reader_page_json (Reader_no_text x g) =
     JObj [(''schemaVersion'', jint 1), (''state'', JStr ''no-text''),
       (''document'', document_metadata_json x), (''generation'', generation_metadata_json g)]"
| "reader_page_json (Reader_ready x g cs nextCursor) =
     JObj [(''schemaVersion'', jint 1), (''state'', JStr ''ready''),
       (''document'', document_metadata_json x), (''generation'', generation_metadata_json g),
       (''chunks'', JArr (map reader_chunk_json cs)),
       (''nextCursor'', case nextCursor of None \<Rightarrow> JNull | Some t \<Rightarrow> JStr t)]"

definition serialized_bytes :: "reader_page \<Rightarrow> int" where
  "serialized_bytes p = utf8_bytes (stringify (reader_page_json p))"

section \<open>The query\<close>

text \<open>\<open>/^r1\.[A-Za-z0-9_-]+\.[A-Za-z0-9_-]{43}$/\<close> and \<open>/^[1-9]\d*$/\<close>\<close>

definition reader_cursor_pattern :: "string \<Rightarrow> bool" where
  "reader_cursor_pattern s \<longleftrightarrow>
     (case split_char (CHR ''.'') s of
        [prefix, part, mac] \<Rightarrow> prefix = ''r1'' \<and> base64url_pattern part \<and> length mac = 43 \<and> list_all base64_char mac
      | _ \<Rightarrow> False)"

record page_query =
  pq_cursor :: "string option"
  pq_limit :: int

definition all_values :: "string \<Rightarrow> (string \<times> string) list \<Rightarrow> string list" where
  "all_values k params = map snd (filter (\<lambda>p. fst p = k) params)"

text \<open>The search parameters are their entries in order; \<open>get\<close> answers with the first value.\<close>

definition parse_reader_page_query :: "(string \<times> string) list \<Rightarrow> reader_error + page_query" where
  "parse_reader_page_query params =
     (let rawCursor = map_of params ''cursor''; rawLimit = map_of params ''limit'' in
      if list_ex (\<lambda>p. fst p \<noteq> ''cursor'' \<and> fst p \<noteq> ''limit'') params
         \<or> 1 < length (all_values ''cursor'' params) \<or> 1 < length (all_values ''limit'' params)
      then Inl Query_invalid
      else if (case rawCursor of
                 None \<Rightarrow> False
               | Some c \<Rightarrow> max_reader_cursor_bytes < utf8_bytes c \<or> \<not> reader_cursor_pattern c)
      then Inl Query_invalid
      else if (case rawLimit of None \<Rightarrow> False | Some l \<Rightarrow> \<not> positive_decimal l) then Inl Query_invalid
      else
        let limit = (case rawLimit of None \<Rightarrow> default_reader_page_limit | Some l \<Rightarrow> digits_val l)
        in if 1 \<le> limit \<and> limit \<le> max_reader_page_limit
           then Inr \<lparr>pq_cursor = rawCursor, pq_limit = limit\<rparr> else Inl Query_invalid)"

section \<open>The rows of the transaction\<close>

text \<open>
  The caller's membership; the visible workspace paper (its identifier and its paper); the newest ready
  PDF of that paper with its at most two newest ORIGINAL assets; its newest validation attestation; its
  newest extraction job under the current policy; that job's newest extraction with its admission and the
  time it was admitted; and the chunks of that extraction.
\<close>

record reader_rows =
  rr_member :: bool
  rr_paper :: "(ident \<times> ident) option"
  rr_document :: "document option"
  rr_assets :: "asset list"
  rr_validation :: "(attestation_row \<times> job \<times> job_attempt) option"
  rr_job :: "job option"
  rr_generation :: "(extraction_row \<times> job \<times> job_attempt \<times> (manifest_admission \<times> millis) option) option"
  rr_chunks :: "(ident \<times> chunk_row) list"

definition chunk_number :: "ident \<times> chunk_row \<Rightarrow> int" where
  "chunk_number c = num_val (h_sequence (snd c))"

definition select_chunks :: "int \<Rightarrow> int \<Rightarrow> (ident \<times> chunk_row) list \<Rightarrow> (ident \<times> chunk_row) list" where
  "select_chunks queryStart count cs =
     take (nat count) (filter (\<lambda>c. queryStart \<le> chunk_number c) (sort_key chunk_number cs))"

definition served_chunk :: "ident \<times> chunk_row \<Rightarrow> reader_chunk" where
  "served_chunk c =
     \<lparr>rk_id = fst c, rk_sequence = h_sequence (snd c), rk_contentHash = h_contentHash (snd c),
      rk_pageNumber = the (h_pageStart (snd c)), rk_paragraphId = the (h_paragraphId (snd c)),
      rk_text = h_text (snd c)\<rparr>"

fun first_paragraph :: "chunk_row \<Rightarrow> bool" where
  "first_paragraph h \<longleftrightarrow>
     (case (h_pageStart h, h_paragraphId h) of
        (Some page, Some paragraph) \<Rightarrow> paragraph = ''p'' @ jnum_text page @ ''-p1''
      | _ \<Rightarrow> False)"

text \<open>The loop of \<open>validateBoundedChunks\<close>: None where it answers null.\<close>

fun validate_bounded_chunks ::
    "(string \<Rightarrow> string) \<Rightarrow> (string \<Rightarrow> string) \<Rightarrow> extraction_row \<Rightarrow> (ident \<times> chunk_row) list \<Rightarrow> int \<Rightarrow> int
      \<Rightarrow> chunk_row option \<Rightarrow> reader_chunk list option" where
  "validate_bounded_chunks nfc sha256 f [] index startSequence previous = Some []"
| "validate_bounded_chunks nfc sha256 f (c # cs) index startSequence previous =
     (if h_sequence (snd c) \<noteq> NInt index \<or> \<not> extraction_chunk_is_sound nfc sha256 f c
         \<or> (case previous of
              None \<Rightarrow> False
            | Some h \<Rightarrow> \<not> extraction_chunk_transition_is_sound h (snd c))
         \<or> (index = 0 \<and> \<not> first_paragraph (snd c))
      then None
      else (case validate_bounded_chunks nfc sha256 f cs (index + 1) startSequence (Some (snd c)) of
              None \<Rightarrow> None
            | Some out \<Rightarrow>
                if index < startSequence then Some out
                else if h_pageStart (snd c) = None \<or> h_paragraphId (snd c) = None then None
                else Some (served_chunk c # out)))"

definition document_metadata_of :: "document \<Rightarrow> asset \<Rightarrow> attestation_row \<Rightarrow> reader_error + document_metadata" where
  "document_metadata_of x a v =
     (if \<not> truthy (d_workspacePaperId x) \<or> \<not> truthy (d_paperId x)
      then Inl (Reader_failed ''Reader document binding failed.'')
      else Inr \<lparr>dm_id = d_id x, dm_workspacePaperId = the (d_workspacePaperId x), dm_paperId = the (d_paperId x),
           dm_assetId = a_id a, dm_inputSha256 = v_inputSha256 v,
           dm_inputSizeBytes = jnum_text (NInt (v_inputSizeBytes v)), dm_pageCount = the (v_pageCount v),
           dm_validationAttestationId = v_id v, dm_validationPolicyVersion = v_policyVersion v,
           dm_validatedAt = iso_format (v_checkedAt v)\<rparr>)"

definition generation_metadata_of :: "extraction_row \<Rightarrow> manifest_admission \<times> millis \<Rightarrow> generation_metadata" where
  "generation_metadata_of f m =
     \<lparr>gm_id = f_id f, gm_validationAttestationId = f_validationAttestationId f,
      gm_manifestSha256 = m_manifestSha256 (fst m), gm_admittedAt = iso_format (snd m),
      gm_policyVersion = f_extractionPolicyVersion f, gm_toolchainDigest = f_toolchainDigest f,
      gm_engineVersion = f_engineVersion f, gm_verdict = f_verdict f, gm_pageCount = f_pageCount f,
      gm_chunkCount = f_chunkCount f, gm_textBytes = f_textBytes f,
      gm_extractedAt = iso_format (f_extractedAt f), gm_completedAt = iso_format (f_completedAt f),
      gm_checkedAt = iso_format (f_checkedAt f)\<rparr>"

section \<open>Resolution\<close>

record ready_material =
  rm_document :: document_metadata
  rm_generation :: generation_metadata
  rm_chunks :: "reader_chunk list"
  rm_startSequence :: int
  rm_subject :: reader_subject

text \<open>\<open>if (cursorClaims) throw cursorStale(); return page;\<close>\<close>

definition unless_continued :: "reader_claims option \<Rightarrow> reader_page \<Rightarrow> reader_error + (reader_page + ready_material)" where
  "unless_continued claims page = (if claims = None then Inr (Inl page) else Inl Cursor_stale)"

text \<open>The last part of the transaction: the chunks of a sound, extracted generation.\<close>

definition resolve_chunks ::
    "(string \<Rightarrow> string) \<Rightarrow> (string \<Rightarrow> string) \<Rightarrow> reader_subject \<Rightarrow> page_query \<Rightarrow> reader_claims option
      \<Rightarrow> document_metadata \<Rightarrow> generation_metadata \<Rightarrow> extraction_row \<Rightarrow> (ident \<times> chunk_row) list
      \<Rightarrow> reader_error + (reader_page + ready_material)" where
  "resolve_chunks nfc sha256 subject query claims x g f cs =
     (let chunkCount = num_val (f_chunkCount f);
          startSequence = (case claims of None \<Rightarrow> 0 | Some c \<Rightarrow> num_val (rc_nextSequence c))
      in if (case claims of None \<Rightarrow> False | Some c \<Rightarrow> rc_generationId c \<noteq> f_id f) then Inl Cursor_stale
         else if startSequence < 0 \<or> chunkCount \<le> startSequence then Inl Query_invalid
         else
           let requestedCount = min (pq_limit query) (chunkCount - startSequence);
               predecessorCount = (if startSequence = 0 then 0 else 1);
               queryStart = startSequence - predecessorCount;
               selected = select_chunks queryStart (requestedCount + predecessorCount) cs
           in if int (length selected) \<noteq> requestedCount + predecessorCount then Inr (Inl Reader_unavailable)
              else (case validate_bounded_chunks nfc sha256 f selected queryStart startSequence None of
                      None \<Rightarrow> Inr (Inl Reader_unavailable)
                    | Some out \<Rightarrow>
                        if int (length out) \<noteq> requestedCount then Inr (Inl Reader_unavailable)
                        else Inr (Inr \<lparr>rm_document = x, rm_generation = g, rm_chunks = out,
                               rm_startSequence = startSequence, rm_subject = subject\<rparr>)))"

text \<open>The extraction the job produced, if it is sound and sealed.\<close>

definition resolve_generation ::
    "(string \<Rightarrow> string) \<Rightarrow> (string \<Rightarrow> string) \<Rightarrow> string \<Rightarrow> reader_subject \<Rightarrow> page_query \<Rightarrow> reader_claims option
      \<Rightarrow> reader_rows \<Rightarrow> attestation_row \<Rightarrow> job \<Rightarrow> extraction_payload \<Rightarrow> document_metadata
      \<Rightarrow> reader_error + (reader_page + ready_material)" where
  "resolve_generation nfc sha256 policyVersion subject query claims rows v job payload x =
     (let rejected = (\<lambda>generationId.
            if (case claims of None \<Rightarrow> False | Some c \<Rightarrow> generationId \<noteq> Some (rc_generationId c))
            then Inl Cursor_stale else Inr (Inl Reader_unavailable))
      in case rr_generation rows of
           None \<Rightarrow> rejected None
         | Some (f, j, t, admission) \<Rightarrow>
             if f_validationAttestationId f \<noteq> v_id v \<or> f_jobId f \<noteq> j_id job
                \<or> f_toolchainDigest f \<noteq> ep_toolchainDigest payload
                \<or> \<not> extraction_generation_is_sound f j t v policyVersion
             then rejected (Some (f_id f))
             else (case admission of
                     None \<Rightarrow> rejected (Some (f_id f))
                   | Some m \<Rightarrow>
                       if \<not> extraction_manifest_admission_is_sound (fst m) f (rs_workspaceId subject)
                       then rejected (Some (f_id f))
                       else
                         let g = generation_metadata_of f m
                         in if f_verdict f = NO_TEXT then unless_continued claims (Reader_no_text x g)
                            else resolve_chunks nfc sha256 subject query claims x g f (rr_chunks rows)))"

definition resolve_job ::
    "(string \<Rightarrow> string) \<Rightarrow> (string \<Rightarrow> string) \<Rightarrow> string \<Rightarrow> reader_subject \<Rightarrow> page_query \<Rightarrow> reader_claims option
      \<Rightarrow> reader_rows \<Rightarrow> attestation_row \<Rightarrow> document_metadata \<Rightarrow> reader_error + (reader_page + ready_material)" where
  "resolve_job nfc sha256 policyVersion subject query claims rows v x =
     (case rr_job rows of
        None \<Rightarrow> unless_continued claims Reader_unavailable
      | Some job \<Rightarrow>
          (case current_extraction_job_payload (j_payload job) v policyVersion of
             None \<Rightarrow> unless_continued claims Reader_unavailable
           | Some payload \<Rightarrow>
               let state = authoritative_extraction_job_state (j_status job) (j_attempts job) (j_maxAttempts job)
               in if \<not> valid_opaque_id (j_id job) then unless_continued claims Reader_unavailable
                  else if state = Job_queued \<or> state = Job_extracting
                  then unless_continued claims (Reader_processing x policyVersion)
                  else if state \<noteq> Job_succeeded then unless_continued claims Reader_unavailable
                  else resolve_generation nfc sha256 policyVersion subject query claims rows v job payload x))"

definition resolve_document ::
    "(string \<Rightarrow> string) \<Rightarrow> (string \<Rightarrow> string) \<Rightarrow> string \<Rightarrow> reader_subject \<Rightarrow> page_query \<Rightarrow> reader_claims option
      \<Rightarrow> reader_rows \<Rightarrow> reader_error + (reader_page + ready_material)" where
  "resolve_document nfc sha256 policyVersion subject query claims rows =
     (case (rr_document rows, rr_assets rows) of
        (Some x, [a]) \<Rightarrow>
          if a_status a \<noteq> A_READY \<or> a_deletedAt a \<noteq> None then unless_continued claims Reader_unavailable
          else (case rr_validation rows of
                  None \<Rightarrow> unless_continued claims Reader_unavailable
                | Some (v, vj, vt) \<Rightarrow>
                    if \<not> current_accepted_validation v vj vt x a True
                    then unless_continued claims Reader_unavailable
                    else and_then (document_metadata_of x a v)
                           (resolve_job nfc sha256 policyVersion subject query claims rows v))
      | _ \<Rightarrow> unless_continued claims Reader_unavailable)"

text \<open>The transaction: the caller's access first, then the cursor, then the document.\<close>

definition resolve_reader ::
    "(string \<Rightarrow> string \<Rightarrow> string) \<Rightarrow> (string \<Rightarrow> json option) \<Rightarrow> (string \<Rightarrow> string) \<Rightarrow> (string \<Rightarrow> string) \<Rightarrow> string \<Rightarrow> string
      \<Rightarrow> reader_subject \<Rightarrow> page_query \<Rightarrow> reader_rows \<Rightarrow> reader_error + (reader_page + ready_material)" where
  "resolve_reader hmac parse nfc sha256 secret policyVersion subject query rows =
     (if \<not> rr_member rows \<or> rr_paper rows = None then Inl Paper_not_found
      else and_then (case pq_cursor query of
               None \<Rightarrow> Inr None
             | Some token \<Rightarrow> map_sum id Some (verify_cursor hmac parse secret token subject))
             (\<lambda>claims. resolve_document nfc sha256 policyVersion subject query claims rows))"

section \<open>The page\<close>

definition page_candidate ::
    "(string \<Rightarrow> string \<Rightarrow> string) \<Rightarrow> string \<Rightarrow> ready_material \<Rightarrow> int \<Rightarrow> reader_error + reader_page" where
  "page_candidate hmac secret m count =
     (let stop = rm_startSequence m + count
      in map_sum id (Reader_ready (rm_document m) (rm_generation m) (take (nat count) (rm_chunks m)))
           (if stop < num_val (gm_chunkCount (rm_generation m))
            then map_sum id Some (issue_cursor hmac secret (rm_subject m)
                   \<lparr>rc_generationId = gm_id (rm_generation m), rc_nextSequence = NInt stop\<rparr>)
            else Inr None))"

definition page_fits :: "reader_page \<Rightarrow> bool" where
  "page_fits p \<longleftrightarrow> serialized_bytes p \<le> max_reader_serialized_bytes"

text \<open>The binary search for the largest page that fits, between \<open>lower\<close> and \<open>upper\<close>.\<close>

function search_page ::
    "(int \<Rightarrow> reader_error + reader_page) \<Rightarrow> int \<Rightarrow> int \<Rightarrow> reader_page option \<Rightarrow> reader_error + reader_page option" where
  "search_page candidate lower upper best =
     (if upper < lower then Inr best
      else
        let count = (lower + upper) div 2
        in and_then (candidate count) (\<lambda>page.
             if page_fits page then search_page candidate (count + 1) upper (Some page)
             else search_page candidate lower (count - 1) best))"
  by pat_completeness auto
termination
  by (relation "measure (\<lambda>(candidate, lower, upper, best). nat (upper + 1 - lower))") auto

declare search_page.simps [simp del]

definition bounded_ready_page ::
    "(string \<Rightarrow> string \<Rightarrow> string) \<Rightarrow> string \<Rightarrow> ready_material \<Rightarrow> reader_error + reader_page" where
  "bounded_ready_page hmac secret m =
     and_then (page_candidate hmac secret m (int (length (rm_chunks m)))) (\<lambda>fullPage.
       if page_fits fullPage then Inr fullPage
       else and_then (search_page (page_candidate hmac secret m) 1 (int (length (rm_chunks m)) - 1) None) (\<lambda>bounded.
         case bounded of
           None \<Rightarrow> Inl (Reader_failed ''A bounded reader page exceeded its serialized response limit.'')
         | Some page \<Rightarrow> Inr page))"

text \<open>
  \<open>getWorkspacePaperReader\<close>; \<open>policy\<close> and \<open>secret\<close> are the environment's
  \<open>PAPERPILOT_EXTRACTION_POLICY_VERSION\<close> and the reader's secret.
\<close>

definition get_workspace_paper_reader ::
    "(string \<Rightarrow> string \<Rightarrow> string) \<Rightarrow> (string \<Rightarrow> json option) \<Rightarrow> (string \<Rightarrow> string) \<Rightarrow> (string \<Rightarrow> string)
      \<Rightarrow> string option \<Rightarrow> string option \<Rightarrow> reader_subject \<Rightarrow> (string \<times> string) list \<Rightarrow> reader_rows
      \<Rightarrow> reader_error + reader_page" where
  "get_workspace_paper_reader hmac parse nfc sha256 policy secret subject params rows =
     (if \<not> valid_subject subject then Inl Paper_not_found
      else and_then (parse_reader_page_query params) (\<lambda>query.
        case authoritative_extraction_policy_version policy of
          Inl e \<Rightarrow> Inl (Reader_failed ''PAPERPILOT_EXTRACTION_POLICY_VERSION is invalid for extraction authority.'')
        | Inr policyVersion \<Rightarrow>
            and_then (if truthy secret then cursor_secret_bytes (the secret)
                      else Inl (Reader_failed ''PAPERPILOT_READER_CURSOR_SECRET or BETTER_AUTH_SECRET is required for Reader pagination.''))
              (\<lambda>key. and_then (resolve_reader hmac parse nfc sha256 key policyVersion subject query rows)
                (\<lambda>r. case r of Inl page \<Rightarrow> Inr page | Inr m \<Rightarrow> bounded_ready_page hmac key m))))"

end
