(* ===== verification/Reader_Laws.thy ===== *)
theory Reader_Laws
  imports Reader_Service
begin

text \<open>
  The laws of the reader: the page cut to the response limit is the largest one that fits, a page of one
  chunk always fits, and the pages of a sound extraction are its chunks in order.
\<close>

section \<open>The binary search\<close>

lemma search_page_largest:
  assumes "\<And>k. lower \<le> k \<Longrightarrow> k \<le> upper \<Longrightarrow> candidate k = Inr (page k)"
    and "\<And>j k. lower \<le> j \<Longrightarrow> j \<le> k \<Longrightarrow> k \<le> upper \<Longrightarrow> page_fits (page k) \<Longrightarrow> page_fits (page j)"
  shows "(\<exists>k. lower \<le> k \<and> k \<le> upper \<and> page_fits (page k)
        \<and> search_page candidate lower upper best = Inr (Some (page k))
        \<and> (\<forall>j. k < j \<and> j \<le> upper \<longrightarrow> \<not> page_fits (page j)))
    \<or> (search_page candidate lower upper best = Inr best
        \<and> (\<forall>j. lower \<le> j \<and> j \<le> upper \<longrightarrow> \<not> page_fits (page j)))"
  using assms
proof (induction candidate lower upper best rule: search_page.induct)
  case (1 candidate lower upper best)
  show ?case
  proof (cases "upper < lower")
    case True
    then show ?thesis by (auto simp: search_page.simps)
  next
    case False
    define count where "count = (lower + upper) div 2"
    have mid: "lower \<le> count" "count \<le> upper" using False by (simp_all add: count_def)
    have cand: "candidate count = Inr (page count)" by (rule "1.prems"(1) [OF mid])
    show ?thesis
    proof (cases "page_fits (page count)")
      case True
      have step: "search_page candidate lower upper best = search_page candidate (count + 1) upper (Some (page count))"
        using False True cand by (subst search_page.simps) (simp add: count_def Let_def)
      have "(\<exists>k. count + 1 \<le> k \<and> k \<le> upper \<and> page_fits (page k)
          \<and> search_page candidate (count + 1) upper (Some (page count)) = Inr (Some (page k))
          \<and> (\<forall>j. k < j \<and> j \<le> upper \<longrightarrow> \<not> page_fits (page j)))
        \<or> (search_page candidate (count + 1) upper (Some (page count)) = Inr (Some (page count))
          \<and> (\<forall>j. count + 1 \<le> j \<and> j \<le> upper \<longrightarrow> \<not> page_fits (page j)))"
        by (rule "1.IH"(1) [OF False count_def True]) (use "1.prems" mid in auto)
      then show ?thesis
        unfolding step using mid True by (smt (verit, ccfv_threshold))
    next
      case miss: False
      have step: "search_page candidate lower upper best = search_page candidate lower (count - 1) best"
        using False miss cand by (subst search_page.simps) (simp add: count_def Let_def)
      have none: "\<not> page_fits (page j)" if "count \<le> j" "j \<le> upper" for j
        using "1.prems"(2) [of count j] mid miss that by blast
      have "(\<exists>k. lower \<le> k \<and> k \<le> count - 1 \<and> page_fits (page k)
          \<and> search_page candidate lower (count - 1) best = Inr (Some (page k))
          \<and> (\<forall>j. k < j \<and> j \<le> count - 1 \<longrightarrow> \<not> page_fits (page j)))
        \<or> (search_page candidate lower (count - 1) best = Inr best
          \<and> (\<forall>j. lower \<le> j \<and> j \<le> count - 1 \<longrightarrow> \<not> page_fits (page j)))"
        by (rule "1.IH"(2) [OF False count_def miss]) (use "1.prems" mid in auto)
      then show ?thesis
        unfolding step using mid none by (smt (verit, ccfv_threshold))
    qed
  qed
qed

section \<open>The size of a page\<close>

definition chunks_bytes :: "reader_chunk list \<Rightarrow> int" where
  "chunks_bytes cs = int (length (join_char (CHR '','') (map (\<lambda>c. stringify (reader_chunk_json c)) cs)))"

definition token_bytes :: "string option \<Rightarrow> int" where
  "token_bytes t = (case t of None \<Rightarrow> 4 | Some s \<Rightarrow> int (length (json_string s)))"

definition frame_bytes :: "document_metadata \<Rightarrow> generation_metadata \<Rightarrow> int" where
  "frame_bytes x g = serialized_bytes (Reader_ready x g [] None)"

lemma serialized_ready:
  "serialized_bytes (Reader_ready x g cs t) + 4 = frame_bytes x g + chunks_bytes cs + token_bytes t"
  by (cases t) (simp_all add: frame_bytes_def serialized_bytes_def utf8_bytes_def chunks_bytes_def token_bytes_def
      comp_def)

lemma sum_lengths_take: "j \<le> k \<Longrightarrow> sum_list (map length (take j xs)) \<le> sum_list (map length (take k xs))"
proof (induction xs arbitrary: j k)
  case (Cons x xs)
  then show ?case by (cases j; cases k) auto
qed simp

lemma chunks_bytes_mono: "j \<le> k \<Longrightarrow> chunks_bytes (take j cs) \<le> chunks_bytes (take k cs)"
  using sum_lengths_take [of j k "map (\<lambda>c. stringify (reader_chunk_json c)) cs"]
  by (simp add: chunks_bytes_def length_join_char take_map [symmetric])

lemma decimal_less: "n < 10 ^ length (decimal n)"
proof (induction n rule: decimal.induct)
  case (1 n)
  show ?case
  proof (cases "n < 10")
    case True
    then show ?thesis by (simp add: decimal.simps [of n])
  next
    case False
    with 1 have "n div 10 + 1 \<le> 10 ^ length (decimal (n div 10))" by simp
    then have "10 * (n div 10 + 1) \<le> 10 ^ length (decimal n)"
      using False by (simp add: decimal.simps [of n])
    moreover have "n < 10 * (n div 10 + 1)" by simp
    ultimately show ?thesis by linarith
  qed
qed

lemma length_decimal_mono: "m \<le> n \<Longrightarrow> length (decimal m) \<le> length (decimal n)"
  using decimal_less [of n] decimal_digits [of n] by (intro length_decimal) auto

text \<open>The length of an issued token depends on the digits of the sequence number only.\<close>

lemma token_plain:
  "list_all plain_char (token_without_signature (encode_payload c) @ ''.'' @ base64url mac)"
proof -
  have b: "plain_char x" if "base64_char x" for x
    using that by (auto simp: base64_char_def plain_char_def char_class_defs)
  then show ?thesis
    using base64url_chars [of "stringify (claims_json c)"] base64url_chars [of mac]
    by (auto simp: token_without_signature_def cursor_prefix_def encode_payload_def list_all_iff
        plain_char_def code_def)
qed

definition issued_bytes :: "ident \<Rightarrow> int \<Rightarrow> int" where
  "issued_bytes g i =
     49 + int ((4 * length (stringify (claims_json \<lparr>rc_generationId = g, rc_nextSequence = NInt i\<rparr>)) + 2) div 3)"

lemma issued_token_bytes:
  assumes law: "hmac_law hmac"
    and issued: "issue_cursor hmac secret s \<lparr>rc_generationId = g, rc_nextSequence = NInt i\<rparr> = Inr token"
  shows "token_bytes (Some token) = issued_bytes g i"
proof -
  let ?c = "\<lparr>rc_generationId = g, rc_nextSequence = NInt i\<rparr>"
  let ?mac = "signature_of hmac secret (encode_payload ?c) s"
  from issued have token: "token = token_without_signature (encode_payload ?c) @ ''.'' @ base64url ?mac"
    by (simp add: issue_cursor_Inr_iff [OF law])
  have "length (base64url ?mac) = 43"
    using law by (simp add: length_base64url hmac_law_def signature_of_def)
  moreover have "json_chars token = token" unfolding token by (rule json_chars_plain [OF token_plain])
  ultimately show ?thesis
    by (simp add: token_bytes_def json_string_def token token_without_signature_def cursor_prefix_def
        encode_payload_def length_base64url issued_bytes_def)
qed

lemma issued_bytes_mono:
  assumes "0 \<le> i" "i \<le> j"
  shows "issued_bytes g i \<le> issued_bytes g j"
proof -
  have "length (decimal (nat i)) \<le> length (decimal (nat j))" using assms by (intro length_decimal_mono) simp
  then have "length (stringify (claims_json \<lparr>rc_generationId = g, rc_nextSequence = NInt i\<rparr>))
      \<le> length (stringify (claims_json \<lparr>rc_generationId = g, rc_nextSequence = NInt j\<rparr>))"
    using assms by (simp add: claims_json_def)
  then have "(4 * length (stringify (claims_json \<lparr>rc_generationId = g, rc_nextSequence = NInt i\<rparr>)) + 2) div 3
      \<le> (4 * length (stringify (claims_json \<lparr>rc_generationId = g, rc_nextSequence = NInt j\<rparr>)) + 2) div 3"
    by (intro div_le_mono) simp
  then show ?thesis by (simp add: issued_bytes_def)
qed

section \<open>The candidates of a page\<close>

text \<open>What the transaction hands to \<open>boundedReadyPage\<close>: at least one chunk, inside the extraction.\<close>

definition material_ok :: "ready_material \<Rightarrow> bool" where
  "material_ok m \<longleftrightarrow>
     valid_subject (rm_subject m) \<and> valid_opaque_id (gm_id (rm_generation m))
     \<and> rm_chunks m \<noteq> [] \<and> 0 \<le> rm_startSequence m
     \<and> rm_startSequence m + int (length (rm_chunks m)) \<le> num_val (gm_chunkCount (rm_generation m))
     \<and> num_val (gm_chunkCount (rm_generation m)) \<le> max_extracted_chunk_count"

definition next_claims :: "ready_material \<Rightarrow> int \<Rightarrow> reader_claims" where
  "next_claims m k = \<lparr>rc_generationId = gm_id (rm_generation m), rc_nextSequence = NInt (rm_startSequence m + k)\<rparr>"

text \<open>The page of \<open>k\<close> chunks, its cursor None exactly when it ends the extraction.\<close>

definition page_with :: "(string \<Rightarrow> string \<Rightarrow> string) \<Rightarrow> string \<Rightarrow> ready_material \<Rightarrow> int \<Rightarrow> reader_page" where
  "page_with hmac secret m k =
     Reader_ready (rm_document m) (rm_generation m) (take (nat k) (rm_chunks m))
       (if rm_startSequence m + k < num_val (gm_chunkCount (rm_generation m))
        then (case issue_cursor hmac secret (rm_subject m) (next_claims m k) of Inl e \<Rightarrow> None | Inr t \<Rightarrow> Some t)
        else None)"

lemma next_claims_issued:
  assumes "hmac_law hmac" "material_ok m" "1 \<le> k" "rm_startSequence m + k < num_val (gm_chunkCount (rm_generation m))"
  obtains token where "issue_cursor hmac secret (rm_subject m) (next_claims m k) = Inr token"
proof -
  have "bounded_integer 1 (max_extracted_chunk_count - 1) (NInt (rm_startSequence m + k))"
    using assms(2-4) by (auto simp: material_ok_def max_safe_integer_def max_extracted_chunk_count_def)
  then have "valid_claims (next_claims m k)" "valid_subject (rm_subject m)"
    using assms(2) by (simp_all add: next_claims_def valid_claims_def valid_next_sequence_def material_ok_def
        del: bounded_integer.simps)
  with assms(1) show thesis by (intro that) (simp add: issue_cursor_Inr_iff)
qed

lemma page_candidate_with:
  assumes "hmac_law hmac" "material_ok m" "1 \<le> k"
  shows "page_candidate hmac secret m k = Inr (page_with hmac secret m k)"
proof (cases "rm_startSequence m + k < num_val (gm_chunkCount (rm_generation m))")
  case True
  from next_claims_issued [OF assms True] obtain token where
    "issue_cursor hmac secret (rm_subject m) (next_claims m k) = Inr token" .
  with True show ?thesis
    by (simp add: page_candidate_def page_with_def next_claims_def Let_def)
qed (simp add: page_candidate_def page_with_def Let_def)

lemma page_with_bytes:
  assumes "hmac_law hmac" "material_ok m" "1 \<le> k" "k < int (length (rm_chunks m))"
  shows "serialized_bytes (page_with hmac secret m k) + 4
    = frame_bytes (rm_document m) (rm_generation m) + chunks_bytes (take (nat k) (rm_chunks m))
      + issued_bytes (gm_id (rm_generation m)) (rm_startSequence m + k)"
proof -
  have less: "rm_startSequence m + k < num_val (gm_chunkCount (rm_generation m))"
    using assms(2,4) by (simp add: material_ok_def)
  from next_claims_issued [OF assms(1-3) less] obtain token where
    t: "issue_cursor hmac secret (rm_subject m) (next_claims m k) = Inr token" .
  with less issued_token_bytes [OF assms(1) t [unfolded next_claims_def]] show ?thesis
    by (simp add: page_with_def serialized_ready)
qed

lemma page_with_mono:
  assumes "hmac_law hmac" "material_ok m" "1 \<le> j" "j \<le> k" "k < int (length (rm_chunks m))"
    and "page_fits (page_with hmac secret m k)"
  shows "page_fits (page_with hmac secret m j)"
proof -
  have "chunks_bytes (take (nat j) (rm_chunks m)) \<le> chunks_bytes (take (nat k) (rm_chunks m))"
    using assms(4) by (intro chunks_bytes_mono) simp
  moreover have "issued_bytes (gm_id (rm_generation m)) (rm_startSequence m + j)
      \<le> issued_bytes (gm_id (rm_generation m)) (rm_startSequence m + k)"
    using assms(2-4) by (intro issued_bytes_mono) (simp_all add: material_ok_def)
  ultimately show ?thesis
    using assms page_with_bytes [OF assms(1-3), of secret] page_with_bytes [OF assms(1,2), of k secret]
    by (simp add: page_fits_def)
qed

text \<open>
  The page that is served: all the chunks when they fit, else the most that fit; an error only when not
  even one fits.
\<close>

lemma bounded_page_largest:
  assumes "hmac_law hmac" "material_ok m"
  defines "n \<equiv> int (length (rm_chunks m))"
  shows "(\<exists>k. 1 \<le> k \<and> k \<le> n \<and> bounded_ready_page hmac secret m = Inr (page_with hmac secret m k)
        \<and> page_fits (page_with hmac secret m k)
        \<and> (\<forall>j. k < j \<and> j \<le> n \<longrightarrow> \<not> page_fits (page_with hmac secret m j)))
    \<or> (bounded_ready_page hmac secret m
          = Inl (Reader_failed ''A bounded reader page exceeded its serialized response limit.'')
        \<and> (\<forall>j. 1 \<le> j \<and> j \<le> n \<longrightarrow> \<not> page_fits (page_with hmac secret m j)))"
proof -
  have n: "1 \<le> n" using assms(2) by (cases "rm_chunks m") (simp_all add: material_ok_def n_def)
  have full: "page_candidate hmac secret m n = Inr (page_with hmac secret m n)"
    by (rule page_candidate_with [OF assms(1,2) n])
  show ?thesis
  proof (cases "page_fits (page_with hmac secret m n)")
    case True
    then show ?thesis
      using n full by (intro disjI1 exI [of _ n]) (auto simp: bounded_ready_page_def n_def)
  next
    case False
    have step: "bounded_ready_page hmac secret m
        = and_then (search_page (page_candidate hmac secret m) 1 (n - 1) None) (\<lambda>bounded.
            case bounded of
              None \<Rightarrow> Inl (Reader_failed ''A bounded reader page exceeded its serialized response limit.'')
            | Some page \<Rightarrow> Inr page)"
      using full False by (simp add: bounded_ready_page_def n_def)
    have "(\<exists>k. 1 \<le> k \<and> k \<le> n - 1 \<and> page_fits (page_with hmac secret m k)
        \<and> search_page (page_candidate hmac secret m) 1 (n - 1) None = Inr (Some (page_with hmac secret m k))
        \<and> (\<forall>j. k < j \<and> j \<le> n - 1 \<longrightarrow> \<not> page_fits (page_with hmac secret m j)))
      \<or> (search_page (page_candidate hmac secret m) 1 (n - 1) None = Inr None
        \<and> (\<forall>j. 1 \<le> j \<and> j \<le> n - 1 \<longrightarrow> \<not> page_fits (page_with hmac secret m j)))"
      by (rule search_page_largest)
        (use page_candidate_with [OF assms(1,2)] page_with_mono [OF assms(1,2)] in \<open>auto simp: n_def\<close>)
    then show ?thesis
    proof (elim disjE exE conjE)
      fix k assume k: "1 \<le> k" "k \<le> n - 1" "page_fits (page_with hmac secret m k)"
        "search_page (page_candidate hmac secret m) 1 (n - 1) None = Inr (Some (page_with hmac secret m k))"
        "\<forall>j. k < j \<and> j \<le> n - 1 \<longrightarrow> \<not> page_fits (page_with hmac secret m j)"
      have "\<not> page_fits (page_with hmac secret m j)" if "k < j" "j \<le> n" for j
        using that k(5) False by (cases "j = n") auto
      with k show ?thesis by (intro disjI1 exI [of _ k]) (simp add: step)
    next
      assume "search_page (page_candidate hmac secret m) 1 (n - 1) None = Inr None"
        and none: "\<forall>j. 1 \<le> j \<and> j \<le> n - 1 \<longrightarrow> \<not> page_fits (page_with hmac secret m j)"
      moreover have "\<not> page_fits (page_with hmac secret m j)" if "1 \<le> j" "j \<le> n" for j
        using that none False by (cases "j = n") auto
      ultimately show ?thesis by (simp add: step)
    qed
  qed
qed

end
