(* ===== verification/Reader_Pages.thy ===== *)
theory Reader_Pages
  imports Reader_Laws
begin

text \<open>
  A page of one chunk always fits, and what the transaction resolves to on the rows of a sound
  extraction.
\<close>

section \<open>A page of one chunk fits\<close>

text \<open>Every text of the metadata is at most 300 bytes long, every number at most 17 digits.\<close>

definition short_document :: "document_metadata \<Rightarrow> bool" where
  "short_document x \<longleftrightarrow>
     list_all (\<lambda>s. length s \<le> 300)
       [dm_id x, dm_workspacePaperId x, dm_paperId x, dm_assetId x, dm_inputSha256 x, dm_inputSizeBytes x,
        dm_validationAttestationId x, dm_validationPolicyVersion x, dm_validatedAt x]
     \<and> length (jnum_text (dm_pageCount x)) \<le> 17"

definition short_generation :: "generation_metadata \<Rightarrow> bool" where
  "short_generation g \<longleftrightarrow>
     list_all (\<lambda>s. length s \<le> 300)
       [gm_id g, gm_validationAttestationId g, gm_manifestSha256 g, gm_admittedAt g, gm_policyVersion g,
        gm_toolchainDigest g, gm_engineVersion g, gm_extractedAt g, gm_completedAt g, gm_checkedAt g]
     \<and> list_all (\<lambda>n. length (jnum_text n) \<le> 17) [gm_pageCount g, gm_chunkCount g, gm_textBytes g]"

definition short_chunk :: "reader_chunk \<Rightarrow> bool" where
  "short_chunk c \<longleftrightarrow>
     list_all (\<lambda>s. length s \<le> 300) [rk_id c, rk_contentHash c, rk_paragraphId c]
     \<and> list_all (\<lambda>n. length (jnum_text n) \<le> 17) [rk_sequence c, rk_pageNumber c]
     \<and> utf8_bytes (rk_text c) \<le> max_extracted_chunk_bytes"

lemma document_weight: "short_document x \<Longrightarrow> json_weight (document_metadata_json x) \<le> 20000"
  by (simp add: short_document_def document_metadata_json_def)

lemma generation_weight: "short_generation g \<Longrightarrow> json_weight (generation_metadata_json g) \<le> 25000"
  by (cases "gm_verdict g") (simp_all add: short_generation_def generation_metadata_json_def decimal.simps)

lemma chunk_weight: "short_chunk c \<Longrightarrow> json_weight (reader_chunk_json c) \<le> 60000"
  by (simp add: short_chunk_def reader_chunk_json_def max_extracted_chunk_bytes_def utf8_bytes_def decimal.simps)

lemma frame_bytes_bound:
  assumes "short_document x" "short_generation g"
  shows "frame_bytes x g \<le> 50000"
proof -
  have "json_weight (reader_page_json (Reader_ready x g [] None)) \<le> 50000"
    using document_weight [OF assms(1)] generation_weight [OF assms(2)] by (simp add: decimal.simps)
  with length_stringify [of "reader_page_json (Reader_ready x g [] None)"]
  have "length (stringify (reader_page_json (Reader_ready x g [] None))) \<le> 50000" by (rule order_trans)
  then show ?thesis by (simp add: frame_bytes_def serialized_bytes_def utf8_bytes_def)
qed

lemma first_page_fits:
  assumes "short_document (rm_document m)" "short_generation (rm_generation m)" "short_chunk (hd (rm_chunks m))"
    and "rm_chunks m \<noteq> []"
  shows "page_fits (page_with hmac secret m 1)"
proof -
  have take1: "take 1 (rm_chunks m) = [hd (rm_chunks m)]" using assms(4) by (cases "rm_chunks m") simp_all
  have c: "chunks_bytes [hd (rm_chunks m)] \<le> 60000"
    using length_stringify [of "reader_chunk_json (hd (rm_chunks m))"] chunk_weight [OF assms(3)]
    by (simp add: chunks_bytes_def)
  have t: "token_bytes (case issue_cursor hmac secret (rm_subject m) (next_claims m 1) of
      Inl e \<Rightarrow> None | Inr t \<Rightarrow> Some t) \<le> 4000"
  proof (cases "issue_cursor hmac secret (rm_subject m) (next_claims m 1)")
    case (Inr t)
    then have "length t \<le> 512"
      by (auto simp: issue_cursor_def Let_def utf8_bytes_def max_reader_cursor_bytes_def split: if_splits)
    with Inr length_json_string [of t] show ?thesis by (simp add: token_bytes_def)
  qed (simp add: token_bytes_def)
  define follower where "follower = (if rm_startSequence m + 1 < num_val (gm_chunkCount (rm_generation m))
    then (case issue_cursor hmac secret (rm_subject m) (next_claims m 1) of Inl e \<Rightarrow> None | Inr t \<Rightarrow> Some t) else None)"
  have t1: "page_with hmac secret m 1
      = Reader_ready (rm_document m) (rm_generation m) [hd (rm_chunks m)] follower"
    using take1 by (simp add: page_with_def follower_def)
  have t2: "token_bytes follower \<le> 4000"
    using t by (simp add: follower_def token_bytes_def)
  have "serialized_bytes (page_with hmac secret m 1) + 4
      = frame_bytes (rm_document m) (rm_generation m) + chunks_bytes [hd (rm_chunks m)] + token_bytes follower"
    unfolding t1 by (rule serialized_ready)
  then show ?thesis
    using c t2 frame_bytes_bound [OF assms(1,2)]
    by (simp add: page_fits_def max_reader_serialized_bytes_def)
qed

section \<open>The chunks of a sound extraction\<close>

lemma measured_drop:
  assumes "extraction_chunks_measured nfc sha256 f cs index previous m = Some tot" "j \<le> length cs"
  obtains previous' m' where
    "extraction_chunks_measured nfc sha256 f (drop j cs) (index + int j) previous' m' = Some tot"
  using assms
proof (induction j arbitrary: cs index previous m thesis)
  case 0
  then show ?case by simp
next
  case (Suc j)
  from Suc.prems(3) obtain c cs' where cs: "cs = c # cs'" by (cases cs) simp_all
  with Suc.prems(2) obtain previous1 m1 where
    "extraction_chunks_measured nfc sha256 f cs' (index + 1) previous1 m1 = Some tot"
    by (auto split: if_splits option.splits)
  then show ?case
    by (rule Suc.IH [rotated]) (use Suc.prems cs in \<open>auto simp: algebra_simps\<close>)
qed

lemma measured_numbers:
  "extraction_chunks_measured nfc sha256 f cs index previous m = Some tot
    \<Longrightarrow> map chunk_number cs = map (\<lambda>i. index + int i) [0..<length cs]"
proof (induction cs arbitrary: index previous m)
  case (Cons c cs)
  then obtain previous1 m1 where "extraction_chunks_measured nfc sha256 f cs (index + 1) previous1 m1 = Some tot"
    "h_sequence (snd c) = NInt index"
    by (auto split: if_splits option.splits)
  with Cons.IH show ?case
    by (simp add: chunk_number_def upt_conv_Cons map_Suc_upt [symmetric] comp_def algebra_simps del: upt_Suc map_Suc_upt)
qed simp

lemma filter_from:
  assumes "map number cs = map (\<lambda>i. index + int i) [0..<length cs]" "index \<le> start"
  shows "filter (\<lambda>c. start \<le> (number c :: int)) cs = drop (nat (start - index)) cs"
  using assms
proof (induction cs arbitrary: index)
  case (Cons c cs)
  from Cons.prems(1) have c: "number c = index"
    and cs: "map number cs = map (\<lambda>i. (index + 1) + int i) [0..<length cs]"
    by (simp_all add: upt_conv_Cons map_Suc_upt [symmetric] comp_def algebra_simps del: upt_Suc map_Suc_upt)
  have all: "start \<le> number d" if "d \<in> set cs" "index + 1 \<ge> start" for d
  proof -
    have "number d \<in> set (map (\<lambda>i. (index + 1) + int i) [0..<length cs])"
      unfolding cs [symmetric] using that(1) by simp
    then show ?thesis using that(2) by auto
  qed
  show ?case
  proof (cases "start = index")
    case True
    with c all show ?thesis by (simp add: filter_id_conv)
  next
    case False
    with Cons.prems(2) have "nat (start - index) = Suc (nat (start - (index + 1)))" by simp
    with Cons.IH [OF cs] False Cons.prems(2) c show ?thesis by simp
  qed
qed simp

lemma select_measured:
  assumes "extraction_chunks_measured nfc sha256 f (sort_key chunk_number cs) 0 previous m = Some tot" "0 \<le> start"
  shows "select_chunks start count cs = take (nat count) (drop (nat start) (sort_key chunk_number cs))"
  using filter_from [OF measured_numbers [OF assms(1)] assms(2)] by (simp add: select_chunks_def)

lemma chunk_sound_places:
  "extraction_chunk_is_sound nfc sha256 f c \<Longrightarrow>
    h_pageStart (snd c) \<noteq> None \<and> h_paragraphId (snd c) \<noteq> None"
  by (auto simp: extraction_chunk_is_sound_def Let_def split: option.splits)

lemma validate_measured:
  assumes "extraction_chunks_measured nfc sha256 f cs index previous m = Some tot"
    and "p = previous \<or> p = None" "0 \<le> index"
    and "\<And>h page. paragraph_identity h = Some (page, 1) \<Longrightarrow> first_paragraph h"
  shows "validate_bounded_chunks nfc sha256 f (take n cs) index start p
    = Some (map served_chunk (drop (nat (start - index)) (take n cs)))"
  using assms(1-3)
proof (induction cs arbitrary: index previous m n p)
  case (Cons c cs)
  show ?case
  proof (cases n)
    case (Suc k)
    from Cons.prems(1) obtain page ordinal where
      c: "h_sequence (snd c) = NInt index" "extraction_chunk_is_sound nfc sha256 f c"
      and pid: "paragraph_identity (snd c) = Some (page, ordinal)" "index = 0 \<Longrightarrow> ordinal = 1"
      and tr: "\<And>h. previous = Some h \<Longrightarrow> extraction_chunk_transition_is_sound h (snd c)"
      and rest: "extraction_chunks_measured nfc sha256 f cs (index + 1) (Some (snd c))
          (m + utf8_bytes (h_text (snd c))) = Some tot"
      by (auto split: if_splits option.splits)
    have fp: "index = 0 \<Longrightarrow> first_paragraph (snd c)" using pid assms(4) by blast
    have ih: "validate_bounded_chunks nfc sha256 f (take k cs) (index + 1) start (Some (snd c))
        = Some (map served_chunk (drop (nat (start - (index + 1))) (take k cs)))"
      by (rule Cons.IH [OF rest]) (use Cons.prems(3) in auto)
    have next': "index < start \<Longrightarrow> nat (start - index) = Suc (nat (start - (index + 1)))" by simp
    from c tr fp Cons.prems(2) chunk_sound_places [OF c(2)] show ?thesis
      by (cases "index < start")
        (auto simp: Suc ih next' simp del: first_paragraph.simps split: option.splits)
  qed simp
qed simp

end
