(* ===== verification/Reader_Ready.thy ===== *)
theory Reader_Ready
  imports Reader_Pages
begin

text \<open>
  What the transaction resolves to on the rows of a document that is shown as ready: the material of a
  page, short enough that a page of one chunk fits.
\<close>

section \<open>Decimals are canonical\<close>

lemma digit_char_of_val: "is_digit c \<Longrightarrow> digit_char (digit_val c) = c"
proof -
  assume d: "is_digit c"
  then have "code (digit_char (digit_val c)) = code c"
    using digit_char_code [of "digit_val c"] digit_val_nonneg [OF d]
    by (auto simp: digit_val_def char_class_defs)
  then show ?thesis by (simp add: code_def)
qed

lemma decimal_digits_val: "positive_decimal s \<Longrightarrow> decimal (nat (digits_val s)) = s"
proof (induction s rule: rev_induct)
  case Nil
  then show ?case by (simp add: positive_decimal_def)
next
  case (snoc c s)
  from snoc.prems have c: "is_digit c" by (simp add: positive_decimal_def)
  note d = digit_val_nonneg [OF c] digit_char_of_val [OF c]
  show ?case
  proof (cases "s = []")
    case True
    moreover have "nat (digit_val c) < 10" using d(1) by auto
    ultimately show ?thesis using d by (simp add: digits_val_def decimal.simps)
  next
    case False
    with snoc.prems have s: "positive_decimal s" by (auto simp: positive_decimal_def)
    from positive_decimal_pos [OF s] have pos: "1 \<le> digits_val s" .
    have "nat (10 * digits_val s + digit_val c) div 10 = nat (digits_val s)"
      "int (nat (10 * digits_val s + digit_val c)) mod 10 = digit_val c"
      "\<not> nat (10 * digits_val s + digit_val c) < 10"
      using pos d by auto
    with snoc.IH [OF s] d show ?thesis
      by (subst decimal.simps) (simp add: digits_val_snoc digit_char_def)
  qed
qed

lemma identity_first_paragraph:
  assumes "paragraph_identity h = Some (page, 1)"
  shows "first_paragraph h"
proof -
  from assms obtain s where s: "h_paragraphId h = Some s" "h_pageStart h = Some (NInt page)"
    "parse_paragraph_id s = Some (page, 1)"
    by (auto simp: paragraph_identity_def split: option.splits if_splits prod.splits)
  let ?rest = "dropWhile is_digit (drop 1 s)" and ?page = "takeWhile is_digit (drop 1 s)"
  from s(3) have *: "take 1 s = ''p''" "take 2 ?rest = ''-p''" "positive_decimal ?page"
    "positive_decimal (drop 2 ?rest)" "page = digits_val ?page" "1 = digits_val (drop 2 ?rest)"
    by (auto simp: parse_paragraph_id_def Let_def split: if_splits)
  have one: "drop 2 ?rest = ''1''"
    using decimal_digits_val [OF *(4)] *(6) by (simp add: decimal.simps digit_char_def)
  have "take 1 s @ ?page @ take 2 ?rest @ drop 2 ?rest = s"
    by (metis append_take_drop_id takeWhile_dropWhile_id)
  then have "''p'' @ ?page @ ''-p'' @ ''1'' = s" by (simp only: *(1,2) one)
  moreover have "jnum_text (NInt page) = ?page"
    using *(3,5) decimal_digits_val positive_decimal_pos [OF *(3)] by simp
  ultimately have "''p'' @ jnum_text (NInt page) @ ''-p1'' = s" by (metis append.assoc append_Cons append_Nil)
  with s show ?thesis by (simp del: jnum_text.simps)
qed

section \<open>The texts of a ready document are short\<close>

lemma padded_length: "length (padded k n) = k"
  by (induction k n rule: padded.induct) simp_all

lemma length_iso_format: "length (iso_format t) \<le> 27"
  by (simp add: iso_format_def iso_year_def padded_length Let_def split: prod.splits)

lemma short_id: "valid_opaque_id s \<Longrightarrow> length s \<le> 300"
  using opaque_id_length [of s] by simp

lemma short_pattern: "policy_value_pattern s \<or> safe_value_pattern s \<Longrightarrow> length s \<le> 300"
  by (auto simp: policy_value_pattern_def safe_value_pattern_def dest: head_tail_length)

lemma short_digest: "nonzero_digest s \<Longrightarrow> length s \<le> 300"
  by (simp add: nonzero_digest_def sha256_length)

lemma short_number:
  assumes "bounded_integer lo hi n" "0 \<le> lo"
  shows "length (jnum_text n) \<le> 17"
proof -
  from assms(1) obtain i where i: "n = NInt i" "lo \<le> i" "i \<le> hi" by (rule bounded_integerE)
  moreover have "i \<le> max_safe_integer" using assms(1) i by simp
  ultimately have "length (decimal (nat i)) \<le> 17"
    using assms(2) by (intro length_decimal) (auto simp: max_safe_integer_def)
  with i assms(2) show ?thesis by simp
qed

section \<open>The rows of a document shown as ready\<close>

definition view_of_rows :: "document \<Rightarrow> reader_rows \<Rightarrow> extraction_view" where
  "view_of_rows x rows =
     \<lparr>ev_document = x, ev_assets = rr_assets rows, ev_validation = rr_validation rows, ev_job = rr_job rows,
      ev_generation = map_option (\<lambda>(f, j, t, m). (f, j, t, map_option fst m)) (rr_generation rows)\<rparr>"

definition sorted_chunks :: "reader_rows \<Rightarrow> (ident \<times> chunk_row) list" where
  "sorted_chunks rows = sort_key chunk_number (rr_chunks rows)"

text \<open>
  The rows of a paper the caller may read, whose document \<open>getDocumentExtractionLifecycles\<close> shows as
  ready and whose chunks \<open>extractionChunksAreSound\<close> accepts.
\<close>

definition rows_shown_ready ::
    "(string \<Rightarrow> string) \<Rightarrow> (string \<Rightarrow> string) \<Rightarrow> string \<Rightarrow> reader_subject \<Rightarrow> reader_rows \<Rightarrow> bool" where
  "rows_shown_ready nfc sha256 policyVersion s rows \<longleftrightarrow>
     rr_member rows \<and> rr_paper rows \<noteq> None
     \<and> (case (rr_document rows, rr_generation rows) of
          (Some x, Some (f, _)) \<Rightarrow>
            linked_paper_is_sound True x
            \<and> el_state (document_extraction_lifecycle (rs_workspaceId s) policyVersion (view_of_rows x rows))
                = Shown_ready
            \<and> extraction_chunks_are_sound nfc sha256 f (sorted_chunks rows)
        | _ \<Rightarrow> False)"

lemma shown_readyE:
  assumes "el_state (document_extraction_lifecycle org policyVersion w) = Shown_ready"
  obtains a v vj vt job payload f j t m where
    "ev_assets w = [a]" "ev_validation w = Some (v, vj, vt)" "ev_job w = Some job"
    "current_accepted_validation v vj vt (ev_document w) a False"
    "current_extraction_job_payload (j_payload job) v policyVersion = Some payload"
    "valid_opaque_id (j_id job)"
    "authoritative_extraction_job_state (j_status job) (j_attempts job) (j_maxAttempts job) = Job_succeeded"
    "ev_generation w = Some (f, j, t, Some m)"
    "f_validationAttestationId f = v_id v" "f_jobId f = j_id job" "f_toolchainDigest f = ep_toolchainDigest payload"
    "extraction_generation_is_sound f j t v policyVersion"
    "extraction_manifest_admission_is_sound m f org" "f_verdict f = EXTRACTED"
proof -
  have verdict: "f_verdict f = EXTRACTED" if "f_verdict f \<noteq> NO_TEXT" for f using that by (cases "f_verdict f") simp_all
  have job: "s = Job_succeeded" if "s \<noteq> Job_failed" "s \<noteq> Job_queued" "s \<noteq> Job_extracting" for s
    using that by (cases s) simp_all
  from assms obtain a v vj vt job where
    w: "ev_assets w = [a]" "ev_validation w = Some (v, vj, vt)" "ev_job w = Some job"
    "current_accepted_validation v vj vt (ev_document w) a False"
    and el: "el_state (extraction_job_lifecycle org policyVersion v a job w) = Shown_ready"
    by (auto simp: document_extraction_lifecycle_def plain_lifecycle_def split: list.splits option.splits if_splits)
  from el obtain payload f m where
    p: "current_extraction_job_payload (j_payload job) v policyVersion = Some payload" "valid_opaque_id (j_id job)"
      "authoritative_extraction_job_state (j_status job) (j_attempts job) (j_maxAttempts job) = Job_succeeded"
    and g: "admitted_generation org policyVersion v job payload w = Some (f, m)" and "f_verdict f \<noteq> NO_TEXT"
    by (auto simp: extraction_job_lifecycle_def plain_lifecycle_def Let_def dest: job
        split: option.splits if_splits)
  from g obtain j t where "ev_generation w = Some (f, j, t, Some m)"
    "f_validationAttestationId f = v_id v" "f_jobId f = j_id job" "f_toolchainDigest f = ep_toolchainDigest payload"
    "extraction_generation_is_sound f j t v policyVersion" "extraction_manifest_admission_is_sound m f org"
    by (auto simp: admitted_generation_def split: option.splits if_splits)
  then show thesis using w p verdict [OF \<open>f_verdict f \<noteq> NO_TEXT\<close>] by (intro that)
qed

text \<open>What the transaction of such rows hands to the page, from a place on.\<close>

definition ready_document_of :: "document \<Rightarrow> asset \<Rightarrow> attestation_row \<Rightarrow> document_metadata" where
  "ready_document_of x a v =
     (case document_metadata_of x a v of Inr m \<Rightarrow> m)"

definition material_from ::
    "reader_subject \<Rightarrow> document_metadata \<Rightarrow> generation_metadata \<Rightarrow> (ident \<times> chunk_row) list \<Rightarrow> int \<Rightarrow> int \<Rightarrow> ready_material" where
  "material_from s x g cs limit start =
     \<lparr>rm_document = x, rm_generation = g, rm_chunks = map served_chunk (take (nat limit) (drop (nat start) cs)),
      rm_startSequence = start, rm_subject = s\<rparr>"

definition claims_from :: "ident \<Rightarrow> int \<Rightarrow> reader_claims option" where
  "claims_from g start = (if start = 0 then None else Some \<lparr>rc_generationId = g, rc_nextSequence = NInt start\<rparr>)"

lemma resolve_sound_chunks:
  assumes cs: "extraction_chunks_measured nfc sha256 f (sort_key chunk_number cs) 0 None 0 = Some tot"
    and n: "f_chunkCount f = NInt (int (length cs))"
    and start: "0 \<le> start" "start < int (length cs)" and limit: "1 \<le> pq_limit query"
  shows "resolve_chunks nfc sha256 s query (claims_from (f_id f) start) x g f cs
    = Inr (Inr (material_from s x g (sort_key chunk_number cs) (pq_limit query) start))"
proof -
  let ?cs = "sort_key chunk_number cs"
  define requested where "requested = min (pq_limit query) (int (length cs) - start)"
  define before where "before = (if start = 0 then 0 else 1 :: int)"
  have req: "1 \<le> requested" "start + requested \<le> int (length cs)"
    using start limit by (simp_all add: requested_def)
  have before: "0 \<le> start - before" "0 \<le> before" using start by (simp_all add: before_def)
  then have "nat before \<le> nat start" by (intro nat_mono) simp
  define part where "part = take (nat (requested + before)) (drop (nat (start - before)) ?cs)"
  have sel: "select_chunks (start - before) (requested + before) cs = part"
    unfolding part_def by (rule select_measured [OF cs before(1)])
  have len: "int (length part) = requested + before"
    using req before by (simp add: part_def)
  have "nat (start - before) \<le> length ?cs" using start before by simp
  from measured_drop [OF cs this] obtain previous m' where
    "extraction_chunks_measured nfc sha256 f (drop (nat (start - before)) ?cs) (0 + int (nat (start - before)))
      previous m' = Some tot" .
  then have rest: "extraction_chunks_measured nfc sha256 f (drop (nat (start - before)) ?cs) (start - before)
      previous m' = Some tot"
    using before(1) by simp
  have val: "validate_bounded_chunks nfc sha256 f part (start - before) start None
      = Some (map served_chunk (drop (nat before) part))"
    using validate_measured [OF rest, of None "nat (requested + before)" start] identity_first_paragraph before
    by (simp add: part_def)
  have "drop (nat before) part = take (nat requested) (drop (nat start) ?cs)"
    using before start req \<open>nat before \<le> nat start\<close> by (simp add: part_def drop_take nat_add_distrib nat_diff_distrib)
  also have "\<dots> = take (nat (pq_limit query)) (drop (nat start) ?cs)"
    using start limit by (auto simp: requested_def min_def)
  finally have out: "drop (nat before) part = take (nat (pq_limit query)) (drop (nat start) ?cs)" .
  have "int (length (drop (nat before) part)) = requested" using len before req by simp
  then have out_len: "int (length (take (nat (pq_limit query)) (drop (nat start) ?cs))) = requested"
    by (simp only: out)
  have val': "validate_bounded_chunks nfc sha256 f part (start - before) start None
      = Some (map served_chunk (take (nat (pq_limit query)) (drop (nat start) ?cs)))"
    using val by (simp only: out)
  show ?thesis
  proof (cases "start = 0")
    case True
    then show ?thesis
      using sel len val' out_len start
      by (simp add: resolve_chunks_def claims_from_def n material_from_def requested_def before_def del: length_take)
  next
    case False
    then show ?thesis
      using sel len val' out_len start
      by (simp add: resolve_chunks_def claims_from_def n material_from_def requested_def before_def Let_def
          del: length_take)
  qed
qed

lemma rows_shown_readyE:
  assumes "rows_shown_ready nfc sha256 policyVersion s rows"
  obtains x a v f j t m tot where
    "rr_member rows" "rr_paper rows \<noteq> None" "rr_generation rows = Some (f, j, t, Some m)"
    "document_metadata_of x a v = Inr (ready_document_of x a v)"
    "current_accepted_validation v (fst (snd (the (rr_validation rows)))) (snd (snd (the (rr_validation rows)))) x a True"
    "extraction_generation_is_sound f j t v policyVersion"
    "extraction_manifest_admission_is_sound (fst m) f (rs_workspaceId s)"
    "extraction_chunks_measured nfc sha256 f (sorted_chunks rows) 0 None 0 = Some tot"
    "f_chunkCount f = NInt (int (length (rr_chunks rows)))" "rr_chunks rows \<noteq> []"
    "\<And>query claims. resolve_document nfc sha256 policyVersion s query claims rows
      = resolve_chunks nfc sha256 s query claims (ready_document_of x a v) (generation_metadata_of f m) f (rr_chunks rows)"
proof -
  from assms obtain x f rest where x: "rr_document rows = Some x" and f: "rr_generation rows = Some (f, rest)"
    and acc: "rr_member rows" "rr_paper rows \<noteq> None" and linked: "linked_paper_is_sound True x"
    and sh: "el_state (document_extraction_lifecycle (rs_workspaceId s) policyVersion (view_of_rows x rows)) = Shown_ready"
    and cs: "extraction_chunks_are_sound nfc sha256 f (sorted_chunks rows)"
    by (auto simp: rows_shown_ready_def split: option.splits)
  from sh show thesis
  proof (rule shown_readyE)
    fix a v vj vt job payload f' j t m'
    assume w: "ev_assets (view_of_rows x rows) = [a]" "ev_validation (view_of_rows x rows) = Some (v, vj, vt)"
      "ev_job (view_of_rows x rows) = Some job" "ev_generation (view_of_rows x rows) = Some (f', j, t, Some m')"
      and cur: "current_accepted_validation v vj vt (ev_document (view_of_rows x rows)) a False"
      and job: "current_extraction_job_payload (j_payload job) v policyVersion = Some payload" "valid_opaque_id (j_id job)"
        "authoritative_extraction_job_state (j_status job) (j_attempts job) (j_maxAttempts job) = Job_succeeded"
      and gen: "f_validationAttestationId f' = v_id v" "f_jobId f' = j_id job"
        "f_toolchainDigest f' = ep_toolchainDigest payload" "extraction_generation_is_sound f' j t v policyVersion"
        "extraction_manifest_admission_is_sound m' f' (rs_workspaceId s)" and ext: "f_verdict f' = EXTRACTED"
    from w(4) f obtain m where m: "rr_generation rows = Some (f, j, t, Some m)" "f' = f" "m' = fst m"
      by (cases rest) (auto simp: view_of_rows_def)
    have cur': "current_accepted_validation v vj vt x a True"
      using cur linked by (simp add: current_accepted_validation_def view_of_rows_def)
    have links: "truthy (d_workspacePaperId x)" "truthy (d_paperId x)"
      using linked by (auto simp: linked_paper_is_sound_def valid_opaque_id_def opaque_id_pattern_def
          split: option.splits)
    have doc: "document_metadata_of x a v = Inr (ready_document_of x a v)"
      using links by (simp add: ready_document_of_def document_metadata_of_def)
    have asset: "a_status a = A_READY" "a_deletedAt a = None"
      using cur' by (simp_all add: current_accepted_validation_def asset_is_current_def)
    from cs ext m(2) obtain tot where tot: "extraction_chunks_measured nfc sha256 f (sorted_chunks rows) 0 None 0 = Some tot"
      and n: "NInt (int (length (sorted_chunks rows))) = f_chunkCount f" "1 \<le> num_val (f_chunkCount f)"
      by (auto simp: extraction_chunks_are_sound_def split: option.splits)
    have res: "resolve_document nfc sha256 policyVersion s query claims rows
      = resolve_chunks nfc sha256 s query claims (ready_document_of x a v) (generation_metadata_of f m) f (rr_chunks rows)"
      for query claims
      using x w asset cur' doc job gen ext m
      by (simp add: resolve_document_def resolve_job_def resolve_generation_def view_of_rows_def Let_def)
    show thesis
      using acc m(1) doc cur' gen(4,5) tot n(2) n(1) [symmetric] res w
      by (intro that [of f j t m x a v tot]) (auto simp: m(2,3) view_of_rows_def sorted_chunks_def)
  qed
qed

end
