(* ===== verification/Reader_Reading.thy ===== *)
theory Reader_Reading
  imports Reader_Ready
begin

text \<open>
  Reading a document to its end: one page of a ready document, and the pages a reader gets by following
  \<open>nextCursor\<close>.
\<close>

section \<open>One page\<close>

lemma served_chunk_short:
  assumes "extraction_generation_is_sound f j t v policyVersion" "v_pageCount v = Some (f_pageCount f)"
    and "bounded_count 1 max_extracted_page_count (v_pageCount v)"
    and "\<forall>s. length (sha256 s) = 64" "extraction_chunk_is_sound nfc sha256 f c"
  shows "short_chunk (served_chunk c)"
proof -
  let ?h = "snd c"
  from assms(5) obtain page para where places: "h_pageStart ?h = Some page" "h_paragraphId ?h = Some para"
    and pid: "paragraph_identity ?h \<noteq> None" and id: "valid_opaque_id (fst c)"
    and seq: "bounded_integer 0 (num_val (f_chunkCount f) - 1) (h_sequence ?h)"
    and pg: "bounded_integer 1 (num_val (f_pageCount f)) page"
    and canon: "canonical_text nfc (h_text ?h)" and hash: "sha256 (h_text ?h) = h_contentHash ?h"
    by (auto simp: extraction_chunk_is_sound_def Let_def split: option.splits)
  from pid places obtain p q where pq: "parse_paragraph_id para = Some (p, q)" "page = NInt p"
    "q \<le> max_extracted_chunk_count"
    by (auto simp: paragraph_identity_def split: option.splits if_splits prod.splits)
  from assms(2,3) have "num_val (f_pageCount f) \<le> 2000"
    by (auto simp: max_extracted_page_count_def elim: bounded_integerE)
  with pg pq(2) have "p < 10 ^ 4" by simp
  moreover from pq(3) have "q < 10 ^ 4" by (simp add: max_extracted_chunk_count_def)
  ultimately have "length para \<le> 2 * 4 + 3" by (rule parse_paragraph_id_length [OF pq(1)])
  moreover have "length (h_contentHash ?h) = 64" using hash assms(4) by metis
  ultimately show ?thesis
    using short_id [OF id] short_number [OF seq] short_number [OF pg] canon
    by (simp add: short_chunk_def served_chunk_def places canonical_text_def)
qed

lemma ready_document_short:
  assumes "document_metadata_of x a v = Inr m" "current_accepted_validation v vj vt x a True"
  shows "short_document m"
proof -
  from assms have m: "m = \<lparr>dm_id = d_id x, dm_workspacePaperId = the (d_workspacePaperId x),
      dm_paperId = the (d_paperId x), dm_assetId = a_id a, dm_inputSha256 = v_inputSha256 v,
      dm_inputSizeBytes = jnum_text (NInt (v_inputSizeBytes v)), dm_pageCount = the (v_pageCount v),
      dm_validationAttestationId = v_id v, dm_validationPolicyVersion = v_policyVersion v,
      dm_validatedAt = iso_format (v_checkedAt v)\<rparr>"
    by (auto simp: document_metadata_of_def split: if_splits)
  from assms(2) have lk: "valid_opaque_id (the (d_workspacePaperId x))" "valid_opaque_id (the (d_paperId x))"
    by (auto simp: current_accepted_validation_def linked_paper_is_sound_def split: option.splits)
  from assms(2) have v: "valid_opaque_id (d_id x)" "valid_opaque_id (a_id a)" "valid_opaque_id (v_id v)"
    "nonzero_digest (v_inputSha256 v)" "v_policyVersion v = validation_policy_version"
    "1 \<le> v_inputSizeBytes v" "v_inputSizeBytes v \<le> max_input_bytes"
    "bounded_count 1 max_extracted_page_count (v_pageCount v)"
    by (simp_all add: current_accepted_validation_def attestation_is_current_def)
  from v(8) obtain n where n: "v_pageCount v = Some n" "bounded_integer 1 max_extracted_page_count n"
    by (cases "v_pageCount v") simp_all
  have "bounded_integer 1 max_input_bytes (NInt (v_inputSizeBytes v))"
    using v(6,7) by (simp add: max_input_bytes_def max_safe_integer_def)
  from short_number [OF this] short_number [OF n(2)] show ?thesis
    using v lk n(1) length_iso_format [of "v_checkedAt v"]
    by (simp add: m short_document_def short_id short_digest validation_policy_version_def del: jnum_text.simps)
qed

lemma ready_generation_short:
  assumes "extraction_generation_is_sound f j t v policyVersion"
    and "extraction_manifest_admission_is_sound (fst m) f org" "policy_value_pattern policyVersion"
    and "bounded_count 1 max_extracted_page_count (v_pageCount v)"
  shows "short_generation (generation_metadata_of f m)"
proof -
  from assms(1) have f: "valid_opaque_id (f_id f)" "valid_opaque_id (f_validationAttestationId f)"
    "f_extractionPolicyVersion f = policyVersion" "nonzero_digest (f_toolchainDigest f)"
    "safe_value_pattern (f_engineVersion f)" "v_pageCount v = Some (f_pageCount f)"
    "bounded_integer 0 max_extracted_chunk_count (f_chunkCount f)"
    "bounded_integer 0 max_extracted_text_bytes (f_textBytes f)"
    unfolding extraction_generation_is_sound_def by blast+
  from assms(2) have "nonzero_digest (m_manifestSha256 (fst m))"
    by (simp add: extraction_manifest_admission_is_sound_def)
  moreover have "bounded_integer 1 max_extracted_page_count (f_pageCount f)" using assms(4) f(6) by simp
  ultimately show ?thesis
    using f assms(3) short_number [OF f(7)] short_number [OF f(8)]
      short_number [of 1 max_extracted_page_count "f_pageCount f"]
      length_iso_format [of "snd m"] length_iso_format [of "f_extractedAt f"]
      length_iso_format [of "f_completedAt f"] length_iso_format [of "f_checkedAt f"]
    by (simp add: short_generation_def generation_metadata_of_def short_id short_digest short_pattern
        del: bounded_integer.simps)
qed

definition generation_id :: "reader_rows \<Rightarrow> ident" where
  "generation_id rows = (case rr_generation rows of None \<Rightarrow> [] | Some g \<Rightarrow> f_id (fst g))"

text \<open>Every place of a ready document gives material, and a page of one chunk of it fits.\<close>

lemma ready_material:
  assumes rows: "rows_shown_ready nfc sha256 policyVersion s rows" and pol: "policy_value_pattern policyVersion"
    and sha: "\<forall>t. length (sha256 t) = 64" and s: "valid_subject s"
  obtains x g where
    "\<And>query start. 0 \<le> start \<Longrightarrow> start < int (length (rr_chunks rows)) \<Longrightarrow> 1 \<le> pq_limit query
      \<Longrightarrow> resolve_document nfc sha256 policyVersion s query (claims_from (gm_id g) start) rows
          = Inr (Inr (material_from s x g (sorted_chunks rows) (pq_limit query) start))"
    "\<And>limit start. 0 \<le> start \<Longrightarrow> start < int (length (rr_chunks rows)) \<Longrightarrow> 1 \<le> limit
      \<Longrightarrow> material_ok (material_from s x g (sorted_chunks rows) limit start)"
    "\<And>limit start hmac secret. 0 \<le> start \<Longrightarrow> start < int (length (rr_chunks rows)) \<Longrightarrow> 1 \<le> limit
      \<Longrightarrow> page_fits (page_with hmac secret (material_from s x g (sorted_chunks rows) limit start) 1)"
    "gm_chunkCount g = NInt (int (length (rr_chunks rows)))" "rr_chunks rows \<noteq> []"
    "int (length (rr_chunks rows)) \<le> max_extracted_chunk_count" "valid_opaque_id (gm_id g)"
    "gm_id g = generation_id rows"
  using rows
proof (rule rows_shown_readyE)
  fix x a v f j t m tot
  let ?v = "fst (snd (the (rr_validation rows)))" and ?t = "snd (snd (the (rr_validation rows)))"
  let ?x = "ready_document_of x a v" and ?g = "generation_metadata_of f m" and ?cs = "sorted_chunks rows"
  assume row: "rr_generation rows = Some (f, j, t, Some m)"
    and doc: "document_metadata_of x a v = Inr ?x" and cur: "current_accepted_validation v ?v ?t x a True"
    and gen: "extraction_generation_is_sound f j t v policyVersion"
    and adm: "extraction_manifest_admission_is_sound (fst m) f (rs_workspaceId s)"
    and cs: "extraction_chunks_measured nfc sha256 f ?cs 0 None 0 = Some tot"
    and n: "f_chunkCount f = NInt (int (length (rr_chunks rows)))" "rr_chunks rows \<noteq> []"
    and res: "\<And>query claims. resolve_document nfc sha256 policyVersion s query claims rows
      = resolve_chunks nfc sha256 s query claims ?x ?g f (rr_chunks rows)"
  have g: "gm_id ?g = f_id f" "gm_chunkCount ?g = f_chunkCount f" by (simp_all add: generation_metadata_of_def)
  from gen have id: "valid_opaque_id (f_id f)" and vp: "v_pageCount v = Some (f_pageCount f)"
    and count: "bounded_integer 0 max_extracted_chunk_count (f_chunkCount f)"
    unfolding extraction_generation_is_sound_def by blast+
  from count n(1) have max: "int (length (rr_chunks rows)) \<le> max_extracted_chunk_count" by simp
  have len: "length ?cs = length (rr_chunks rows)" by (simp add: sorted_chunks_def)
  from cur have pages: "bounded_count 1 max_extracted_page_count (v_pageCount v)"
    by (simp add: current_accepted_validation_def attestation_is_current_def)
  have short: "short_document ?x" "short_generation ?g"
    by (rule ready_document_short [OF doc cur], rule ready_generation_short [OF gen adm pol pages])
  have sound: "short_chunk (served_chunk c)" if "c \<in> set ?cs" for c
  proof -
    from that obtain i where i: "i < length ?cs" "?cs ! i = c" by (auto simp: in_set_conv_nth)
    then have "i \<le> length ?cs" by simp
    from measured_drop [OF cs this] obtain p' m' where
      "extraction_chunks_measured nfc sha256 f (drop i ?cs) (0 + int i) p' m' = Some tot" .
    with i have "extraction_chunk_is_sound nfc sha256 f c"
      by (auto simp: Cons_nth_drop_Suc [symmetric] split: if_splits)
    then show ?thesis by (rule served_chunk_short [OF gen vp pages sha])
  qed
  have ok: "material_ok (material_from s ?x ?g ?cs limit start)"
    if "0 \<le> start" "start < int (length (rr_chunks rows))" "1 \<le> limit" for limit start
    using that s id max by (auto simp: material_ok_def material_from_def g n(1) len)
  have one: "page_fits (page_with hmac secret (material_from s ?x ?g ?cs limit start) 1)"
    if "0 \<le> start" "start < int (length (rr_chunks rows))" "1 \<le> limit" for limit start hmac secret
  proof -
    let ?m = "material_from s ?x ?g ?cs limit start"
    from ok [OF that] have ne: "rm_chunks ?m \<noteq> []" by (simp add: material_ok_def)
    then have "hd (rm_chunks ?m) \<in> served_chunk ` set ?cs"
      using hd_in_set [OF ne] by (auto simp: material_from_def dest: in_set_takeD in_set_dropD)
    then have "short_chunk (hd (rm_chunks ?m))" by (metis imageE sound)
    with ne short show ?thesis by (intro first_page_fits) (simp_all add: material_from_def)
  qed
  have "resolve_document nfc sha256 policyVersion s query (claims_from (gm_id ?g) start) rows
      = Inr (Inr (material_from s ?x ?g ?cs (pq_limit query) start))"
    if "0 \<le> start" "start < int (length (rr_chunks rows))" "1 \<le> pq_limit query" for query start
    unfolding res g(1) sorted_chunks_def
    by (rule resolve_sound_chunks [OF cs [unfolded sorted_chunks_def] n(1) that])
  then show thesis
    using ok one n max id row by (intro that [of ?g ?x]) (simp_all add: g generation_id_def)
qed

end
