(* ===== verification/Reader_Follow.thy ===== *)
theory Reader_Follow
  imports Reader_Reading
begin

text \<open>
  The requests of a reader that follows \<open>nextCursor\<close>: the parameters it sends, the page it gets at each
  place, and the pages together.
\<close>

section \<open>The requests\<close>

definition page_params :: "string option \<Rightarrow> string option \<Rightarrow> (string \<times> string) list" where
  "page_params cursor limit =
     (case cursor of None \<Rightarrow> [] | Some t \<Rightarrow> [(''cursor'', t)]) @ (case limit of None \<Rightarrow> [] | Some l \<Rightarrow> [(''limit'', l)])"

fun limit_value :: "string option \<Rightarrow> int" where
  "limit_value None = default_reader_page_limit"
| "limit_value (Some l) = digits_val l"

fun valid_limit :: "string option \<Rightarrow> bool" where
  "valid_limit None \<longleftrightarrow> True"
| "valid_limit (Some l) \<longleftrightarrow> positive_decimal l \<and> digits_val l \<le> max_reader_page_limit"

text \<open>The cursor a page before place \<open>i\<close> of \<open>n\<close> ends with.\<close>

definition cursor_at ::
    "(string \<Rightarrow> string \<Rightarrow> string) \<Rightarrow> string \<Rightarrow> reader_subject \<Rightarrow> ident \<Rightarrow> int \<Rightarrow> int \<Rightarrow> string option" where
  "cursor_at hmac key s g n i =
     (if i = 0 \<or> n \<le> i then None
      else case issue_cursor hmac key s \<lparr>rc_generationId = g, rc_nextSequence = NInt i\<rparr> of
             Inl e \<Rightarrow> None | Inr t \<Rightarrow> Some t)"

text \<open>
  A reader that asks for a page, then for the page of its \<open>nextCursor\<close>, and so on, one request for each
  limit of the list, until a page has no cursor.
\<close>

fun follow_pages ::
    "((string \<times> string) list \<Rightarrow> reader_error + reader_page) \<Rightarrow> string option \<Rightarrow> string option list
      \<Rightarrow> reader_error + reader_page list" where
  "follow_pages get cursor [] = Inr []"
| "follow_pages get cursor (l # ls) =
     and_then (get (page_params cursor l)) (\<lambda>page.
       case page of
         Reader_ready x g cs (Some t) \<Rightarrow> map_sum id (Cons page) (follow_pages get (Some t) ls)
       | _ \<Rightarrow> Inr [page])"

fun page_chunks :: "reader_page \<Rightarrow> reader_chunk list" where
  "page_chunks (Reader_ready x g cs t) = cs"
| "page_chunks _ = []"

fun page_cursor :: "reader_page \<Rightarrow> string option" where
  "page_cursor (Reader_ready x g cs t) = t"
| "page_cursor _ = None"

fun page_ready :: "reader_page \<Rightarrow> bool" where
  "page_ready (Reader_ready x g cs t) \<longleftrightarrow> True"
| "page_ready _ \<longleftrightarrow> False"

section \<open>One request\<close>

lemma issued_pattern:
  assumes "hmac_law hmac" "issue_cursor hmac key s c = Inr token"
  shows "reader_cursor_pattern token" "utf8_bytes token \<le> max_reader_cursor_bytes"
proof -
  let ?part = "encode_payload c" let ?mac = "signature_of hmac key ?part s"
  from assms have ok: "valid_claims c" and token: "token = cursor_prefix @ ''.'' @ ?part @ ''.'' @ base64url ?mac"
    by (simp_all add: issue_cursor_Inr_iff token_without_signature_def)
  have parts: "split_char (CHR ''.'') token = [cursor_prefix, ?part, base64url ?mac]"
    unfolding token
    by (simp add: split_char_append split_char_plain base64_no_dot base64url_chars encode_payload_def
        cursor_prefix_def)
  have "length (base64url ?mac) = 43"
    using assms(1) by (simp add: length_base64url hmac_law_def signature_of_def)
  then show "reader_cursor_pattern token"
    using claims_text_length(2) [OF ok]
    by (simp add: reader_cursor_pattern_def parts cursor_prefix_def base64url_chars encode_payload_def
        base64url_pattern_base64url)
  show "utf8_bytes token \<le> max_reader_cursor_bytes"
    using assms(2) by (auto simp: issue_cursor_def Let_def split: if_splits)
qed

lemma limit_value_bounds: "valid_limit l \<Longrightarrow> 1 \<le> limit_value l \<and> limit_value l \<le> max_reader_page_limit"
  using positive_decimal_pos
  by (cases l) (auto simp: default_reader_page_limit_def max_reader_page_limit_def)

lemma parse_page_params:
  assumes "valid_limit l" "\<And>t. cursor = Some t \<Longrightarrow> reader_cursor_pattern t \<and> utf8_bytes t \<le> max_reader_cursor_bytes"
  shows "parse_reader_page_query (page_params cursor l) = Inr \<lparr>pq_cursor = cursor, pq_limit = limit_value l\<rparr>"
  using assms limit_value_bounds [OF assms(1)]
  by (cases cursor; cases l)
    (simp_all add: parse_reader_page_query_def page_params_def all_values_def Let_def not_less)

text \<open>The cursor of a place exists and is read back as the claims of that place.\<close>

lemma cursor_issued:
  assumes law: "hmac_law hmac" and s: "valid_subject s" and g: "valid_opaque_id g"
    and i: "0 < i" "i < n" and n: "n \<le> max_extracted_chunk_count"
  obtains t where "cursor_at hmac key s g n i = Some t"
    "issue_cursor hmac key s \<lparr>rc_generationId = g, rc_nextSequence = NInt i\<rparr> = Inr t"
proof -
  let ?c = "\<lparr>rc_generationId = g, rc_nextSequence = NInt i\<rparr>"
  have "bounded_integer 1 (max_extracted_chunk_count - 1) (NInt i)"
    using i n by (simp add: max_extracted_chunk_count_def max_safe_integer_def)
  then have "valid_claims ?c"
    using g by (simp add: valid_claims_def valid_next_sequence_def del: bounded_integer.simps)
  with law s obtain t where "issue_cursor hmac key s ?c = Inr t" by (simp add: issue_cursor_Inr_iff)
  with i show thesis by (intro that) (simp_all add: cursor_at_def)
qed

lemma cursor_read:
  assumes law: "hmac_law hmac" "parse_law parse" and s: "valid_subject s" and g: "valid_opaque_id g"
    and i: "0 \<le> i" "i < n" and n: "n \<le> max_extracted_chunk_count"
  shows "(case cursor_at hmac key s g n i of None \<Rightarrow> Inr None
      | Some token \<Rightarrow> map_sum id Some (verify_cursor hmac parse key token s)) = Inr (claims_from g i)"
    and "cursor_at hmac key s g n i = Some t \<Longrightarrow> reader_cursor_pattern t \<and> utf8_bytes t \<le> max_reader_cursor_bytes"
proof -
  let ?c = "\<lparr>rc_generationId = g, rc_nextSequence = NInt i\<rparr>"
  have "\<exists>t. cursor_at hmac key s g n i = Some t \<and> issue_cursor hmac key s ?c = Inr t" if "i \<noteq> 0"
    using cursor_issued [OF law(1) s g _ i(2) n] that i(1) by (metis order_le_neq_trans)
  then consider "i = 0" "cursor_at hmac key s g n i = None"
    | t where "i \<noteq> 0" "cursor_at hmac key s g n i = Some t" "issue_cursor hmac key s ?c = Inr t"
    by (cases "i = 0") (auto simp: cursor_at_def)
  then show "(case cursor_at hmac key s g n i of None \<Rightarrow> Inr None
      | Some token \<Rightarrow> map_sum id Some (verify_cursor hmac parse key token s)) = Inr (claims_from g i)"
    "cursor_at hmac key s g n i = Some t \<Longrightarrow> reader_cursor_pattern t \<and> utf8_bytes t \<le> max_reader_cursor_bytes"
    using cursor_verifies [OF law, of key _ s ?c] issued_pattern [OF law(1), of key s ?c]
    by (cases; auto simp: claims_from_def map_sum_Inr_iff)+
qed

text \<open>The page a request at place \<open>i\<close> is answered with: its chunks, the largest number that fits, and its cursor.\<close>

definition page_at ::
    "(string \<Rightarrow> string \<Rightarrow> string) \<Rightarrow> string \<Rightarrow> reader_subject \<Rightarrow> document_metadata \<Rightarrow> generation_metadata
      \<Rightarrow> (ident \<times> chunk_row) list \<Rightarrow> int \<Rightarrow> int \<Rightarrow> reader_page" where
  "page_at hmac key s x g cs i k =
     Reader_ready x g (map served_chunk (take (nat k) (drop (nat i) cs)))
       (cursor_at hmac key s (gm_id g) (int (length cs)) (i + k))"

lemma page_with_at:
  assumes "0 \<le> i" "1 \<le> k" "k \<le> limit" "i + k \<le> int (length cs)" "gm_chunkCount g = NInt (int (length cs))"
  shows "page_with hmac key (material_from s x g cs limit i) k = page_at hmac key s x g cs i k"
proof -
  have "take (nat k) (take (nat limit) (drop (nat i) cs)) = take (nat k) (drop (nat i) cs)"
    using assms(2,3) by (simp add: min_def nat_le_iff)
  then show ?thesis
    using assms by (simp add: page_with_def page_at_def material_from_def cursor_at_def next_claims_def take_map)
qed

lemma bounded_page_at:
  assumes law: "hmac_law hmac" and ok: "material_ok (material_from s x g cs limit i)"
    and i: "0 \<le> i" "i < int (length cs)" and limit: "1 \<le> limit"
    and n: "gm_chunkCount g = NInt (int (length cs))"
    and one: "page_fits (page_with hmac key (material_from s x g cs limit i) 1)"
  shows "\<exists>k. 1 \<le> k \<and> k \<le> limit \<and> i + k \<le> int (length cs)
    \<and> bounded_ready_page hmac key (material_from s x g cs limit i) = Inr (page_at hmac key s x g cs i k)
    \<and> page_fits (page_at hmac key s x g cs i k)
    \<and> (\<forall>j. k < j \<and> j \<le> limit \<and> i + j \<le> int (length cs) \<longrightarrow> \<not> page_fits (page_at hmac key s x g cs i j))"
proof -
  let ?m = "material_from s x g cs limit i"
  have len: "int (length (rm_chunks ?m)) = min limit (int (length cs) - i)"
    using i limit by (simp add: material_from_def of_nat_min of_nat_diff min.commute)
  from bounded_page_largest [OF law ok, of key] one len i limit obtain k where
    k: "1 \<le> k" "k \<le> limit" "k \<le> int (length cs) - i"
      "bounded_ready_page hmac key ?m = Inr (page_with hmac key ?m k)" "page_fits (page_with hmac key ?m k)"
    and most: "\<And>j. k < j \<Longrightarrow> j \<le> limit \<Longrightarrow> j \<le> int (length cs) - i \<Longrightarrow> \<not> page_fits (page_with hmac key ?m j)"
    by (auto simp: min_le_iff_disj)
  have at: "page_with hmac key ?m j = page_at hmac key s x g cs i j"
    if "1 \<le> j" "j \<le> limit" "j \<le> int (length cs) - i" for j
    using that i n by (intro page_with_at) simp_all
  have "\<not> page_fits (page_at hmac key s x g cs i j)" if "k < j" "j \<le> limit" "i + j \<le> int (length cs)" for j
    using most [of j] at [of j] that k(1) by simp
  with k at [of k] show ?thesis by (intro exI [of _ k]) simp
qed

text \<open>The environment of the reader: a usable policy version and a usable secret, and a caller with valid identifiers.\<close>

definition reader_configured :: "string option \<Rightarrow> string option \<Rightarrow> string \<Rightarrow> string \<Rightarrow> bool" where
  "reader_configured policy secret policyVersion key \<longleftrightarrow>
     authoritative_extraction_policy_version policy = Inr policyVersion
     \<and> truthy secret \<and> cursor_secret_bytes (the secret) = Inr key"

lemma request_page:
  assumes law: "hmac_law hmac" "parse_law parse" and sha: "\<forall>t. length (sha256 t) = 64"
    and conf: "reader_configured policy secret policyVersion key" and s: "valid_subject s"
    and rows: "rows_shown_ready nfc sha256 policyVersion s rows"
  obtains x g where "rr_chunks rows \<noteq> []"
    "\<And>i limit. 0 \<le> i \<Longrightarrow> i < int (length (rr_chunks rows)) \<Longrightarrow> valid_limit limit \<Longrightarrow>
      \<exists>k. 1 \<le> k \<and> k \<le> limit_value limit \<and> i + k \<le> int (length (rr_chunks rows))
        \<and> get_workspace_paper_reader hmac parse nfc sha256 policy secret s
            (page_params (cursor_at hmac key s (gm_id g) (int (length (rr_chunks rows))) i) limit) rows
          = Inr (page_at hmac key s x g (sorted_chunks rows) i k)
        \<and> page_fits (page_at hmac key s x g (sorted_chunks rows) i k)
        \<and> (\<forall>j. k < j \<and> j \<le> limit_value limit \<and> i + j \<le> int (length (rr_chunks rows))
             \<longrightarrow> \<not> page_fits (page_at hmac key s x g (sorted_chunks rows) i j))"
    "gm_chunkCount g = NInt (int (length (rr_chunks rows)))" "valid_opaque_id (gm_id g)"
    "int (length (rr_chunks rows)) \<le> max_extracted_chunk_count" "gm_id g = generation_id rows"
proof -
  from conf have pol: "policy_value_pattern policyVersion"
    by (auto simp: reader_configured_def authoritative_extraction_policy_version_def Let_def split: if_splits)
  let ?n = "int (length (rr_chunks rows))" and ?cs = "sorted_chunks rows"
  have len: "length ?cs = length (rr_chunks rows)" by (simp add: sorted_chunks_def)
  from rows obtain paper where acc: "rr_member rows" "rr_paper rows = Some paper"
    by (auto simp: rows_shown_ready_def)
  show thesis
  proof (rule ready_material [OF rows pol sha s])
    fix x g
    assume res: "\<And>query start. 0 \<le> start \<Longrightarrow> start < ?n \<Longrightarrow> 1 \<le> pq_limit query
        \<Longrightarrow> resolve_document nfc sha256 policyVersion s query (claims_from (gm_id g) start) rows
          = Inr (Inr (material_from s x g ?cs (pq_limit query) start))"
      and ok: "\<And>limit start. 0 \<le> start \<Longrightarrow> start < ?n \<Longrightarrow> 1 \<le> limit \<Longrightarrow> material_ok (material_from s x g ?cs limit start)"
      and one: "\<And>limit start hmac secret. 0 \<le> start \<Longrightarrow> start < ?n \<Longrightarrow> 1 \<le> limit
        \<Longrightarrow> page_fits (page_with hmac secret (material_from s x g ?cs limit start) 1)"
      and n: "gm_chunkCount g = NInt ?n" "rr_chunks rows \<noteq> []" "?n \<le> max_extracted_chunk_count"
      and id: "valid_opaque_id (gm_id g)" "gm_id g = generation_id rows"
    have page: "\<exists>k. 1 \<le> k \<and> k \<le> limit_value limit \<and> i + k \<le> ?n
        \<and> get_workspace_paper_reader hmac parse nfc sha256 policy secret s
            (page_params (cursor_at hmac key s (gm_id g) ?n i) limit) rows = Inr (page_at hmac key s x g ?cs i k)
        \<and> page_fits (page_at hmac key s x g ?cs i k)
        \<and> (\<forall>j. k < j \<and> j \<le> limit_value limit \<and> i + j \<le> ?n \<longrightarrow> \<not> page_fits (page_at hmac key s x g ?cs i j))"
      if i: "0 \<le> i" "i < ?n" and l: "valid_limit limit" for i limit
    proof -
      let ?cursor = "cursor_at hmac key s (gm_id g) ?n i"
      have l1: "1 \<le> limit_value limit" using limit_value_bounds [OF l] by simp
      note read = cursor_read [OF law s id(1) i n(3), of key]
      have query: "parse_reader_page_query (page_params ?cursor limit)
          = Inr \<lparr>pq_cursor = ?cursor, pq_limit = limit_value limit\<rparr>"
        by (rule parse_page_params [OF l read(2)])
      have get: "get_workspace_paper_reader hmac parse nfc sha256 policy secret s (page_params ?cursor limit) rows
          = bounded_ready_page hmac key (material_from s x g ?cs (limit_value limit) i)"
        using conf s acc query read(1) res [of i "\<lparr>pq_cursor = ?cursor, pq_limit = limit_value limit\<rparr>"] i l1
        by (simp add: get_workspace_paper_reader_def reader_configured_def resolve_reader_def)
      show ?thesis
        unfolding get
        using bounded_page_at [OF law(1) ok [OF i l1] i(1), of key] i l1 n(1) one [OF i l1, of hmac key]
        by (simp add: len)
    qed
    show thesis by (rule that [OF n(2) page n(1) id(1) n(3) id(2)])
  qed
qed

text \<open>A cursor of another generation.\<close>

lemma stale_request:
  assumes law: "hmac_law hmac" "parse_law parse" and sha: "\<forall>t. length (sha256 t) = 64"
    and conf: "reader_configured policy secret policyVersion key" and s: "valid_subject s"
    and rows: "rows_shown_ready nfc sha256 policyVersion s rows" and l: "valid_limit limit"
    and issued: "issue_cursor hmac key s c = Inr token" and other: "rc_generationId c \<noteq> generation_id rows"
  shows "get_workspace_paper_reader hmac parse nfc sha256 policy secret s (page_params (Some token) limit) rows
    = Inl Cursor_stale"
  using rows
proof (rule rows_shown_readyE)
  fix x a v f j t m
  assume acc: "rr_member rows" "rr_paper rows \<noteq> None" and row: "rr_generation rows = Some (f, j, t, Some m)"
    and res: "\<And>query claims. resolve_document nfc sha256 policyVersion s query claims rows
      = resolve_chunks nfc sha256 s query claims (ready_document_of x a v) (generation_metadata_of f m) f (rr_chunks rows)"
  have "parse_reader_page_query (page_params (Some token) limit)
      = Inr \<lparr>pq_cursor = Some token, pq_limit = limit_value limit\<rparr>"
    using issued_pattern [OF law(1) issued] by (intro parse_page_params [OF l]) simp
  moreover have "verify_cursor hmac parse key token s = Inr c"
    using issued by (simp add: cursor_verifies [OF law])
  moreover have "rc_generationId c \<noteq> f_id f" using other row by (simp add: generation_id_def)
  ultimately show ?thesis
    using conf s acc res
    by (auto simp: get_workspace_paper_reader_def reader_configured_def resolve_reader_def resolve_chunks_def Let_def)
qed

section \<open>All the requests\<close>

lemma follow_pages_reads:
  fixes page :: "int \<Rightarrow> int \<Rightarrow> reader_page" and n :: int
  assumes step: "\<And>i l. 0 \<le> i \<Longrightarrow> i < n \<Longrightarrow> valid_limit l \<Longrightarrow>
      \<exists>k. 1 \<le> k \<and> i + k \<le> n \<and> get (page_params (cursor i) l) = Inr (page i k) \<and> page_fits (page i k)"
    and page: "\<And>i k. page i k = Reader_ready x g (map f (take (nat k) (drop (nat i) cs))) (cursor (i + k))"
    and cursor: "\<And>i. 0 < i \<Longrightarrow> i < n \<Longrightarrow> cursor i \<noteq> None" "cursor n = None" and n: "n = int (length cs)"
    and i: "0 \<le> i" "i < n" and limits: "list_all valid_limit limits" "n - i \<le> int (length limits)"
  shows "\<exists>pages. follow_pages get (cursor i) limits = Inr pages
    \<and> concat (map page_chunks pages) = map f (drop (nat i) cs)
    \<and> pages \<noteq> [] \<and> page_cursor (last pages) = None
    \<and> list_all (\<lambda>p. page_ready p \<and> page_chunks p \<noteq> [] \<and> page_fits p) pages"
  using i limits
proof (induction limits arbitrary: i)
  case Nil
  then show ?case by simp
next
  case (Cons l ls)
  from step [OF Cons.prems(1,2), of l] Cons.prems(3) obtain k where
    k: "1 \<le> k" "i + k \<le> n" "get (page_params (cursor i) l) = Inr (page i k)" "page_fits (page i k)" by auto
  have some: "page_chunks (page i k) \<noteq> []" and ready: "page_ready (page i k)"
    using k(1) Cons.prems(1,2) n by (simp_all add: page)
  show ?case
  proof (cases "i + k = n")
    case True
    then have "follow_pages get (cursor i) (l # ls) = Inr [page i k]"
      using k(3) cursor(2) by (simp add: page)
    moreover have "take (nat k) (drop (nat i) cs) = drop (nat i) cs"
      using True k(1) n Cons.prems(1) by simp
    ultimately show ?thesis
      using k(4) some ready True cursor(2) by (intro exI [of _ "[page i k]"]) (simp add: page)
  next
    case False
    with k(1,2) Cons.prems(1) have next': "0 < i + k" "i + k < n" by simp_all
    from cursor(1) [OF this] obtain t where t: "cursor (i + k) = Some t" by auto
    have "0 \<le> i + k" "n - (i + k) \<le> int (length ls)" "list_all valid_limit ls"
      using next' k(1) Cons.prems(3,4) by simp_all
    with Cons.IH [of "i + k"] next'(2) t obtain pages where
      pages: "follow_pages get (Some t) ls = Inr pages"
        "concat (map page_chunks pages) = map f (drop (nat (i + k)) cs)" "pages \<noteq> []" "page_cursor (last pages) = None"
        "list_all (\<lambda>p. page_ready p \<and> page_chunks p \<noteq> [] \<and> page_fits p) pages"
      by auto
    have "drop (nat (i + k)) cs = drop (nat k) (drop (nat i) cs)"
      using k(1) Cons.prems(1) by (simp add: nat_add_distrib add.commute)
    then have "concat (map page_chunks (page i k # pages)) = map f (drop (nat i) cs)"
      using pages(2) map_append [of f "take (nat k) (drop (nat i) cs)" "drop (nat k) (drop (nat i) cs)"]
      by (simp only: page page_chunks.simps list.map concat.simps append_take_drop_id)
    moreover have "follow_pages get (cursor i) (l # ls) = Inr (page i k # pages)"
      using k(3) t pages(1) by (simp add: page)
    ultimately show ?thesis
      using pages(3-5) k(4) some ready by (intro exI [of _ "page i k # pages"]) simp
  qed
qed

lemma reader_reads_chunks:
  assumes law: "hmac_law hmac" "parse_law parse" and sha: "\<forall>t. length (sha256 t) = 64"
    and conf: "reader_configured policy secret policyVersion key" and s: "valid_subject s"
    and rows: "rows_shown_ready nfc sha256 policyVersion s rows"
    and limits: "list_all valid_limit limits" "length (rr_chunks rows) \<le> length limits"
  shows "\<exists>pages. follow_pages
        (\<lambda>params. get_workspace_paper_reader hmac parse nfc sha256 policy secret s params rows) None limits = Inr pages
    \<and> concat (map page_chunks pages) = map served_chunk (sorted_chunks rows)
    \<and> pages \<noteq> [] \<and> page_cursor (last pages) = None
    \<and> list_all (\<lambda>p. page_ready p \<and> page_chunks p \<noteq> [] \<and> page_fits p) pages"
proof (rule request_page [OF law sha conf s rows])
  fix x and g :: generation_metadata
  let ?n = "int (length (rr_chunks rows))" and ?cs = "sorted_chunks rows"
  let ?cursor = "cursor_at hmac key s (gm_id g) ?n"
  assume ne: "rr_chunks rows \<noteq> []" and id: "valid_opaque_id (gm_id g)" and n: "?n \<le> max_extracted_chunk_count"
    and req: "\<And>i limit. 0 \<le> i \<Longrightarrow> i < ?n \<Longrightarrow> valid_limit limit \<Longrightarrow>
      \<exists>k. 1 \<le> k \<and> k \<le> limit_value limit \<and> i + k \<le> ?n
        \<and> get_workspace_paper_reader hmac parse nfc sha256 policy secret s (page_params (?cursor i) limit) rows
          = Inr (page_at hmac key s x g ?cs i k)
        \<and> page_fits (page_at hmac key s x g ?cs i k)
        \<and> (\<forall>j. k < j \<and> j \<le> limit_value limit \<and> i + j \<le> ?n \<longrightarrow> \<not> page_fits (page_at hmac key s x g ?cs i j))"
  have len: "length ?cs = length (rr_chunks rows)" by (simp add: sorted_chunks_def)
  have first: "?cursor 0 = None" by (simp add: cursor_at_def)
  have "\<exists>pages. follow_pages
        (\<lambda>params. get_workspace_paper_reader hmac parse nfc sha256 policy secret s params rows) (?cursor 0) limits = Inr pages
    \<and> concat (map page_chunks pages) = map served_chunk (drop (nat 0) ?cs)
    \<and> pages \<noteq> [] \<and> page_cursor (last pages) = None
    \<and> list_all (\<lambda>p. page_ready p \<and> page_chunks p \<noteq> [] \<and> page_fits p) pages"
  proof (rule follow_pages_reads [where page = "page_at hmac key s x g ?cs" and n = ?n])
    show "\<exists>k. 1 \<le> k \<and> i + k \<le> ?n
        \<and> get_workspace_paper_reader hmac parse nfc sha256 policy secret s (page_params (?cursor i) l) rows
          = Inr (page_at hmac key s x g ?cs i k) \<and> page_fits (page_at hmac key s x g ?cs i k)"
      if "0 \<le> i" "i < ?n" "valid_limit l" for i l
      using req [OF that] by blast
    show "page_at hmac key s x g ?cs i k
        = Reader_ready x g (map served_chunk (take (nat k) (drop (nat i) ?cs))) (?cursor (i + k))" for i k
      by (simp add: page_at_def len)
    show "?cursor i \<noteq> None" if "0 < i" "i < ?n" for i
      by (rule cursor_issued [OF law(1) s id that n, of key]) simp
  qed (use ne limits len in \<open>simp_all add: cursor_at_def\<close>)
  then show ?thesis by (simp add: first)
qed

end
