(* ===== verification/Reader_Safety.thy ===== *)
theory Reader_Safety
  imports Reader_Follow
begin

text \<open>
  What any page of chunks is made of, whatever rows the database answers with: sound chunks of the one
  generation, numbered from the place the cursor names.
\<close>

lemma validated_chunks:
  assumes "validate_bounded_chunks nfc sha256 f cs index start previous = Some out"
  shows "out = map served_chunk (drop (nat (start - index)) cs)"
    and "list_all (extraction_chunk_is_sound nfc sha256 f) cs"
    and "map (\<lambda>c. h_sequence (snd c)) cs = map (\<lambda>i. NInt (index + int i)) [0..<length cs]"
proof -
  have "out = map served_chunk (drop (nat (start - index)) cs)
      \<and> list_all (extraction_chunk_is_sound nfc sha256 f) cs
      \<and> map (\<lambda>c. h_sequence (snd c)) cs = map (\<lambda>i. NInt (index + int i)) [0..<length cs]"
    using assms
  proof (induction cs arbitrary: index previous out)
    case (Cons c cs)
    then obtain out' where rest: "validate_bounded_chunks nfc sha256 f cs (index + 1) start (Some (snd c)) = Some out'"
      and c: "h_sequence (snd c) = NInt index" "extraction_chunk_is_sound nfc sha256 f c"
      and out: "out = (if index < start then out' else served_chunk c # out')"
      by (auto split: if_splits option.splits)
    have "nat (start - index) = (if index < start then Suc (nat (start - (index + 1))) else 0)"
      by (cases "index < start") simp_all
    with Cons.IH [OF rest] out c show ?case
      by (simp add: upt_conv_Cons map_Suc_upt [symmetric] comp_def algebra_simps del: upt_Suc map_Suc_upt)
  qed simp
  then show "out = map served_chunk (drop (nat (start - index)) cs)"
    "list_all (extraction_chunk_is_sound nfc sha256 f) cs"
    "map (\<lambda>c. h_sequence (snd c)) cs = map (\<lambda>i. NInt (index + int i)) [0..<length cs]" by simp_all
qed

text \<open>The chunks from place \<open>i\<close> on, each sound.\<close>

definition sound_run ::
    "(string \<Rightarrow> string) \<Rightarrow> (string \<Rightarrow> string) \<Rightarrow> extraction_row \<Rightarrow> reader_rows \<Rightarrow> int \<Rightarrow> (ident \<times> chunk_row) list \<Rightarrow> bool" where
  "sound_run nfc sha256 f rows i hs \<longleftrightarrow>
     set hs \<subseteq> set (rr_chunks rows) \<and> list_all (extraction_chunk_is_sound nfc sha256 f) hs
     \<and> map (\<lambda>c. h_sequence (snd c)) hs = map (\<lambda>k. NInt (i + int k)) [0..<length hs]"

lemma sound_run_take: "sound_run nfc sha256 f rows i hs \<Longrightarrow> sound_run nfc sha256 f rows i (take n hs)"
proof -
  assume h: "sound_run nfc sha256 f rows i hs"
  then have "take n (map (\<lambda>c. h_sequence (snd c)) hs) = take n (map (\<lambda>k. NInt (i + int k)) [0..<length hs])"
    by (simp add: sound_run_def)
  then have "map (\<lambda>c. h_sequence (snd c)) (take n hs) = map (\<lambda>k. NInt (i + int k)) [0..<length (take n hs)]"
    by (simp add: take_map take_upt min_def split: if_splits)
  with h show ?thesis by (auto simp: sound_run_def list_all_iff dest: in_set_takeD)
qed

lemma sound_run_drop:
  assumes "set cs \<subseteq> set (rr_chunks rows)" "list_all (extraction_chunk_is_sound nfc sha256 f) cs"
    and "map (\<lambda>c. h_sequence (snd c)) cs = map (\<lambda>k. NInt (i + int k)) [0..<length cs]" "n \<le> length cs"
  shows "sound_run nfc sha256 f rows (i + int n) (drop n cs)"
proof -
  have "drop n (map (\<lambda>c. h_sequence (snd c)) cs) = drop n (map (\<lambda>k. NInt (i + int k)) [0..<length cs])"
    by (simp only: assms(3))
  then have "map (\<lambda>c. h_sequence (snd c)) (drop n cs) = map (\<lambda>k. NInt (i + int k)) [n..<length cs]"
    by (simp add: drop_map drop_upt)
  also have "[n..<length cs] = map (\<lambda>k. k + n) [0..<length cs - n]"
    using assms(4) by (simp add: map_add_upt)
  finally have "map (\<lambda>c. h_sequence (snd c)) (drop n cs)
      = map (\<lambda>k. NInt (i + int n + int k)) [0..<length (drop n cs)]"
    by (simp add: comp_def algebra_simps)
  with assms(1,2) show ?thesis by (auto simp: sound_run_def list_all_iff dest: in_set_dropD)
qed

lemma select_chunks_subset: "set (select_chunks q n cs) \<subseteq> set cs"
  by (auto simp: select_chunks_def dest: in_set_takeD)

lemma resolved_chunks:
  assumes "resolve_chunks nfc sha256 s query claims x g f (rr_chunks rows) = Inr (Inr m)"
  obtains i hs where "m = \<lparr>rm_document = x, rm_generation = g, rm_chunks = map served_chunk hs,
      rm_startSequence = i, rm_subject = s\<rparr>"
    "0 \<le> i" "i < num_val (f_chunkCount f)" "int (length hs) = min (pq_limit query) (num_val (f_chunkCount f) - i)"
    "sound_run nfc sha256 f rows i hs"
    "case claims of None \<Rightarrow> i = 0 | Some c \<Rightarrow> rc_generationId c = f_id f \<and> num_val (rc_nextSequence c) = i"
proof -
  define i where "i = (case claims of None \<Rightarrow> 0 | Some c \<Rightarrow> num_val (rc_nextSequence c))"
  define before where "before = (if i = 0 then 0 else 1 :: int)"
  define requested where "requested = min (pq_limit query) (num_val (f_chunkCount f) - i)"
  define selected where "selected = select_chunks (i - before) (requested + before) (rr_chunks rows)"
  have claims: "case claims of None \<Rightarrow> True | Some c \<Rightarrow> rc_generationId c = f_id f"
    and i: "0 \<le> i" "i < num_val (f_chunkCount f)"
    using assms unfolding resolve_chunks_def Let_def i_def [symmetric]
    by (auto split: if_splits option.splits)
  from assms claims i obtain out where
    len: "int (length selected) = requested + before"
    and val: "validate_bounded_chunks nfc sha256 f selected (i - before) i None = Some out"
    and out: "int (length out) = requested"
    and m: "m = \<lparr>rm_document = x, rm_generation = g, rm_chunks = out, rm_startSequence = i, rm_subject = s\<rparr>"
    unfolding resolve_chunks_def Let_def i_def [symmetric] before_def [symmetric] requested_def [symmetric]
      selected_def [symmetric]
    by (auto split: if_splits option.splits)
  have before: "0 \<le> before" "nat (i - (i - before)) = nat before" by (simp_all add: before_def)
  note v = validated_chunks [OF val, unfolded before(2)]
  have n: "nat before \<le> length selected"
    using len out before(1) by linarith
  have "sound_run nfc sha256 f rows (i - before + int (nat before)) (drop (nat before) selected)"
    using v(2,3) n select_chunks_subset unfolding selected_def by (intro sound_run_drop) auto
  then have run: "sound_run nfc sha256 f rows i (drop (nat before) selected)"
    using before(1) by simp
  show thesis
    by (rule that [OF _ i _ run]) (use m v(1) out claims in \<open>auto simp: requested_def i_def split: option.splits\<close>)
qed

section \<open>The transaction's answer\<close>

lemma unless_continued_page: "unless_continued claims page = Inr r \<Longrightarrow> r = Inl page"
  by (simp add: unless_continued_def split: if_splits)

lemma resolve_chunks_page:
  "resolve_chunks nfc sha256 s query claims x g f cs = Inr (Inl page) \<Longrightarrow> \<not> page_ready page"
  by (auto simp: resolve_chunks_def Let_def split: if_splits option.splits)

text \<open>Material comes from one sound, sealed generation with text; every other answer is a page without chunks.\<close>

lemma resolve_generation_cases:
  assumes "resolve_generation nfc sha256 policyVersion s query claims rows v job payload x = Inr r"
  shows "(\<exists>page. r = Inl page \<and> \<not> page_ready page)
    \<or> (\<exists>f j t m. rr_generation rows = Some (f, j, t, Some m) \<and> f_verdict f = EXTRACTED
        \<and> extraction_generation_is_sound f j t v policyVersion
        \<and> resolve_chunks nfc sha256 s query claims x (generation_metadata_of f m) f (rr_chunks rows) = Inr r)"
proof (cases "rr_generation rows")
  case None
  with assms show ?thesis by (auto simp: resolve_generation_def split: if_splits option.splits)
next
  case (Some w)
  obtain f j t a where w: "w = (f, j, t, a)" by (cases w)
  show ?thesis
  proof (cases "f_verdict f")
    case EXTRACTED
    with assms Some show ?thesis
      by (auto simp: resolve_generation_def Let_def w split: if_splits option.splits)
  next
    case NO_TEXT
    with assms Some show ?thesis
      by (auto simp: resolve_generation_def Let_def w dest: unless_continued_page split: if_splits option.splits)
  qed
qed

lemma resolve_job_cases:
  assumes "resolve_job nfc sha256 policyVersion s query claims rows v x = Inr r"
  shows "(\<exists>page. r = Inl page \<and> \<not> page_ready page)
    \<or> (\<exists>job payload. resolve_generation nfc sha256 policyVersion s query claims rows v job payload x = Inr r)"
  using assms
  by (auto simp: resolve_job_def Let_def dest: unless_continued_page split: option.splits if_splits)

lemma resolve_document_cases:
  assumes "resolve_document nfc sha256 policyVersion s query claims rows = Inr r"
  shows "(\<exists>page. r = Inl page \<and> \<not> page_ready page)
    \<or> (\<exists>v x. resolve_job nfc sha256 policyVersion s query claims rows v x = Inr r)"
  using assms
  by (auto simp: resolve_document_def and_then_Inr_iff dest!: unless_continued_page
      split: option.splits list.splits if_splits)

lemma resolved_material:
  assumes "resolve_document nfc sha256 policyVersion s query claims rows = Inr (Inr m)"
  obtains x f j t v a where "rr_generation rows = Some (f, j, t, Some a)" "f_verdict f = EXTRACTED"
    "extraction_generation_is_sound f j t v policyVersion"
    "resolve_chunks nfc sha256 s query claims x (generation_metadata_of f a) f (rr_chunks rows) = Inr (Inr m)"
  using resolve_document_cases [OF assms] by (auto dest!: resolve_job_cases resolve_generation_cases)

lemma resolved_page:
  assumes "resolve_document nfc sha256 policyVersion s query claims rows = Inr (Inl page)"
  shows "\<not> page_ready page"
  using resolve_document_cases [OF assms]
  by (auto dest!: resolve_job_cases resolve_generation_cases dest: resolve_chunks_page)

section \<open>A served page\<close>

text \<open>The place a request names: the start, or the one its cursor was issued for.\<close>

definition names_place ::
    "(string \<Rightarrow> string \<Rightarrow> string) \<Rightarrow> string \<Rightarrow> reader_subject \<Rightarrow> ident \<Rightarrow> string option \<Rightarrow> int \<Rightarrow> bool" where
  "names_place hmac key s g cursor i \<longleftrightarrow>
     (case cursor of
        None \<Rightarrow> i = 0
      | Some t \<Rightarrow> issue_cursor hmac key s \<lparr>rc_generationId = g, rc_nextSequence = NInt i\<rparr> = Inr t)"

lemma claims_name_place:
  assumes law: "hmac_law hmac" "parse_law parse"
    and claims: "(case cursor of None \<Rightarrow> Inr None
        | Some token \<Rightarrow> map_sum id Some (verify_cursor hmac parse key token s)) = Inr claims"
    and place: "case claims of None \<Rightarrow> i = 0 | Some c \<Rightarrow> rc_generationId c = g \<and> num_val (rc_nextSequence c) = i"
  shows "names_place hmac key s g cursor i"
proof (cases cursor)
  case None
  with claims place show ?thesis by (simp add: names_place_def)
next
  case (Some token)
  with claims obtain c where c: "claims = Some c" "verify_cursor hmac parse key token s = Inr c"
    by (auto simp: map_sum_Inr_iff)
  then have issued: "issue_cursor hmac key s c = Inr token" by (simp add: cursor_verifies [OF law])
  then have "valid_claims c" by (simp add: issue_cursor_Inr_iff [OF law(1)])
  then obtain k where "rc_nextSequence c = NInt k"
    by (auto simp: valid_claims_def valid_next_sequence_def elim: bounded_integerE)
  with place c(1) have "c = \<lparr>rc_generationId = g, rc_nextSequence = NInt i\<rparr>" by (cases c) simp
  with issued Some show ?thesis by (simp add: names_place_def)
qed

lemma served_page_sound:
  assumes law: "hmac_law hmac" "parse_law parse"
    and conf: "reader_configured policy secret policyVersion key"
    and query: "parse_reader_page_query params = Inr query"
    and get: "get_workspace_paper_reader hmac parse nfc sha256 policy secret s params rows = Inr (Reader_ready x g cs next_cursor)"
  obtains f rest hs i where "rr_generation rows = Some (f, rest)" "gm_id g = f_id f" "f_verdict f = EXTRACTED"
    "names_place hmac key s (f_id f) (pq_cursor query) i"
    "cs = map served_chunk hs" "hs \<noteq> []" "int (length hs) \<le> pq_limit query"
    "sound_run nfc sha256 f rows i hs"
    "next_cursor = cursor_at hmac key s (f_id f) (num_val (f_chunkCount f)) (i + int (length hs))"
    "page_fits (Reader_ready x g cs next_cursor)"
proof -
  from get have s: "valid_subject s" by (auto simp: get_workspace_paper_reader_def split: if_splits)
  from get conf query have run: "and_then (resolve_reader hmac parse nfc sha256 key policyVersion s query rows)
      (\<lambda>r. case r of Inl page \<Rightarrow> Inr page | Inr m \<Rightarrow> bounded_ready_page hmac key m) = Inr (Reader_ready x g cs next_cursor)"
    using s by (simp add: get_workspace_paper_reader_def reader_configured_def)
  then obtain claims r where
    claims: "(case pq_cursor query of None \<Rightarrow> Inr None
        | Some token \<Rightarrow> map_sum id Some (verify_cursor hmac parse key token s)) = Inr claims"
    and res: "resolve_document nfc sha256 policyVersion s query claims rows = Inr r"
    and page: "(case r of Inl page \<Rightarrow> Inr page | Inr m \<Rightarrow> bounded_ready_page hmac key m) = Inr (Reader_ready x g cs next_cursor)"
    by (auto simp: resolve_reader_def and_then_Inr_iff split: if_splits)
  have "\<exists>m. r = Inr m"
    using page resolved_page [of nfc sha256 policyVersion s query claims rows "Reader_ready x g cs next_cursor"] res
    by (cases r) auto
  then obtain m where m: "r = Inr m" by blast
  from res [unfolded m] show thesis
  proof (rule resolved_material)
    fix x' f j t v a
    assume row: "rr_generation rows = Some (f, j, t, Some a)" and ext: "f_verdict f = EXTRACTED"
      and gen: "extraction_generation_is_sound f j t v policyVersion"
      and chunks: "resolve_chunks nfc sha256 s query claims x' (generation_metadata_of f a) f (rr_chunks rows) = Inr (Inr m)"
    from chunks show thesis
    proof (rule resolved_chunks)
      fix i hs
      let ?g = "generation_metadata_of f a"
      assume mm: "m = \<lparr>rm_document = x', rm_generation = ?g, rm_chunks = map served_chunk hs, rm_startSequence = i,
          rm_subject = s\<rparr>"
        and i: "0 \<le> i" "i < num_val (f_chunkCount f)"
        and len: "int (length hs) = min (pq_limit query) (num_val (f_chunkCount f) - i)"
        and sound: "sound_run nfc sha256 f rows i hs"
        and place: "case claims of None \<Rightarrow> i = 0 | Some c \<Rightarrow> rc_generationId c = f_id f \<and> num_val (rc_nextSequence c) = i"
      have g: "gm_id ?g = f_id f" "gm_chunkCount ?g = f_chunkCount f" by (simp_all add: generation_metadata_of_def)
      from gen have id: "valid_opaque_id (f_id f)"
        and count: "bounded_integer 0 max_extracted_chunk_count (f_chunkCount f)"
        unfolding extraction_generation_is_sound_def by blast+
      from query have "1 \<le> pq_limit query" by (auto simp: parse_reader_page_query_def Let_def split: if_splits)
      with len i have ne: "hs \<noteq> []" by auto
      have ok: "material_ok m"
        using s id i len ne count by (auto simp: material_ok_def mm g elim: bounded_integerE)
      have names: "names_place hmac key s (f_id f) (pq_cursor query) i"
        by (rule claims_name_place [OF law claims place])
      from page m bounded_page_largest [OF law(1) ok, of key] obtain k where
        k: "1 \<le> k" "k \<le> int (length hs)" "Reader_ready x g cs next_cursor = page_with hmac key m k"
          "page_fits (page_with hmac key m k)"
        by (auto simp: mm)
      have at: "cs = map served_chunk (take (nat k) hs)" "g = ?g"
        "next_cursor = cursor_at hmac key s (f_id f) (num_val (f_chunkCount f)) (i + k)"
        using k(1,3) i(1) by (auto simp: page_with_def mm g cursor_at_def next_claims_def take_map)
      have "int (length (take (nat k) hs)) = k" using k(1,2) by simp
      with k at ne len show thesis
        by (intro that [OF row _ ext names at(1) _ _ sound_run_take [OF sound]]) (auto simp: g)
    qed
  qed
qed

end
