(* ===== verification/Paper_Links.thy ===== *)
theory Paper_Links
  imports Collaboration_Retry Validation_Authority Json_Text
begin

text \<open>
  Linking a validated document to a paper of the workspace
  (\<open>src/server/documents/document-paper-link.ts\<close>): the command, the transaction over the tables of the
  pipeline and of the workspace together, and its answer. Locks and isolation are assumptions, as in
  \<open>Workspace_Store\<close>: a transaction body runs alone.
\<close>

section \<open>Rows\<close>

record workspace_paper =
  wp_id :: ident
  wp_org :: ident
  wp_paperId :: ident

record link_project =
  lj_id :: ident
  lj_org :: ident
  lj_visibility :: string
  lj_createdById :: "ident option"

record project_paper =
  pp_org :: ident
  pp_workspacePaperId :: ident
  pp_projectId :: ident

record upload_session =
  up_id :: ident
  up_status :: string
  up_intakeId :: ident
  up_documentId :: "ident option"
  up_assetId :: ident
  up_inboxEntryId :: "ident option"

record link_provenance =
  lp_org :: ident
  lp_kind :: string
  lp_paperId :: ident
  lp_workspacePaperId :: ident
  lp_inboxEntryId :: ident
  lp_documentId :: ident
  lp_actorUserId :: ident
  lp_sourceProvider :: string
  lp_sourceRecordId :: ident
  lp_retrievedAt :: millis
  lp_payloadDigest :: string
  lp_payload :: json

record link_audit =
  la_org :: ident
  la_actorUserId :: ident
  la_action :: string
  la_entityType :: string
  la_entityId :: ident
  la_requestId :: string
  la_metadata :: json

text \<open>
  The database of the command: the pipeline's tables, the workspace's tables, the papers with the
  projects they belong to, the upload sessions, and what the command appends. The nullable columns of
  Inbox entries, receipts and crawler imports that the pipeline's rows do not have are maps from the
  identifier of the row.
\<close>

record link_db =
  pipeline :: db
  workspace :: workspace_db
  workspace_papers :: "workspace_paper list"
  project_papers :: "project_paper list"
  link_projects :: "link_project list"
  upload_sessions :: "upload_session list"
  inbox_paper :: "ident \<rightharpoonup> ident"
  inbox_resolved :: "ident \<rightharpoonup> millis"
  receipt_upload :: "ident \<rightharpoonup> ident"
  receipt_upload_attempt :: "ident \<rightharpoonup> ident"
  receipt_ingress :: "ident \<rightharpoonup> ident"
  crawler_inbox :: "ident \<rightharpoonup> ident"
  crawler_batch :: "ident \<rightharpoonup> ident"
  link_provenances :: "link_provenance list"
  link_audits :: "link_audit list"

section \<open>The command\<close>

definition link_command_name :: string where
  "link_command_name = ''linkValidatedDocumentToWorkspacePaper''"

record link_command =
  lc_clientOperationId :: string
  lc_expectedVersion :: int
  lc_paperId :: string

definition require_opaque_id :: "string \<Rightarrow> json option \<Rightarrow> http_problem + string" where
  "require_opaque_id label v = or_throw (validation_problem (label @ '' is invalid.'')) (text_where operation_id_pattern v)"

text \<open>An unsupported key that is the empty string is falsy and passes the first test, not the second.\<close>

definition validate_link_command :: "json \<Rightarrow> http_problem + link_command" where
  "validate_link_command v =
     (case v of
        JObj r \<Rightarrow>
          (let keys = [''clientOperationId'', ''expectedVersion'', ''paperId''];
               unsupported = List.find (\<lambda>k. k \<notin> set keys) (obj_keys r)
           in if unsupported \<noteq> None \<and> unsupported \<noteq> Some []
              then Inl (validation_problem (''Document link command contains an unsupported field: ''
                     @ the unsupported @ ''.''))
              else if length (obj_keys r) \<noteq> length keys
              then Inl (validation_problem ''Document link command must contain exactly the required fields.'')
              else
                and_then (or_throw (validation_problem ''expectedVersion must be a non-negative integer.'')
                    (integer_within 0 max_safe_integer (field r ''expectedVersion''))) (\<lambda>n.
                and_then (require_opaque_id ''clientOperationId'' (field r ''clientOperationId'')) (\<lambda>op.
                and_then (require_opaque_id ''paperId'' (field r ''paperId'')) (\<lambda>p.
                Inr \<lparr>lc_clientOperationId = op, lc_expectedVersion = num_val n, lc_paperId = p\<rparr>))))
      | _ \<Rightarrow> Inl (validation_problem ''A document link command object is required.''))"

text \<open>The \<open>Idempotency-Key\<close> header mirrors the operation of the body; \<open>header\<close> is None without one.\<close>

definition apply_link_idempotency_header :: "string option \<Rightarrow> json \<Rightarrow> http_problem + json" where
  "apply_link_idempotency_header header body =
     (case map_option js_trim header of
        None \<Rightarrow> Inr body
      | Some op \<Rightarrow>
          if op = [] then Inr body
          else if \<not> operation_id_pattern op then Inl (validation_problem ''Idempotency-Key is invalid.'')
          else (case body of
                  JObj r \<Rightarrow>
                    if field r ''clientOperationId'' = Some (JStr op) then Inr body
                    else Inl (Http_problem 400 ''idempotency_mismatch'' ''Idempotency-Key must match clientOperationId.'')
                | _ \<Rightarrow> Inl (Http_problem 400 ''idempotency_mismatch'' ''Idempotency-Key must match clientOperationId.'')))"

section \<open>Answers\<close>

datatype link_answer =
  Link_refused string int string
| Linked string int ident ident

text \<open>\<open>WorkspaceCommandResult\<close> as the JSON that is stored: the outcome, the version, the paper and the document.\<close>

definition link_response :: "string \<Rightarrow> int \<Rightarrow> ident \<Rightarrow> ident \<Rightarrow> json" where
  "link_response outcome version paperId documentId =
     JObj [(''ok'', JBool True), (''outcome'', JStr outcome), (''aggregateVersion'', jint version),
       (''data'', JObj [(''paperId'', JStr paperId), (''documentId'', JStr documentId)])]"

definition replayed_link :: "json \<Rightarrow> int \<Rightarrow> link_answer option" where
  "replayed_link response version =
     (case json_object response of
        None \<Rightarrow> None
      | Some r \<Rightarrow>
          if field r ''ok'' \<noteq> Some (JBool True) then None
          else (case Option.bind (field r ''data'') json_object of
                  None \<Rightarrow> None
                | Some x \<Rightarrow>
                    (case (text_where operation_id_pattern (field x ''paperId''),
                           text_where operation_id_pattern (field x ''documentId'')) of
                       (Some p, Some i) \<Rightarrow> Some (Linked ''replayed'' version p i)
                     | _ \<Rightarrow> None)))"

section \<open>What the transaction reads\<close>

definition project_visible :: "ident \<Rightarrow> link_project \<Rightarrow> bool" where
  "project_visible user j \<longleftrightarrow>
     lj_visibility j = ''WORKSPACE'' \<or> (lj_visibility j = ''PRIVATE'' \<and> lj_createdById j = Some user)"

definition paper_visible :: "ident \<Rightarrow> ident \<Rightarrow> link_db \<Rightarrow> workspace_paper \<Rightarrow> bool" where
  "paper_visible user ws d p \<longleftrightarrow>
     \<not> list_ex (\<lambda>q. pp_workspacePaperId q = wp_id p) (project_papers d)
     \<or> list_ex (\<lambda>q. pp_workspacePaperId q = wp_id p \<and> pp_org q = ws
          \<and> list_ex (\<lambda>j. lj_id j = pp_projectId q \<and> lj_org j = ws \<and> project_visible user j) (link_projects d))
         (project_papers d)"

definition visible_paper :: "ident \<Rightarrow> ident \<Rightarrow> ident \<Rightarrow> link_db \<Rightarrow> workspace_paper option" where
  "visible_paper user ws paperId d =
     List.find (\<lambda>p. wp_org p = ws \<and> wp_paperId p = paperId \<and> paper_visible user ws d p) (workspace_papers d)"

text \<open>An active PDF of the paper: what may exist at most once.\<close>

definition active_pdf :: "ident \<Rightarrow> workspace_paper \<Rightarrow> document \<Rightarrow> bool" where
  "active_pdf ws p x \<longleftrightarrow>
     d_org x = ws \<and> d_kind x = PAPER_PDF \<and> d_status x \<noteq> D_ARCHIVED
     \<and> (d_paperId x = Some (wp_paperId p) \<or> d_workspacePaperId x = Some (wp_id p))"

text \<open>The document's ORIGINAL assets, and its Inbox entries of the two sources a link may come from.\<close>

definition original_assets :: "ident \<Rightarrow> document \<Rightarrow> db \<Rightarrow> document_asset list" where
  "original_assets ws x d =
     filter (\<lambda>l. da_org l = ws \<and> da_documentId l = d_id x \<and> da_role l = ORIGINAL) (document_assets d)"

definition link_inbox_entries :: "ident \<Rightarrow> document \<Rightarrow> db \<Rightarrow> inbox_entry list" where
  "link_inbox_entries ws x d =
     filter (\<lambda>i. x_org i = ws \<and> x_documentId i = Some (d_id x) \<and> (x_source i = S_FILE_UPLOAD \<or> x_source i = S_CRAWLER))
       (inbox d)"

text \<open>
  The newest attestation of a document and an asset, by the time of the check, then the time of its
  creation: rows are in the order they were created.
\<close>

definition newest_attestation :: "ident \<Rightarrow> document \<Rightarrow> asset \<Rightarrow> db \<Rightarrow> attestation_row option" where
  "newest_attestation ws x a d =
     fold (\<lambda>v best. case best of
             None \<Rightarrow> Some v
           | Some w \<Rightarrow> if v_checkedAt w \<le> v_checkedAt v then Some v else best)
       (filter (\<lambda>v. v_org v = ws \<and> v_documentId v = d_id x \<and> v_assetId v = a_id a) (attestations d)) None"

section \<open>The authority of the source\<close>

definition common_source_authority ::
    "ident \<Rightarrow> document \<Rightarrow> asset \<Rightarrow> inbox_entry \<Rightarrow> intake \<Rightarrow> ingest_receipt \<Rightarrow> bool" where
  "common_source_authority ws x a i k r \<longleftrightarrow>
     k_org k = ws \<and> k_documentId k = d_id x \<and> k_assetId k = a_id a \<and> k_inboxEntryId k = Some (x_id i)
     \<and> r_intakeId r = k_id k \<and> r_documentId r = d_id x \<and> r_assetId r = a_id a
     \<and> r_inboxEntryId r = Some (x_id i) \<and> r_declaredMimeType r = ''application/pdf''"

definition browser_upload_authority ::
    "link_db \<Rightarrow> document \<Rightarrow> asset \<Rightarrow> inbox_entry \<Rightarrow> intake \<Rightarrow> ingest_receipt \<Rightarrow> upload_session option
      \<Rightarrow> import_command option \<Rightarrow> bool" where
  "browser_upload_authority d x a i k r upload crawler \<longleftrightarrow>
     x_source i = S_FILE_UPLOAD \<and> k_source k = BROWSER_UPLOAD
     \<and> (k_status k = EXTRACTING \<or> k_status k = READY \<or> k_status k = ATTENTION)
     \<and> r_source r = BROWSER_UPLOAD \<and> r_importBatchId r = None \<and> r_crawlerImportId r = None
     \<and> receipt_ingress d (r_id r) = None \<and> receipt_upload d (r_id r) \<noteq> None
     \<and> receipt_upload_attempt d (r_id r) \<noteq> None
     \<and> (case upload of
          None \<Rightarrow> False
        | Some u \<Rightarrow>
            receipt_upload d (r_id r) = Some (up_id u) \<and> up_status u = ''STORED'' \<and> up_intakeId u = k_id k
            \<and> up_documentId u = Some (d_id x) \<and> up_assetId u = a_id a \<and> up_inboxEntryId u = Some (x_id i))
     \<and> crawler = None"

definition crawler_authority ::
    "link_db \<Rightarrow> document \<Rightarrow> asset \<Rightarrow> inbox_entry \<Rightarrow> intake \<Rightarrow> ingest_receipt \<Rightarrow> upload_session option
      \<Rightarrow> import_command option \<Rightarrow> bool" where
  "crawler_authority d x a i k r upload crawler \<longleftrightarrow>
     x_source i = S_CRAWLER \<and> k_source k = CRAWLER \<and> k_status k = READY \<and> r_source r = CRAWLER
     \<and> receipt_upload d (r_id r) = None \<and> receipt_upload_attempt d (r_id r) = None
     \<and> receipt_ingress d (r_id r) \<noteq> None
     \<and> (case crawler of
          None \<Rightarrow> False
        | Some c \<Rightarrow>
            r_crawlerImportId r = Some (c_id c) \<and> r_importBatchId r = crawler_batch d (c_id c)
            \<and> x_importBatchId i = crawler_batch d (c_id c) \<and> c_status c = READY \<and> c_intakeId c = k_id k
            \<and> c_documentId c = d_id x \<and> c_assetId c = a_id a \<and> crawler_inbox d (c_id c) = Some (x_id i)
            \<and> (case crawler_inbox_payload (x_payload i) (c_id c) of
                 None \<Rightarrow> False
               | Some p \<Rightarrow> cp_importStatus p = ''READY'' \<and> cp_phase p = ''ready''))
     \<and> upload = None"

text \<open>What a link may be made from: the one asset, the open Inbox entry, and how the document came in.\<close>

record link_source =
  ls_asset :: asset
  ls_inbox :: inbox_entry
  ls_receipt :: ingest_receipt
  ls_crawler :: "ident option"

definition link_source_of :: "ident \<Rightarrow> document \<Rightarrow> link_db \<Rightarrow> link_source option" where
  "link_source_of ws x d =
     (let p = pipeline d in
      case (original_assets ws x p, link_inbox_entries ws x p) of
        ([l], [i]) \<Rightarrow>
          (case List.find (asset_key ws (da_assetId l)) (assets p) of
             None \<Rightarrow> None
           | Some a \<Rightarrow>
               if x_status i \<noteq> X_NEEDS_REVIEW \<or> inbox_paper d (x_id i) \<noteq> None \<or> inbox_resolved d (x_id i) \<noteq> None
               then None
               else (case (List.find (\<lambda>k. k_documentId k = d_id x) (intakes p),
                           List.find (\<lambda>r. r_documentId r = d_id x) (receipts p)) of
                       (Some k, Some r) \<Rightarrow>
                         (let upload = List.find (\<lambda>u. up_intakeId u = k_id k) (upload_sessions d);
                              crawler = List.find (\<lambda>c. c_intakeId c = k_id k) (crawler_imports p)
                          in if \<not> common_source_authority ws x a i k r then None
                             else if crawler_authority d x a i k r upload crawler
                             then Some \<lparr>ls_asset = a, ls_inbox = i, ls_receipt = r, ls_crawler = map_option c_id crawler\<rparr>
                             else if browser_upload_authority d x a i k r upload crawler
                             then Some \<lparr>ls_asset = a, ls_inbox = i, ls_receipt = r, ls_crawler = None\<rparr>
                             else None)
                     | _ \<Rightarrow> None))
      | _ \<Rightarrow> None)"

text \<open>The accepted validation the link rests on.\<close>

definition link_validation :: "ident \<Rightarrow> document \<Rightarrow> link_source \<Rightarrow> db \<Rightarrow> attestation_row option" where
  "link_validation ws x s d =
     (case newest_attestation ws x (ls_asset s) d of
        None \<Rightarrow> None
      | Some v \<Rightarrow>
          (case (List.find (job_key ws (v_jobId v)) (jobs d), List.find (attempt_key ws (v_jobAttemptId v)) (attempts d)) of
             (Some j, Some t) \<Rightarrow>
               if v_ingestReceiptId v = r_id (ls_receipt s) \<and> current_accepted_validation v j t x (ls_asset s) False
               then Some v else None
           | _ \<Rightarrow> None))"

section \<open>What the transaction writes\<close>

text \<open>The two payloads of a provenance record, with its provider and the record it names.\<close>

definition link_payload :: "attestation_row \<Rightarrow> link_source \<Rightarrow> json" where
  "link_payload v s =
     (let measures = [(''validationAttestationId'', JStr (v_id v)), (''inputSha256'', JStr (v_inputSha256 v)),
            (''inputSizeBytes'', JStr (jnum_text (NInt (v_inputSizeBytes v)))),
            (''storageVersion'', JStr (v_storageVersion v)), (''validationPolicyVersion'', JStr (v_policyVersion v))]
      in case ls_crawler s of
           Some c \<Rightarrow>
             JObj ([(''schemaVersion'', jint 1), (''source'', JStr ''governed-crawler-document''),
               (''crawlerImportId'', JStr c)] @ measures)
         | None \<Rightarrow>
             JObj ([(''schemaVersion'', jint 1), (''source'', JStr ''validated-file-upload''),
               (''assetId'', JStr (a_id (ls_asset s)))] @ measures))"

definition link_provenance_row ::
    "(string \<Rightarrow> string) \<Rightarrow> ident \<Rightarrow> ident \<Rightarrow> workspace_paper \<Rightarrow> document \<Rightarrow> attestation_row \<Rightarrow> link_source
      \<Rightarrow> millis \<Rightarrow> link_provenance" where
  "link_provenance_row sha256 ws user p x v s now =
     \<lparr>lp_org = ws, lp_kind = ''IMPORT'', lp_paperId = wp_paperId p, lp_workspacePaperId = wp_id p,
      lp_inboxEntryId = x_id (ls_inbox s), lp_documentId = d_id x, lp_actorUserId = user,
      lp_sourceProvider = (if ls_crawler s = None then ''PaperPilot validated document link''
        else ''PaperPilot governed crawler document link''),
      lp_sourceRecordId = (case ls_crawler s of None \<Rightarrow> v_id v | Some c \<Rightarrow> c),
      lp_retrievedAt = now, lp_payloadDigest = sha256 (stringify (link_payload v s)), lp_payload = link_payload v s\<rparr>"

definition link_audit_row ::
    "ident \<Rightarrow> ident \<Rightarrow> string \<Rightarrow> workspace_paper \<Rightarrow> document \<Rightarrow> attestation_row \<Rightarrow> link_source \<Rightarrow> link_audit" where
  "link_audit_row ws user op p x v s =
     \<lparr>la_org = ws, la_actorUserId = user, la_action = ''document.paper.linked'', la_entityType = ''document'',
      la_entityId = d_id x, la_requestId = op,
      la_metadata = JObj
        ([(''source'', JStr (if ls_crawler s = None then ''upload'' else ''crawler'')),
          (''paperId'', JStr (wp_paperId p)), (''workspacePaperId'', JStr (wp_id p)),
          (''inboxEntryId'', JStr (x_id (ls_inbox s))), (''assetId'', JStr (a_id (ls_asset s))),
          (''validationAttestationId'', JStr (v_id v))]
         @ (case ls_crawler s of None \<Rightarrow> [] | Some c \<Rightarrow> [(''crawlerImportId'', JStr c)]))\<rparr>"

text \<open>\<open>document.update\<close> and \<open>inboxEntry.update\<close>.\<close>

definition link_document :: "workspace_paper \<Rightarrow> document \<Rightarrow> document" where
  "link_document p x = x\<lparr>d_paperId := Some (wp_paperId p), d_workspacePaperId := Some (wp_id p)\<rparr>"

definition resolve_inbox :: "inbox_entry \<Rightarrow> inbox_entry" where
  "resolve_inbox i = i\<lparr>x_status := X_IMPORTED, x_failureCode := None, x_failureMessage := None\<rparr>"

definition write_link ::
    "(string \<Rightarrow> string) \<Rightarrow> ident \<Rightarrow> ident \<Rightarrow> string \<Rightarrow> workspace_paper \<Rightarrow> document \<Rightarrow> attestation_row \<Rightarrow> link_source
      \<Rightarrow> millis \<Rightarrow> link_db \<Rightarrow> link_db" where
  "write_link sha256 ws user op p x v s now d =
     (let i = ls_inbox s; q = pipeline d in
      d\<lparr>pipeline := q\<lparr>documents := update_rows (document_key ws (d_id x)) (link_document p) (documents q),
          inbox := update_rows (\<lambda>r. x_org r = ws \<and> x_id r = x_id i) resolve_inbox (inbox q)\<rparr>,
        inbox_paper := (inbox_paper d)(x_id i \<mapsto> wp_id p), inbox_resolved := (inbox_resolved d)(x_id i \<mapsto> now),
        link_provenances := link_provenances d @ [link_provenance_row sha256 ws user p x v s now],
        link_audits := link_audits d @ [link_audit_row ws user op p x v s]\<rparr>)"

section \<open>The transaction\<close>

definition link_request_hash :: "(string \<Rightarrow> string) \<Rightarrow> ident \<Rightarrow> ident \<Rightarrow> string" where
  "link_request_hash sha256 documentId paperId =
     sha256 (stringify (JObj [(''command'', JStr link_command_name), (''documentId'', JStr documentId),
       (''paperId'', JStr paperId)]))"

definition require_mutation_role :: "string \<Rightarrow> collaboration_error + unit" where
  "require_mutation_role role =
     throw_unless (role \<in> set (map role_name mutating_roles))
       (Problem (Http_problem 403 ''workspace_forbidden'' ''This workspace role cannot make changes.''))"

text \<open>The membership with its workspace's revision, of a caller who may change the workspace.\<close>

definition link_membership :: "ident \<Rightarrow> ident \<Rightarrow> workspace_db \<Rightarrow> collaboration_error + int" where
  "link_membership ws user d =
     and_then (or_throw workspace_not_found (member_of ws user d)) (\<lambda>m.
     and_then (or_throw Missing (organization_of ws d)) (\<lambda>g.
     and_then (require_mutation_role (mr_role m)) (\<lambda>_. Inr (og_revision g))))"

definition refused_as_not_linkable :: "int \<Rightarrow> link_answer" where
  "refused_as_not_linkable version =
     Link_refused ''validation'' version ''The document is not a current validated PDF source.''"

definition stale_link_version :: "int \<Rightarrow> link_answer" where
  "stale_link_version version =
     Link_refused ''version_conflict'' version ''Workspace changed since it was loaded. Refresh before retrying.''"

text \<open>The answer to a command whose operation is already stored.\<close>

definition prior_link :: "ident \<Rightarrow> string \<Rightarrow> int \<Rightarrow> idempotency_row \<Rightarrow> link_answer" where
  "prior_link user hash version i =
     (if ir_actorUserId i \<noteq> Some user \<or> ir_command i \<noteq> link_command_name \<or> ir_requestHash i \<noteq> hash
      then Link_refused ''idempotency_conflict'' version ''clientOperationId was already used for a different command.''
      else (case replayed_link (ir_response i) version of
              Some a \<Rightarrow> a
            | None \<Rightarrow> Link_refused ''version_conflict'' version
                ''The prior command is still being resolved. Refresh before retrying.''))"

text \<open>The writes of a link whose checks have passed.\<close>

definition commit_link ::
    "(string \<Rightarrow> string) \<Rightarrow> ident \<Rightarrow> ident \<Rightarrow> link_command \<Rightarrow> string \<Rightarrow> workspace_paper \<Rightarrow> document \<Rightarrow> attestation_row
      \<Rightarrow> link_source \<Rightarrow> millis \<Rightarrow> link_db \<Rightarrow> collaboration_error + (link_answer \<times> link_db)" where
  "commit_link sha256 ws user c hash p x v s now d =
     (let expected = lc_expectedVersion c;
          at = (\<lambda>g. og_id g = ws \<and> og_revision g = expected);
          w = workspace d
      in if count_rows at (organizations w) \<noteq> 1
         then and_then (or_throw Missing (organization_of ws w)) (\<lambda>g. Inr (stale_link_version (og_revision g), d))
         else
           let bumped = w\<lparr>organizations := update_rows at (\<lambda>g. g\<lparr>og_revision := og_revision g + 1\<rparr>) (organizations w)\<rparr>;
               d1 = write_link sha256 ws user (lc_clientOperationId c) p x v s now d;
               response = link_response ''applied'' (expected + 1) (wp_paperId p) (d_id x)
           in and_then (insert_row idempotency_clash
                  \<lparr>ir_org = ws, ir_actorUserId = Some user, ir_key = lc_clientOperationId c,
                   ir_command = link_command_name, ir_requestHash = hash, ir_response = response,
                   ir_status = ''COMPLETED'', ir_completedAt = Some now, ir_expiresAt = now + week_ms\<rparr>
                  (idempotency bumped)) (\<lambda>rows.
                Inr (Linked ''applied'' (expected + 1) (wp_paperId p) (d_id x),
                     d1\<lparr>workspace := bumped\<lparr>idempotency := rows\<rparr>\<rparr>)))"

text \<open>The body of the transaction; \<open>now\<close> is the clock it reads when it writes.\<close>

definition link_transaction ::
    "(string \<Rightarrow> string) \<Rightarrow> ident \<Rightarrow> ident \<Rightarrow> ident \<Rightarrow> link_command \<Rightarrow> millis \<Rightarrow> link_db
      \<Rightarrow> collaboration_error + (link_answer \<times> link_db)" where
  "link_transaction sha256 ws user documentId c now d =
     (let hash = link_request_hash sha256 documentId (lc_paperId c) in
      and_then (link_membership ws user (workspace d)) (\<lambda>version.
      case prior_command ws (lc_clientOperationId c) (workspace d) of
        Some i \<Rightarrow> Inr (prior_link user hash version i, d)
      | None \<Rightarrow>
          if version \<noteq> lc_expectedVersion c then Inr (stale_link_version version, d)
          else (case (List.find (document_key ws documentId) (documents (pipeline d)),
                      visible_paper user ws (lc_paperId c) d) of
                  (Some x, Some p) \<Rightarrow>
                    if d_paperId x \<noteq> None \<or> d_workspacePaperId x \<noteq> None
                       \<or> list_ex (\<lambda>y. d_id y \<noteq> d_id x \<and> active_pdf ws p y) (documents (pipeline d))
                    then Inr (Link_refused ''duplicate'' version
                      ''The document or paper already has an active PDF link.'', d)
                    else (case link_source_of ws x d of
                            None \<Rightarrow> Inr (refused_as_not_linkable version, d)
                          | Some s \<Rightarrow>
                              (case link_validation ws x s (pipeline d) of
                                 None \<Rightarrow> Inr (refused_as_not_linkable version, d)
                               | Some v \<Rightarrow> commit_link sha256 ws user c hash p x v s now d))
                | _ \<Rightarrow> Inr (Link_refused ''not_found'' version ''Document link target was not found.'', d))))"

text \<open>
  What comes before the transaction: the command is read and the caller's membership looked up; \<open>earlier\<close>
  is the workspace at that time. The result is an answer already, or the command to run.
\<close>

definition link_preflight ::
    "ident \<Rightarrow> ident \<Rightarrow> ident \<Rightarrow> json \<Rightarrow> workspace_db \<Rightarrow> collaboration_error + (link_answer + link_command)" where
  "link_preflight user ws documentId raw earlier =
     and_then (lift_problem (validate_link_command raw)) (\<lambda>c.
     if \<not> operation_id_pattern ws then Inl workspace_not_found
     else and_then (link_membership ws user earlier) (\<lambda>version.
       if \<not> operation_id_pattern documentId
       then Inr (Inl (Link_refused ''not_found'' version ''Document link target was not found.''))
       else Inr (Inr c)))"

text \<open>\<open>linkValidatedDocumentToWorkspacePaper\<close> with one attempt of its transaction.\<close>

definition link_validated_document ::
    "(string \<Rightarrow> string) \<Rightarrow> ident \<Rightarrow> ident \<Rightarrow> ident \<Rightarrow> json \<Rightarrow> workspace_db \<Rightarrow> millis \<Rightarrow> link_db
      \<Rightarrow> collaboration_error + (link_answer \<times> link_db)" where
  "link_validated_document sha256 user ws documentId raw earlier now d =
     and_then (link_preflight user ws documentId raw earlier) (\<lambda>r.
     case r of
       Inl a \<Rightarrow> Inr (a, d)
     | Inr c \<Rightarrow> link_transaction sha256 ws user documentId c now d)"

section \<open>Attempts\<close>

definition concurrent_link_conflict :: collaboration_error where
  "concurrent_link_conflict = Problem (Http_problem 409 ''concurrent_document_link_conflict''
     ''The document link changed concurrently. Refresh before retrying.'')"

text \<open>
  \<open>withTransactionRetry\<close>: the transaction is run again while it loses against another one, four times in
  all, and the last loss becomes a conflict of its own. Attempt \<open>k\<close> reads the clock \<open>now k\<close>; \<open>lost k\<close> says
  that the database aborts it, and \<open>others k\<close> is what other transactions do before the next.
\<close>

definition link_attempt ::
    "(string \<Rightarrow> string) \<Rightarrow> ident \<Rightarrow> ident \<Rightarrow> ident \<Rightarrow> link_command \<Rightarrow> (nat \<Rightarrow> millis) \<Rightarrow> (nat \<Rightarrow> bool) \<Rightarrow> nat
      \<Rightarrow> link_db \<Rightarrow> collaboration_error + (link_answer \<times> link_db)" where
  "link_attempt sha256 ws user documentId c now lost k d =
     (if lost k then Inl Conflict else link_transaction sha256 ws user documentId c (now k) d)"

definition link_with_retry ::
    "(string \<Rightarrow> string) \<Rightarrow> ident \<Rightarrow> ident \<Rightarrow> ident \<Rightarrow> link_command \<Rightarrow> (nat \<Rightarrow> millis) \<Rightarrow> (nat \<Rightarrow> bool)
      \<Rightarrow> (nat \<Rightarrow> link_db \<Rightarrow> link_db) \<Rightarrow> link_db \<Rightarrow> (collaboration_error + link_answer) \<times> link_db" where
  "link_with_retry sha256 ws user documentId c now lost others d =
     (case run_serializable (link_attempt sha256 ws user documentId c now lost) others 0 d of
        (k, Inl e, d') \<Rightarrow> (Inl (if e = Conflict then concurrent_link_conflict else e), d')
      | (k, Inr a, d') \<Rightarrow> (Inr a, d'))"

text \<open>The whole of \<open>linkValidatedDocumentToWorkspacePaper\<close>.\<close>

definition run_link_command ::
    "(string \<Rightarrow> string) \<Rightarrow> ident \<Rightarrow> ident \<Rightarrow> ident \<Rightarrow> json \<Rightarrow> workspace_db \<Rightarrow> (nat \<Rightarrow> millis) \<Rightarrow> (nat \<Rightarrow> bool)
      \<Rightarrow> (nat \<Rightarrow> link_db \<Rightarrow> link_db) \<Rightarrow> link_db \<Rightarrow> (collaboration_error + link_answer) \<times> link_db" where
  "run_link_command sha256 user ws documentId raw earlier now lost others d =
     (case link_preflight user ws documentId raw earlier of
        Inl e \<Rightarrow> (Inl e, d)
      | Inr (Inl a) \<Rightarrow> (Inr a, d)
      | Inr (Inr c) \<Rightarrow> link_with_retry sha256 ws user documentId c now lost others d)"

end
