(* ===== verification/Paper_Link_Laws.thy ===== *)
theory Paper_Link_Laws
  imports Paper_Links Collaboration_Replay
begin

text \<open>
  What a link command does: nothing, or one link with every check it rests on; when it is repeated, the
  stored answer; and never a second active PDF for a paper.
\<close>

section \<open>One transaction\<close>

lemma prior_link_not_applied: "prior_link user hash version i \<noteq> Linked ''applied'' v p x"
  by (auto simp: prior_link_def replayed_link_def split: option.splits)

text \<open>The database after a link: the writes, the bumped revision, and the stored answer.\<close>

definition linked_workspace :: "ident \<Rightarrow> int \<Rightarrow> idempotency_row \<Rightarrow> workspace_db \<Rightarrow> workspace_db" where
  "linked_workspace ws expected row w =
     w\<lparr>organizations := bumped ws expected (organizations w),
       idempotency := idempotency w @ [row]\<rparr>"

definition link_row :: "ident \<Rightarrow> ident \<Rightarrow> link_command \<Rightarrow> string \<Rightarrow> workspace_paper \<Rightarrow> document \<Rightarrow> millis \<Rightarrow> idempotency_row" where
  "link_row ws user c hash p x now =
     \<lparr>ir_org = ws, ir_actorUserId = Some user, ir_key = lc_clientOperationId c, ir_command = link_command_name,
      ir_requestHash = hash, ir_response = link_response ''applied'' (lc_expectedVersion c + 1) (wp_paperId p) (d_id x),
      ir_status = ''COMPLETED'', ir_completedAt = Some now, ir_expiresAt = now + week_ms\<rparr>"

lemma commit_link_cases:
  assumes "commit_link sha256 ws user c hash p x v s now d = Inr (a, d')"
  shows "(d' = d \<and> (\<exists>code version m. a = Link_refused code version m))
    \<or> (a = Linked ''applied'' (lc_expectedVersion c + 1) (wp_paperId p) (d_id x)
       \<and> d' = (write_link sha256 ws user (lc_clientOperationId c) p x v s now d)
           \<lparr>workspace := linked_workspace ws (lc_expectedVersion c) (link_row ws user c hash p x now) (workspace d)\<rparr>)"
proof (cases "count_rows (\<lambda>g. og_id g = ws \<and> og_revision g = lc_expectedVersion c) (organizations (workspace d)) = 1")
  case True
  with assms show ?thesis
    by (auto simp: commit_link_def Let_def and_then_Inr_iff insert_row_Inr_iff linked_workspace_def link_row_def bumped_def)
next
  case False
  with assms show ?thesis
    by (auto simp: commit_link_def Let_def and_then_Inr_iff stale_link_version_def)
qed

text \<open>The checks a link rests on.\<close>

definition link_allowed ::
    "ident \<Rightarrow> ident \<Rightarrow> ident \<Rightarrow> link_command \<Rightarrow> link_db \<Rightarrow> document \<Rightarrow> workspace_paper \<Rightarrow> link_source
      \<Rightarrow> attestation_row \<Rightarrow> bool" where
  "link_allowed ws user documentId c d x p s v \<longleftrightarrow>
     link_membership ws user (workspace d) = Inr (lc_expectedVersion c)
     \<and> prior_command ws (lc_clientOperationId c) (workspace d) = None
     \<and> List.find (document_key ws documentId) (documents (pipeline d)) = Some x
     \<and> visible_paper user ws (lc_paperId c) d = Some p
     \<and> d_paperId x = None \<and> d_workspacePaperId x = None
     \<and> (\<forall>y \<in> set (documents (pipeline d)). d_id y = d_id x \<or> \<not> active_pdf ws p y)
     \<and> link_source_of ws x d = Some s \<and> link_validation ws x s (pipeline d) = Some v"

lemma link_transaction_cases:
  assumes "link_transaction sha256 ws user documentId c now d = Inr (a, d')"
  obtains (unchanged) "d' = d" "\<And>v p i. a \<noteq> Linked ''applied'' v p i"
  | (applied) x p s v where "link_allowed ws user documentId c d x p s v"
      "a = Linked ''applied'' (lc_expectedVersion c + 1) (wp_paperId p) (d_id x)"
      "d' = (write_link sha256 ws user (lc_clientOperationId c) p x v s now d)
         \<lparr>workspace := linked_workspace ws (lc_expectedVersion c)
            (link_row ws user c (link_request_hash sha256 documentId (lc_paperId c)) p x now) (workspace d)\<rparr>"
proof -
  let ?hash = "link_request_hash sha256 documentId (lc_paperId c)"
  from assms obtain version where version: "link_membership ws user (workspace d) = Inr version"
    and rest: "(case prior_command ws (lc_clientOperationId c) (workspace d) of
        Some i \<Rightarrow> Inr (prior_link user ?hash version i, d)
      | None \<Rightarrow>
          if version \<noteq> lc_expectedVersion c then Inr (stale_link_version version, d)
          else (case (List.find (document_key ws documentId) (documents (pipeline d)),
                      visible_paper user ws (lc_paperId c) d) of
                  (Some x, Some p) \<Rightarrow>
                    if d_paperId x \<noteq> None \<or> d_workspacePaperId x \<noteq> None
                       \<or> list_ex (\<lambda>y. d_id y \<noteq> d_id x \<and> active_pdf ws p y) (documents (pipeline d))
                    then Inr (Link_refused ''duplicate'' version
                      ''The document or paper already has an active PDF link.'', d)
                    else (case link_source_of ws x d of
                            None \<Rightarrow> Inr (refused_as_not_linkable version, d)
                          | Some s \<Rightarrow>
                              (case link_validation ws x s (pipeline d) of
                                 None \<Rightarrow> Inr (refused_as_not_linkable version, d)
                               | Some v \<Rightarrow> commit_link sha256 ws user c ?hash p x v s now d))
                | _ \<Rightarrow> Inr (Link_refused ''not_found'' version ''Document link target was not found.'', d)))
      = Inr (a, d')"
    by (auto simp: link_transaction_def Let_def and_then_Inr_iff)
  consider "d' = d" "\<And>v p i. a \<noteq> Linked ''applied'' v p i"
    | x p s v where "link_allowed ws user documentId c d x p s v" "commit_link sha256 ws user c ?hash p x v s now d = Inr (a, d')"
    using rest version prior_link_not_applied
    by (auto simp: link_allowed_def list_ex_iff stale_link_version_def refused_as_not_linkable_def
        split: option.splits if_splits)
  then show thesis
  proof cases
    case 1
    then show thesis by (rule unchanged)
  next
    case 2
    from commit_link_cases [OF 2(2)] show thesis
      using unchanged applied [OF 2(1)] by auto
  qed
qed

lemma link_validated_documentE:
  assumes "link_validated_document sha256 user ws documentId raw earlier now d = Inr (a, d')"
  obtains (refused) "d' = d" "\<And>v p i. a \<noteq> Linked ''applied'' v p i"
  | (run) c where "validate_link_command raw = Inr c"
      "operation_id_pattern documentId" "link_transaction sha256 ws user documentId c now d = Inr (a, d')"
  using assms
  by (auto simp: link_validated_document_def link_preflight_def and_then_Inr_iff split: if_splits)

section \<open>When the link is applied\<close>

lemma linked_revision:
  assumes "workspace_wf w" "organization_of ws w = Some g"
  shows "count_rows (\<lambda>h. og_id h = ws \<and> og_revision h = og_revision g) (organizations w) = 1"
  using assms find_SomeD [OF assms(2) [unfolded organization_of_def]]
  by (intro count_rows_unique [where key = og_id and r = g]) (auto simp: workspace_wf_parts)

lemma link_membership_Inr:
  "link_membership ws user w = Inr version \<longleftrightarrow>
     (\<exists>m g. member_of ws user w = Some m \<and> organization_of ws w = Some g
        \<and> mr_role m \<in> set (map role_name mutating_roles) \<and> og_revision g = version)"
  by (auto simp: link_membership_def and_then_Inr_iff or_throw_Inr_iff require_mutation_role_def throw_unless_def
      split: if_splits)

text \<open>The checks are all there is: a command that passes them is applied.\<close>

lemma link_transaction_allowed:
  assumes wf: "workspace_wf (workspace d)" and ok: "link_allowed ws user documentId c d x p s v"
  shows "\<exists>d'. link_transaction sha256 ws user documentId c now d
    = Inr (Linked ''applied'' (lc_expectedVersion c + 1) (wp_paperId p) (d_id x), d')"
proof -
  let ?hash = "link_request_hash sha256 documentId (lc_paperId c)"
  note a = ok [unfolded link_allowed_def]
  from a obtain g where g: "organization_of ws (workspace d) = Some g" "og_revision g = lc_expectedVersion c"
    by (auto simp: link_membership_Inr)
  have one: "count_rows (\<lambda>h. og_id h = ws \<and> og_revision h = lc_expectedVersion c) (organizations (workspace d)) = 1"
    using linked_revision [OF wf g(1)] g(2) by simp
  have fresh: "\<not> list_ex (idempotency_clash r) (idempotency (workspace d))"
    if "ir_org r = ws" "ir_key r = lc_clientOperationId c" for r
    using a that by (auto simp: prior_command_def find_None_iff list_ex_iff idempotency_clash_def)
  have "link_transaction sha256 ws user documentId c now d = commit_link sha256 ws user c ?hash p x v s now d"
    using a by (auto simp: link_transaction_def Let_def list_ex_iff)
  then show ?thesis
    by (auto simp: commit_link_def Let_def one and_then_Inr_iff insert_row_Inr_iff fresh)
qed

section \<open>What stays\<close>

lemma linked_workspace_wf:
  assumes wf: "workspace_wf w" and new: "prior_command (ir_org row) (ir_key row) w = None"
  shows "workspace_wf (linked_workspace ws expected row w)"
proof -
  let ?w = "linked_workspace ws expected row w"
  note p = wf [unfolded workspace_wf_parts]
  have same: "members ?w = members w" "invitations ?w = invitations w"
    "organizations ?w = bumped ws expected (organizations w)" "idempotency ?w = idempotency w @ [row]"
    by (simp_all add: linked_workspace_def)
  have "role_in i u ?w = role_in i u w" for i u by (simp add: role_in_def member_of_def same)
  then have "personal_owners (organizations ?w) ?w"
    using p unfolding personal_owners_def same map_owner_bumped by simp
  moreover have "distinct (map (\<lambda>i. (ir_org i, ir_key i)) (idempotency ?w))"
    using p new by (auto simp: same prior_command_def find_None_iff)
  ultimately show ?thesis
    unfolding workspace_wf_parts using p by (simp add: same(1-3) map_og_id_bumped)
qed

lemma linked_workspace_authority: "authority_of (linked_workspace ws expected row w) = authority_of w"
proof -
  let ?w = "linked_workspace ws expected row w"
  have o: "organizations ?w = bumped ws expected (organizations w)" by (simp add: linked_workspace_def)
  have "granted (authority_of ?w) = granted (authority_of w)"
    by (simp add: authority_of_def role_in_def member_of_def linked_workspace_def fun_eq_iff)
  with personal_bumped [OF o] show ?thesis by (auto intro: authority.equality)
qed

section \<open>Replays\<close>

definition link_answered :: "ident \<Rightarrow> ident \<Rightarrow> string \<Rightarrow> string \<Rightarrow> ident \<Rightarrow> ident \<Rightarrow> workspace_db \<Rightarrow> bool" where
  "link_answered ws user op hash p i w \<longleftrightarrow>
     (\<exists>row. prior_command ws op w = Some row \<and> ir_actorUserId row = Some user \<and> ir_command row = link_command_name
        \<and> ir_requestHash row = hash \<and> (\<forall>v. replayed_link (ir_response row) v = Some (Linked ''replayed'' v p i)))"

lemma link_response_replayed:
  "operation_id_pattern p \<Longrightarrow> operation_id_pattern i \<Longrightarrow>
     replayed_link (link_response ''applied'' n p i) v = Some (Linked ''replayed'' v p i)"
  by (simp add: replayed_link_def link_response_def field_def)

lemma link_answered_append:
  "link_answered ws user op hash p i w \<Longrightarrow> idempotency w' = idempotency w @ rows
    \<Longrightarrow> link_answered ws user op hash p i w'"
  by (auto simp: link_answered_def prior_command_def find_append split: option.splits)

lemma link_answered_replay:
  assumes "link_answered ws user (lc_clientOperationId c) (link_request_hash sha256 documentId (lc_paperId c)) p i
      (workspace d)" "link_membership ws user (workspace d) = Inr version"
  shows "link_transaction sha256 ws user documentId c now d = Inr (Linked ''replayed'' version p i, d)"
  using assms by (auto simp: link_answered_def link_transaction_def Let_def prior_link_def)

section \<open>What a link writes\<close>

lemma filter_update_rows:
  "(\<And>r. Q (f r) = Q r) \<Longrightarrow> filter Q (update_rows P f rs) = update_rows P f (filter Q rs)"
  by (induction rs) auto

lemma visible_paperD:
  assumes "visible_paper user ws paperId d = Some p"
  shows "p \<in> set (workspace_papers d)" "wp_org p = ws" "wp_paperId p = paperId" "paper_visible user ws d p"
  using find_SomeD [OF assms [unfolded visible_paper_def]] by auto

lemma link_source_ofD:
  assumes "link_source_of ws x d = Some s"
  shows "link_inbox_entries ws x (pipeline d) = [ls_inbox s]" "x_status (ls_inbox s) = X_NEEDS_REVIEW"
    "map da_assetId (original_assets ws x (pipeline d)) = [a_id (ls_asset s)]"
    "ls_asset s \<in> set (assets (pipeline d))" "r_documentId (ls_receipt s) = d_id x"
    "inbox_paper d (x_id (ls_inbox s)) = None" "inbox_resolved d (x_id (ls_inbox s)) = None"
proof -
  from assms obtain l i a k r where
    src: "original_assets ws x (pipeline d) = [l]" "link_inbox_entries ws x (pipeline d) = [i]"
      "List.find (asset_key ws (da_assetId l)) (assets (pipeline d)) = Some a" "x_status i = X_NEEDS_REVIEW"
      "inbox_paper d (x_id i) = None" "inbox_resolved d (x_id i) = None"
      "common_source_authority ws x a i k r" "ls_asset s = a" "ls_inbox s = i" "ls_receipt s = r"
    by (auto simp: link_source_of_def Let_def split: list.splits option.splits if_splits)
  from find_SomeD [OF src(3)] have "a_id a = da_assetId l" "a \<in> set (assets (pipeline d))"
    by (auto simp: asset_key_def)
  then show "link_inbox_entries ws x (pipeline d) = [ls_inbox s]" "x_status (ls_inbox s) = X_NEEDS_REVIEW"
    "map da_assetId (original_assets ws x (pipeline d)) = [a_id (ls_asset s)]"
    "ls_asset s \<in> set (assets (pipeline d))" "r_documentId (ls_receipt s) = d_id x"
    "inbox_paper d (x_id (ls_inbox s)) = None" "inbox_resolved d (x_id (ls_inbox s)) = None"
    using src by (simp_all add: common_source_authority_def)
qed

lemma newest_attestation_mem:
  assumes "newest_attestation ws x a d = Some v"
  shows "v \<in> set (attestations d)"
proof -
  have *: "fold (\<lambda>v best. case best of None \<Rightarrow> Some v | Some w \<Rightarrow> if v_checkedAt w \<le> v_checkedAt v then Some v else best) vs b
      = Some v \<Longrightarrow> v \<in> set vs \<or> b = Some v" for vs b
    by (induction vs arbitrary: b) (fastforce split: option.splits if_splits)+
  show ?thesis using * [OF assms [unfolded newest_attestation_def]] by auto
qed

lemma link_validationD:
  assumes "link_validation ws x s d = Some v"
  shows "v \<in> set (attestations d)" "v_ingestReceiptId v = r_id (ls_receipt s)"
    "\<exists>j t. List.find (job_key ws (v_jobId v)) (jobs d) = Some j
       \<and> List.find (attempt_key ws (v_jobAttemptId v)) (attempts d) = Some t
       \<and> current_accepted_validation v j t x (ls_asset s) False"
proof -
  from assms obtain j t where "newest_attestation ws x (ls_asset s) d = Some v"
    "List.find (job_key ws (v_jobId v)) (jobs d) = Some j"
    "List.find (attempt_key ws (v_jobAttemptId v)) (attempts d) = Some t"
    "v_ingestReceiptId v = r_id (ls_receipt s)" "current_accepted_validation v j t x (ls_asset s) False"
    by (auto simp: link_validation_def split: option.splits if_splits)
  then show "v \<in> set (attestations d)" "v_ingestReceiptId v = r_id (ls_receipt s)"
    "\<exists>j t. List.find (job_key ws (v_jobId v)) (jobs d) = Some j
       \<and> List.find (attempt_key ws (v_jobAttemptId v)) (attempts d) = Some t
       \<and> current_accepted_validation v j t x (ls_asset s) False"
    by (auto intro: newest_attestation_mem dest: find_SomeD)
qed

text \<open>A link does not touch what \<open>currentAcceptedValidation\<close> reads, but for the link itself.\<close>

lemma linked_document_fields [simp]:
  "d_id (link_document p x) = d_id x" "d_org (link_document p x) = d_org x" "d_kind (link_document p x) = d_kind x"
  "d_status (link_document p x) = d_status x" "d_mimeType (link_document p x) = d_mimeType x"
  "d_failureCode (link_document p x) = d_failureCode x" "d_archivedAt (link_document p x) = d_archivedAt x"
  "d_contentHash (link_document p x) = d_contentHash x" "d_pageCount (link_document p x) = d_pageCount x"
  "d_validationPolicyVersion (link_document p x) = d_validationPolicyVersion x"
  "d_validatedAt (link_document p x) = d_validatedAt x"
  "d_paperId (link_document p x) = Some (wp_paperId p)" "d_workspacePaperId (link_document p x) = Some (wp_id p)"
  by (simp_all add: link_document_def)

lemma linked_accepted:
  "current_accepted_validation v j t (link_document p x) a required \<longleftrightarrow>
     current_accepted_validation v j t x a False
     \<and> (required \<longrightarrow> valid_opaque_id (wp_id p) \<and> valid_opaque_id (wp_paperId p))"
  by (auto simp: current_accepted_validation_def linked_paper_is_sound_def attestation_is_current_def
      document_is_current_def)

section \<open>Attempts\<close>

lemma link_with_retry_serial:
  "\<exists>n < max_serializable_attempts.
     (case link_with_retry sha256 ws user i c now lost others d of
        (Inr a, d') \<Rightarrow> link_transaction sha256 ws user i c (now n) (before_attempt others n d) = Inr (a, d')
      | (Inl e, d') \<Rightarrow> d' = before_attempt others n d
          \<and> (e = concurrent_link_conflict \<and> n = max_serializable_attempts - 1
             \<or> link_transaction sha256 ws user i c (now n) (before_attempt others n d) = Inl e))"
proof -
  let ?work = "link_attempt sha256 ws user i c now lost"
  have "0 < max_serializable_attempts" by (simp add: max_serializable_attempts_def)
  from run_serializable_from [OF this, of ?work others d] obtain n where n: "n < max_serializable_attempts"
    "n = max_serializable_attempts - 1 \<or> ?work n (before_attempt others n d) \<noteq> Inl Conflict"
    "run_serializable ?work others 0 d = (case ?work n (before_attempt others n d) of
       Inl e \<Rightarrow> (n, Inl e, before_attempt others n d) | Inr (r, d') \<Rightarrow> (n, Inr r, d'))"
    by auto
  show ?thesis
  proof (cases "?work n (before_attempt others n d)")
    case (Inl e)
    have "link_with_retry sha256 ws user i c now lost others d
        = (Inl (if e = Conflict then concurrent_link_conflict else e), before_attempt others n d)"
      unfolding link_with_retry_def n(3) Inl by simp
    moreover have "e = Conflict \<and> n = max_serializable_attempts - 1
        \<or> link_transaction sha256 ws user i c (now n) (before_attempt others n d) = Inl e \<and> e \<noteq> Conflict"
      using n(2) Inl by (auto simp: link_attempt_def split: if_splits)
    ultimately show ?thesis using n(1) by (intro exI [of _ n]) auto
  next
    case (Inr r)
    obtain a d' where r: "r = (a, d')" by (cases r)
    have "link_with_retry sha256 ws user i c now lost others d = (Inr a, d')"
      unfolding link_with_retry_def n(3) Inr r by simp
    moreover have "link_transaction sha256 ws user i c (now n) (before_attempt others n d) = Inr (a, d')"
      using Inr r by (simp add: link_attempt_def split: if_splits)
    ultimately show ?thesis using n(1) by (intro exI [of _ n]) simp
  qed
qed

end
