(* ===== verification/Reader_Completion.thy ===== *)
theory Reader_Completion
  imports Reader_Safety Extraction_Query Paper_Link_Laws
begin

text \<open>
  From the worker to the reader: the rows a reader finds once a completed extraction is sealed and its
  document is linked to a paper.
\<close>

definition linked_rows ::
    "workspace_paper \<Rightarrow> millis \<Rightarrow> (ident \<times> chunk_row) list \<Rightarrow> extraction_view \<Rightarrow> reader_rows" where
  "linked_rows p admittedAt cs w =
     \<lparr>rr_member = True, rr_paper = Some (wp_id p, wp_paperId p),
      rr_document = Some (link_document p (ev_document w)), rr_assets = ev_assets w,
      rr_validation = ev_validation w, rr_job = ev_job w,
      rr_generation = map_option (\<lambda>(f, j, t, a). (f, j, t, map_option (\<lambda>m. (m, admittedAt)) a)) (ev_generation w),
      rr_chunks = cs\<rparr>"

lemma linked_view:
  "view_of_rows x (linked_rows p admittedAt cs w) = w\<lparr>ev_document := x\<rparr>"
proof (cases "ev_generation w")
  case (Some g)
  obtain f j t a where "g = (f, j, t, a)" by (cases g)
  with Some show ?thesis by (cases a) (simp_all add: view_of_rows_def linked_rows_def)
qed (simp add: view_of_rows_def linked_rows_def)

lemma linked_lifecycle:
  "document_extraction_lifecycle org policyVersion (w\<lparr>ev_document := link_document p (ev_document w)\<rparr>)
    = document_extraction_lifecycle org policyVersion w"
proof -
  have generation: "admitted_generation org policyVersion v job payload (w\<lparr>ev_document := link_document p (ev_document w)\<rparr>)
      = admitted_generation org policyVersion v job payload w" for v job payload
    by (simp add: admitted_generation_def)
  have "extraction_job_lifecycle org policyVersion v a job (w\<lparr>ev_document := link_document p (ev_document w)\<rparr>)
      = extraction_job_lifecycle org policyVersion v a job w" for v a job
    by (simp add: extraction_job_lifecycle_def Let_def generation split: option.split)
  then show ?thesis
    by (simp add: document_extraction_lifecycle_def linked_accepted split: list.split option.split)
qed

lemma measured_sorted:
  assumes "extraction_chunks_measured nfc sha256 f cs 0 previous m = Some tot"
  shows "sort_key chunk_number cs = cs"
proof (rule sort_key_sorted)
  have "sorted (map (\<lambda>i. 0 + int i) [0..<length cs])" by (simp add: sorted_map sorted_wrt_mono_rel [OF _ sorted_upt])
  then show "sorted (map chunk_number cs)" unfolding measured_numbers [OF assms] .
qed

text \<open>A document that is shown as ready with the extraction \<open>i\<close> has it as its generation.\<close>

lemma shown_ready_generation:
  assumes "el_state (document_extraction_lifecycle org policyVersion w) = Shown_ready"
    and "el_extractionId (document_extraction_lifecycle org policyVersion w) = Some i"
  obtains f j t m where "ev_generation w = Some (f, j, t, Some m)" "f_id f = i" "f_verdict f = EXTRACTED"
  using assms(1)
proof (rule shown_readyE)
  fix a v vj vt job payload f j t m
  assume w: "ev_assets w = [a]" "ev_validation w = Some (v, vj, vt)" "ev_job w = Some job"
    "ev_generation w = Some (f, j, t, Some m)" and ext: "f_verdict f = EXTRACTED"
  have "f_id f = i"
    using assms w
    by (auto simp: document_extraction_lifecycle_def extraction_job_lifecycle_def Let_def plain_lifecycle_def
        admitted_generation_def split: option.splits if_splits)
  with w(4) ext show thesis by (intro that)
qed

text \<open>In the query's view of a database in which an extraction was just stored, it is that extraction.\<close>

lemma view_generation_stored:
  assumes run: "complete_extraction_tx sha256 newId l a now d = Inr (Some r, d')" "xr_outcome r = Applied"
    and w: "w = lifecycle_view id_less org policyVersion (admitted d' m) x"
    and gen: "ev_generation w = Some (f, j, t, adm)" "f_id f = newId"
  shows "f = extraction_row_of newId l a now"
proof -
  let ?f = "extraction_row_of newId l a now"
  have "f \<in> set (extractions (admitted d' m))"
    using gen(1) by (auto simp: w lifecycle_view_def Let_def lifecycle_generation_def bind_eq_Some_conv dest!: newest_by_mem)
  then have "f \<in> set (extractions d) \<or> f = ?f" using completed_extractions [OF run] by (auto simp: admitted_def)
  moreover have "\<not> list_ex (extraction_clash ?f) (extractions d)" by (rule completed_extraction_new [OF run])
  ultimately show ?thesis
    using gen(2) by (auto simp: list_ex_iff extraction_clash_def extraction_row_of_def)
qed

lemma stored_texts:
  "length ids = length cs \<Longrightarrow>
    map rk_text (map served_chunk (zip ids (map (chunk_row_of sha256 newId l) cs))) = map xc_text cs"
proof (induction ids cs rule: list_induct2)
  case (Cons i ids c cs)
  then show ?case by (simp add: served_chunk_def chunk_row_of_def)
qed simp

text \<open>The rows of a completed, sealed and linked extraction that is shown as ready.\<close>

lemma completed_rows_shown:
  assumes att: "assert_extraction_attestation nfc a = Inr u" and own: "chunks_owned d"
    and run: "complete_extraction_tx sha256 newId l a now d = Inr (Some r, d')" "xr_outcome r = Applied"
    and view: "w = lifecycle_view id_less org policyVersion (admitted d' m) x"
    and shown: "el_state (document_extraction_lifecycle (rs_workspaceId s) policyVersion w) = Shown_ready"
      "el_extractionId (document_extraction_lifecycle (rs_workspaceId s) policyVersion w) = Some newId"
    and link: "valid_opaque_id (wp_id p)" "valid_opaque_id (wp_paperId p)"
    and ids: "length ids = length (xa_chunks a)" "list_all valid_opaque_id ids"
  defines "cs \<equiv> zip ids (stored_chunks d' (extraction_row_of newId l a now))"
  shows "rows_shown_ready nfc sha256 policyVersion s (linked_rows p admittedAt cs w)"
    and "map rk_text (map served_chunk (sorted_chunks (linked_rows p admittedAt cs w))) = map xc_text (xa_chunks a)"
proof -
  let ?f = "extraction_row_of newId l a now" and ?rows = "linked_rows p admittedAt cs w"
  from extraction_completion_effects [OF att own run] have st:
    "stored_chunks d' ?f = map (chunk_row_of sha256 newId l) (xa_chunks a)" by blast
  have sound: "extraction_chunks_are_sound nfc sha256 ?f cs"
    using stored_chunks_are_sound [OF att ids(1)] ids(2) by (simp add: cs_def st)
  from shown obtain j t adm where gen: "ev_generation w = Some (?f, j, t, Some adm)" and ext: "f_verdict ?f = EXTRACTED"
    by (rule shown_ready_generation) (use view_generation_stored [OF run view] in auto)
  from ext sound have sorted: "sorted_chunks ?rows = cs"
    by (auto simp: sorted_chunks_def linked_rows_def extraction_chunks_are_sound_def measured_sorted
        split: option.splits)
  have "view_of_rows (link_document p (ev_document w)) ?rows
      = w\<lparr>ev_document := link_document p (ev_document w)\<rparr>" by (rule linked_view)
  with shown(1) have state: "el_state (document_extraction_lifecycle (rs_workspaceId s) policyVersion
      (view_of_rows (link_document p (ev_document w)) ?rows)) = Shown_ready"
    by (simp add: linked_lifecycle)
  have "linked_paper_is_sound True (link_document p (ev_document w))"
    using link by (simp add: linked_paper_is_sound_def link_document_def)
  with state sound sorted show "rows_shown_ready nfc sha256 policyVersion s ?rows"
    by (auto simp: rows_shown_ready_def linked_rows_def gen split: option.splits)
  show "map rk_text (map served_chunk (sorted_chunks ?rows)) = map xc_text (xa_chunks a)"
    unfolding sorted unfolding cs_def st by (rule stored_texts [OF ids(1)])
qed

lemma completed_rows_count:
  assumes "assert_extraction_attestation nfc a = Inr u" "chunks_owned d"
    and "complete_extraction_tx sha256 newId l a now d = Inr (Some r, d')" "xr_outcome r = Applied"
    and "length ids = length (xa_chunks a)"
  shows "length (rr_chunks (linked_rows p admittedAt (zip ids (stored_chunks d' (extraction_row_of newId l a now))) w))
    = length (xa_chunks a)"
  using extraction_completion_effects [OF assms(1-4)] assms(5) by (auto simp: linked_rows_def)

end
