(* ===== verification/Reader_Properties.thy ===== *)
theory Reader_Properties
  imports Reader_Completion Authority_Properties
begin

text \<open>
  The properties of the reader, with a concrete keyed hash, a parser of the cursor's payload and the
  extraction of \<open>Authority_Properties\<close> as the document that is read.
\<close>

section \<open>A concrete reader\<close>

definition sample_hmac :: "string \<Rightarrow> string \<Rightarrow> string" where
  "sample_hmac key message = replicate 32 (if message = [] then CHR ''a'' else hd message)"

text \<open>\<open>JSON.parse\<close> on the payloads a cursor has.\<close>

definition sample_parse :: "string \<Rightarrow> json option" where
  "sample_parse s =
     (let g = takeWhile (\<lambda>c. c \<noteq> CHR 0x22) (drop 6 s); rest = drop 6 (drop (length g + 6) s)
      in Some (claims_json \<lparr>rc_generationId = g, rc_nextSequence = NInt (digits_val (takeWhile is_digit rest))\<rparr>))"

definition sample_subject :: reader_subject where
  "sample_subject = \<lparr>rs_userId = ''u'', rs_workspaceId = ''o'', rs_paperId = ''p''\<rparr>"

definition sample_secret :: string where
  "sample_secret = replicate 32 (CHR ''k'')"

lemma sample_hmac_law: "hmac_law sample_hmac"
  by (simp add: hmac_law_def sample_hmac_def)

lemma sample_parse_parts:
  assumes "length p = 6" "length q = 5" "CHR 0x22 \<notin> set g" "list_all is_digit n" "\<not> is_digit d"
  shows "sample_parse (p @ g @ (CHR 0x22 # q) @ n @ d # r)
    = Some (claims_json \<lparr>rc_generationId = g, rc_nextSequence = NInt (digits_val n)\<rparr>)"
proof -
  let ?s = "p @ g @ (CHR 0x22 # q) @ n @ d # r"
  have "takeWhile (\<lambda>c. c \<noteq> CHR 0x22) (drop 6 ?s) = g"
    using assms(1,3) by (auto simp: takeWhile_append)
  moreover have "takeWhile is_digit (drop 6 (drop (length g + 6) ?s)) = n"
    using assms(1,2,4,5) by (simp add: takeWhile_append list_all_iff)
  ultimately show ?thesis unfolding sample_parse_def Let_def by (simp only:)
qed

lemma sample_parse_law: "parse_law sample_parse"
proof -
  have "sample_parse (stringify (claims_json c)) = Some (claims_json c)" if c: "valid_claims c" for c
  proof -
    let ?g = "rc_generationId c"
    from c obtain i where i: "rc_nextSequence c = NInt i" "1 \<le> i"
      by (auto simp: valid_claims_def valid_next_sequence_def elim: bounded_integerE)
    have g: "valid_opaque_id ?g" using c by (simp add: valid_claims_def)
    have no_quote: "CHR 0x22 \<notin> set ?g"
    proof
      assume "CHR 0x22 \<in> set ?g"
      then have "plain_char (CHR 0x22)"
        using opaque_id_chars [OF g] opaque_char_plain by (auto simp: list_all_iff)
      then show False by (simp add: plain_char_def code_def)
    qed
    have keys: "json_string ''g'' = [CHR 0x22, CHR ''g'', CHR 0x22]" "json_string ''s'' = [CHR 0x22, CHR ''s'', CHR 0x22]"
      "json_string ''v'' = [CHR 0x22, CHR ''v'', CHR 0x22]" by code_simp+
    have one: "decimal (Suc 0) = ''1''" by code_simp
    have "stringify (claims_json c)
        = [CHR 0x7B, CHR 0x22, CHR ''g'', CHR 0x22, CHR '':'', CHR 0x22] @ ?g
          @ (CHR 0x22 # [CHR '','', CHR 0x22, CHR ''s'', CHR 0x22, CHR '':'']) @ decimal (nat i)
          @ CHR '','' # [CHR 0x22, CHR ''v'', CHR 0x22, CHR '':'', CHR ''1'', CHR 0x7D]"
      using i by (simp add: claims_json_def opaque_id_json [OF g] keys one)
    also have "sample_parse \<dots> = Some (claims_json \<lparr>rc_generationId = ?g, rc_nextSequence = NInt (digits_val (decimal (nat i)))\<rparr>)"
      using no_quote decimal_digits [of "nat i"] by (intro sample_parse_parts) (simp_all add: char_class_defs)
    finally show ?thesis using i by (cases c) (simp add: digits_val_decimal)
  qed
  then show ?thesis by (simp add: parse_law_def)
qed


lemma sample_configured: "reader_configured None (Some sample_secret) extraction_policy_version sample_secret"
  by code_simp

lemma sample_subject_valid: "valid_subject sample_subject"
  by code_simp

lemma sample_digest: "\<forall>t. length (sample_sha256 t) = 64"
  by (simp add: sample_sha256_def sample_sha_def)


lemma sample_ready:
  "el_state (document_extraction_lifecycle (rs_workspaceId sample_subject) extraction_policy_version sample_view) = Shown_ready"
  "el_extractionId (document_extraction_lifecycle (rs_workspaceId sample_subject) extraction_policy_version sample_view)
    = Some ''f1''"
  using sample_view_shown by (simp_all add: sample_subject_def)

definition sample_ids :: "ident list" where "sample_ids = [''h1'', ''h2'']"

definition sample_rows :: reader_rows where
  "sample_rows = linked_rows \<lparr>wp_id = ''wp'', wp_org = ''o'', wp_paperId = ''p''\<rparr> 3400
     (zip sample_ids (stored_chunks extracted_db (extraction_row_of ''f1'' sample_xlease sample_xattestation 3300)))
     sample_view"

lemma sample_id_facts:
  "valid_opaque_id (wp_id \<lparr>wp_id = ''wp'', wp_org = ''o'', wp_paperId = ''p''\<rparr>)"
  "valid_opaque_id (wp_paperId \<lparr>wp_id = ''wp'', wp_org = ''o'', wp_paperId = ''p''\<rparr>)"
  "length sample_ids = length (xa_chunks sample_xattestation)" "list_all valid_opaque_id sample_ids"
  by code_simp+

lemmas sample_completed = sample_xattestation_ok sample_chunks_owned sample_xcompletion sample_applied

lemma sample_rows_shown: "rows_shown_ready id sample_sha256 extraction_policy_version sample_subject sample_rows"
  unfolding sample_rows_def
  by (rule completed_rows_shown [OF sample_completed sample_view_def sample_ready sample_id_facts])

lemma sample_rows_count: "length (rr_chunks sample_rows) = 2"
proof -
  have "length (zip sample_ids (stored_chunks extracted_db (extraction_row_of ''f1'' sample_xlease sample_xattestation 3300))) = 2"
    by code_simp
  then show ?thesis by (simp add: sample_rows_def linked_rows_def)
qed

lemma sample_generation: "generation_id sample_rows = ''f1''"
proof -
  from sample_ready obtain f j t m where "ev_generation sample_view = Some (f, j, t, Some m)" "f_id f = ''f1''"
    by (rule shown_ready_generation)
  then show ?thesis by (simp add: generation_id_def sample_rows_def linked_rows_def)
qed

lemmas sample_reader = sample_hmac_law sample_parse_law sample_digest sample_configured sample_subject_valid sample_rows_shown

section \<open>Cursors\<close>

text \<open>
  C30. A cursor verifies to claims exactly when the codec issues it for them and this subject: what is
  issued is read back unchanged, and no text that was not issued is accepted.
\<close>

theorem reader_cursor_exact:
  assumes "hmac_law hmac" "parse_law parse"
  shows "verify_cursor hmac parse secret token s = Inr c \<longleftrightarrow> issue_cursor hmac secret s c = Inr token"
  by (rule cursor_verifies [OF assms])

definition sample_claims :: reader_claims where
  "sample_claims = \<lparr>rc_generationId = ''f1'', rc_nextSequence = NInt 1\<rparr>"

lemma sample_claims_valid: "valid_claims sample_claims"
  by code_simp

definition sample_token :: string where
  "sample_token = token_without_signature (encode_payload sample_claims) @ ''.''
     @ base64url (signature_of sample_hmac sample_secret (encode_payload sample_claims) sample_subject)"

lemma sample_issued: "issue_cursor sample_hmac sample_secret sample_subject sample_claims = Inr sample_token"
  by (simp add: issue_cursor_Inr_iff [OF sample_hmac_law] sample_subject_valid sample_claims_valid sample_token_def)

theorem reader_cursor_exact_witness:
  "verify_cursor sample_hmac sample_parse sample_secret sample_token sample_subject = Inr sample_claims"
  using reader_cursor_exact [OF sample_hmac_law sample_parse_law] sample_issued by blast

text \<open>
  C31. A cursor is bound to its reader: one that was issued for a subject and verifies for another user,
  workspace or paper carries the same claims, and the keyed hash collides on exactly the two messages the
  codec authenticates, the cursor's text joined to the one subject and to the other, which differ.
\<close>

theorem reader_cursor_bound:
  assumes "hmac_law hmac" "parse_law parse" "issue_cursor hmac key s c = Inr token"
    and "verify_cursor hmac parse key token s' = Inr c'" "s' \<noteq> s"
  shows "c' = c \<and> valid_subject s' \<and> (\<exists>part.
      token = part @ ''.'' @ base64url (hmac key (authenticated_value part s))
    \<and> authenticated_value part s' \<noteq> authenticated_value part s
    \<and> hmac key (authenticated_value part s') = hmac key (authenticated_value part s))"
  by (rule cursor_collision [OF assms])

definition other_subject :: reader_subject where
  "other_subject = sample_subject\<lparr>rs_paperId := ''q''\<rparr>"

theorem reader_cursor_bound_witness:
  "verify_cursor sample_hmac sample_parse sample_secret sample_token other_subject = Inr sample_claims
    \<and> (\<exists>part. authenticated_value part other_subject \<noteq> authenticated_value part sample_subject
        \<and> sample_hmac sample_secret (authenticated_value part other_subject)
          = sample_hmac sample_secret (authenticated_value part sample_subject))"
proof -
  have "valid_subject other_subject" by code_simp
  then have "issue_cursor sample_hmac sample_secret other_subject sample_claims = Inr sample_token"
    by (simp add: issue_cursor_Inr_iff [OF sample_hmac_law] sample_claims_valid sample_token_def signature_of_def
        authenticated_value_def sample_hmac_def cursor_hmac_domain_def)
  then have v: "verify_cursor sample_hmac sample_parse sample_secret sample_token other_subject = Inr sample_claims"
    by (simp add: cursor_verifies [OF sample_hmac_law sample_parse_law])
  have "other_subject \<noteq> sample_subject" by (simp add: other_subject_def sample_subject_def)
  from reader_cursor_bound [OF sample_hmac_law sample_parse_law sample_issued v this] v show ?thesis by blast
qed

section \<open>Pages\<close>

text \<open>
  C15. Whatever rows the database answers with, a page of chunks that is served consists of sound chunks of
  the one extraction the authority accepts, numbered without a gap from the place its cursor was issued
  for (from 0 without a cursor), at most as many as asked for, at most 800 KiB in all; its own cursor was
  issued for the place after its last chunk, and is null exactly at the end of the extraction.
\<close>

theorem reader_page_sound:
  assumes "hmac_law hmac" "parse_law parse" "reader_configured policy secret policyVersion key"
    and "parse_reader_page_query params = Inr query"
    and "get_workspace_paper_reader hmac parse nfc sha256 policy secret s params rows = Inr (Reader_ready x g cs next_cursor)"
  shows "\<exists>f rest hs i. rr_generation rows = Some (f, rest) \<and> gm_id g = f_id f \<and> f_verdict f = EXTRACTED
    \<and> names_place hmac key s (f_id f) (pq_cursor query) i
    \<and> cs = map served_chunk hs \<and> hs \<noteq> [] \<and> int (length hs) \<le> pq_limit query
    \<and> sound_run nfc sha256 f rows i hs
    \<and> next_cursor = cursor_at hmac key s (f_id f) (num_val (f_chunkCount f)) (i + int (length hs))
    \<and> page_fits (Reader_ready x g cs next_cursor)"
  by (rule served_page_sound [OF assms]) blast

lemma sample_first_page:
  "\<exists>x g cs t. get_workspace_paper_reader sample_hmac sample_parse id sample_sha256 None (Some sample_secret) sample_subject
     [] sample_rows = Inr (Reader_ready x g cs t)"
proof (rule request_page [OF sample_reader])
  fix x and g :: generation_metadata
  let ?n = "int (length (rr_chunks sample_rows))"
  assume "\<And>i limit. 0 \<le> i \<Longrightarrow> i < ?n \<Longrightarrow> valid_limit limit \<Longrightarrow>
      \<exists>k. 1 \<le> k \<and> k \<le> limit_value limit \<and> i + k \<le> ?n
        \<and> get_workspace_paper_reader sample_hmac sample_parse id sample_sha256 None (Some sample_secret) sample_subject
            (page_params (cursor_at sample_hmac sample_secret sample_subject (gm_id g) ?n i) limit) sample_rows
          = Inr (page_at sample_hmac sample_secret sample_subject x g (sorted_chunks sample_rows) i k)
        \<and> page_fits (page_at sample_hmac sample_secret sample_subject x g (sorted_chunks sample_rows) i k)
        \<and> (\<forall>j. k < j \<and> j \<le> limit_value limit \<and> i + j \<le> ?n
             \<longrightarrow> \<not> page_fits (page_at sample_hmac sample_secret sample_subject x g (sorted_chunks sample_rows) i j))"
  from this [of 0 None] show ?thesis
    by (auto simp: sample_rows_count page_params_def cursor_at_def page_at_def)
qed

theorem reader_page_sound_witness:
  "\<exists>f rest hs. rr_generation sample_rows = Some (f, rest) \<and> hs \<noteq> [] \<and> int (length hs) \<le> 50
     \<and> sound_run id sample_sha256 f sample_rows 0 hs"
proof -
  have query: "parse_reader_page_query [] = Inr \<lparr>pq_cursor = None, pq_limit = 50\<rparr>"
    by (simp add: parse_reader_page_query_def all_values_def default_reader_page_limit_def max_reader_page_limit_def)
  from sample_first_page obtain x g cs t where
    "get_workspace_paper_reader sample_hmac sample_parse id sample_sha256 None (Some sample_secret) sample_subject
       [] sample_rows = Inr (Reader_ready x g cs t)" by blast
  from reader_page_sound [OF sample_hmac_law sample_parse_law sample_configured query this] show ?thesis
    by (auto simp: names_place_def)
qed

text \<open>
  C29. The page of a ready document: the binary search on the serialized size answers a request at place
  \<open>i\<close> with the largest page the limit and the 800 KiB allow, never with an error; a page of one chunk
  always fits.
\<close>

theorem reader_page_largest:
  assumes "hmac_law hmac" "parse_law parse" "\<forall>t. length (sha256 t) = 64"
    and "reader_configured policy secret policyVersion key" "valid_subject s"
    and "rows_shown_ready nfc sha256 policyVersion s rows" "valid_limit limit"
    and "0 \<le> i" "i < int (length (rr_chunks rows))"
  shows "\<exists>x g k. 1 \<le> k \<and> k \<le> limit_value limit \<and> i + k \<le> int (length (rr_chunks rows))
    \<and> get_workspace_paper_reader hmac parse nfc sha256 policy secret s
        (page_params (cursor_at hmac key s (generation_id rows) (int (length (rr_chunks rows))) i) limit) rows
      = Inr (page_at hmac key s x g (sorted_chunks rows) i k)
    \<and> page_fits (page_at hmac key s x g (sorted_chunks rows) i k)
    \<and> (\<forall>j. k < j \<and> j \<le> limit_value limit \<and> i + j \<le> int (length (rr_chunks rows))
         \<longrightarrow> \<not> page_fits (page_at hmac key s x g (sorted_chunks rows) i j))"
  using request_page [OF assms(1-6)] assms(7-9) by metis

theorem reader_page_largest_witness:
  "\<exists>x g k. 1 \<le> k \<and> k \<le> 1 \<and> get_workspace_paper_reader sample_hmac sample_parse id sample_sha256 None (Some sample_secret)
      sample_subject (page_params (cursor_at sample_hmac sample_secret sample_subject (generation_id sample_rows) 2 1) (Some ''1''))
      sample_rows = Inr (page_at sample_hmac sample_secret sample_subject x g (sorted_chunks sample_rows) 1 k)"
proof -
  have "valid_limit (Some ''1'')" "limit_value (Some ''1'') = 1" by code_simp+
  with reader_page_largest [OF sample_reader, of "Some ''1''" 1] show ?thesis
    unfolding sample_rows_count by auto
qed

text \<open>
  A cursor of an extraction that is no longer the current one is refused as stale, never continued in
  another extraction.
\<close>

theorem reader_cursor_stale:
  assumes "hmac_law hmac" "parse_law parse" "\<forall>t. length (sha256 t) = 64"
    and "reader_configured policy secret policyVersion key" "valid_subject s"
    and "rows_shown_ready nfc sha256 policyVersion s rows" "valid_limit limit"
    and "issue_cursor hmac key s c = Inr token" "rc_generationId c \<noteq> generation_id rows"
  shows "get_workspace_paper_reader hmac parse nfc sha256 policy secret s (page_params (Some token) limit) rows
    = Inl Cursor_stale"
  by (rule stale_request [OF assms])

theorem reader_cursor_stale_witness:
  "\<exists>token. issue_cursor sample_hmac sample_secret sample_subject (sample_claims\<lparr>rc_generationId := ''f0''\<rparr>) = Inr token
    \<and> get_workspace_paper_reader sample_hmac sample_parse id sample_sha256 None (Some sample_secret) sample_subject
        (page_params (Some token) None) sample_rows = Inl Cursor_stale"
proof -
  let ?c = "sample_claims\<lparr>rc_generationId := ''f0''\<rparr>"
  have "valid_claims ?c" by code_simp
  then obtain token where token: "issue_cursor sample_hmac sample_secret sample_subject ?c = Inr token"
    by (simp add: issue_cursor_Inr_iff [OF sample_hmac_law] sample_subject_valid)
  have "rc_generationId ?c \<noteq> generation_id sample_rows"
    using sample_generation by simp
  from reader_cursor_stale [OF sample_reader _ token this, of None] token show ?thesis by auto
qed

section \<open>Reading to the end\<close>

text \<open>
  C14. A reader that follows \<open>nextCursor\<close> from the start reads a ready document to its end: with any
  limits between 1 and 100, and at most as many requests as there are chunks, no request fails, every page has
  chunks and fits, the last one has no cursor, and the pages together are every chunk, once and in order.
\<close>

theorem reader_reads_everything:
  assumes "hmac_law hmac" "parse_law parse" "\<forall>t. length (sha256 t) = 64"
    and "reader_configured policy secret policyVersion key" "valid_subject s"
    and "rows_shown_ready nfc sha256 policyVersion s rows"
    and "list_all valid_limit limits" "length (rr_chunks rows) \<le> length limits"
  shows "\<exists>pages. follow_pages
        (\<lambda>params. get_workspace_paper_reader hmac parse nfc sha256 policy secret s params rows) None limits = Inr pages
    \<and> concat (map page_chunks pages) = map served_chunk (sorted_chunks rows)
    \<and> pages \<noteq> [] \<and> page_cursor (last pages) = None
    \<and> list_all (\<lambda>p. page_ready p \<and> page_chunks p \<noteq> [] \<and> page_fits p) pages"
  by (rule reader_reads_chunks [OF assms])

theorem reader_reads_everything_witness:
  "\<exists>pages. follow_pages (\<lambda>params. get_workspace_paper_reader sample_hmac sample_parse id sample_sha256 None
        (Some sample_secret) sample_subject params sample_rows) None [Some ''1'', Some ''100''] = Inr pages
    \<and> concat (map page_chunks pages) = map served_chunk (sorted_chunks sample_rows)
    \<and> page_cursor (last pages) = None"
proof -
  have "list_all valid_limit [Some ''1'', Some ''100'']" by code_simp
  with reader_reads_everything [OF sample_reader, of "[Some ''1'', Some ''100'']"] show ?thesis
    by (auto simp: sample_rows_count)
qed

text \<open>
  C11. From the worker to the reader: what an extraction attests is what is read. Once a completion is
  applied, its admission sealed, its document linked to a paper and, in the view the authority's query
  gives of it, shown as ready with this extraction, following the pages yields the attested texts, all of
  them and in their order.
\<close>

theorem completed_extraction_read:
  assumes "assert_extraction_attestation nfc a = Inr u" "chunks_owned d"
    and "complete_extraction_tx sha256 newId l a now d = Inr (Some r, d')" "xr_outcome r = Applied"
    and "w = lifecycle_view id_less org policyVersion (admitted d' m) x"
    and "el_state (document_extraction_lifecycle (rs_workspaceId s) policyVersion w) = Shown_ready"
    and "el_extractionId (document_extraction_lifecycle (rs_workspaceId s) policyVersion w) = Some newId"
    and "valid_opaque_id (wp_id p)" "valid_opaque_id (wp_paperId p)"
    and "length ids = length (xa_chunks a)" "list_all valid_opaque_id ids"
    and "hmac_law hmac" "parse_law parse" "\<forall>t. length (sha256 t) = 64"
    and "reader_configured policy secret policyVersion key" "valid_subject s"
    and "list_all valid_limit limits" "length (xa_chunks a) \<le> length limits"
  shows "\<exists>pages. follow_pages
        (\<lambda>params. get_workspace_paper_reader hmac parse nfc sha256 policy secret s params
          (linked_rows p admittedAt
            (zip ids (stored_chunks d' (extraction_row_of newId l a now))) w)) None limits = Inr pages
    \<and> map rk_text (concat (map page_chunks pages)) = map xc_text (xa_chunks a)
    \<and> page_cursor (last pages) = None"
  using reader_reads_chunks [OF assms(12-16) completed_rows_shown(1) [OF assms(1-11)] assms(17)]
    completed_rows_shown(2) [OF assms(1-11)] completed_rows_count [OF assms(1-4,10)] assms(18)
  by (metis (no_types, lifting))

theorem completed_extraction_read_witness:
  "\<exists>pages. follow_pages (\<lambda>params. get_workspace_paper_reader sample_hmac sample_parse id sample_sha256 None
        (Some sample_secret) sample_subject params sample_rows) None [None, None] = Inr pages
    \<and> map rk_text (concat (map page_chunks pages)) = map xc_text (xa_chunks sample_xattestation)
    \<and> page_cursor (last pages) = None"
proof -
  have "length (xa_chunks sample_xattestation) \<le> length [None, None]" "list_all valid_limit [None, None]"
    by (simp_all add: sample_xattestation_def)
  with completed_extraction_read [OF sample_completed sample_view_def sample_ready
      sample_id_facts sample_hmac_law sample_parse_law sample_digest sample_configured sample_subject_valid]
  show ?thesis unfolding sample_rows_def by blast
qed

end
