(* ===== verification/Document_Frames.thy ===== *)
theory Document_Frames
  imports Pipeline
begin

text \<open>
  What the workers may do to a document row: its status, its failure code and the measures of a validation
  change; its identity, its kind and the paper it is linked to do not, and an archived row stays archived.
\<close>

section \<open>Rows that keep their place\<close>

definition document_moves :: "document \<Rightarrow> document \<Rightarrow> bool" where
  "document_moves x y \<longleftrightarrow>
     d_id y = d_id x \<and> d_org y = d_org x \<and> d_kind y = d_kind x \<and> d_paperId y = d_paperId x
     \<and> d_workspacePaperId y = d_workspacePaperId x \<and> (d_status x = D_ARCHIVED \<longrightarrow> d_status y = D_ARCHIVED)"

definition documents_move :: "db \<Rightarrow> db \<Rightarrow> bool" where
  "documents_move d d' \<longleftrightarrow> list_all2 document_moves (documents d) (documents d')"

definition documents_keyed :: "db \<Rightarrow> bool" where
  "documents_keyed d \<longleftrightarrow> distinct (map (\<lambda>x. (d_org x, d_id x)) (documents d))"

lemma document_moves_refl [simp]: "document_moves x x"
  by (simp add: document_moves_def)

lemma documents_move_same [simp]: "documents d' = documents d \<Longrightarrow> documents_move d d'"
  by (simp add: documents_move_def list.rel_refl)

lemma documents_move_trans: "documents_move a b \<Longrightarrow> documents_move b c \<Longrightarrow> documents_move a c"
  unfolding documents_move_def
  by (rule list_all2_trans [of document_moves document_moves document_moves]) (auto simp: document_moves_def)

lemma documents_move_keyed: "documents_move d d' \<Longrightarrow> documents_keyed d \<Longrightarrow> documents_keyed d'"
proof -
  assume "documents_move d d'"
  then have "map (\<lambda>x. (d_org x, d_id x)) (documents d) = map (\<lambda>x. (d_org x, d_id x)) (documents d')"
    unfolding documents_move_def by (induction rule: list_all2_induct) (auto simp: document_moves_def)
  then show "documents_keyed d \<Longrightarrow> documents_keyed d'" by (simp add: documents_keyed_def)
qed

lemma update_documents_move:
  assumes "\<And>x. x \<in> set (documents d) \<Longrightarrow> P x \<Longrightarrow> document_moves x (f x)"
    "documents d' = update_rows P f (documents d)"
  shows "documents_move d d'"
  using assms by (auto simp: documents_move_def update_rows_def list_all2_conv_all_nth)

text \<open>A row that was read by its key, is not archived and is then written by its key.\<close>

lemma keyed_update_moves:
  assumes keyed: "documents_keyed d" and read: "List.find (document_key org i) (documents d) = Some x"
    and open_row: "d_status x \<noteq> D_ARCHIVED"
    and upd: "documents d' = update_rows (document_key org i) f (documents d)"
    and f: "\<And>x. d_id (f x) = d_id x \<and> d_org (f x) = d_org x \<and> d_kind (f x) = d_kind x
      \<and> d_paperId (f x) = d_paperId x \<and> d_workspacePaperId (f x) = d_workspacePaperId x"
  shows "documents_move d d'"
proof (rule update_documents_move [OF _ upd])
  fix y assume y: "y \<in> set (documents d)" "document_key org i y"
  from find_SomeD [OF read] have x: "x \<in> set (documents d)" "document_key org i x" by auto
  have "y = x"
    by (rule distinct_keyD [OF keyed [unfolded documents_keyed_def] y(1) x(1)])
      (use x(2) y(2) in \<open>auto simp: document_key_def\<close>)
  with open_row f show "document_moves y (f y)" by (simp add: document_moves_def)
qed

section \<open>The transactions\<close>

lemma project_documents: "project_lifecycle d key p (Some t) = Inr (ok, d') \<Longrightarrow> documents d' = documents d"
  by (drule project_outside_same) (simp add: outside_sameD)

lemma update_moves:
  "(\<And>x. P x \<Longrightarrow> document_moves x (f x)) \<Longrightarrow> list_all2 document_moves xs (update_rows P f xs)"
  by (auto simp: update_rows_def list_all2_conv_all_nth)

lemma documents_move_cong: "documents_move a b \<Longrightarrow> documents a = documents d \<Longrightarrow> documents d' = documents b \<Longrightarrow> documents_move d d'"
  by (simp add: documents_move_def)

text \<open>The two updates as functions of the table.\<close>

definition failed_pending :: "job \<Rightarrow> string \<Rightarrow> document list \<Rightarrow> document list" where
  "failed_pending job c xs =
     (if truthy (j_documentId job)
      then update_rows (\<lambda>x. Some (d_id x) = j_documentId job \<and> d_org x = j_org job \<and> d_status x \<in> {D_PENDING, D_PROCESSING})
             (\<lambda>x. x\<lparr>d_status := D_FAILED, d_failureCode := Some (public_failure_code c)\<rparr>) xs
      else xs)"

lemma fail_pending_documents [simp]: "documents (fail_pending_document job c d) = failed_pending job c (documents d)"
  by (simp add: failed_pending_def fail_pending_document_def)

lemma fail_pending_moves: "list_all2 document_moves xs (failed_pending job c xs)"
  by (auto simp: failed_pending_def document_moves_def list.rel_refl intro!: update_moves)

definition processed :: "validation_lease \<Rightarrow> document_status \<Rightarrow> string option \<Rightarrow> document list \<Rightarrow> document list" where
  "processed l s f xs = update_rows
     (\<lambda>x. document_key (vl_organizationId l) (vl_documentId l) x \<and> d_status x = D_PROCESSING)
     (\<lambda>x. x\<lparr>d_status := s, d_failureCode := f\<rparr>) xs"

lemma update_processing_documents [simp]:
  "documents (update_processing_document l s f d) = processed l s f (documents d)"
  by (simp add: update_processing_document_def processed_def)

lemma processed_moves: "list_all2 document_moves xs (processed l s f xs)"
  by (auto simp: processed_def document_moves_def intro!: update_moves)

lemma quarantine_documents [simp]: "documents (quarantine_scanning job d) = documents d"
  by (simp add: quarantine_scanning_def)

lemma target_failure_documents:
  assumes "fail_target_without_claim d job c now = Inr d'"
  shows "documents_move d d'"
proof -
  from assms [unfolded fail_target_without_claim_def] obtain d1 where
    d1: "project_unclaimed_failure d job c now = Inr d1"
    and rest: "documents d' = failed_pending job c (documents d1)"
    by (rule and_then_InrE) (auto simp: Let_def and_then_Inr_iff)
  from d1 have "documents d1 = documents d"
    by (auto simp: project_unclaimed_failure_def map_sum_Inr_iff dest: project_documents split: option.splits)
  with rest show ?thesis by (simp add: documents_move_def fail_pending_moves)
qed

lemma claim_target_documents:
  assumes keyed: "documents_keyed d" and claim: "claim_validation_target env w ttl now job d = Inr (r, d')"
  shows "documents_move d d'"
proof (cases "validation_target d job")
  case None
  with claim show ?thesis
    by (auto simp: claim_validation_target_def map_sum_Inr_iff intro: target_failure_documents)
next
  case (Some tgt)
  obtain p key x a rc where tgt: "tgt = (p, key, x, a, rc)" by (cases tgt)
  with claim Some obtain okp d1 where pr: "project_lifecycle d key Validation_claim (Some now) = Inr (okp, d1)"
    and rest: "fail_target_without_claim d1 job ''validation_target_invalid'' now = Inr d'
      \<or> take_validation_lease env w ttl now job x a d1 = Inr d'"
    by (auto simp: claim_validation_target_def and_then_Inr_iff map_sum_Inr_iff split: if_splits)
  note same = project_documents [OF pr]
  note target = validation_targetD [OF Some [unfolded tgt]]
  from rest show ?thesis
  proof
    assume "fail_target_without_claim d1 job ''validation_target_invalid'' now = Inr d'"
    from target_failure_documents [OF this] show ?thesis by (rule documents_move_cong) (simp_all add: same)
  next
    assume take: "take_validation_lease env w ttl now job x a d1 = Inr d'"
    from find_SomeD [OF target(4)] have "d_id x = ak_documentId key" by (simp add: document_key_def)
    with target(4) have read: "List.find (document_key (j_org job) (d_id x)) (documents d) = Some x" by simp
    show ?thesis
      by (rule keyed_update_moves [OF keyed read _ take_validation_leaseE(5) [OF take, unfolded same]])
        (use target(7) in \<open>auto simp: claimable_target_def\<close>)
  qed
qed

lemma closed_documents [simp]: "documents (close_expired_attempt job s m now d) = documents d"
  by (simp add: close_expired_attempt_def)

lemma reset_moves: "documents d1 = documents d \<Longrightarrow> documents_move d (reset_processing_document job d1)"
  by (auto simp: reset_processing_document_def documents_move_def document_moves_def list.rel_refl intro!: update_moves)

lemma claim_tx_documents:
  assumes keyed: "documents_keyed d" and claim: "claim_validation_tx env w ttl now d = Inr (r, d')"
  shows "documents_move d d'"
proof (cases "select_candidate env (validation_candidate now) (jobs d)")
  case None
  with claim show ?thesis by (simp add: claim_validation_tx_def)
next
  case (Some job)
  let ?reset = "reset_processing_document job (quarantine_scanning job
      (close_expired_attempt job J_FAILED validation_expired_message now d))"
  let ?closed = "close_expired_attempt job J_DEAD_LETTER validation_expired_message now d"
  from claim Some consider "d' = d"
    | c where "fail_target_without_claim d job c now = Inr d'"
    | c where "fail_target_without_claim ?closed job c now = Inr d'"
    | "claim_validation_target env w ttl now job d = Inr (r, d')"
    | "claim_validation_target env w ttl now job ?reset = Inr (r, d')"
    by (auto simp: claim_validation_tx_def map_sum_Inr_iff split: if_splits)
  then show ?thesis
  proof cases
    case 3
    from target_failure_documents [OF this] show ?thesis
      by (rule documents_move_cong) simp_all
  next
    case 5
    have "documents_move ?reset d'"
      by (rule claim_target_documents [OF documents_move_keyed [OF _ keyed] 5]) (rule reset_moves, simp)
    moreover have "documents_move d ?reset" by (rule reset_moves) simp
    ultimately show ?thesis by (blast intro: documents_move_trans)
  qed (use keyed in \<open>simp_all add: target_failure_documents claim_target_documents\<close>)
qed

lemma completion_documents:
  assumes keyed: "documents_keyed d" and run: "complete_validation_tx ids l a e now d = Inr (r, d')"
  shows "documents_move d d'"
  using run
proof (cases rule: complete_validation_txE)
  case (applied job rc d1)
  note same = project_documents [OF applied(4)]
  from applied(2) obtain x where
    x: "List.find (document_key (vl_organizationId l) (vl_documentId l)) (documents d) = Some x"
      "d_status x = D_PROCESSING"
    by (auto simp: completion_allowed_def scanned_target_current_def split: option.splits)
  show ?thesis
    by (rule keyed_update_moves [OF keyed x(1) _ apply_validationE(4) [OF applied(5), unfolded same]])
      (use x(2) in \<open>auto simp: completed_document_def\<close>)
qed simp_all

lemma rejected_documents [simp]:
  "documents (release_scanned_asset l d) = documents d" "documents (reject_changed_asset l c d) = documents d"
  by (simp_all add: release_scanned_asset_def reject_changed_asset_def)

lemma failure_documents:
  assumes "fail_validation_tx l c retryable now d = Inr (r, d')"
  shows "documents_move d d'"
  using assms
proof (cases rule: fail_validation_txE)
  case (applied job d1 canRetry)
  from applied(5) have "documents d' = processed l (if canRetry then D_PENDING else D_FAILED)
      (if canRetry then None else Some (terminal_validation_code c)) (documents d1)"
    by (cases canRetry) (auto simp: apply_validation_failure_def and_then_Inr_iff Let_def)
  with project_documents [OF applied(4)] show ?thesis by (auto simp: documents_move_def processed_moves)
qed simp

text \<open>The extraction transactions do not write documents.\<close>

lemma enqueue_documents:
  "enqueue_validation i now x d = Inr (j, d') \<Longrightarrow> documents d' = documents d"
  "enqueue_extraction i t xx d = Inr (j, d') \<Longrightarrow> documents d' = documents d"
  by (auto simp: enqueue_validation_def and_then_Inr_iff map_sum_Inr_iff Let_def
        dest!: enqueue_extraction_appends split: option.splits if_splits)

lemma extraction_target_failure: "fail_extraction_target d job c now = Inr d' \<Longrightarrow> documents d' = documents d"
  by (auto simp: fail_extraction_target_def and_then_Inr_iff Let_def map_sum_Inr_iff dest: project_documents
      split: option.splits)

lemma extraction_documents:
  "claim_extraction_tx env w pv x ttl q now d = Inr (cr, d') \<Longrightarrow> documents d' = documents d"
  "complete_extraction_tx sha256 i xl xa now d = Inr (xr, d') \<Longrightarrow> documents d' = documents d"
  "fail_extraction_tx xl xc retryable now d = Inr (fr, d') \<Longrightarrow> documents d' = documents d"
  "defer_extraction xl clock n d = Inr (dr, d') \<Longrightarrow> documents d' = documents d"
proof -
  have claim: "documents d' = documents d1" if "claim_extraction_target env w ttl now job d1 = Inr (r, d')" for job d1 r ttl now
  proof (cases "Option.bind (parse_extraction_payload (j_payload job))
             (\<lambda>p. map_option (\<lambda>g. (p, g)) (authoritative_extraction_target d1 job p))")
    case None
    with that show ?thesis
      by (auto simp: claim_extraction_target_def map_sum_Inr_iff intro: extraction_target_failure)
  next
    case (Some pg)
    obtain p g where "pg = (p, g)" by (cases pg)
    with that Some obtain okp d2 where
      pr: "project_lifecycle d1 (target_authority_key job g) Extraction_claim (Some now) = Inr (okp, d2)"
      and rest: "fail_extraction_target d2 job ''extraction_target_invalid'' now = Inr d'
        \<or> open_job_lease env w ttl now job d2 = Inr d'"
      by (auto simp: claim_extraction_target_def and_then_Inr_iff map_sum_Inr_iff split: if_splits)
    from rest project_documents [OF pr] show ?thesis
      by (auto simp: open_job_lease_def and_then_Inr_iff dest: extraction_target_failure)
  qed
  show "documents d' = documents d" if "claim_extraction_tx env w pv x ttl q now d = Inr (cr, d')"
    using that
    by (auto simp: claim_extraction_tx_def map_sum_Inr_iff close_expired_extraction_def split: option.splits if_splits
        dest!: extraction_target_failure claim)
  show "documents d' = documents d" if "complete_extraction_tx sha256 i xl xa now d = Inr (xr, d')"
    using that
  proof (cases rule: complete_extraction_txE)
    case (applied job d1)
    then have "documents d' = documents d1" by (auto simp: apply_extraction_def and_then_Inr_iff)
    with project_documents [OF applied(4)] show ?thesis by simp
  qed simp_all
  show "documents d' = documents d" if "fail_extraction_tx xl xc retryable now d = Inr (fr, d')"
    using that
  proof (cases rule: fail_extraction_txE)
    case (applied job d1 canRetry)
    then have "documents d' = documents d1"
      by (auto simp: apply_extraction_failure_def and_then_Inr_iff Let_def split: if_splits)
    with project_documents [OF applied(4)] show ?thesis by simp
  qed simp
  show "documents d' = documents d" if "defer_extraction xl clock n d = Inr (dr, d')"
    using that
  proof (cases rule: defer_extractionE)
    case (applied ov now job d1)
    then have "documents d' = documents d1" by (auto simp: apply_deferral_def and_then_Inr_iff)
    with project_documents [OF applied(6)] show ?thesis by simp
  qed simp
qed

section \<open>Runs\<close>

lemma run_pipeline_documents:
  assumes "documents_keyed d" "run_pipeline nfc sha256 e d = Inr (u, d')"
  shows "documents_move d d'"
proof (cases e)
  case (Validation_event v)
  with assms show ?thesis
    by (cases v) (auto simp: map_sum_Inr_iff and_then_Inr_iff heartbeat_validation_def
        complete_validation_def fail_validation_def enqueue_documents
        intro: claim_tx_documents completion_documents failure_documents)
next
  case (Extraction_event x)
  with assms show ?thesis
    by (cases x) (auto simp: map_sum_Inr_iff and_then_Inr_iff heartbeat_extraction_def Let_def
        run_extraction_claim_def complete_extraction_def fail_extraction_def enqueue_documents extraction_documents)
qed

end
