(* ===== verification/Paper_Link_System.thy ===== *)
theory Paper_Link_System
  imports Document_Frames Paper_Link_Laws
begin

text \<open>
  The workers, the collaboration service and the link command over one database, in any order: every run is
  a run of the job queue and of the membership policy, a paper has at most one active PDF, and a link that
  was answered is found again.
\<close>

section \<open>Events\<close>

datatype linking_event =
  Worker_step pipeline_event
| Member_step collaboration_event
| Link_step ident ident ident json workspace_db millis

fun run_linking ::
    "(string \<Rightarrow> string) \<Rightarrow> (string \<Rightarrow> string) \<Rightarrow> collaboration_env \<Rightarrow> linking_event \<Rightarrow> link_db
      \<Rightarrow> (tx_error + collaboration_error) + (link_answer option \<times> link_db)" where
  "run_linking nfc sha256 env (Worker_step e) d =
     map_sum Inl (\<lambda>(_, p). (None, d\<lparr>pipeline := p\<rparr>)) (run_pipeline nfc sha256 e (pipeline d))"
| "run_linking nfc sha256 env (Member_step e) d =
     map_sum Inr (\<lambda>(_, w). (None, d\<lparr>workspace := w\<rparr>)) (run_collaboration env e (workspace d))"
| "run_linking nfc sha256 env (Link_step user ws documentId raw earlier now) d =
     map_sum Inr (map_prod Some id) (link_validated_document sha256 user ws documentId raw earlier now d)"

fun linking_admissible :: "linking_event \<Rightarrow> bool" where
  "linking_admissible (Worker_step e) \<longleftrightarrow> pipeline_admissible e"
| "linking_admissible _ \<longleftrightarrow> True"

section \<open>One active PDF per paper\<close>

definition active_paper_pdf :: "document \<Rightarrow> bool" where
  "active_paper_pdf x \<longleftrightarrow> d_kind x = PAPER_PDF \<and> d_status x \<noteq> D_ARCHIVED"

definition linked_apart :: "document \<Rightarrow> document \<Rightarrow> bool" where
  "linked_apart x y \<longleftrightarrow>
     d_org x \<noteq> d_org y \<or> d_id x = d_id y \<or> \<not> active_paper_pdf x \<or> \<not> active_paper_pdf y
     \<or> (d_paperId x = None \<or> d_paperId x \<noteq> d_paperId y)
       \<and> (d_workspacePaperId x = None \<or> d_workspacePaperId x \<noteq> d_workspacePaperId y)"

definition one_pdf_per_paper :: "document list \<Rightarrow> bool" where
  "one_pdf_per_paper xs \<longleftrightarrow> list_all (\<lambda>x. list_all (linked_apart x) xs) xs"

lemma linked_apart_moves:
  "linked_apart x y \<Longrightarrow> document_moves x x' \<Longrightarrow> document_moves y y' \<Longrightarrow> linked_apart x' y'"
  by (auto simp: linked_apart_def document_moves_def active_paper_pdf_def)

lemma one_pdf_moves:
  assumes one: "one_pdf_per_paper (documents d)" and mv: "documents_move d d'"
  shows "one_pdf_per_paper (documents d')"
proof -
  have "\<exists>x \<in> set (documents d). document_moves x x'" if "x' \<in> set (documents d')" for x'
    using mv that unfolding documents_move_def by (metis list_all2_conv_all_nth in_set_conv_nth)
  then show ?thesis using one linked_apart_moves by (simp add: one_pdf_per_paper_def list_all_iff) metis
qed

lemma linked_apart_sym: "linked_apart x y \<Longrightarrow> linked_apart y x"
  by (auto simp: linked_apart_def)

lemma one_pdf_link:
  assumes one: "one_pdf_per_paper xs"
    and free: "\<forall>y \<in> set xs. d_id y = i \<or> \<not> active_pdf ws p y"
  shows "one_pdf_per_paper (update_rows (document_key ws i) (link_document p) xs)"
proof -
  have new: "linked_apart (link_document p x) y" if "document_key ws i x" "y \<in> set xs" "\<not> document_key ws i y" for x y
    using that free by (auto simp: linked_apart_def link_document_def document_key_def active_pdf_def active_paper_pdf_def)
  have old: "linked_apart x y" if "x \<in> set xs" "y \<in> set xs" for x y
    using one that by (simp add: one_pdf_per_paper_def list_all_iff)
  have both: "linked_apart (link_document p x) (link_document p y)" if "document_key ws i x" "document_key ws i y" for x y
    using that by (simp add: linked_apart_def link_document_def document_key_def)
  show ?thesis
    unfolding one_pdf_per_paper_def list_all_iff
    by (auto dest!: set_update_rows intro: new linked_apart_sym [OF new] old both)
qed

section \<open>A link, seen from the other components\<close>

lemma link_keeps_tables:
  assumes "d' = (write_link sha256 ws user op p x v s now d)\<lparr>workspace := w\<rparr>"
  shows "queue_of (pipeline d') = queue_of (pipeline d)"
    "documents (pipeline d') = update_rows (document_key ws (d_id x)) (link_document p) (documents (pipeline d))"
    "workspace d' = w"
  by (simp_all add: assms write_link_def Let_def queue_of_def)

lemma linked_documents_keyed:
  "documents_keyed d \<Longrightarrow> documents d' = update_rows P (link_document p) (documents d) \<Longrightarrow> documents_keyed d'"
  unfolding documents_keyed_def by (simp add: link_document_def map_update_rows)

definition linking_ok :: "link_db \<Rightarrow> bool" where
  "linking_ok d \<longleftrightarrow>
     queue_ok (queue_of (pipeline d)) \<and> documents_keyed (pipeline d) \<and> one_pdf_per_paper (documents (pipeline d))
     \<and> workspace_wf (workspace d)"

lemma link_step_ok:
  assumes ok: "linking_ok d" and run: "link_validated_document sha256 user ws documentId raw earlier now d = Inr (a, d')"
  shows "linking_ok d' \<and> queue_of (pipeline d') = queue_of (pipeline d)
    \<and> authority_of (workspace d') = authority_of (workspace d)
    \<and> (\<exists>rows. idempotency (workspace d') = idempotency (workspace d) @ rows)"
  using run
proof (cases rule: link_validated_documentE)
  case refused
  with ok show ?thesis by simp
next
  case (run c)
  from run(3) show ?thesis
  proof (cases rule: link_transaction_cases)
    case unchanged
    with ok show ?thesis by simp
  next
    case (applied x p s v)
    note allowed = applied(1) [unfolded link_allowed_def]
    note tables = link_keeps_tables [OF applied(3)]
    let ?row = "link_row user ws c"
    have "workspace_wf (workspace d')"
      unfolding tables(3)
      by (rule linked_workspace_wf) (use ok allowed in \<open>simp_all add: linking_ok_def link_row_def\<close>)
    moreover have "documents_keyed (pipeline d')"
      using ok by (auto intro: linked_documents_keyed [OF _ tables(2)] simp: linking_ok_def)
    moreover have "one_pdf_per_paper (documents (pipeline d'))"
      unfolding tables(2) by (rule one_pdf_link) (use ok allowed in \<open>auto simp: linking_ok_def\<close>)
    moreover have "idempotency (workspace d') = idempotency (workspace d)
        @ [link_row ws user c (link_request_hash sha256 documentId (lc_paperId c)) p x now]"
      unfolding tables(3) by (simp add: linked_workspace_def)
    ultimately show ?thesis
      using ok by (simp add: linking_ok_def tables(1,3) linked_workspace_authority)
  qed
qed

section \<open>Contracts\<close>

definition linking_view :: "link_db \<Rightarrow> queue \<times> authority" where
  "linking_view d = (queue_of (pipeline d), authority_of (workspace d))"

fun linking_step :: "linking_event \<Rightarrow> queue \<times> authority \<Rightarrow> queue \<times> authority \<Rightarrow> bool" where
  "linking_step (Worker_step e) (q, a) (q', a') \<longleftrightarrow> queue_step (pipeline_clock e) q q' \<and> a' = a"
| "linking_step (Member_step e) (q, a) (q', a') \<longleftrightarrow> policy_step a a' \<and> q' = q"
| "linking_step (Link_step user ws i raw earlier now) (q, a) (q', a') \<longleftrightarrow> False"

lemma worker_view_steps:
  "(queue_step (pipeline_clock e))\<^sup>*\<^sup>* q q' \<Longrightarrow> (linking_step (Worker_step e))\<^sup>*\<^sup>* (q, a) (q', a)"
  by (induction rule: rtranclp_induct) (auto intro: rtranclp.rtrancl_into_rtrancl)

lemma member_view_steps: "policy_step\<^sup>*\<^sup>* a a' \<Longrightarrow> (linking_step (Member_step e))\<^sup>*\<^sup>* (q, a) (q, a')"
  by (induction rule: rtranclp_induct) (auto intro: rtranclp.rtrancl_into_rtrancl)

lemma linking_event_ok:
  assumes ok: "linking_ok d" and adm: "linking_admissible e" and run: "run_linking nfc sha256 env e d = Inr (a, d')"
  shows "linking_ok d' \<and> (linking_step e)\<^sup>*\<^sup>* (linking_view d) (linking_view d')
    \<and> (\<exists>rows. idempotency (workspace d') = idempotency (workspace d) @ rows)"
proof (cases e)
  case (Worker_step w)
  with run obtain u q where w: "run_pipeline nfc sha256 w (pipeline d) = Inr (u, q)" "d' = d\<lparr>pipeline := q\<rparr>"
    by (cases "run_pipeline nfc sha256 w (pipeline d)") auto
  have mv: "documents_move (pipeline d) q"
    using ok w(1) by (auto simp: linking_ok_def intro: run_pipeline_documents)
  have "linking_ok d'"
    using ok adm w Worker_step one_pdf_moves [OF _ mv] documents_move_keyed [OF mv]
    by (auto simp: linking_ok_def intro: pq.run_ok)
  moreover have "(queue_step (pipeline_clock w))\<^sup>*\<^sup>* (queue_of (pipeline d)) (queue_of q)"
    using ok adm w(1) Worker_step by (auto simp: linking_ok_def intro: pq.queue_steps)
  ultimately show ?thesis using w(2) Worker_step by (simp add: linking_view_def worker_view_steps)
next
  case (Member_step m)
  with run obtain u w where m: "run_collaboration env m (workspace d) = Inr (u, w)" "d' = d\<lparr>workspace := w\<rparr>"
    by (cases "run_collaboration env m (workspace d)") auto
  have wf: "workspace_wf (workspace d)" using ok by (simp add: linking_ok_def)
  have "linking_ok d'" using ok m(2) cs.preserved [OF TrueI wf m(1)] by (simp add: linking_ok_def)
  moreover have "\<exists>rows. idempotency w = idempotency (workspace d) @ rows"
    using run_collaboration_change [OF wf m(1)]
    unfolding known_change_def workspace_change_def personal_change_def by fastforce
  ultimately show ?thesis
    using cs.refines [OF TrueI wf m(1)] m(2) Member_step by (simp add: linking_view_def member_view_steps)
next
  case (Link_step user ws i raw earlier now)
  with run obtain b where "link_validated_document sha256 user ws i raw earlier now d = Inr (b, d')"
    by (cases "link_validated_document sha256 user ws i raw earlier now d") auto
  from link_step_ok [OF ok this] show ?thesis by (simp add: linking_view_def)
qed

interpretation ls: refining "run_linking nfc sha256 env" linking_admissible linking_ok linking_view linking_step
  by unfold_locales (auto dest: linking_event_ok)

interpretation la: keeping "run_linking nfc sha256 env" linking_admissible linking_ok
    "\<lambda>(ws, user, op, hash, p, i) d. link_answered ws user op hash p i (workspace d)"
proof
  fix e d a d' k
  assume "linking_admissible e" "linking_ok d" "run_linking nfc sha256 env e d = Inr (a, d')"
    and k: "(\<lambda>(ws, user, op, hash, p, i) d. link_answered ws user op hash p i (workspace d)) k d"
  then obtain rows where "idempotency (workspace d') = idempotency (workspace d) @ rows"
    using linking_event_ok by blast
  with k show "(\<lambda>(ws, user, op, hash, p, i) d. link_answered ws user op hash p i (workspace d)) k d'"
    by (cases k) (auto intro: link_answered_append)
qed

end
