(* ===== verification/Paper_Link_Effects.thy ===== *)
theory Paper_Link_Effects
  imports Paper_Link_System
begin

text \<open>What an applied link has done, and how it is answered again after any run of the other transactions.\<close>

lemma link_appliedE:
  assumes "link_validated_document sha256 user ws i raw earlier now d = Inr (Linked ''applied'' n p j, d')"
  obtains c x q s v where "validate_link_command raw = Inr c" "link_preflight user ws i raw earlier = Inr (Inr c)"
    "operation_id_pattern i" "link_allowed ws user i c d x q s v" "n = lc_expectedVersion c + 1" "p = wp_paperId q"
    "wp_paperId q = lc_paperId c" "j = i" "d_id x = i"
    "d' = (write_link sha256 ws user (lc_clientOperationId c) q x v s now d)
       \<lparr>workspace := linked_workspace ws (lc_expectedVersion c)
          (link_row ws user c (link_request_hash sha256 i (lc_paperId c)) q x now) (workspace d)\<rparr>"
proof -
  from assms obtain c where pre: "link_preflight user ws i raw earlier = Inr (Inr c)"
    and c: "validate_link_command raw = Inr c" "operation_id_pattern i"
    and tx: "link_transaction sha256 ws user i c now d = Inr (Linked ''applied'' n p j, d')"
    by (auto simp: link_validated_document_def link_preflight_def and_then_Inr_iff split: if_splits)
  from tx show thesis
  proof (cases rule: link_transaction_cases)
    case (applied x q s v)
    from applied(1) have q: "wp_paperId q = lc_paperId c" unfolding link_allowed_def by (auto dest: visible_paperD)
    from applied(1) have x: "d_id x = i" unfolding link_allowed_def by (auto simp: document_key_def dest: find_SomeD)
    from applied(2) q x show thesis by (intro that [OF c(1) pre c(2) applied(1)]) (simp_all add: applied(3))
  qed blast
qed

lemma validated_paper_id:
  "validate_link_command raw = Inr c \<Longrightarrow> operation_id_pattern (lc_paperId c)"
  by (auto simp: validate_link_command_def Let_def and_then_Inr_iff require_opaque_id_def text_where_Some_iff
      split: json.splits if_splits)

lemma linked_inbox:
  assumes "link_inbox_entries ws x d = [e]" "d_id y = d_id x"
    and "inbox d' = update_rows (\<lambda>r. x_org r = ws \<and> x_id r = x_id e) resolve_inbox (inbox d)"
  shows "link_inbox_entries ws y d' = [resolve_inbox e]"
proof -
  have "e \<in> set (link_inbox_entries ws x d)" using assms(1) by simp
  then have "x_org e = ws" by (simp add: link_inbox_entries_def)
  then show ?thesis
    using assms(1) unfolding link_inbox_entries_def assms(2,3)
    by (subst filter_update_rows) (auto simp: resolve_inbox_def)
qed

lemma linked_organization:
  assumes "organization_of ws w = Some g" "og_revision g = expected"
  shows "organization_of ws (linked_workspace ws expected row w) = Some (g\<lparr>og_revision := expected + 1\<rparr>)"
proof -
  have "og_id g = ws" using assms(1) find_SomeD [of _ "organizations w" g] by (auto simp: organization_of_def)
  then show ?thesis
    using assms by (simp add: organization_of_def linked_workspace_def bumped_def find_update_rows)
qed

lemma linked_other_organization:
  "other \<noteq> ws \<Longrightarrow> organization_of other (linked_workspace ws expected row w) = organization_of other w"
  unfolding organization_of_def linked_workspace_def bumped_def
  by (simp add: find_update_rows) (auto simp: find_None_iff map_option_idI dest: find_SomeD intro!: map_option_idI)

text \<open>The answer that was stored is found again.\<close>

lemma link_applied_answered:
  assumes "link_validated_document sha256 user ws i raw earlier now d = Inr (Linked ''applied'' n p j, d')"
    and "validate_link_command raw = Inr c"
  shows "link_answered ws user (lc_clientOperationId c) (link_request_hash sha256 i (lc_paperId c)) p j (workspace d')"
  using assms(1)
proof (rule link_appliedE)
  fix c' x q s v
  assume c': "validate_link_command raw = Inr c'" and pat: "operation_id_pattern i"
    and ok: "link_allowed ws user i c' d x q s v" and p: "p = wp_paperId q" "wp_paperId q = lc_paperId c'" "j = i" "d_id x = i"
    and d': "d' = (write_link sha256 ws user (lc_clientOperationId c') q x v s now d)
       \<lparr>workspace := linked_workspace ws (lc_expectedVersion c')
          (link_row ws user c' (link_request_hash sha256 i (lc_paperId c')) q x now) (workspace d)\<rparr>"
  let ?row = "link_row ws user c' (link_request_hash sha256 i (lc_paperId c')) q x now"
  from c' assms(2) have c: "c' = c" by simp
  have "prior_command ws (lc_clientOperationId c) (workspace d') = Some ?row"
    using ok by (simp add: d' c link_allowed_def prior_command_def linked_workspace_def find_append link_row_def)
  moreover have "replayed_link (ir_response ?row) v' = Some (Linked ''replayed'' v' p j)" for v'
    using validated_paper_id [OF c'] pat p by (simp add: link_row_def link_response_replayed)
  ultimately show ?thesis unfolding link_answered_def by (intro exI [of _ ?row]) (simp add: link_row_def c)
qed

section \<open>The writes\<close>

text \<open>
  What an applied link of document \<open>x\<close> to paper \<open>q\<close> leaves, with \<open>e\<close> the Inbox entry and \<open>n\<close> the new
  revision of the workspace.
\<close>

definition link_effect :: "ident \<Rightarrow> ident \<Rightarrow> document \<Rightarrow> workspace_paper \<Rightarrow> inbox_entry \<Rightarrow> int \<Rightarrow> link_db \<Rightarrow> link_db \<Rightarrow> bool" where
  "link_effect ws i x q e n d d' \<longleftrightarrow>
     List.find (document_key ws i) (documents (pipeline d'))
       = Some (x\<lparr>d_paperId := Some (wp_paperId q), d_workspacePaperId := Some (wp_id q)\<rparr>)
     \<and> filter (\<lambda>y. \<not> document_key ws i y) (documents (pipeline d'))
       = filter (\<lambda>y. \<not> document_key ws i y) (documents (pipeline d))
     \<and> link_inbox_entries ws x (pipeline d')
       = [e\<lparr>x_status := X_IMPORTED, x_failureCode := None, x_failureMessage := None\<rparr>]
     \<and> filter (\<lambda>r. \<not> (x_org r = ws \<and> x_id r = x_id e)) (inbox (pipeline d'))
       = filter (\<lambda>r. \<not> (x_org r = ws \<and> x_id r = x_id e)) (inbox (pipeline d))
     \<and> pipeline d' = (pipeline d)\<lparr>documents := documents (pipeline d'), inbox := inbox (pipeline d')\<rparr>
     \<and> inbox_paper d' (x_id e) = Some (wp_id q) \<and> inbox_resolved d' (x_id e) \<noteq> None
     \<and> (\<exists>pr. link_provenances d' = link_provenances d @ [pr] \<and> lp_org pr = ws \<and> lp_documentId pr = i
          \<and> lp_paperId pr = wp_paperId q \<and> lp_workspacePaperId pr = wp_id q \<and> lp_inboxEntryId pr = x_id e)
     \<and> (\<exists>au. link_audits d' = link_audits d @ [au] \<and> la_org au = ws \<and> la_entityId au = i
          \<and> la_action au = ''document.paper.linked'')
     \<and> members (workspace d') = members (workspace d)
     \<and> map_option og_revision (organization_of ws (workspace d)) = Some (n - 1)
     \<and> map_option og_revision (organization_of ws (workspace d')) = Some n
     \<and> (\<forall>other. other \<noteq> ws \<longrightarrow> organization_of other (workspace d') = organization_of other (workspace d))"

lemma link_effect_holds:
  assumes allowed: "link_allowed ws user i c d x q s v" and x: "d_id x = i" and n: "n = lc_expectedVersion c + 1"
    and d': "d' = (write_link sha256 ws user op q x v s now d)
       \<lparr>workspace := linked_workspace ws (lc_expectedVersion c) row (workspace d)\<rparr>"
  shows "link_effect ws i x q (ls_inbox s) n d d'"
proof -
  note ok = allowed [unfolded link_allowed_def]
  from ok have "link_membership ws user (workspace d) = Inr (lc_expectedVersion c)" by blast
  then obtain g where g: "organization_of ws (workspace d) = Some g" "og_revision g = lc_expectedVersion c"
    by (auto simp: link_membership_Inr)
  from ok have find: "List.find (document_key ws i) (documents (pipeline d)) = Some x"
    and s: "link_source_of ws x d = Some s" by blast+
  have docs: "documents (pipeline d') = update_rows (document_key ws i) (link_document q) (documents (pipeline d))"
    using link_keeps_tables(2) [OF d'] x by simp
  have "List.find (document_key ws i) (documents (pipeline d')) = Some (link_document q x)"
    unfolding docs by (rule find_update_same [OF find]) (simp add: document_key_def)
  moreover have "filter (\<lambda>y. \<not> document_key ws i y) (documents (pipeline d'))
      = filter (\<lambda>y. \<not> document_key ws i y) (documents (pipeline d))"
    unfolding docs by (subst filter_update_rows) (auto simp: document_key_def intro: update_rows_id)
  moreover have "link_inbox_entries ws x (pipeline d') = [resolve_inbox (ls_inbox s)]"
    by (rule linked_inbox [OF link_source_ofD(1) [OF s]]) (simp_all add: d' write_link_def Let_def)
  moreover have "filter (\<lambda>r. \<not> (x_org r = ws \<and> x_id r = x_id (ls_inbox s))) (inbox (pipeline d'))
      = filter (\<lambda>r. \<not> (x_org r = ws \<and> x_id r = x_id (ls_inbox s))) (inbox (pipeline d))"
    by (simp add: d' write_link_def Let_def, subst filter_update_rows) (auto simp: resolve_inbox_def intro: update_rows_id)
  moreover have "organization_of ws (workspace d') = Some (g\<lparr>og_revision := lc_expectedVersion c + 1\<rparr>)"
    using linked_organization [OF g] by (simp add: d')
  moreover have "organization_of other (workspace d') = organization_of other (workspace d)" if "other \<noteq> ws" for other
    using linked_other_organization [OF that] by (simp add: d')
  ultimately show ?thesis
    using link_keeps_tables(1) [OF d'] g n x
    by (simp add: link_effect_def link_document_def resolve_inbox_def)
      (simp add: d' write_link_def Let_def link_provenance_row_def link_audit_row_def linked_workspace_def)
qed

end
