(* ===== verification/Paper_Link_Properties.thy ===== *)
theory Paper_Link_Properties
  imports Paper_Link_Effects Extraction_Properties
begin

text \<open>
  The properties of the link command, on the validated upload of \<open>Validation_Properties\<close> in a workspace
  with one paper, which belongs to a private project of the caller.
\<close>

section \<open>A validated upload and a paper\<close>

definition sample_links :: link_db where
  "sample_links =
     \<lparr>pipeline = validated_db,
      workspace =
        \<lparr>organizations = [\<lparr>og_id = ''o'', og_name = ''Lab'', og_slug = ''lab'', og_kind = ''SHARED'',
            og_personalOwnerId = None, og_revision = 3\<rparr>],
         members = [\<lparr>mr_id = ''m1'', mr_org = ''o'', mr_user = ''ann'', mr_role = ''owner''\<rparr>],
         invitations = [], users = [], idempotency = [], principals = [], sessions = [], projects = [],
         collaboration_audits = []\<rparr>,
      workspace_papers = [\<lparr>wp_id = ''wp1'', wp_org = ''o'', wp_paperId = ''p1''\<rparr>],
      project_papers = [\<lparr>pp_org = ''o'', pp_workspacePaperId = ''wp1'', pp_projectId = ''j''\<rparr>],
      link_projects = [\<lparr>lj_id = ''j'', lj_org = ''o'', lj_visibility = ''PRIVATE'', lj_createdById = Some ''ann''\<rparr>],
      upload_sessions = [\<lparr>up_id = ''up'', up_status = ''STORED'', up_intakeId = ''k'', up_documentId = Some ''d'',
         up_assetId = ''a'', up_inboxEntryId = Some ''x''\<rparr>],
      inbox_paper = Map.empty, inbox_resolved = Map.empty, receipt_upload = [''r'' \<mapsto> ''up''],
      receipt_upload_attempt = [''r'' \<mapsto> ''ua''], receipt_ingress = Map.empty, crawler_inbox = Map.empty,
      crawler_batch = Map.empty, link_provenances = [], link_audits = []\<rparr>"

definition sample_link :: "string \<Rightarrow> json" where
  "sample_link op = JObj [(''clientOperationId'', JStr op), (''expectedVersion'', jint 3), (''paperId'', JStr ''p1'')]"

definition sample_command :: link_command where
  "sample_command = \<lparr>lc_clientOperationId = ''op-1'', lc_expectedVersion = 3, lc_paperId = ''p1''\<rparr>"

definition sample_collaboration :: collaboration_env where
  "sample_collaboration = \<lparr>ce_lower = id, ce_same_email = (=), ce_sha256 = take 4\<rparr>"

text \<open>The link, the same command again, the claim of the extraction, and a second link under a new operation.\<close>

definition sample_link_step :: "string \<Rightarrow> linking_event" where
  "sample_link_step op = Link_step ''ann'' ''o'' ''d'' (sample_link op) (workspace sample_links) 3000"


definition sample_linked :: link_db where
  "sample_linked = snd (projr (link_validated_document (take 4) ''ann'' ''o'' ''d'' (sample_link ''op-1'')
     (workspace sample_links) 3000 sample_links))"

lemma sample_links_ok: "linking_ok sample_links"
  by code_simp


lemma sample_link_run:
  "case link_validated_document (take 4) ''ann'' ''o'' ''d'' (sample_link ''op-1'') (workspace sample_links) 3000
      sample_links of
     Inl e \<Rightarrow> False
   | Inr (a, d') \<Rightarrow> a = Linked ''applied'' 4 ''p1'' ''d''
       \<and> documents (pipeline d') =
           map (\<lambda>x. x\<lparr>d_paperId := Some ''p1'', d_workspacePaperId := Some ''wp1''\<rparr>) (documents validated_db)
       \<and> members (workspace d') = members (workspace sample_links)
       \<and> map og_id (organizations (workspace d')) = [''o''] \<and> map og_revision (organizations (workspace d')) = [4]"
  by code_simp

lemma sample_link_applied:
  "link_validated_document (take 4) ''ann'' ''o'' ''d'' (sample_link ''op-1'') (workspace sample_links) 3000 sample_links
    = Inr (Linked ''applied'' 4 ''p1'' ''d'', sample_linked)"
  "documents (pipeline sample_linked) =
     map (\<lambda>x. x\<lparr>d_paperId := Some ''p1'', d_workspacePaperId := Some ''wp1''\<rparr>) (documents validated_db)"
  "members (workspace sample_linked) = members (workspace sample_links)"
  "map og_id (organizations (workspace sample_linked)) = [''o'']"
  "map og_revision (organizations (workspace sample_linked)) = [4]"
  using sample_link_run unfolding sample_linked_def by (auto split: sum.splits)

section \<open>Properties\<close>



text \<open>
  C12. A paper has at most one active PDF: along every run of the three services, two documents of a workspace
  that are PDFs of papers, are not archived, and are linked to the same paper, are the same document.
\<close>

theorem paper_has_one_pdf:
  assumes "linking_ok d" "list_all linking_admissible es" "d' = run_events (run_linking nfc sha256 env) es d"
    and "x \<in> set (documents (pipeline d'))" "y \<in> set (documents (pipeline d'))" "d_org x = d_org y"
    and "active_paper_pdf x" "active_paper_pdf y"
    and "d_paperId x \<noteq> None \<and> d_paperId x = d_paperId y
      \<or> d_workspacePaperId x \<noteq> None \<and> d_workspacePaperId x = d_workspacePaperId y"
  shows "x = y"
proof -
  have "linking_ok d'" unfolding assms(3) by (rule ls.run_inv [OF assms(2,1)])
  then have "documents_keyed (pipeline d')" "linked_apart x y"
    using assms(4,5) by (auto simp: linking_ok_def one_pdf_per_paper_def list_all_iff)
  moreover from this(2) have "d_id x = d_id y" using assms(6-9) by (auto simp: linked_apart_def)
  ultimately show ?thesis
    using distinct_keyD [OF _ assms(4,5), of "\<lambda>x. (d_org x, d_id x)"] assms(6) by (simp add: documents_keyed_def)
qed

theorem paper_has_one_pdf_witness:
  "hd (documents (pipeline sample_linked)) = last (documents (pipeline sample_linked))
   \<and> d_paperId (hd (documents (pipeline sample_linked))) = Some ''p1''"
proof
  have run: "sample_linked = run_events (run_linking id (take 4) sample_collaboration) [sample_link_step ''op-1''] sample_links"
    using sample_link_applied(1) by (simp add: sample_link_step_def)
  have adm: "list_all linking_admissible [sample_link_step ''op-1'']" by code_simp
  show "hd (documents (pipeline sample_linked)) = last (documents (pipeline sample_linked))"
    by (rule paper_has_one_pdf [OF sample_links_ok adm run]; unfold sample_link_applied(2); code_simp)
qed (unfold sample_link_applied(2), code_simp)

text \<open>
  When a link is made: the transaction applies the command exactly when every check passes - a caller
  whose role may change the workspace, a fresh operation, the revision the caller saw, a document that is
  not linked, a paper the caller sees that has no active PDF, one asset and one open Inbox entry with the
  rows of an upload or a crawler import behind them, and a current accepted validation. Whatever else it
  answers, the database stays as it was.
\<close>

theorem link_applied_exactly:
  assumes "workspace_wf (workspace d)"
  shows "((\<exists>n p d'. link_transaction sha256 ws user i c now d = Inr (Linked ''applied'' n p i, d'))
      \<longleftrightarrow> (\<exists>x q s v. link_allowed ws user i c d x q s v))
    \<and> (\<forall>a d'. link_transaction sha256 ws user i c now d = Inr (a, d') \<longrightarrow> d' = d \<or> (\<exists>n p. a = Linked ''applied'' n p i))"
proof -
  have id: "d_id x = i" if "link_allowed ws user i c d x q s v" for x q s v
    using that by (auto simp: link_allowed_def document_key_def dest: find_SomeD)
  have "d' = d \<or> (\<exists>n p. a = Linked ''applied'' n p i)"
    if "link_transaction sha256 ws user i c now d = Inr (a, d')" for a d'
    using that by (cases rule: link_transaction_cases) (auto dest: id)
  moreover have "\<exists>x q s v. link_allowed ws user i c d x q s v"
    if "link_transaction sha256 ws user i c now d = Inr (Linked ''applied'' n p i, d')" for n p d'
    using that by (cases rule: link_transaction_cases) blast+
  ultimately show ?thesis using link_transaction_allowed [OF assms] id by metis
qed

theorem link_applied_exactly_witness:
  "\<exists>x q s v. link_allowed ''o'' ''ann'' ''d'' sample_command sample_links x q s v"
proof -
  have wf: "workspace_wf (workspace sample_links)" using sample_links_ok by (simp add: linking_ok_def)
  have "validate_link_command (sample_link ''op-1'') = Inr sample_command" by code_simp
  with sample_link_applied(1) have "link_transaction (take 4) ''o'' ''ann'' ''d'' sample_command 3000 sample_links
      = Inr (Linked ''applied'' 4 ''p1'' ''d'', sample_linked)"
    by (elim link_validated_documentE) auto
  with link_applied_exactly [OF wf] show ?thesis by metis
qed



text \<open>
  C20. A link is answered again: when the command is sent again with the same operation for the same document
  and paper, whatever version it names and whatever the three services did meanwhile, a caller who may still
  change the workspace gets the same paper and document, marked as replayed, and the database does not change.
\<close>

theorem link_replayed:
  assumes "linking_ok d" "link_validated_document sha256 user ws i raw earlier now d = Inr (Linked ''applied'' n p j, d')"
    and "list_all linking_admissible es" "d2 = run_events (run_linking nfc sha256 env) es d'"
    and "validate_link_command raw = Inr c" "validate_link_command raw2 = Inr c2"
    and "lc_clientOperationId c2 = lc_clientOperationId c" "lc_paperId c2 = lc_paperId c"
    and "link_preflight user ws i raw2 earlier2 = Inr (Inr c2)" "link_membership ws user (workspace d2) = Inr version"
  shows "link_validated_document sha256 user ws i raw2 earlier2 now2 d2 = Inr (Linked ''replayed'' version p j, d2)"
proof -
  have ok: "linking_ok d'" using link_step_ok [OF assms(1,2)] by blast
  let ?k = "(ws, user, lc_clientOperationId c, link_request_hash sha256 i (lc_paperId c), p, j)"
  have "link_answered ws user (lc_clientOperationId c) (link_request_hash sha256 i (lc_paperId c)) p j (workspace d2)"
    using la.run_kept [OF assms(3) ok, of ?k] link_applied_answered [OF assms(2,5)] by (simp add: assms(4))
  then have "link_transaction sha256 ws user i c2 now2 d2 = Inr (Linked ''replayed'' version p j, d2)"
    using assms(7,8,10) by (intro link_answered_replay) simp_all
  then show ?thesis by (simp add: link_validated_document_def assms(9))
qed

theorem link_replayed_witness:
  "link_validated_document (take 4) ''ann'' ''o'' ''d'' (sample_link ''op-1'') (workspace sample_links) 9000 sample_linked
    = Inr (Linked ''replayed'' 4 ''p1'' ''d'', sample_linked)"
proof -
  have c: "validate_link_command (sample_link ''op-1'') = Inr sample_command" by code_simp
  have pre: "link_preflight ''ann'' ''o'' ''d'' (sample_link ''op-1'') (workspace sample_links) = Inr (Inr sample_command)"
    by code_simp
  have "member_of ''o'' ''ann'' (workspace sample_linked) = member_of ''o'' ''ann'' (workspace sample_links)"
    by (simp add: member_of_def sample_link_applied(3))
  moreover have "member_of ''o'' ''ann'' (workspace sample_links) = Some \<lparr>mr_id = ''m1'', mr_org = ''o'', mr_user = ''ann'', mr_role = ''owner''\<rparr>"
    by code_simp
  moreover obtain g where "organizations (workspace sample_linked) = [g]" "og_id g = ''o''" "og_revision g = 4"
    using sample_link_applied(4,5) by (auto simp: map_eq_Cons_conv)
  ultimately have "link_membership ''o'' ''ann'' (workspace sample_linked) = Inr 4"
    by (auto simp: link_membership_Inr organization_of_def mutating_roles_def)
  with link_replayed [OF sample_links_ok sample_link_applied(1), of "[]" sample_linked id sample_collaboration] c pre
  show ?thesis by auto
qed

text \<open>
  Attempts: the transaction is tried at most four times, and again only after it lost against another
  one. The command leaves what one attempt leaves on the database the others left before it, and answers
  what that attempt answers; or it fails with nothing of its own written, as the failed attempt did or, after
  the fourth loss, with the conflict of concurrent links.
\<close>

theorem link_command_serial:
  "\<exists>n < max_serializable_attempts.
     (case run_link_command sha256 user ws i raw earlier now lost others d of
        (Inr a, d') \<Rightarrow>
          link_validated_document sha256 user ws i raw earlier (now n) (before_attempt others n d) = Inr (a, d')
      | (Inl e, d') \<Rightarrow> d' = before_attempt others n d
          \<and> (e = concurrent_link_conflict \<and> n = max_serializable_attempts - 1
             \<or> link_validated_document sha256 user ws i raw earlier (now n) (before_attempt others n d) = Inl e))"
proof (cases "link_preflight user ws i raw earlier")
  case (Inl e)
  then show ?thesis
    by (intro exI [of _ 0]) (simp add: run_link_command_def link_validated_document_def max_serializable_attempts_def)
next
  case (Inr r)
  show ?thesis
  proof (cases r)
    case (Inl a)
    with Inr show ?thesis
      by (intro exI [of _ 0]) (simp add: run_link_command_def link_validated_document_def max_serializable_attempts_def)
  next
    case (Inr c)
    with \<open>link_preflight user ws i raw earlier = Inr r\<close> have pre: "link_preflight user ws i raw earlier = Inr (Inr c)"
      by simp
    have tx: "link_validated_document sha256 user ws i raw earlier t d0 = link_transaction sha256 ws user i c t d0" for t d0
      by (simp add: link_validated_document_def pre)
    have "run_link_command sha256 user ws i raw earlier now lost others d = link_with_retry sha256 ws user i c now lost others d"
      by (simp add: run_link_command_def pre)
    then show ?thesis unfolding tx by (simp only: link_with_retry_serial)
  qed
qed

end
