(* ===== verification/Spec2Isabelle.thy ===== *)
theory Spec2Isabelle
  imports Extraction_Properties Authority_Properties Pipeline Service_Properties Validation_Service_Properties Collaboration_Properties
    Web_Source_Properties Reader_Properties Paper_Link_Properties
begin

text \<open>
  A verification library for the server of PaperPilot, a research workspace that takes in PDF
  documents, validates them, extracts their text and shares them in workspaces.

  \<^bold>\<open>The program.\<close> A document arrives as an intake (a browser upload, a Zotero attachment, a crawled or a
  WebMCP source) and its bytes wait in quarantine. Two workers move it on, each over a table of leased
  jobs in the same database. The validation worker (\<open>src/server/documents/validation-jobs.ts\<close>) claims a
  job, sends the file to the validator service (\<open>services/document-validator\<close>), reads its answer
  (\<open>validation-contract.ts\<close>) and completes the job with an attestation; an accepted one enqueues text
  extraction. The extraction worker (\<open>extraction-jobs.ts\<close>) does the same with the extractor service
  (\<open>services/document-extractor\<close>, \<open>extraction-contract.ts\<close>) and stores the text in chunks. Every step
  projects the intake, its import command, its Inbox entry and its batch in one transaction
  (\<open>intake-lifecycle.ts\<close>). A member links a validated document to a paper of the workspace
  (\<open>document-paper-link.ts\<close>). What a reader may see is decided from the stored rows
  (\<open>validation-authority.ts\<close>, \<open>extraction-authority.ts\<close>), and the reader serves it in pages that a signed
  cursor continues (\<open>reader-service.ts\<close>, \<open>reader-cursor.ts\<close>). Workspaces are shared by commands with
  optimistic revisions and stored answers (\<open>src/server/workspaces/collaboration-service.ts\<close>). Sources on
  the web are admitted by \<open>src/server/integrations/web-source/url-policy.ts\<close>.

  \<^bold>\<open>Theories and code.\<close> \<open>Prelude\<close> has JavaScript numbers and JSON, the table operations that stand for the
  Prisma calls, and the sequencing of computations that throw; \<open>Js_Text\<close>, \<open>Iso_Dates\<close> and \<open>Unicode_Text\<close>
  have the strings, regular expressions, dates and code points of the standard library, \<open>Split_Text\<close>,
  \<open>Json_Text\<close> and \<open>Base64_Url\<close> splitting, \<open>JSON.stringify\<close> with the size of its result, and base64url;
  \<open>Transactions\<close> has runs of transactions and their contracts.
    \<^item> \<open>Pipeline_Store\<close>: the tables of the pipeline, one record per Prisma model.
    \<^item> \<open>Intake_Lifecycle\<close>: \<open>intake-lifecycle.ts\<close>, the desired statuses per stage and the projection of the
      four carriers; its step relation \<open>intake_step\<close> says which status changes are allowed.
    \<^item> \<open>Job_Queue\<close>: what the leased jobs share, and the abstract queue \<open>queue_step\<close> with its invariant
      \<open>queue_ok\<close>.
    \<^item> \<open>Validation_Jobs\<close> (operations), \<open>Validation_Safety\<close> (laws), \<open>Validation_Liveness\<close>,
      \<open>Validation_Authority\<close>, \<open>Validation_Properties\<close>: the validation worker and the authority over what it
      stores.
    \<^item> \<open>Extraction_Queue\<close> (enqueue), \<open>Extracted_Text\<close> (text rules), \<open>Extraction_Jobs\<close> and
      \<open>Extraction_Completion\<close> (operations), \<open>Extraction_Safety\<close>, \<open>Extraction_Effects\<close> (laws),
      \<open>Extraction_Authority\<close>, \<open>Extraction_Query\<close> (the authority's query over the tables), \<open>Extraction_Properties\<close>, \<open>Authority_Properties\<close>: the extraction worker and
      the authority over what it stores.
    \<^item> \<open>Pipeline\<close> and this theory: the two workers interleaved over one database.
    \<^item> \<open>Contract_Values\<close>, \<open>Extraction_Contract\<close>, \<open>Validation_Contract\<close>: the parsers of the services' answers.
    \<^item> \<open>Text_Normalization\<close>, \<open>Normalization_Laws\<close>, \<open>Normalization_Chunks\<close>, \<open>Extraction_Service\<close>,
      \<open>Extraction_Compat\<close>, \<open>Extraction_Agreement\<close>, \<open>Service_Properties\<close>: the extractor service, from the
      output of \<open>pdftotext\<close> to the answer, and its agreement with the contract.
    \<^item> \<open>Validation_Service\<close>, \<open>Validation_Agreement\<close>, \<open>Validation_Service_Properties\<close>: the same for the
      validator service.
    \<^item> \<open>Collaboration_Contract\<close> (commands and roles), \<open>Workspace_Store\<close> (tables and shared steps),
      \<open>Collaboration_Service\<close> (the five mutations and the personal workspace), \<open>Collaboration_Retry\<close>
      (\<open>runSerializableTransaction\<close>), and their laws in \<open>Collaboration_Effects\<close>, \<open>_Policy\<close>, \<open>_Changes\<close>,
      \<open>_System\<close>, \<open>_Invariants\<close>, \<open>_Runs\<close>, \<open>_Laws\<close>, \<open>_Replay\<close>, \<open>_Properties\<close>.
    \<^item> \<open>Paper_Links\<close>: \<open>document-paper-link.ts\<close>, over the tables of the pipeline and of the workspace together.
      \<open>Document_Frames\<close> says what the workers do to document rows, \<open>Paper_Link_Laws\<close> and \<open>Paper_Link_Effects\<close>
      what a link checks and writes, \<open>Paper_Link_System\<close> runs the workers, the collaboration service and the
      link command over one database, and \<open>Paper_Link_Properties\<close> has the results.
    \<^item> \<open>Reader_Cursor\<close> and \<open>Reader_Service\<close>: the cursors and the pages of the reader. \<open>Reader_Laws\<close> and
      \<open>Reader_Pages\<close> have the size of a page and its chunks, \<open>Reader_Ready\<close> and \<open>Reader_Reading\<close> what the rows
      of a ready document resolve to, \<open>Reader_Follow\<close> the requests of a whole reading, \<open>Reader_Safety\<close> any
      page on any rows, \<open>Reader_Completion\<close> the rows a completion leaves, and \<open>Reader_Properties\<close> the results.
    \<^item> \<open>Web_Address\<close>, \<open>Web_Source_Policy\<close>, with laws in \<open>Web_Address_Laws\<close>, \<open>Web_Address_Text\<close> and
      \<open>Web_Source_Properties\<close>: \<open>url-policy.ts\<close>.

  \<^bold>\<open>State and operations.\<close> A transaction is a function from the database to an error or a value with a new
  database; a thrown error leaves the database alone, and a refused or lost lease is a value. Clocks,
  UUIDs and the identifiers the database draws are arguments; so is a \<open>claim_env\<close> for the choices a claim
  makes. Definitions keep the names of the code in snake case.

  \<^bold>\<open>Contracts.\<close> \<open>Transactions\<close> states three as locales: an invariant every transaction preserves, facts
  that stay, and an abstract system every transaction is a step of. \<open>leased_queue\<close> extends them with the
  queue; the validation worker, the extraction worker and the two together interpret it (\<open>vq\<close>, \<open>xq\<close>,
  \<open>pq\<close>), and finished intakes are facts that stay (\<open>pf\<close>). The collaboration service interprets them with
  the membership policy \<open>policy_step\<close> (\<open>cs\<close>), its stored answers (\<open>ca\<close>) and its registers (\<open>cr\<close>).
  The three services over one database interpret them once more, with the queue and the policy as one
  abstract system (\<open>ls\<close>) and with the answered links as facts that stay (\<open>la\<close>).

  \<^bold>\<open>What is shown.\<close> Of the queue: at most one running attempt of a job, under its present lease; attempts
  within the budget; leases that change hands only after they expired; settled jobs and finished intakes
  that stay; progress when every worker dies, where no claim transaction throws. Of the two workers: a claim hands out a usable lease, stale
  leases do nothing, completions store exactly what was attested and answer the same when repeated, a
  deferral undoes its claim, failures retry or end in the dead letters, and what the authorities later
  say of a stored result, through the query that finds it. Of the lifecycle: the four carriers agree after every projection, rows of other
  intakes are not touched, finished intakes refuse to move. Of the services: what they answer is what the
  contract accepts, in every field, and normalisation loses no visible code point. Of the reader: a cursor is
  accepted exactly when it was issued, for its own subject and extraction; a page on any rows holds sound
  chunks without a gap and fits the response limit; on a ready document it is the largest such page, and
  following the cursors reads the attested text to its end. Of collaboration: every
  run is a run of the membership policy, repeated commands get their first answer, one event changes one
  workspace, the registers stay bounded, and a command is tried at most four times. Of links: a link is made exactly
  when its checks pass and changes only what it should, a paper has at most one active PDF, a repeated command
  gets its answer again, and links are no step of the queue or of the policy. Of web sources:
  refused addresses are the special-use networks, written addresses are read back, and a URL of a policy
  lies in its origin and path.

  \<^bold>\<open>Bounds.\<close> No definition carries fuel. A claim call runs at most eight claim transactions, as
  the code does, and the liveness property counts transactions, not calls; a serializable command is
  tried at most four times (\<open>run_serializable\<close>, a recursion with its termination proof); the
  reader's binary search narrows its bounds, and following its pages takes a list of requests, of which as
  many as there are chunks are enough; the other loops recurse on their data. JavaScript numbers are integers where the code has tested them, and the model
  keeps the tests.

  \<^bold>\<open>Parameters.\<close> Unicode NFC, SHA-256, \<open>toLowerCase\<close>, case-insensitive comparison in the database, the
  WHATWG \<open>URL\<close> class, \<open>isIP\<close>, HMAC-SHA-256 and \<open>JSON.parse\<close> are arguments. Of HMAC and SHA-256 the reader's
  properties use the length of a digest (\<open>hmac_law\<close>), of \<open>JSON.parse\<close> that a written payload is read back
  (\<open>parse_law\<close>). Where a property needs a law of NFC it is the hypothesis
  \<open>nfc_laws\<close>: a few of the stability rules of Unicode Standard Annex 15, with an instance in the witness.

  \<^bold>\<open>Not modelled.\<close> Database triggers, check constraints, locks and isolation levels: a transaction runs
  alone, except that a serializable command may lose and be run again. A sealed manifest admission, which
  a trigger inserts, is a row the theorems assume. HTTP, sockets, timers, child processes, files, object
  storage, configuration from the environment, OAuth, e-mail, the crawler's and Zotero's jobs, projects
  and evidence, the delivery of the PDF to readers, rate limits and the user interface are not modelled; the manifest
  lists them with reasons. Queries that only list rows are left out where nothing depends on them; the answers
  of the reader's queries are the record \<open>reader_rows\<close>, one snapshot per request.
\<close>

section \<open>Properties of the two workers together\<close>

definition sample_xclaim_event :: pipeline_event where
  "sample_xclaim_event = Extraction_event (X_claim sample_xenv ''w'' extraction_policy_version sample_sha
     (Some (NInt 20000)) No_override 2990 3000)"

lemma sample_xclaim_event_run:
  "run_pipeline id sample_sha256 sample_xclaim_event validated_db = Inr ((), extracting_db)"
proof -
  have "claim_extraction_inputs ''w'' extraction_policy_version sample_sha (Some (NInt 20000)) No_override
      = Inr (''w'', extraction_policy_version, 20000, None)" by code_simp
  then show ?thesis
    by (simp add: sample_xclaim_event_def run_extraction_claim_def authoritative_now_def sample_xclaim)
qed

lemma sample_xclaim_event_admissible: "pipeline_admissible sample_xclaim_event"
  by (simp add: sample_xclaim_event_def sample_xenv_def)

text \<open>
  C1. The workers implement one queue: every transaction of the validation and of the extraction
  worker, from a database whose queue is in order, is a sequence of steps of the abstract leased
  queue (enqueue, claim, heartbeat, succeed, retry, dead letter, deferral) at the transaction's clock.
\<close>

theorem pipeline_refines_queue:
  assumes "pipeline_admissible e" "queue_ok (queue_of d)" "run_pipeline nfc sha256 e d = Inr (u, d')"
  shows "(queue_step (pipeline_clock e))\<^sup>*\<^sup>* (queue_of d) (queue_of d')"
  by (rule pq.refines [OF assms])

theorem pipeline_refines_queue_witness:
  "(queue_step 3000)\<^sup>*\<^sup>* (queue_of validated_db) (queue_of extracting_db)"
  using pipeline_refines_queue [OF sample_xclaim_event_admissible validated_queue_ok sample_xclaim_event_run]
  by (simp add: sample_xclaim_event_def)

lemma filter_single: "distinct xs \<Longrightarrow> t \<in> set xs \<Longrightarrow> filter (\<lambda>x. x = t) xs = [t]"
  by (induction xs) (auto simp: filter_empty_conv)

text \<open>
  C2. Whatever transactions the two workers run, in any order and including ones that throw, a job
  never has two running attempts, an attempt runs only under the lease and the number its job has
  now, and the attempts a job keeps never exceed its budget.
\<close>

theorem pipeline_attempts_safe:
  assumes "list_all pipeline_admissible es" "queue_ok (queue_of d)" "d' = run_all nfc sha256 es d"
    and "j \<in> set (jobs d')" "t \<in> set (attempts d')" "t_jobId t = j_id j" "t_status t = J_RUNNING"
  shows "j_status j = J_RUNNING \<and> t_leaseId t = j_leaseId j \<and> t_attemptNumber t = j_attempts j
    \<and> filter (\<lambda>x. t_jobId x = j_id j \<and> t_status x = J_RUNNING) (attempts d') = [t]
    \<and> int (length (filter (\<lambda>x. t_jobId x = j_id j) (attempts d'))) \<le> j_maxAttempts j"
proof -
  from run_all_ok [OF assms(1,2), of nfc sha256] have ok: "queue_ok (jobs d', attempts d')"
    by (simp add: assms(3) queue_of_def)
  have "x = t" if "x \<in> set (attempts d')" "t_jobId x = j_id j" "t_status x = J_RUNNING" for x
    using queue_ok_one_running [OF ok assms(5) that(1)] that assms(6,7) by simp
  then have "filter (\<lambda>x. t_jobId x = j_id j \<and> t_status x = J_RUNNING) (attempts d') = filter (\<lambda>x. x = t) (attempts d')"
    using assms(6,7) by (intro filter_cong) auto
  moreover have "filter (\<lambda>x. x = t) (attempts d') = [t]"
    using ok assms(5) by (intro filter_single) (auto simp: distinct_map)
  moreover have "j_attempts j \<le> j_maxAttempts j"
    using ok assms(4) by (simp add: list_all_iff job_ok_def)
  ultimately show ?thesis
    using running_attempt_job [OF ok assms(4-7)] attempt_numbers_bounded [OF ok assms(4)] by simp
qed

theorem pipeline_attempts_safe_witness:
  "filter (\<lambda>x. t_jobId x = ''j2'' \<and> t_status x = J_RUNNING) (attempts extracting_db)
     = [open_attempt sample_extraction_job 3000 ''w'' ''t2'' ''L2'' 1]"
proof -
  let ?j = "claim_row 3000 ''w'' ''L2'' 23000 1 sample_extraction_job"
  let ?t = "open_attempt sample_extraction_job 3000 ''w'' ''t2'' ''L2'' 1"
  have run: "extracting_db = run_all id sample_sha256 [sample_xclaim_event] validated_db"
    by (simp add: run_all_def sample_xclaim_event_run)
  have m: "?j \<in> set (jobs extracting_db)" "?t \<in> set (attempts extracting_db)"
    by (simp_all add: extracting_db_def)
  have i: "j_id ?j = ''j2''" by (simp add: sample_extraction_job_def)
  have r: "t_jobId ?t = j_id ?j" "t_status ?t = J_RUNNING"
    by (simp_all add: open_attempt_def)
  have "list_all pipeline_admissible [sample_xclaim_event]" by (simp add: sample_xclaim_event_admissible)
  from pipeline_attempts_safe [OF this validated_queue_ok run m r] show ?thesis
    unfolding i by blast
qed

text \<open>
  C17. A settled job stays: once a job has succeeded, failed, been cancelled or dead-lettered, its row
  is in the table unchanged after every run of the two workers.
\<close>

theorem pipeline_settled_final:
  assumes "list_all pipeline_admissible es" "queue_ok (queue_of d)" "j \<in> set (jobs d)" "settled j"
  shows "j \<in> set (jobs (run_all nfc sha256 es d))"
  using pq.run_kept [OF assms(1,2)] assms(3,4) by (simp add: run_all_def)

theorem pipeline_settled_final_witness:
  "hd (jobs validated_db) \<in> set (jobs (run_all id sample_sha256 [sample_xclaim_event, sample_xclaim_event]
     validated_db))"
proof -
  have "hd (jobs validated_db) \<in> set (jobs validated_db)" "settled (hd (jobs validated_db))"
    by (simp_all add: validated_db_def settled_def job_rows)
  from pipeline_settled_final [OF _ validated_queue_ok this] sample_xclaim_event_admissible
  show ?thesis by simp
qed

text \<open>
  C18. A lease is handed over only after it expired: when a transaction of either worker leaves a
  running job under another lease than before it, the old lease had expired at the transaction's
  clock. So two workers never hold one job at a time.
\<close>

theorem pipeline_lease_handover:
  assumes "pipeline_admissible e" "queue_ok (queue_of d)" "run_pipeline nfc sha256 e d = Inr (u, d')"
    and "j \<in> set (jobs d)" "j_status j = J_RUNNING" "j' \<in> set (jobs d')" "j_id j' = j_id j"
    and "j_status j' = J_RUNNING" "j_leaseId j' \<noteq> j_leaseId j"
  shows "expired (pipeline_clock e) (j_leaseExpiresAt j)"
  by (rule pipeline_handover [OF assms])

text \<open>The lease of the sample runs out, and another worker takes the job.\<close>

definition sample_reclaim_event :: pipeline_event where
  "sample_reclaim_event = Extraction_event (X_claim
     (sample_xenv\<lparr>ce_leaseId := ''L3'', ce_attemptId := ''t3''\<rparr>) ''w2'' extraction_policy_version
     sample_sha None No_override 23000 23000)"

theorem pipeline_lease_handover_witness:
  "\<exists>d' j'. run_pipeline id sample_sha256 sample_reclaim_event extracting_db = Inr ((), d')
     \<and> j' \<in> set (jobs d') \<and> j_leaseId j' = Some ''L3''
     \<and> expired 23000 (j_leaseExpiresAt (claim_row 3000 ''w'' ''L2'' 23000 1 sample_extraction_job))"
proof -
  let ?j = "claim_row 3000 ''w'' ''L2'' 23000 1 sample_extraction_job"
  have "map_sum id (\<lambda>(u, d'). map (\<lambda>j. (j_id j, j_status j, j_leaseId j)) (jobs d'))
      (run_pipeline id sample_sha256 sample_reclaim_event extracting_db)
      = Inr [(''j1'', J_SUCCEEDED, None), (''j2'', J_RUNNING, Some ''L3'')]" by code_simp
  then obtain d' where d': "run_pipeline id sample_sha256 sample_reclaim_event extracting_db = Inr ((), d')"
    and js: "map (\<lambda>j. (j_id j, j_status j, j_leaseId j)) (jobs d')
      = [(''j1'', J_SUCCEEDED, None), (''j2'', J_RUNNING, Some ''L3'')]"
    by (auto simp: map_sum_Inr_iff)
  have "(''j2'', J_RUNNING, Some ''L3'') \<in> set (map (\<lambda>j. (j_id j, j_status j, j_leaseId j)) (jobs d'))"
    unfolding js by simp
  then obtain j' where j': "j' \<in> set (jobs d')" "j_id j' = ''j2''" "j_status j' = J_RUNNING"
    "j_leaseId j' = Some ''L3''" by auto
  have ok: "queue_ok (queue_of extracting_db)"
    using run_all_ok [OF _ validated_queue_ok, of "[sample_xclaim_event]" id sample_sha256]
      sample_xclaim_event_admissible by (simp add: run_all_def sample_xclaim_event_run)
  have adm: "pipeline_admissible sample_reclaim_event" by (simp add: sample_reclaim_event_def)
  have j: "?j \<in> set (jobs extracting_db)" "j_status ?j = J_RUNNING" "j_id ?j = ''j2''"
    "j_leaseId ?j = Some ''L2''"
    by (simp_all add: extracting_db_def claim_row_def sample_extraction_job_def)
  from pipeline_lease_handover [OF adm ok d' j(1,2) j'(1)] j' j d' show ?thesis
    by (auto simp: sample_reclaim_event_def)
qed

text \<open>
  C16. A finished intake stays: an intake that is READY, FAILED or CANCELLED keeps its row through
  every run of the two workers, their failures, deferrals, replays and reaped leases included.
\<close>

theorem pipeline_intakes_final:
  assumes "k \<in> set (intakes d)" "k_status k \<in> {READY, FAILED, CANCELLED}"
  shows "k \<in> set (intakes (run_all nfc sha256 es d))"
  using run_all_final_intakes [OF assms(1)] assms(2) by (simp add: final_intake_def)

theorem pipeline_intakes_final_witness:
  "map k_status (intakes (run_all id sample_sha256 [sample_xclaim_event, sample_reclaim_event] extracted_db)) \<noteq> []
   \<and> READY \<in> set (map k_status (intakes (run_all id sample_sha256 [sample_xclaim_event, sample_reclaim_event]
       extracted_db)))"
proof -
  have "hd (intakes extracted_db) \<in> set (intakes extracted_db)" "k_status (hd (intakes extracted_db)) = READY"
    by (simp_all add: extracted_db_def extracting_db_def validated_db_def scanning_db_def upload_db_def)
  then show ?thesis
    using pipeline_intakes_final [of "hd (intakes extracted_db)" extracted_db id sample_sha256
        "[sample_xclaim_event, sample_reclaim_event]"] by force
qed

end
